(* ===== verification/Go_Prelude.thy ===== *)
theory Go_Prelude
  imports Main "HOL-Library.Sublist" "HOL-Library.Char_ord" "HOL-Library.List_Lexorder"
begin

text \<open>
  What the components share: the fragment of Go's standard library the sources use on strings
  (\<^verbatim>\<open>strings.TrimSpace\<close>, \<^verbatim>\<open>ToUpper\<close>, \<^verbatim>\<open>ToLower\<close>, \<^verbatim>\<open>EqualFold\<close>, \<^verbatim>\<open>HasPrefix\<close>,
  \<^verbatim>\<open>IndexByte\<close>, \<^verbatim>\<open>Cut\<close>, \<^verbatim>\<open>Split\<close>, \<^verbatim>\<open>Fields\<close>, \<^verbatim>\<open>Join\<close>, \<^verbatim>\<open>strconv.Itoa\<close>, \<^verbatim>\<open>strconv.Atoi\<close>)
  and 64-bit integers, with the lemmas the component proofs use.

  A Go string is a byte sequence, modelled as \<^typ>\<open>string\<close>. The character classes are those of
  ASCII: on a string whose bytes are all below 128 the functions below are Go's, and the
  components that classify characters are read on such strings. Go's \<^verbatim>\<open>int\<close> has 64 bits and is an
  \<^typ>\<open>int\<close> whose wrap-around is written out by \<open>wrap64\<close>.
\<close>

named_theorems go_simps \<open>equations of the Go library functions for simp\<close>

section \<open>Characters\<close>

definition is_space :: "char \<Rightarrow> bool" where
  "is_space c \<longleftrightarrow> c = CHR '' '' \<or> c = CHR 0x09 \<or> c = CHR 0x0A \<or> c = CHR 0x0B \<or> c = CHR 0x0C
     \<or> c = CHR 0x0D"

definition is_digit :: "char \<Rightarrow> bool" where
  "is_digit c \<longleftrightarrow> 48 \<le> (of_char c :: nat) \<and> (of_char c :: nat) \<le> 57"

definition is_upper :: "char \<Rightarrow> bool" where
  "is_upper c \<longleftrightarrow> 65 \<le> (of_char c :: nat) \<and> (of_char c :: nat) \<le> 90"

definition is_lower :: "char \<Rightarrow> bool" where
  "is_lower c \<longleftrightarrow> 97 \<le> (of_char c :: nat) \<and> (of_char c :: nat) \<le> 122"

definition is_letter :: "char \<Rightarrow> bool" where
  "is_letter c \<longleftrightarrow> is_upper c \<or> is_lower c"

definition upper_char :: "char \<Rightarrow> char" where
  "upper_char c = (if is_lower c then char_of ((of_char c :: nat) - 32) else c)"

definition lower_char :: "char \<Rightarrow> char" where
  "lower_char c = (if is_upper c then char_of ((of_char c :: nat) + 32) else c)"

abbreviation newline :: char where "newline \<equiv> CHR 0x0A"

lemma of_char_char_of_small [simp]: "n < 256 \<Longrightarrow> (of_char (char_of (n :: nat)) :: nat) = n"
  by simp

lemma upper_upper_char [simp]: "upper_char (upper_char c) = upper_char c"
  by (auto simp: upper_char_def is_lower_def)

lemma lower_lower_char [simp]: "lower_char (lower_char c) = lower_char c"
  by (auto simp: lower_char_def is_upper_def)

lemma upper_lower_char [simp]: "upper_char (lower_char c) = upper_char c"
  by (auto simp: upper_char_def lower_char_def is_lower_def is_upper_def)

lemma lower_upper_char [simp]: "lower_char (upper_char c) = lower_char c"
  by (auto simp: upper_char_def lower_char_def is_lower_def is_upper_def)

lemma is_space_code: "is_space c \<longleftrightarrow> (of_char c :: nat) \<in> {32, 9, 10, 11, 12, 13}"
proof -
  have eq: "\<And>d. c = d \<longleftrightarrow> (of_char c :: nat) = of_char d" by (metis char_of_char)
  show ?thesis
    by (simp add: is_space_def eq [of "CHR '' ''"] eq [of "CHR 0x09"] eq [of "CHR 0x0A"]
        eq [of "CHR 0x0B"] eq [of "CHR 0x0C"] eq [of "CHR 0x0D"])
qed

lemma is_space_upper_char [simp]: "is_space (upper_char c) = is_space c"
  by (auto simp: is_space_code upper_char_def is_lower_def)

section \<open>Strings\<close>

definition ToUpper :: "string \<Rightarrow> string" where
  "ToUpper s = map upper_char s"

definition ToLower :: "string \<Rightarrow> string" where
  "ToLower s = map lower_char s"

definition EqualFold :: "string \<Rightarrow> string \<Rightarrow> bool" where
  "EqualFold s t \<longleftrightarrow> ToLower s = ToLower t"

definition TrimSpace :: "string \<Rightarrow> string" where
  "TrimSpace s = rev (dropWhile is_space (rev (dropWhile is_space s)))"

definition HasPrefix :: "string \<Rightarrow> string \<Rightarrow> bool" where
  "HasPrefix s p \<longleftrightarrow> take (length p) s = p"

definition TrimPrefix :: "string \<Rightarrow> string \<Rightarrow> string" where
  "TrimPrefix s p = (if HasPrefix s p then drop (length p) s else s)"

definition HasSuffix :: "string \<Rightarrow> string \<Rightarrow> bool" where
  "HasSuffix s p \<longleftrightarrow> length p \<le> length s \<and> drop (length s - length p) s = p"

text \<open>\<^verbatim>\<open>strings.IndexByte\<close>: the first position, \<^const>\<open>None\<close> for Go's -1.\<close>

fun IndexByte :: "string \<Rightarrow> char \<Rightarrow> nat option" where
  "IndexByte [] c = None"
| "IndexByte (x # xs) c = (if x = c then Some 0 else map_option Suc (IndexByte xs c))"

text \<open>\<^verbatim>\<open>strings.Index\<close>: the first position of a substring.\<close>

fun Index :: "string \<Rightarrow> string \<Rightarrow> nat option" where
  "Index [] p = (if p = [] then Some 0 else None)"
| "Index (x # xs) p =
     (if HasPrefix (x # xs) p then Some 0 else map_option Suc (Index xs p))"

definition Contains :: "string \<Rightarrow> string \<Rightarrow> bool" where
  "Contains s p \<longleftrightarrow> Index s p \<noteq> None"

text \<open>\<^verbatim>\<open>strings.Cut\<close>: \<^const>\<open>None\<close> when the separator does not occur.\<close>

definition Cut :: "string \<Rightarrow> string \<Rightarrow> (string \<times> string) option" where
  "Cut s sep = (case Index s sep of None \<Rightarrow> None
     | Some i \<Rightarrow> Some (take i s, drop (i + length sep) s))"

text \<open>\<^verbatim>\<open>strings.Split\<close> with a one-byte separator.\<close>

fun SplitByte :: "string \<Rightarrow> char \<Rightarrow> string list" where
  "SplitByte [] c = [[]]"
| "SplitByte (x # xs) c =
     (if x = c then [] # SplitByte xs c
      else (case SplitByte xs c of [] \<Rightarrow> [[x]] | w # ws \<Rightarrow> (x # w) # ws))"

text \<open>\<^verbatim>\<open>strings.Fields\<close>: the maximal runs of non-space bytes.\<close>

fun Fields_acc :: "string \<Rightarrow> string \<Rightarrow> string list" where
  "Fields_acc w [] = (if w = [] then [] else [w])"
| "Fields_acc w (x # xs) =
     (if is_space x then (if w = [] then Fields_acc [] xs else w # Fields_acc [] xs)
      else Fields_acc (w @ [x]) xs)"

definition Fields :: "string \<Rightarrow> string list" where
  "Fields s = Fields_acc [] s"

fun Join :: "string list \<Rightarrow> string \<Rightarrow> string" where
  "Join [] sep = []"
| "Join [x] sep = x"
| "Join (x # y # xs) sep = x @ sep @ Join (y # xs) sep"

text \<open>\<^verbatim>\<open>strconv.Quote\<close> on ASCII text, without the enclosing quotes.\<close>

definition hex_digit :: "nat \<Rightarrow> char" where
  "hex_digit n = ''0123456789abcdef'' ! (n mod 16)"

definition quote_char :: "char \<Rightarrow> string" where
  "quote_char c =
     (if c = CHR 0x22 then [CHR 0x5c, CHR 0x22]
      else if c = CHR 0x5c then [CHR 0x5c, CHR 0x5c]
      else if c = CHR 0x07 then [CHR 0x5c, CHR ''a'']
      else if c = CHR 0x08 then [CHR 0x5c, CHR ''b'']
      else if c = CHR 0x0c then [CHR 0x5c, CHR ''f'']
      else if c = CHR 0x0a then [CHR 0x5c, CHR ''n'']
      else if c = CHR 0x0d then [CHR 0x5c, CHR ''r'']
      else if c = CHR 0x09 then [CHR 0x5c, CHR ''t'']
      else if c = CHR 0x0b then [CHR 0x5c, CHR ''v'']
      else if of_char c < (32 :: nat) \<or> of_char c = (127 :: nat)
        then [CHR 0x5c, CHR ''x'', hex_digit (of_char c div 16), hex_digit (of_char c)]
      else [c])"

definition quoted_inner :: "string \<Rightarrow> string" where
  "quoted_inner s = concat (map quote_char s)"

text \<open>The verb \<^verbatim>\<open>%q\<close> of \<^verbatim>\<open>fmt\<close>.\<close>

definition Quote :: "string \<Rightarrow> string" where
  "Quote s = CHR 0x22 # quoted_inner s @ [CHR 0x22]"

text \<open>\<^verbatim>\<open>net.JoinHostPort\<close>: a host with a colon is bracketed.\<close>

definition JoinHostPort :: "string \<Rightarrow> string \<Rightarrow> string" where
  "JoinHostPort host port =
     (if CHR '':'' \<in> set host then ''['' @ host @ '']:'' @ port else host @ '':'' @ port)"

lemma EqualFold_refl [simp]: "EqualFold s s"
  by (simp add: EqualFold_def)

lemma EqualFold_sym: "EqualFold s t \<Longrightarrow> EqualFold t s"
  by (simp add: EqualFold_def)

lemma EqualFold_trans: "EqualFold s t \<Longrightarrow> EqualFold t u \<Longrightarrow> EqualFold s u"
  by (simp add: EqualFold_def)

lemma ToUpper_idem [simp]: "ToUpper (ToUpper s) = ToUpper s"
  by (simp add: ToUpper_def)

lemma EqualFold_ToUpper: "EqualFold s t \<longleftrightarrow> ToUpper s = ToUpper t"
proof
  assume "EqualFold s t"
  then have "ToUpper (ToLower s) = ToUpper (ToLower t)" by (simp add: EqualFold_def)
  then show "ToUpper s = ToUpper t" by (simp add: ToUpper_def ToLower_def comp_def)
next
  assume "ToUpper s = ToUpper t"
  then have "ToLower (ToUpper s) = ToLower (ToUpper t)" by simp
  then show "EqualFold s t" by (simp add: EqualFold_def ToUpper_def ToLower_def comp_def)
qed

lemma ToUpper_Nil [simp]: "ToUpper s = [] \<longleftrightarrow> s = []"
  by (simp add: ToUpper_def)

lemma TrimSpace_Nil_iff: "TrimSpace s = [] \<longleftrightarrow> (\<forall>c \<in> set s. is_space c)"
proof -
  have "TrimSpace s = [] \<longleftrightarrow> (\<forall>c \<in> set (dropWhile is_space s). is_space c)"
    by (auto simp: TrimSpace_def dest: set_dropWhileD)
  also have "\<dots> \<longleftrightarrow> dropWhile is_space s = []"
  proof
    assume all: "\<forall>c \<in> set (dropWhile is_space s). is_space c"
    show "dropWhile is_space s = []"
    proof (rule ccontr)
      assume ne: "dropWhile is_space s \<noteq> []"
      from hd_dropWhile [OF ne] hd_in_set [OF ne] all show False by blast
    qed
  qed (auto dest: set_dropWhileD)
  finally show ?thesis by (simp only: dropWhile_eq_Nil_conv)
qed

lemma TrimSpace_id:
  assumes "s = [] \<or> \<not> is_space (hd s) \<and> \<not> is_space (last s)"
  shows "TrimSpace s = s"
proof (cases s)
  case (Cons x xs)
  with assms have "dropWhile is_space s = s" by simp
  moreover have "dropWhile is_space (rev s) = rev s"
    using assms Cons by (cases "rev s") (auto simp: last_rev hd_rev [symmetric])
  ultimately show ?thesis by (simp add: TrimSpace_def)
qed (simp add: TrimSpace_def)

lemma TrimSpace_ends:
  assumes "TrimSpace s \<noteq> []"
  shows "\<not> is_space (hd (TrimSpace s))" and "\<not> is_space (last (TrimSpace s))"
proof -
  let ?d = "dropWhile is_space s"
  have d: "?d \<noteq> []" using assms by (auto simp: TrimSpace_def dest: set_dropWhileD)
  have r: "dropWhile is_space (rev ?d) \<noteq> []" using assms by (simp add: TrimSpace_def)
  show "\<not> is_space (last (TrimSpace s))"
    using hd_dropWhile [OF r] by (simp add: TrimSpace_def last_rev)
  obtain p where p: "rev ?d = p @ dropWhile is_space (rev ?d)"
    by (metis takeWhile_dropWhile_id)
  then have "?d = TrimSpace s @ rev p"
    by (metis TrimSpace_def rev_append rev_rev_ident)
  then have "hd ?d = hd (TrimSpace s)" using assms by (metis hd_append2)
  then show "\<not> is_space (hd (TrimSpace s))" using hd_dropWhile [OF d] by simp
qed

lemma TrimSpace_idem [simp]: "TrimSpace (TrimSpace s) = TrimSpace s"
  by (rule TrimSpace_id) (auto dest: TrimSpace_ends)

lemma TrimSpace_no_space: "\<forall>c \<in> set s. \<not> is_space c \<Longrightarrow> TrimSpace s = s"
  by (rule TrimSpace_id) (cases s; auto)

lemma set_TrimSpace: "set (TrimSpace s) \<subseteq> set s"
  by (auto simp: TrimSpace_def dest!: set_dropWhileD)

lemma ToUpper_TrimSpace: "ToUpper (TrimSpace s) = TrimSpace (ToUpper s)"
  by (simp add: ToUpper_def TrimSpace_def dropWhile_map rev_map comp_def)

lemma HasPrefix_append [simp]: "HasPrefix (p @ s) p"
  by (simp add: HasPrefix_def)

lemma HasPrefix_iff: "HasPrefix s p \<longleftrightarrow> (\<exists>r. s = p @ r)"
  by (metis HasPrefix_append HasPrefix_def append_take_drop_id)

lemma IndexByte_None: "IndexByte s c = None \<longleftrightarrow> c \<notin> set s"
  by (induction s) auto

lemma IndexByte_Some:
  "IndexByte s c = Some i \<Longrightarrow> i < length s \<and> s ! i = c \<and> c \<notin> set (take i s)"
  by (induction s arbitrary: i) (auto split: if_splits)

lemma IndexByte_append: "c \<notin> set p \<Longrightarrow> IndexByte (p @ c # r) c = Some (length p)"
  by (induction p) auto

lemma Index_Some:
  "Index s p = Some i \<Longrightarrow> i + length p \<le> length s \<and> take (length p) (drop i s) = p"
proof (induction s arbitrary: i)
  case (Cons x xs)
  show ?case
  proof (cases "HasPrefix (x # xs) p")
    case True
    with Cons.prems have "i = 0" by simp
    with True show ?thesis
      by (metis HasPrefix_def add_0 drop0 le_cases length_take min.absorb2 min.absorb1)
  next
    case False
    with Cons.prems obtain j where "Index xs p = Some j" "i = Suc j" by auto
    with Cons.IH show ?thesis by auto
  qed
qed (auto split: if_splits)

lemma filter_swap: "filter P (filter Q xs) = filter Q (filter P xs)"
  by (induction xs) auto

section \<open>Fields and Join\<close>

lemma Fields_acc_word:
  "\<forall>c \<in> set v. \<not> is_space c \<Longrightarrow> Fields_acc w (v @ r) = Fields_acc (w @ v) r"
  by (induction v arbitrary: w) auto

lemma Fields_Join:
  assumes "\<forall>w \<in> set ws. w \<noteq> [] \<and> (\<forall>c \<in> set w. \<not> is_space c)"
  shows "Fields (Join ws '' '') = ws"
  using assms
proof (induction ws "'' ''" rule: Join.induct)
  case 1 then show ?case by (simp add: Fields_def)
next
  case (2 x) then show ?case
    using Fields_acc_word [of x "[]" "[]"] by (simp add: Fields_def)
next
  case (3 x y xs)
  have "Fields_acc [] (x @ '' '' @ Join (y # xs) '' '')
        = Fields_acc x ('' '' @ Join (y # xs) '' '')"
    using Fields_acc_word [of x "[]"] 3 by simp
  with 3 show ?case by (simp add: Fields_def is_space_def)
qed

section \<open>Splitting at a byte\<close>

lemma SplitByte_not_Nil [simp]: "SplitByte s c \<noteq> []"
  by (induction s c rule: SplitByte.induct) (auto split: list.splits)

lemma SplitByte_word: "c \<notin> set w \<Longrightarrow> SplitByte w c = [w]"
  by (induction w) auto

lemma SplitByte_append: "c \<notin> set w \<Longrightarrow> SplitByte (w @ c # r) c = w # SplitByte r c"
  by (induction w) auto

lemma SplitByte_Join:
  "ws \<noteq> [] \<Longrightarrow> \<forall>w \<in> set ws. c \<notin> set w \<Longrightarrow> SplitByte (Join ws [c]) c = ws"
  by (induction ws "[c]" rule: Join.induct) (auto simp: SplitByte_word SplitByte_append)

lemma SplitByte_pieces: "w \<in> set (SplitByte s c) \<Longrightarrow> c \<notin> set w"
  by (induction s c arbitrary: w rule: SplitByte.induct) (auto split: if_splits list.splits)

lemma Index_byte: "Index s [c] = IndexByte s c"
  by (induction s) (auto simp: HasPrefix_def)

lemma Cut_byte: "c \<notin> set p \<Longrightarrow> Cut (p @ c # r) [c] = Some (p, r)"
  by (simp add: Cut_def Index_byte IndexByte_append)

lemma Cut_byte_Some:
  assumes "Cut s [c] = Some (p, r)"
  shows "s = p @ c # r \<and> c \<notin> set p"
proof -
  from assms obtain i where i: "IndexByte s c = Some i" "p = take i s" "r = drop (Suc i) s"
    by (auto simp: Cut_def Index_byte split: option.splits)
  with IndexByte_Some [OF i(1)] show ?thesis by (auto simp: id_take_nth_drop [symmetric])
qed

lemma Cut_byte_None: "Cut s [c] = None \<longleftrightarrow> c \<notin> set s"
  by (cases "IndexByte s c") (auto simp: Cut_def Index_byte IndexByte_None [symmetric])

section \<open>Decimal numbers\<close>

text \<open>\<^verbatim>\<open>strconv.Itoa\<close> and \<^verbatim>\<open>strconv.Atoi\<close> on Go's 64-bit \<^verbatim>\<open>int\<close>.\<close>

definition digit_char :: "nat \<Rightarrow> char" where
  "digit_char d = char_of (48 + d)"

definition char_digit :: "char \<Rightarrow> nat" where
  "char_digit c = (of_char c :: nat) - 48"

fun itoa_nat :: "nat \<Rightarrow> string" where
  "itoa_nat n = (if n < 10 then [digit_char n] else itoa_nat (n div 10) @ [digit_char (n mod 10)])"

declare itoa_nat.simps [simp del]

definition Itoa :: "int \<Rightarrow> string" where
  "Itoa n = (if n < 0 then CHR ''-'' # itoa_nat (nat (- n)) else itoa_nat (nat n))"

text \<open>The same on integers, for evaluation.\<close>

function itoa_int :: "int \<Rightarrow> string" where
  "itoa_int n = (if n < 10 then [digit_char (nat n)] else itoa_int (n div 10) @ [digit_char (nat (n mod 10))])"
  by pat_completeness auto
termination
  by (relation "measure nat") auto

declare itoa_int.simps [simp del]

lemma itoa_int_nat: "0 \<le> n \<Longrightarrow> itoa_int n = itoa_nat (nat n)"
proof (induction n rule: itoa_int.induct)
  case (1 n)
  then show ?case
    by (subst itoa_int.simps, subst itoa_nat.simps) (auto simp: nat_div_distrib nat_mod_distrib)
qed

lemma Itoa_code [code]: "Itoa n = (if n < 0 then CHR ''-'' # itoa_int (- n) else itoa_int n)"
  by (simp add: Itoa_def itoa_int_nat)

definition digits_value :: "string \<Rightarrow> nat" where
  "digits_value s = foldl (\<lambda>n c. 10 * n + char_digit c) 0 s"

definition max_int64 :: int where "max_int64 = 2 ^ 63 - 1"

definition min_int64 :: int where "min_int64 = - (2 ^ 63)"

definition Atoi :: "string \<Rightarrow> int option" where
  "Atoi s =
     (let neg = HasPrefix s ''-''; body = (if neg \<or> HasPrefix s ''+'' then drop 1 s else s);
          v = int (digits_value body); n = (if neg then - v else v)
      in if body = [] \<or> \<not> list_all is_digit body then None
         else if min_int64 \<le> n \<and> n \<le> max_int64 then Some n else None)"

text \<open>The same on integers, for evaluation.\<close>

definition digits_int :: "string \<Rightarrow> int" where
  "digits_int s = foldl (\<lambda>n c. 10 * n + int (char_digit c)) 0 s"

lemma digits_int_value: "digits_int s = int (digits_value s)"
proof -
  have "foldl (\<lambda>n c. 10 * n + int (char_digit c)) (int k) s = int (foldl (\<lambda>n c. 10 * n + char_digit c) k s)" for k
  proof (induction s arbitrary: k)
    case (Cons c s)
    from Cons [of "10 * k + char_digit c"] show ?case by simp
  qed simp
  from this [of 0] show ?thesis by (simp add: digits_int_def digits_value_def)
qed

lemma Atoi_code [code]:
  "Atoi s =
     (let neg = HasPrefix s ''-''; body = (if neg \<or> HasPrefix s ''+'' then drop 1 s else s);
          v = digits_int body; n = (if neg then - v else v)
      in if body = [] \<or> \<not> list_all is_digit body then None
         else if min_int64 \<le> n \<and> n \<le> max_int64 then Some n else None)"
  by (simp add: Atoi_def digits_int_value)

text \<open>The number \<^verbatim>\<open>strconv.Atoi\<close> returns along with its error: nearest to a text out of range, else zero.\<close>

definition Atoi_value :: "string \<Rightarrow> int" where
  "Atoi_value s =
     (case Atoi s of
        Some n \<Rightarrow> n
      | None \<Rightarrow>
          (let neg = HasPrefix s ''-''; body = (if neg \<or> HasPrefix s ''+'' then drop 1 s else s)
           in if body = [] \<or> \<not> list_all is_digit body then 0 else if neg then min_int64 else max_int64))"

lemma Atoi_value_None: "Atoi s = None \<Longrightarrow> Atoi_value s \<in> {0, min_int64, max_int64}"
  by (simp add: Atoi_value_def Let_def)

definition wrap64 :: "int \<Rightarrow> int" where
  "wrap64 x = (x + 2 ^ 63) mod 2 ^ 64 - 2 ^ 63"

lemma wrap64_id: "min_int64 \<le> x \<Longrightarrow> x \<le> max_int64 \<Longrightarrow> wrap64 x = x"
  by (simp add: wrap64_def min_int64_def max_int64_def)

lemma is_digit_digit_char: "d < 10 \<Longrightarrow> is_digit (digit_char d)"
  by (simp add: is_digit_def digit_char_def)

lemma char_digit_digit_char: "d < 10 \<Longrightarrow> char_digit (digit_char d) = d"
  by (simp add: char_digit_def digit_char_def)

lemma itoa_nat_not_Nil [simp]: "itoa_nat n \<noteq> []"
  by (subst itoa_nat.simps) simp

lemma itoa_nat_digits: "list_all is_digit (itoa_nat n)"
proof (induction n rule: itoa_nat.induct)
  case (1 n)
  then show ?case
    by (subst itoa_nat.simps) (auto simp: is_digit_digit_char)
qed

lemma digits_value_itoa_nat: "digits_value (itoa_nat n) = n"
proof (induction n rule: itoa_nat.induct)
  case (1 n)
  show ?case
  proof (cases "n < 10")
    case True
    then show ?thesis
      by (subst itoa_nat.simps) (simp add: digits_value_def char_digit_digit_char)
  next
    case False
    with 1 have "digits_value (itoa_nat (n div 10)) = n div 10" by simp
    with False show ?thesis
      by (subst itoa_nat.simps) (simp add: digits_value_def char_digit_digit_char)
  qed
qed

lemma Itoa_nat_digits: "0 \<le> n \<Longrightarrow> list_all is_digit (Itoa n)"
  by (simp add: Itoa_def itoa_nat_digits)

lemma Itoa_not_Nil [simp]: "Itoa n \<noteq> []"
  by (simp add: Itoa_def)

lemma not_digit_sign [simp]: "\<not> is_digit CHR ''-''" "\<not> is_digit CHR ''+''"
  by (simp_all add: is_digit_def)

lemma digits_no_sign:
  "list_all is_digit s \<Longrightarrow> s \<noteq> [] \<Longrightarrow> \<not> HasPrefix s ''-'' \<and> \<not> HasPrefix s ''+''"
  by (cases s) (auto simp: HasPrefix_def)

lemma Atoi_digits:
  assumes "list_all is_digit s" "s \<noteq> []"
  shows "Atoi s = (if int (digits_value s) \<le> max_int64 then Some (int (digits_value s)) else None)"
  using assms digits_no_sign [OF assms] by (simp add: Atoi_def Let_def min_int64_def)

lemma Atoi_Itoa: "0 \<le> n \<Longrightarrow> n \<le> max_int64 \<Longrightarrow> Atoi (Itoa n) = Some n"
  by (simp add: Atoi_digits Itoa_nat_digits, simp add: Itoa_def digits_value_itoa_nat)

lemma Itoa_inj: "0 \<le> m \<Longrightarrow> 0 \<le> n \<Longrightarrow> Itoa m = Itoa n \<Longrightarrow> m = n"
  using digits_value_itoa_nat by (metis Itoa_def int_nat_eq not_le)

section \<open>Results and maps\<close>

text \<open>\<^verbatim>\<open>err, value\<close> pairs are sums: \<^const>\<open>Inl\<close> carries the error.\<close>

type_synonym ('e, 'a) result = "'e + 'a"

definition bind_result :: "('e, 'a) result \<Rightarrow> ('a \<Rightarrow> ('e, 'b) result) \<Rightarrow> ('e, 'b) result" where
  "bind_result r f = (case r of Inl e \<Rightarrow> Inl e | Inr x \<Rightarrow> f x)"

lemma bind_result_simps [simp]:
  "bind_result (Inl e) f = Inl e" "bind_result (Inr x) f = f x"
  by (simp_all add: bind_result_def)

lemma bind_result_Inr: "bind_result r f = Inr y \<longleftrightarrow> (\<exists>x. r = Inr x \<and> f x = Inr y)"
  by (cases r) auto

text \<open>A Go map with string keys is an association list with distinct keys; \<^verbatim>\<open>slices.Sorted(maps.Keys(m))\<close>
  is its sorted key list.\<close>

definition sorted_keys :: "(string \<times> 'a) list \<Rightarrow> string list" where
  "sorted_keys m = sort (remdups (map fst m))"

lemma set_sorted_keys [simp]: "set (sorted_keys m) = fst ` set m"
  by (simp add: sorted_keys_def)

lemma distinct_sorted_keys [simp]: "distinct (sorted_keys m)"
  by (simp add: sorted_keys_def)

lemma sorted_sorted_keys [simp]: "sorted (sorted_keys m)"
  by (simp add: sorted_keys_def)

text \<open>Assignment to a key and \<^verbatim>\<open>delete\<close>.\<close>

definition map_put :: "'k \<Rightarrow> 'a \<Rightarrow> ('k \<times> 'a) list \<Rightarrow> ('k \<times> 'a) list" where
  "map_put k v m = (k, v) # filter (\<lambda>(k', _). k' \<noteq> k) m"

definition map_del :: "'k \<Rightarrow> ('k \<times> 'a) list \<Rightarrow> ('k \<times> 'a) list" where
  "map_del k m = filter (\<lambda>(k', _). k' \<noteq> k) m"

lemma map_of_filter_key: "map_of (filter (\<lambda>(k', _). k' \<noteq> k) m) n = (if n = k then None else map_of m n)"
  by (induction m) auto

lemma map_of_put [simp]: "map_of (map_put k v m) n = (if n = k then Some v else map_of m n)"
  by (simp add: map_put_def map_of_filter_key)

lemma map_of_del [simp]: "map_of (map_del k m) n = (if n = k then None else map_of m n)"
  by (simp add: map_del_def map_of_filter_key)

end
