(* ===== verification/Rw_Lock.thy ===== *)
theory Rw_Lock
  imports Go_Prelude
begin

text \<open>
  The contract of a shared/exclusive lock: the lock states, what one attempt to acquire or to
  release does to them, and the locale \<open>rw_lock\<close> of the implementations that refine this
  specification on some concrete store. The client side of the contract is a system of processes
  that acquire and release through the two operations; mutual exclusion is proved once, inside the
  locale, for every implementation.
\<close>

datatype lockMode = modeShared | modeExclusive

datatype lock_state = Unlocked | SharedBy int | Exclusively

text \<open>\<open>spec_acquire\<close> and \<open>spec_release\<close> are the documented semantics; \<^const>\<open>None\<close> is "wait and
  retry", respectively "not held in that mode".\<close>

fun spec_acquire :: "lockMode \<Rightarrow> lock_state \<Rightarrow> lock_state option" where
  "spec_acquire modeShared Unlocked = Some (SharedBy 1)"
| "spec_acquire modeShared (SharedBy n) = Some (SharedBy (n + 1))"
| "spec_acquire modeExclusive Unlocked = Some Exclusively"
| "spec_acquire _ _ = None"

fun spec_release :: "lockMode \<Rightarrow> lock_state \<Rightarrow> lock_state option" where
  "spec_release modeShared (SharedBy n) = Some (if n = 1 then Unlocked else SharedBy (n - 1))"
| "spec_release modeExclusive Exclusively = Some Unlocked"
| "spec_release _ _ = None"

fun state_bound :: "int \<Rightarrow> lock_state \<Rightarrow> bool" where
  "state_bound limit (SharedBy n) = (1 \<le> n \<and> n < limit)"
| "state_bound limit _ = True"

text \<open>
  The system of processes: \<open>hs\<close> lists who holds the lock in which mode. At most \<open>nmax\<close> holders exist
  at a time.
\<close>

inductive lock_reach ::
  "(lockMode \<Rightarrow> 'd \<Rightarrow> 'e + 'd) \<Rightarrow> (lockMode \<Rightarrow> 'd \<Rightarrow> 'e + 'd) \<Rightarrow> nat \<Rightarrow> 'd \<Rightarrow> 'd \<Rightarrow> (nat \<times> lockMode) list \<Rightarrow> bool"
  for acq rel nmax d0 where
  start: "lock_reach acq rel nmax d0 d0 []"
| acquired: "lock_reach acq rel nmax d0 d hs \<Longrightarrow> length hs < nmax \<Longrightarrow> acq m d = Inr d' \<Longrightarrow>
    lock_reach acq rel nmax d0 d' ((p, m) # hs)"
| released: "lock_reach acq rel nmax d0 d hs \<Longrightarrow> (p, m) \<in> set hs \<Longrightarrow> rel m d = Inr d' \<Longrightarrow>
    lock_reach acq rel nmax d0 d' (remove1 (p, m) hs)"

text \<open>The lock state a list of holders stands for, \<^const>\<open>None\<close> when the holders exclude each other.\<close>

definition holders_state :: "(nat \<times> lockMode) list \<Rightarrow> lock_state option" where
  "holders_state hs =
     (if hs = [] then Some Unlocked
      else if list_all (\<lambda>h. snd h = modeShared) hs then Some (SharedBy (int (length hs)))
      else if length hs = 1 then Some Exclusively else None)"

lemma holders_state_acquire:
  assumes "holders_state hs = Some s" and "spec_acquire m s = Some s'"
  shows "holders_state ((p, m) # hs) = Some s'"
  using assms by (cases m; cases s) (auto simp: holders_state_def split: if_splits)

lemma holders_state_release:
  assumes "holders_state hs = Some s" and "(p, m) \<in> set hs"
  shows "\<exists>s'. spec_release m s = Some s' \<and> holders_state (remove1 (p, m) hs) = Some s'"
proof (cases "list_all (\<lambda>h. snd h = modeShared) hs")
  case True
  with assms have m: "m = modeShared" and s: "s = SharedBy (int (length hs))" and ne: "hs \<noteq> []"
    by (auto simp: list_all_iff holders_state_def split: if_splits)
  have all: "list_all (\<lambda>h. snd h = modeShared) (remove1 (p, m) hs)"
    using True set_remove1_subset by (fastforce simp: list_all_iff)
  have len: "length (remove1 (p, m) hs) = length hs - 1"
    using assms(2) by (simp add: length_remove1)
  show ?thesis
  proof (cases "length hs = 1")
    case True
    with len have "remove1 (p, m) hs = []" by simp
    with True m s show ?thesis by (simp add: holders_state_def)
  next
    case False
    with ne have "1 < length hs" by (cases hs) auto
    with len have "remove1 (p, m) hs \<noteq> []" by auto
    with all len m s False \<open>1 < length hs\<close> show ?thesis
      by (simp add: holders_state_def of_nat_diff)
  qed
next
  case False
  with assms(1) have "hs \<noteq> []" "length hs = 1" "s = Exclusively"
    by (auto simp: holders_state_def split: if_splits)
  then obtain h where hs: "hs = [h]" by (cases hs) auto
  with assms(2) False have "h = (p, modeExclusive)" "m = modeExclusive" by (cases m; auto)+
  with hs \<open>s = Exclusively\<close> show ?thesis by (simp add: holders_state_def)
qed

lemma holders_state_exclusive:
  "holders_state hs = Some s \<Longrightarrow> (p, modeExclusive) \<in> set hs \<Longrightarrow> hs = [(p, modeExclusive)]"
  by (cases hs) (auto simp: holders_state_def list_all_iff split: if_splits)

lemma holders_state_bound:
  "holders_state hs = Some s \<Longrightarrow> int (length hs) < limit \<Longrightarrow> state_bound limit s"
  by (cases hs) (auto simp: holders_state_def split: if_splits)

section \<open>The interface\<close>

locale rw_lock =
  fixes acq :: "lockMode \<Rightarrow> 'd \<Rightarrow> 'e + 'd"
    and rel :: "lockMode \<Rightarrow> 'd \<Rightarrow> 'e + 'd"
    and represents :: "'d \<Rightarrow> lock_state \<Rightarrow> bool"
    and busy :: 'e
    and limit :: int
  assumes acquire_free: "represents d s \<Longrightarrow> state_bound limit s \<Longrightarrow> spec_acquire m s = Some s' \<Longrightarrow>
      \<exists>d'. acq m d = Inr d' \<and> represents d' s'"
    and acquire_busy: "represents d s \<Longrightarrow> spec_acquire m s = None \<Longrightarrow> acq m d = Inl busy"
    and release_held: "represents d s \<Longrightarrow> spec_release m s = Some s' \<Longrightarrow>
      \<exists>d'. rel m d = Inr d' \<and> represents d' s'"
begin

lemma reach_represents:
  assumes "represents d0 Unlocked" and "int nmax < limit" and "lock_reach acq rel nmax d0 d hs"
  shows "length hs \<le> nmax \<and> (\<exists>s. holders_state hs = Some s \<and> represents d s)"
  using assms(3)
proof (induction rule: lock_reach.induct)
  case start
  with assms(1) show ?case by (simp add: holders_state_def)
next
  case (acquired d hs m d' p)
  then obtain s where s: "holders_state hs = Some s" "represents d s" by blast
  from s(1) acquired.IH assms(2) have b: "state_bound limit s"
    by (intro holders_state_bound) auto
  show ?case
  proof (cases "spec_acquire m s")
    case None
    with acquire_busy s(2) acquired.hyps show ?thesis by simp
  next
    case (Some s')
    with acquire_free [OF s(2) b] acquired.hyps have "represents d' s'" by force
    with holders_state_acquire [OF s(1) Some] acquired.hyps show ?thesis by auto
  qed
next
  case (released d hs p m d')
  then obtain s where s: "holders_state hs = Some s" "represents d s" by blast
  from holders_state_release [OF s(1) released.hyps(2)] obtain s' where
    s': "spec_release m s = Some s'" "holders_state (remove1 (p, m) hs) = Some s'" by blast
  with release_held [OF s(2)] released.hyps have "represents d' s'" by force
  with s' released show ?case by (auto simp: length_remove1)
qed

lemma mutual_exclusion:
  assumes "represents d0 Unlocked" and "int nmax < limit" and "lock_reach acq rel nmax d0 d hs"
    and "(p, modeExclusive) \<in> set hs"
  shows "hs = [(p, modeExclusive)]"
  using reach_represents [OF assms(1-3)] assms(4) holders_state_exclusive by blast

lemma holder_can_release:
  assumes "represents d0 Unlocked" and "int nmax < limit" and "lock_reach acq rel nmax d0 d hs"
    and "(p, m) \<in> set hs"
  shows "\<exists>d'. rel m d = Inr d'"
  using reach_represents [OF assms(1-3)] holders_state_release [OF _ assms(4)] release_held by blast

lemma idle_lock_is_free:
  assumes "represents d0 Unlocked" and "int nmax < limit" and "lock_reach acq rel nmax d0 d []"
  shows "\<exists>d'. acq m d = Inr d'"
proof -
  from reach_represents [OF assms] have "represents d Unlocked" by (auto simp: holders_state_def)
  moreover obtain s' where "spec_acquire m Unlocked = Some s'" by (cases m) auto
  ultimately show ?thesis using acquire_free by fastforce
qed

end

end
