(* ===== verification/Dir_Mutex.thy ===== *)
theory Dir_Mutex
  imports Rw_Lock
begin

text \<open>
  The cross-process directory lock, \<^verbatim>\<open>src/internal/directorymutex/directorymutex.go\<close>: a lock state
  is the name of the one marker file of a directory. The directory is a record of its entries; every
  file-system call the code makes is a function on it. The theory holds the marker protocol
  (\<open>parseMarker\<close>, \<open>findMarker\<close>, the two \<open>tryAcquire\<close> and two \<open>tryRelease\<close> branches), the retry loops
  under a deadline, \<open>withLock\<close>, and two systems of processes that use the protocol: one where each
  attempt is atomic, and one where the scan of the directory and the change that follows it are
  separate steps.
\<close>

section \<open>The directory\<close>

datatype fs_error = FExist | FNotExist | FOther

text \<open>An entry is a name and whether it is a directory. \<open>read_fault\<close> and \<open>write_fault\<close> make the
  reads, respectively the changes, of the directory fail (permissions, I/O errors).\<close>

record fsdir =
  entries :: "(string \<times> bool) list"
  read_fault :: bool
  write_fault :: bool

definition names :: "fsdir \<Rightarrow> string list" where
  "names d = map fst (entries d)"

definition os_create_excl :: "string \<Rightarrow> fsdir \<Rightarrow> fs_error + fsdir" where
  "os_create_excl n d =
     (if n \<in> set (names d) then Inl FExist
      else if write_fault d then Inl FOther
      else Inr (d\<lparr>entries := (n, False) # entries d\<rparr>))"

definition os_remove :: "string \<Rightarrow> fsdir \<Rightarrow> fs_error + fsdir" where
  "os_remove n d =
     (if n \<notin> set (names d) then Inl FNotExist
      else if write_fault d then Inl FOther
      else Inr (d\<lparr>entries := filter (\<lambda>e. fst e \<noteq> n) (entries d)\<rparr>))"

definition os_rename :: "string \<Rightarrow> string \<Rightarrow> fsdir \<Rightarrow> fs_error + fsdir" where
  "os_rename old new d =
     (if old \<notin> set (names d) then Inl FNotExist
      else if (new, True) \<in> set (entries d) then Inl FExist
      else if write_fault d then Inl FOther
      else Inr (d\<lparr>entries := (new, False) # filter (\<lambda>e. fst e \<noteq> old \<and> fst e \<noteq> new) (entries d)\<rparr>))"

section \<open>Markers\<close>

datatype ctx_error = Canceled | DeadlineExceeded

datatype mutex_error =
    ErrInvalidMarker
  | ErrAcquireTimeout ctx_error
  | ErrLockStateChanged
  | ErrUnlockTimeout ctx_error
  | ErrPathNotDirectory
  | errWouldBlock
  | CtxError ctx_error
  | IOError

definition markerStem :: string where "markerStem = ''.dirmutex''"

definition markerPrefix :: string where "markerPrefix = markerStem @ ''.''"

definition exclusiveMarkerName :: string where "exclusiveMarkerName = markerStem @ ''.exclusive''"

definition sharedMarkerPrefix :: string where "sharedMarkerPrefix = markerStem @ ''.shared.''"

definition defaultAcquireTimeout :: nat where "defaultAcquireTimeout = 1000"

definition defaultUnlockTimeout :: nat where "defaultUnlockTimeout = 5000"

definition defaultRetryInterval :: nat where "defaultRetryInterval = 200"

record markerInfo =
  mi_name :: string
  mi_mode :: lockMode
  mi_count :: int

definition IsMarkerName :: "string \<Rightarrow> bool" where
  "IsMarkerName n \<longleftrightarrow> n = exclusiveMarkerName \<or> HasPrefix n sharedMarkerPrefix"

definition sharedMarkerName :: "int \<Rightarrow> string" where
  "sharedMarkerName n = sharedMarkerPrefix @ Itoa n"

definition parseMarker :: "string \<Rightarrow> mutex_error + markerInfo" where
  "parseMarker n =
     (if n = exclusiveMarkerName then Inr \<lparr>mi_name = n, mi_mode = modeExclusive, mi_count = 0\<rparr>
      else if \<not> HasPrefix n sharedMarkerPrefix then Inl ErrInvalidMarker
      else let countToken = TrimPrefix n sharedMarkerPrefix in
        if countToken = [] then Inl ErrInvalidMarker
        else if \<not> list_all is_digit countToken then Inl ErrInvalidMarker
        else (case Atoi countToken of
            None \<Rightarrow> Inl ErrInvalidMarker
          | Some count \<Rightarrow>
              if count \<le> 0 then Inl ErrInvalidMarker
              else Inr \<lparr>mi_name = n, mi_mode = modeShared, mi_count = count\<rparr>))"

fun findMarker_loop ::
  "(string \<times> bool) list \<Rightarrow> markerInfo option \<Rightarrow> mutex_error + markerInfo option" where
  "findMarker_loop [] match = Inr match"
| "findMarker_loop ((n, isDir) # es) match =
     (if isDir then findMarker_loop es match
      else if \<not> HasPrefix n markerPrefix then findMarker_loop es match
      else (case parseMarker n of
          Inl e \<Rightarrow> Inl e
        | Inr mk \<Rightarrow> (case match of Some _ \<Rightarrow> Inl ErrInvalidMarker
                      | None \<Rightarrow> findMarker_loop es (Some mk))))"

definition findMarker :: "fsdir \<Rightarrow> mutex_error + markerInfo option" where
  "findMarker d = (if read_fault d then Inl IOError else findMarker_loop (entries d) None)"

section \<open>One attempt\<close>

definition createMarker :: "string \<Rightarrow> fsdir \<Rightarrow> mutex_error + fsdir" where
  "createMarker n d = (case os_create_excl n d of
      Inr d' \<Rightarrow> Inr d'
    | Inl FExist \<Rightarrow> Inl errWouldBlock
    | Inl _ \<Rightarrow> Inl IOError)"

definition removeMarkerFile :: "string \<Rightarrow> fsdir \<Rightarrow> mutex_error + fsdir" where
  "removeMarkerFile n d = (case os_remove n d of
      Inr d' \<Rightarrow> Inr d'
    | Inl FNotExist \<Rightarrow> Inl errWouldBlock
    | Inl _ \<Rightarrow> Inl IOError)"

text \<open>The rename and its error handling, shared by both counter updates.\<close>

definition renameMarker :: "string \<Rightarrow> string \<Rightarrow> fsdir \<Rightarrow> mutex_error + fsdir" where
  "renameMarker old new d = (case os_rename old new d of
      Inr d' \<Rightarrow> Inr d'
    | Inl FNotExist \<Rightarrow> Inl errWouldBlock
    | Inl FExist \<Rightarrow> Inl errWouldBlock
    | Inl FOther \<Rightarrow> Inl IOError)"

definition tryAcquireExclusive :: "markerInfo option \<Rightarrow> fsdir \<Rightarrow> mutex_error + fsdir" where
  "tryAcquireExclusive marker d = (case marker of
      Some _ \<Rightarrow> Inl errWouldBlock
    | None \<Rightarrow> createMarker exclusiveMarkerName d)"

definition tryAcquireShared :: "markerInfo option \<Rightarrow> fsdir \<Rightarrow> mutex_error + fsdir" where
  "tryAcquireShared marker d = (case marker of
      None \<Rightarrow> createMarker (sharedMarkerName 1) d
    | Some mk \<Rightarrow> (case mi_mode mk of
          modeExclusive \<Rightarrow> Inl errWouldBlock
        | modeShared \<Rightarrow>
            renameMarker (mi_name mk) (sharedMarkerName (wrap64 (mi_count mk + 1))) d))"

definition tryReleaseExclusive :: "markerInfo \<Rightarrow> fsdir \<Rightarrow> mutex_error + fsdir" where
  "tryReleaseExclusive mk d =
     (if mi_mode mk \<noteq> modeExclusive then Inl ErrLockStateChanged
      else removeMarkerFile (mi_name mk) d)"

definition tryReleaseShared :: "markerInfo \<Rightarrow> fsdir \<Rightarrow> mutex_error + fsdir" where
  "tryReleaseShared mk d =
     (if mi_mode mk \<noteq> modeShared then Inl ErrLockStateChanged
      else if mi_count mk = 1 then removeMarkerFile (mi_name mk) d
      else renameMarker (mi_name mk) (sharedMarkerName (wrap64 (mi_count mk - 1))) d)"

text \<open>What an attempt does once the directory has been scanned.\<close>

definition acquire_act :: "lockMode \<Rightarrow> markerInfo option \<Rightarrow> fsdir \<Rightarrow> mutex_error + fsdir" where
  "acquire_act mode marker d = (case mode of
      modeExclusive \<Rightarrow> tryAcquireExclusive marker d
    | modeShared \<Rightarrow> tryAcquireShared marker d)"

definition release_act :: "lockMode \<Rightarrow> markerInfo option \<Rightarrow> fsdir \<Rightarrow> mutex_error + fsdir" where
  "release_act mode marker d = (case marker of
      None \<Rightarrow> Inr d
    | Some mk \<Rightarrow> (case mode of
          modeExclusive \<Rightarrow> tryReleaseExclusive mk d
        | modeShared \<Rightarrow> tryReleaseShared mk d))"

definition tryAcquire :: "lockMode \<Rightarrow> fsdir \<Rightarrow> mutex_error + fsdir" where
  "tryAcquire mode d = bind_result (findMarker d) (\<lambda>marker. acquire_act mode marker d)"

definition tryRelease :: "lockMode \<Rightarrow> fsdir \<Rightarrow> mutex_error + fsdir" where
  "tryRelease mode d = bind_result (findMarker d) (\<lambda>marker. release_act mode marker d)"

definition ClearLock :: "fsdir \<Rightarrow> mutex_error + fsdir" where
  "ClearLock d = (case findMarker d of
      Inl e \<Rightarrow> Inl e
    | Inr None \<Rightarrow> Inr d
    | Inr (Some mk) \<Rightarrow> (case os_remove (mi_name mk) d of
          Inr d' \<Rightarrow> Inr d'
        | Inl FNotExist \<Rightarrow> Inr d
        | Inl _ \<Rightarrow> Inl IOError))"

record mutex_status =
  Locked :: bool
  Mode :: string
  SharedCount :: int
  MarkerName :: string

definition Status :: "fsdir \<Rightarrow> mutex_error + mutex_status" where
  "Status d = (case findMarker d of
      Inl e \<Rightarrow> Inl e
    | Inr None \<Rightarrow> Inr \<lparr>Locked = False, Mode = [], SharedCount = 0, MarkerName = []\<rparr>
    | Inr (Some mk) \<Rightarrow> Inr \<lparr>Locked = True,
        Mode = (case mi_mode mk of modeShared \<Rightarrow> ''shared'' | modeExclusive \<Rightarrow> ''exclusive''),
        SharedCount = mi_count mk, MarkerName = mi_name mk\<rparr>)"

section \<open>Retry loops\<close>

text \<open>
  Time is in milliseconds. A context has an optional deadline and an optional moment of
  cancellation; \<open>None\<close> for a context is Go's nil. \<open>ctx_err\<close> is \<^verbatim>\<open>ctx.Err()\<close> at a time, for a
  context that has a deadline: the earlier of the two events decides the error. Where a context and
  the retry timer fire at the same millisecond the context wins.
  \<open>env t\<close> is what other processes do to the directory during the sleep that begins at time \<open>t\<close>.
\<close>

record gctx =
  ctx_deadline :: "nat option"
  ctx_cancel :: "nat option"

type_synonym dir_env = "nat \<Rightarrow> fsdir \<Rightarrow> fsdir"

definition ctx_err :: "nat \<Rightarrow> nat option \<Rightarrow> nat \<Rightarrow> ctx_error option" where
  "ctx_err dl cn t = (case cn of
      Some u \<Rightarrow> if u \<le> t \<and> u < dl then Some Canceled
               else if dl \<le> t then Some DeadlineExceeded else None
    | None \<Rightarrow> if dl \<le> t then Some DeadlineExceeded else None)"

definition wrapAcquireError :: "ctx_error \<Rightarrow> mutex_error" where
  "wrapAcquireError e =
     (if e = DeadlineExceeded then ErrAcquireTimeout DeadlineExceeded else CtxError e)"

text \<open>\<^verbatim>\<open>withTimeoutIfMissing\<close> at time \<open>t\<close>: the deadline and the cancellation of the lock context.\<close>

definition withTimeoutIfMissing :: "gctx option \<Rightarrow> nat \<Rightarrow> nat \<Rightarrow> nat \<times> nat option" where
  "withTimeoutIfMissing ctx timeout t = (case ctx of
      None \<Rightarrow> (t + timeout, None)
    | Some c \<Rightarrow> (case ctx_deadline c of
          Some dl \<Rightarrow> (dl, ctx_cancel c)
        | None \<Rightarrow> (t + timeout, ctx_cancel c)))"

definition ctx_done_at :: "nat \<Rightarrow> nat option \<Rightarrow> nat" where
  "ctx_done_at dl cn = (case cn of None \<Rightarrow> dl | Some u \<Rightarrow> min u dl)"

text \<open>\<^verbatim>\<open>sleepWithContext\<close>: the error is that of the context at the end of the interval; the sleep then
  ends when the context is done.\<close>

definition sleepWithContext :: "nat \<Rightarrow> nat option \<Rightarrow> nat \<Rightarrow> ctx_error option" where
  "sleepWithContext dl cn t = ctx_err dl cn (t + defaultRetryInterval)"

lemma sleep_before_deadline: "sleepWithContext dl cn t = None \<Longrightarrow> t + defaultRetryInterval < dl"
  by (auto simp: sleepWithContext_def ctx_err_def split: option.splits if_splits)

function acquire_loop ::
  "nat \<Rightarrow> nat option \<Rightarrow> dir_env \<Rightarrow> lockMode \<Rightarrow> nat \<Rightarrow> fsdir \<Rightarrow> mutex_error option \<times> nat \<times> fsdir" where
  "acquire_loop dl cn env mode t d = (case ctx_err dl cn t of
      Some e \<Rightarrow> (Some (wrapAcquireError e), t, d)
    | None \<Rightarrow> (case tryAcquire mode d of
          Inr d' \<Rightarrow> (None, t, d')
        | Inl e \<Rightarrow>
            if e \<noteq> errWouldBlock then (Some e, t, d)
            else (case sleepWithContext dl cn t of
                Some e' \<Rightarrow> (Some (wrapAcquireError e'), max t (ctx_done_at dl cn), env t d)
              | None \<Rightarrow>
                  acquire_loop dl cn env mode (t + defaultRetryInterval) (env t d))))"
  by pat_completeness auto
termination
  by (relation "measure (\<lambda>(dl, cn, env, mode, t, d). dl - t)")
     (auto dest!: sleep_before_deadline simp: defaultRetryInterval_def)

function release_loop ::
  "nat \<Rightarrow> nat option \<Rightarrow> dir_env \<Rightarrow> lockMode \<Rightarrow> nat \<Rightarrow> fsdir \<Rightarrow> mutex_error option \<times> nat \<times> fsdir" where
  "release_loop dl cn env mode t d = (case tryRelease mode d of
      Inr d' \<Rightarrow> (None, t, d')
    | Inl e \<Rightarrow>
        if e \<noteq> errWouldBlock then (Some e, t, d)
        else (case sleepWithContext dl cn t of
            Some e' \<Rightarrow> (Some (ErrUnlockTimeout e'), max t (ctx_done_at dl cn), env t d)
          | None \<Rightarrow> release_loop dl cn env mode (t + defaultRetryInterval) (env t d)))"
  by pat_completeness auto
termination
  by (relation "measure (\<lambda>(dl, cn, env, mode, t, d). dl - t)")
     (auto dest!: sleep_before_deadline simp: defaultRetryInterval_def)

declare acquire_loop.simps [simp del] release_loop.simps [simp del]

definition acquire ::
  "gctx option \<Rightarrow> dir_env \<Rightarrow> lockMode \<Rightarrow> nat \<Rightarrow> fsdir \<Rightarrow> mutex_error option \<times> nat \<times> fsdir" where
  "acquire ctx env mode t d = (case withTimeoutIfMissing ctx defaultAcquireTimeout t of
      (dl, cn) \<Rightarrow> acquire_loop dl cn env mode t d)"

definition release ::
  "gctx option \<Rightarrow> dir_env \<Rightarrow> lockMode \<Rightarrow> nat \<Rightarrow> fsdir \<Rightarrow> mutex_error option \<times> nat \<times> fsdir" where
  "release ctx env mode t d = (case withTimeoutIfMissing ctx defaultUnlockTimeout t of
      (dl, cn) \<Rightarrow> release_loop dl cn env mode t d)"

section \<open>Running a callback under the lock\<close>

text \<open>
  The callback changes the directory and returns an error, nothing, or panics; it ends \<open>dur\<close>
  milliseconds after the lock was taken. The release runs once: in the interrupt handler when a
  signal came first, in the deferred call otherwise, and in both cases with a context that has
  neither deadline nor cancellation (\<^verbatim>\<open>context.WithoutCancel\<close>, which itself panics on nil, after the
  lock was taken and before the release is deferred). The deferred call assigns the release error to
  the local \<^verbatim>\<open>callbackErr\<close>; the result of \<^verbatim>\<open>withLock\<close> has no name, so the value that is returned is the
  one the \<^verbatim>\<open>return\<close> statement evaluated before the deferred call ran.
\<close>

datatype 'e cb_outcome = Returns "'e option" | Panics

datatype 'e lock_outcome = LockFailed mutex_error | CallbackReturned "'e option" | Panicked

definition without_cancel :: gctx where
  "without_cancel = \<lparr>ctx_deadline = None, ctx_cancel = None\<rparr>"

definition withLock ::
  "gctx option \<Rightarrow> dir_env \<Rightarrow> lockMode \<Rightarrow> (fsdir \<Rightarrow> 'e cb_outcome \<times> fsdir) \<Rightarrow> nat \<Rightarrow> nat \<Rightarrow> fsdir
     \<Rightarrow> 'e lock_outcome \<times> fsdir" where
  "withLock ctx env mode fn dur t d = (case acquire ctx env mode t d of
      (Some e, _, d1) \<Rightarrow> (LockFailed e, d1)
    | (None, t1, d1) \<Rightarrow>
        (if ctx = None then (Panicked, d1)
         else case fn d1 of (r, d2) \<Rightarrow>
           (case release (Some without_cancel) env mode (t1 + dur) d2 of
              (releaseErr, _, d3) \<Rightarrow>
                (case r of Returns callbackErr \<Rightarrow> CallbackReturned callbackErr | Panics \<Rightarrow> Panicked,
                 d3))))"

section \<open>The marker file as a representation of the lock state\<close>

definition is_marker_entry :: "string \<times> bool \<Rightarrow> bool" where
  "is_marker_entry e \<longleftrightarrow> \<not> snd e \<and> HasPrefix (fst e) markerPrefix"

fun state_markers :: "lock_state \<Rightarrow> (string \<times> bool) list" where
  "state_markers Unlocked = []"
| "state_markers (SharedBy n) = [(sharedMarkerName n, False)]"
| "state_markers Exclusively = [(exclusiveMarkerName, False)]"

fun state_marker :: "lock_state \<Rightarrow> markerInfo option" where
  "state_marker Unlocked = None"
| "state_marker (SharedBy n) =
     Some \<lparr>mi_name = sharedMarkerName n, mi_mode = modeShared, mi_count = n\<rparr>"
| "state_marker Exclusively =
     Some \<lparr>mi_name = exclusiveMarkerName, mi_mode = modeExclusive, mi_count = 0\<rparr>"

text \<open>
  A directory represents a lock state when it can be read and written, names occur once, no
  subdirectory has a marker's name, and the marker files are those of the state.
\<close>

definition dir_represents :: "fsdir \<Rightarrow> lock_state \<Rightarrow> bool" where
  "dir_represents d s \<longleftrightarrow> \<not> read_fault d \<and> \<not> write_fault d \<and> distinct (names d)
     \<and> list_all (\<lambda>e. snd e \<longrightarrow> \<not> HasPrefix (fst e) markerPrefix) (entries d)
     \<and> filter is_marker_entry (entries d) = state_markers s
     \<and> state_bound (max_int64 + 1) s"

text \<open>The entries the lock must not touch.\<close>

definition other_entries :: "fsdir \<Rightarrow> (string \<times> bool) list" where
  "other_entries d = filter (\<lambda>e. \<not> is_marker_entry e) (entries d)"

lemmas marker_name_defs =
  markerPrefix_def exclusiveMarkerName_def sharedMarkerPrefix_def markerStem_def

lemma shared_not_exclusive [simp]:
  "sharedMarkerName n \<noteq> exclusiveMarkerName" "exclusiveMarkerName \<noteq> sharedMarkerName n"
  by (simp_all add: sharedMarkerName_def marker_name_defs)

lemma marker_entries [simp]:
  "is_marker_entry (exclusiveMarkerName, False)" "is_marker_entry (sharedMarkerName n, False)"
  by (simp_all add: is_marker_entry_def sharedMarkerName_def marker_name_defs HasPrefix_def)

lemma sharedMarkerName_inj: "0 \<le> m \<Longrightarrow> 0 \<le> n \<Longrightarrow> sharedMarkerName m = sharedMarkerName n \<longleftrightarrow> m = n"
  by (auto simp: sharedMarkerName_def dest: Itoa_inj)

lemma parseMarker_exclusive [simp]:
  "parseMarker exclusiveMarkerName
     = Inr \<lparr>mi_name = exclusiveMarkerName, mi_mode = modeExclusive, mi_count = 0\<rparr>"
  by (simp add: parseMarker_def)

lemma parseMarker_shared:
  assumes "1 \<le> n" and "n \<le> max_int64"
  shows "parseMarker (sharedMarkerName n)
     = Inr \<lparr>mi_name = sharedMarkerName n, mi_mode = modeShared, mi_count = n\<rparr>"
proof -
  have "TrimPrefix (sharedMarkerName n) sharedMarkerPrefix = Itoa n"
    by (simp add: sharedMarkerName_def TrimPrefix_def)
  moreover have "HasPrefix (sharedMarkerName n) sharedMarkerPrefix"
    by (simp add: sharedMarkerName_def)
  ultimately show ?thesis
    using assms by (simp add: parseMarker_def Itoa_nat_digits Atoi_Itoa Let_def)
qed

lemma parseMarker_Inr:
  assumes "parseMarker n = Inr mk"
  shows "mi_name mk = n"
    and "mi_mode mk = modeExclusive \<Longrightarrow> n = exclusiveMarkerName"
    and "mi_mode mk = modeShared \<Longrightarrow> n \<noteq> exclusiveMarkerName \<and> HasPrefix n sharedMarkerPrefix"
  using assms by (auto simp: parseMarker_def Let_def split: if_splits option.splits)

lemma findMarker_loop_filter:
  "findMarker_loop es mt = findMarker_loop (filter is_marker_entry es) mt"
  by (induction es mt rule: findMarker_loop.induct)
     (auto simp: is_marker_entry_def split: sum.splits option.splits)

lemma findMarker_represents:
  assumes "dir_represents d s"
  shows "findMarker d = Inr (state_marker s)"
proof -
  from assms have "findMarker d = findMarker_loop (state_markers s) None"
    by (simp add: findMarker_def dir_represents_def findMarker_loop_filter [of "entries d"])
  moreover have "is_marker_entry (exclusiveMarkerName, False)" by simp
  moreover have "\<And>n. is_marker_entry (sharedMarkerName n, False)" by simp
  moreover from assms have "state_bound (max_int64 + 1) s" by (simp add: dir_represents_def)
  ultimately show ?thesis
    by (cases s) (auto simp: parseMarker_shared is_marker_entry_def)
qed

lemma marker_in_names:
  assumes "dir_represents d s"
  shows "(n, False) \<in> set (state_markers s) \<Longrightarrow> n \<in> set (names d)"
    and "n \<in> set (names d) \<Longrightarrow> HasPrefix n markerPrefix \<Longrightarrow> (n, False) \<in> set (state_markers s)"
proof -
  from assms have f: "filter is_marker_entry (entries d) = state_markers s"
    and dirs: "list_all (\<lambda>e. snd e \<longrightarrow> \<not> HasPrefix (fst e) markerPrefix) (entries d)"
    by (simp_all add: dir_represents_def)
  show "(n, False) \<in> set (state_markers s) \<Longrightarrow> n \<in> set (names d)"
    using f by (metis filter_is_subset fst_conv image_eqI names_def set_map subsetD)
  assume "n \<in> set (names d)" and p: "HasPrefix n markerPrefix"
  then obtain b where "(n, b) \<in> set (entries d)" by (auto simp: names_def)
  with dirs p f show "(n, False) \<in> set (state_markers s)"
    by (cases b) (auto simp: list_all_iff is_marker_entry_def simp flip: f)
qed

lemma HasPrefix_markers [simp]:
  "HasPrefix exclusiveMarkerName markerPrefix" "HasPrefix (sharedMarkerName n) markerPrefix"
  by (simp_all add: sharedMarkerName_def marker_name_defs HasPrefix_def)

text \<open>One file-system step from a state with markers \<open>s\<close> to one with markers \<open>s'\<close>.\<close>

lemma create_represents:
  assumes "dir_represents d Unlocked" and "state_markers s' = [(n, False)]"
    and "HasPrefix n markerPrefix" and "state_bound (max_int64 + 1) s'"
  shows "\<exists>d'. createMarker n d = Inr d' \<and> dir_represents d' s' \<and> other_entries d' = other_entries d"
proof -
  from marker_in_names(2) [OF assms(1), of n] assms(3) have "n \<notin> set (names d)" by auto
  with assms show ?thesis
    by (auto simp: createMarker_def os_create_excl_def dir_represents_def names_def other_entries_def
        is_marker_entry_def)
qed

lemma filter_entry_other:
  assumes "HasPrefix n markerPrefix" and "dir_represents d s"
  shows "filter (\<lambda>e. \<not> is_marker_entry e) (filter (\<lambda>e. fst e \<noteq> n) (entries d)) = other_entries d"
proof -
  from assms(2) have "list_all (\<lambda>e. snd e \<longrightarrow> \<not> HasPrefix (fst e) markerPrefix) (entries d)"
    by (simp add: dir_represents_def)
  then have "\<forall>e \<in> set (entries d). \<not> is_marker_entry e \<longrightarrow> fst e \<noteq> n"
    using assms(1) by (auto simp: list_all_iff is_marker_entry_def)
  then show ?thesis by (auto simp: other_entries_def intro: filter_cong)
qed

lemma remove_represents:
  assumes "dir_represents d s" and "state_markers s = [(n, False)]"
  shows "\<exists>d'. removeMarkerFile n d = Inr d' \<and> dir_represents d' Unlocked
      \<and> other_entries d' = other_entries d"
proof -
  let ?es = "filter (\<lambda>e. fst e \<noteq> n) (entries d)"
  let ?d = "d\<lparr>entries := ?es\<rparr>"
  have n: "n \<in> set (names d)" using marker_in_names(1) [OF assms(1)] assms(2) by simp
  have p: "HasPrefix n markerPrefix" using assms(2) by (cases s) auto
  have "filter is_marker_entry ?es = filter (\<lambda>e. fst e \<noteq> n) (state_markers s)"
    using assms(1) filter_swap [of is_marker_entry] by (simp only: dir_represents_def)
  then have m: "filter is_marker_entry ?es = []" using assms(2) by simp
  have "dir_represents ?d Unlocked"
    using assms(1) m by (auto simp: dir_represents_def names_def distinct_map_filter list_all_iff)
  moreover have "removeMarkerFile n d = Inr ?d"
    using n assms(1) by (simp add: removeMarkerFile_def os_remove_def dir_represents_def)
  ultimately show ?thesis
    using filter_entry_other [OF p assms(1)] by (auto simp: other_entries_def)
qed

lemma rename_represents:
  assumes "dir_represents d s" and "state_markers s = [(n, False)]"
    and "state_markers s' = [(n', False)]" and "n \<noteq> n'" and "state_bound (max_int64 + 1) s'"
  shows "\<exists>d'. renameMarker n n' d = Inr d' \<and> dir_represents d' s' \<and> other_entries d' = other_entries d"
proof -
  let ?es = "filter (\<lambda>e. fst e \<noteq> n') (filter (\<lambda>e. fst e \<noteq> n) (entries d))"
  let ?d = "d\<lparr>entries := (n', False) # ?es\<rparr>"
  have n: "n \<in> set (names d)" using marker_in_names(1) [OF assms(1)] assms(2) by simp
  have p: "HasPrefix n markerPrefix" "HasPrefix n' markerPrefix"
    using assms(2,3) by (cases s; cases s'; auto)+
  have n': "n' \<notin> set (names d)"
    using marker_in_names(2) [OF assms(1), of n'] p assms(2,4) by auto
  then have nd: "(n', True) \<notin> set (entries d)" by (force simp: names_def)
  have es: "?es = filter (\<lambda>e. fst e \<noteq> n) (entries d)"
    by (rule filter_True) (use n' in \<open>force simp: names_def\<close>)
  have "filter is_marker_entry ?es = filter (\<lambda>e. fst e \<noteq> n) (state_markers s)"
    using assms(1) filter_swap [of is_marker_entry] unfolding es by (simp only: dir_represents_def)
  then have m: "filter is_marker_entry ?es = []" using assms(2) by simp
  have im: "is_marker_entry (n', False)" using p by (simp add: is_marker_entry_def)
  have dist: "distinct (names ?d)"
    using assms(1) by (auto simp: names_def dir_represents_def distinct_map_filter)
  have "dir_represents ?d s'"
    using assms(1,3,5) m im dist by (auto simp: dir_represents_def list_all_iff)
  moreover have "renameMarker n n' d = Inr ?d"
    using n nd assms(1)
    by (simp add: renameMarker_def os_rename_def dir_represents_def filter_filter)
  moreover have "other_entries ?d = other_entries d"
    using filter_entry_other [OF p(1) assms(1)] im unfolding es by (simp add: other_entries_def)
  ultimately show ?thesis by blast
qed

lemma tryAcquire_represents:
  assumes "dir_represents d s" and "state_bound max_int64 s" and "spec_acquire m s = Some s'"
  shows "\<exists>d'. tryAcquire m d = Inr d' \<and> dir_represents d' s' \<and> other_entries d' = other_entries d"
proof -
  have f: "tryAcquire m d = acquire_act m (state_marker s) d"
    using findMarker_represents [OF assms(1)] by (simp add: tryAcquire_def)
  consider (first) "m = modeShared" "s = Unlocked" "s' = SharedBy 1"
    | (more) n where "m = modeShared" "s = SharedBy n" "s' = SharedBy (n + 1)"
    | (excl) "m = modeExclusive" "s = Unlocked" "s' = Exclusively"
    using assms(3) by (cases m; cases s) auto
  then show ?thesis
  proof cases
    case first
    with assms(1) f create_represents [of d s' "sharedMarkerName 1"] show ?thesis
      by (simp add: acquire_act_def tryAcquireShared_def max_int64_def)
  next
    case more
    with assms(2) have "wrap64 (n + 1) = n + 1"
      by (intro wrap64_id) (auto simp: min_int64_def)
    with more assms(1,2) f rename_represents [of d s "sharedMarkerName n" s' "sharedMarkerName (n + 1)"]
    show ?thesis by (simp add: acquire_act_def tryAcquireShared_def sharedMarkerName_inj)
  next
    case excl
    with assms(1) f create_represents [of d s' exclusiveMarkerName] show ?thesis
      by (simp add: acquire_act_def tryAcquireExclusive_def)
  qed
qed

lemma tryAcquire_busy:
  assumes "dir_represents d s" and "spec_acquire m s = None"
  shows "tryAcquire m d = Inl errWouldBlock"
  using findMarker_represents [OF assms(1)] assms(2)
  by (cases m; cases s)
     (auto simp: tryAcquire_def acquire_act_def tryAcquireShared_def tryAcquireExclusive_def)

lemma tryRelease_represents:
  assumes "dir_represents d s" and "spec_release m s = Some s'"
  shows "\<exists>d'. tryRelease m d = Inr d' \<and> dir_represents d' s' \<and> other_entries d' = other_entries d"
proof -
  have f: "tryRelease m d = release_act m (state_marker s) d"
    using findMarker_represents [OF assms(1)] by (simp add: tryRelease_def)
  have b: "state_bound (max_int64 + 1) s" using assms(1) by (simp add: dir_represents_def)
  consider (last) "m = modeShared" "s = SharedBy 1" "s' = Unlocked"
    | (more) n where "m = modeShared" "s = SharedBy n" "n \<noteq> 1" "s' = SharedBy (n - 1)"
    | (excl) "m = modeExclusive" "s = Exclusively" "s' = Unlocked"
    using assms(2) by (cases m; cases s) (auto split: if_splits)
  then show ?thesis
  proof cases
    case last
    with assms(1) f remove_represents [of d s "sharedMarkerName 1"] show ?thesis
      by (simp add: release_act_def tryReleaseShared_def)
  next
    case more
    with b have "wrap64 (n - 1) = n - 1"
      by (intro wrap64_id) (auto simp: min_int64_def)
    with more assms(1) b f rename_represents [of d s "sharedMarkerName n" s' "sharedMarkerName (n - 1)"]
    show ?thesis by (simp add: release_act_def tryReleaseShared_def sharedMarkerName_inj)
  next
    case excl
    with assms(1) f remove_represents [of d s exclusiveMarkerName] show ?thesis
      by (simp add: release_act_def tryReleaseExclusive_def)
  qed
qed

interpretation dm: rw_lock tryAcquire tryRelease dir_represents errWouldBlock max_int64
  by unfold_locales (use tryAcquire_represents tryAcquire_busy tryRelease_represents in blast)+

section \<open>The loops\<close>

text \<open>The directory after \<open>k\<close> sleeps of the loop, by the changes of the other processes alone.\<close>

fun env_run :: "dir_env \<Rightarrow> nat \<Rightarrow> fsdir \<Rightarrow> nat \<Rightarrow> fsdir" where
  "env_run env t d 0 = d"
| "env_run env t d (Suc k) = env_run env (t + defaultRetryInterval) (env t d) k"

lemma ctx_err_None: "ctx_err dl cn t = None \<longleftrightarrow> t < ctx_done_at dl cn"
  by (auto simp: ctx_err_def ctx_done_at_def split: option.splits)

lemma acquire_loop_time: "acquire_loop dl cn env m t d = (r, t', d') \<Longrightarrow> t' \<le> max t dl"
proof (induction dl cn env m t d rule: acquire_loop.induct)
  case (1 dl cn env m t d)
  have "ctx_done_at dl cn \<le> dl" by (simp add: ctx_done_at_def split: option.splits)
  with 1 show ?case
    by (subst (asm) acquire_loop.simps)
       (fastforce split: option.splits sum.splits if_splits dest: sleep_before_deadline)
qed

lemma acquire_loop_fail_quiet:
  "acquire_loop dl cn (\<lambda>_ d. d) m t d = (Some e, t', d') \<Longrightarrow> d' = d"
proof (induction dl cn "\<lambda>(_::nat) d::fsdir. d" m t d rule: acquire_loop.induct)
  case (1 dl cn m t d)
  then show ?case
    by (subst (asm) (2) acquire_loop.simps) (auto split: option.splits sum.splits if_splits)
qed

lemma acquire_loop_succeeds:
  assumes "\<forall>j<k. tryAcquire m (env_run env t d j) = Inl errWouldBlock"
    and "tryAcquire m (env_run env t d k) = Inr d'"
    and "t + k * defaultRetryInterval < ctx_done_at dl cn"
  shows "acquire_loop dl cn env m t d = (None, t + k * defaultRetryInterval, d')"
  using assms
proof (induction k arbitrary: t d)
  case 0
  then show ?case
    by (subst acquire_loop.simps) (simp add: ctx_err_None [symmetric])
next
  case (Suc k)
  have now: "ctx_err dl cn t = None" and later: "sleepWithContext dl cn t = None"
    using Suc.prems(3) by (simp_all add: ctx_err_None sleepWithContext_def)
  have busy: "tryAcquire m d = Inl errWouldBlock"
    using Suc.prems(1) [rule_format, of 0] by simp
  have "acquire_loop dl cn env m (t + defaultRetryInterval) (env t d)
      = (None, t + defaultRetryInterval + k * defaultRetryInterval, d')"
  proof (rule Suc.IH)
    show "\<forall>j<k. tryAcquire m (env_run env (t + defaultRetryInterval) (env t d) j) = Inl errWouldBlock"
      using Suc.prems(1) by (metis Suc_mono env_run.simps(2))
  qed (use Suc.prems in simp_all)
  with now later busy show ?case
    by (subst acquire_loop.simps) (simp add: algebra_simps)
qed

lemma acquire_now:
  assumes "tryAcquire m d = Inr d'" and "withTimeoutIfMissing ctx defaultAcquireTimeout t = (dl, cn)"
    and "t < ctx_done_at dl cn"
  shows "acquire ctx env m t d = (None, t, d')"
  using acquire_loop_succeeds [of 0 m env t d d' dl cn] assms by (simp add: acquire_def)

lemma release_now:
  "tryRelease m d = Inr d' \<Longrightarrow> release ctx env m t d = (None, t, d')"
  by (auto simp: release_def release_loop.simps split: prod.split)

section \<open>Interleaved attempts\<close>

text \<open>
  An attempt reads the directory and later acts on what it read; other processes run in between.
  \<open>pending p\<close> is the scan process \<open>p\<close> has made and not yet acted on, \<open>holds p\<close> the mode in which \<open>p\<close>
  holds the lock, from the success of its acquire to the success of its release.
\<close>

datatype attempt = Acquiring lockMode "markerInfo option" | Releasing lockMode "markerInfo option"

record procs =
  pdir :: fsdir
  pending :: "nat \<Rightarrow> attempt option"
  holds :: "nat \<Rightarrow> lockMode option"

inductive il_step :: "procs \<Rightarrow> procs \<Rightarrow> bool" where
  scan_acquire: "pending s p = None \<Longrightarrow> holds s p = None \<Longrightarrow> findMarker (pdir s) = Inr mk \<Longrightarrow>
    il_step s (s\<lparr>pending := (pending s)(p := Some (Acquiring m mk))\<rparr>)"
| do_acquire: "pending s p = Some (Acquiring m mk) \<Longrightarrow> acquire_act m mk (pdir s) = Inr d' \<Longrightarrow>
    il_step s (s\<lparr>pdir := d', pending := (pending s)(p := None), holds := (holds s)(p := Some m)\<rparr>)"
| retry: "pending s p = Some a \<Longrightarrow> il_step s (s\<lparr>pending := (pending s)(p := None)\<rparr>)"
| scan_release: "pending s p = None \<Longrightarrow> holds s p = Some m \<Longrightarrow> findMarker (pdir s) = Inr mk \<Longrightarrow>
    il_step s (s\<lparr>pending := (pending s)(p := Some (Releasing m mk))\<rparr>)"
| do_release: "pending s p = Some (Releasing m mk) \<Longrightarrow> release_act m mk (pdir s) = Inr d' \<Longrightarrow>
    il_step s (s\<lparr>pdir := d', pending := (pending s)(p := None), holds := (holds s)(p := None)\<rparr>)"

inductive il_reach :: "procs \<Rightarrow> bool" where
  il_start: "dir_represents d Unlocked \<Longrightarrow>
    il_reach \<lparr>pdir = d, pending = (\<lambda>_. None), holds = (\<lambda>_. None)\<rparr>"
| il_next: "il_reach s \<Longrightarrow> il_step s s' \<Longrightarrow> il_reach s'"

text \<open>A scanned marker is one that \<^const>\<open>parseMarker\<close> accepts.\<close>

definition scanned :: "markerInfo option \<Rightarrow> bool" where
  "scanned mk = (case mk of None \<Rightarrow> True | Some k \<Rightarrow> parseMarker (mi_name k) = Inr k)"

fun attempt_scan :: "attempt \<Rightarrow> markerInfo option" where
  "attempt_scan (Acquiring m mk) = mk"
| "attempt_scan (Releasing m mk) = mk"

lemma parseMarker_scanned: "parseMarker n = Inr k \<Longrightarrow> scanned (Some k)"
  using parseMarker_Inr(1) [of n k] by (simp add: scanned_def)

lemma findMarker_scanned: "findMarker d = Inr mk \<Longrightarrow> scanned mk"
proof -
  have "findMarker_loop es mt = Inr mk \<Longrightarrow> scanned mt \<Longrightarrow> scanned mk" for es mt
    by (induction es mt rule: findMarker_loop.induct)
       (auto simp: parseMarker_scanned split: if_splits sum.splits option.splits)
  moreover have "scanned None" by (simp add: scanned_def)
  ultimately show "findMarker d = Inr mk \<Longrightarrow> scanned mk"
    by (auto simp: findMarker_def split: if_splits)
qed

lemma names_create: "createMarker n d = Inr d' \<Longrightarrow> n \<notin> set (names d) \<and> set (names d') = insert n (set (names d))"
  by (auto simp: createMarker_def os_create_excl_def names_def split: sum.splits fs_error.splits if_splits)

lemma names_remove: "removeMarkerFile n d = Inr d' \<Longrightarrow> set (names d') = set (names d) - {n}"
  by (auto simp: removeMarkerFile_def os_remove_def names_def split: sum.splits fs_error.splits if_splits)

lemma names_rename:
  "renameMarker n n' d = Inr d' \<Longrightarrow> set (names d') = insert n' (set (names d) - {n, n'})"
  by (auto simp: renameMarker_def os_rename_def names_def split: sum.splits fs_error.splits if_splits)

text \<open>What an action does to the exclusive marker, whatever the scan it acts on.\<close>

lemma scanned_shared: "scanned (Some k) \<Longrightarrow> mi_mode k = modeShared \<Longrightarrow> mi_name k \<noteq> exclusiveMarkerName"
  by (auto simp: scanned_def dest: parseMarker_Inr(3))

lemma acquire_act_exclusive:
  assumes "acquire_act m mk d = Inr d'" and "scanned mk"
  shows "exclusiveMarkerName \<in> set (names d') \<longleftrightarrow> exclusiveMarkerName \<in> set (names d) \<or> m = modeExclusive"
    and "m = modeExclusive \<Longrightarrow> exclusiveMarkerName \<notin> set (names d)"
proof -
  consider (create) n where "createMarker n d = Inr d'" "n = exclusiveMarkerName \<longleftrightarrow> m = modeExclusive"
    | (rename) n n' where "renameMarker n n' d = Inr d'" "m = modeShared"
        "n \<noteq> exclusiveMarkerName" "n' \<noteq> exclusiveMarkerName"
    using assms scanned_shared
    by (cases m; cases mk)
       (auto simp: acquire_act_def tryAcquireExclusive_def tryAcquireShared_def split: lockMode.splits)
  note cases = this
  from cases show "exclusiveMarkerName \<in> set (names d')
      \<longleftrightarrow> exclusiveMarkerName \<in> set (names d) \<or> m = modeExclusive"
    by cases (auto dest: names_create names_rename)
  from cases show "m = modeExclusive \<Longrightarrow> exclusiveMarkerName \<notin> set (names d)"
    by cases (auto dest: names_create)
qed

lemma release_act_exclusive:
  assumes "release_act m mk d = Inr d'" and "scanned mk" and "m = modeShared"
  shows "exclusiveMarkerName \<in> set (names d') \<longleftrightarrow> exclusiveMarkerName \<in> set (names d)"
proof -
  consider (keep) "d' = d"
    | (remove) n where "removeMarkerFile n d = Inr d'" "n \<noteq> exclusiveMarkerName"
    | (rename) n n' where "renameMarker n n' d = Inr d'"
        "n \<noteq> exclusiveMarkerName" "n' \<noteq> exclusiveMarkerName"
    using assms scanned_shared
    by (cases mk) (auto simp: release_act_def tryReleaseShared_def split: if_splits)
  then show ?thesis by cases (auto dest: names_remove names_rename)
qed

definition il_inv :: "procs \<Rightarrow> bool" where
  "il_inv s \<longleftrightarrow> (\<forall>p a. pending s p = Some a \<longrightarrow> scanned (attempt_scan a))
     \<and> (\<forall>p m mk. pending s p = Some (Releasing m mk) \<longrightarrow> holds s p = Some m)
     \<and> (\<forall>p. holds s p = Some modeExclusive \<longrightarrow> exclusiveMarkerName \<in> set (names (pdir s)))
     \<and> (\<forall>p q. holds s p = Some modeExclusive \<longrightarrow> holds s q = Some modeExclusive \<longrightarrow> p = q)"

lemma il_step_inv: "il_step s s' \<Longrightarrow> il_inv s \<Longrightarrow> il_inv s'"
proof (induction rule: il_step.induct)
  case (scan_acquire s p mk m)
  then show ?case using findMarker_scanned by (auto simp: il_inv_def)
next
  case (do_acquire s p m mk d')
  then have sc: "scanned mk" by (force simp: il_inv_def)
  note ex = acquire_act_exclusive [OF do_acquire.hyps(2) sc]
  from do_acquire.prems ex show ?case by (auto simp: il_inv_def)
next
  case (retry s p a)
  then show ?case by (auto simp: il_inv_def)
next
  case (scan_release s p m mk)
  then show ?case using findMarker_scanned by (auto simp: il_inv_def)
next
  case (do_release s p m mk d')
  then have sc: "scanned mk" and h: "holds s p = Some m" by (force simp: il_inv_def)+
  show ?case
  proof (cases m)
    case modeShared
    with release_act_exclusive [OF do_release.hyps(2) sc] do_release.prems show ?thesis
      by (auto simp: il_inv_def)
  next
    case modeExclusive
    with h do_release.prems have "\<And>q. holds s q = Some modeExclusive \<Longrightarrow> q = p"
      by (simp add: il_inv_def)
    with do_release.prems show ?thesis by (auto simp: il_inv_def)
  qed
qed

lemma il_reach_inv: "il_reach s \<Longrightarrow> il_inv s"
  by (induction rule: il_reach.induct) (simp_all add: il_inv_def [of "\<lparr>pdir = _, pending = _, holds = _\<rparr>"] il_step_inv)

section \<open>Properties\<close>

text \<open>A directory with one file and no lock, and the same directory under the exclusive lock.\<close>

definition sample_dir :: fsdir where
  "sample_dir = \<lparr>entries = [(''deployment.log'', False)], read_fault = False, write_fault = False\<rparr>"

definition sample_locked :: fsdir where
  "sample_locked = sample_dir\<lparr>entries := (exclusiveMarkerName, False) # entries sample_dir\<rparr>"

definition sample_shared :: fsdir where
  "sample_shared = sample_dir\<lparr>entries := (sharedMarkerName 2, False) # entries sample_dir\<rparr>"

lemma sample_represents:
  "dir_represents sample_dir Unlocked" "dir_represents sample_locked Exclusively"
  "dir_represents sample_shared (SharedBy 2)"
  by (simp_all add: dir_represents_def sample_dir_def sample_locked_def sample_shared_def names_def
      is_marker_entry_def HasPrefix_def max_int64_def)
     (simp_all add: marker_name_defs sharedMarkerName_def)

lemma sample_acquire: "tryAcquire modeExclusive sample_dir = Inr sample_locked"
  using findMarker_represents [OF sample_represents(1)]
  by (simp add: tryAcquire_def acquire_act_def tryAcquireExclusive_def createMarker_def
      os_create_excl_def names_def sample_dir_def sample_locked_def marker_name_defs)

text \<open>C4: with atomic attempts, a process that holds the directory lock exclusively is its only holder,
  after any sequence of successful acquires and releases by any processes (fewer than \<open>2^63 - 1\<close>
  holders at a time).\<close>

theorem directory_lock_excludes:
  assumes "dir_represents d0 Unlocked" and "int nmax < max_int64"
    and "lock_reach tryAcquire tryRelease nmax d0 d hs" and "(p, modeExclusive) \<in> set hs"
  shows "hs = [(p, modeExclusive)]"
  using assms by (rule dm.mutual_exclusion)

theorem directory_lock_excludes_witness:
  "lock_reach tryAcquire tryRelease 5 sample_dir sample_locked [(7, modeExclusive)]
   \<and> [(7, modeExclusive)] = [(7::nat, modeExclusive)]"
proof -
  have r: "lock_reach tryAcquire tryRelease 5 sample_dir sample_locked [(7, modeExclusive)]"
    by (rule lock_reach.acquired [where d = sample_dir]) (simp_all add: lock_reach.start sample_acquire)
  have n: "int 5 < max_int64" by (simp add: max_int64_def)
  have "(7, modeExclusive) \<in> set [(7::nat, modeExclusive)]" by simp
  from r directory_lock_excludes [OF sample_represents(1) n r this] show ?thesis by (rule conjI)
qed

text \<open>C5: one attempt of the code refines one step of the lock specification on the state the marker
  file encodes: it succeeds exactly where the specification allows it, moves the marker to the
  specified state, reports "would block" where the specification makes the caller wait, and leaves
  every other entry of the directory alone.\<close>

theorem marker_protocol_refines:
  assumes "dir_represents d s"
  shows "(\<forall>s'. state_bound max_int64 s \<longrightarrow> spec_acquire m s = Some s' \<longrightarrow>
      (\<exists>d'. tryAcquire m d = Inr d' \<and> dir_represents d' s' \<and> other_entries d' = other_entries d))
    \<and> (spec_acquire m s = None \<longrightarrow> tryAcquire m d = Inl errWouldBlock)
    \<and> (\<forall>s'. spec_release m s = Some s' \<longrightarrow>
      (\<exists>d'. tryRelease m d = Inr d' \<and> dir_represents d' s' \<and> other_entries d' = other_entries d))"
  using assms by (auto intro: tryAcquire_represents tryAcquire_busy tryRelease_represents)

theorem marker_protocol_refines_witness:
  "(\<exists>d'. tryAcquire modeShared sample_shared = Inr d' \<and> dir_represents d' (SharedBy 3)
      \<and> other_entries d' = other_entries sample_shared)
   \<and> tryAcquire modeExclusive sample_shared = Inl errWouldBlock
   \<and> (\<exists>d'. tryRelease modeShared sample_shared = Inr d' \<and> dir_represents d' (SharedBy 1)
      \<and> other_entries d' = other_entries sample_shared)"
  using marker_protocol_refines [OF sample_represents(3), of modeShared]
    marker_protocol_refines [OF sample_represents(3), of modeExclusive]
  by (simp add: max_int64_def)

text \<open>When the scan and the change of an attempt interleave with other processes, at most one
  process holds the lock exclusively: the exclusive creation of the marker file decides.\<close>

theorem interleaved_exclusive_unique:
  assumes "il_reach s" and "holds s p = Some modeExclusive" and "holds s q = Some modeExclusive"
  shows "p = q"
  using il_reach_inv [OF assms(1)] assms(2,3) by (simp add: il_inv_def)

definition race_start :: procs where
  "race_start = \<lparr>pdir = sample_dir, pending = (\<lambda>_. None), holds = (\<lambda>_. None)\<rparr>"

definition race_exclusive :: procs where
  "race_exclusive = \<lparr>pdir = sample_locked, pending = (\<lambda>_. None)(1 := Some (Acquiring modeShared None)),
     holds = (\<lambda>_. None)(0 := Some modeExclusive)\<rparr>"

definition race_both :: procs where
  "race_both = \<lparr>pdir = sample_locked\<lparr>entries := (sharedMarkerName 1, False) # entries sample_locked\<rparr>,
     pending = (\<lambda>_. None), holds = (\<lambda>_. None)(0 := Some modeExclusive, 1 := Some modeShared)\<rparr>"

lemma race_exclusive_reach: "il_reach race_exclusive"
proof -
  have scan: "findMarker sample_dir = Inr None"
    using findMarker_represents [OF sample_represents(1)] by simp
  have "il_reach race_start"
    unfolding race_start_def by (rule il_start [OF sample_represents(1)])
  from il_next [OF this scan_acquire [of _ 1 None modeShared]] scan
  have r1: "il_reach (race_start\<lparr>pending := (pending race_start)(1 := Some (Acquiring modeShared None))\<rparr>)"
    (is "il_reach ?s1") by (simp add: race_start_def)
  from il_next [OF r1 scan_acquire [of _ 0 None modeExclusive]] scan
  have r2: "il_reach (?s1\<lparr>pending := (pending ?s1)(0 := Some (Acquiring modeExclusive None))\<rparr>)"
    (is "il_reach ?s2") by (simp add: race_start_def)
  have "acquire_act modeExclusive None sample_dir = Inr sample_locked"
    using sample_acquire scan by (simp add: tryAcquire_def)
  from il_next [OF r2 do_acquire [of _ 0 modeExclusive None sample_locked]] this
  show ?thesis by (simp add: race_start_def race_exclusive_def fun_upd_twist fun_upd_idem)
qed

lemma race_both_reach: "il_reach race_both"
proof -
  have "acquire_act modeShared None sample_locked
      = Inr (sample_locked\<lparr>entries := (sharedMarkerName 1, False) # entries sample_locked\<rparr>)"
    by (simp add: acquire_act_def tryAcquireShared_def createMarker_def os_create_excl_def names_def
        sample_locked_def sample_dir_def sharedMarkerName_def marker_name_defs)
  with il_next [OF race_exclusive_reach do_acquire [of _ 1 modeShared None]] show ?thesis
    by (simp add: race_exclusive_def race_both_def)
qed

theorem interleaved_exclusive_unique_witness:
  "il_reach race_exclusive \<and> holds race_exclusive 0 = Some modeExclusive \<and> (0::nat) = 0"
  using race_exclusive_reach interleaved_exclusive_unique [of race_exclusive 0 0]
  by (simp add: race_exclusive_def)

text \<open>The protocol is not linearizable for a shared and an exclusive request that both scan an
  unlocked directory before either creates its marker: a reachable state has process 0 holding the
  lock exclusively while process 1 holds it shared, and from then on every attempt to acquire or
  release fails with the invalid-marker error.\<close>

theorem shared_exclusive_race:
  "\<exists>s. il_reach s \<and> holds s 0 = Some modeExclusive \<and> holds s 1 = Some modeShared
     \<and> (\<forall>m. tryAcquire m (pdir s) = Inl ErrInvalidMarker \<and> tryRelease m (pdir s) = Inl ErrInvalidMarker)"
proof -
  have "findMarker (pdir race_both) = Inl ErrInvalidMarker"
    by (simp add: findMarker_def race_both_def sample_locked_def sample_dir_def parseMarker_shared
        max_int64_def)
  then have "\<forall>m. tryAcquire m (pdir race_both) = Inl ErrInvalidMarker
      \<and> tryRelease m (pdir race_both) = Inl ErrInvalidMarker"
    by (simp add: tryAcquire_def tryRelease_def)
  with race_both_reach show ?thesis by (intro exI [of _ race_both]) (simp add: race_both_def)
qed

text \<open>an acquire that finds the lock busy \<open>k\<close> times and free at the next attempt succeeds at that
  attempt, provided the attempt comes before the deadline and the cancellation of its context.\<close>

theorem acquire_succeeds_when_free:
  assumes "withTimeoutIfMissing ctx defaultAcquireTimeout t = (dl, cn)"
    and "\<forall>j<k. tryAcquire m (env_run env t d j) = Inl errWouldBlock"
    and "tryAcquire m (env_run env t d k) = Inr d'"
    and "t + k * defaultRetryInterval < ctx_done_at dl cn"
  shows "acquire ctx env m t d = (None, t + k * defaultRetryInterval, d')"
  using acquire_loop_succeeds [OF assms(2-4)] assms(1) by (simp add: acquire_def)

theorem acquire_succeeds_when_free_witness:
  "acquire None (\<lambda>_ _. sample_dir) modeExclusive 0 sample_locked = (None, 200, sample_locked)"
  using acquire_succeeds_when_free [of None 0 1000 None 1 modeExclusive "\<lambda>_ _. sample_dir"
      sample_locked sample_locked] sample_acquire tryAcquire_busy [OF sample_represents(2)]
  by (simp add: withTimeoutIfMissing_def defaultAcquireTimeout_def defaultRetryInterval_def ctx_done_at_def)

text \<open>C36: an acquire always returns, no later than its deadline (or at once if the deadline has
  passed), and one that fails has not changed the directory: with no other process at work, the
  directory is the one it started from.\<close>

theorem acquire_bounded_and_clean:
  assumes "withTimeoutIfMissing ctx defaultAcquireTimeout t = (dl, cn)"
  shows "fst (snd (acquire ctx env m t d)) \<le> max t dl
    \<and> (fst (acquire ctx (\<lambda>_ d. d) m t d) \<noteq> None \<longrightarrow> snd (snd (acquire ctx (\<lambda>_ d. d) m t d)) = d)"
proof
  show "fst (snd (acquire ctx env m t d)) \<le> max t dl"
    using acquire_loop_time [of dl cn env m t d] assms
    by (cases "acquire_loop dl cn env m t d") (auto simp: acquire_def)
  show "fst (acquire ctx (\<lambda>_ d. d) m t d) \<noteq> None \<longrightarrow> snd (snd (acquire ctx (\<lambda>_ d. d) m t d)) = d"
    using acquire_loop_fail_quiet [of dl cn m t d] assms
    by (cases "acquire_loop dl cn (\<lambda>_ d. d) m t d") (auto simp: acquire_def)
qed

theorem acquire_bounded_and_clean_witness:
  "fst (acquire None (\<lambda>_ d. d) modeShared 3 sample_locked) = Some (ErrAcquireTimeout DeadlineExceeded)
   \<and> fst (snd (acquire None (\<lambda>_ d. d) modeShared 3 sample_locked)) \<le> 1003
   \<and> snd (snd (acquire None (\<lambda>_ d. d) modeShared 3 sample_locked)) = sample_locked"
proof -
  have w: "withTimeoutIfMissing None defaultAcquireTimeout 3 = (1003, None)"
    by (simp add: withTimeoutIfMissing_def defaultAcquireTimeout_def)
  have f: "fst (acquire None (\<lambda>_ d. d) modeShared 3 sample_locked)
      = Some (ErrAcquireTimeout DeadlineExceeded)"
    by (simp add: acquire_def w acquire_loop.simps ctx_err_def sleepWithContext_def defaultRetryInterval_def
        tryAcquire_busy [OF sample_represents(2)] wrapAcquireError_def)
  with acquire_bounded_and_clean [OF w, of "\<lambda>_ d. d" modeShared sample_locked] show ?thesis by simp
qed

text \<open>a callback run under the lock on a free or compatible directory gets its own result
  returned and leaves the lock as it found it: if the lock state is \<open>s\<close>, becomes \<open>s1\<close> by the acquire and
  \<open>s2\<close> while the callback runs (others come and go), it ends as the release of \<open>s2\<close>.\<close>

theorem withLock_releases:
  assumes "dir_represents d s" and "state_bound max_int64 s" and "spec_acquire m s = Some s1"
    and "\<And>d1. dir_represents d1 s1 \<Longrightarrow> \<exists>d2. fn d1 = (r, d2) \<and> dir_represents d2 s2"
    and "spec_release m s2 = Some s3"
    and "withTimeoutIfMissing (Some c) defaultAcquireTimeout t = (dl, cn)" and "t < ctx_done_at dl cn"
  shows "\<exists>d3. withLock (Some c) env m fn dur t d
      = (case r of Returns e \<Rightarrow> CallbackReturned e | Panics \<Rightarrow> Panicked, d3) \<and> dir_represents d3 s3"
proof -
  from tryAcquire_represents [OF assms(1-3)] obtain d1 where
    d1: "tryAcquire m d = Inr d1" "dir_represents d1 s1" by blast
  from assms(4) [OF d1(2)] obtain d2 where d2: "fn d1 = (r, d2)" "dir_represents d2 s2" by blast
  from tryRelease_represents [OF d2(2) assms(5)] obtain d3 where
    d3: "tryRelease m d2 = Inr d3" "dir_represents d3 s3" by blast
  from acquire_now [OF d1(1) assms(6,7)] release_now [OF d3(1)] d2(1) d3(2) show ?thesis
    by (simp add: withLock_def)
qed

theorem withLock_releases_witness:
  "\<exists>d3. withLock (Some without_cancel) (\<lambda>_ d. d) modeExclusive
        (\<lambda>d. (Returns (Some ''boom''), d)) 40 0 sample_dir
      = (CallbackReturned (Some ''boom''), d3) \<and> dir_represents d3 Unlocked"
  using withLock_releases [OF sample_represents(1), where m = modeExclusive and ?s1.0 = Exclusively
      and ?s2.0 = Exclusively and ?s3.0 = Unlocked and fn = "\<lambda>d. (Returns (Some ''boom''), d)"
      and r = "Returns (Some ''boom'')" and c = without_cancel and t = 0 and dl = 1000 and cn = None]
  by (simp add: withTimeoutIfMissing_def without_cancel_def defaultAcquireTimeout_def ctx_done_at_def)

text \<open>A failing release is not reported: when the directory has become unwritable while the
  callback ran without error, \<open>withLock\<close> returns success and the exclusive marker stays behind.\<close>

theorem withLock_swallows_release_error:
  assumes "dir_represents d Unlocked"
    and "withTimeoutIfMissing (Some c) defaultAcquireTimeout t = (dl, cn)" and "t < ctx_done_at dl cn"
  shows "\<exists>d3. withLock (Some c) env modeExclusive (\<lambda>d1. (Returns None, d1\<lparr>write_fault := True\<rparr>)) dur t d
      = (CallbackReturned None, d3) \<and> findMarker d3 = Inr (state_marker Exclusively)"
proof -
  from tryAcquire_represents [OF assms(1), of modeExclusive] obtain d1 where
    d1: "tryAcquire modeExclusive d = Inr d1" "dir_represents d1 Exclusively" by auto
  let ?d2 = "d1\<lparr>write_fault := True\<rparr>"
  have f: "findMarker ?d2 = Inr (state_marker Exclusively)"
    using findMarker_represents [OF d1(2)] d1(2) by (simp add: findMarker_def dir_represents_def)
  have "exclusiveMarkerName \<in> set (names ?d2)"
    using marker_in_names(1) [OF d1(2), of exclusiveMarkerName] by (simp add: names_def)
  with f have "tryRelease modeExclusive ?d2 = Inl IOError"
    by (simp add: tryRelease_def release_act_def tryReleaseExclusive_def removeMarkerFile_def os_remove_def)
  then have "\<exists>e. release (Some without_cancel) env modeExclusive (t + dur) ?d2 = (Some e, t + dur, ?d2)"
    by (auto simp: release_def release_loop.simps split: prod.split)
  with f acquire_now [OF d1(1) assms(2,3)] show ?thesis by (auto simp: withLock_def)
qed

theorem withLock_swallows_release_error_witness:
  "\<exists>d3. withLock (Some without_cancel) (\<lambda>_ d. d) modeExclusive
        (\<lambda>d1. (Returns (None :: string option), d1\<lparr>write_fault := True\<rparr>)) 40 0 sample_dir
      = (CallbackReturned None, d3) \<and> findMarker d3 = Inr (state_marker Exclusively)"
  using withLock_swallows_release_error [OF sample_represents(1), of without_cancel 0 1000 None]
  by (simp add: withTimeoutIfMissing_def without_cancel_def defaultAcquireTimeout_def ctx_done_at_def)

end
