(* ===== verification/Config_Files.thy ===== *)
theory Config_Files
  imports Go_Prelude "HOL-Library.AList"
begin

text \<open>
  How the launcher puts a configuration or state file on disk, \<^verbatim>\<open>src/internal/config/config.go\<close>:
  \<open>writeConfig\<close>, which opens the file with truncation and writes the encoded value into it, and
  \<open>WriteFileAtomically\<close>, which writes a temporary file and renames it over the target. Both are
  modelled with every state of the directory that another process, or a restart after a crash,
  can see: an operation returns the list of the directories after each of its file-system calls,
  in order, and its error.
\<close>

section \<open>The directory and its faults\<close>

text \<open>The regular files of a directory, name and content.\<close>

type_synonym files = "(string \<times> string) list"

text \<open>The results of the file-system calls of one operation: which of them fail, how many bytes a
  failing write still transfers, the random part \<^verbatim>\<open>os.CreateTemp\<close> chooses, and the platform.\<close>

record io_env =
  fail_readdir :: bool
  fail_remove :: "string \<Rightarrow> bool"
  fail_create :: bool
  fail_chmod :: bool
  fail_write :: "nat option"
  fail_sync :: bool
  fail_close :: bool
  fail_rename :: bool
  fail_dir_open :: bool
  fail_dir_sync :: bool
  fail_open :: bool
  temp_random :: string
  on_windows :: bool

datatype config_error =
    ReadDirFailed
  | StaleRemovalFailed string
  | CreateFailed
  | ChmodFailed
  | WriteFailed
  | SyncFailed
  | CloseFailed
  | RenameFailed
  | DirOpenFailed
  | DirSyncFailed
  | OpenFailed
  | EncodeFailed
  | DecodeFailed
  | ErrMissingConfigFile
  | PanicExtension

definition file_rename :: "string \<Rightarrow> string \<Rightarrow> files \<Rightarrow> files" where
  "file_rename old new d =
     (case map_of d old of None \<Rightarrow> d | Some c \<Rightarrow> AList.update new c (AList.delete old d))"

text \<open>\<^verbatim>\<open>filepath.Ext\<close> of a file name: what follows and includes the last dot, empty without one.\<close>

definition filepath_Ext :: "string \<Rightarrow> string" where
  "filepath_Ext n =
     (case IndexByte (rev n) CHR ''.'' of None \<Rightarrow> []
      | Some i \<Rightarrow> rev (take (Suc i) (rev n)))"

section \<open>Writing in place\<close>

text \<open>The encoders are the library calls \<^verbatim>\<open>yaml.Marshal\<close> and \<^verbatim>\<open>json.Marshal\<close> applied to the value;
  \<^const>\<open>None\<close> is their error. The panic on an unknown extension comes after the file was opened,
  and so after it was truncated.\<close>

definition writeConfig ::
  "io_env \<Rightarrow> string option \<Rightarrow> string option \<Rightarrow> string \<Rightarrow> files \<Rightarrow> files list \<times> config_error option"
where
  "writeConfig env yaml json path d =
     (if fail_open env then ([], Some OpenFailed)
      else
       (let d1 = AList.update path [] d;
            ext = filepath_Ext path;
            encoded = (if ext = ''.yaml'' then map_option Inr yaml
                       else if ext = ''.json'' then map_option Inr json
                       else Some (Inl PanicExtension))
        in case encoded of
             None \<Rightarrow> ([d1], Some EncodeFailed)
           | Some (Inl e) \<Rightarrow> ([d1], Some e)
           | Some (Inr bytes) \<Rightarrow>
               (case fail_write env of
                  Some n \<Rightarrow> ([d1, AList.update path (take n bytes) d1], Some WriteFailed)
                | None \<Rightarrow> ([d1, AList.update path bytes d1], None))))"

text \<open>\<open>readConfig\<close>: the decoders are \<^verbatim>\<open>yaml.Decoder.Decode\<close> and \<^verbatim>\<open>json.Decoder.Decode\<close>.\<close>

definition readConfig ::
  "bool \<Rightarrow> (string \<Rightarrow> 'a option) \<Rightarrow> (string \<Rightarrow> 'a option) \<Rightarrow> string \<Rightarrow> files \<Rightarrow> (config_error, 'a) result"
where
  "readConfig open_fault yaml json path d =
     (case map_of d path of
        None \<Rightarrow> Inl ErrMissingConfigFile
      | Some bytes \<Rightarrow>
          if open_fault then Inl OpenFailed
          else
           (let ext = filepath_Ext path in
            if ext = ''.yaml'' then (case yaml bytes of None \<Rightarrow> Inl DecodeFailed | Some v \<Rightarrow> Inr v)
            else if ext = ''.json'' then (case json bytes of None \<Rightarrow> Inl DecodeFailed | Some v \<Rightarrow> Inr v)
            else Inl PanicExtension))"

section \<open>Replacing a file atomically\<close>

definition temporaryPrefix :: "string \<Rightarrow> string" where
  "temporaryPrefix base = ''.'' @ base @ ''.tmp-''"

definition temporaryFiles :: "io_env \<Rightarrow> string \<Rightarrow> files \<Rightarrow> (config_error, string list) result" where
  "temporaryFiles env pfx d =
     (if fail_readdir env then Inl ReadDirFailed
      else Inr (filter (\<lambda>n. HasPrefix n pfx) (map fst d)))"

fun removeStale_loop ::
  "io_env \<Rightarrow> string list \<Rightarrow> files \<Rightarrow> files list \<times> config_error option"
where
  "removeStale_loop env [] d = ([], None)"
| "removeStale_loop env (p # ps) d =
     (if fail_remove env p then ([], Some (StaleRemovalFailed p))
      else (let d' = AList.delete p d; (ds, e) = removeStale_loop env ps d' in (d' # ds, e)))"

definition removeStaleTemporaries ::
  "io_env \<Rightarrow> string \<Rightarrow> files \<Rightarrow> files list \<times> config_error option"
where
  "removeStaleTemporaries env pfx d =
     (case temporaryFiles env pfx d of
        Inl e \<Rightarrow> ([], Some e)
      | Inr stale \<Rightarrow> removeStale_loop env stale d)"

definition syncDirectory :: "io_env \<Rightarrow> config_error option" where
  "syncDirectory env =
     (if on_windows env then None
      else if fail_dir_open env then Some DirOpenFailed
      else if fail_dir_sync env then Some DirSyncFailed
      else None)"

text \<open>The body of \<open>WriteFileAtomically\<close> once the temporary file exists: the mode, the data, the
  sync, the close, the rename and the sync of the directory.\<close>

definition fillTemporary ::
  "io_env \<Rightarrow> string \<Rightarrow> string \<Rightarrow> string \<Rightarrow> files \<Rightarrow> files list \<times> config_error option"
where
  "fillTemporary env base tmp data d =
     (if fail_chmod env then ([], Some ChmodFailed)
      else case fail_write env of
        Some n \<Rightarrow> ([AList.update tmp (take n data) d], Some WriteFailed)
      | None \<Rightarrow>
         (let d' = AList.update tmp data d in
          if fail_sync env then ([d'], Some SyncFailed)
          else if fail_close env then ([d'], Some CloseFailed)
          else if fail_rename env then ([d'], Some RenameFailed)
          else ([d', file_rename tmp base d'], syncDirectory env)))"

text \<open>The deferred \<open>removeTemporary\<close>: its error is ignored.\<close>

definition removeTemporary :: "io_env \<Rightarrow> string \<Rightarrow> files \<Rightarrow> files" where
  "removeTemporary env tmp d = (if fail_remove env tmp then d else AList.delete tmp d)"

definition WriteFileAtomically ::
  "io_env \<Rightarrow> string \<Rightarrow> string \<Rightarrow> files \<Rightarrow> files list \<times> config_error option"
where
  "WriteFileAtomically env base data d =
     (let pfx = temporaryPrefix base in
      case removeStaleTemporaries env pfx d of
        (ds, Some e) \<Rightarrow> (ds, Some e)
      | (ds, None) \<Rightarrow>
         (if fail_create env then (ds, Some CreateFailed)
          else
           (let tmp = pfx @ temp_random env;
                d1 = AList.update tmp [] (last (d # ds));
                (ws, e) = fillTemporary env base tmp data d1
            in (ds @ d1 # ws @ [removeTemporary env tmp (last (d1 # ws))], e))))"

section \<open>What a reader can see\<close>

text \<open>Two directories agree outside the temporary files of a name.\<close>

definition agree_outside :: "string \<Rightarrow> files \<Rightarrow> files \<Rightarrow> bool" where
  "agree_outside base d d' \<longleftrightarrow>
     (\<forall>n. n \<noteq> base \<and> \<not> HasPrefix n (temporaryPrefix base) \<longrightarrow> map_of d' n = map_of d n)"

definition old_or_new :: "string \<Rightarrow> string \<Rightarrow> files \<Rightarrow> files \<Rightarrow> bool" where
  "old_or_new base data d d' \<longleftrightarrow>
     (map_of d' base = map_of d base \<or> map_of d' base = Some data) \<and> agree_outside base d d'"

lemma temporary_not_base [simp]: "\<not> HasPrefix base (temporaryPrefix base)"
  by (auto simp: HasPrefix_iff temporaryPrefix_def dest: arg_cong [where f = length])

lemma old_or_new_refl [simp]: "old_or_new base data d d"
  by (simp add: old_or_new_def agree_outside_def)

lemma old_or_new_delete:
  assumes "old_or_new base data d d'" and "HasPrefix p (temporaryPrefix base)"
  shows "old_or_new base data d (AList.delete p d')"
  using assms by (auto simp: old_or_new_def agree_outside_def delete_conv')

lemma old_or_new_update:
  assumes "old_or_new base data d d'" and "HasPrefix p (temporaryPrefix base)"
  shows "old_or_new base data d (AList.update p c d')"
  using assms by (auto simp: old_or_new_def agree_outside_def update_conv')

lemma old_or_new_removeTemporary:
  assumes "old_or_new base data d d'" and "HasPrefix p (temporaryPrefix base)"
  shows "old_or_new base data d (removeTemporary env p d')"
  using assms by (simp add: removeTemporary_def old_or_new_delete)

lemma removeStale_loop_sound:
  assumes "removeStale_loop env ps d' = (ds, e)" and "old_or_new base data d d'"
    and "\<forall>p \<in> set ps. HasPrefix p (temporaryPrefix base)"
  shows "(\<forall>t \<in> set ds. old_or_new base data d t)
    \<and> (\<forall>t \<in> set ds. map_of t base = map_of d' base)
    \<and> (e = None \<longrightarrow> (\<forall>n. map_of (last (d' # ds)) n = (if n \<in> set ps then None else map_of d' n)))"
  using assms
proof (induction ps arbitrary: d' ds e)
  case (Cons p ps)
  show ?case
  proof (cases "fail_remove env p")
    case False
    obtain ds' where rest: "removeStale_loop env ps (AList.delete p d') = (ds', e)"
      and ds: "ds = AList.delete p d' # ds'"
      using Cons.prems(1) False by (auto simp: Let_def split: prod.splits)
    have "p \<noteq> base" using Cons.prems(3) temporary_not_base by fastforce
    then have keep: "map_of (AList.delete p d') base = map_of d' base" by simp
    have step: "old_or_new base data d (AList.delete p d')"
      using Cons.prems(2,3) by (simp add: old_or_new_delete)
    show ?thesis
      using Cons.IH [OF rest step] Cons.prems(3) step keep ds by (auto simp: delete_conv')
  qed (use Cons.prems in auto)
qed auto

lemma removeStaleTemporaries_sound:
  assumes "removeStaleTemporaries env (temporaryPrefix base) d = (ds, e)"
  shows "\<forall>t \<in> set ds. old_or_new base data d t"
    and "\<forall>t \<in> set ds. map_of t base = map_of d base"
    and "e = None \<Longrightarrow> HasPrefix n (temporaryPrefix base) \<Longrightarrow> map_of (last (d # ds)) n = None"
proof -
  have "(\<forall>t \<in> set ds. old_or_new base data d t) \<and> (\<forall>t \<in> set ds. map_of t base = map_of d base)
    \<and> (e = None \<longrightarrow> (\<forall>n. HasPrefix n (temporaryPrefix base) \<longrightarrow> map_of (last (d # ds)) n = None))"
  proof (cases "temporaryFiles env (temporaryPrefix base) d")
    case (Inl x)
    with assms show ?thesis
      by (auto simp: removeStaleTemporaries_def temporaryFiles_def split: if_splits)
  next
    case (Inr ps)
    then have ps: "ps = filter (\<lambda>n. HasPrefix n (temporaryPrefix base)) (map fst d)"
      by (simp add: temporaryFiles_def split: if_splits)
    from assms Inr have "removeStale_loop env ps d = (ds, e)"
      by (simp add: removeStaleTemporaries_def)
    from removeStale_loop_sound [OF this old_or_new_refl, of base data] show ?thesis
      unfolding ps by (auto simp: map_of_eq_None_iff)
  qed
  then show "\<forall>t \<in> set ds. old_or_new base data d t"
    and "\<forall>t \<in> set ds. map_of t base = map_of d base"
    and "e = None \<Longrightarrow> HasPrefix n (temporaryPrefix base) \<Longrightarrow> map_of (last (d # ds)) n = None"
    by blast+
qed

text \<open>The errors after which the rename has already happened.\<close>

definition after_rename :: "config_error option \<Rightarrow> bool" where
  "after_rename e \<longleftrightarrow> e \<in> {None, Some DirOpenFailed, Some DirSyncFailed}"

lemma removeStale_loop_error:
  "removeStale_loop env ps d = (ds, Some y) \<Longrightarrow> \<exists>p. y = StaleRemovalFailed p \<and> fail_remove env p"
  by (induction ps arbitrary: d ds) (auto simp: Let_def split: if_splits prod.splits)

lemma removeStaleTemporaries_error:
  assumes "removeStaleTemporaries env pfx d = (ds, Some y)"
  shows "\<not> after_rename (Some y) \<and> (fail_readdir env \<or> (\<exists>n. fail_remove env n))"
  using assms removeStale_loop_error [of env _ d ds y]
  by (fastforce simp: removeStaleTemporaries_def temporaryFiles_def after_rename_def split: if_splits)

lemma fillTemporary_sound:
  assumes "fillTemporary env base tmp data d' = (ws, e)" and "old_or_new base data d d'"
    and "map_of d' base = map_of d base" and "HasPrefix tmp (temporaryPrefix base)"
  shows "\<forall>t \<in> set ws. old_or_new base data d t"
    and "map_of (last (d' # ws)) base = (if after_rename e then Some data else map_of d base)"
    and "\<not> after_rename e \<or> map_of (last (d' # ws)) tmp = None"
    and "n \<noteq> base \<Longrightarrow> n \<noteq> tmp \<Longrightarrow> map_of (last (d' # ws)) n = map_of d' n"
proof -
  let ?d = "AList.update tmp data d'"
  have ne: "tmp \<noteq> base" using assms(4) by auto
  have sync: "after_rename (syncDirectory env)" by (simp add: syncDirectory_def after_rename_def)
  have ren: "file_rename tmp base ?d = AList.update base data (AList.delete tmp ?d)"
    by (simp add: file_rename_def update_conv')
  have new: "old_or_new base data d (file_rename tmp base ?d)"
    using assms(2,4) unfolding ren
    by (auto simp: old_or_new_def agree_outside_def update_conv' delete_conv')
  have tmps: "\<And>c. old_or_new base data d (AList.update tmp c d')"
    using assms(2,4) by (rule old_or_new_update)
  note simps = fillTemporary_def Let_def after_rename_def update_conv' delete_conv' ren
  show "\<forall>t \<in> set ws. old_or_new base data d t"
    using assms(1) new tmps by (auto simp: fillTemporary_def Let_def split: if_splits option.splits)
  show "map_of (last (d' # ws)) base = (if after_rename e then Some data else map_of d base)"
    using assms(1,3) ne sync by (auto simp: simps split: if_splits option.splits)
  show "\<not> after_rename e \<or> map_of (last (d' # ws)) tmp = None"
    using assms(1) ne by (auto simp: simps split: if_splits option.splits)
  show "n \<noteq> base \<Longrightarrow> n \<noteq> tmp \<Longrightarrow> map_of (last (d' # ws)) n = map_of d' n"
    using assms(1) by (auto simp: simps split: if_splits option.splits)
qed

text \<open>C29: while \<open>WriteFileAtomically\<close> runs, whichever of its calls fail, every state of the
  directory holds under the target's name either the previous content or the complete new
  content, and every file that is not one of its temporaries is left alone. It returns no error
  only with the new content in place; an error other than that of the final directory sync means
  the previous content is still there. When its removals do not fail no temporary file survives.\<close>

theorem atomic_write_old_or_new:
  "case WriteFileAtomically env base data d of (trace, err) \<Rightarrow>
     (\<forall>t \<in> set trace. old_or_new base data d t)
     \<and> map_of (last (d # trace)) base = (if after_rename err then Some data else map_of d base)
     \<and> (\<not> fail_readdir env \<and> (\<forall>n. \<not> fail_remove env n) \<longrightarrow>
          (\<forall>n. HasPrefix n (temporaryPrefix base) \<longrightarrow> map_of (last (d # trace)) n = None))"
proof -
  obtain ds e where stale: "removeStaleTemporaries env (temporaryPrefix base) d = (ds, e)"
    by fastforce
  note ss = removeStaleTemporaries_sound [OF stale]
  have base_ds: "map_of (last (d # ds)) base = map_of d base" using ss(2) by (cases ds rule: rev_cases) auto
  have last_ds: "old_or_new base data d (last (d # ds))" using ss(1) by (cases ds rule: rev_cases) auto
  show ?thesis
  proof (cases e)
    case (Some x)
    then show ?thesis
      using stale ss(1) base_ds removeStaleTemporaries_error [of env _ d ds x]
      by (auto simp: WriteFileAtomically_def)
  next
    case None
    show ?thesis
    proof (cases "fail_create env")
      case True
      then show ?thesis
        using stale None ss base_ds by (auto simp: WriteFileAtomically_def after_rename_def)
    next
      case False
      define tmp where "tmp = temporaryPrefix base @ temp_random env"
      define d1 where "d1 = AList.update tmp [] (last (d # ds))"
      obtain ws err where fill: "fillTemporary env base tmp data d1 = (ws, err)" by fastforce
      have pre: "HasPrefix tmp (temporaryPrefix base)" by (simp add: tmp_def)
      then have ne: "tmp \<noteq> base" by auto
      have d1: "old_or_new base data d d1" "map_of d1 base = map_of d base"
        using last_ds base_ds pre ne by (simp_all add: d1_def old_or_new_update update_conv')
      note fs = fillTemporary_sound [OF fill d1 pre]
      have run: "WriteFileAtomically env base data d =
          (ds @ d1 # ws @ [removeTemporary env tmp (last (d1 # ws))], err)"
        using stale None False fill by (simp add: WriteFileAtomically_def Let_def tmp_def d1_def)
      have last_ws: "old_or_new base data d (last (d1 # ws))"
        using fs(1) d1(1) by (cases ws rule: rev_cases) auto
      have seen: "\<forall>t \<in> set (ds @ d1 # ws @ [removeTemporary env tmp (last (d1 # ws))]). old_or_new base data d t"
        using ss(1) d1(1) fs(1) last_ws pre by (auto intro: old_or_new_removeTemporary)
      have target: "map_of (removeTemporary env tmp (last (d1 # ws))) base
          = (if after_rename err then Some data else map_of d base)"
        using fs(2) ne by (simp add: removeTemporary_def)
      have clean: "map_of (removeTemporary env tmp (last (d1 # ws))) n = None"
        if "\<forall>n. \<not> fail_remove env n" "HasPrefix n (temporaryPrefix base)" for n
        using that ss(3) [of n] None fs(4) [of n] temporary_not_base [of base]
        by (cases "n = base"; cases "n = tmp") (auto simp: removeTemporary_def delete_conv' d1_def update_conv')
      show ?thesis unfolding run using seen target clean by simp
    qed
  qed
qed

definition calm_env :: io_env where
  "calm_env = \<lparr>fail_readdir = False, fail_remove = (\<lambda>_. False), fail_create = False,
     fail_chmod = False, fail_write = None, fail_sync = False, fail_close = False,
     fail_rename = False, fail_dir_open = False, fail_dir_sync = False, fail_open = False,
     temp_random = ''7'', on_windows = False\<rparr>"

theorem atomic_write_old_or_new_witness:
  "case WriteFileAtomically calm_env ''s'' ''new'' [(''s'', ''old''), (''.s.tmp-1'', ''x'')] of
     (trace, err) \<Rightarrow> err = None \<and> map_of (last trace) ''s'' = Some ''new''
       \<and> map_of (last trace) ''.s.tmp-1'' = None \<and> (\<forall>t \<in> set trace. map_of t ''s'' \<noteq> None)"
  using atomic_write_old_or_new
    [where env = calm_env and base = "''s''" and data = "''new''"
      and d = "[(''s'', ''old''), (''.s.tmp-1'', ''x'')]"]
  by (simp add: WriteFileAtomically_def removeStaleTemporaries_def temporaryFiles_def
      temporaryPrefix_def HasPrefix_def calm_env_def fillTemporary_def syncDirectory_def
      file_rename_def removeTemporary_def Let_def)

text \<open>Writing in place is not atomic. Once \<open>writeConfig\<close> has opened the file, the first state
  another process can see holds an empty file, whatever was stored before; when encoding the value
  fails (or the extension is unknown and the code panics) that empty file is also what stays.\<close>

theorem writeConfig_truncates_first:
  assumes "\<not> fail_open env"
  shows "case writeConfig env yaml json path d of (trace, err) \<Rightarrow>
     trace \<noteq> [] \<and> map_of (hd trace) path = Some []
     \<and> (err = Some EncodeFailed \<or> err = Some PanicExtension \<longrightarrow> map_of (last trace) path = Some [])
     \<and> (err = None \<longrightarrow> (\<exists>bytes. map_of (last trace) path = Some bytes
          \<and> (yaml = Some bytes \<or> json = Some bytes)))"
  using assms
  by (auto simp: writeConfig_def Let_def update_conv' split: option.splits sum.splits if_splits)

theorem writeConfig_truncates_first_witness:
  "case writeConfig calm_env None None ''s.json'' [(''s.json'', ''old'')] of (trace, err) \<Rightarrow>
     err = Some EncodeFailed \<and> map_of (last trace) ''s.json'' = Some []"
  using writeConfig_truncates_first
    [where env = calm_env and yaml = None and json = None and path = "''s.json''"
      and d = "[(''s.json'', ''old'')]"]
  by (simp add: calm_env_def writeConfig_def filepath_Ext_def)

text \<open>What was written in place can be read back, when the decoder inverts the encoder.\<close>

lemma readConfig_writeConfig:
  assumes "writeConfig env yaml json path d = (trace, None)"
    and "\<And>bytes. yaml = Some bytes \<Longrightarrow> dyaml bytes = Some v"
    and "\<And>bytes. json = Some bytes \<Longrightarrow> djson bytes = Some v"
  shows "readConfig False dyaml djson path (last trace) = Inr v"
  using assms
  by (auto simp: writeConfig_def readConfig_def Let_def update_conv'
      split: option.splits sum.splits if_splits)

end
