(* ===== verification/Launcher_State.thy ===== *)
theory Launcher_State
  imports Config_Files
begin

text \<open>
  The persistent state of a deployment, \<^verbatim>\<open>src/internal/config/exasol_launcher_state.go\<close>: the
  workflow state, a Go union of pointers of which one should be set, the installed script language
  containers, and the file the state is kept in. The JSON form of the state is modelled as the tree
  of values that \<^verbatim>\<open>encoding/json\<close> produces from the struct tags and reads back from them.
\<close>

section \<open>Workflow states\<close>

text \<open>The value passed to \<open>SetWorkflowState\<close> and returned by \<open>GetWorkflowState\<close>, one constructor
  per \<^verbatim>\<open>WorkflowState*\<close> struct; \<open>NotAWorkflowState\<close> stands for a value of any other type.\<close>

datatype workflow =
    Initialized
  | is_OperationInProgress: OperationInProgress string
  | Interrupted string string
  | DeploymentFailed string
  | Running
  | Stopped
  | NotAWorkflowState

definition DeployOperation :: string where "DeployOperation = ''deploy''"
definition DestroyOperation :: string where "DestroyOperation = ''destroy''"
definition StartOperation :: string where "StartOperation = ''start''"
definition StopOperation :: string where "StopOperation = ''stop''"

lemmas operation_names = DeployOperation_def DestroyOperation_def StartOperation_def StopOperation_def

record WorkflowState =
  ws_Initialized :: "unit option"
  ws_OperationInProgress :: "string option"
  ws_Interrupted :: "(string \<times> string) option"
  ws_DeploymentFailed :: "string option"
  ws_Running :: "unit option"
  ws_Stopped :: "unit option"

definition no_workflow :: WorkflowState where
  "no_workflow = \<lparr>ws_Initialized = None, ws_OperationInProgress = None, ws_Interrupted = None,
     ws_DeploymentFailed = None, ws_Running = None, ws_Stopped = None\<rparr>"

record InstalledSLC =
  slc_Language :: string
  slc_Flavor :: string
  slc_Version :: string
  slc_Image :: string
  slc_Target :: string
  slc_Aliases :: "string list"

record InstalledCustomSLC =
  cslc_Alias :: string
  cslc_PackageAliases :: "string list"
  cslc_Language :: string
  cslc_Image :: string
  cslc_Target :: string
  cslc_Package :: string
  cslc_Sha256 :: string
  cslc_Source :: string
  cslc_Activated :: bool
  cslc_DisplacedURI :: string

text \<open>A \<^verbatim>\<open>time.Time\<close> is the number of nanoseconds since Go's zero time.\<close>

record ExasolPersonalState =
  CurrentWorkflowState :: WorkflowState
  DeploymentId :: string
  ClusterIdentity :: string
  DeploymentVersion :: string
  LastVersionCheck :: int
  VersionCheckEnabled :: bool
  InfrastructurePresetIdentity :: string
  InstallationPresetIdentity :: string
  CreatedAt :: int
  InstalledSLCs :: "InstalledSLC list"
  InstalledCustomSLCs :: "InstalledCustomSLC list"

definition zero_state :: ExasolPersonalState where
  "zero_state = \<lparr>CurrentWorkflowState = no_workflow, DeploymentId = [], ClusterIdentity = [],
     DeploymentVersion = [], LastVersionCheck = 0, VersionCheckEnabled = False,
     InfrastructurePresetIdentity = [], InstallationPresetIdentity = [], CreatedAt = 0,
     InstalledSLCs = [], InstalledCustomSLCs = []\<rparr>"

text \<open>The panic of the \<^verbatim>\<open>default\<close> case is \<^const>\<open>None\<close>.\<close>

definition workflow_union :: "workflow \<Rightarrow> WorkflowState option" where
  "workflow_union w =
     (case w of
        Initialized \<Rightarrow> Some (no_workflow\<lparr>ws_Initialized := Some ()\<rparr>)
      | OperationInProgress oper \<Rightarrow> Some (no_workflow\<lparr>ws_OperationInProgress := Some oper\<rparr>)
      | Interrupted err oper \<Rightarrow> Some (no_workflow\<lparr>ws_Interrupted := Some (err, oper)\<rparr>)
      | DeploymentFailed err \<Rightarrow> Some (no_workflow\<lparr>ws_DeploymentFailed := Some err\<rparr>)
      | Running \<Rightarrow> Some (no_workflow\<lparr>ws_Running := Some ()\<rparr>)
      | Stopped \<Rightarrow> Some (no_workflow\<lparr>ws_Stopped := Some ()\<rparr>)
      | NotAWorkflowState \<Rightarrow> None)"

definition SetWorkflowState :: "workflow \<Rightarrow> ExasolPersonalState \<Rightarrow> ExasolPersonalState option" where
  "SetWorkflowState w s = map_option (\<lambda>u. s\<lparr>CurrentWorkflowState := u\<rparr>) (workflow_union w)"

text \<open>\<^const>\<open>None\<close> is \<^verbatim>\<open>ErrNoWorkflowStateSet\<close>. The order of the tests is the code's.\<close>

definition GetWorkflowState :: "ExasolPersonalState \<Rightarrow> workflow option" where
  "GetWorkflowState s =
     (let u = CurrentWorkflowState s in
      if ws_Initialized u \<noteq> None then Some Initialized
      else case ws_OperationInProgress u of Some oper \<Rightarrow> Some (OperationInProgress oper) | None \<Rightarrow>
      if ws_Running u \<noteq> None then Some Running
      else if ws_Stopped u \<noteq> None then Some Stopped
      else case ws_Interrupted u of Some (err, oper) \<Rightarrow> Some (Interrupted err oper) | None \<Rightarrow>
      case ws_DeploymentFailed u of Some err \<Rightarrow> Some (DeploymentFailed err) | None \<Rightarrow> None)"

text \<open>How many fields of the union are set.\<close>

definition union_size :: "WorkflowState \<Rightarrow> nat" where
  "union_size u =
     length (filter id [ws_Initialized u \<noteq> None, ws_OperationInProgress u \<noteq> None,
       ws_Interrupted u \<noteq> None, ws_DeploymentFailed u \<noteq> None, ws_Running u \<noteq> None,
       ws_Stopped u \<noteq> None])"

lemma Get_Set_workflow:
  assumes "SetWorkflowState w s = Some s'"
  shows "GetWorkflowState s' = Some w"
  using assms
  by (cases w) (auto simp: SetWorkflowState_def GetWorkflowState_def workflow_union_def no_workflow_def)

lemma Set_workflow_total: "w \<noteq> NotAWorkflowState \<Longrightarrow> \<exists>s'. SetWorkflowState w s = Some s'"
  by (cases w) (simp_all add: SetWorkflowState_def workflow_union_def)

lemma Get_workflow_not_other: "GetWorkflowState s \<noteq> Some NotAWorkflowState"
  by (auto simp: GetWorkflowState_def Let_def split: option.splits prod.splits)

lemma union_size_Set: "SetWorkflowState w s = Some s' \<Longrightarrow> union_size (CurrentWorkflowState s') = 1"
  by (cases w) (auto simp: SetWorkflowState_def workflow_union_def union_size_def no_workflow_def)

text \<open>\<open>SetWorkflowState\<close> accepts every workflow state and leaves exactly one field of the union
  set, whatever was set before; \<open>GetWorkflowState\<close> then returns that state, and nothing else of the
  deployment's state changes. A state read with no field set is reported as an error, never as one
  of the workflow states.\<close>

theorem workflow_state_round_trip:
  "(w \<noteq> NotAWorkflowState \<longrightarrow>
      (\<exists>s'. SetWorkflowState w s = Some s' \<and> GetWorkflowState s' = Some w
         \<and> union_size (CurrentWorkflowState s') = 1
         \<and> s'\<lparr>CurrentWorkflowState := CurrentWorkflowState s\<rparr> = s))
   \<and> (union_size (CurrentWorkflowState s) = 0 \<longleftrightarrow> GetWorkflowState s = None)"
proof -
  have "GetWorkflowState s = None \<longleftrightarrow> union_size (CurrentWorkflowState s) = 0"
    by (auto simp: GetWorkflowState_def union_size_def Let_def split: option.splits)
  moreover have "s'\<lparr>CurrentWorkflowState := CurrentWorkflowState s\<rparr> = s"
    if "SetWorkflowState w s = Some s'" for s'
    using that by (auto simp: SetWorkflowState_def)
  ultimately show ?thesis
    using Set_workflow_total [of w s] Get_Set_workflow union_size_Set by metis
qed

theorem workflow_state_round_trip_witness:
  "\<exists>s'. SetWorkflowState Stopped (zero_state\<lparr>DeploymentId := ''d''\<rparr>) = Some s'
     \<and> GetWorkflowState s' = Some Stopped \<and> union_size (CurrentWorkflowState s') = 1"
  using workflow_state_round_trip [where w = Stopped and s = "zero_state\<lparr>DeploymentId := ''d''\<rparr>"]
  by auto

section \<open>The JSON form\<close>

text \<open>The values of a JSON document. A \<^verbatim>\<open>time.Time\<close> is written as an RFC 3339 string; its leaf keeps
  the instant that string denotes.\<close>

datatype json =
    JNull
  | JBool bool
  | JStr string
  | JTime int
  | JArr "json list"
  | JObj "(string \<times> json) list"

text \<open>\<^verbatim>\<open>omitempty\<close> and \<^verbatim>\<open>omitzero\<close> drop a member that has the zero value.\<close>

definition omit :: "bool \<Rightarrow> string \<Rightarrow> json \<Rightarrow> (string \<times> json) list" where
  "omit dropped key v = (if dropped then [] else [(key, v)])"

definition enc_strings :: "string list \<Rightarrow> json" where
  "enc_strings xs = (if xs = [] then JNull else JArr (map JStr xs))"

definition enc_WorkflowState :: "WorkflowState \<Rightarrow> json" where
  "enc_WorkflowState u = JObj
     (omit (ws_Initialized u = None) ''initialized'' (JObj [])
      @ omit (ws_OperationInProgress u = None) ''operationInProgress''
          (JObj [(''operation'', JStr (the (ws_OperationInProgress u)))])
      @ omit (ws_Interrupted u = None) ''interrupted''
          (JObj [(''error'', JStr (fst (the (ws_Interrupted u)))),
                 (''interruptedDuringOperation'', JStr (snd (the (ws_Interrupted u))))])
      @ omit (ws_DeploymentFailed u = None) ''deploymentFailed''
          (JObj [(''error'', JStr (the (ws_DeploymentFailed u)))])
      @ omit (ws_Running u = None) ''running'' (JObj [])
      @ omit (ws_Stopped u = None) ''stopped'' (JObj []))"

definition enc_InstalledSLC :: "InstalledSLC \<Rightarrow> json" where
  "enc_InstalledSLC i = JObj
     [(''language'', JStr (slc_Language i)), (''flavor'', JStr (slc_Flavor i)),
      (''version'', JStr (slc_Version i)), (''image'', JStr (slc_Image i)),
      (''target'', JStr (slc_Target i)), (''aliases'', enc_strings (slc_Aliases i))]"

definition enc_InstalledCustomSLC :: "InstalledCustomSLC \<Rightarrow> json" where
  "enc_InstalledCustomSLC i = JObj
     ([(''alias'', JStr (cslc_Alias i))]
      @ omit (cslc_PackageAliases i = []) ''packageAliases'' (enc_strings (cslc_PackageAliases i))
      @ [(''language'', JStr (cslc_Language i)), (''image'', JStr (cslc_Image i)),
         (''target'', JStr (cslc_Target i)), (''package'', JStr (cslc_Package i)),
         (''sha256'', JStr (cslc_Sha256 i)), (''source'', JStr (cslc_Source i)),
         (''activated'', JBool (cslc_Activated i))]
      @ omit (cslc_DisplacedURI i = []) ''displacedUri'' (JStr (cslc_DisplacedURI i)))"

definition enc_state :: "ExasolPersonalState \<Rightarrow> json" where
  "enc_state s = JObj
     ([(''currentWorkflowState'', enc_WorkflowState (CurrentWorkflowState s))]
      @ omit (DeploymentId s = []) ''deploymentId'' (JStr (DeploymentId s))
      @ omit (ClusterIdentity s = []) ''clusterIdentity'' (JStr (ClusterIdentity s))
      @ [(''deploymentVersion'', JStr (DeploymentVersion s)),
         (''lastVersionCheck'', JTime (LastVersionCheck s)),
         (''versionCheckEnabled'', JBool (VersionCheckEnabled s))]
      @ omit (InfrastructurePresetIdentity s = []) ''infrastructurePresetIdentity''
          (JStr (InfrastructurePresetIdentity s))
      @ omit (InstallationPresetIdentity s = []) ''installationPresetIdentity''
          (JStr (InstallationPresetIdentity s))
      @ omit (CreatedAt s = 0) ''createdAt'' (JTime (CreatedAt s))
      @ omit (InstalledSLCs s = []) ''installedSlcs'' (JArr (map enc_InstalledSLC (InstalledSLCs s)))
      @ omit (InstalledCustomSLCs s = []) ''installedCustomSlcs''
          (JArr (map enc_InstalledCustomSLC (InstalledCustomSLCs s))))"

text \<open>Reading: the members of an object are applied one after the other to the struct, by a key
  that matches without regard to case; unknown keys are skipped, \<^verbatim>\<open>null\<close> leaves a plain field as it
  is and clears a pointer or slice, and a value of the wrong kind is an error.\<close>

fun dec_members :: "(string \<Rightarrow> json \<Rightarrow> 'a \<Rightarrow> 'a option) \<Rightarrow> (string \<times> json) list \<Rightarrow> 'a \<Rightarrow> 'a option" where
  "dec_members f [] a = Some a"
| "dec_members f ((k, v) # ms) a = Option.bind (f k v a) (dec_members f ms)"

definition dec_object :: "(string \<Rightarrow> json \<Rightarrow> 'a \<Rightarrow> 'a option) \<Rightarrow> json \<Rightarrow> 'a \<Rightarrow> 'a option" where
  "dec_object f v a = (case v of JObj ms \<Rightarrow> dec_members f ms a | JNull \<Rightarrow> Some a | _ \<Rightarrow> None)"

definition dec_string :: "(string \<Rightarrow> 'a \<Rightarrow> 'a) \<Rightarrow> json \<Rightarrow> 'a \<Rightarrow> 'a option" where
  "dec_string upd v a = (case v of JStr s \<Rightarrow> Some (upd s a) | JNull \<Rightarrow> Some a | _ \<Rightarrow> None)"

definition dec_bool :: "(bool \<Rightarrow> 'a \<Rightarrow> 'a) \<Rightarrow> json \<Rightarrow> 'a \<Rightarrow> 'a option" where
  "dec_bool upd v a = (case v of JBool b \<Rightarrow> Some (upd b a) | JNull \<Rightarrow> Some a | _ \<Rightarrow> None)"

definition dec_time :: "(int \<Rightarrow> 'a \<Rightarrow> 'a) \<Rightarrow> json \<Rightarrow> 'a \<Rightarrow> 'a option" where
  "dec_time upd v a = (case v of JTime t \<Rightarrow> Some (upd t a) | JNull \<Rightarrow> Some a | _ \<Rightarrow> None)"

definition dec_slice :: "(json \<Rightarrow> 'b option) \<Rightarrow> ('b list \<Rightarrow> 'a \<Rightarrow> 'a) \<Rightarrow> json \<Rightarrow> 'a \<Rightarrow> 'a option" where
  "dec_slice dec upd v a =
     (case v of
        JArr vs \<Rightarrow> map_option (\<lambda>xs. upd xs a) (those (map dec vs))
      | JNull \<Rightarrow> Some (upd [] a)
      | _ \<Rightarrow> None)"

definition dec_strings :: "(string list \<Rightarrow> 'a \<Rightarrow> 'a) \<Rightarrow> json \<Rightarrow> 'a \<Rightarrow> 'a option" where
  "dec_strings = dec_slice (\<lambda>v. dec_string (\<lambda>s _. s) v [])"

text \<open>A pointer field: \<^verbatim>\<open>null\<close> clears it; otherwise the object is read into the struct the pointer
  has, or into a new zero struct.\<close>

definition dec_pointer ::
  "(string \<Rightarrow> json \<Rightarrow> 'b \<Rightarrow> 'b option) \<Rightarrow> 'b \<Rightarrow> 'b option \<Rightarrow> ('b option \<Rightarrow> 'a \<Rightarrow> 'a) \<Rightarrow> json \<Rightarrow> 'a \<Rightarrow> 'a option"
where
  "dec_pointer f zero cur upd v a =
     (if v = JNull then Some (upd None a)
      else map_option (\<lambda>b. upd (Some b) a)
        (dec_object f v (case cur of None \<Rightarrow> zero | Some b \<Rightarrow> b)))"

definition dec_WorkflowState_member :: "string \<Rightarrow> json \<Rightarrow> WorkflowState \<Rightarrow> WorkflowState option" where
  "dec_WorkflowState_member k v u =
     (if EqualFold k ''initialized'' then
        dec_pointer (\<lambda>_ _ b. Some b) () (ws_Initialized u) (\<lambda>p. ws_Initialized_update (\<lambda>_. p)) v u
      else if EqualFold k ''operationInProgress'' then
        dec_pointer (\<lambda>k v b. if EqualFold k ''operation'' then dec_string (\<lambda>s _. s) v b else Some b)
          [] (ws_OperationInProgress u) (\<lambda>p. ws_OperationInProgress_update (\<lambda>_. p)) v u
      else if EqualFold k ''interrupted'' then
        dec_pointer (\<lambda>k v b. if EqualFold k ''error'' then dec_string (\<lambda>s b. (s, snd b)) v b
            else if EqualFold k ''interruptedDuringOperation'' then dec_string (\<lambda>s b. (fst b, s)) v b
            else Some b)
          ([], []) (ws_Interrupted u) (\<lambda>p. ws_Interrupted_update (\<lambda>_. p)) v u
      else if EqualFold k ''deploymentFailed'' then
        dec_pointer (\<lambda>k v b. if EqualFold k ''error'' then dec_string (\<lambda>s _. s) v b else Some b)
          [] (ws_DeploymentFailed u) (\<lambda>p. ws_DeploymentFailed_update (\<lambda>_. p)) v u
      else if EqualFold k ''running'' then
        dec_pointer (\<lambda>_ _ b. Some b) () (ws_Running u) (\<lambda>p. ws_Running_update (\<lambda>_. p)) v u
      else if EqualFold k ''stopped'' then
        dec_pointer (\<lambda>_ _ b. Some b) () (ws_Stopped u) (\<lambda>p. ws_Stopped_update (\<lambda>_. p)) v u
      else Some u)"

definition dec_InstalledSLC_member :: "string \<Rightarrow> json \<Rightarrow> InstalledSLC \<Rightarrow> InstalledSLC option" where
  "dec_InstalledSLC_member k v i =
     (if EqualFold k ''language'' then dec_string (\<lambda>x. slc_Language_update (\<lambda>_. x)) v i
      else if EqualFold k ''flavor'' then dec_string (\<lambda>x. slc_Flavor_update (\<lambda>_. x)) v i
      else if EqualFold k ''version'' then dec_string (\<lambda>x. slc_Version_update (\<lambda>_. x)) v i
      else if EqualFold k ''image'' then dec_string (\<lambda>x. slc_Image_update (\<lambda>_. x)) v i
      else if EqualFold k ''target'' then dec_string (\<lambda>x. slc_Target_update (\<lambda>_. x)) v i
      else if EqualFold k ''aliases'' then dec_strings (\<lambda>x. slc_Aliases_update (\<lambda>_. x)) v i
      else Some i)"

definition dec_InstalledSLC :: "json \<Rightarrow> InstalledSLC option" where
  "dec_InstalledSLC v = dec_object dec_InstalledSLC_member v
     \<lparr>slc_Language = [], slc_Flavor = [], slc_Version = [], slc_Image = [], slc_Target = [],
      slc_Aliases = []\<rparr>"

definition dec_InstalledCustomSLC_member ::
  "string \<Rightarrow> json \<Rightarrow> InstalledCustomSLC \<Rightarrow> InstalledCustomSLC option"
where
  "dec_InstalledCustomSLC_member k v i =
     (if EqualFold k ''alias'' then dec_string (\<lambda>x. cslc_Alias_update (\<lambda>_. x)) v i
      else if EqualFold k ''packageAliases'' then dec_strings (\<lambda>x. cslc_PackageAliases_update (\<lambda>_. x)) v i
      else if EqualFold k ''language'' then dec_string (\<lambda>x. cslc_Language_update (\<lambda>_. x)) v i
      else if EqualFold k ''image'' then dec_string (\<lambda>x. cslc_Image_update (\<lambda>_. x)) v i
      else if EqualFold k ''target'' then dec_string (\<lambda>x. cslc_Target_update (\<lambda>_. x)) v i
      else if EqualFold k ''package'' then dec_string (\<lambda>x. cslc_Package_update (\<lambda>_. x)) v i
      else if EqualFold k ''sha256'' then dec_string (\<lambda>x. cslc_Sha256_update (\<lambda>_. x)) v i
      else if EqualFold k ''source'' then dec_string (\<lambda>x. cslc_Source_update (\<lambda>_. x)) v i
      else if EqualFold k ''activated'' then dec_bool (\<lambda>x. cslc_Activated_update (\<lambda>_. x)) v i
      else if EqualFold k ''displacedUri'' then dec_string (\<lambda>x. cslc_DisplacedURI_update (\<lambda>_. x)) v i
      else Some i)"

definition dec_InstalledCustomSLC :: "json \<Rightarrow> InstalledCustomSLC option" where
  "dec_InstalledCustomSLC v = dec_object dec_InstalledCustomSLC_member v
     \<lparr>cslc_Alias = [], cslc_PackageAliases = [], cslc_Language = [], cslc_Image = [],
      cslc_Target = [], cslc_Package = [], cslc_Sha256 = [], cslc_Source = [],
      cslc_Activated = False, cslc_DisplacedURI = []\<rparr>"

definition dec_state_member :: "string \<Rightarrow> json \<Rightarrow> ExasolPersonalState \<Rightarrow> ExasolPersonalState option" where
  "dec_state_member k v s =
     (if EqualFold k ''currentWorkflowState'' then
        map_option (\<lambda>u. s\<lparr>CurrentWorkflowState := u\<rparr>)
          (dec_object dec_WorkflowState_member v (CurrentWorkflowState s))
      else if EqualFold k ''deploymentId'' then dec_string (\<lambda>x. DeploymentId_update (\<lambda>_. x)) v s
      else if EqualFold k ''clusterIdentity'' then dec_string (\<lambda>x. ClusterIdentity_update (\<lambda>_. x)) v s
      else if EqualFold k ''deploymentVersion'' then
        dec_string (\<lambda>x. DeploymentVersion_update (\<lambda>_. x)) v s
      else if EqualFold k ''lastVersionCheck'' then dec_time (\<lambda>x. LastVersionCheck_update (\<lambda>_. x)) v s
      else if EqualFold k ''versionCheckEnabled'' then
        dec_bool (\<lambda>x. VersionCheckEnabled_update (\<lambda>_. x)) v s
      else if EqualFold k ''infrastructurePresetIdentity'' then
        dec_string (\<lambda>x. InfrastructurePresetIdentity_update (\<lambda>_. x)) v s
      else if EqualFold k ''installationPresetIdentity'' then
        dec_string (\<lambda>x. InstallationPresetIdentity_update (\<lambda>_. x)) v s
      else if EqualFold k ''createdAt'' then dec_time (\<lambda>x. CreatedAt_update (\<lambda>_. x)) v s
      else if EqualFold k ''installedSlcs'' then
        dec_slice dec_InstalledSLC (\<lambda>x. InstalledSLCs_update (\<lambda>_. x)) v s
      else if EqualFold k ''installedCustomSlcs'' then
        dec_slice dec_InstalledCustomSLC (\<lambda>x. InstalledCustomSLCs_update (\<lambda>_. x)) v s
      else Some s)"

definition dec_state :: "json \<Rightarrow> ExasolPersonalState option" where
  "dec_state v = dec_object dec_state_member v zero_state"

section \<open>The JSON round trip\<close>

lemma ToLower_keys:
  "ToLower ''initialized'' = ''initialized''"
  "ToLower ''operationInProgress'' = ''operationinprogress''"
  "ToLower ''interrupted'' = ''interrupted''"
  "ToLower ''deploymentFailed'' = ''deploymentfailed''"
  "ToLower ''running'' = ''running''"
  "ToLower ''stopped'' = ''stopped''"
  "ToLower ''operation'' = ''operation''"
  "ToLower ''error'' = ''error''"
  "ToLower ''interruptedDuringOperation'' = ''interruptedduringoperation''"
  "ToLower ''language'' = ''language''"
  "ToLower ''flavor'' = ''flavor''"
  "ToLower ''version'' = ''version''"
  "ToLower ''image'' = ''image''"
  "ToLower ''target'' = ''target''"
  "ToLower ''aliases'' = ''aliases''"
  "ToLower ''alias'' = ''alias''"
  "ToLower ''packageAliases'' = ''packagealiases''"
  "ToLower ''package'' = ''package''"
  "ToLower ''sha256'' = ''sha256''"
  "ToLower ''source'' = ''source''"
  "ToLower ''activated'' = ''activated''"
  "ToLower ''displacedUri'' = ''displaceduri''"
  "ToLower ''currentWorkflowState'' = ''currentworkflowstate''"
  "ToLower ''deploymentId'' = ''deploymentid''"
  "ToLower ''clusterIdentity'' = ''clusteridentity''"
  "ToLower ''deploymentVersion'' = ''deploymentversion''"
  "ToLower ''lastVersionCheck'' = ''lastversioncheck''"
  "ToLower ''versionCheckEnabled'' = ''versioncheckenabled''"
  "ToLower ''infrastructurePresetIdentity'' = ''infrastructurepresetidentity''"
  "ToLower ''installationPresetIdentity'' = ''installationpresetidentity''"
  "ToLower ''createdAt'' = ''createdat''"
  "ToLower ''installedSlcs'' = ''installedslcs''"
  "ToLower ''installedCustomSlcs'' = ''installedcustomslcs''"
  by code_simp+

lemma EqualFold_key: "EqualFold k k' \<longleftrightarrow> ToLower k = ToLower k'"
  by (rule EqualFold_def)

lemmas json_key_simps = EqualFold_key ToLower_keys

lemma dec_members_append [simp]:
  "dec_members f (ms @ ms') a = Option.bind (dec_members f ms a) (dec_members f ms')"
  by (induction ms arbitrary: a) (auto split: Option.bind_splits)

lemma dec_members_omit:
  assumes "\<not> dropped \<Longrightarrow> f key v a = Some a'" and "dropped \<Longrightarrow> a' = a"
  shows "dec_members f (omit dropped key v) a = Some a'"
  using assms by (cases dropped) (simp_all add: omit_def)

lemma dec_object_JObj [simp]: "dec_object f (JObj ms) a = dec_members f ms a"
  by (simp add: dec_object_def)

lemma dec_scalars [simp]:
  "dec_string upd (JStr x) a = Some (upd x a)"
  "dec_bool updb (JBool b) a = Some (updb b a)"
  "dec_time updt (JTime t) a = Some (updt t a)"
  by (simp_all add: dec_string_def dec_bool_def dec_time_def)

lemma those_map_Some: "(\<And>x. x \<in> set xs \<Longrightarrow> f x = Some x) \<Longrightarrow> those (map f xs) = Some xs"
  by (induction xs) auto

lemma those_map_enc: "(\<And>x. dec (enc x) = Some x) \<Longrightarrow> those (map (dec \<circ> enc) xs) = Some xs"
  by (rule those_map_Some) simp

lemma dec_slice_enc [simp]:
  "(\<And>x. dec (enc x) = Some x) \<Longrightarrow> dec_slice dec upd (JArr (map enc xs)) a = Some (upd xs a)"
  by (simp add: dec_slice_def those_map_enc)

lemma dec_enc_strings [simp]: "dec_strings upd (enc_strings xs) a = Some (upd xs a)"
  by (simp add: dec_strings_def enc_strings_def dec_slice_def those_map_enc comp_def those_map_Some)

lemma dec_enc_InstalledSLC [simp]: "dec_InstalledSLC (enc_InstalledSLC i) = Some i"
  by (simp add: dec_InstalledSLC_def enc_InstalledSLC_def dec_InstalledSLC_member_def
      json_key_simps)

lemma dec_enc_InstalledCustomSLC [simp]: "dec_InstalledCustomSLC (enc_InstalledCustomSLC i) = Some i"
  by (cases i) (simp add: dec_InstalledCustomSLC_def enc_InstalledCustomSLC_def omit_def
      dec_InstalledCustomSLC_member_def json_key_simps)

lemma dec_enc_WorkflowState [simp]:
  "dec_object dec_WorkflowState_member (enc_WorkflowState u) no_workflow = Some u"
  by (cases u) (auto simp: enc_WorkflowState_def omit_def no_workflow_def dec_pointer_def
      dec_WorkflowState_member_def json_key_simps)

text \<open>C37: the JSON form of the deployment state loses nothing: reading back what was written gives
  the same state, with every installed container and the workflow state, although zero-valued
  fields are left out of the document.\<close>

theorem state_json_round_trip: "dec_state (enc_state s) = Some s"
  by (cases s) (simp add: dec_state_def enc_state_def omit_def dec_state_member_def
      zero_state_def json_key_simps)

section \<open>The state file\<close>

text \<open>What is on disk under \<^verbatim>\<open>.exasolLauncherState.json\<close>: nothing, a file that does not decode, or
  a state. A write succeeds, fails to open the file, or fails after the file was truncated.\<close>

definition ExasolPersonalStateFileName :: string where
  "ExasolPersonalStateFileName = ''.exasolLauncherState.json''"

datatype state_file = NoStateFile | UnreadableState | StoredState ExasolPersonalState

datatype write_outcome = WriteOk | WriteOpenFails | WriteTruncates

definition WriteExasolPersonalState ::
  "write_outcome \<Rightarrow> ExasolPersonalState \<Rightarrow> state_file \<Rightarrow> state_file \<times> config_error option"
where
  "WriteExasolPersonalState w s f =
     (case w of
        WriteOk \<Rightarrow> (StoredState s, None)
      | WriteOpenFails \<Rightarrow> (f, Some OpenFailed)
      | WriteTruncates \<Rightarrow> (UnreadableState, Some WriteFailed))"

definition ReadExasolPersonalState :: "state_file \<Rightarrow> (config_error, ExasolPersonalState) result" where
  "ReadExasolPersonalState f =
     (case f of
        NoStateFile \<Rightarrow> Inl ErrMissingConfigFile
      | UnreadableState \<Rightarrow> Inl DecodeFailed
      | StoredState s \<Rightarrow> Inr s)"

text \<open>\<open>SetWorkflowStateAndWrite\<close> returns the updated state, which the caller holds by pointer, the
  file and the error. The states the code passes are never \<^const>\<open>NotAWorkflowState\<close>; there the
  call panics before anything is written, modelled as no change.\<close>

definition SetWorkflowStateAndWrite ::
  "write_outcome \<Rightarrow> workflow \<Rightarrow> ExasolPersonalState \<Rightarrow> state_file
     \<Rightarrow> ExasolPersonalState \<times> state_file \<times> config_error option"
where
  "SetWorkflowStateAndWrite wo w s f =
     (case SetWorkflowState w s of
        None \<Rightarrow> (s, f, None)
      | Some s' \<Rightarrow> (s', WriteExasolPersonalState wo s' f))"

text \<open>\<open>HasExasolPersonalStateFile\<close>: a directory of that name is not a state file.\<close>

datatype stat_result = StatFile | StatDirectory | StatNotExist | StatFails

definition HasExasolPersonalStateFile :: "stat_result \<Rightarrow> bool option" where
  "HasExasolPersonalStateFile st =
     (case st of StatFile \<Rightarrow> Some True | StatDirectory \<Rightarrow> Some False
      | StatNotExist \<Rightarrow> Some False | StatFails \<Rightarrow> None)"

text \<open>These three outcomes are those of \<^const>\<open>writeConfig\<close>, seen through a decoder that reads back
  an encoded state and rejects every proper prefix of one, as the decoder of a JSON object does.\<close>

definition abs_state_file :: "(string \<Rightarrow> ExasolPersonalState option) \<Rightarrow> files \<Rightarrow> state_file" where
  "abs_state_file dec d =
     (case map_of d ExasolPersonalStateFileName of
        None \<Rightarrow> NoStateFile
      | Some bytes \<Rightarrow> (case dec bytes of None \<Rightarrow> UnreadableState | Some s \<Rightarrow> StoredState s))"

definition write_outcome_of :: "io_env \<Rightarrow> write_outcome" where
  "write_outcome_of env =
     (if fail_open env then WriteOpenFails
      else case fail_write env of None \<Rightarrow> WriteOk | Some n \<Rightarrow> WriteTruncates)"

lemma state_write_refines_writeConfig:
  assumes "\<And>s. dec (enc s) = Some s" and "\<And>s n. n < length (enc s) \<Longrightarrow> dec (take n (enc s)) = None"
    and "\<And>n. fail_write env = Some n \<Longrightarrow> n < length (enc s)"
    and "writeConfig env yaml (Some (enc s)) ExasolPersonalStateFileName d = (trace, err)"
  shows "(abs_state_file dec (last (d # trace)), err)
    = WriteExasolPersonalState (write_outcome_of env) s (abs_state_file dec d)"
proof -
  have ext: "filepath_Ext ExasolPersonalStateFileName = ''.json''"
    by (simp add: filepath_Ext_def ExasolPersonalStateFileName_def)
  show ?thesis
    using assms
    by (auto simp: writeConfig_def ext Let_def WriteExasolPersonalState_def abs_state_file_def
        write_outcome_of_def update_conv' split: if_splits option.splits)
qed

lemma Read_after_Write: "ReadExasolPersonalState (fst (WriteExasolPersonalState WriteOk s f)) = Inr s"
  by (simp add: ReadExasolPersonalState_def WriteExasolPersonalState_def)

end
