(* ===== verification/Compatibility.thy ===== *)
theory Compatibility
  imports Launcher_State "HOL-Library.Product_Lexorder"
begin

text \<open>
  Whether a command may operate on a deployment directory, \<^verbatim>\<open>src/internal/compatibility/\<close> with the
  version marker of \<^verbatim>\<open>src/internal/config/deployment_version_marker.go\<close>. The version type is the
  public struct of the library \<^verbatim>\<open>blang/semver\<close>; its \<open>Parse\<close>, \<open>GT\<close> and \<open>LT\<close> are parameters, and
  what the code relies on is the documented precedence of versions without a prerelease part.
\<close>

section \<open>Versions\<close>

record semver_version =
  Major :: nat
  Minor :: nat
  Patch :: nat
  Pre :: "string list"
  Build :: "string list"

record semver_lib =
  sv_Parse :: "string \<Rightarrow> semver_version option"
  sv_GT :: "semver_version \<Rightarrow> semver_version \<Rightarrow> bool"
  sv_LT :: "semver_version \<Rightarrow> semver_version \<Rightarrow> bool"

definition version_core :: "semver_version \<Rightarrow> nat \<times> nat \<times> nat" where
  "version_core v = (Major v, Minor v, Patch v)"

text \<open>The documented precedence: two versions without prerelease identifiers compare by major, then
  minor, then patch number; build metadata does not count.\<close>

definition semver_precedence :: "semver_lib \<Rightarrow> bool" where
  "semver_precedence lib \<longleftrightarrow>
     (\<forall>v w. Pre v = [] \<and> Pre w = [] \<longrightarrow>
        (sv_GT lib v w \<longleftrightarrow> version_core w < version_core v)
        \<and> (sv_LT lib v w \<longleftrightarrow> version_core v < version_core w))"

section \<open>The check\<close>

datatype Reason = ReasonDeploymentNewerThanLauncher | ReasonDeploymentTooOld

datatype Action = ActionUpgradeLauncher | ActionUseCompatibleLauncher

record Requirement =
  CommandName :: string
  MinSupportedDeploymentVersion :: string

datatype version_cause = VersionMissing | VersionUnparsable

datatype compat_error =
    IncompatibleError semver_version semver_version semver_version string Reason Action
  | InvalidVersionError string string version_cause
  | StatFailed
  | LegacyDeploymentLayout
  | DeploymentNotInitialized
  | MarkerReadFailed
  | DeploymentVersionMarkerMissing
  | DeploymentVersionMarkerEmpty

definition parseRequiredVersion ::
  "semver_lib \<Rightarrow> string \<Rightarrow> string \<Rightarrow> (compat_error, semver_version) result"
where
  "parseRequiredVersion lib raw label =
     (if raw = [] then Inl (InvalidVersionError label raw VersionMissing)
      else case sv_Parse lib raw of
        None \<Rightarrow> Inl (InvalidVersionError label raw VersionUnparsable)
      | Some ver \<Rightarrow> Inr (ver\<lparr>Pre := [], Build := []\<rparr>))"

text \<open>\<open>Check\<close>: \<^const>\<open>None\<close> is \<^verbatim>\<open>Result{Allowed: true}\<close>, an error is \<^verbatim>\<open>Result{Allowed: false, Err: e}\<close>.\<close>

definition Check :: "semver_lib \<Rightarrow> string \<Rightarrow> string \<Rightarrow> Requirement \<Rightarrow> compat_error option" where
  "Check lib deploymentVersion launcherVersion req =
     (case parseRequiredVersion lib deploymentVersion ''deployment version'' of Inl e \<Rightarrow> Some e
      | Inr depV \<Rightarrow>
     (case parseRequiredVersion lib launcherVersion ''launcher version'' of Inl e \<Rightarrow> Some e
      | Inr launchV \<Rightarrow>
     (case parseRequiredVersion lib (MinSupportedDeploymentVersion req)
             ''minimum supported deployment version'' of Inl e \<Rightarrow> Some e
      | Inr minV \<Rightarrow>
         if sv_GT lib depV launchV then
           Some (IncompatibleError depV launchV minV (CommandName req)
             ReasonDeploymentNewerThanLauncher ActionUpgradeLauncher)
         else if sv_LT lib depV minV then
           Some (IncompatibleError depV launchV minV (CommandName req)
             ReasonDeploymentTooOld ActionUseCompatibleLauncher)
         else None)))"

section \<open>The deployment directory\<close>

text \<open>What the check looks at in the directory: the state file, the state file of the legacy layout
  and the content of the version marker (\<open>MarkerFails\<close>: it cannot be read).\<close>

datatype marker_file = NoMarker | MarkerFails | Marker string

record compat_dir =
  cd_state :: stat_result
  cd_legacy :: stat_result
  cd_marker :: marker_file

datatype DeploymentDirInitializationRequirement =
    DeploymentDirMayBeUninitialized
  | DeploymentDirMustBeInitialized

definition ReadDeploymentVersionMarker :: "compat_dir \<Rightarrow> (compat_error, string option) result" where
  "ReadDeploymentVersionMarker d =
     (case cd_marker d of
        NoMarker \<Rightarrow> Inr None
      | MarkerFails \<Rightarrow> Inl MarkerReadFailed
      | Marker content \<Rightarrow> Inr (Some (TrimSpace content)))"

definition WriteDeploymentVersionMarker :: "string \<Rightarrow> compat_dir \<Rightarrow> compat_dir" where
  "WriteDeploymentVersionMarker deploymentVersion d =
     d\<lparr>cd_marker := Marker (TrimSpace deploymentVersion)\<rparr>"

definition readDeploymentVersionMarker :: "compat_dir \<Rightarrow> (compat_error, string) result" where
  "readDeploymentVersionMarker d =
     (case ReadDeploymentVersionMarker d of
        Inl e \<Rightarrow> Inl e
      | Inr None \<Rightarrow> Inl DeploymentVersionMarkerMissing
      | Inr (Some ver) \<Rightarrow> if ver = [] then Inl DeploymentVersionMarkerEmpty else Inr ver)"

definition legacyWorkflowStateExists :: "compat_dir \<Rightarrow> (compat_error, bool) result" where
  "legacyWorkflowStateExists d =
     (case cd_legacy d of
        StatFile \<Rightarrow> Inr True | StatDirectory \<Rightarrow> Inr True
      | StatNotExist \<Rightarrow> Inr False | StatFails \<Rightarrow> Inl StatFailed)"

definition handleUninitializedDeploymentDir ::
  "compat_dir \<Rightarrow> DeploymentDirInitializationRequirement \<Rightarrow> compat_error option"
where
  "handleUninitializedDeploymentDir d initReq =
     (case legacyWorkflowStateExists d of
        Inl e \<Rightarrow> Some e
      | Inr legacy \<Rightarrow>
          if legacy then Some LegacyDeploymentLayout
          else if initReq = DeploymentDirMayBeUninitialized then None
          else Some DeploymentNotInitialized)"

definition EnforceDeploymentDirectoryCompatibility ::
  "semver_lib \<Rightarrow> compat_dir \<Rightarrow> string \<Rightarrow> Requirement \<Rightarrow> DeploymentDirInitializationRequirement
     \<Rightarrow> compat_error option"
where
  "EnforceDeploymentDirectoryCompatibility lib d launcherVersion req initReq =
     (case HasExasolPersonalStateFile (cd_state d) of
        None \<Rightarrow> Some StatFailed
      | Some initialized \<Rightarrow>
          if \<not> initialized then handleUninitializedDeploymentDir d initReq
          else case readDeploymentVersionMarker d of
            Inl e \<Rightarrow> Some e
          | Inr deploymentVersion \<Rightarrow> Check lib deploymentVersion launcherVersion req)"

section \<open>Properties\<close>

text \<open>The numbers of a version string, when the library parses it.\<close>

definition core_of :: "semver_lib \<Rightarrow> string \<Rightarrow> (nat \<times> nat \<times> nat) option" where
  "core_of lib raw = (if raw = [] then None else map_option version_core (sv_Parse lib raw))"

lemma parseRequiredVersion_Inr:
  assumes "parseRequiredVersion lib raw label = Inr v"
  shows "core_of lib raw = Some (version_core v) \<and> Pre v = []"
  using assms by (auto simp: parseRequiredVersion_def core_of_def version_core_def split: if_splits option.splits)

lemma parseRequiredVersion_Inl:
  assumes "parseRequiredVersion lib raw label = Inl e"
  shows "core_of lib raw = None \<and> (\<exists>c. e = InvalidVersionError label raw c)"
  using assms by (auto simp: parseRequiredVersion_def core_of_def split: if_splits option.splits)

lemma precedence_GT:
  "semver_precedence lib \<Longrightarrow> Pre v = [] \<Longrightarrow> Pre w = [] \<Longrightarrow> sv_GT lib v w \<longleftrightarrow> version_core w < version_core v"
  by (simp add: semver_precedence_def)

lemma precedence_LT:
  "semver_precedence lib \<Longrightarrow> Pre v = [] \<Longrightarrow> Pre w = [] \<Longrightarrow> sv_LT lib v w \<longleftrightarrow> version_core v < version_core w"
  by (simp add: semver_precedence_def)

lemma Check_cases:
  assumes "semver_precedence lib"
  obtains e where "Check lib dep launcher req = Some (InvalidVersionError (fst e) (fst (snd e)) (snd (snd e)))"
      and "core_of lib dep = None \<or> core_of lib launcher = None
        \<or> core_of lib (MinSupportedDeploymentVersion req) = None"
  | dv lv mv where "core_of lib dep = Some (version_core dv)" "core_of lib launcher = Some (version_core lv)"
      "core_of lib (MinSupportedDeploymentVersion req) = Some (version_core mv)"
      "Check lib dep launcher req =
        (if version_core lv < version_core dv then
           Some (IncompatibleError dv lv mv (CommandName req)
             ReasonDeploymentNewerThanLauncher ActionUpgradeLauncher)
         else if version_core dv < version_core mv then
           Some (IncompatibleError dv lv mv (CommandName req)
             ReasonDeploymentTooOld ActionUseCompatibleLauncher)
         else None)"
proof -
  define pd where "pd = parseRequiredVersion lib dep ''deployment version''"
  define pl where "pl = parseRequiredVersion lib launcher ''launcher version''"
  define pm where "pm = parseRequiredVersion lib (MinSupportedDeploymentVersion req)
    ''minimum supported deployment version''"
  note chk = Check_def [of lib dep launcher req, folded pd_def pl_def pm_def]
  note Inl = parseRequiredVersion_Inl [of lib _ _]
  consider e where "pd = Inl e" | dv e where "pd = Inr dv" "pl = Inl e"
    | dv lv e where "pd = Inr dv" "pl = Inr lv" "pm = Inl e"
    | dv lv mv where "pd = Inr dv" "pl = Inr lv" "pm = Inr mv"
    by (cases pd; cases pl; cases pm) auto
  then show thesis
  proof cases
    case 1
    with Inl [OF 1 [unfolded pd_def]] chk that(1) show ?thesis by fastforce
  next
    case 2
    with Inl [OF 2(2) [unfolded pl_def]] chk that(1) show ?thesis by fastforce
  next
    case 3
    with Inl [OF 3(3) [unfolded pm_def]] chk that(1) show ?thesis by fastforce
  next
    case 4
    note ok = parseRequiredVersion_Inr [OF 4(1) [unfolded pd_def]]
      parseRequiredVersion_Inr [OF 4(2) [unfolded pl_def]]
      parseRequiredVersion_Inr [OF 4(3) [unfolded pm_def]]
    show ?thesis
      using ok that(2) [of dv lv mv] chk 4 precedence_GT [OF assms, of dv lv]
        precedence_LT [OF assms, of dv mv] by simp
  qed
qed

lemma Check_allowed:
  assumes "semver_precedence lib"
  shows "Check lib dep launcher req = None \<longleftrightarrow>
    (\<exists>d l m. core_of lib dep = Some d \<and> core_of lib launcher = Some l
       \<and> core_of lib (MinSupportedDeploymentVersion req) = Some m \<and> m \<le> d \<and> d \<le> l)"
  by (rule Check_cases [OF assms, of dep launcher req]) (auto simp: not_less split: if_splits)

lemma Check_newer:
  assumes "semver_precedence lib" and "core_of lib dep = Some d" and "core_of lib launcher = Some l"
    and "core_of lib (MinSupportedDeploymentVersion req) = Some m" and "l < d"
  shows "\<exists>dv lv mv. Check lib dep launcher req = Some (IncompatibleError dv lv mv (CommandName req)
    ReasonDeploymentNewerThanLauncher ActionUpgradeLauncher)"
  by (rule Check_cases [OF assms(1), of dep launcher req]) (use assms(2-5) in auto)

text \<open>C40: a command proceeds on a directory exactly when either the directory holds no deployment,
  not even one of the legacy layout, and the command accepts that, or the directory's version
  marker, the launcher's version and the command's minimum all parse and the deployment's version
  numbers lie between the minimum and the launcher's, ends included. In particular a deployment
  newer than the launcher is never operated on.\<close>

theorem enforce_iff_in_range:
  assumes "semver_precedence lib"
  shows "EnforceDeploymentDirectoryCompatibility lib dir launcher req initReq = None \<longleftrightarrow>
    (if HasExasolPersonalStateFile (cd_state dir) = Some True then
       (\<exists>content d l m. cd_marker dir = Marker content
          \<and> core_of lib (TrimSpace content) = Some d \<and> core_of lib launcher = Some l
          \<and> core_of lib (MinSupportedDeploymentVersion req) = Some m \<and> m \<le> d \<and> d \<le> l)
     else cd_state dir \<noteq> StatFails \<and> cd_legacy dir = StatNotExist
       \<and> initReq = DeploymentDirMayBeUninitialized)"
proof (cases "HasExasolPersonalStateFile (cd_state dir) = Some True")
  case True
  show ?thesis
  proof (cases "cd_marker dir")
    case (Marker content)
    show ?thesis
    proof (cases "TrimSpace content = []")
      case True
      then show ?thesis
        using Marker \<open>HasExasolPersonalStateFile (cd_state dir) = Some True\<close>
        by (simp add: EnforceDeploymentDirectoryCompatibility_def readDeploymentVersionMarker_def
            ReadDeploymentVersionMarker_def core_of_def)
    next
      case False
      then show ?thesis
        using Marker \<open>HasExasolPersonalStateFile (cd_state dir) = Some True\<close> Check_allowed [OF assms]
        by (simp add: EnforceDeploymentDirectoryCompatibility_def readDeploymentVersionMarker_def
            ReadDeploymentVersionMarker_def)
    qed
  qed (use True in \<open>simp_all add: EnforceDeploymentDirectoryCompatibility_def
      readDeploymentVersionMarker_def ReadDeploymentVersionMarker_def\<close>)
next
  case False
  then show ?thesis
    by (cases "cd_state dir"; cases "cd_legacy dir")
      (simp_all add: EnforceDeploymentDirectoryCompatibility_def HasExasolPersonalStateFile_def
        handleUninitializedDeploymentDir_def legacyWorkflowStateExists_def)
qed

text \<open>A concrete library: versions are three one-digit numbers separated by dots, with an optional
  tail after a dash.\<close>

definition digit_version :: "string \<Rightarrow> semver_version option" where
  "digit_version s =
     (if length s \<ge> 5 \<and> is_digit (s ! 0) \<and> s ! 1 = CHR ''.'' \<and> is_digit (s ! 2) \<and> s ! 3 = CHR ''.''
         \<and> is_digit (s ! 4) \<and> (length s = 5 \<or> s ! 5 = CHR ''-'')
      then Some \<lparr>Major = char_digit (s ! 0), Minor = char_digit (s ! 2), Patch = char_digit (s ! 4),
        Pre = (if length s = 5 then [] else [drop 6 s]), Build = []\<rparr>
      else None)"

definition digit_semver :: semver_lib where
  "digit_semver = \<lparr>sv_Parse = digit_version,
     sv_GT = (\<lambda>v w. version_core w < version_core v),
     sv_LT = (\<lambda>v w. version_core v < version_core w)\<rparr>"

lemma digit_semver_precedence: "semver_precedence digit_semver"
  by (simp add: semver_precedence_def digit_semver_def)

definition sample_compat_dir :: "string \<Rightarrow> compat_dir" where
  "sample_compat_dir v = \<lparr>cd_state = StatFile, cd_legacy = StatNotExist, cd_marker = Marker v\<rparr>"

theorem enforce_iff_in_range_witness:
  "EnforceDeploymentDirectoryCompatibility digit_semver (sample_compat_dir ''1.2.0-rc1 '') ''1.2.0''
      \<lparr>CommandName = ''start'', MinSupportedDeploymentVersion = ''1.1.0''\<rparr> DeploymentDirMustBeInitialized
      = None
   \<and> EnforceDeploymentDirectoryCompatibility digit_semver (sample_compat_dir ''1.3.0'') ''1.2.9''
      \<lparr>CommandName = ''start'', MinSupportedDeploymentVersion = ''1.1.0''\<rparr> DeploymentDirMustBeInitialized
      \<noteq> None"
  using enforce_iff_in_range [OF digit_semver_precedence, of "sample_compat_dir ''1.2.0-rc1 ''" "''1.2.0''"
      "\<lparr>CommandName = ''start'', MinSupportedDeploymentVersion = ''1.1.0''\<rparr>" DeploymentDirMustBeInitialized]
    enforce_iff_in_range [OF digit_semver_precedence, of "sample_compat_dir ''1.3.0''" "''1.2.9''"
      "\<lparr>CommandName = ''start'', MinSupportedDeploymentVersion = ''1.1.0''\<rparr>" DeploymentDirMustBeInitialized]
  by (simp add: sample_compat_dir_def HasExasolPersonalStateFile_def TrimSpace_def is_space_def core_of_def
      digit_semver_def digit_version_def is_digit_def char_digit_def version_core_def nth_Cons')

text \<open>upgrading the launcher never locks a user out: what one launcher version may operate on, every
  version that is not older may as well. And what a too old launcher reports for a deployment that
  is newer than itself is always the same: upgrade the launcher.\<close>

theorem launcher_upgrade_keeps_access:
  assumes "semver_precedence lib" and "core_of lib l = Some c" and "core_of lib l' = Some c'" and "c \<le> c'"
  shows "(Check lib dep l req = None \<longrightarrow> Check lib dep l' req = None)
    \<and> (\<forall>d m. core_of lib dep = Some d \<and> core_of lib (MinSupportedDeploymentVersion req) = Some m \<and> c' < d \<longrightarrow>
         (\<exists>dv lv mv. Check lib dep l req = Some (IncompatibleError dv lv mv (CommandName req)
            ReasonDeploymentNewerThanLauncher ActionUpgradeLauncher)))"
proof (intro conjI impI allI)
  assume "Check lib dep l req = None"
  then show "Check lib dep l' req = None"
    unfolding Check_allowed [OF assms(1)] using assms(2-4) by force
next
  fix d m
  assume d: "core_of lib dep = Some d \<and> core_of lib (MinSupportedDeploymentVersion req) = Some m \<and> c' < d"
  then have "c < d" using assms(4) le_less_trans by blast
  with d show "\<exists>dv lv mv. Check lib dep l req = Some (IncompatibleError dv lv mv (CommandName req)
      ReasonDeploymentNewerThanLauncher ActionUpgradeLauncher)"
    using Check_newer [OF assms(1) _ assms(2)] by blast
qed

theorem launcher_upgrade_keeps_access_witness:
  "Check digit_semver ''1.2.0'' ''1.2.0''
     \<lparr>CommandName = ''stop'', MinSupportedDeploymentVersion = ''1.0.0''\<rparr> = None
   \<and> Check digit_semver ''1.2.0'' ''2.0.1''
     \<lparr>CommandName = ''stop'', MinSupportedDeploymentVersion = ''1.0.0''\<rparr> = None"
proof -
  have c: "core_of digit_semver ''1.2.0'' = Some (1, 2, 0)" "core_of digit_semver ''2.0.1'' = Some (2, 0, 1)"
    by (simp_all add: core_of_def digit_semver_def digit_version_def is_digit_def char_digit_def
        version_core_def nth_Cons')
  have "Check digit_semver ''1.2.0'' ''1.2.0''
     \<lparr>CommandName = ''stop'', MinSupportedDeploymentVersion = ''1.0.0''\<rparr> = None"
    by (simp add: Check_def parseRequiredVersion_def digit_semver_def digit_version_def is_digit_def
        char_digit_def version_core_def nth_Cons')
  with launcher_upgrade_keeps_access [OF digit_semver_precedence c(1,2)] show ?thesis by force
qed

lemma version_marker_round_trip:
  "ReadDeploymentVersionMarker (WriteDeploymentVersionMarker v d) = Inr (Some (TrimSpace v))"
  by (simp add: ReadDeploymentVersionMarker_def WriteDeploymentVersionMarker_def)

end
