(* ===== verification/Lifecycle_Status.thy ===== *)
theory Lifecycle_Status
  imports Launcher_State
begin

text \<open>
  What the launcher says about a deployment and which command it lets through:
  \<^verbatim>\<open>src/internal/deploy/status.go\<close>, the guards of \<^verbatim>\<open>deploymentControl.go\<close>, \<^verbatim>\<open>deploy.go\<close>, \<^verbatim>\<open>configure.go\<close> and
  \<^verbatim>\<open>connect.go\<close>, the blocked-state error of \<^verbatim>\<open>shared.go\<close>, the backend registry and its options
  (\<^verbatim>\<open>backend.go\<close>, \<^verbatim>\<open>backend_registry.go\<close>, \<^verbatim>\<open>backend_options.go\<close>) and the error chains that the lifecycle
  inspects (\<^verbatim>\<open>src/internal/localports/errors.go\<close>).
\<close>

section \<open>Errors\<close>

text \<open>A Go error with the structure that \<^verbatim>\<open>errors.Is\<close> and \<^verbatim>\<open>errors.As\<close> walk: \<open>Plain\<close> is an error of any
  other origin with its text, \<open>Wrap\<close> is \<^verbatim>\<open>fmt.Errorf("...: %w", ...)\<close> or another wrapper,
  \<open>Joined\<close> is \<^verbatim>\<open>errors.Join\<close>. \<open>ProcessExited\<close> is not an error value: it marks an operation that a
  signal ended after its handlers ran. \<open>Sentinel\<close> is any other package variable made by
  \<^verbatim>\<open>errors.New\<close>, by its name.\<close>

datatype go_error =
    Plain string
  | StateError config_error
  | ErrNoWorkflowStateSet
  | ErrLifecycleActionSkipped
  | ErrUnknownDeploymentType
  | ErrUnspportedOperation
  | ErrUnexpectedDeploymentStatus
  | ErrUnsupportedDeployOption string string
  | ErrConfigureNotAllowed string
  | ErrContainerHostUnreachable
  | UnavailableError string int go_error
  | LocalRetryableFailureError string go_error
  | LocalPortRecoveryError string int go_error
  | BlockedStateError go_error string
  | StartupError string string string
  | CommandError string go_error
  | ServiceNetworkUnsupportedError bool
  | ExitError int
  | Wrap string go_error
  | Joined "go_error list"
  | ProcessExited
  | Sentinel string

text \<open>\<^verbatim>\<open>errors.As\<close> for \<open>*UnavailableError\<close>: depth first, a joined error from left to right.\<close>

fun AsUnavailable :: "go_error \<Rightarrow> (string \<times> int \<times> go_error) option"
and AsUnavailable_list :: "go_error list \<Rightarrow> (string \<times> int \<times> go_error) option" where
  "AsUnavailable (UnavailableError s p c) = Some (s, p, c)"
| "AsUnavailable (LocalRetryableFailureError _ e) = AsUnavailable e"
| "AsUnavailable (LocalPortRecoveryError _ _ e) = AsUnavailable e"
| "AsUnavailable (BlockedStateError e _) = AsUnavailable e"
| "AsUnavailable (CommandError _ e) = AsUnavailable e"
| "AsUnavailable (Wrap _ e) = AsUnavailable e"
| "AsUnavailable (Joined es) = AsUnavailable_list es"
| "AsUnavailable _ = None"
| "AsUnavailable_list [] = None"
| "AsUnavailable_list (e # es) = (case AsUnavailable e of Some r \<Rightarrow> Some r | None \<Rightarrow> AsUnavailable_list es)"

text \<open>\<^verbatim>\<open>errors.Is(err, localruntime.ErrContainerHostUnreachable)\<close>.\<close>

fun is_unreachable :: "go_error \<Rightarrow> bool" where
  "is_unreachable ErrContainerHostUnreachable = True"
| "is_unreachable (UnavailableError _ _ e) = is_unreachable e"
| "is_unreachable (LocalRetryableFailureError _ e) = is_unreachable e"
| "is_unreachable (LocalPortRecoveryError _ _ e) = is_unreachable e"
| "is_unreachable (BlockedStateError e _) = is_unreachable e"
| "is_unreachable (CommandError _ e) = is_unreachable e"
| "is_unreachable (Wrap _ e) = is_unreachable e"
| "is_unreachable (Joined es) = list_ex is_unreachable es"
| "is_unreachable _ = False"

text \<open>The errors below an error in the order \<^verbatim>\<open>errors.As\<close> visits them; \<open>errors_As\<close> takes the first that
  the wanted type matches.\<close>

fun error_chain :: "go_error \<Rightarrow> go_error list" where
  "error_chain (UnavailableError s p e) = UnavailableError s p e # error_chain e"
| "error_chain (LocalRetryableFailureError s e) = LocalRetryableFailureError s e # error_chain e"
| "error_chain (LocalPortRecoveryError s p e) = LocalPortRecoveryError s p e # error_chain e"
| "error_chain (BlockedStateError e s) = BlockedStateError e s # error_chain e"
| "error_chain (CommandError s e) = CommandError s e # error_chain e"
| "error_chain (Wrap s e) = Wrap s e # error_chain e"
| "error_chain (Joined es) = Joined es # concat (map error_chain es)"
| "error_chain e = [e]"

definition errors_As :: "(go_error \<Rightarrow> 'a option) \<Rightarrow> go_error \<Rightarrow> 'a option" where
  "errors_As f e = (case List.map_filter f (error_chain e) of [] \<Rightarrow> None | x # _ \<Rightarrow> Some x)"

text \<open>\<^verbatim>\<open>errors.Is\<close> for a value that is compared by identity.\<close>

definition errors_Is :: "go_error \<Rightarrow> go_error \<Rightarrow> bool" where
  "errors_Is e target \<longleftrightarrow> target \<in> set (error_chain e)"

definition errors_Join :: "go_error option list \<Rightarrow> go_error option" where
  "errors_Join es = (let some = List.map_filter id es in if some = [] then None else Some (Joined some))"

text \<open>\<open>ClassifyBindFailure\<close> of a command's diagnostic output; a nil cause stays nil.\<close>

definition bindConflictDiagnostic :: "string \<Rightarrow> bool" where
  "bindConflictDiagnostic diagnostic \<longleftrightarrow>
     list_ex (Contains (ToLower diagnostic))
       [''address already in use'', ''bind: address in use'', ''port is already allocated'',
        ''port already in use'', ''ports are not available'', ''only one usage of each socket address'']"

definition ClassifyBindFailure :: "string \<Rightarrow> int \<Rightarrow> go_error option \<Rightarrow> string \<Rightarrow> go_error option" where
  "ClassifyBindFailure service port cause diagnostic =
     (case cause of
        None \<Rightarrow> None
      | Some c \<Rightarrow> if bindConflictDiagnostic diagnostic then Some (UnavailableError service port c) else Some c)"

section \<open>Backends\<close>

record InfrastructureManifest =
  m_Backend :: string
  m_Tofu :: bool

definition backendTypeTofu :: string where "backendTypeTofu = ''tofu''"
definition backendTypeLocal :: string where "backendTypeLocal = ''local''"

text \<open>The registered backends with the names of the deploy options they declare.\<close>

definition backendDescriptors :: "(string \<times> string list) list" where
  "backendDescriptors = [(backendTypeTofu, [''tofu-update-lockfile'']), (backendTypeLocal, [])]"

definition backendDescriptorForKind :: "string \<Rightarrow> (go_error, string \<times> string list) result" where
  "backendDescriptorForKind kind =
     (case map_of backendDescriptors kind of
        None \<Rightarrow> Inl ErrUnknownDeploymentType
      | Some opts \<Rightarrow> Inr (kind, opts))"

definition resolveBackendKind :: "InfrastructureManifest option \<Rightarrow> (go_error, string) result" where
  "resolveBackendKind manifest =
     (case manifest of
        None \<Rightarrow> Inl ErrUnknownDeploymentType
      | Some m \<Rightarrow>
         (let backend = TrimSpace (m_Backend m);
              backend = (if backend = [] \<and> m_Tofu m then backendTypeTofu else backend)
          in if backend = [] then Inl ErrUnknownDeploymentType
             else case backendDescriptorForKind backend of Inl e \<Rightarrow> Inl e | Inr _ \<Rightarrow> Inr backend))"

definition backendDescriptorForManifest ::
  "InfrastructureManifest option \<Rightarrow> (go_error, string \<times> string list) result"
where
  "backendDescriptorForManifest manifest =
     (case resolveBackendKind manifest of Inl e \<Rightarrow> Inl e | Inr kind \<Rightarrow> backendDescriptorForKind kind)"

definition validateDeployOptionsForManifest ::
  "InfrastructureManifest option \<Rightarrow> (string \<times> string) list \<Rightarrow> go_error option"
where
  "validateDeployOptionsForManifest manifest options =
     (case backendDescriptorForManifest manifest of
        Inl e \<Rightarrow> Some e
      | Inr (kind, declared) \<Rightarrow>
          (case List.find (\<lambda>name. name \<notin> set declared) (sorted_keys options) of
             Some name \<Rightarrow> Some (ErrUnsupportedDeployOption kind name)
           | None \<Rightarrow> None))"

section \<open>The environment of a lifecycle operation\<close>

text \<open>A backend call reports the database's error, the errors of the sidecars by name, and the error of
  their reconciliation.\<close>

record DeploymentLifecycleResult =
  lr_Database :: "go_error option"
  lr_Sidecars :: "(string \<times> go_error) list"
  lr_SidecarReconciliation :: "go_error option"

definition joinSidecarFailures :: "(string \<times> go_error) list \<Rightarrow> go_error option" where
  "joinSidecarFailures perSidecar =
     errors_Join (map (\<lambda>name. map_of perSidecar name) (sorted_keys perSidecar))"

definition lifecycle_Err :: "DeploymentLifecycleResult \<Rightarrow> go_error option" where
  "lifecycle_Err r =
     errors_Join [lr_Database r, lr_SidecarReconciliation r, joinSidecarFailures (lr_Sidecars r)]"

text \<open>What the collaborators of one operation answer: the manifests, the backend (the interface
  \<open>deploymentBackend\<close>, implemented for cloud and local deployments elsewhere), the local runtime at
  the points where it is asked, the database probe, the connection instructions, the sidecars, and
  whether a signal arrives while the backend call runs. \<open>le_write n\<close> is the outcome of the
  operation's n-th write of the state file.\<close>

record lc_env =
  le_root :: string
  le_manifest :: "(go_error, InfrastructureManifest) result"
  le_options :: "(string \<times> string) list"
  le_new_backend :: "go_error option"
  le_prepare :: "go_error option"
  le_backend :: DeploymentLifecycleResult
  le_destroy :: "go_error option"
  le_install_manifest :: "go_error option"
  le_node_details :: "string option"
  le_install_steps :: "go_error option"
  le_select_runtime :: "go_error option"
  le_status_before :: "(go_error, bool) result"
  le_status_probe :: "(go_error, bool) result"
  le_status_failed :: "(go_error, bool) result"
  le_runtime_stop :: "go_error option"
  le_cleanup_sidecars :: "go_error option"
  le_running_sidecars :: "go_error option"
  le_stopped_sidecars :: "go_error option"
  le_remove_sidecar_state :: "go_error option"
  le_verify_database :: "go_error option"
  le_instructions :: "go_error option"
  le_write_instructions :: "go_error option"
  le_reconcile_slc :: "state_file \<Rightarrow> state_file"
  le_signal :: bool
  le_write :: "nat \<Rightarrow> write_outcome"
  le_error_text :: "go_error \<Rightarrow> string"

definition isLocalDeployment :: "lc_env \<Rightarrow> bool" where
  "isLocalDeployment env =
     (case le_manifest env of
        Inl _ \<Rightarrow> False
      | Inr m \<Rightarrow> resolveBackendKind (Some m) = Inr backendTypeLocal)"

definition newDeploymentBackend :: "lc_env \<Rightarrow> InfrastructureManifest \<Rightarrow> go_error option" where
  "newDeploymentBackend env m =
     (case backendDescriptorForManifest (Some m) of Inl e \<Rightarrow> Some e | Inr _ \<Rightarrow> le_new_backend env)"

datatype localRuntimeLiveness = localRuntimeLivenessUnknown | localRuntimeStopped | localRuntimeRunning

text \<open>The probe, given what the runtime's status call returns at that moment.\<close>

definition probeLocalRuntimeLivenessWithCause ::
  "lc_env \<Rightarrow> (go_error, bool) result \<Rightarrow> localRuntimeLiveness \<times> go_error option"
where
  "probeLocalRuntimeLivenessWithCause env status =
     (if \<not> isLocalDeployment env then (localRuntimeLivenessUnknown, None)
      else case le_select_runtime env of
        Some e \<Rightarrow> (localRuntimeLivenessUnknown, Some e)
      | None \<Rightarrow>
          (case status of
             Inl e \<Rightarrow> (localRuntimeLivenessUnknown, Some e)
           | Inr running \<Rightarrow> (if running then localRuntimeRunning else localRuntimeStopped, None)))"

section \<open>Status\<close>

definition StatusNotInitialized :: string where "StatusNotInitialized = ''not_initialized''"
definition StatusInitialized :: string where "StatusInitialized = ''initialized''"
definition StatusOperationInProgress :: string where "StatusOperationInProgress = ''operation_in_progress''"
definition StatusInterrupted :: string where "StatusInterrupted = ''interrupted''"
definition StatusStopped :: string where "StatusStopped = ''stopped''"
definition StatusRunning :: string where "StatusRunning = ''running''"
definition StatusDeploymentFailed :: string where "StatusDeploymentFailed = ''deployment_failed''"
definition StatusDatabaseConnectionFailed :: string where
  "StatusDatabaseConnectionFailed = ''database_connection_failed''"
definition StatusDatabaseReady :: string where "StatusDatabaseReady = ''database_ready''"

lemmas status_names = StatusNotInitialized_def StatusInitialized_def StatusOperationInProgress_def
  StatusInterrupted_def StatusStopped_def StatusRunning_def StatusDeploymentFailed_def
  StatusDatabaseConnectionFailed_def StatusDatabaseReady_def

definition notInitializedMessage :: string where
  "notInitializedMessage = ''No Exasol Personal deployment exists in this deployment directory yet. ''
     @ ''Run `exasol install <infra preset>` to create and start one, or pass ''
     @ ''`--deployment-dir <path>` to inspect an existing deployment.''"

definition databaseUnreachableMessage :: string where
  "databaseUnreachableMessage = ''The deployment is running but the database is not ''
     @ ''accepting connections. It may still be starting up, so run `status` again in a moment. ''
     @ ''If it stays unreachable, run `stop` and then `start` to restart the deployment.''"

definition containerHostUnreachableMessage :: string where
  "containerHostUnreachableMessage = ''The deployment'' @ [CHR 0x27] @ ''s container engine is not ''
     @ ''answering, so whether the database runs is unknown. Make the container engine ''
     @ ''available again, then run `status`.''"

definition stoppedMessage :: string where
  "stoppedMessage = ''Deployment stopped. Run `start` to restart or `destroy` to delete resources.''"

record StatusOutput =
  so_Status :: string
  so_Message :: string
  so_Error :: string

definition status_output :: "string \<Rightarrow> string \<Rightarrow> string \<Rightarrow> StatusOutput" where
  "status_output st msg err = \<lparr>so_Status = st, so_Message = msg, so_Error = err\<rparr>"

definition notInitializedStatus :: StatusOutput where
  "notInitializedStatus = status_output StatusNotInitialized notInitializedMessage []"

definition buildInterruptMessage :: "string \<Rightarrow> string" where
  "buildInterruptMessage operation =
     ''Interrupted during '' @ operation @ ''.'' @
     (if operation = DeployOperation then '' Please run `deploy`.''
      else if operation = DestroyOperation then '' Please run `destroy`.''
      else '' Please run `start` or `stop`.'')"

definition staleOperationInProgressMessage :: "string \<Rightarrow> string" where
  "staleOperationInProgressMessage operation =
     (if operation = DestroyOperation then
        ''A previous destroy operation did not finish cleanly. ''
        @ ''If deployment resources may still exist, run `destroy` again. ''
        @ ''If resources were already deleted or cannot be destroyed through the launcher, ''
        @ ''run `remove` to delete only the local deployment directory.''
      else if operation = DeployOperation then
        ''A previous deploy operation did not finish cleanly. ''
        @ ''Fix the problem and run `deploy` or the same `install` command again, ''
        @ ''or run `destroy` to clean up resources.''
      else
        ''A previous '' @ operation @ '' operation did not finish cleanly. Retry the operation, ''
        @ ''or run `status` again to inspect the deployment.'')"

definition localVMStoppedStatus :: "lc_env \<Rightarrow> StatusOutput option" where
  "localVMStoppedStatus env =
     (if \<not> isLocalDeployment env then None
      else if le_select_runtime env \<noteq> None then None
      else case le_status_probe env of
        Inl e \<Rightarrow>
          if is_unreachable e then
            Some (status_output StatusDatabaseConnectionFailed containerHostUnreachableMessage (le_error_text env e))
          else None
      | Inr running \<Rightarrow> if \<not> running then Some (status_output StatusStopped stoppedMessage []) else None)"

definition GetStatus :: "lc_env \<Rightarrow> state_file \<Rightarrow> bool \<Rightarrow> (go_error, StatusOutput) result" where
  "GetStatus env f checkConnection =
     (case ReadExasolPersonalState f of
        Inl e \<Rightarrow> if e = ErrMissingConfigFile then Inr notInitializedStatus else Inl (StateError e)
      | Inr s \<Rightarrow>
     (case GetWorkflowState s of
        None \<Rightarrow> Inl ErrNoWorkflowStateSet
      | Some Initialized \<Rightarrow>
          Inr (status_output StatusInitialized
            (''Ready for deployment. '' @ ''Run `deploy` to provision resources and start the database.'') [])
      | Some (Interrupted err operation) \<Rightarrow>
          Inr (status_output StatusInterrupted (buildInterruptMessage operation) err)
      | Some (OperationInProgress operation) \<Rightarrow>
          Inr (status_output StatusOperationInProgress (staleOperationInProgressMessage operation) [])
      | Some (DeploymentFailed err) \<Rightarrow>
          Inr (status_output StatusDeploymentFailed
            (''Deployment failed. Fix the problem and run `deploy` or the same ''
             @ ''`install` command again, or run `destroy` to clean up resources.'') err)
      | Some Stopped \<Rightarrow> Inr (status_output StatusStopped stoppedMessage [])
      | Some Running \<Rightarrow>
          if checkConnection then
            (case localVMStoppedStatus env of
               Some st \<Rightarrow> Inr st
             | None \<Rightarrow>
                 (case le_verify_database env of
                    Some e \<Rightarrow>
                      Inr (status_output StatusDatabaseConnectionFailed databaseUnreachableMessage (le_error_text env e))
                  | None \<Rightarrow>
                      Inr (status_output StatusDatabaseReady ''The database is running and ready for connections.'' [])))
          else
            Inr (status_output StatusRunning
              ''The database has been started. Run `status` to check database connection.'' [])
      | Some NotAWorkflowState \<Rightarrow> Inl (Plain ''panic: unknown workflow state'')))"

text \<open>The error for a state that does not permit a command: the text carries the status and its
  guidance, the chain the sentinel.\<close>

definition newBlockedStateError :: "lc_env \<Rightarrow> state_file \<Rightarrow> go_error \<Rightarrow> go_error" where
  "newBlockedStateError env f sentinel =
     (case GetStatus env f False of
        Inl _ \<Rightarrow> sentinel
      | Inr status \<Rightarrow>
         (let guidance = (if so_Message status = [] then ''Run `exasol status` for details.'' else so_Message status) in
          BlockedStateError sentinel
            (''deployment in '' @ le_root env @ '' is in state '' @ [CHR 0x22] @ so_Status status @ [CHR 0x22]
             @ ''. '' @ guidance)))"

section \<open>Guards\<close>

record lifecycleActionDecision =
  d_shouldRun :: bool
  d_guidance :: string
  d_showConnectionInstructions :: bool

definition runLifecycleAction :: lifecycleActionDecision where
  "runLifecycleAction = \<lparr>d_shouldRun = True, d_guidance = [], d_showConnectionInstructions = False\<rparr>"

definition skipLifecycleAction :: "string \<Rightarrow> lifecycleActionDecision" where
  "skipLifecycleAction message = \<lparr>d_shouldRun = False, d_guidance = message, d_showConnectionInstructions = False\<rparr>"

definition guidanceOnly :: "string \<Rightarrow> lifecycleActionDecision" where
  "guidanceOnly message = skipLifecycleAction message"

definition skipLifecycleActionWithConnectionInstructions :: "string \<Rightarrow> lifecycleActionDecision" where
  "skipLifecycleActionWithConnectionInstructions message =
     \<lparr>d_shouldRun = False, d_guidance = message, d_showConnectionInstructions = True\<rparr>"

definition operationInProgressGuidance :: "string \<Rightarrow> string \<Rightarrow> string" where
  "operationInProgressGuidance operation requestedAction =
     ''operation `'' @ operation @ ''` is in progress or did not finish cleanly; ''
     @ ''run `exasol status` for recovery guidance before running `exasol '' @ requestedAction @ ''`''"

definition interruptedOperationGuidance :: "string \<Rightarrow> string \<Rightarrow> string" where
  "interruptedOperationGuidance operation requestedAction =
     ''a previous `'' @ operation @ ''` operation was interrupted; run `exasol status` ''
     @ ''for recovery guidance before running `exasol '' @ requestedAction @ ''`''"

definition workflowStatePermitsStart ::
  "lc_env \<Rightarrow> ExasolPersonalState \<Rightarrow> state_file \<Rightarrow> (go_error, lifecycleActionDecision) result"
where
  "workflowStatePermitsStart env s f =
     (case GetWorkflowState s of
        None \<Rightarrow> Inl ErrNoWorkflowStateSet
      | Some Initialized \<Rightarrow>
          Inr (guidanceOnly (''deployment is initialized but not deployed yet; run `exasol deploy` ''
            @ ''or the same `exasol install <infra preset>` command to create and start it''))
      | Some Stopped \<Rightarrow> Inr runLifecycleAction
      | Some Running \<Rightarrow>
          (case GetStatus env f True of
             Inl e \<Rightarrow> Inl e
           | Inr status \<Rightarrow>
               if so_Status status = StatusDatabaseReady then
                 Inr (skipLifecycleActionWithConnectionInstructions ''database is already ready to accept connections'')
               else
                 Inr (guidanceOnly
                   (''deployment state is running, but the database is not ready; run `exasol status` ''
                    @ ''for details, then run `exasol stop` and `exasol start` to restart it or ''
                    @ ''`exasol destroy` to clean up resources'')))
      | Some (DeploymentFailed _) \<Rightarrow>
          Inr (guidanceOnly
            (''deployment is in a failed state; fix the reported problem and run `exasol deploy` ''
             @ ''or the same `exasol install <infra preset>` command again, or run ''
             @ ''`exasol destroy` to clean up resources''))
      | Some (OperationInProgress operation) \<Rightarrow>
          if operation = StartOperation then Inr runLifecycleAction
          else Inr (skipLifecycleAction (operationInProgressGuidance operation ''start''))
      | Some (Interrupted _ operation) \<Rightarrow>
          if operation = StartOperation \<or> operation = StopOperation then Inr runLifecycleAction
          else Inr (skipLifecycleAction (interruptedOperationGuidance operation ''start''))
      | Some NotAWorkflowState \<Rightarrow>
          Inr (guidanceOnly ''deployment is in an unexpected state; run `exasol status` for details''))"

definition workflowStatePermitsStop :: "ExasolPersonalState \<Rightarrow> (go_error, lifecycleActionDecision) result" where
  "workflowStatePermitsStop s =
     (case GetWorkflowState s of
        None \<Rightarrow> Inl ErrNoWorkflowStateSet
      | Some Initialized \<Rightarrow>
          Inr (guidanceOnly (''deployment is initialized but not deployed yet; there is nothing to stop; ''
            @ ''run `exasol deploy` or the same `exasol install <infra preset>` command ''
            @ ''to create and start it''))
      | Some Running \<Rightarrow> Inr runLifecycleAction
      | Some Stopped \<Rightarrow> Inr (guidanceOnly ''deployment is already stopped'')
      | Some (DeploymentFailed _) \<Rightarrow>
          Inr (guidanceOnly
            (''deployment is in a failed state; run `exasol status` for details, then retry ''
             @ ''`exasol deploy` or run `exasol destroy` to clean up resources''))
      | Some (OperationInProgress operation) \<Rightarrow>
          if operation = StopOperation then Inr runLifecycleAction
          else Inr (skipLifecycleAction (operationInProgressGuidance operation ''stop''))
      | Some (Interrupted _ operation) \<Rightarrow>
          if operation = StartOperation \<or> operation = StopOperation \<or> operation = DestroyOperation
          then Inr runLifecycleAction
          else Inr (skipLifecycleAction (interruptedOperationGuidance operation ''stop''))
      | Some NotAWorkflowState \<Rightarrow>
          Inr (guidanceOnly ''deployment is in an unexpected state; run `exasol status` for details''))"

definition WorkflowStatePermitsDeploy :: "lc_env \<Rightarrow> ExasolPersonalState \<Rightarrow> state_file \<Rightarrow> go_error option" where
  "WorkflowStatePermitsDeploy env s f =
     (case GetWorkflowState s of
        None \<Rightarrow> Some ErrNoWorkflowStateSet
      | Some Initialized \<Rightarrow> None
      | Some (DeploymentFailed _) \<Rightarrow> None
      | Some Running \<Rightarrow> None
      | Some (OperationInProgress operation) \<Rightarrow>
          if operation = DeployOperation then None else Some (newBlockedStateError env f ErrUnspportedOperation)
      | Some (Interrupted _ operation) \<Rightarrow>
          if operation = DeployOperation then None
          else Some (newBlockedStateError env f ErrUnexpectedDeploymentStatus)
      | Some _ \<Rightarrow> Some (newBlockedStateError env f ErrUnexpectedDeploymentStatus))"

definition configureNotAllowedHint :: string where
  "configureNotAllowedHint = ''the deployment may already have resources;'' @ [newline]
     @ ''run `exasol destroy` (or `exasol remove` if you have confirmed the resources are ''
     @ ''gone) before changing configuration, then run `exasol config set` and `exasol deploy`''"

definition localConfigureNotAllowedHint :: string where
  "localConfigureNotAllowedHint = ''the local deployment is active; ''
     @ ''run `exasol stop` before changing its configuration''"

definition WorkflowStatePermitsConfigure :: "ExasolPersonalState \<Rightarrow> string \<Rightarrow> go_error option" where
  "WorkflowStatePermitsConfigure s backendKind =
     (case GetWorkflowState s of
        None \<Rightarrow> Some ErrNoWorkflowStateSet
      | Some w \<Rightarrow>
          if w = Initialized then None
          else if backendKind = backendTypeLocal \<and> w = Stopped then None
          else if backendKind = backendTypeLocal \<and> (w = Running \<or> is_OperationInProgress w) then
            Some (ErrConfigureNotAllowed localConfigureNotAllowedHint)
          else Some (ErrConfigureNotAllowed configureNotAllowedHint))"

definition WorkflowStatePermitsConnect :: "lc_env \<Rightarrow> state_file \<Rightarrow> go_error option" where
  "WorkflowStatePermitsConnect env f =
     (case ReadExasolPersonalState f of
        Inl e \<Rightarrow> Some (StateError e)
      | Inr s \<Rightarrow>
          (case GetWorkflowState s of
             None \<Rightarrow> Some ErrNoWorkflowStateSet
           | Some Running \<Rightarrow> None
           | Some _ \<Rightarrow> Some (newBlockedStateError env f ErrUnexpectedDeploymentStatus)))"

end
