(* ===== verification/Lifecycle.thy ===== *)
theory Lifecycle
  imports Lifecycle_Status
begin

text \<open>
  The four operations that change a deployment, start, stop, deploy and destroy, as they run under the
  deployment lock: \<^verbatim>\<open>src/internal/deploy/deploymentControl.go\<close>, \<^verbatim>\<open>destroy.go\<close>, \<^verbatim>\<open>deploy.go\<close> and the
  reconciliation of \<^verbatim>\<open>local_runtime.go\<close>. An operation takes the environment of
  \<open>Lifecycle_Status\<close> and a world (the state file, the number of writes so far and the calls made to
  the backend, each with the state file at that moment) and returns the world and its error.
\<close>

section \<open>The world\<close>

datatype lc_event = BackendPrepare | BackendStart | BackendStop | BackendDeploy | BackendDestroy | RuntimeStop

record lc_world =
  lw_file :: state_file
  lw_writes :: nat
  lw_trace :: "(lc_event \<times> state_file) list"

definition call :: "lc_event \<Rightarrow> lc_world \<Rightarrow> lc_world" where
  "call ev w = w\<lparr>lw_trace := lw_trace w @ [(ev, lw_file w)]\<rparr>"

text \<open>\<open>SetWorkflowStateAndWrite\<close> on the state the operation holds.\<close>

definition persist ::
  "lc_env \<Rightarrow> workflow \<Rightarrow> ExasolPersonalState \<Rightarrow> lc_world \<Rightarrow> ExasolPersonalState \<times> lc_world \<times> go_error option"
where
  "persist env st s w =
     (case SetWorkflowStateAndWrite (le_write env (lw_writes w)) st s (lw_file w) of
        (s', f, err) \<Rightarrow> (s', w\<lparr>lw_file := f, lw_writes := Suc (lw_writes w)\<rparr>, map_option StateError err))"

definition workflow_on_disk :: "lc_world \<Rightarrow> workflow option" where
  "workflow_on_disk w = (case lw_file w of StoredState s \<Rightarrow> GetWorkflowState s | _ \<Rightarrow> None)"

section \<open>Failures\<close>

definition markOperationInterrupted ::
  "lc_env \<Rightarrow> ExasolPersonalState \<Rightarrow> string \<Rightarrow> go_error \<Rightarrow> lc_world \<Rightarrow> lc_world \<times> go_error option"
where
  "markOperationInterrupted env s operation operationErr w =
     (case persist env (Interrupted (le_error_text env operationErr) operation) s w of
        (_, w', _) \<Rightarrow> (w', Some operationErr))"

definition restoreStateAfterUnavailableLocalPort ::
  "lc_env \<Rightarrow> ExasolPersonalState \<Rightarrow> workflow \<Rightarrow> go_error \<Rightarrow> lc_world \<Rightarrow> lc_world \<times> go_error option"
where
  "restoreStateAfterUnavailableLocalPort env s workflowState operationErr w =
     (case AsUnavailable operationErr of
        None \<Rightarrow> (w, Some operationErr)
      | Some (service, port, _) \<Rightarrow>
          (case persist env workflowState s w of
             (_, w', Some e) \<Rightarrow>
               (w', errors_Join [Some operationErr,
                  Some (Wrap ''failed to restore workflow state after local port conflict'' e)])
           | (_, w', None) \<Rightarrow> (w', Some (LocalPortRecoveryError service port operationErr))))"

definition stopLocalRuntimeAfterFailure :: "lc_env \<Rightarrow> lc_world \<Rightarrow> lc_world \<times> go_error option" where
  "stopLocalRuntimeAfterFailure env w =
     (case le_select_runtime env of
        Some e \<Rightarrow> (w, Some e)
      | None \<Rightarrow> (call RuntimeStop w, errors_Join [le_runtime_stop env, le_cleanup_sidecars env]))"

definition restore_prior_state ::
  "lc_env \<Rightarrow> ExasolPersonalState \<Rightarrow> string \<Rightarrow> workflow \<Rightarrow> go_error \<Rightarrow> lc_world \<Rightarrow> lc_world \<times> go_error option"
where
  "restore_prior_state env s operation priorState operationErr w =
     (case persist env priorState s w of
        (_, w', Some e) \<Rightarrow>
          (w', errors_Join [Some operationErr,
             Some (Wrap (''failed to restore workflow state after a failed '' @ operation) e)])
      | (_, w', None) \<Rightarrow> (w', Some (LocalRetryableFailureError operation operationErr)))"

definition restoreLocalStateAfterFailure ::
  "lc_env \<Rightarrow> ExasolPersonalState \<Rightarrow> string \<Rightarrow> workflow \<Rightarrow> go_error \<Rightarrow> lc_world \<Rightarrow> lc_world \<times> go_error option"
where
  "restoreLocalStateAfterFailure env s operation priorState operationErr w =
     (case probeLocalRuntimeLivenessWithCause env (le_status_failed env) of
        (liveness, probeErr) \<Rightarrow>
          if (case probeErr of None \<Rightarrow> False | Some e \<Rightarrow> is_unreachable e) then
            markOperationInterrupted env s operation operationErr w
          else if liveness = localRuntimeRunning then
            (case stopLocalRuntimeAfterFailure env w of
               (w', Some _) \<Rightarrow> markOperationInterrupted env s operation operationErr w'
             | (w', None) \<Rightarrow> restore_prior_state env s operation priorState operationErr w')
          else restore_prior_state env s operation priorState operationErr w)"

definition recordLifecycleFailure ::
  "lc_env \<Rightarrow> ExasolPersonalState \<Rightarrow> string \<Rightarrow> workflow \<Rightarrow> go_error \<Rightarrow> lc_world \<Rightarrow> lc_world \<times> go_error option"
where
  "recordLifecycleFailure env s operation priorState operationErr w =
     (if AsUnavailable operationErr \<noteq> None then
        restoreStateAfterUnavailableLocalPort env s priorState operationErr w
      else if \<not> isLocalDeployment env then markOperationInterrupted env s operation operationErr w
      else restoreLocalStateAfterFailure env s operation priorState operationErr w)"

definition reconcileLocalVMState ::
  "lc_env \<Rightarrow> ExasolPersonalState \<Rightarrow> lc_world \<Rightarrow> ExasolPersonalState \<times> lc_world \<times> go_error option"
where
  "reconcileLocalVMState env s w =
     (if \<not> isLocalDeployment env then (s, w, None)
      else case GetWorkflowState s of
        Some Running \<Rightarrow>
          (case probeLocalRuntimeLivenessWithCause env (le_status_before env) of
             (liveness, err) \<Rightarrow>
               (case err of
                  Some e \<Rightarrow> if is_unreachable e then (s, w, Some e) else (s, w, None)
                | None \<Rightarrow> if liveness \<noteq> localRuntimeStopped then (s, w, None) else persist env Stopped s w))
      | _ \<Rightarrow> (s, w, None))"

text \<open>The handler registered for the time of the backend call: it records the interruption, and the
  process ends.\<close>

definition on_signal :: "lc_env \<Rightarrow> ExasolPersonalState \<Rightarrow> string \<Rightarrow> string \<Rightarrow> lc_world \<Rightarrow> lc_world \<times> go_error option" where
  "on_signal env s message operation w =
     (case persist env (Interrupted message operation) s w of (_, w', _) \<Rightarrow> (w', Some ProcessExited))"

definition reconcileCustomSLCsAfterStart :: "lc_env \<Rightarrow> lc_world \<Rightarrow> lc_world" where
  "reconcileCustomSLCsAfterStart env w =
     (if isLocalDeployment env then w\<lparr>lw_file := le_reconcile_slc env (lw_file w)\<rparr> else w)"

section \<open>Start\<close>

definition runStartBackend :: "lc_env \<Rightarrow> ExasolPersonalState \<Rightarrow> lc_world \<Rightarrow> lc_world \<times> go_error option" where
  "runStartBackend env s w =
     (let w1 = call BackendStart w in
      if le_signal env then on_signal env s ''Start Operation interrupted via signal'' StartOperation w1
      else case lr_Database (le_backend env) of
        Some err \<Rightarrow> recordLifecycleFailure env s StartOperation Stopped err w1
      | None \<Rightarrow>
          (case persist env Running s w1 of
             (_, w2, _) \<Rightarrow>
               (let w3 = reconcileCustomSLCsAfterStart env w2 in
                case le_instructions env of
                  Some e \<Rightarrow> (w3, Some e)
                | None \<Rightarrow> (w3, errors_Join [le_write_instructions env, lifecycle_Err (le_backend env)]))))"

definition startLocked :: "lc_env \<Rightarrow> lc_world \<Rightarrow> lc_world \<times> go_error option" where
  "startLocked env w =
     (case ReadExasolPersonalState (lw_file w) of Inl e \<Rightarrow> (w, Some (StateError e)) | Inr s0 \<Rightarrow>
     (case reconcileLocalVMState env s0 w of
        (_, w0, Some e) \<Rightarrow> (w0, Some e)
      | (s, w0, None) \<Rightarrow>
     (case workflowStatePermitsStart env s (lw_file w0) of
        Inl e \<Rightarrow> (w0, Some (Wrap ''run `status` for more information'' e))
      | Inr decision \<Rightarrow>
          if \<not> d_shouldRun decision then
            (let sidecarErr =
                  (if GetWorkflowState s = Some Running \<and> isLocalDeployment env then
                     (case le_select_runtime env of Some e \<Rightarrow> Some e | None \<Rightarrow> le_running_sidecars env)
                   else None)
             in case sidecarErr of
                  Some e \<Rightarrow> (w0, Some e)
                | None \<Rightarrow> (w0, if d_showConnectionInstructions decision then None else Some ErrLifecycleActionSkipped))
          else
            (case le_manifest env of Inl e \<Rightarrow> (w0, Some e) | Inr m \<Rightarrow>
            (case newDeploymentBackend env m of Some e \<Rightarrow> (w0, Some e) | None \<Rightarrow>
              (let w1 = call BackendPrepare w0 in
               case le_prepare env of
                 Some e \<Rightarrow> (w1, Some e)
               | None \<Rightarrow>
                   (case persist env (OperationInProgress StartOperation) s w1 of
                      (s', w2, _) \<Rightarrow> runStartBackend env s' w2)))))))"

section \<open>Stop\<close>

definition runStopBackend :: "lc_env \<Rightarrow> ExasolPersonalState \<Rightarrow> lc_world \<Rightarrow> lc_world \<times> go_error option" where
  "runStopBackend env s w =
     (case le_manifest env of Inl e \<Rightarrow> (w, Some e) | Inr m \<Rightarrow>
     (case newDeploymentBackend env m of Some e \<Rightarrow> (w, Some e) | None \<Rightarrow>
     (let w1 = call BackendStop w in
      if le_signal env then on_signal env s ''Stop Operation interrupted via signal'' StopOperation w1
      else case lr_Database (le_backend env) of
        Some err \<Rightarrow> recordLifecycleFailure env s StopOperation Stopped err w1
      | None \<Rightarrow>
          (case persist env Stopped s w1 of (_, w2, _) \<Rightarrow> (w2, lifecycle_Err (le_backend env))))))"

definition cleanupStoppedSidecars :: "lc_env \<Rightarrow> lc_world \<Rightarrow> go_error option" where
  "cleanupStoppedSidecars env w =
     (if \<not> isLocalDeployment env then None
      else case ReadExasolPersonalState (lw_file w) of
        Inl e \<Rightarrow> Some (StateError e)
      | Inr s \<Rightarrow>
          (case GetWorkflowState s of
             None \<Rightarrow> Some ErrNoWorkflowStateSet
           | Some Stopped \<Rightarrow> le_stopped_sidecars env
           | Some _ \<Rightarrow> None))"

definition stopLocked :: "lc_env \<Rightarrow> lc_world \<Rightarrow> lc_world \<times> go_error option" where
  "stopLocked env w =
     (case ReadExasolPersonalState (lw_file w) of Inl e \<Rightarrow> (w, Some (StateError e)) | Inr s0 \<Rightarrow>
     (case reconcileLocalVMState env s0 w of
        (_, w0, Some e) \<Rightarrow> (w0, Some e)
      | (s, w0, None) \<Rightarrow>
     (case workflowStatePermitsStop s of
        Inl e \<Rightarrow> (w0, Some (Wrap ''run `status` for more information'' e))
      | Inr decision \<Rightarrow>
          if \<not> d_shouldRun decision then (w0, cleanupStoppedSidecars env w0)
          else (case persist env (OperationInProgress StopOperation) s w0 of
                  (s', w1, _) \<Rightarrow> runStopBackend env s' w1))))"

section \<open>Deploy\<close>

definition cloudDeployFailureResourceHint :: string where
  "cloudDeployFailureResourceHint = ''Deployment may have created cloud resources that can incur costs. ''
     @ ''Fix the problem and run `deploy` again, or run `destroy` to clean up.''"

definition localDeployFailureResourceHint :: string where
  "localDeployFailureResourceHint = ''Deployment may have created local runtime files and ''
     @ ''containers. Fix the problem and run `deploy` again, or run `destroy` to clean up.''"

definition deployFailureResourceHint :: "lc_env \<Rightarrow> string" where
  "deployFailureResourceHint env =
     (case le_manifest env of
        Inl _ \<Rightarrow> cloudDeployFailureResourceHint
      | Inr m \<Rightarrow>
          (case resolveBackendKind (Some m) of
             Inl _ \<Rightarrow> cloudDeployFailureResourceHint
           | Inr backend \<Rightarrow>
               if backend = backendTypeLocal then localDeployFailureResourceHint else cloudDeployFailureResourceHint))"

text \<open>The wrapped error's text follows the cause; \<open>le_node_details\<close> is the path of the node details
  when that file exists.\<close>

definition appendDeployFailureHint :: "lc_env \<Rightarrow> go_error \<Rightarrow> go_error" where
  "appendDeployFailureHint env err =
     Wrap ([newline, newline] @ ''Inspect launcher logs at '' @ le_root env @ ''/deployment.log for details. ''
       @ deployFailureResourceHint env
       @ (case le_node_details env of None \<Rightarrow> []
          | Some path \<Rightarrow> '' Additional deployment diagnostics are stored in '' @ path @ ''.'')) err"

definition recordDeployFailure ::
  "lc_env \<Rightarrow> ExasolPersonalState \<Rightarrow> go_error \<Rightarrow> lc_world \<Rightarrow> lc_world \<times> go_error option"
where
  "recordDeployFailure env s err w =
     (let deployErr = appendDeployFailureHint env err in
      case persist env (DeploymentFailed (le_error_text env deployErr)) s w of
        (_, w', _) \<Rightarrow> (w', Some deployErr))"

definition finalizeSuccessfulDeploy ::
  "lc_env \<Rightarrow> ExasolPersonalState \<Rightarrow> lc_world \<Rightarrow> lc_world \<times> go_error option"
where
  "finalizeSuccessfulDeploy env s w =
     (case persist env Running s w of
        (_, w1, Some e) \<Rightarrow> (w1, Some e)
      | (_, w1, None) \<Rightarrow>
         (let w2 = reconcileCustomSLCsAfterStart env w1 in
          case le_instructions env of
            Some e \<Rightarrow> (w2, Some e)
          | None \<Rightarrow> (w2, le_write_instructions env)))"

definition runDeployBackend :: "lc_env \<Rightarrow> ExasolPersonalState \<Rightarrow> lc_world \<Rightarrow> lc_world \<times> go_error option" where
  "runDeployBackend env s w =
     (case le_install_manifest env of Some e \<Rightarrow> (w, Some e) | None \<Rightarrow>
     (let w1 = call BackendDeploy w in
      if le_signal env then on_signal env s ''Deployment interrupted via signal'' DeployOperation w1
      else case lr_Database (le_backend env) of
        Some err \<Rightarrow>
          if AsUnavailable err \<noteq> None then restoreStateAfterUnavailableLocalPort env s Initialized err w1
          else recordDeployFailure env s err w1
      | None \<Rightarrow>
          (case le_install_steps env of
             Some err \<Rightarrow> recordDeployFailure env s err w1
           | None \<Rightarrow> finalizeSuccessfulDeploy env s w1)))"

definition deployLocked :: "lc_env \<Rightarrow> lc_world \<Rightarrow> lc_world \<times> go_error option" where
  "deployLocked env w =
     (case ReadExasolPersonalState (lw_file w) of Inl e \<Rightarrow> (w, Some (StateError e)) | Inr s \<Rightarrow>
     (case WorkflowStatePermitsDeploy env s (lw_file w) of Some e \<Rightarrow> (w, Some e) | None \<Rightarrow>
     (case le_manifest env of Inl e \<Rightarrow> (w, Some e) | Inr m \<Rightarrow>
     (case validateDeployOptionsForManifest (Some m) (le_options env) of Some e \<Rightarrow> (w, Some e) | None \<Rightarrow>
     (case newDeploymentBackend env m of Some e \<Rightarrow> (w, Some e) | None \<Rightarrow>
       (let w1 = call BackendPrepare w in
        case le_prepare env of
          Some e \<Rightarrow> (w1, Some e)
        | None \<Rightarrow>
            (case persist env (OperationInProgress DeployOperation) s w1 of
               (s', w2, _) \<Rightarrow> runDeployBackend env s' w2)))))))"

section \<open>Destroy\<close>

definition markDestroyInterrupted ::
  "lc_env \<Rightarrow> ExasolPersonalState \<Rightarrow> go_error \<Rightarrow> lc_world \<Rightarrow> lc_world \<times> go_error option"
where
  "markDestroyInterrupted env s destroyErr w = markOperationInterrupted env s DestroyOperation destroyErr w"

definition runDestroyBackend :: "lc_env \<Rightarrow> ExasolPersonalState \<Rightarrow> lc_world \<Rightarrow> lc_world \<times> go_error option" where
  "runDestroyBackend env s w =
     (case le_manifest env of Inl e \<Rightarrow> markDestroyInterrupted env s e w | Inr m \<Rightarrow>
     (case newDeploymentBackend env m of Some e \<Rightarrow> markDestroyInterrupted env s e w | None \<Rightarrow>
     (let w1 = call BackendDestroy w in
      if le_signal env then on_signal env s ''Destroy interrupted via signal'' DestroyOperation w1
      else case le_destroy env of
        Some e \<Rightarrow> markDestroyInterrupted env s e w1
      | None \<Rightarrow>
          (case le_remove_sidecar_state env of
             Some e \<Rightarrow> (w1, Some e)
           | None \<Rightarrow> (case persist env Initialized s w1 of (_, w2, err) \<Rightarrow> (w2, err))))))"

definition destroyLocked :: "lc_env \<Rightarrow> lc_world \<Rightarrow> lc_world \<times> go_error option" where
  "destroyLocked env w =
     (case ReadExasolPersonalState (lw_file w) of Inl e \<Rightarrow> (w, Some (StateError e)) | Inr s \<Rightarrow>
     (case persist env (OperationInProgress DestroyOperation) s w of
        (s', w1, _) \<Rightarrow> runDestroyBackend env s' w1))"

section \<open>What the operations keep\<close>

text \<open>A property of the deployment state that does not look at the workflow state is kept by every
  operation. \<open>file_inv I\<close> says that it holds for the stored state, if one is stored.\<close>

named_theorems lc_keeps

definition ignores_workflow :: "(ExasolPersonalState \<Rightarrow> bool) \<Rightarrow> bool" where
  "ignores_workflow I \<longleftrightarrow> (\<forall>s u. I s \<longrightarrow> I (s\<lparr>CurrentWorkflowState := u\<rparr>))"

definition file_inv :: "(ExasolPersonalState \<Rightarrow> bool) \<Rightarrow> state_file \<Rightarrow> bool" where
  "file_inv I f \<longleftrightarrow> (\<forall>s. f = StoredState s \<longrightarrow> I s)"

lemma lw_file_call [simp]: "lw_file (call ev w) = lw_file w"
  by (simp add: call_def)

lemma lw_writes_call [simp]: "lw_writes (call ev w) = lw_writes w"
  by (simp add: call_def)

lemma persist_keeps:
  assumes "ignores_workflow I" and "I s" and "file_inv I (lw_file w)" and "persist env st s w = (s', w', e)"
  shows "I s'" and "file_inv I (lw_file w')"
proof -
  have upd: "SetWorkflowState st s = Some t \<Longrightarrow> I t" for t
    using assms(1,2) by (auto simp: SetWorkflowState_def ignores_workflow_def)
  show "I s'" and "file_inv I (lw_file w')"
    using assms(2,3,4) upd
    by (auto simp: persist_def SetWorkflowStateAndWrite_def WriteExasolPersonalState_def file_inv_def
        split: option.splits write_outcome.splits)
qed

lemma markOperationInterrupted_keeps [lc_keeps]:
  assumes "ignores_workflow I" "I s" "file_inv I (lw_file w)"
  shows "file_inv I (lw_file (fst (markOperationInterrupted env s oper e w)))"
  using persist_keeps(2) [OF assms] by (auto simp: markOperationInterrupted_def split: prod.split)

lemma on_signal_keeps [lc_keeps]:
  assumes "ignores_workflow I" "I s" "file_inv I (lw_file w)"
  shows "file_inv I (lw_file (fst (on_signal env s msg oper w)))"
  using persist_keeps(2) [OF assms] by (auto simp: on_signal_def split: prod.split)

lemma restoreStateAfterUnavailableLocalPort_keeps [lc_keeps]:
  assumes "ignores_workflow I" "I s" "file_inv I (lw_file w)"
  shows "file_inv I (lw_file (fst (restoreStateAfterUnavailableLocalPort env s st e w)))"
  using persist_keeps(2) [OF assms] assms(3)
  by (auto simp: restoreStateAfterUnavailableLocalPort_def split: prod.split option.split)

lemma restore_prior_state_keeps [lc_keeps]:
  assumes "ignores_workflow I" "I s" "file_inv I (lw_file w)"
  shows "file_inv I (lw_file (fst (restore_prior_state env s oper st e w)))"
  using persist_keeps(2) [OF assms] by (auto simp: restore_prior_state_def split: prod.split option.split)

lemma stopLocalRuntimeAfterFailure_file [simp]:
  "lw_file (fst (stopLocalRuntimeAfterFailure env w)) = lw_file w"
  by (simp add: stopLocalRuntimeAfterFailure_def split: option.split)

lemma restoreLocalStateAfterFailure_keeps [lc_keeps]:
  assumes "ignores_workflow I" "I s" "file_inv I (lw_file w)"
  shows "file_inv I (lw_file (fst (restoreLocalStateAfterFailure env s oper st e w)))"
proof -
  obtain w' r where stop: "stopLocalRuntimeAfterFailure env w = (w', r)" by fastforce
  then have "file_inv I (lw_file w')" using assms(3) stopLocalRuntimeAfterFailure_file [of env w] by simp
  then show ?thesis
    using assms stop by (auto simp: restoreLocalStateAfterFailure_def split: prod.split option.split intro!: lc_keeps)
qed

lemma recordLifecycleFailure_keeps [lc_keeps]:
  assumes "ignores_workflow I" "I s" "file_inv I (lw_file w)"
  shows "file_inv I (lw_file (fst (recordLifecycleFailure env s oper st e w)))"
  using assms by (simp add: recordLifecycleFailure_def lc_keeps)

lemma recordDeployFailure_keeps [lc_keeps]:
  assumes "ignores_workflow I" "I s" "file_inv I (lw_file w)"
  shows "file_inv I (lw_file (fst (recordDeployFailure env s e w)))"
  using persist_keeps(2) [OF assms] by (auto simp: recordDeployFailure_def Let_def split: prod.split)

text \<open>The activation of custom containers after a start is the one step that may change more.\<close>

definition slc_keeps :: "(ExasolPersonalState \<Rightarrow> bool) \<Rightarrow> lc_env \<Rightarrow> bool" where
  "slc_keeps I env \<longleftrightarrow> (\<forall>f. file_inv I f \<longrightarrow> file_inv I (le_reconcile_slc env f))"

lemma reconcileCustomSLCsAfterStart_keeps [lc_keeps]:
  "slc_keeps I env \<Longrightarrow> file_inv I (lw_file w) \<Longrightarrow> file_inv I (lw_file (reconcileCustomSLCsAfterStart env w))"
  by (simp add: reconcileCustomSLCsAfterStart_def slc_keeps_def)

lemma runStartBackend_keeps [lc_keeps]:
  assumes "ignores_workflow I" "slc_keeps I env" "I s" "file_inv I (lw_file w)"
  shows "file_inv I (lw_file (fst (runStartBackend env s w)))"
proof -
  have "file_inv I (lw_file w2)" if "persist env Running s (call BackendStart w) = (s', w2, e)" for s' w2 e
    using persist_keeps(2) [OF assms(1,3) _ that] assms(4) by simp
  then show ?thesis
    using assms by (auto simp: runStartBackend_def Let_def lc_keeps split: prod.split option.split)
qed

lemma finalizeSuccessfulDeploy_keeps [lc_keeps]:
  assumes "ignores_workflow I" "slc_keeps I env" "I s" "file_inv I (lw_file w)"
  shows "file_inv I (lw_file (fst (finalizeSuccessfulDeploy env s w)))"
proof -
  have "file_inv I (lw_file w2)" if "persist env Running s w = (s', w2, e)" for s' w2 e
    using persist_keeps(2) [OF assms(1,3,4) that] .
  then show ?thesis
    using assms(2) by (auto simp: finalizeSuccessfulDeploy_def Let_def lc_keeps split: prod.split option.split)
qed

lemma runDeployBackend_keeps [lc_keeps]:
  assumes "ignores_workflow I" "slc_keeps I env" "I s" "file_inv I (lw_file w)"
  shows "file_inv I (lw_file (fst (runDeployBackend env s w)))"
  using assms by (auto simp: runDeployBackend_def Let_def lc_keeps split: option.split)

lemma runStopBackend_keeps [lc_keeps]:
  assumes "ignores_workflow I" "I s" "file_inv I (lw_file w)"
  shows "file_inv I (lw_file (fst (runStopBackend env s w)))"
proof -
  have "file_inv I (lw_file w2)" if "persist env Stopped s (call BackendStop w) = (s', w2, e)" for s' w2 e
    using persist_keeps(2) [OF assms(1,2) _ that] assms(3) by simp
  then show ?thesis
    using assms by (auto simp: runStopBackend_def Let_def lc_keeps split: prod.split option.split sum.split)
qed

lemma runDestroyBackend_keeps [lc_keeps]:
  assumes "ignores_workflow I" "I s" "file_inv I (lw_file w)"
  shows "file_inv I (lw_file (fst (runDestroyBackend env s w)))"
proof -
  have "file_inv I (lw_file w2)" if "persist env Initialized s (call BackendDestroy w) = (s', w2, e)" for s' w2 e
    using persist_keeps(2) [OF assms(1,2) _ that] assms(3) by simp
  then show ?thesis
    using assms
    by (auto simp: runDestroyBackend_def markDestroyInterrupted_def Let_def lc_keeps
        split: prod.split option.split sum.split)
qed

lemma reconcileLocalVMState_keeps:
  assumes "ignores_workflow I" "I s" "file_inv I (lw_file w)" "reconcileLocalVMState env s w = (s', w', e)"
  shows "I s' \<and> file_inv I (lw_file w')"
  using assms persist_keeps [OF assms(1-3), of env Stopped s' w' e]
  by (auto simp: reconcileLocalVMState_def split: if_splits option.splits workflow.splits prod.splits)

lemma read_keeps: "ReadExasolPersonalState f = Inr s \<Longrightarrow> file_inv I f \<Longrightarrow> I s"
  by (auto simp: ReadExasolPersonalState_def file_inv_def split: state_file.splits)

lemma startLocked_keeps:
  assumes "ignores_workflow I" "slc_keeps I env" "file_inv I (lw_file w)"
  shows "file_inv I (lw_file (fst (startLocked env w)))"
proof (cases "ReadExasolPersonalState (lw_file w)")
  case (Inr s0)
  have s0: "I s0" using read_keeps [OF Inr assms(3)] .
  obtain s w0 e where rec: "reconcileLocalVMState env s0 w = (s, w0, e)" by (metis prod_cases3)
  have keep: "I s" "file_inv I (lw_file w0)" using reconcileLocalVMState_keeps [OF assms(1) s0 assms(3) rec] by auto
  obtain s' w2 e2 where per: "persist env (OperationInProgress StartOperation) s (call BackendPrepare w0) = (s', w2, e2)"
    by (metis prod_cases3)
  have "I s'" "file_inv I (lw_file w2)"
    using persist_keeps [OF assms(1) keep(1) _ per] keep(2) by simp_all
  then have "file_inv I (lw_file (fst (runStartBackend env s' w2)))"
    using assms(1,2) by (intro runStartBackend_keeps)
  then show ?thesis
    using Inr rec per keep(2)
    by (auto simp: startLocked_def Let_def split: option.split sum.split)
qed (use assms(3) in \<open>simp add: startLocked_def\<close>)

lemma stopLocked_keeps:
  assumes "ignores_workflow I" "file_inv I (lw_file w)"
  shows "file_inv I (lw_file (fst (stopLocked env w)))"
proof (cases "ReadExasolPersonalState (lw_file w)")
  case (Inr s0)
  have s0: "I s0" using read_keeps [OF Inr assms(2)] .
  obtain s w0 e where rec: "reconcileLocalVMState env s0 w = (s, w0, e)" by (metis prod_cases3)
  have keep: "I s" "file_inv I (lw_file w0)" using reconcileLocalVMState_keeps [OF assms(1) s0 assms(2) rec] by auto
  obtain s' w2 e2 where per: "persist env (OperationInProgress StopOperation) s w0 = (s', w2, e2)"
    by (metis prod_cases3)
  have "file_inv I (lw_file (fst (runStopBackend env s' w2)))"
    using persist_keeps [OF assms(1) keep per] assms(1) by (intro runStopBackend_keeps)
  then show ?thesis
    using Inr rec per keep(2) by (auto simp: stopLocked_def split: option.split sum.split)
qed (use assms(2) in \<open>simp add: stopLocked_def\<close>)

lemma deployLocked_keeps:
  assumes "ignores_workflow I" "slc_keeps I env" "file_inv I (lw_file w)"
  shows "file_inv I (lw_file (fst (deployLocked env w)))"
proof (cases "ReadExasolPersonalState (lw_file w)")
  case (Inr s)
  have s: "I s" using read_keeps [OF Inr assms(3)] .
  obtain s' w2 e2 where per: "persist env (OperationInProgress DeployOperation) s (call BackendPrepare w) = (s', w2, e2)"
    by (metis prod_cases3)
  have "I s'" "file_inv I (lw_file w2)"
    using persist_keeps [OF assms(1) s _ per] assms(3) by simp_all
  then have "file_inv I (lw_file (fst (runDeployBackend env s' w2)))"
    using assms(1,2) by (intro runDeployBackend_keeps)
  then show ?thesis
    using Inr per assms(3) by (auto simp: deployLocked_def Let_def split: option.split sum.split)
qed (use assms(3) in \<open>simp add: deployLocked_def\<close>)

lemma destroyLocked_keeps:
  assumes "ignores_workflow I" "file_inv I (lw_file w)"
  shows "file_inv I (lw_file (fst (destroyLocked env w)))"
proof (cases "ReadExasolPersonalState (lw_file w)")
  case (Inr s)
  obtain s' w2 e2 where per: "persist env (OperationInProgress DestroyOperation) s w = (s', w2, e2)"
    by (metis prod_cases3)
  have "file_inv I (lw_file (fst (runDestroyBackend env s' w2)))"
    using persist_keeps [OF assms(1) read_keeps [OF Inr assms(2)] assms(2) per] assms(1)
    by (intro runDestroyBackend_keeps)
  then show ?thesis using Inr per by (simp add: destroyLocked_def)
qed (use assms(2) in \<open>simp add: destroyLocked_def\<close>)


definition healthy_env :: "string \<Rightarrow> lc_env" where
  "healthy_env backend = \<lparr>le_root = ''/d'', le_manifest = Inr \<lparr>m_Backend = backend, m_Tofu = False\<rparr>,
     le_options = [], le_new_backend = None, le_prepare = None,
     le_backend = \<lparr>lr_Database = None, lr_Sidecars = [], lr_SidecarReconciliation = None\<rparr>,
     le_destroy = None, le_install_manifest = None, le_node_details = None, le_install_steps = None,
     le_select_runtime = None, le_status_before = Inr True, le_status_probe = Inr True,
     le_status_failed = Inr True, le_runtime_stop = None, le_cleanup_sidecars = None,
     le_running_sidecars = None, le_stopped_sidecars = None, le_remove_sidecar_state = None,
     le_verify_database = None, le_instructions = None, le_write_instructions = None,
     le_reconcile_slc = (\<lambda>f. f), le_signal = False, le_write = (\<lambda>_. WriteOk), le_error_text = (\<lambda>_. ''error'')\<rparr>"

definition world_in :: "workflow \<Rightarrow> lc_world" where
  "world_in st = \<lparr>lw_file = (case SetWorkflowState st (zero_state\<lparr>DeploymentId := ''id''\<rparr>) of
       None \<Rightarrow> NoStateFile | Some s \<Rightarrow> StoredState s), lw_writes = 0, lw_trace = []\<rparr>"


section \<open>Where an operation ends\<close>

text \<open>The writes of the state file succeed, and so does that of the activation of custom containers,
  which leaves the workflow state alone.\<close>

definition writes_ok :: "lc_env \<Rightarrow> bool" where
  "writes_ok env \<longleftrightarrow> (\<forall>n. le_write env n = WriteOk)
     \<and> (\<forall>s. \<exists>s'. le_reconcile_slc env (StoredState s) = StoredState s' \<and> GetWorkflowState s' = GetWorkflowState s)"

definition in_progress :: "lc_world \<Rightarrow> bool" where
  "in_progress w \<longleftrightarrow> (\<exists>oper. workflow_on_disk w = Some (OperationInProgress oper))"

lemma persist_ok:
  assumes "writes_ok env" and "st \<noteq> NotAWorkflowState"
  obtains s' where "persist env st s w = (s', w\<lparr>lw_file := StoredState s', lw_writes := Suc (lw_writes w)\<rparr>, None)"
    and "GetWorkflowState s' = Some st"
proof -
  from Set_workflow_total [OF assms(2)] obtain s' where set: "SetWorkflowState st s = Some s'" by blast
  then have "persist env st s w = (s', w\<lparr>lw_file := StoredState s', lw_writes := Suc (lw_writes w)\<rparr>, None)"
    using assms(1) by (simp add: persist_def SetWorkflowStateAndWrite_def WriteExasolPersonalState_def writes_ok_def)
  with that Get_Set_workflow [OF set] show ?thesis by blast
qed

lemma workflow_on_disk_stored [simp]:
  "workflow_on_disk (w\<lparr>lw_file := StoredState s, lw_writes := n\<rparr>) = GetWorkflowState s"
  by (simp add: workflow_on_disk_def)

lemma workflow_on_disk_call [simp]: "workflow_on_disk (call ev w) = workflow_on_disk w"
  by (simp add: workflow_on_disk_def)

lemma mark_disk [simp]:
  "writes_ok env \<Longrightarrow> workflow_on_disk (fst (markOperationInterrupted env s oper e w))
     = Some (Interrupted (le_error_text env e) oper)"
  by (rule persist_ok [of env "Interrupted (le_error_text env e) oper" s w])
    (auto simp: markOperationInterrupted_def)

lemma on_signal_disk [simp]:
  "writes_ok env \<Longrightarrow> workflow_on_disk (fst (on_signal env s msg oper w)) = Some (Interrupted msg oper)"
  by (rule persist_ok [of env "Interrupted msg oper" s w]) (auto simp: on_signal_def)

lemma restore_prior_disk [simp]:
  "writes_ok env \<Longrightarrow> st \<noteq> NotAWorkflowState \<Longrightarrow>
     workflow_on_disk (fst (restore_prior_state env s oper st e w)) = Some st
     \<and> snd (restore_prior_state env s oper st e w) = Some (LocalRetryableFailureError oper e)"
  by (rule persist_ok [of env st s w]) (auto simp: restore_prior_state_def)

lemma restore_port_disk [simp]:
  "writes_ok env \<Longrightarrow> st \<noteq> NotAWorkflowState \<Longrightarrow> AsUnavailable e \<noteq> None \<Longrightarrow>
     workflow_on_disk (fst (restoreStateAfterUnavailableLocalPort env s st e w)) = Some st"
  by (rule persist_ok [of env st s w]) (auto simp: restoreStateAfterUnavailableLocalPort_def)

lemma deploy_failure_disk [simp]:
  "writes_ok env \<Longrightarrow> workflow_on_disk (fst (recordDeployFailure env s e w))
     = Some (DeploymentFailed (le_error_text env (appendDeployFailureHint env e)))"
  by (rule persist_ok [of env "DeploymentFailed (le_error_text env (appendDeployFailureHint env e))" s w])
    (auto simp: recordDeployFailure_def Let_def)

text \<open>The state a failed start or stop leaves behind: stopped, unless the deployment is not local or its
  runtime could not be brought to a known state.\<close>

definition runtime_unsettled :: "lc_env \<Rightarrow> bool" where
  "runtime_unsettled env \<longleftrightarrow>
     (case probeLocalRuntimeLivenessWithCause env (le_status_failed env) of
        (liveness, probeErr) \<Rightarrow>
          (case probeErr of Some e \<Rightarrow> is_unreachable e | None \<Rightarrow> False)
          \<or> liveness = localRuntimeRunning \<and> errors_Join [le_runtime_stop env, le_cleanup_sidecars env] \<noteq> None)"

definition failure_state :: "lc_env \<Rightarrow> string \<Rightarrow> go_error \<Rightarrow> workflow" where
  "failure_state env oper e =
     (if AsUnavailable e = None \<and> (\<not> isLocalDeployment env \<or> runtime_unsettled env)
      then Interrupted (le_error_text env e) oper else Stopped)"

lemma stopLocalRuntime_running:
  assumes "probeLocalRuntimeLivenessWithCause env status = (localRuntimeRunning, p)"
  shows "stopLocalRuntimeAfterFailure env w
    = (call RuntimeStop w, errors_Join [le_runtime_stop env, le_cleanup_sidecars env])"
  using assms
  by (auto simp: stopLocalRuntimeAfterFailure_def probeLocalRuntimeLivenessWithCause_def
      split: if_splits option.splits sum.splits)

lemma recordLifecycleFailure_disk:
  assumes "writes_ok env"
  shows "workflow_on_disk (fst (recordLifecycleFailure env s oper Stopped e w)) = Some (failure_state env oper e)"
proof (cases "AsUnavailable e \<noteq> None \<or> \<not> isLocalDeployment env")
  case False
  obtain l p where probe: "probeLocalRuntimeLivenessWithCause env (le_status_failed env) = (l, p)" by fastforce
  show ?thesis
  proof (cases "l = localRuntimeRunning")
    case True
    with assms False probe stopLocalRuntime_running [OF probe [unfolded True]] show ?thesis
      by (auto simp: recordLifecycleFailure_def restoreLocalStateAfterFailure_def failure_state_def
          runtime_unsettled_def split: option.split)
  next
    case not_running: False
    with assms False probe show ?thesis
      by (auto simp: recordLifecycleFailure_def restoreLocalStateAfterFailure_def failure_state_def
          runtime_unsettled_def split: option.split)
  qed
qed (use assms in \<open>auto simp: recordLifecycleFailure_def failure_state_def\<close>)

lemma reconcile_slc_disk:
  assumes "writes_ok env" and "lw_file w = StoredState s"
  shows "workflow_on_disk (reconcileCustomSLCsAfterStart env w) = GetWorkflowState s"
proof -
  obtain s' where "le_reconcile_slc env (StoredState s) = StoredState s'" and "GetWorkflowState s' = GetWorkflowState s"
    using assms(1) unfolding writes_ok_def by blast
  then show ?thesis using assms(2) by (simp add: reconcileCustomSLCsAfterStart_def workflow_on_disk_def)
qed

lemma runStartBackend_disk:
  assumes "writes_ok env"
  shows "workflow_on_disk (fst (runStartBackend env s w)) =
    Some (if le_signal env then Interrupted ''Start Operation interrupted via signal'' StartOperation
          else case lr_Database (le_backend env) of None \<Rightarrow> Running | Some e \<Rightarrow> failure_state env StartOperation e)"
proof (cases "le_signal env \<or> lr_Database (le_backend env) \<noteq> None")
  case False
  obtain s' where per: "persist env Running s (call BackendStart w)
      = (s', (call BackendStart w)\<lparr>lw_file := StoredState s', lw_writes := Suc (lw_writes (call BackendStart w))\<rparr>, None)"
    and "GetWorkflowState s' = Some Running"
    using persist_ok [OF assms, of Running s "call BackendStart w"] by blast
  with reconcile_slc_disk [OF assms, of _ s'] False show ?thesis
    by (auto simp: runStartBackend_def Let_def split: option.split)
qed (use assms recordLifecycleFailure_disk in \<open>auto simp: runStartBackend_def Let_def split: option.splits\<close>)

lemma runStopBackend_disk:
  assumes "writes_ok env" and "le_manifest env = Inr m" and "newDeploymentBackend env m = None"
  shows "workflow_on_disk (fst (runStopBackend env s w)) =
    Some (if le_signal env then Interrupted ''Stop Operation interrupted via signal'' StopOperation
          else case lr_Database (le_backend env) of None \<Rightarrow> Stopped | Some e \<Rightarrow> failure_state env StopOperation e)"
proof -
  obtain s' where "persist env Stopped s (call BackendStop w)
      = (s', (call BackendStop w)\<lparr>lw_file := StoredState s', lw_writes := Suc (lw_writes (call BackendStop w))\<rparr>, None)"
    and "GetWorkflowState s' = Some Stopped"
    using persist_ok [OF assms(1), of Stopped s "call BackendStop w"] by blast
  then show ?thesis
    using assms recordLifecycleFailure_disk [OF assms(1)]
    by (auto simp: runStopBackend_def Let_def split: option.split)
qed

lemma runDeployBackend_disk:
  assumes "writes_ok env" and "le_install_manifest env = None"
  shows "workflow_on_disk (fst (runDeployBackend env s w)) =
    Some (if le_signal env then Interrupted ''Deployment interrupted via signal'' DeployOperation
          else case lr_Database (le_backend env) of
            Some e \<Rightarrow> if AsUnavailable e \<noteq> None then Initialized
                      else DeploymentFailed (le_error_text env (appendDeployFailureHint env e))
          | None \<Rightarrow> (case le_install_steps env of None \<Rightarrow> Running
              | Some e \<Rightarrow> DeploymentFailed (le_error_text env (appendDeployFailureHint env e))))"
proof -
  let ?w = "call BackendDeploy w"
  obtain s' where per: "persist env Running s ?w = (s', ?w\<lparr>lw_file := StoredState s', lw_writes := Suc (lw_writes ?w)\<rparr>, None)"
    and "GetWorkflowState s' = Some Running"
    using persist_ok [OF assms(1), of Running s ?w] by blast
  then have "workflow_on_disk (fst (finalizeSuccessfulDeploy env s ?w)) = Some Running"
    using reconcile_slc_disk [OF assms(1), of _ s']
    by (auto simp: finalizeSuccessfulDeploy_def Let_def split: option.split)
  then show ?thesis
    using assms by (auto simp: runDeployBackend_def Let_def split: option.split)
qed

lemma runDestroyBackend_disk:
  assumes "writes_ok env" and "le_remove_sidecar_state env = None"
  shows "workflow_on_disk (fst (runDestroyBackend env s w)) \<in> {Some Initialized}
    \<union> {Some (Interrupted e DestroyOperation) | e. True}"
proof -
  let ?w = "call BackendDestroy w"
  obtain s' where "persist env Initialized s ?w = (s', ?w\<lparr>lw_file := StoredState s', lw_writes := Suc (lw_writes ?w)\<rparr>, None)"
    and "GetWorkflowState s' = Some Initialized"
    using persist_ok [OF assms(1), of Initialized s ?w] by blast
  then show ?thesis
    using assms
    by (auto simp: runDestroyBackend_def markDestroyInterrupted_def Let_def split: option.split sum.split)
qed

end
