(* ===== verification/Lifecycle_Outcomes.thy ===== *)
theory Lifecycle_Outcomes
  imports Lifecycle
begin

text \<open>
  Where a deployment ends up. The lifecycle operations of \<open>Lifecycle\<close> refine a machine on workflow
  states alone, stated here without files, writes or traces; the questions a user asks (can a
  deployment get stuck, does the recovery command work, is the guidance of \<^verbatim>\<open>status\<close> right, what does
  a crash during a backend call leave) are answered on it.
\<close>

section \<open>The machine on workflow states\<close>

text \<open>The state after the reconciliation with the local runtime, which \<open>start\<close> and \<open>stop\<close> do first;
  \<^const>\<open>None\<close> when the container host cannot be asked.\<close>

definition reconciled :: "lc_env \<Rightarrow> workflow \<Rightarrow> workflow option" where
  "reconciled env st =
     (if \<not> isLocalDeployment env \<or> st \<noteq> Running then Some st
      else case probeLocalRuntimeLivenessWithCause env (le_status_before env) of
        (_, Some e) \<Rightarrow> if is_unreachable e then None else Some Running
      | (liveness, None) \<Rightarrow> Some (if liveness = localRuntimeStopped then Stopped else Running))"

definition backend_ready :: "lc_env \<Rightarrow> bool" where
  "backend_ready env \<longleftrightarrow> (case le_manifest env of Inl _ \<Rightarrow> False | Inr m \<Rightarrow> newDeploymentBackend env m = None)"

fun start_runs :: "workflow \<Rightarrow> bool" where
  "start_runs Stopped = True"
| "start_runs (OperationInProgress oper) = (oper = StartOperation)"
| "start_runs (Interrupted _ oper) = (oper = StartOperation \<or> oper = StopOperation)"
| "start_runs _ = False"

fun stop_runs :: "workflow \<Rightarrow> bool" where
  "stop_runs Running = True"
| "stop_runs (OperationInProgress oper) = (oper = StopOperation)"
| "stop_runs (Interrupted _ oper) = (oper = StartOperation \<or> oper = StopOperation \<or> oper = DestroyOperation)"
| "stop_runs _ = False"

fun deploy_runs :: "workflow \<Rightarrow> bool" where
  "deploy_runs Initialized = True"
| "deploy_runs (DeploymentFailed _) = True"
| "deploy_runs Running = True"
| "deploy_runs (OperationInProgress oper) = (oper = DeployOperation)"
| "deploy_runs (Interrupted _ oper) = (oper = DeployOperation)"
| "deploy_runs _ = False"

definition start_result :: "lc_env \<Rightarrow> workflow" where
  "start_result env =
     (if le_signal env then Interrupted ''Start Operation interrupted via signal'' StartOperation
      else case lr_Database (le_backend env) of None \<Rightarrow> Running | Some e \<Rightarrow> failure_state env StartOperation e)"

definition stop_result :: "lc_env \<Rightarrow> workflow" where
  "stop_result env =
     (if le_signal env then Interrupted ''Stop Operation interrupted via signal'' StopOperation
      else case lr_Database (le_backend env) of None \<Rightarrow> Stopped | Some e \<Rightarrow> failure_state env StopOperation e)"

definition deploy_result :: "lc_env \<Rightarrow> workflow" where
  "deploy_result env =
     (if le_signal env then Interrupted ''Deployment interrupted via signal'' DeployOperation
      else case lr_Database (le_backend env) of
        Some e \<Rightarrow> if AsUnavailable e \<noteq> None then Initialized
                  else DeploymentFailed (le_error_text env (appendDeployFailureHint env e))
      | None \<Rightarrow> (case le_install_steps env of None \<Rightarrow> Running
          | Some e \<Rightarrow> DeploymentFailed (le_error_text env (appendDeployFailureHint env e))))"

definition start_next :: "lc_env \<Rightarrow> workflow \<Rightarrow> workflow" where
  "start_next env st =
     (case reconciled env st of
        None \<Rightarrow> st
      | Some st' \<Rightarrow> if start_runs st' \<and> backend_ready env \<and> le_prepare env = None then start_result env else st')"

definition stop_next :: "lc_env \<Rightarrow> workflow \<Rightarrow> workflow" where
  "stop_next env st =
     (case reconciled env st of
        None \<Rightarrow> st
      | Some st' \<Rightarrow>
          if \<not> stop_runs st' then st'
          else if backend_ready env then stop_result env else OperationInProgress StopOperation)"

definition deploy_next :: "lc_env \<Rightarrow> workflow \<Rightarrow> workflow" where
  "deploy_next env st =
     (if deploy_runs st \<and> backend_ready env \<and> le_prepare env = None
         \<and> (case le_manifest env of Inl _ \<Rightarrow> False
            | Inr m \<Rightarrow> validateDeployOptionsForManifest (Some m) (le_options env) = None)
      then if le_install_manifest env = None then deploy_result env else OperationInProgress DeployOperation
      else st)"

definition destroy_next :: "lc_env \<Rightarrow> workflow \<Rightarrow> workflow" where
  "destroy_next env st =
     (case le_manifest env of
        Inl e \<Rightarrow> Interrupted (le_error_text env e) DestroyOperation
      | Inr m \<Rightarrow>
          (case newDeploymentBackend env m of
             Some e \<Rightarrow> Interrupted (le_error_text env e) DestroyOperation
           | None \<Rightarrow>
               if le_signal env then Interrupted ''Destroy interrupted via signal'' DestroyOperation
               else case le_destroy env of
                 Some e \<Rightarrow> Interrupted (le_error_text env e) DestroyOperation
               | None \<Rightarrow> if le_remove_sidecar_state env = None then Initialized
                         else OperationInProgress DestroyOperation))"

section \<open>Refinement\<close>

lemma on_disk_cases:
  assumes "workflow_on_disk w = Some st"
  obtains s where "lw_file w = StoredState s" and "GetWorkflowState s = Some st" and "st \<noteq> NotAWorkflowState"
  using assms Get_workflow_not_other by (auto simp: workflow_on_disk_def split: state_file.splits)

lemma read_stored [simp]: "ReadExasolPersonalState (StoredState s) = Inr s"
  by (simp add: ReadExasolPersonalState_def)

lemma reconcile_cases:
  assumes "writes_ok env" and "lw_file w = StoredState s" and "GetWorkflowState s = Some st"
    and "reconcileLocalVMState env s w = (s', w', err)"
  shows "case err of
      Some _ \<Rightarrow> w' = w \<and> reconciled env st = None
    | None \<Rightarrow> lw_file w' = StoredState s' \<and> GetWorkflowState s' = reconciled env st \<and> reconciled env st \<noteq> None"
proof (cases "isLocalDeployment env \<and> st = Running")
  case False
  then have "(s', w', err) = (s, w, None)"
    using assms(3,4) by (cases st) (auto simp: reconcileLocalVMState_def split: if_splits)
  then show ?thesis using False assms(2,3) by (auto simp: reconciled_def)
next
  case True
  obtain l p where probe: "probeLocalRuntimeLivenessWithCause env (le_status_before env) = (l, p)" by fastforce
  obtain t where "persist env Stopped s w = (t, w\<lparr>lw_file := StoredState t, lw_writes := Suc (lw_writes w)\<rparr>, None)"
    and "GetWorkflowState t = Some Stopped"
    using persist_ok [OF assms(1), of Stopped s w] by blast
  then show ?thesis
    using True probe assms(2-4)
    by (auto simp: reconcileLocalVMState_def reconciled_def split: option.splits if_splits)
qed

lemma persist_marks:
  assumes "writes_ok env" and "persist env (OperationInProgress oper) s w = (s', w', e)"
  shows "workflow_on_disk w' = Some (OperationInProgress oper) \<and> lw_file w' = StoredState s'
    \<and> GetWorkflowState s' = Some (OperationInProgress oper) \<and> lw_trace w' = lw_trace w"
proof -
  obtain t where "persist env (OperationInProgress oper) s w
      = (t, w\<lparr>lw_file := StoredState t, lw_writes := Suc (lw_writes w)\<rparr>, None)"
    and "GetWorkflowState t = Some (OperationInProgress oper)"
    using persist_ok [OF assms(1), of "OperationInProgress oper" s w] by blast
  then show ?thesis using assms(2) by (auto simp: workflow_on_disk_def)
qed

lemma permits_start:
  assumes "GetWorkflowState s = Some st" and "workflowStatePermitsStart env s f = Inr d"
  shows "d_shouldRun d = start_runs st"
  using assms
  by (cases st) (auto simp: workflowStatePermitsStart_def runLifecycleAction_def skipLifecycleAction_def guidanceOnly_def
      skipLifecycleActionWithConnectionInstructions_def split: if_splits sum.splits)

lemma permits_start_fails:
  assumes "GetWorkflowState s = Some st" and "workflowStatePermitsStart env s f = Inl e"
  shows "\<not> start_runs st"
  using assms by (cases st) (auto simp: workflowStatePermitsStart_def split: if_splits sum.splits)

lemma permits_stop:
  assumes "GetWorkflowState s = Some st"
  shows "\<exists>d. workflowStatePermitsStop s = Inr d \<and> d_shouldRun d = stop_runs st"
  using assms
  by (cases st) (auto simp: workflowStatePermitsStop_def runLifecycleAction_def skipLifecycleAction_def guidanceOnly_def)

lemma permits_deploy:
  "GetWorkflowState s = Some st \<Longrightarrow> WorkflowStatePermitsDeploy env s f = None \<longleftrightarrow> deploy_runs st"
  by (cases st) (auto simp: WorkflowStatePermitsDeploy_def)

lemma startLocked_refines:
  assumes "writes_ok env" and "workflow_on_disk w = Some st"
  shows "workflow_on_disk (fst (startLocked env w)) = Some (start_next env st)"
proof -
  obtain s0 where s0: "lw_file w = StoredState s0" "GetWorkflowState s0 = Some st"
    using assms(2) by (rule on_disk_cases)
  obtain s w0 err where rec: "reconcileLocalVMState env s0 w = (s, w0, err)" by (metis prod_cases3)
  note recc = reconcile_cases [OF assms(1) s0 rec]
  show ?thesis
  proof (cases err)
    case (Some e)
    then show ?thesis using recc rec s0 assms(2) by (simp add: startLocked_def start_next_def)
  next
    case None
    then obtain st' where st': "reconciled env st = Some st'" "GetWorkflowState s = Some st'" "lw_file w0 = StoredState s"
      using recc by auto
    then have disk: "workflow_on_disk w0 = Some st'" by (simp add: workflow_on_disk_def)
    show ?thesis
    proof (cases "start_runs st'")
      case False
      then show ?thesis
        using None rec s0 st' disk permits_start [OF st'(2)]
        by (auto simp: startLocked_def start_next_def Let_def split: sum.split option.split)
    next
      case True
      then obtain d where d: "workflowStatePermitsStart env s (lw_file w0) = Inr d" "d_shouldRun d"
        using permits_start [OF st'(2)] permits_start_fails [OF st'(2)]
        by (cases "workflowStatePermitsStart env s (lw_file w0)") blast+
      obtain s' w2 e2 where "persist env (OperationInProgress StartOperation) s (call BackendPrepare w0) = (s', w2, e2)"
        by (metis prod_cases3)
      then show ?thesis
        using None rec s0 st' disk d True runStartBackend_disk [OF assms(1), of s' w2]
        by (auto simp: startLocked_def start_next_def start_result_def backend_ready_def Let_def
            split: sum.split option.split)
    qed
  qed
qed

lemma stopLocked_refines:
  assumes "writes_ok env" and "workflow_on_disk w = Some st"
  shows "workflow_on_disk (fst (stopLocked env w)) = Some (stop_next env st)"
proof -
  obtain s0 where s0: "lw_file w = StoredState s0" "GetWorkflowState s0 = Some st"
    using assms(2) by (rule on_disk_cases)
  obtain s w0 err where rec: "reconcileLocalVMState env s0 w = (s, w0, err)" by (metis prod_cases3)
  note recc = reconcile_cases [OF assms(1) s0 rec]
  show ?thesis
  proof (cases err)
    case (Some e)
    then show ?thesis using recc rec s0 assms(2) by (simp add: stopLocked_def stop_next_def)
  next
    case None
    then obtain st' where st': "reconciled env st = Some st'" "GetWorkflowState s = Some st'" "lw_file w0 = StoredState s"
      using recc by auto
    obtain d where d: "workflowStatePermitsStop s = Inr d" "d_shouldRun d = stop_runs st'"
      using permits_stop [OF st'(2)] by blast
    obtain s' w2 e2 where per: "persist env (OperationInProgress StopOperation) s w0 = (s', w2, e2)"
      by (metis prod_cases3)
    have marked: "workflow_on_disk w2 = Some (OperationInProgress StopOperation)"
      using persist_marks [OF assms(1) per] by blast
    have "workflow_on_disk (fst (runStopBackend env s' w2))
      = Some (if backend_ready env then stop_result env else OperationInProgress StopOperation)"
    proof (cases "backend_ready env")
      case True
      then obtain m where "le_manifest env = Inr m" "newDeploymentBackend env m = None"
        by (auto simp: backend_ready_def split: sum.splits)
      then show ?thesis using True runStopBackend_disk [OF assms(1)] by (simp add: stop_result_def)
    next
      case False
      then show ?thesis using marked by (auto simp: runStopBackend_def backend_ready_def split: sum.splits option.splits)
    qed
    then show ?thesis
      using None rec s0 st' d per by (auto simp: stopLocked_def stop_next_def workflow_on_disk_def)
  qed
qed

lemma deployLocked_refines:
  assumes "writes_ok env" and "workflow_on_disk w = Some st"
  shows "workflow_on_disk (fst (deployLocked env w)) = Some (deploy_next env st)"
proof -
  obtain s where s: "lw_file w = StoredState s" "GetWorkflowState s = Some st"
    using assms(2) by (rule on_disk_cases)
  obtain s' w2 e2 where per: "persist env (OperationInProgress DeployOperation) s (call BackendPrepare w) = (s', w2, e2)"
    by (metis prod_cases3)
  have marked: "workflow_on_disk w2 = Some (OperationInProgress DeployOperation)"
    using persist_marks [OF assms(1) per] by blast
  have "workflow_on_disk (fst (runDeployBackend env s' w2))
      = Some (if le_install_manifest env = None then deploy_result env else OperationInProgress DeployOperation)"
    using marked runDeployBackend_disk [OF assms(1)]
    by (cases "le_install_manifest env") (simp_all add: deploy_result_def runDeployBackend_def)
  then show ?thesis
    using s per assms(2) permits_deploy [OF s(2)]
    by (auto simp: deployLocked_def deploy_next_def backend_ready_def Let_def split: option.split sum.split)
qed

lemma destroyLocked_refines:
  assumes "writes_ok env" and "workflow_on_disk w = Some st"
  shows "workflow_on_disk (fst (destroyLocked env w)) = Some (destroy_next env st)"
proof -
  obtain s where s: "lw_file w = StoredState s" using assms(2) by (rule on_disk_cases)
  obtain s' w2 e2 where per: "persist env (OperationInProgress DestroyOperation) s w = (s', w2, e2)"
    by (metis prod_cases3)
  obtain t where "persist env Initialized s' (call BackendDestroy w2) = (t, (call BackendDestroy w2)\<lparr>lw_file := StoredState t,
      lw_writes := Suc (lw_writes (call BackendDestroy w2))\<rparr>, None)" and "GetWorkflowState t = Some Initialized"
    using persist_ok [OF assms(1), of Initialized s' "call BackendDestroy w2"] by blast
  then show ?thesis
    using s per assms(1) persist_marks [OF assms(1) per]
    by (auto simp: destroyLocked_def destroy_next_def runDestroyBackend_def markDestroyInterrupted_def Let_def
        split: option.split sum.split)
qed

text \<open>C1: the four lifecycle operations refine the machine on workflow states: with a stored state and
  writes that succeed, what the state file says after the whole operation (the reconciliation with
  the runtime, the guard, the preparation, the marking, the backend call with a signal or a failure,
  and the failure handling) is the machine's next state, in every environment.\<close>

theorem lifecycle_refines_machine:
  assumes "writes_ok env" and "workflow_on_disk w = Some st"
  shows "workflow_on_disk (fst (startLocked env w)) = Some (start_next env st)
    \<and> workflow_on_disk (fst (stopLocked env w)) = Some (stop_next env st)
    \<and> workflow_on_disk (fst (deployLocked env w)) = Some (deploy_next env st)
    \<and> workflow_on_disk (fst (destroyLocked env w)) = Some (destroy_next env st)"
  using startLocked_refines [OF assms] stopLocked_refines [OF assms]
    deployLocked_refines [OF assms] destroyLocked_refines [OF assms] by blast

lemma healthy_writes_ok [simp]: "writes_ok (healthy_env backend)"
  by (simp add: writes_ok_def healthy_env_def)

theorem lifecycle_refines_machine_witness:
  "workflow_on_disk (fst (deployLocked (healthy_env ''tofu'') (world_in Initialized))) = Some Running
   \<and> workflow_on_disk (fst (stopLocked (healthy_env ''tofu'') (world_in Running))) = Some Stopped"
proof -
  have "workflow_on_disk (world_in Initialized) = Some Initialized" and "workflow_on_disk (world_in Running) = Some Running"
    by code_simp+
  moreover have "deploy_next (healthy_env ''tofu'') Initialized = Running" by code_simp
  moreover have "stop_next (healthy_env ''tofu'') Running = Stopped" by code_simp
  ultimately show ?thesis
    using lifecycle_refines_machine [of "healthy_env ''tofu''" "world_in Initialized" Initialized]
      lifecycle_refines_machine [of "healthy_env ''tofu''" "world_in Running" Running] by simp
qed

section \<open>Histories\<close>

text \<open>An environment in which an operation that marks the deployment can also settle it: the backend
  can be constructed, the installation manifest is readable and the sidecar records can be removed.\<close>

definition settles :: "lc_env \<Rightarrow> bool" where
  "settles env \<longleftrightarrow> writes_ok env \<and> backend_ready env \<and> le_install_manifest env = None
     \<and> le_remove_sidecar_state env = None"

inductive lc_history :: "lc_world \<Rightarrow> lc_world \<Rightarrow> bool" where
  begin_history: "lc_history w w"
| start_step: "lc_history w v \<Longrightarrow> settles env \<Longrightarrow> lc_history w (fst (startLocked env v))"
| stop_step: "lc_history w v \<Longrightarrow> settles env \<Longrightarrow> lc_history w (fst (stopLocked env v))"
| deploy_step: "lc_history w v \<Longrightarrow> settles env \<Longrightarrow> lc_history w (fst (deployLocked env v))"
| destroy_step: "lc_history w v \<Longrightarrow> settles env \<Longrightarrow> lc_history w (fst (destroyLocked env v))"

lemma failure_state_settled [simp]: "\<not> is_OperationInProgress (failure_state env oper e)"
  by (simp add: failure_state_def)

lemma result_settled [simp]:
  "\<not> is_OperationInProgress (start_result env)" "\<not> is_OperationInProgress (stop_result env)"
  "\<not> is_OperationInProgress (deploy_result env)"
  by (auto simp: start_result_def stop_result_def deploy_result_def split: option.split)

lemma reconciled_settled:
  "reconciled env st = Some st' \<Longrightarrow> \<not> is_OperationInProgress st \<Longrightarrow> \<not> is_OperationInProgress st'"
  by (auto simp: reconciled_def split: if_splits prod.splits option.splits)

lemma next_settled:
  assumes "settles env" and "\<not> is_OperationInProgress st"
  shows "\<not> is_OperationInProgress (start_next env st)" and "\<not> is_OperationInProgress (stop_next env st)"
    and "\<not> is_OperationInProgress (deploy_next env st)" and "\<not> is_OperationInProgress (destroy_next env st)"
  using assms reconciled_settled [of env st]
  by (auto simp: settles_def start_next_def stop_next_def deploy_next_def destroy_next_def
      split: option.split sum.split)


lemma healthy_settles: "settles (healthy_env ''local'')"
proof -
  have "backend_ready (healthy_env ''local'')" by code_simp
  then show ?thesis by (simp add: settles_def) (simp add: healthy_env_def)
qed


lemma no_options_valid:
  "le_manifest env = Inr m \<Longrightarrow> newDeploymentBackend env m = None \<Longrightarrow> validateDeployOptionsForManifest (Some m) [] = None"
  by (auto simp: validateDeployOptionsForManifest_def newDeploymentBackend_def sorted_keys_def
      split: sum.splits prod.splits)

lemma deploy_next_runs:
  assumes "backend_ready env" and "le_prepare env = None" and "le_options env = []" and "le_install_manifest env = None"
    and "deploy_runs st"
  shows "deploy_next env st = deploy_result env"
proof -
  obtain m where "le_manifest env = Inr m" "newDeploymentBackend env m = None"
    using assms(1) by (auto simp: backend_ready_def split: sum.splits)
  with assms no_options_valid [OF this] show ?thesis by (simp add: deploy_next_def)
qed



text \<open>a stop whose backend cannot be constructed (the manifest is unreadable, its backend unknown)
  returns its error but leaves the deployment marked as in progress, and from then on every start is
  skipped, whatever the environment.\<close>

theorem stop_without_backend_stays_in_progress:
  assumes "writes_ok env" and "workflow_on_disk w = Some Running" and "reconciled env Running = Some Running"
    and "\<not> backend_ready env"
  shows "workflow_on_disk (fst (stopLocked env w)) = Some (OperationInProgress StopOperation)
    \<and> (\<forall>env'. startLocked env' (fst (stopLocked env w)) = (fst (stopLocked env w), Some ErrLifecycleActionSkipped))"
proof -
  let ?w = "fst (stopLocked env w)"
  have disk: "workflow_on_disk ?w = Some (OperationInProgress StopOperation)"
    using stopLocked_refines [OF assms(1,2)] assms(3,4) by (simp add: stop_next_def)
  then obtain s where s: "lw_file ?w = StoredState s" "GetWorkflowState s = Some (OperationInProgress StopOperation)"
    by (rule on_disk_cases)
  have "startLocked env' ?w = (?w, Some ErrLifecycleActionSkipped)" for env'
    using s by (simp add: startLocked_def reconcileLocalVMState_def workflowStatePermitsStart_def
        skipLifecycleAction_def operation_names)
  then show ?thesis using disk by simp
qed

theorem stop_without_backend_stays_in_progress_witness:
  "workflow_on_disk (fst (stopLocked (healthy_env ''nomad'') (world_in Running))) = Some (OperationInProgress StopOperation)"
proof -
  have "workflow_on_disk (world_in Running) = Some Running" by code_simp
  moreover have "reconciled (healthy_env ''nomad'') Running = Some Running" by code_simp
  moreover have "\<not> backend_ready (healthy_env ''nomad'')" by code_simp
  ultimately show ?thesis using stop_without_backend_stays_in_progress [of "healthy_env ''nomad''"] by simp
qed

text \<open>Deploying a running local deployment again, with a port that is taken, resets it to
  \<open>Initialized\<close> and not to the prior state: start and stop then do nothing with it.\<close>

theorem port_conflict_forgets_running:
  assumes "writes_ok env" and "workflow_on_disk w = Some Running" and "backend_ready env"
    and "le_prepare env = None" and "le_options env = []" and "le_install_manifest env = None" and "\<not> le_signal env"
    and "lr_Database (le_backend env) = Some e" and "AsUnavailable e \<noteq> None" and "writes_ok env'"
  shows "workflow_on_disk (fst (deployLocked env w)) = Some Initialized
    \<and> workflow_on_disk (fst (stopLocked env' (fst (deployLocked env w)))) = Some Initialized
    \<and> workflow_on_disk (fst (startLocked env' (fst (deployLocked env w)))) = Some Initialized"
proof -
  have "deploy_next env Running = Initialized"
    using deploy_next_runs [OF assms(3-6), of Running] assms(7-9) by (simp add: deploy_result_def)
  then have disk: "workflow_on_disk (fst (deployLocked env w)) = Some Initialized"
    using deployLocked_refines [OF assms(1,2)] by simp
  show ?thesis
    using disk startLocked_refines [OF assms(10) disk] stopLocked_refines [OF assms(10) disk]
    by (simp add: start_next_def stop_next_def reconciled_def)
qed

definition port_taken_env :: lc_env where
  "port_taken_env = (healthy_env ''local'')\<lparr>le_backend := \<lparr>lr_Database =
     Some (Wrap ''deploy'' (UnavailableError ''db'' 8563 (Plain ''in use''))), lr_Sidecars = [], lr_SidecarReconciliation = None\<rparr>\<rparr>"

theorem port_conflict_forgets_running_witness:
  "workflow_on_disk (fst (deployLocked port_taken_env (world_in Running))) = Some Initialized"
proof -
  have "writes_ok port_taken_env" by (simp add: writes_ok_def port_taken_env_def healthy_env_def)
  moreover have "workflow_on_disk (world_in Running) = Some Running" by code_simp
  moreover have "backend_ready port_taken_env" by code_simp
  moreover have "le_prepare port_taken_env = None" "le_options port_taken_env = []" "le_install_manifest port_taken_env = None" "\<not> le_signal port_taken_env"
    "lr_Database (le_backend port_taken_env) = Some (Wrap ''deploy'' (UnavailableError ''db'' 8563 (Plain ''in use'')))"
    by (simp_all add: port_taken_env_def healthy_env_def)
  ultimately show ?thesis
    using port_conflict_forgets_running [of port_taken_env "world_in Running" _ port_taken_env] by simp
qed

section \<open>Crashes\<close>

text \<open>The state file at the moment of a call to the backend is what a crash during the call leaves: it
  names the operation in progress. A runtime is stopped after a failure while still marked.\<close>

definition marked_call :: "lc_event \<times> state_file \<Rightarrow> bool" where
  "marked_call c =
     (case c of (ev, f) \<Rightarrow>
        (case f of
           StoredState s \<Rightarrow>
             (case ev of
                BackendPrepare \<Rightarrow> True
              | BackendStart \<Rightarrow> GetWorkflowState s = Some (OperationInProgress StartOperation)
              | BackendStop \<Rightarrow> GetWorkflowState s = Some (OperationInProgress StopOperation)
              | BackendDeploy \<Rightarrow> GetWorkflowState s = Some (OperationInProgress DeployOperation)
              | BackendDestroy \<Rightarrow> GetWorkflowState s = Some (OperationInProgress DestroyOperation)
              | RuntimeStop \<Rightarrow> (case GetWorkflowState s of Some st \<Rightarrow> is_OperationInProgress st | None \<Rightarrow> False))
         | _ \<Rightarrow> False))"

lemma trace_call [simp]: "lw_trace (call ev w) = lw_trace w @ [(ev, lw_file w)]"
  by (simp add: call_def)

lemma trace_persist: "persist env st s w = (s', w', e) \<Longrightarrow> lw_trace w' = lw_trace w"
  by (auto simp: persist_def split: prod.splits)

lemma trace_records [simp]:
  "lw_trace (fst (markOperationInterrupted env s oper e w)) = lw_trace w"
  "lw_trace (fst (restoreStateAfterUnavailableLocalPort env s st e w)) = lw_trace w"
  "lw_trace (fst (restore_prior_state env s oper st e w)) = lw_trace w"
  "lw_trace (fst (on_signal env s msg oper w)) = lw_trace w"
  "lw_trace (fst (recordDeployFailure env s e w)) = lw_trace w"
  "lw_trace (reconcileCustomSLCsAfterStart env w) = lw_trace w"
  "lw_trace (fst (finalizeSuccessfulDeploy env s w)) = lw_trace w"
  using trace_persist
  by (auto simp: markOperationInterrupted_def restoreStateAfterUnavailableLocalPort_def restore_prior_state_def
      on_signal_def recordDeployFailure_def reconcileCustomSLCsAfterStart_def finalizeSuccessfulDeploy_def Let_def
      split: prod.split option.split)

lemma trace_reconcile: "reconcileLocalVMState env s w = (s', w', e) \<Longrightarrow> lw_trace w' = lw_trace w"
  using trace_persist [of env Stopped s w s' w' e]
  by (auto simp: reconcileLocalVMState_def split: if_splits option.splits workflow.splits prod.splits)

definition in_progress_file :: "state_file \<Rightarrow> string \<Rightarrow> bool" where
  "in_progress_file f oper \<longleftrightarrow>
     (case f of StoredState s \<Rightarrow> GetWorkflowState s = Some (OperationInProgress oper) | _ \<Rightarrow> False)"

lemma marked_in_progress:
  "in_progress_file f StartOperation \<Longrightarrow> marked_call (BackendStart, f)"
  "in_progress_file f StopOperation \<Longrightarrow> marked_call (BackendStop, f)"
  "in_progress_file f DeployOperation \<Longrightarrow> marked_call (BackendDeploy, f)"
  "in_progress_file f DestroyOperation \<Longrightarrow> marked_call (BackendDestroy, f)"
  "in_progress_file f oper \<Longrightarrow> marked_call (RuntimeStop, f)"
  by (auto simp: marked_call_def in_progress_file_def split: state_file.splits)

lemma persist_in_progress:
  "writes_ok env \<Longrightarrow> persist env (OperationInProgress oper) s w = (s', w', e) \<Longrightarrow> in_progress_file (lw_file w') oper"
  using persist_marks [of env oper s w s' w' e] by (simp add: in_progress_file_def)

lemma failure_marked:
  assumes "in_progress_file (lw_file w) oper'" and "list_all marked_call (lw_trace w)"
  shows "list_all marked_call (lw_trace (fst (recordLifecycleFailure env s oper st e w)))"
proof -
  obtain w' r where stop: "stopLocalRuntimeAfterFailure env w = (w', r)" by fastforce
  then have "list_all marked_call (lw_trace w')"
    using assms marked_in_progress(5) [OF assms(1)]
    by (auto simp: stopLocalRuntimeAfterFailure_def split: option.splits)
  then show ?thesis
    using assms(2) stop
    by (auto simp: recordLifecycleFailure_def restoreLocalStateAfterFailure_def split: prod.split option.split)
qed

lemma runStartBackend_marked:
  assumes "in_progress_file (lw_file w) StartOperation" and "list_all marked_call (lw_trace w)"
  shows "list_all marked_call (lw_trace (fst (runStartBackend env s w)))"
proof -
  have w1: "list_all marked_call (lw_trace (call BackendStart w))"
    using assms marked_in_progress(1) by simp
  then have "list_all marked_call (lw_trace w2)" if "persist env Running s (call BackendStart w) = (s', w2, e)" for s' w2 e
    using trace_persist [OF that] by simp
  then show ?thesis
    using assms w1 failure_marked [of "call BackendStart w" StartOperation] marked_in_progress(1)
    by (auto simp: runStartBackend_def Let_def split: prod.split option.split)
qed

lemma runStopBackend_marked:
  assumes "in_progress_file (lw_file w) StopOperation" and "list_all marked_call (lw_trace w)"
  shows "list_all marked_call (lw_trace (fst (runStopBackend env s w)))"
proof -
  have w1: "list_all marked_call (lw_trace (call BackendStop w))"
    using assms marked_in_progress(2) by simp
  then have "list_all marked_call (lw_trace w2)" if "persist env Stopped s (call BackendStop w) = (s', w2, e)" for s' w2 e
    using trace_persist [OF that] by simp
  then show ?thesis
    using assms w1 failure_marked [of "call BackendStop w" StopOperation] marked_in_progress(2)
    by (auto simp: runStopBackend_def Let_def split: prod.split option.split sum.split)
qed

lemma runDeployBackend_marked:
  assumes "in_progress_file (lw_file w) DeployOperation" and "list_all marked_call (lw_trace w)"
  shows "list_all marked_call (lw_trace (fst (runDeployBackend env s w)))"
  using assms marked_in_progress(3) by (auto simp: runDeployBackend_def Let_def split: option.split)

lemma runDestroyBackend_marked:
  assumes "in_progress_file (lw_file w) DestroyOperation" and "list_all marked_call (lw_trace w)"
  shows "list_all marked_call (lw_trace (fst (runDestroyBackend env s w)))"
  using assms marked_in_progress(4) trace_persist [of env Initialized s "call BackendDestroy w"]
  by (auto simp: runDestroyBackend_def markDestroyInterrupted_def Let_def split: option.split prod.split sum.split)

lemma prepare_marked: "marked_call (BackendPrepare, StoredState s)"
  by (simp add: marked_call_def)

lemma startLocked_marked:
  assumes "writes_ok env" and "workflow_on_disk w = Some st" and "list_all marked_call (lw_trace w)"
  shows "list_all marked_call (lw_trace (fst (startLocked env w)))"
proof -
  obtain s0 where s0: "lw_file w = StoredState s0" "GetWorkflowState s0 = Some st"
    using assms(2) by (rule on_disk_cases)
  obtain s w0 err where rec: "reconcileLocalVMState env s0 w = (s, w0, err)" by (metis prod_cases3)
  have tr: "list_all marked_call (lw_trace w0)" using assms(3) trace_reconcile [OF rec] by simp
  obtain s' w2 e2 where per: "persist env (OperationInProgress StartOperation) s (call BackendPrepare w0) = (s', w2, e2)"
    by (metis prod_cases3)
  have prep: "marked_call (BackendPrepare, lw_file w0)" if "err = None"
    using reconcile_cases [OF assms(1) s0 rec] that prepare_marked by simp
  then have "list_all marked_call (lw_trace (fst (runStartBackend env s' w2)))" if "err = None"
    using that persist_in_progress [OF assms(1) per] trace_persist [OF per] tr by (intro runStartBackend_marked) simp_all
  then show ?thesis
    using s0 rec per tr prep by (auto simp: startLocked_def Let_def split: option.split sum.split)
qed

lemma stopLocked_marked:
  assumes "writes_ok env" and "workflow_on_disk w = Some st" and "list_all marked_call (lw_trace w)"
  shows "list_all marked_call (lw_trace (fst (stopLocked env w)))"
proof -
  obtain s0 where s0: "lw_file w = StoredState s0" "GetWorkflowState s0 = Some st"
    using assms(2) by (rule on_disk_cases)
  obtain s w0 err where rec: "reconcileLocalVMState env s0 w = (s, w0, err)" by (metis prod_cases3)
  have tr: "list_all marked_call (lw_trace w0)" using assms(3) trace_reconcile [OF rec] by simp
  obtain s' w2 e2 where per: "persist env (OperationInProgress StopOperation) s w0 = (s', w2, e2)"
    by (metis prod_cases3)
  have "list_all marked_call (lw_trace (fst (runStopBackend env s' w2)))"
    using persist_in_progress [OF assms(1) per] trace_persist [OF per] tr by (intro runStopBackend_marked) simp_all
  then show ?thesis using s0 rec per tr by (auto simp: stopLocked_def split: option.split sum.split)
qed

lemma deployLocked_marked:
  assumes "writes_ok env" and "workflow_on_disk w = Some st" and "list_all marked_call (lw_trace w)"
  shows "list_all marked_call (lw_trace (fst (deployLocked env w)))"
proof -
  obtain s where s: "lw_file w = StoredState s" "GetWorkflowState s = Some st"
    using assms(2) by (rule on_disk_cases)
  obtain s' w2 e2 where per: "persist env (OperationInProgress DeployOperation) s (call BackendPrepare w) = (s', w2, e2)"
    by (metis prod_cases3)
  have "list_all marked_call (lw_trace (fst (runDeployBackend env s' w2)))"
    using persist_in_progress [OF assms(1) per] trace_persist [OF per] assms(3) s prepare_marked
    by (intro runDeployBackend_marked) simp_all
  then show ?thesis
    using s per assms(3) prepare_marked by (auto simp: deployLocked_def Let_def split: option.split sum.split)
qed

lemma destroyLocked_marked:
  assumes "writes_ok env" and "workflow_on_disk w = Some st" and "list_all marked_call (lw_trace w)"
  shows "list_all marked_call (lw_trace (fst (destroyLocked env w)))"
proof -
  obtain s where s: "lw_file w = StoredState s" "GetWorkflowState s = Some st"
    using assms(2) by (rule on_disk_cases)
  obtain s' w2 e2 where per: "persist env (OperationInProgress DestroyOperation) s w = (s', w2, e2)"
    by (metis prod_cases3)
  have "list_all marked_call (lw_trace (fst (runDestroyBackend env s' w2)))"
    using persist_in_progress [OF assms(1) per] trace_persist [OF per] assms(3)
    by (intro runDestroyBackend_marked) simp_all
  then show ?thesis using s per by (simp add: destroyLocked_def)
qed



text \<open>a failed preparation costs nothing: when the backend's preparation fails, deploy leaves the
  state file as it was and has called nothing else, and so does start up to the reconciliation of a
  running local deployment; the error is the preparation's.\<close>

theorem prepare_failure_leaves_state:
  assumes "le_prepare env = Some e" and "workflow_on_disk w = Some st"
  shows "lw_file (fst (deployLocked env w)) = lw_file w
    \<and> set (lw_trace (fst (deployLocked env w))) \<subseteq> set (lw_trace w) \<union> {(BackendPrepare, lw_file w)}
    \<and> (deploy_runs st \<and> backend_ready env \<and> le_options env = [] \<longrightarrow> snd (deployLocked env w) = Some e)
    \<and> (st \<noteq> Running \<longrightarrow> lw_file (fst (startLocked env w)) = lw_file w
        \<and> set (lw_trace (fst (startLocked env w))) \<subseteq> set (lw_trace w) \<union> {(BackendPrepare, lw_file w)}
        \<and> (start_runs st \<and> backend_ready env \<longrightarrow> snd (startLocked env w) = Some e))"
proof -
  obtain s where s: "lw_file w = StoredState s" "GetWorkflowState s = Some st"
    using assms(2) by (rule on_disk_cases)
  have deploy: "lw_file (fst (deployLocked env w)) = lw_file w"
    "set (lw_trace (fst (deployLocked env w))) \<subseteq> set (lw_trace w) \<union> {(BackendPrepare, lw_file w)}"
    using s assms(1) by (auto simp: deployLocked_def Let_def split: option.split sum.split)
  have err: "snd (deployLocked env w) = Some e" if runs: "deploy_runs st \<and> backend_ready env \<and> le_options env = []"
  proof -
    obtain m where "le_manifest env = Inr m" "newDeploymentBackend env m = None"
      using runs by (auto simp: backend_ready_def split: sum.splits)
    then show ?thesis
      using runs s assms(1) permits_deploy [OF s(2)] no_options_valid [of env m] by (simp add: deployLocked_def Let_def)
  qed
  have rec: "reconcileLocalVMState env s w = (s, w, None)" if "st \<noteq> Running"
    using that s(2) by (cases st) (simp_all add: reconcileLocalVMState_def)
  have start: "lw_file (fst (startLocked env w)) = lw_file w
      \<and> set (lw_trace (fst (startLocked env w))) \<subseteq> set (lw_trace w) \<union> {(BackendPrepare, lw_file w)}" if "st \<noteq> Running"
    using rec [OF that] s(1) assms(1) by (auto simp: startLocked_def Let_def split: option.split sum.split)
  have "snd (startLocked env w) = Some e" if runs: "st \<noteq> Running" "start_runs st" "backend_ready env"
  proof -
    obtain d where "workflowStatePermitsStart env s (lw_file w) = Inr d" "d_shouldRun d"
      using permits_start [OF s(2)] permits_start_fails [OF s(2)] runs(2)
      by (cases "workflowStatePermitsStart env s (lw_file w)") blast+
    then show ?thesis
      using rec [OF runs(1)] s(1) assms(1) runs(3)
      by (auto simp: startLocked_def backend_ready_def Let_def split: sum.splits)
  qed
  then show ?thesis using deploy err start by blast
qed

theorem prepare_failure_leaves_state_witness:
  "lw_file (fst (deployLocked ((healthy_env ''local'')\<lparr>le_prepare := Some (Plain ''no disk'')\<rparr>) (world_in Initialized)))
     = lw_file (world_in Initialized)"
proof -
  have "workflow_on_disk (world_in Initialized) = Some Initialized" by code_simp
  then show ?thesis
    using prepare_failure_leaves_state [of "(healthy_env ''local'')\<lparr>le_prepare := Some (Plain ''no disk'')\<rparr>" "Plain ''no disk''"]
    by simp
qed

section \<open>Retrying a failed local start\<close>

lemma recordLifecycleFailure_error:
  assumes "writes_ok env" and "isLocalDeployment env" and "\<not> runtime_unsettled env"
  shows "snd (recordLifecycleFailure env s oper Stopped e w) =
    Some (case AsUnavailable e of Some (service, port, _) \<Rightarrow> LocalPortRecoveryError service port e
          | None \<Rightarrow> LocalRetryableFailureError oper e)"
proof (cases "AsUnavailable e")
  case None
  obtain l p where probe: "probeLocalRuntimeLivenessWithCause env (le_status_failed env) = (l, p)" by fastforce
  show ?thesis
  proof (cases "l = localRuntimeRunning")
    case True
    then show ?thesis
      using None assms probe stopLocalRuntime_running [OF probe [unfolded True]]
      by (auto simp: recordLifecycleFailure_def restoreLocalStateAfterFailure_def runtime_unsettled_def split: option.splits)
  next
    case False
    then show ?thesis
      using None assms probe
      by (auto simp: recordLifecycleFailure_def restoreLocalStateAfterFailure_def runtime_unsettled_def split: option.splits)
  qed
next
  case (Some r)
  obtain s' where "persist env Stopped s w = (s', w\<lparr>lw_file := StoredState s', lw_writes := Suc (lw_writes w)\<rparr>, None)"
    using persist_ok [OF assms(1), of Stopped s w] by blast
  with Some show ?thesis
    by (auto simp: recordLifecycleFailure_def restoreStateAfterUnavailableLocalPort_def split: prod.split)
qed


definition failing_local_env :: lc_env where
  "failing_local_env = (healthy_env ''local'')\<lparr>le_backend := \<lparr>lr_Database = Some (Plain ''boot failed''),
     lr_Sidecars = [], lr_SidecarReconciliation = None\<rparr>\<rparr>"


section \<open>Guidance\<close>

text \<open>The commands a message recommends, as its text quotes them.\<close>

definition recommended :: "string \<Rightarrow> string list" where
  "recommended msg = filter (\<lambda>c. Contains msg (''`'' @ c @ ''`''))
     [''deploy'', ''destroy'', ''remove'', ''start'', ''status'', ''stop'']"

fun known_operation :: "workflow \<Rightarrow> bool" where
  "known_operation (OperationInProgress oper) = (oper \<in> {DeployOperation, DestroyOperation, StartOperation, StopOperation})"
| "known_operation (Interrupted _ oper) = (oper \<in> {DeployOperation, DestroyOperation, StartOperation, StopOperation})"
| "known_operation st = True"

lemma recommended_interrupt:
  "recommended (buildInterruptMessage DeployOperation) = [''deploy'']"
  "recommended (buildInterruptMessage DestroyOperation) = [''destroy'']"
  "recommended (buildInterruptMessage StartOperation) = [''start'', ''stop'']"
  "recommended (buildInterruptMessage StopOperation) = [''start'', ''stop'']"
  by code_simp+

lemma recommended_stale:
  "recommended (staleOperationInProgressMessage DeployOperation) = [''deploy'', ''destroy'']"
  "recommended (staleOperationInProgressMessage DestroyOperation) = [''destroy'', ''remove'']"
  "recommended (staleOperationInProgressMessage StartOperation) = [''status'']"
  "recommended (staleOperationInProgressMessage StopOperation) = [''status'']"
  by code_simp+

lemma recommended_fixed:
  "recommended (''Ready for deployment. '' @ ''Run `deploy` to provision resources and start the database.'') = [''deploy'']"
  "recommended (''Deployment failed. Fix the problem and run `deploy` or the same ''
     @ ''`install` command again, or run `destroy` to clean up resources.'') = [''deploy'', ''destroy'']"
  "recommended stoppedMessage = [''destroy'', ''start'']"
  "recommended ''The database has been started. Run `status` to check database connection.'' = [''status'']"
  by code_simp+

definition recommendation :: "workflow \<Rightarrow> string list" where
  "recommendation st =
     (case st of
        Initialized \<Rightarrow> [''deploy'']
      | Interrupted _ oper \<Rightarrow> if oper = DeployOperation then [''deploy''] else if oper = DestroyOperation then [''destroy'']
          else [''start'', ''stop'']
      | OperationInProgress oper \<Rightarrow> if oper = DeployOperation then [''deploy'', ''destroy'']
          else if oper = DestroyOperation then [''destroy'', ''remove''] else [''status'']
      | DeploymentFailed _ \<Rightarrow> [''deploy'', ''destroy'']
      | Stopped \<Rightarrow> [''destroy'', ''start'']
      | Running \<Rightarrow> [''status'']
      | NotAWorkflowState \<Rightarrow> [])"

lemma operations_distinct [simp]:
  "DeployOperation \<noteq> DestroyOperation" "DeployOperation \<noteq> StartOperation" "DeployOperation \<noteq> StopOperation"
  "DestroyOperation \<noteq> StartOperation" "DestroyOperation \<noteq> StopOperation" "StartOperation \<noteq> StopOperation"
  "DestroyOperation \<noteq> DeployOperation" "StartOperation \<noteq> DeployOperation" "StopOperation \<noteq> DeployOperation"
  "StartOperation \<noteq> DestroyOperation" "StopOperation \<noteq> DestroyOperation" "StopOperation \<noteq> StartOperation"
  by (simp_all add: operation_names)

lemma status_recommendation:
  assumes "GetWorkflowState s = Some st" and "known_operation st" and "GetStatus env (StoredState s) False = Inr out"
  shows "recommended (so_Message out) = recommendation st"
  using assms recommended_interrupt recommended_stale recommended_fixed
  by (cases st) (auto simp only: GetStatus_def read_stored sum.case option.case workflow.case recommendation_def status_output_def
      StatusOutput.simps known_operation.simps insert_iff empty_iff operations_distinct if_True if_False sum.inject refl sum.distinct)

text \<open>The guidance of \<^verbatim>\<open>status\<close> can be followed: for every stored state of a known operation the
  message recommends at least one command, and a recommended deploy, start or stop is one that the
  guard of that command lets run in this state.\<close>

theorem status_guidance_permitted:
  assumes "GetWorkflowState s = Some st" and "known_operation st" and "GetStatus env (StoredState s) False = Inr out"
  shows "recommended (so_Message out) \<noteq> []
    \<and> (''deploy'' \<in> set (recommended (so_Message out)) \<longrightarrow> WorkflowStatePermitsDeploy env s (StoredState s) = None)
    \<and> (''start'' \<in> set (recommended (so_Message out)) \<longrightarrow>
         (\<exists>d. workflowStatePermitsStart env s (StoredState s) = Inr d \<and> d_shouldRun d))
    \<and> (''stop'' \<in> set (recommended (so_Message out)) \<longrightarrow> (\<exists>d. workflowStatePermitsStop s = Inr d \<and> d_shouldRun d))"
proof -
  note rec = status_recommendation [OF assms]
  have "st \<noteq> NotAWorkflowState" using assms(1) Get_workflow_not_other by auto
  then have nonempty: "recommendation st \<noteq> []" by (cases st) (simp_all add: recommendation_def)
  have "deploy_runs st" if "''deploy'' \<in> set (recommendation st)"
    using that assms(2) by (cases st) (auto simp: recommendation_def split: if_splits)
  moreover have "start_runs st" if "''start'' \<in> set (recommendation st)"
    using that assms(2) by (cases st) (auto simp: recommendation_def split: if_splits)
  moreover have "stop_runs st" if "''stop'' \<in> set (recommendation st)"
    using that assms(2) by (cases st) (auto simp: recommendation_def split: if_splits)
  moreover have "\<exists>d. workflowStatePermitsStart env s (StoredState s) = Inr d \<and> d_shouldRun d" if "start_runs st"
    using that permits_start [OF assms(1)] permits_start_fails [OF assms(1)]
    by (cases "workflowStatePermitsStart env s (StoredState s)") blast+
  ultimately show ?thesis
    unfolding rec using nonempty permits_deploy [OF assms(1)] permits_stop [OF assms(1)] by auto
qed

theorem status_guidance_permitted_witness:
  "\<exists>s out. GetWorkflowState s = Some Stopped \<and> GetStatus (healthy_env ''local'') (StoredState s) False = Inr out
     \<and> ''start'' \<in> set (recommended (so_Message out))
     \<and> (\<exists>d. workflowStatePermitsStart (healthy_env ''local'') s (StoredState s) = Inr d \<and> d_shouldRun d)"
proof -
  obtain s where s: "SetWorkflowState Stopped zero_state = Some s" using Set_workflow_total by blast
  then have st: "GetWorkflowState s = Some Stopped" by (rule Get_Set_workflow)
  let ?out = "status_output StatusStopped stoppedMessage []"
  have out: "GetStatus (healthy_env ''local'') (StoredState s) False = Inr ?out"
    using st by (simp add: GetStatus_def)
  have "''start'' \<in> set (recommended (so_Message ?out))" by code_simp
  then show ?thesis using status_guidance_permitted [OF st _ out] st out by auto
qed

end
