(* ===== verification/Slc_Catalog.thy ===== *)
theory Slc_Catalog
  imports Go_Prelude
begin

text \<open>
  The catalog of the official script language containers, \<^verbatim>\<open>src/internal/slc/\<close>: resolving an
  identifier to a container image, and the rule that keeps the aliases of the installed containers
  apart. Go maps are association lists read by \<^const>\<open>map_of\<close>; where the code iterates over a map it
  sorts the keys first.
\<close>

section \<open>The catalog\<close>

record Language =
  l_Flavor :: string
  l_Hash :: string
  l_Aliases :: "string list"

record Architecture =
  DefaultVersion :: string
  ImageArchitecture :: string
  Versions :: "(string \<times> (string \<times> Language) list) list"

record Catalog =
  Registry :: string
  TagTemplate :: string
  Architectures :: "(string \<times> Architecture) list"

record Entry =
  e_Language :: string
  e_Flavor :: string
  e_Version :: string
  e_Image :: string
  e_Target :: string
  e_Aliases :: "string list"

datatype catalog_error =
    CatalogUnparsable
  | CatalogMissingRegistry
  | CatalogMissingTagTemplate
  | NoIdentifier
  | ErrArchitectureUnsupported string
  | NoDefaultVersion string
  | DefaultVersionNotFound string string
  | UnknownAliasError string "string list"

definition SLCMountRoot :: string where "SLCMountRoot = ''/exa/slc''"

text \<open>\<open>Load\<close> after the YAML decoder, whose failure is \<^const>\<open>None\<close>.\<close>

definition Load :: "Catalog option \<Rightarrow> (catalog_error, Catalog) result" where
  "Load parsed =
     (case parsed of
        None \<Rightarrow> Inl CatalogUnparsable
      | Some c \<Rightarrow>
          if TrimSpace (Registry c) = [] then Inl CatalogMissingRegistry
          else if TrimSpace (TagTemplate c) = [] then Inl CatalogMissingTagTemplate
          else Inr c)"

text \<open>\<^verbatim>\<open>strings.ReplaceAll\<close> for a non-empty pattern.\<close>

function ReplaceAll :: "string \<Rightarrow> string \<Rightarrow> string \<Rightarrow> string" where
  "ReplaceAll s old new =
     (if old = [] then s
      else case s of
        [] \<Rightarrow> []
      | c # cs \<Rightarrow> if HasPrefix s old then new @ ReplaceAll (drop (length old) s) old new
                   else c # ReplaceAll cs old new)"
  by pat_completeness auto
termination
  by (relation "measure (\<lambda>(s, _, _). length s)") (auto simp: HasPrefix_def)

definition imageRef :: "Catalog \<Rightarrow> string \<Rightarrow> string \<Rightarrow> string \<Rightarrow> string" where
  "imageRef c flavor goarch hash =
     (let tag = TagTemplate c;
          tag = ReplaceAll tag ''{flavor}'' flavor;
          tag = ReplaceAll tag ''{arch}'' goarch;
          tag = ReplaceAll tag ''{hash}'' hash
      in Registry c @ '':'' @ tag)"

definition targetDir :: "string \<Rightarrow> string" where
  "targetDir flavor = SLCMountRoot @ ''/'' @ flavor"

definition entries_of :: "Catalog \<Rightarrow> string \<Rightarrow> (catalog_error, Entry list) result" where
  "entries_of c goarch =
     (case map_of (Architectures c) goarch of
        None \<Rightarrow> Inl (ErrArchitectureUnsupported goarch)
      | Some arch \<Rightarrow>
         (let version = TrimSpace (DefaultVersion arch) in
          if version = [] then Inl (NoDefaultVersion goarch)
          else
           (let imageArchitecture = (if TrimSpace (ImageArchitecture arch) = [] then goarch
                                     else TrimSpace (ImageArchitecture arch))
            in case map_of (Versions arch) version of
                 None \<Rightarrow> Inl (DefaultVersionNotFound version goarch)
               | Some langs \<Rightarrow>
                   Inr (map (\<lambda>name.
                          let lang = the (map_of langs name) in
                          \<lparr>e_Language = name, e_Flavor = l_Flavor lang, e_Version = version,
                           e_Image = imageRef c (l_Flavor lang) imageArchitecture (l_Hash lang),
                           e_Target = targetDir (l_Flavor lang), e_Aliases = l_Aliases lang\<rparr>)
                        (sorted_keys langs)))))"

definition List_entries :: "Catalog \<Rightarrow> string \<Rightarrow> (catalog_error, Entry list) result" where
  "List_entries c goarch = entries_of c goarch"

fun aliasList_loop :: "string list \<Rightarrow> string list \<Rightarrow> string list" where
  "aliasList_loop seen [] = seen"
| "aliasList_loop seen (al # als) =
     (if al \<in> set seen then aliasList_loop seen als else aliasList_loop (seen @ [al]) als)"

definition aliasList :: "Entry list \<Rightarrow> string list" where
  "aliasList es = sort (aliasList_loop [] (concat (map e_Aliases es)))"

fun Resolve_loop :: "string \<Rightarrow> Entry list \<Rightarrow> Entry option" where
  "Resolve_loop normalized [] = None"
| "Resolve_loop normalized (e # es) =
     (if EqualFold (e_Flavor e) normalized then Some e
      else if list_ex (\<lambda>candidate. EqualFold candidate normalized) (e_Aliases e) then Some e
      else Resolve_loop normalized es)"

definition Resolve :: "Catalog \<Rightarrow> string \<Rightarrow> string \<Rightarrow> (catalog_error, Entry) result" where
  "Resolve c identifier goarch =
     (let normalized = TrimSpace identifier in
      if normalized = [] then Inl NoIdentifier
      else case entries_of c goarch of
        Inl e \<Rightarrow> Inl e
      | Inr es \<Rightarrow>
          (case Resolve_loop normalized es of
             Some e \<Rightarrow> Inr e
           | None \<Rightarrow> Inl (UnknownAliasError normalized (aliasList es))))"

section \<open>Collisions\<close>

fun sharedAlias_with :: "string \<Rightarrow> string list \<Rightarrow> bool" where
  "sharedAlias_with x b = list_ex (\<lambda>y. EqualFold x y) b"

text \<open>The first alias of the first list that the second list has too, upper-cased; empty if none.\<close>

fun sharedAlias :: "string list \<Rightarrow> string list \<Rightarrow> string" where
  "sharedAlias [] b = []"
| "sharedAlias (x # a) b = (if sharedAlias_with x b then ToUpper x else sharedAlias a b)"

datatype collision = AliasTaken string string string

fun CheckInstallable_loop :: "Entry list \<Rightarrow> Entry \<Rightarrow> bool \<Rightarrow> (collision, bool) result" where
  "CheckInstallable_loop [] candidate replacesFlavor = Inr replacesFlavor"
| "CheckInstallable_loop (existing # rest) candidate replacesFlavor =
     (if EqualFold (e_Flavor existing) (e_Flavor candidate) then CheckInstallable_loop rest candidate True
      else let shared = sharedAlias (e_Aliases existing) (e_Aliases candidate) in
        if shared \<noteq> [] then Inl (AliasTaken (e_Flavor candidate) shared (e_Flavor existing))
        else CheckInstallable_loop rest candidate replacesFlavor)"

definition CheckInstallable :: "Entry list \<Rightarrow> Entry \<Rightarrow> (collision, bool) result" where
  "CheckInstallable installed candidate = CheckInstallable_loop installed candidate False"

section \<open>Lemmas\<close>

text \<open>Two lists of aliases are apart when no alias of one is equal, up to case, to one of the other.
  The empty alias does not count: \<open>sharedAlias\<close> answers with the shared alias itself.\<close>

definition aliases_apart :: "string list \<Rightarrow> string list \<Rightarrow> bool" where
  "aliases_apart a b \<longleftrightarrow> (\<forall>x \<in> set a. \<forall>y \<in> set b. x \<noteq> [] \<longrightarrow> \<not> EqualFold x y)"

lemma EqualFold_Nil: "EqualFold x y \<Longrightarrow> x = [] \<longleftrightarrow> y = []"
  by (metis EqualFold_ToUpper ToUpper_Nil)

lemma aliases_apart_sym: "aliases_apart a b \<longleftrightarrow> aliases_apart b a"
  unfolding aliases_apart_def by (metis EqualFold_Nil EqualFold_sym)

lemma sharedAlias_Nil:
  assumes "[] \<notin> set a"
  shows "sharedAlias a b = [] \<longleftrightarrow> aliases_apart a b"
  using assms by (induction a) (auto simp: aliases_apart_def list_ex_iff)

lemma CheckInstallable_loop_Inr:
  "CheckInstallable_loop installed c r = Inr r' \<longleftrightarrow>
     (\<forall>e \<in> set installed. EqualFold (e_Flavor e) (e_Flavor c) \<or> sharedAlias (e_Aliases e) (e_Aliases c) = [])
     \<and> r' = (r \<or> (\<exists>e \<in> set installed. EqualFold (e_Flavor e) (e_Flavor c)))"
  by (induction installed arbitrary: r) (auto simp: Let_def)

lemma CheckInstallable_Inr:
  "CheckInstallable installed c = Inr r \<longleftrightarrow>
     (\<forall>e \<in> set installed. EqualFold (e_Flavor e) (e_Flavor c) \<or> sharedAlias (e_Aliases e) (e_Aliases c) = [])
     \<and> r = (\<exists>e \<in> set installed. EqualFold (e_Flavor e) (e_Flavor c))"
  by (simp add: CheckInstallable_def CheckInstallable_loop_Inr)

text \<open>What an identifier may name an entry by.\<close>

definition names_entry :: "string \<Rightarrow> Entry \<Rightarrow> bool" where
  "names_entry s e \<longleftrightarrow> EqualFold (e_Flavor e) s \<or> (\<exists>a \<in> set (e_Aliases e). EqualFold a s)"

lemma Resolve_loop_find: "Resolve_loop s es = List.find (names_entry s) es"
  by (induction es) (auto simp: names_entry_def list_ex_iff)

lemma set_aliasList_loop: "set (aliasList_loop seen als) = set seen \<union> set als"
  by (induction seen als rule: aliasList_loop.induct) auto

lemma distinct_aliasList_loop: "distinct seen \<Longrightarrow> distinct (aliasList_loop seen als)"
  by (induction seen als rule: aliasList_loop.induct) auto

lemma aliasList_props:
  "set (aliasList es) = (\<Union>e \<in> set es. set (e_Aliases e))" "distinct (aliasList es)" "sorted (aliasList es)"
  by (simp_all add: aliasList_def set_aliasList_loop distinct_aliasList_loop)

lemma find_Some_iff: "List.find P xs \<noteq> None \<longleftrightarrow> (\<exists>x \<in> set xs. P x)"
  by (induction xs) auto

lemma find_SomeD: "List.find P xs = Some x \<Longrightarrow> x \<in> set xs \<and> P x"
  by (induction xs) (auto split: if_splits)

text \<open>resolving an identifier that is not blank on an architecture the catalog serves gives an
  entry of the catalog that the identifier names, up to case and surrounding space, by its flavor or
  one of its aliases, whenever there is one. Otherwise the error lists, sorted and without
  duplicates, the aliases of the catalog, and each of them that is neither blank nor padded does
  resolve.\<close>

theorem resolve_sound_complete:
  assumes "entries_of c goarch = Inr es" and "TrimSpace identifier \<noteq> []"
  shows "case Resolve c identifier goarch of
      Inr e \<Rightarrow> e \<in> set es \<and> names_entry (TrimSpace identifier) e
    | Inl err \<Rightarrow> (\<forall>e \<in> set es. \<not> names_entry (TrimSpace identifier) e)
        \<and> (\<exists>valid. err = UnknownAliasError (TrimSpace identifier) valid \<and> sorted valid \<and> distinct valid
             \<and> (\<forall>a \<in> set valid. a \<noteq> [] \<and> TrimSpace a = a \<longrightarrow>
                  (\<exists>e \<in> set es. Resolve c a goarch = Inr e \<and> names_entry a e)))"
proof (cases "Resolve_loop (TrimSpace identifier) es")
  case None
  then have none: "\<forall>e \<in> set es. \<not> names_entry (TrimSpace identifier) e"
    using find_Some_iff [of "names_entry (TrimSpace identifier)" es] by (auto simp: Resolve_loop_find)
  have "\<exists>e'. Resolve c a goarch = Inr e' \<and> e' \<in> set es \<and> names_entry a e'"
    if "a \<in> set (aliasList es)" "a \<noteq> []" "TrimSpace a = a" for a
  proof -
    from that(1) obtain e where "e \<in> set es" "a \<in> set (e_Aliases e)" by (auto simp: aliasList_props)
    then have "List.find (names_entry a) es \<noteq> None"
      using find_Some_iff [of "names_entry a" es] by (fastforce simp: names_entry_def)
    then obtain e' where "List.find (names_entry a) es = Some e'" by blast
    with that assms(1) find_SomeD [OF this] show ?thesis by (simp add: Resolve_def Resolve_loop_find)
  qed
  then show ?thesis
    using None none assms by (simp add: Resolve_def aliasList_props(2,3)) blast
next
  case (Some e)
  then show ?thesis
    using find_SomeD [of "names_entry (TrimSpace identifier)" es e] assms
    by (simp add: Resolve_def Resolve_loop_find)
qed

definition sample_catalog :: Catalog where
  "sample_catalog = \<lparr>Registry = ''reg/slc'', TagTemplate = ''{flavor}-{arch}-{hash}'',
     Architectures = [(''arm64'', \<lparr>DefaultVersion = ''11.0'', ImageArchitecture = [],
       Versions = [(''11.0'',
         [(''r'', \<lparr>l_Flavor = ''r-4.4'', l_Hash = ''aa'', l_Aliases = [''R'', ''R4'']\<rparr>),
          (''python3'', \<lparr>l_Flavor = ''python-3.12'', l_Hash = ''bb'', l_Aliases = [''PYTHON3'', ''PYTHON'']\<rparr>)])]\<rparr>)]\<rparr>"

lemma sample_catalog_entries:
  "entries_of sample_catalog ''arm64'' = Inr
     [\<lparr>e_Language = ''python3'', e_Flavor = ''python-3.12'', e_Version = ''11.0'',
        e_Image = ''reg/slc:python-3.12-arm64-bb'', e_Target = ''/exa/slc/python-3.12'',
        e_Aliases = [''PYTHON3'', ''PYTHON'']\<rparr>,
      \<lparr>e_Language = ''r'', e_Flavor = ''r-4.4'', e_Version = ''11.0'',
        e_Image = ''reg/slc:r-4.4-arm64-aa'', e_Target = ''/exa/slc/r-4.4'', e_Aliases = [''R'', ''R4'']\<rparr>]"
  by code_simp

theorem resolve_sound_complete_witness:
  "\<exists>e. Resolve sample_catalog '' python3 '' ''arm64'' = Inr e \<and> names_entry ''python3'' e
     \<and> e_Image e = ''reg/slc:python-3.12-arm64-bb''"
proof -
  have t: "TrimSpace '' python3 '' = ''python3''" by code_simp
  have "case Resolve sample_catalog '' python3 '' ''arm64'' of Inl _ \<Rightarrow> False
      | Inr e \<Rightarrow> e_Image e = ''reg/slc:python-3.12-arm64-bb''"
    by code_simp
  then show ?thesis
    using resolve_sound_complete [OF sample_catalog_entries, of "'' python3 ''"]
    by (auto simp: t split: sum.splits)
qed

end
