(* ===== verification/Custom_Slc.thy ===== *)
theory Custom_Slc
  imports Go_Prelude
begin

text \<open>
  The pure part of the custom script language containers, \<^verbatim>\<open>src/internal/customslc/\<close>: the alias table
  that the database keeps in its parameter \<^verbatim>\<open>SCRIPT_LANGUAGES\<close> (parsing, printing, the three updates),
  the activation URI, and the validation of a container archive. The table's contract is the locale
  \<open>keyed_store\<close>, which the records of installed containers satisfy as well.
\<close>

unbundle bit_operations_syntax

section \<open>Stores with normalised keys\<close>

text \<open>A store maps keys to values up to a normalisation of the keys. \<open>wf\<close> is what the operations
  keep, \<open>ok k v\<close> says that the value may be stored under the key.\<close>

locale keyed_store =
  fixes norm :: "'k \<Rightarrow> 'n"
    and find :: "'m \<Rightarrow> 'k \<Rightarrow> 'v option"
    and put :: "'m \<Rightarrow> 'k \<Rightarrow> 'v \<Rightarrow> 'm"
    and del :: "'m \<Rightarrow> 'k \<Rightarrow> 'm"
    and wf :: "'m \<Rightarrow> bool"
    and ok :: "'k \<Rightarrow> 'v \<Rightarrow> bool"
  assumes find_put: "wf m \<Longrightarrow> ok k v \<Longrightarrow>
      find (put m k v) k' = (if norm k' = norm k then Some v else find m k')"
    and find_del: "wf m \<Longrightarrow> find (del m k) k' = (if norm k' = norm k then None else find m k')"
    and wf_put: "wf m \<Longrightarrow> ok k v \<Longrightarrow> wf (put m k v)"
    and wf_del: "wf m \<Longrightarrow> wf (del m k)"
    and find_norm: "wf m \<Longrightarrow> norm k = norm k' \<Longrightarrow> find m k = find m k'"
begin

text \<open>Storing a list of pairs one after the other.\<close>

definition put_all :: "('k \<times> 'v) list \<Rightarrow> 'm \<Rightarrow> 'm" where
  "put_all kvs m = fold (\<lambda>(k, v) m. put m k v) kvs m"

lemma wf_put_all: "wf m \<Longrightarrow> (\<forall>(k, v) \<in> set kvs. ok k v) \<Longrightarrow> wf (put_all kvs m)"
  unfolding put_all_def by (induction kvs arbitrary: m) (auto simp: wf_put)

lemma find_put_all_other:
  assumes "wf m" and "\<forall>(k, v) \<in> set kvs. ok k v" and "norm k' \<notin> norm ` fst ` set kvs"
  shows "find (put_all kvs m) k' = find m k'"
  using assms unfolding put_all_def by (induction kvs arbitrary: m) (auto simp: wf_put find_put)

lemma find_put_all:
  assumes "wf m" and "\<forall>(k, v) \<in> set kvs. ok k v" and "distinct (map (norm \<circ> fst) kvs)"
    and "(k, v) \<in> set kvs"
  shows "find (put_all kvs m) k = Some v"
  using assms
proof (induction kvs arbitrary: m)
  case (Cons kv kvs)
  obtain a b where kv: "kv = (a, b)" by fastforce
  have wf': "wf (put m a b)" using Cons.prems kv by (auto simp: wf_put)
  show ?case
  proof (cases "(k, v) = kv")
    case True
    then have "norm k \<notin> norm ` fst ` set kvs"
      using Cons.prems(3) kv by (auto simp: image_image)
    then have "find (put_all kvs (put m a b)) k = find (put m a b) k"
      using Cons.prems(2) wf' by (intro find_put_all_other) auto
    then show ?thesis using True kv Cons.prems(1,2) by (simp add: put_all_def find_put)
  next
    case False
    then show ?thesis
      using Cons.IH [OF wf'] Cons.prems kv by (auto simp: put_all_def)
  qed
qed auto

text \<open>Undoing a change: putting back what a key had before gives every key its old value.\<close>

definition restore :: "'m \<Rightarrow> 'k \<Rightarrow> 'v option \<Rightarrow> 'm" where
  "restore m k old = (case old of None \<Rightarrow> del m k | Some v \<Rightarrow> put m k v)"

lemma restore_undoes_put:
  assumes "wf m" and "ok k v" and "\<And>u. find m k = Some u \<Longrightarrow> ok k u"
  shows "find (restore (put m k v) k (find m k)) k' = find m k'"
  using assms find_norm [OF assms(1), of k' k]
  by (auto simp: restore_def find_put find_del wf_put split: option.split)

end

section \<open>Aliases and URIs\<close>

definition clientRelPath :: string where "clientRelPath = ''exaudf/exaudfclient''"

definition builtinBucketPath :: string where "builtinBucketPath = ''__builtin__/slc''"

record AliasEntry =
  Alias :: string
  URI :: string

text \<open>The pattern \<^verbatim>\<open>^[a-z0-9][a-z0-9._-]*$\<close>.\<close>

definition languageIdentifierPattern :: "string \<Rightarrow> bool" where
  "languageIdentifierPattern s \<longleftrightarrow>
     (case s of [] \<Rightarrow> False
      | c # cs \<Rightarrow> (is_lower c \<or> is_digit c)
          \<and> list_all (\<lambda>x. is_lower x \<or> is_digit x \<or> x \<in> {CHR ''.'', CHR ''_'', CHR ''-''}) cs)"

text \<open>\<^const>\<open>None\<close> is the error.\<close>

definition NormalizeLanguage :: "string \<Rightarrow> string option" where
  "NormalizeLanguage raw =
     (let language = ToLower (TrimSpace raw) in
      if \<not> languageIdentifierPattern language then None else Some language)"

definition NormalizeAlias :: "string \<Rightarrow> string" where
  "NormalizeAlias al = ToUpper (TrimSpace al)"

definition BuildActivationURI :: "string \<Rightarrow> string \<Rightarrow> string" where
  "BuildActivationURI dir language =
     ''localzmq+protobuf:///'' @ builtinBucketPath @ ''/'' @ dir @ ''?lang='' @ language
       @ ''#/'' @ clientRelPath"

section \<open>The table\<close>

fun parse_fields :: "string list \<Rightarrow> AliasEntry list" where
  "parse_fields [] = []"
| "parse_fields (field # fs) =
     (case IndexByte field CHR ''='' of
        None \<Rightarrow> parse_fields fs
      | Some i \<Rightarrow> \<lparr>Alias = NormalizeAlias (take i field), URI = drop (Suc i) field\<rparr> # parse_fields fs)"

definition ParseScriptLanguages :: "string \<Rightarrow> AliasEntry list" where
  "ParseScriptLanguages v = parse_fields (Fields v)"

definition SerializeScriptLanguages :: "AliasEntry list \<Rightarrow> string" where
  "SerializeScriptLanguages es = Join (map (\<lambda>e. Alias e @ ''='' @ URI e) es) '' ''"

definition SetAlias :: "AliasEntry list \<Rightarrow> string \<Rightarrow> string \<Rightarrow> AliasEntry list" where
  "SetAlias es al uri =
     (let normalized = NormalizeAlias al;
          updated = map (\<lambda>e. if Alias e = normalized then \<lparr>Alias = normalized, URI = uri\<rparr> else e) es;
          found = list_ex (\<lambda>e. Alias e = normalized) es
      in if \<not> found then updated @ [\<lparr>Alias = normalized, URI = uri\<rparr>] else updated)"

definition RemoveAlias :: "AliasEntry list \<Rightarrow> string \<Rightarrow> AliasEntry list" where
  "RemoveAlias es al = (let normalized = NormalizeAlias al in filter (\<lambda>e. Alias e \<noteq> normalized) es)"

fun FindAlias_loop :: "AliasEntry list \<Rightarrow> string \<Rightarrow> AliasEntry option" where
  "FindAlias_loop [] normalized = None"
| "FindAlias_loop (e # es) normalized = (if Alias e = normalized then Some e else FindAlias_loop es normalized)"

definition FindAlias :: "AliasEntry list \<Rightarrow> string \<Rightarrow> AliasEntry option" where
  "FindAlias es al = FindAlias_loop es (NormalizeAlias al)"

definition IsBuiltinURI :: "string \<Rightarrow> bool" where
  "IsBuiltinURI uri \<longleftrightarrow> \<not> Contains uri ''://''"

text \<open>\<^verbatim>\<open>strings.TrimLeft(s, "/")\<close> is \<open>dropWhile\<close>; \<^verbatim>\<open>LastIndexByte\<close> is read from the end.\<close>

definition DirFromURI :: "string \<Rightarrow> string" where
  "DirFromURI uri =
     (if IsBuiltinURI uri then []
      else
       (let body = (case Index uri ''://'' of Some i \<Rightarrow> drop (i + 3) uri | None \<Rightarrow> uri);
            body = dropWhile (\<lambda>c. c = CHR ''/'') body;
            body = (case IndexByte body CHR ''?'' of Some i \<Rightarrow> take i body | None \<Rightarrow> body)
        in case IndexByte (rev body) CHR ''/'' of
             Some j \<Rightarrow> rev (take j (rev body))
           | None \<Rightarrow> body))"

definition BuiltinAliases :: "AliasEntry list \<Rightarrow> string list" where
  "BuiltinAliases es = sort (map Alias (filter (\<lambda>e. IsBuiltinURI (URI e)) es))"

section \<open>Validation of an archive\<close>

text \<open>\<^verbatim>\<open>path.Clean\<close>, with the kept components on a stack.\<close>

fun clean_components :: "bool \<Rightarrow> string list \<Rightarrow> string list \<Rightarrow> string list" where
  "clean_components rooted stack [] = rev stack"
| "clean_components rooted stack (c # cs) =
     (if c = [] \<or> c = ''.'' then clean_components rooted stack cs
      else if c = ''..'' then
        (case stack of
           [] \<Rightarrow> clean_components rooted (if rooted then [] else [c]) cs
         | t # ts \<Rightarrow> clean_components rooted (if t = ''..'' then c # stack else ts) cs)
      else clean_components rooted (c # stack) cs)"

definition path_Clean :: "string \<Rightarrow> string" where
  "path_Clean p =
     (let rooted = HasPrefix p ''/'';
          body = Join (clean_components rooted [] (SplitByte p CHR ''/'')) ''/''
      in if rooted then CHR ''/'' # body else if body = [] then ''.'' else body)"

text \<open>A member of the archive: \<open>th_regular\<close> is \<^verbatim>\<open>Typeflag == tar.TypeReg\<close>; \<open>th_languages\<close> is its
  content decoded as language definitions, one list of aliases per definition, \<^const>\<open>None\<close> when
  the decoder fails.\<close>

record tar_header =
  th_regular :: bool
  th_Name :: string
  th_Mode :: nat
  th_languages :: "string list list option"

text \<open>The stream: whether peeking at it fails, whether it starts with the gzip magic, whether the
  gzip header is valid, whether the drained stream passes its checksum, and what the calls of
  \<^verbatim>\<open>tar.Reader.Next\<close> return up to the end (\<^const>\<open>None\<close>: an error).\<close>

record tar_source =
  ts_peek_fails :: bool
  ts_gzip :: bool
  ts_gzip_header_ok :: bool
  ts_checksum_ok :: bool
  ts_members :: "tar_header option list"

datatype archive_error =
    ArchivePeekFailed
  | ArchiveGzipInvalid
  | ArchiveCorrupt
  | ArchiveMemberUnreadable
  | ArchiveDuplicateMetadata
  | LanguageDefinitionsUnparsable
  | EmptyLanguageAlias
  | DuplicateLanguageAlias string
  | ClientNotFound
  | NoLanguageAliases

definition isClientExecutable :: "tar_header \<Rightarrow> bool" where
  "isClientExecutable h \<longleftrightarrow>
     th_regular h \<and> path_Clean (th_Name h) = clientRelPath \<and> th_Mode h AND 73 \<noteq> 0"

fun collect_aliases :: "string list \<Rightarrow> string list \<Rightarrow> (archive_error, string list) result" where
  "collect_aliases seen [] = Inr seen"
| "collect_aliases seen (al # als) =
     (let normalized = NormalizeAlias al in
      if normalized = [] then Inl EmptyLanguageAlias
      else if normalized \<in> set seen then Inl (DuplicateLanguageAlias normalized)
      else collect_aliases (seen @ [normalized]) als)"

definition readLanguageAliases :: "string list list option \<Rightarrow> (archive_error, string list) result" where
  "readLanguageAliases doc =
     (case doc of
        None \<Rightarrow> Inl LanguageDefinitionsUnparsable
      | Some definitions \<Rightarrow> collect_aliases [] (concat definitions))"

text \<open>The loop over the members: whether the client and the metadata were found, and the aliases.\<close>

fun read_members ::
  "tar_header option list \<Rightarrow> bool \<Rightarrow> bool \<Rightarrow> string list \<Rightarrow> (archive_error, bool \<times> bool \<times> string list) result"
where
  "read_members [] clientFound metadataFound als = Inr (clientFound, metadataFound, als)"
| "read_members (None # ms) clientFound metadataFound als = Inl ArchiveMemberUnreadable"
| "read_members (Some h # ms) clientFound metadataFound als =
     (let client = clientFound \<or> isClientExecutable h in
      if path_Clean (th_Name h) = ''build_info/language_definitions.json'' then
        (if metadataFound then Inl ArchiveDuplicateMetadata
         else case readLanguageAliases (th_languages h) of
           Inl e \<Rightarrow> Inl e
         | Inr parsed \<Rightarrow> read_members ms client True (als @ parsed))
      else read_members ms client metadataFound als)"

definition ReadAliases :: "tar_source \<Rightarrow> (archive_error, string list) result" where
  "ReadAliases src =
     (if ts_peek_fails src then Inl ArchivePeekFailed
      else if ts_gzip src \<and> \<not> ts_gzip_header_ok src then Inl ArchiveGzipInvalid
      else case read_members (ts_members src) False False [] of
        Inl e \<Rightarrow> Inl e
      | Inr (clientFound, metadataFound, als) \<Rightarrow>
          if ts_gzip src \<and> \<not> ts_checksum_ok src then Inl ArchiveCorrupt
          else if \<not> clientFound then Inl ClientNotFound
          else if metadataFound \<and> als = [] then Inl NoLanguageAliases
          else Inr als)"

definition ValidateArchive :: "tar_source \<Rightarrow> archive_error option" where
  "ValidateArchive src = (case ReadAliases src of Inl e \<Rightarrow> Some e | Inr _ \<Rightarrow> None)"

section \<open>Well-formed tables\<close>

text \<open>What every table read from the database is: the alias is normalised and the printed entry
  cannot be split at the wrong place.\<close>

definition wf_alias :: "string \<Rightarrow> bool" where
  "wf_alias a \<longleftrightarrow> ToUpper a = a \<and> (\<forall>c \<in> set a. \<not> is_space c \<and> c \<noteq> CHR ''='')"

definition no_spaces :: "string \<Rightarrow> bool" where
  "no_spaces s \<longleftrightarrow> (\<forall>c \<in> set s. \<not> is_space c)"

definition wf_entry :: "AliasEntry \<Rightarrow> bool" where
  "wf_entry e \<longleftrightarrow> wf_alias (Alias e) \<and> no_spaces (URI e)"

lemma NormalizeAlias_idem [simp]: "NormalizeAlias (NormalizeAlias a) = NormalizeAlias a"
  by (simp add: NormalizeAlias_def ToUpper_TrimSpace)

lemma NormalizeAlias_wf: "wf_alias a \<Longrightarrow> NormalizeAlias a = a"
  by (simp add: wf_alias_def NormalizeAlias_def TrimSpace_no_space)

lemma upper_char_eq: "upper_char c = CHR ''='' \<longleftrightarrow> c = CHR ''=''"
proof -
  have "(of_char (upper_char c) :: nat) = of_char CHR ''='' \<longleftrightarrow> (of_char c :: nat) = of_char CHR ''=''"
    by (auto simp: upper_char_def is_lower_def)
  then show ?thesis by (metis char_of_char)
qed

lemma wf_alias_NormalizeAlias:
  assumes "\<forall>c \<in> set a. \<not> is_space c \<and> c \<noteq> CHR ''=''"
  shows "wf_alias (NormalizeAlias a)"
proof -
  have "NormalizeAlias a = map upper_char a"
    using assms by (simp add: NormalizeAlias_def ToUpper_def TrimSpace_no_space)
  then show ?thesis
    using assms by (simp add: wf_alias_def ToUpper_def upper_char_eq)
qed

lemma Fields_acc_no_spaces:
  "no_spaces w \<Longrightarrow> list_all no_spaces (Fields_acc w s)"
proof (induction w s rule: Fields_acc.induct)
  case (2 w x xs)
  have app: "\<not> is_space x \<Longrightarrow> no_spaces (w @ [x])" using 2(4) by (simp add: no_spaces_def ball_Un)
  have nil: "no_spaces []" by (simp add: no_spaces_def)
  show ?case
    using 2(1) [OF _ _ nil] 2(2) [OF _ _ nil] 2(3) [OF _ app] 2(4) by simp
qed simp

lemma Fields_no_spaces: "f \<in> set (Fields s) \<Longrightarrow> no_spaces f"
  using Fields_acc_no_spaces [of "[]" s] by (simp add: Fields_def list_all_iff) (simp add: no_spaces_def)

lemma parse_fields_wf: "\<forall>f \<in> set fs. no_spaces f \<Longrightarrow> list_all wf_entry (parse_fields fs)"
proof (induction fs)
  case (Cons f fs)
  have "wf_alias (NormalizeAlias (take i f)) \<and> no_spaces (drop (Suc i) f)" if "IndexByte f CHR ''='' = Some i" for i
    using Cons.prems IndexByte_Some [OF that]
    by (auto simp: no_spaces_def intro!: wf_alias_NormalizeAlias dest: in_set_takeD in_set_dropD)
  then show ?case using Cons by (auto simp: wf_entry_def split: option.split)
qed simp

lemma ParseScriptLanguages_wf: "list_all wf_entry (ParseScriptLanguages v)"
  unfolding ParseScriptLanguages_def using Fields_no_spaces by (intro parse_fields_wf) blast

lemma parse_fields_entry:
  assumes "wf_alias a"
  shows "parse_fields ((a @ ''='' @ u) # fs) = \<lparr>Alias = a, URI = u\<rparr> # parse_fields fs"
proof -
  have "IndexByte (a @ CHR ''='' # u) CHR ''='' = Some (length a)"
    using assms by (intro IndexByte_append) (auto simp: wf_alias_def)
  then show ?thesis using NormalizeAlias_wf [OF assms] by simp
qed

lemma parse_fields_print:
  "list_all wf_entry es \<Longrightarrow> parse_fields (map (\<lambda>e. Alias e @ ''='' @ URI e) es) = es"
  by (induction es) (simp_all add: parse_fields_entry [simplified] wf_entry_def)

lemma printed_field:
  assumes "wf_entry e"
  shows "\<forall>c \<in> set (Alias e @ ''='' @ URI e). \<not> is_space c"
proof -
  have "\<not> is_space CHR ''=''" by (simp add: is_space_def)
  then show ?thesis using assms by (simp add: wf_entry_def wf_alias_def no_spaces_def ball_Un)
qed

lemma Parse_Serialize:
  assumes "list_all wf_entry es"
  shows "ParseScriptLanguages (SerializeScriptLanguages es) = es"
proof -
  have "Fields (SerializeScriptLanguages es) = map (\<lambda>e. Alias e @ ''='' @ URI e) es"
    unfolding SerializeScriptLanguages_def using assms
    by (intro Fields_Join) (use printed_field in \<open>force simp: list_all_iff\<close>)
  then show ?thesis using assms by (simp only: ParseScriptLanguages_def parse_fields_print)
qed

lemma wf_SetAlias:
  "list_all wf_entry es \<Longrightarrow> wf_alias (NormalizeAlias a) \<Longrightarrow> no_spaces u \<Longrightarrow> list_all wf_entry (SetAlias es a u)"
  by (auto simp: SetAlias_def Let_def list_all_iff wf_entry_def)

lemma wf_RemoveAlias: "list_all wf_entry es \<Longrightarrow> list_all wf_entry (RemoveAlias es a)"
  by (auto simp: RemoveAlias_def Let_def list_all_iff)

text \<open>C39: the alias table survives its printed form. Whatever value the database holds, printing what
  was parsed and parsing it again gives the same entries; and after an alias is set to a URI
  without spaces, or removed, the table that is written back is read back exactly as computed, so
  that the other entries, built-in ones included, are neither lost nor changed on the way.\<close>

theorem script_languages_round_trip:
  assumes "\<forall>c \<in> set a. \<not> is_space c \<and> c \<noteq> CHR ''=''" and "no_spaces u"
  shows "ParseScriptLanguages (SerializeScriptLanguages (ParseScriptLanguages v)) = ParseScriptLanguages v
    \<and> ParseScriptLanguages (SerializeScriptLanguages (SetAlias (ParseScriptLanguages v) a u))
        = SetAlias (ParseScriptLanguages v) a u
    \<and> ParseScriptLanguages (SerializeScriptLanguages (RemoveAlias (ParseScriptLanguages v) a))
        = RemoveAlias (ParseScriptLanguages v) a"
  using assms
  by (intro conjI Parse_Serialize wf_SetAlias wf_RemoveAlias ParseScriptLanguages_wf wf_alias_NormalizeAlias)

theorem script_languages_round_trip_witness:
  "ParseScriptLanguages (SerializeScriptLanguages
      (SetAlias (ParseScriptLanguages ''r=builtin_r  junk py=x'') ''py'' ''y://z''))
    = [\<lparr>Alias = ''R'', URI = ''builtin_r''\<rparr>, \<lparr>Alias = ''PY'', URI = ''y://z''\<rparr>]"
proof -
  have "SetAlias (ParseScriptLanguages ''r=builtin_r  junk py=x'') ''py'' ''y://z''
    = [\<lparr>Alias = ''R'', URI = ''builtin_r''\<rparr>, \<lparr>Alias = ''PY'', URI = ''y://z''\<rparr>]"
    by code_simp
  with script_languages_round_trip [where a = "''py''" and u = "''y://z''" and v = "''r=builtin_r  junk py=x''"]
  show ?thesis by (simp add: is_space_def no_spaces_def)
qed

section \<open>The table is a keyed store\<close>

definition find_uri :: "AliasEntry list \<Rightarrow> string \<Rightarrow> string option" where
  "find_uri es a = map_option URI (FindAlias es a)"

lemma FindAlias_loop_map:
  "FindAlias_loop (map (\<lambda>e. if Alias e = n then \<lparr>Alias = n, URI = u\<rparr> else e) es) k =
     (if k = n then (if list_ex (\<lambda>e. Alias e = n) es then Some \<lparr>Alias = n, URI = u\<rparr> else None)
      else FindAlias_loop es k)"
  by (induction es) auto

lemma FindAlias_loop_append:
  "FindAlias_loop (es @ fs) k = (case FindAlias_loop es k of None \<Rightarrow> FindAlias_loop fs k | Some e \<Rightarrow> Some e)"
  by (induction es) auto

lemma FindAlias_loop_absent: "\<not> list_ex (\<lambda>e. Alias e = k) es \<Longrightarrow> FindAlias_loop es k = None"
  by (induction es) auto

lemma FindAlias_loop_filter:
  "FindAlias_loop (filter (\<lambda>e. Alias e \<noteq> n) es) k = (if k = n then None else FindAlias_loop es k)"
  by (induction es) auto

lemma find_uri_SetAlias:
  "find_uri (SetAlias es a u) b = (if NormalizeAlias b = NormalizeAlias a then Some u else find_uri es b)"
  by (auto simp: find_uri_def FindAlias_def SetAlias_def Let_def FindAlias_loop_append FindAlias_loop_map
      FindAlias_loop_absent split: option.split)

lemma find_uri_RemoveAlias:
  "find_uri (RemoveAlias es a) b = (if NormalizeAlias b = NormalizeAlias a then None else find_uri es b)"
  by (simp add: find_uri_def FindAlias_def RemoveAlias_def Let_def FindAlias_loop_filter)

lemma find_uri_norm: "NormalizeAlias a = NormalizeAlias b \<Longrightarrow> find_uri es a = find_uri es b"
  by (simp add: find_uri_def FindAlias_def)

interpretation sl: keyed_store NormalizeAlias find_uri SetAlias RemoveAlias
  "list_all wf_entry" "\<lambda>a u. wf_alias (NormalizeAlias a) \<and> no_spaces u"
  by unfold_locales
    (simp add: find_uri_SetAlias, simp add: find_uri_RemoveAlias, simp add: wf_SetAlias,
      simp add: wf_RemoveAlias, rule find_uri_norm)

section \<open>Activation URIs\<close>

lemma Index_activation: "Index (BuildActivationURI dir language) ''://'' = Some 17"
  by (simp add: BuildActivationURI_def HasPrefix_def)

lemma DirFromURI_activation:
  assumes "CHR ''/'' \<notin> set dir" and "CHR ''?'' \<notin> set dir"
  shows "DirFromURI (BuildActivationURI dir language) = dir"
proof -
  let ?tail = "''lang='' @ language @ ''#/'' @ clientRelPath"
  let ?body = "builtinBucketPath @ ''/'' @ dir"
  have ext: "\<not> IsBuiltinURI (BuildActivationURI dir language)"
    by (simp add: IsBuiltinURI_def Contains_def Index_activation)
  have "drop 20 (BuildActivationURI dir language) = CHR ''/'' # ?body @ CHR ''?'' # ?tail"
    by (simp add: BuildActivationURI_def)
  moreover have "dropWhile (\<lambda>c. c = CHR ''/'') (CHR ''/'' # ?body @ CHR ''?'' # ?tail) = ?body @ CHR ''?'' # ?tail"
    by (simp add: builtinBucketPath_def)
  moreover have "IndexByte (?body @ CHR ''?'' # ?tail) CHR ''?'' = Some (length ?body)"
    using assms(2) by (intro IndexByte_append) (simp add: builtinBucketPath_def)
  moreover have "IndexByte (rev ?body) CHR ''/'' = Some (length dir)"
    using assms(1) IndexByte_append [of "CHR ''/''" "rev dir" "rev builtinBucketPath"] by simp
  ultimately show ?thesis
    using ext by (simp add: DirFromURI_def Index_activation)
qed

text \<open>A container's directory is recovered from its activation URI whatever its language is,
  provided the directory's name has no slash and no question mark, and an activation URI is never
  taken for the URI of a built-in language.\<close>

theorem activation_uri_round_trip:
  assumes "CHR ''/'' \<notin> set dir" and "CHR ''?'' \<notin> set dir"
  shows "DirFromURI (BuildActivationURI dir language) = dir
    \<and> \<not> IsBuiltinURI (BuildActivationURI dir language)"
  using DirFromURI_activation [OF assms] by (simp add: IsBuiltinURI_def Contains_def Index_activation)

theorem activation_uri_round_trip_witness:
  "DirFromURI (BuildActivationURI ''custom-my_py'' ''python'') = ''custom-my_py''"
  using activation_uri_round_trip [of "''custom-my_py''" "''python''"] by simp

section \<open>Validated archives\<close>

lemma collect_aliases_sound:
  assumes "collect_aliases seen als = Inr r" and "distinct seen" and "[] \<notin> set seen"
  shows "r = seen @ map NormalizeAlias als \<and> distinct r \<and> [] \<notin> set r"
  using assms
proof (induction seen als rule: collect_aliases.induct)
  case (2 seen al als)
  let ?n = "NormalizeAlias al"
  from 2(2) have ne: "?n \<noteq> []" "?n \<notin> set seen" and rest: "collect_aliases (seen @ [?n]) als = Inr r"
    by (auto simp: Let_def split: if_splits)
  have "distinct (seen @ [?n])" "[] \<notin> set (seen @ [?n])" using 2(3,4) ne by auto
  from 2(1) [OF refl ne rest this] show ?case by (metis append_assoc append_Cons append_Nil list.map(2))
qed simp

lemma readLanguageAliases_sound:
  assumes "readLanguageAliases doc = Inr r"
  shows "\<exists>defs. doc = Some defs \<and> r = map NormalizeAlias (concat defs) \<and> distinct r \<and> [] \<notin> set r"
  using assms collect_aliases_sound [of "[]"] by (auto simp: readLanguageAliases_def split: option.splits)

lemma read_members_sound:
  assumes "read_members ms c m als = Inr (c', m', als')"
  shows "(c' \<longleftrightarrow> c \<or> (\<exists>h. Some h \<in> set ms \<and> isClientExecutable h)) \<and> None \<notin> set ms
    \<and> (if m then m' \<and> als' = als
       else if m' then (\<exists>h defs. Some h \<in> set ms \<and> th_languages h = Some defs
         \<and> path_Clean (th_Name h) = ''build_info/language_definitions.json''
         \<and> als' = als @ map NormalizeAlias (concat defs)
         \<and> distinct (map NormalizeAlias (concat defs)) \<and> [] \<notin> NormalizeAlias ` set (concat defs))
       else als' = als)"
  using assms
proof (induction ms c m als rule: read_members.induct)
  case (3 h ms c m als)
  show ?case
  proof (cases "path_Clean (th_Name h) = ''build_info/language_definitions.json''")
    case True
    with 3(3) obtain parsed where m: "\<not> m" and p: "readLanguageAliases (th_languages h) = Inr parsed"
      and rest: "read_members ms (c \<or> isClientExecutable h) True (als @ parsed) = Inr (c', m', als')"
      by (auto simp: Let_def split: if_splits sum.splits)
    from readLanguageAliases_sound [OF p] obtain defs where "th_languages h = Some defs"
      "parsed = map NormalizeAlias (concat defs)" "distinct parsed" "[] \<notin> set parsed" by blast
    with True 3(1) [OF refl True m p rest] m show ?thesis by auto
  next
    case False
    with 3(3) have "read_members ms (c \<or> isClientExecutable h) m als = Inr (c', m', als')"
      by (simp add: Let_def)
    from 3(2) [OF refl False this] show ?thesis by (auto split: if_splits)
  qed
qed auto

text \<open>An archive is accepted only when it could be read to its end and passed its checksum, and it
  contains the client as a regular executable file. The aliases returned are then either those of
  the one metadata member, normalised, none empty, no two equal and at least one, or none when
  there is no such member.\<close>

theorem accepted_archive_sound:
  assumes "ReadAliases src = Inr als"
  shows "(\<exists>h. Some h \<in> set (ts_members src) \<and> isClientExecutable h) \<and> None \<notin> set (ts_members src)
    \<and> (ts_gzip src \<longrightarrow> ts_checksum_ok src)
    \<and> distinct als \<and> [] \<notin> set als \<and> (\<forall>a \<in> set als. NormalizeAlias a = a)
    \<and> (als = [] \<or> (\<exists>h defs. Some h \<in> set (ts_members src) \<and> th_languages h = Some defs
         \<and> path_Clean (th_Name h) = ''build_info/language_definitions.json''
         \<and> als = map NormalizeAlias (concat defs)))"
proof -
  obtain c m where run: "read_members (ts_members src) False False [] = Inr (c, m, als)"
    and ok: "ts_gzip src \<longrightarrow> ts_checksum_ok src" "c" "\<not> (m \<and> als = [])"
    using assms by (auto simp: ReadAliases_def split: if_splits sum.splits)
  from read_members_sound [OF run] ok show ?thesis by (cases m) auto
qed

definition sample_archive :: tar_source where
  "sample_archive = \<lparr>ts_peek_fails = False, ts_gzip = True, ts_gzip_header_ok = True, ts_checksum_ok = True,
     ts_members =
       [Some \<lparr>th_regular = True, th_Name = ''./exaudf/exaudfclient'', th_Mode = 493, th_languages = None\<rparr>,
        Some \<lparr>th_regular = True, th_Name = ''build_info/x/../language_definitions.json'', th_Mode = 420,
          th_languages = Some [[''py''], ['' r '']]\<rparr>]\<rparr>"

theorem accepted_archive_sound_witness:
  "ReadAliases sample_archive = Inr [''PY'', ''R''] \<and> distinct [''PY'', ''R'']
    \<and> (\<exists>h. Some h \<in> set (ts_members sample_archive) \<and> isClientExecutable h)"
proof -
  have run: "ReadAliases sample_archive = Inr [''PY'', ''R'']" by code_simp
  with accepted_archive_sound [OF run] show ?thesis by blast
qed

end
