(* ===== verification/Slc_Management.thy ===== *)
theory Slc_Management
  imports Launcher_State Slc_Catalog Custom_Slc
begin

text \<open>
  Installing, updating and removing script language containers of a deployment,
  \<^verbatim>\<open>src/internal/deploy/slc.go\<close>, \<^verbatim>\<open>custom_slc.go\<close> and \<^verbatim>\<open>local_custom_slc.go\<close>. The operations work on a
  world: the state file, the staged container packages, the status report of the runtime and the
  parameter \<^verbatim>\<open>SCRIPT_LANGUAGES\<close> of the database. What they are told by their environment (is the
  deployment local, is the database running, what does the user answer, does the write succeed, what
  do the database and the archive source return) is a record, and so are the two operations
  \<open>Stop\<close> and \<open>Start\<close> of the deployment that a restart calls.
\<close>

section \<open>World and environment\<close>

record slc_world =
  sw_file :: state_file
  sw_packages :: "(string \<times> tar_source) list"
  sw_report :: "(string \<times> string) list option"
  sw_languages :: string

record slc_env =
  se_local :: bool
  se_catalog :: "Catalog option"
  se_goarch :: string
  se_running_confirm :: bool
  se_running_apply :: bool
  se_confirm :: "(string + bool) option"
  se_write :: write_outcome
  se_lock :: "string option"
  se_Stop :: "slc_world \<Rightarrow> slc_world \<times> string option"
  se_Start :: "slc_world \<Rightarrow> slc_world \<times> string option"
  se_parse_url :: "string \<Rightarrow> (string \<times> string) option"
  se_tarball :: "string \<Rightarrow> string + (string \<times> tar_source)"
  se_promote :: "string option"
  se_connect :: "string option"
  se_query :: "string \<Rightarrow> string + string option"
  se_alter :: "string \<Rightarrow> string \<Rightarrow> string + string"

datatype slc_error =
    ErrSLCNotSupported
  | ErrDeploymentNotPresent
  | ErrSLCOperationCancelled
  | ErrCustomSLCDatabaseNotRunning
  | SlcNoWorkflowState
  | SlcStateError config_error
  | SlcCatalogError catalog_error
  | SlcCollision collision
  | SlcAliasConflict string string
  | SlcPackageUnreadable string
  | SlcArchiveError archive_error
  | SlcConfirmError string
  | SlcLockError string
  | SlcRestartError string
  | SlcInvalidAlias string
  | SlcInvalidLanguage string
  | SlcInvalidSource string
  | SlcAcquireError string
  | SlcPromoteError string
  | SlcDatabaseError string
  | SlcQuoteRefused string
  | SlcActivationIneffective string
  | SlcDeactivationIneffective string
  | SlcOfficialAlias string string
  | SlcRemovedMeanwhile string
  | SlcReplacedMeanwhile string
  | SlcNotActive string
  | SlcReportError

datatype SLCApplyOutcome = SLCApplyNone | SLCApplyRestarted | SLCApplyStarted | SLCApplyDeferred

definition read_state :: "slc_world \<Rightarrow> (slc_error, ExasolPersonalState) result" where
  "read_state w = (case ReadExasolPersonalState (sw_file w) of Inl e \<Rightarrow> Inl (SlcStateError e) | Inr s \<Rightarrow> Inr s)"

definition write_state :: "slc_env \<Rightarrow> ExasolPersonalState \<Rightarrow> slc_world \<Rightarrow> slc_world \<times> slc_error option" where
  "write_state env s w =
     (case WriteExasolPersonalState (se_write env) s (sw_file w) of
        (f, err) \<Rightarrow> (w\<lparr>sw_file := f\<rparr>, map_option SlcStateError err))"

definition requireDeploymentPresent :: "slc_world \<Rightarrow> slc_error option" where
  "requireDeploymentPresent w =
     (case read_state w of
        Inl e \<Rightarrow> Some e
      | Inr s \<Rightarrow>
          (case GetWorkflowState s of
             None \<Rightarrow> Some SlcNoWorkflowState
           | Some Initialized \<Rightarrow> Some ErrDeploymentNotPresent
           | Some _ \<Rightarrow> None))"

definition confirmOrCancel :: "slc_env \<Rightarrow> slc_error option" where
  "confirmOrCancel env =
     (case se_confirm env of
        None \<Rightarrow> None
      | Some (Inl e) \<Rightarrow> Some (SlcConfirmError e)
      | Some (Inr True) \<Rightarrow> None
      | Some (Inr False) \<Rightarrow> Some ErrSLCOperationCancelled)"

definition confirmRestartIfRunning :: "slc_env \<Rightarrow> bool \<Rightarrow> slc_error option" where
  "confirmRestartIfRunning env restart =
     (if restart \<and> se_running_confirm env then confirmOrCancel env else None)"

definition applySLCChange :: "slc_env \<Rightarrow> bool \<Rightarrow> slc_world \<Rightarrow> slc_world \<times> (slc_error, SLCApplyOutcome) result" where
  "applySLCChange env ensureRunning w =
     (if se_running_apply env then
        (case se_Stop env w of
           (w', Some e) \<Rightarrow> (w', Inl (SlcRestartError e))
         | (w', None) \<Rightarrow>
             (case se_Start env w' of
                (w'', Some e) \<Rightarrow> (w'', Inl (SlcRestartError e))
              | (w'', None) \<Rightarrow> (w'', Inr SLCApplyRestarted)))
      else if \<not> ensureRunning then (w, Inr SLCApplyDeferred)
      else
        (case se_Start env w of
           (w', Some e) \<Rightarrow> (w', Inl (SlcRestartError e))
         | (w', None) \<Rightarrow> (w', Inr SLCApplyStarted)))"

section \<open>Who provides which alias\<close>

record slcAliasProvider =
  p_Name :: string
  p_Aliases :: "string list"

text \<open>The first candidate alias that some provider has, and that provider.\<close>

fun provider_of :: "string \<Rightarrow> slcAliasProvider list \<Rightarrow> string option" where
  "provider_of al [] = None"
| "provider_of al (p # ps) =
     (if list_ex (\<lambda>declared. NormalizeAlias al = NormalizeAlias declared) (p_Aliases p) then Some (p_Name p)
      else provider_of al ps)"

fun findSLCAliasConflict :: "string list \<Rightarrow> slcAliasProvider list \<Rightarrow> (string \<times> string) option" where
  "findSLCAliasConflict [] providers = None"
| "findSLCAliasConflict (al # als) providers =
     (case provider_of al providers of
        Some name \<Rightarrow> Some (NormalizeAlias al, name)
      | None \<Rightarrow> findSLCAliasConflict als providers)"

definition checkSLCAliasConflicts :: "string list \<Rightarrow> slcAliasProvider list \<Rightarrow> slc_error option" where
  "checkSLCAliasConflicts candidate providers =
     (case findSLCAliasConflict candidate providers of
        None \<Rightarrow> None | Some (al, name) \<Rightarrow> Some (SlcAliasConflict al name))"

definition officialSLCAliasProviders :: "InstalledSLC list \<Rightarrow> slcAliasProvider list" where
  "officialSLCAliasProviders official = map (\<lambda>i. \<lparr>p_Name = slc_Flavor i, p_Aliases = slc_Aliases i\<rparr>) official"

definition readCustomSLCAliases :: "slc_world \<Rightarrow> string \<Rightarrow> (slc_error, string list) result" where
  "readCustomSLCAliases w package =
     (case map_of (sw_packages w) package of
        None \<Rightarrow> Inl (SlcPackageUnreadable package)
      | Some src \<Rightarrow> (case ReadAliases src of Inl e \<Rightarrow> Inl (SlcArchiveError e) | Inr als \<Rightarrow> Inr als))"

definition installedCustomSLCAliases :: "slc_world \<Rightarrow> InstalledCustomSLC \<Rightarrow> (slc_error, string list) result" where
  "installedCustomSLCAliases w c =
     (if cslc_PackageAliases c \<noteq> [] \<or> cslc_Package c = [] then Inr (cslc_PackageAliases c)
      else readCustomSLCAliases w (cslc_Package c))"

fun customSLCProviders_loop ::
  "slc_world \<Rightarrow> nat \<Rightarrow> InstalledCustomSLC list \<Rightarrow> nat option \<Rightarrow> (slc_error, slcAliasProvider list) result"
where
  "customSLCProviders_loop w idx [] exclude = Inr []"
| "customSLCProviders_loop w idx (c # cs) exclude =
     (if Some idx = exclude then customSLCProviders_loop w (Suc idx) cs exclude
      else case installedCustomSLCAliases w c of
        Inl e \<Rightarrow> Inl e
      | Inr als \<Rightarrow>
          (case customSLCProviders_loop w (Suc idx) cs exclude of
             Inl e \<Rightarrow> Inl e
           | Inr ps \<Rightarrow> Inr (\<lparr>p_Name = cslc_Alias c, p_Aliases = cslc_Alias c # als\<rparr> # ps)))"

definition customSLCProviders ::
  "slc_world \<Rightarrow> InstalledCustomSLC list \<Rightarrow> nat option \<Rightarrow> (slc_error, slcAliasProvider list) result"
where
  "customSLCProviders w customs exclude = customSLCProviders_loop w 0 customs exclude"

definition checkOfficialAliasNotHeldByCustom ::
  "slc_world \<Rightarrow> InstalledCustomSLC list \<Rightarrow> string list \<Rightarrow> slc_error option"
where
  "checkOfficialAliasNotHeldByCustom w customs officialAliases =
     (case customSLCProviders w customs None of
        Inl e \<Rightarrow> Some e
      | Inr providers \<Rightarrow>
          (case findSLCAliasConflict officialAliases providers of
             None \<Rightarrow> None | Some (al, name) \<Rightarrow> Some (SlcAliasConflict al name)))"

section \<open>Official containers\<close>

definition entriesFromInstalled :: "InstalledSLC list \<Rightarrow> Entry list" where
  "entriesFromInstalled installed =
     map (\<lambda>i. \<lparr>e_Language = slc_Language i, e_Flavor = slc_Flavor i, e_Version = slc_Version i,
       e_Image = slc_Image i, e_Target = slc_Target i, e_Aliases = slc_Aliases i\<rparr>) installed"

definition toInstalledSLC :: "Entry \<Rightarrow> InstalledSLC" where
  "toInstalledSLC e =
     \<lparr>slc_Language = e_Language e, slc_Flavor = e_Flavor e, slc_Version = e_Version e,
      slc_Image = e_Image e, slc_Target = e_Target e, slc_Aliases = e_Aliases e\<rparr>"

definition upsertInstalledSLC :: "InstalledSLC list \<Rightarrow> InstalledSLC \<Rightarrow> InstalledSLC list" where
  "upsertInstalledSLC existing entry =
     sort_key slc_Flavor (filter (\<lambda>s. \<not> EqualFold (slc_Flavor s) (slc_Flavor entry)) existing @ [entry])"

text \<open>The index found, \<^const>\<open>None\<close> for -1.\<close>

fun find_index :: "('a \<Rightarrow> bool) \<Rightarrow> 'a list \<Rightarrow> nat option" where
  "find_index P [] = None"
| "find_index P (x # xs) = (if P x then Some 0 else map_option Suc (find_index P xs))"

definition findInstalledByImage :: "InstalledSLC list \<Rightarrow> string \<Rightarrow> nat option" where
  "findInstalledByImage installed img = find_index (\<lambda>i. slc_Image i = img) installed"

definition findInstalledSLC :: "InstalledSLC list \<Rightarrow> string \<Rightarrow> nat option" where
  "findInstalledSLC installed al =
     (let needle = TrimSpace al in
      find_index (\<lambda>i. EqualFold (slc_Language i) needle \<or> EqualFold (slc_Flavor i) needle
        \<or> list_ex (\<lambda>declared. EqualFold declared needle) (slc_Aliases i)) installed)"

definition without_index :: "nat \<Rightarrow> 'a list \<Rightarrow> 'a list" where
  "without_index i xs = take i xs @ drop (Suc i) xs"

definition resolveOfficialSLCForChange ::
  "slc_env \<Rightarrow> string \<Rightarrow> slc_world \<Rightarrow> (slc_error, Entry \<times> ExasolPersonalState) result"
where
  "resolveOfficialSLCForChange env al w =
     (if \<not> se_local env then Inl ErrSLCNotSupported
      else case requireDeploymentPresent w of Some e \<Rightarrow> Inl e | None \<Rightarrow>
      (case Load (se_catalog env) of Inl e \<Rightarrow> Inl (SlcCatalogError e) | Inr catalog \<Rightarrow>
      (case Resolve catalog al (se_goarch env) of Inl e \<Rightarrow> Inl (SlcCatalogError e) | Inr entry \<Rightarrow>
      (case read_state w of Inl e \<Rightarrow> Inl e | Inr state \<Rightarrow>
      (case checkOfficialAliasNotHeldByCustom w (InstalledCustomSLCs state) (e_Aliases entry) of
         Some e \<Rightarrow> Inl e
       | None \<Rightarrow> Inr (entry, state))))))"

record SLCInstallResult =
  ir_Entry :: InstalledSLC
  ir_AlreadyInstalled :: bool
  ir_Replaced :: bool
  ir_Changed :: bool
  ir_Outcome :: SLCApplyOutcome

text \<open>\<open>InstallSLC\<close> from the point where it holds the state it has read. The official operations do
  not take the deployment lock, so that the world may have changed since.\<close>

definition InstallSLC_from ::
  "slc_env \<Rightarrow> bool \<Rightarrow> Entry \<Rightarrow> ExasolPersonalState \<Rightarrow> slc_world \<Rightarrow> slc_world \<times> (slc_error, SLCInstallResult) result"
where
  "InstallSLC_from env restart entry state w =
     (case findInstalledByImage (InstalledSLCs state) (e_Image entry) of
        Some idx \<Rightarrow>
          (w, Inr \<lparr>ir_Entry = InstalledSLCs state ! idx, ir_AlreadyInstalled = True, ir_Replaced = False,
             ir_Changed = False, ir_Outcome = SLCApplyNone\<rparr>)
      | None \<Rightarrow>
         (case CheckInstallable (entriesFromInstalled (InstalledSLCs state)) entry of
            Inl e \<Rightarrow> (w, Inl (SlcCollision e))
          | Inr replaces \<Rightarrow>
         (case confirmRestartIfRunning env restart of
            Some e \<Rightarrow> (w, Inl e)
          | None \<Rightarrow>
         (let state' = state\<lparr>InstalledSLCs := upsertInstalledSLC (InstalledSLCs state) (toInstalledSLC entry)\<rparr> in
          case write_state env state' w of
            (w1, Some e) \<Rightarrow> (w1, Inl e)
          | (w1, None) \<Rightarrow>
              if \<not> restart then
                (w1, Inr \<lparr>ir_Entry = toInstalledSLC entry, ir_AlreadyInstalled = False, ir_Replaced = replaces,
                   ir_Changed = True, ir_Outcome = SLCApplyDeferred\<rparr>)
              else case applySLCChange env True w1 of
                (w2, Inl e) \<Rightarrow> (w2, Inl e)
              | (w2, Inr outcome) \<Rightarrow>
                  (w2, Inr \<lparr>ir_Entry = toInstalledSLC entry, ir_AlreadyInstalled = False,
                     ir_Replaced = replaces, ir_Changed = True, ir_Outcome = outcome\<rparr>)))))"

definition InstallSLC ::
  "slc_env \<Rightarrow> string \<Rightarrow> bool \<Rightarrow> slc_world \<Rightarrow> slc_world \<times> (slc_error, SLCInstallResult) result"
where
  "InstallSLC env al restart w =
     (case resolveOfficialSLCForChange env al w of
        Inl e \<Rightarrow> (w, Inl e)
      | Inr (entry, state) \<Rightarrow> InstallSLC_from env restart entry state w)"

record SLCRemoveResult =
  rr_Found :: bool
  rr_Changed :: bool
  rr_Entry :: "InstalledSLC option"
  rr_Outcome :: SLCApplyOutcome

definition RemoveSLC ::
  "slc_env \<Rightarrow> string \<Rightarrow> bool \<Rightarrow> slc_world \<Rightarrow> slc_world \<times> (slc_error, SLCRemoveResult) result"
where
  "RemoveSLC env al restart w =
     (if \<not> se_local env then (w, Inl ErrSLCNotSupported)
      else case requireDeploymentPresent w of Some e \<Rightarrow> (w, Inl e) | None \<Rightarrow>
      (case read_state w of Inl e \<Rightarrow> (w, Inl e) | Inr state \<Rightarrow>
      (case findInstalledSLC (InstalledSLCs state) al of
         None \<Rightarrow> (w, Inr \<lparr>rr_Found = False, rr_Changed = False, rr_Entry = None, rr_Outcome = SLCApplyNone\<rparr>)
       | Some index \<Rightarrow>
      (case confirmRestartIfRunning env restart of Some e \<Rightarrow> (w, Inl e) | None \<Rightarrow>
      (let removed = InstalledSLCs state ! index;
           state' = state\<lparr>InstalledSLCs := without_index index (InstalledSLCs state)\<rparr> in
       case write_state env state' w of
         (w1, Some e) \<Rightarrow> (w1, Inl e)
       | (w1, None) \<Rightarrow>
           if \<not> restart then
             (w1, Inr \<lparr>rr_Found = True, rr_Changed = True, rr_Entry = Some removed, rr_Outcome = SLCApplyDeferred\<rparr>)
           else case applySLCChange env False w1 of
             (w2, Inl e) \<Rightarrow> (w2, Inl e)
           | (w2, Inr outcome) \<Rightarrow>
               (w2, Inr \<lparr>rr_Found = True, rr_Changed = True, rr_Entry = Some removed, rr_Outcome = outcome\<rparr>))))))"

record SLCUpdateResult =
  ur_Found :: bool
  ur_Unchanged :: bool
  ur_Changed :: bool
  ur_FromFlavor :: string
  ur_FromVersion :: string
  ur_Entry :: "InstalledSLC option"
  ur_Outcome :: SLCApplyOutcome

definition UpdateSLC ::
  "slc_env \<Rightarrow> string \<Rightarrow> bool \<Rightarrow> slc_world \<Rightarrow> slc_world \<times> (slc_error, SLCUpdateResult) result"
where
  "UpdateSLC env al restart w =
     (case resolveOfficialSLCForChange env al w of
        Inl e \<Rightarrow> (w, Inl e)
      | Inr (entry, state) \<Rightarrow>
     (case findInstalledSLC (InstalledSLCs state) (e_Language entry) of
        None \<Rightarrow>
          (w, Inr \<lparr>ur_Found = False, ur_Unchanged = False, ur_Changed = False, ur_FromFlavor = [],
             ur_FromVersion = [], ur_Entry = None, ur_Outcome = SLCApplyNone\<rparr>)
      | Some index \<Rightarrow>
     (let installed = InstalledSLCs state ! index in
      if findInstalledByImage (InstalledSLCs state) (e_Image entry) \<noteq> None then
        (w, Inr \<lparr>ur_Found = True, ur_Unchanged = True, ur_Changed = False, ur_FromFlavor = [],
           ur_FromVersion = [], ur_Entry = Some installed, ur_Outcome = SLCApplyNone\<rparr>)
      else
       (let remaining = without_index index (InstalledSLCs state) in
        case CheckInstallable (entriesFromInstalled remaining) entry of
          Inl e \<Rightarrow> (w, Inl (SlcCollision e))
        | Inr _ \<Rightarrow>
       (case confirmRestartIfRunning env restart of Some e \<Rightarrow> (w, Inl e) | None \<Rightarrow>
       (let state' = state\<lparr>InstalledSLCs := upsertInstalledSLC remaining (toInstalledSLC entry)\<rparr>;
            result = (\<lambda>outcome. \<lparr>ur_Found = True, ur_Unchanged = False, ur_Changed = True,
              ur_FromFlavor = slc_Flavor installed, ur_FromVersion = slc_Version installed,
              ur_Entry = Some (toInstalledSLC entry), ur_Outcome = outcome\<rparr>) in
        case write_state env state' w of
          (w1, Some e) \<Rightarrow> (w1, Inl e)
        | (w1, None) \<Rightarrow>
            if \<not> restart then (w1, Inr (result SLCApplyDeferred))
            else case applySLCChange env True w1 of
              (w2, Inl e) \<Rightarrow> (w2, Inl e)
            | (w2, Inr outcome) \<Rightarrow> (w2, Inr (result outcome))))))))"

text \<open>The list shown to the user: a missing state file means nothing is installed.\<close>

definition installedFlavors :: "slc_world \<Rightarrow> (slc_error, string set) result" where
  "installedFlavors w =
     (if sw_file w = NoStateFile then Inr {}
      else case read_state w of
        Inl e \<Rightarrow> Inl e
      | Inr s \<Rightarrow> Inr ((\<lambda>i. ToLower (slc_Flavor i)) ` set (InstalledSLCs s)))"

definition SLCStatuses :: "slc_env \<Rightarrow> slc_world \<Rightarrow> (slc_error, (Entry \<times> bool) list) result" where
  "SLCStatuses env w =
     (case Load (se_catalog env) of Inl e \<Rightarrow> Inl (SlcCatalogError e) | Inr catalog \<Rightarrow>
      (case List_entries catalog (se_goarch env) of Inl e \<Rightarrow> Inl (SlcCatalogError e) | Inr es \<Rightarrow>
      (case installedFlavors w of Inl e \<Rightarrow> Inl e | Inr installed \<Rightarrow>
        Inr (map (\<lambda>e. (e, ToLower (e_Flavor e) \<in> installed)) es))))"

section \<open>Aliases stay apart\<close>

text \<open>Go sorts the installed containers; a symmetric relation between all pairs does not notice.\<close>

lemma sorted_wrt_insort_key:
  assumes "\<And>x y. P x y \<longleftrightarrow> P y x"
  shows "sorted_wrt P (insort_key f x xs) \<longleftrightarrow> (\<forall>y \<in> set xs. P x y) \<and> sorted_wrt P xs"
  using assms by (induction xs) (auto simp: set_insort_key)

lemma sorted_wrt_sort_key:
  assumes "\<And>x y. P x y \<longleftrightarrow> P y x"
  shows "sorted_wrt P (sort_key f xs) \<longleftrightarrow> sorted_wrt P xs"
  by (induction xs) (simp_all add: sorted_wrt_insort_key [OF assms])

lemma sorted_wrt_filter: "sorted_wrt P xs \<Longrightarrow> sorted_wrt P (filter Q xs)"
  by (induction xs) auto

lemma set_without_index: "set (without_index i xs) \<subseteq> set xs"
  unfolding without_index_def by (auto dest: in_set_takeD in_set_dropD)

lemma without_index_simps [simp]:
  "without_index i [] = []" "without_index 0 (x # xs) = xs"
  "without_index (Suc i) (x # xs) = x # without_index i xs"
  by (simp_all add: without_index_def)

lemma sorted_wrt_without_index: "sorted_wrt P xs \<Longrightarrow> sorted_wrt P (without_index i xs)"
proof (induction xs arbitrary: i)
  case (Cons x xs)
  then show ?case using set_without_index [of _ xs] by (cases i) auto
qed simp

text \<open>The database refuses to start when two mounted containers declare the same alias. No two
  installed official containers have the same flavor or share an alias, and no alias of a custom
  container, neither its own nor one recorded from its package, is declared by another provider.\<close>

definition norm_apart :: "string list \<Rightarrow> string list \<Rightarrow> bool" where
  "norm_apart a b \<longleftrightarrow> (\<forall>x \<in> set a. \<forall>y \<in> set b. NormalizeAlias x \<noteq> NormalizeAlias y)"

definition recorded_aliases :: "InstalledCustomSLC \<Rightarrow> string list" where
  "recorded_aliases c = cslc_Alias c # cslc_PackageAliases c"

definition official_apart :: "InstalledSLC \<Rightarrow> InstalledSLC \<Rightarrow> bool" where
  "official_apart x y \<longleftrightarrow>
     \<not> EqualFold (slc_Flavor x) (slc_Flavor y) \<and> aliases_apart (slc_Aliases x) (slc_Aliases y)"

definition official_inv :: "InstalledSLC list \<Rightarrow> bool" where
  "official_inv xs \<longleftrightarrow> sorted_wrt official_apart xs \<and> (\<forall>x \<in> set xs. [] \<notin> set (slc_Aliases x))"

definition custom_inv :: "InstalledCustomSLC list \<Rightarrow> bool" where
  "custom_inv cs \<longleftrightarrow> sorted_wrt (\<lambda>c d. norm_apart (recorded_aliases c) (recorded_aliases d)) cs"

definition cross_inv :: "InstalledSLC list \<Rightarrow> InstalledCustomSLC list \<Rightarrow> bool" where
  "cross_inv xs cs \<longleftrightarrow> (\<forall>x \<in> set xs. \<forall>c \<in> set cs. norm_apart (slc_Aliases x) (recorded_aliases c))"

definition alias_inv :: "ExasolPersonalState \<Rightarrow> bool" where
  "alias_inv s \<longleftrightarrow> official_inv (InstalledSLCs s) \<and> custom_inv (InstalledCustomSLCs s)
     \<and> cross_inv (InstalledSLCs s) (InstalledCustomSLCs s)"

definition world_inv :: "slc_world \<Rightarrow> bool" where
  "world_inv w \<longleftrightarrow> (\<forall>s. sw_file w = StoredState s \<longrightarrow> alias_inv s)"

lemma norm_apart_sym: "norm_apart a b \<longleftrightarrow> norm_apart b a"
  unfolding norm_apart_def by metis

lemma official_apart_sym: "official_apart x y \<longleftrightarrow> official_apart y x"
  using EqualFold_sym aliases_apart_sym by (auto simp: official_apart_def)

lemma provider_of_None:
  "provider_of al ps = None \<longleftrightarrow> (\<forall>p \<in> set ps. \<forall>d \<in> set (p_Aliases p). NormalizeAlias al \<noteq> NormalizeAlias d)"
  by (induction ps) (auto simp: list_ex_iff)

lemma findSLCAliasConflict_None:
  "findSLCAliasConflict cand ps = None \<longleftrightarrow> (\<forall>p \<in> set ps. norm_apart cand (p_Aliases p))"
proof (induction cand)
  case (Cons a cand)
  then show ?case
    using provider_of_None [of a ps] by (cases "provider_of a ps") (auto simp: norm_apart_def)
qed (simp add: norm_apart_def)

lemma customSLCProviders_loop_covers:
  assumes "customSLCProviders_loop w k cs ex = Inr ps" and "i < length cs" and "Some (k + i) \<noteq> ex"
  shows "\<exists>p \<in> set ps. set (recorded_aliases (cs ! i)) \<subseteq> set (p_Aliases p)"
  using assms
proof (induction cs arbitrary: k i ps)
  case (Cons c cs)
  have rec: "set (recorded_aliases c) \<subseteq> set (cslc_Alias c # als)" if "installedCustomSLCAliases w c = Inr als" for als
    using that by (auto simp: recorded_aliases_def installedCustomSLCAliases_def split: if_splits)
  show ?case
  proof (cases i)
    case 0
    with Cons.prems obtain als ps' where "installedCustomSLCAliases w c = Inr als"
      "ps = \<lparr>p_Name = cslc_Alias c, p_Aliases = cslc_Alias c # als\<rparr> # ps'"
      by (auto split: sum.splits)
    with 0 rec show ?thesis by auto
  next
    case (Suc j)
    from Cons.prems(1) obtain ps' where ps': "customSLCProviders_loop w (Suc k) cs ex = Inr ps'" "set ps' \<subseteq> set ps"
      by (cases "Some k = ex") (force split: sum.splits)+
    have "\<exists>p \<in> set ps'. set (recorded_aliases (cs ! j)) \<subseteq> set (p_Aliases p)"
      using Cons.IH [OF ps'(1), of j] Cons.prems(2,3) Suc by simp
    with ps'(2) Suc show ?thesis by auto
  qed
qed simp

lemma norm_apart_subset: "norm_apart a b \<Longrightarrow> set b' \<subseteq> set b \<Longrightarrow> norm_apart a b'"
  by (auto simp: norm_apart_def)

lemma no_conflict_with_customs:
  assumes "customSLCProviders w cs ex = Inr ps" and "findSLCAliasConflict cand ps = None"
    and "i < length cs" and "Some i \<noteq> ex"
  shows "norm_apart cand (recorded_aliases (cs ! i))"
proof -
  from customSLCProviders_loop_covers [of w 0 cs ex ps i] assms(1,3,4)
  obtain p where "p \<in> set ps" "set (recorded_aliases (cs ! i)) \<subseteq> set (p_Aliases p)"
    by (auto simp: customSLCProviders_def)
  with assms(2) show ?thesis by (auto simp: findSLCAliasConflict_None intro: norm_apart_subset)
qed

lemma checkOfficialAliasNotHeldByCustom_None:
  assumes "checkOfficialAliasNotHeldByCustom w cs als = None"
  shows "\<forall>c \<in> set cs. norm_apart als (recorded_aliases c)"
  using assms no_conflict_with_customs [of w cs None _ als]
  by (auto simp: checkOfficialAliasNotHeldByCustom_def in_set_conv_nth split: sum.splits option.splits)

lemma set_upsertInstalledSLC:
  "set (upsertInstalledSLC xs e) = {x \<in> set xs. \<not> EqualFold (slc_Flavor x) (slc_Flavor e)} \<union> {e}"
  by (auto simp: upsertInstalledSLC_def)

lemma official_inv_upsert:
  assumes "official_inv xs" and "[] \<notin> set (e_Aliases e)"
    and "CheckInstallable (entriesFromInstalled xs) e = Inr r"
  shows "official_inv (upsertInstalledSLC xs (toInstalledSLC e))"
proof -
  let ?ys = "filter (\<lambda>s. \<not> EqualFold (slc_Flavor s) (slc_Flavor (toInstalledSLC e))) xs"
  have "official_apart x (toInstalledSLC e)" if "x \<in> set ?ys" for x
    using assms that sharedAlias_Nil [of "slc_Aliases x" "e_Aliases e"]
    by (auto simp: official_inv_def official_apart_def toInstalledSLC_def CheckInstallable_Inr entriesFromInstalled_def)
  then have "sorted_wrt official_apart (?ys @ [toInstalledSLC e])"
    using assms(1) by (auto simp: sorted_wrt_append official_inv_def intro: sorted_wrt_filter)
  then show ?thesis
    using assms(1,2) official_apart_sym
    by (auto simp: official_inv_def set_upsertInstalledSLC upsertInstalledSLC_def sorted_wrt_sort_key toInstalledSLC_def)
qed

lemma official_inv_without_index: "official_inv xs \<Longrightarrow> official_inv (without_index i xs)"
  using set_without_index [of i xs] by (auto simp: official_inv_def intro: sorted_wrt_without_index)

lemma alias_inv_upsert:
  assumes "alias_inv s" and "official_inv xs" and "set xs \<subseteq> set (InstalledSLCs s)"
    and "[] \<notin> set (e_Aliases e)" and "CheckInstallable (entriesFromInstalled xs) e = Inr r"
    and "\<forall>c \<in> set (InstalledCustomSLCs s). norm_apart (e_Aliases e) (recorded_aliases c)"
  shows "alias_inv (s\<lparr>InstalledSLCs := upsertInstalledSLC xs (toInstalledSLC e)\<rparr>)"
  using assms official_inv_upsert [OF assms(2,4,5)]
  by (auto simp: alias_inv_def cross_inv_def set_upsertInstalledSLC toInstalledSLC_def)

text \<open>What \<open>Start\<close> and \<open>Stop\<close> keep: they rewrite the state file, but not the installed containers.\<close>

definition restart_keeps :: "(slc_world \<Rightarrow> bool) \<Rightarrow> slc_env \<Rightarrow> bool" where
  "restart_keeps I env \<longleftrightarrow> (\<forall>w. I w \<longrightarrow> I (fst (se_Stop env w)) \<and> I (fst (se_Start env w)))"

lemma applySLCChange_keeps:
  assumes "restart_keeps I env" and "I w"
  shows "I (fst (applySLCChange env b w))"
proof -
  obtain w1 e1 where stop: "se_Stop env w = (w1, e1)" by fastforce
  obtain w2 e2 where again: "se_Start env w1 = (w2, e2)" by fastforce
  obtain w3 e3 where start: "se_Start env w = (w3, e3)" by fastforce
  have "I w1" "I w2" "I w3"
    using assms stop again start unfolding restart_keeps_def by (metis fst_conv)+
  then show ?thesis
    using assms(2) stop again start by (auto simp: applySLCChange_def split: option.split)
qed

lemma write_state_inv:
  assumes "write_state env s w = (w', err)" and "world_inv w" and "alias_inv s"
  shows "world_inv w'"
  using assms
  by (auto simp: write_state_def world_inv_def WriteExasolPersonalState_def split: write_outcome.splits)

lemma read_state_inv: "read_state w = Inr s \<Longrightarrow> world_inv w \<Longrightarrow> alias_inv s"
  by (auto simp: read_state_def ReadExasolPersonalState_def world_inv_def split: state_file.splits)

lemma resolveOfficial_sound:
  assumes "resolveOfficialSLCForChange env al w = Inr (entry, s)"
  shows "read_state w = Inr s \<and> (\<forall>c \<in> set (InstalledCustomSLCs s). norm_apart (e_Aliases entry) (recorded_aliases c))
    \<and> (\<exists>catalog. Load (se_catalog env) = Inr catalog \<and> Resolve catalog al (se_goarch env) = Inr entry)"
  using assms checkOfficialAliasNotHeldByCustom_None [of w "InstalledCustomSLCs s" "e_Aliases entry"]
  by (auto simp: resolveOfficialSLCForChange_def split: if_splits option.splits sum.splits)

text \<open>A catalog declares no empty alias.\<close>

definition catalog_aliases_ok :: "slc_env \<Rightarrow> bool" where
  "catalog_aliases_ok env \<longleftrightarrow>
     (\<forall>c. se_catalog env = Some c \<longrightarrow>
        (case entries_of c (se_goarch env) of Inl _ \<Rightarrow> True
         | Inr es \<Rightarrow> \<forall>e \<in> set es. [] \<notin> set (e_Aliases e)))"

lemma Load_Some: "Load p = Inr c \<Longrightarrow> p = Some c"
  by (auto simp: Load_def split: option.splits if_splits)

lemma Resolve_in_entries:
  assumes "Resolve c al goarch = Inr e"
  shows "\<exists>es. entries_of c goarch = Inr es \<and> e \<in> set es"
  using assms
  by (auto simp: Resolve_def Let_def Resolve_loop_find dest: find_SomeD split: if_splits sum.splits option.splits)

lemma resolved_aliases_ok:
  assumes "catalog_aliases_ok env" and "resolveOfficialSLCForChange env al w = Inr (entry, s)"
  shows "[] \<notin> set (e_Aliases entry)"
proof -
  from resolveOfficial_sound [OF assms(2)] obtain c where "Load (se_catalog env) = Inr c"
    and r: "Resolve c al (se_goarch env) = Inr entry" by blast
  then have "se_catalog env = Some c" using Load_Some by blast
  with Resolve_in_entries [OF r] assms(1) show ?thesis by (auto simp: catalog_aliases_ok_def)
qed

lemma write_then_apply_inv:
  assumes "restart_keeps world_inv env" and "world_inv w" and "alias_inv s"
    and "write_state env s w = (w1, err)"
  shows "world_inv w1" and "world_inv (fst (applySLCChange env b w1))"
  using assms write_state_inv applySLCChange_keeps by blast+

lemma InstallSLC_from_inv:
  assumes "restart_keeps world_inv env" and "world_inv w" and "alias_inv s" and "[] \<notin> set (e_Aliases entry)"
    and "\<forall>c \<in> set (InstalledCustomSLCs s). norm_apart (e_Aliases entry) (recorded_aliases c)"
  shows "world_inv (fst (InstallSLC_from env restart entry s w))"
proof (cases "findInstalledByImage (InstalledSLCs s) (e_Image entry)")
  case None
  show ?thesis
  proof (cases "CheckInstallable (entriesFromInstalled (InstalledSLCs s)) entry")
    case (Inr r)
    let ?s = "s\<lparr>InstalledSLCs := upsertInstalledSLC (InstalledSLCs s) (toInstalledSLC entry)\<rparr>"
    have inv: "alias_inv ?s"
      using alias_inv_upsert [OF assms(3) _ _ assms(4) Inr assms(5)] assms(3) by (simp add: alias_inv_def)
    obtain w1 err where wr: "write_state env ?s w = (w1, err)" by fastforce
    obtain w2 res where ap: "applySLCChange env True w1 = (w2, res)" by fastforce
    have "world_inv w1" "world_inv w2"
      using write_then_apply_inv(1) [OF assms(1,2) inv wr]
        write_then_apply_inv(2) [OF assms(1,2) inv wr, of True] ap by simp_all
    then show ?thesis
      using assms(2) None Inr wr ap
      by (auto simp: InstallSLC_from_def Let_def split: option.split sum.split)
  qed (use None assms(2) in \<open>simp add: InstallSLC_from_def\<close>)
qed (use assms(2) in \<open>simp add: InstallSLC_from_def\<close>)

lemma InstallSLC_inv:
  assumes "restart_keeps world_inv env" and "world_inv w" and "catalog_aliases_ok env"
  shows "world_inv (fst (InstallSLC env al restart w))"
proof (cases "resolveOfficialSLCForChange env al w")
  case (Inr r)
  obtain entry s where r: "r = (entry, s)" by fastforce
  note rs = resolveOfficial_sound [OF Inr [unfolded r]]
  have "alias_inv s" using rs assms(2) read_state_inv by blast
  then show ?thesis
    using Inr r InstallSLC_from_inv [OF assms(1,2)] resolved_aliases_ok [OF assms(3) Inr [unfolded r]] rs
    by (simp add: InstallSLC_def)
qed (use assms(2) in \<open>simp add: InstallSLC_def\<close>)

lemma RemoveSLC_inv:
  assumes "restart_keeps world_inv env" and "world_inv w"
  shows "world_inv (fst (RemoveSLC env al restart w))"
proof (cases "read_state w")
  case (Inr s)
  have inv: "alias_inv (s\<lparr>InstalledSLCs := without_index i (InstalledSLCs s)\<rparr>)" for i
    using read_state_inv [OF Inr assms(2)] set_without_index [of i "InstalledSLCs s"]
    by (auto simp: alias_inv_def cross_inv_def official_inv_without_index)
  have step: "world_inv w1 \<and> world_inv (fst (applySLCChange env b w1))"
    if "write_state env (s\<lparr>InstalledSLCs := without_index i (InstalledSLCs s)\<rparr>) w = (w1, err)" for i w1 err b
    using write_then_apply_inv [OF assms inv that] by simp
  have applied: "world_inv w2"
    if "write_state env (s\<lparr>InstalledSLCs := without_index i (InstalledSLCs s)\<rparr>) w = (w1, err)"
      and "applySLCChange env b w1 = (w2, res)" for i w1 err b w2 res
    using step [OF that(1), of b] that(2) by simp
  show ?thesis
    using assms(2) Inr
    by (auto simp: RemoveSLC_def Let_def split: option.split sum.split prod.split dest: step applied)
qed (use assms(2) in \<open>simp add: RemoveSLC_def split: option.split\<close>)

lemma UpdateSLC_inv:
  assumes "restart_keeps world_inv env" and "world_inv w" and "catalog_aliases_ok env"
  shows "world_inv (fst (UpdateSLC env al restart w))"
proof (cases "resolveOfficialSLCForChange env al w")
  case (Inr r)
  obtain entry s where r: "r = (entry, s)" by fastforce
  note rs = resolveOfficial_sound [OF Inr [unfolded r]]
  have s: "alias_inv s" using rs assms(2) read_state_inv by blast
  show ?thesis
  proof (cases "findInstalledSLC (InstalledSLCs s) (e_Language entry)")
    case (Some i)
    let ?rest = "without_index i (InstalledSLCs s)"
    show ?thesis
    proof (cases "CheckInstallable (entriesFromInstalled ?rest) entry")
      case Inl': (Inl c)
      then show ?thesis using Inr r Some assms(2) by (simp add: UpdateSLC_def Let_def)
    next
      case Inr': (Inr rep)
      let ?s = "s\<lparr>InstalledSLCs := upsertInstalledSLC ?rest (toInstalledSLC entry)\<rparr>"
      have inv: "alias_inv ?s"
        using alias_inv_upsert [OF s _ set_without_index resolved_aliases_ok [OF assms(3) Inr [unfolded r]] Inr']
          rs s by (simp add: alias_inv_def official_inv_without_index)
      obtain w1 err where wr: "write_state env ?s w = (w1, err)" by fastforce
      obtain w2 res where ap: "applySLCChange env True w1 = (w2, res)" by fastforce
      have "world_inv w1" "world_inv w2"
        using write_then_apply_inv(1) [OF assms(1,2) inv wr]
        write_then_apply_inv(2) [OF assms(1,2) inv wr, of True] ap by simp_all
      then show ?thesis
        using assms(2) Inr r Some Inr' wr ap
        by (auto simp: UpdateSLC_def Let_def split: option.split sum.split)
    qed
  qed (use Inr r assms(2) in \<open>simp add: UpdateSLC_def\<close>)
qed (use assms(2) in \<open>simp add: UpdateSLC_def\<close>)

text \<open>Installing, updating and removing official containers keeps the rule the database enforces at
  its start: in the recorded state no two official containers have the same flavor or share an
  alias, and no alias is declared both by an official and by a custom container or by two custom
  ones. This holds on every branch: a refused or cancelled operation, a failed write of the state
  and a failed restart included.\<close>

theorem official_operations_keep_aliases_apart:
  assumes "restart_keeps world_inv env" and "catalog_aliases_ok env" and "world_inv w"
  shows "world_inv (fst (InstallSLC env al restart w)) \<and> world_inv (fst (UpdateSLC env al restart w))
    \<and> world_inv (fst (RemoveSLC env al restart w))"
  using assms InstallSLC_inv UpdateSLC_inv RemoveSLC_inv by blast

definition sample_slc_env :: slc_env where
  "sample_slc_env = \<lparr>se_local = True, se_catalog = Some sample_catalog, se_goarch = ''arm64'',
     se_running_confirm = False, se_running_apply = False, se_confirm = None, se_write = WriteOk,
     se_lock = None, se_Stop = (\<lambda>w. (w, None)), se_Start = (\<lambda>w. (w, None)),
     se_parse_url = (\<lambda>s. None), se_tarball = (\<lambda>s. Inr (''0123456789abcdef01'', sample_archive)),
     se_promote = None, se_connect = None, se_query = (\<lambda>v. Inr (Some v)), se_alter = (\<lambda>v old. Inr v)\<rparr>"

definition sample_state :: ExasolPersonalState where
  "sample_state = zero_state\<lparr>CurrentWorkflowState := no_workflow\<lparr>ws_Stopped := Some ()\<rparr>\<rparr>"

definition sample_slc_world :: slc_world where
  "sample_slc_world = \<lparr>sw_file = StoredState sample_state, sw_packages = [], sw_report = Some [],
     sw_languages = ''PYTHON=builtin_python R=builtin_r''\<rparr>"

lemma sample_slc_env_ok: "restart_keeps world_inv sample_slc_env" "catalog_aliases_ok sample_slc_env"
  by (simp_all add: restart_keeps_def sample_slc_env_def catalog_aliases_ok_def sample_catalog_entries)

lemma sample_slc_world_inv: "world_inv sample_slc_world"
  by (simp add: world_inv_def sample_slc_world_def sample_state_def zero_state_def alias_inv_def
      official_inv_def custom_inv_def cross_inv_def)

definition official_flavors :: "slc_world \<Rightarrow> string list" where
  "official_flavors w = (case sw_file w of StoredState s \<Rightarrow> map slc_Flavor (InstalledSLCs s) | _ \<Rightarrow> [])"

theorem official_operations_keep_aliases_apart_witness:
  "world_inv (fst (InstallSLC sample_slc_env ''R4'' True sample_slc_world))
    \<and> official_flavors (fst (InstallSLC sample_slc_env ''R4'' True sample_slc_world)) = [''r-4.4'']"
proof -
  have "official_flavors (fst (InstallSLC sample_slc_env ''R4'' True sample_slc_world)) = [''r-4.4'']"
    by code_simp
  then show ?thesis
    using official_operations_keep_aliases_apart
      [OF sample_slc_env_ok sample_slc_world_inv, of "''R4''" True] by simp
qed

section \<open>The unlocked read-modify-write\<close>

text \<open>The official operations read the state, and write it back changed, without holding the
  deployment lock. Two installations that overlap can therefore lose one of them: the first one
  reads the state, the second one runs to its end and reports success, the first one goes on with
  what it had read and reports success too, and the container of the second is no longer recorded.\<close>

theorem overlapping_installs_lose_one:
  "\<exists>env w entry s. resolveOfficialSLCForChange env ''R'' w = Inr (entry, s)
     \<and> (case InstallSLC env ''PYTHON'' False w of (w1, r1) \<Rightarrow>
          (case InstallSLC_from env False entry s w1 of (w2, r2) \<Rightarrow>
             (\<exists>i1 i2. r1 = Inr i1 \<and> r2 = Inr i2 \<and> ir_Changed i1 \<and> ir_Changed i2
                \<and> official_flavors w1 = [slc_Flavor (ir_Entry i1)]
                \<and> official_flavors w2 = [slc_Flavor (ir_Entry i2)]
                \<and> slc_Flavor (ir_Entry i1) \<notin> set (official_flavors w2))))"
proof -
  define entry where "entry = \<lparr>e_Language = ''r'', e_Flavor = ''r-4.4'', e_Version = ''11.0'',
    e_Image = ''reg/slc:r-4.4-arm64-aa'', e_Target = ''/exa/slc/r-4.4'', e_Aliases = [''R'', ''R4'']\<rparr>"
  have a: "resolveOfficialSLCForChange sample_slc_env ''R'' sample_slc_world = Inr (entry, sample_state)"
    unfolding entry_def by code_simp
  have b: "case InstallSLC sample_slc_env ''PYTHON'' False sample_slc_world of (w1, Inr i1) \<Rightarrow>
      (case InstallSLC_from sample_slc_env False entry sample_state w1 of (w2, Inr i2) \<Rightarrow>
         ir_Changed i1 \<and> ir_Changed i2 \<and> official_flavors w1 = [slc_Flavor (ir_Entry i1)]
         \<and> official_flavors w2 = [slc_Flavor (ir_Entry i2)]
         \<and> slc_Flavor (ir_Entry i1) \<notin> set (official_flavors w2) | _ \<Rightarrow> False) | _ \<Rightarrow> False"
    unfolding entry_def by code_simp
  obtain w1 r1 where c: "InstallSLC sample_slc_env ''PYTHON'' False sample_slc_world = (w1, r1)" by fastforce
  obtain w2 r2 where d: "InstallSLC_from sample_slc_env False entry sample_state w1 = (w2, r2)" by fastforce
  from b c d obtain i1 i2 where r: "r1 = Inr i1" "r2 = Inr i2" by (cases r1; cases r2) auto
  show ?thesis
    by (rule exI [of _ sample_slc_env], rule exI [of _ sample_slc_world], rule exI [of _ entry],
        rule exI [of _ sample_state]) (use a b c d r in auto)
qed

end
