(* ===== verification/Custom_Slc_Management.thy ===== *)
theory Custom_Slc_Management
  imports Slc_Management
begin

text \<open>
  Custom script language containers of a deployment, \<^verbatim>\<open>src/internal/deploy/custom_slc.go\<close> and
  \<^verbatim>\<open>local_custom_slc.go\<close>: validation of the options, staging an installation or update under the
  deployment lock, activating the pending containers in the database after a start, and removing a
  container. World, environment and errors are those of \<open>Slc_Management\<close>.
\<close>

section \<open>Names and validation\<close>

definition customSLCDirPrefix :: string where "customSLCDirPrefix = ''custom-''"

definition customSLCImageRepo :: string where "customSLCImageRepo = ''exasol-personal/custom-slc''"

definition customSLCDigestLen :: nat where "customSLCDigestLen = 16"

text \<open>The pattern \<^verbatim>\<open>^[A-Za-z][A-Za-z0-9_]{0,127}$\<close>.\<close>

definition customAliasPattern :: "string \<Rightarrow> bool" where
  "customAliasPattern s \<longleftrightarrow>
     (case s of [] \<Rightarrow> False
      | c # cs \<Rightarrow> is_letter c \<and> length cs \<le> 127
          \<and> list_all (\<lambda>x. is_letter x \<or> is_digit x \<or> x = CHR ''_'') cs)"

definition validateCustomAlias :: "string \<Rightarrow> (slc_error, string) result" where
  "validateCustomAlias raw =
     (let trimmed = TrimSpace raw in
      if trimmed = [] then Inl (SlcInvalidAlias raw)
      else if \<not> customAliasPattern trimmed then Inl (SlcInvalidAlias trimmed)
      else Inr (NormalizeAlias trimmed))"

text \<open>\<open>se_parse_url\<close> is \<^verbatim>\<open>net/url.ParseRequestURI\<close>: scheme and host, \<^const>\<open>None\<close> on an error.\<close>

definition urlScheme :: "slc_env \<Rightarrow> string \<Rightarrow> string" where
  "urlScheme env source =
     (case se_parse_url env source of
        None \<Rightarrow> []
      | Some (scheme, host) \<Rightarrow> if host = [] then [] else ToLower scheme)"

definition validateCustomSource :: "slc_env \<Rightarrow> string \<Rightarrow> (slc_error, string) result" where
  "validateCustomSource env raw =
     (let trimmed = TrimSpace raw in
      if trimmed = [] then Inl (SlcInvalidSource raw)
      else let scheme = urlScheme env trimmed in
        if scheme \<noteq> [] \<and> scheme \<noteq> ''https'' then Inl (SlcInvalidSource trimmed)
        else Inr trimmed)"

record CustomSLCInstallOpts =
  o_Alias :: string
  o_Language :: string
  o_Source :: string

record customSLCRequest =
  rq_alias :: string
  rq_language :: string
  rq_source :: string

definition normalize_language :: "string \<Rightarrow> (slc_error, string) result" where
  "normalize_language raw = (case NormalizeLanguage raw of None \<Rightarrow> Inl (SlcInvalidLanguage raw) | Some l \<Rightarrow> Inr l)"

definition validateCustomSLCOpts :: "slc_env \<Rightarrow> CustomSLCInstallOpts \<Rightarrow> (slc_error, customSLCRequest) result" where
  "validateCustomSLCOpts env opts =
     bind_result (validateCustomAlias (o_Alias opts)) (\<lambda>al.
     bind_result (normalize_language (o_Language opts)) (\<lambda>language.
     bind_result (validateCustomSource env (o_Source opts)) (\<lambda>source.
       Inr \<lparr>rq_alias = al, rq_language = language, rq_source = source\<rparr>)))"

definition requireCustomSLCPreconditions :: "slc_env \<Rightarrow> slc_world \<Rightarrow> slc_error option" where
  "requireCustomSLCPreconditions env w =
     (if \<not> se_local env then Some ErrSLCNotSupported else requireDeploymentPresent w)"

definition customSLCDir :: "string \<Rightarrow> string" where
  "customSLCDir al = customSLCDirPrefix @ ToLower al"

definition customSLCTarget :: "string \<Rightarrow> string" where
  "customSLCTarget al = SLCMountRoot @ ''/'' @ customSLCDir al"

definition shortDigest :: "string \<Rightarrow> string" where
  "shortDigest digestHex = (if length digestHex > customSLCDigestLen then take customSLCDigestLen digestHex else digestHex)"

definition customSLCImage :: "string \<Rightarrow> string \<Rightarrow> string" where
  "customSLCImage al digestHex = customSLCImageRepo @ '':'' @ ToLower al @ ''-'' @ shortDigest digestHex"

definition customSLCPackageName :: "string \<Rightarrow> string \<Rightarrow> string" where
  "customSLCPackageName al digestHex = customSLCDir al @ ''-'' @ shortDigest digestHex @ ''.tar.gz''"

section \<open>The recorded containers\<close>

definition findInstalledCustomSLC :: "InstalledCustomSLC list \<Rightarrow> string \<Rightarrow> nat option" where
  "findInstalledCustomSLC installed al =
     (let needle = NormalizeAlias al in find_index (\<lambda>i. NormalizeAlias (cslc_Alias i) = needle) installed)"

definition upsertInstalledCustomSLC :: "InstalledCustomSLC list \<Rightarrow> InstalledCustomSLC \<Rightarrow> InstalledCustomSLC list" where
  "upsertInstalledCustomSLC existing entry =
     sort_key cslc_Alias
       (filter (\<lambda>i. NormalizeAlias (cslc_Alias i) \<noteq> NormalizeAlias (cslc_Alias entry)) existing @ [entry])"

definition carriedDisplacedURI :: "InstalledCustomSLC list \<Rightarrow> string \<Rightarrow> string" where
  "carriedDisplacedURI installed al =
     (case findInstalledCustomSLC installed al of Some idx \<Rightarrow> cslc_DisplacedURI (installed ! idx) | None \<Rightarrow> [])"

definition supersededCustomSLCPackage :: "InstalledCustomSLC list \<Rightarrow> InstalledCustomSLC \<Rightarrow> string" where
  "supersededCustomSLCPackage installed entry =
     (case findInstalledCustomSLC installed (cslc_Alias entry) of
        None \<Rightarrow> []
      | Some idx \<Rightarrow> if cslc_Package (installed ! idx) = cslc_Package entry then [] else cslc_Package (installed ! idx))"

definition customSLCUnchanged :: "InstalledCustomSLC \<Rightarrow> string \<Rightarrow> string \<Rightarrow> bool" where
  "customSLCUnchanged recorded digest language \<longleftrightarrow>
     cslc_Activated recorded \<and> cslc_Sha256 recorded = digest \<and> cslc_Language recorded = language"

text \<open>Removing a package that is not there, or whose name is empty, is no error; any other error is
  only logged by the callers.\<close>

definition removeCustomSLCPackage :: "string \<Rightarrow> slc_world \<Rightarrow> slc_world" where
  "removeCustomSLCPackage name w =
     (if name = [] then w else w\<lparr>sw_packages := filter (\<lambda>p. fst p \<noteq> name) (sw_packages w)\<rparr>)"

definition promoteCustomSLCPackage ::
  "slc_env \<Rightarrow> tar_source \<Rightarrow> string \<Rightarrow> slc_world \<Rightarrow> (slc_error, slc_world) result"
where
  "promoteCustomSLCPackage env src name w =
     (case se_promote env of
        Some e \<Rightarrow> Inl (SlcPromoteError e)
      | None \<Rightarrow> Inr (w\<lparr>sw_packages := (name, src) # filter (\<lambda>p. fst p \<noteq> name) (sw_packages w)\<rparr>))"

definition new_custom_entry ::
  "ExasolPersonalState \<Rightarrow> customSLCRequest \<Rightarrow> string \<Rightarrow> string list \<Rightarrow> InstalledCustomSLC"
where
  "new_custom_entry state request sha256 als =
     \<lparr>cslc_Alias = rq_alias request, cslc_PackageAliases = als,
      cslc_Language = rq_language request, cslc_Image = customSLCImage (rq_alias request) sha256,
      cslc_Target = customSLCTarget (rq_alias request),
      cslc_Package = customSLCPackageName (rq_alias request) sha256, cslc_Sha256 = sha256,
      cslc_Source = rq_source request, cslc_Activated = False,
      cslc_DisplacedURI = carriedDisplacedURI (InstalledCustomSLCs state) (rq_alias request)\<rparr>"

definition recordCustomSLC ::
  "slc_env \<Rightarrow> ExasolPersonalState \<Rightarrow> customSLCRequest \<Rightarrow> string \<times> tar_source \<Rightarrow> string list \<Rightarrow> slc_world
     \<Rightarrow> slc_world \<times> (slc_error, InstalledCustomSLC) result"
where
  "recordCustomSLC env state request tarball als w =
     (let entry = new_custom_entry state request (fst tarball) als in
      case promoteCustomSLCPackage env (snd tarball) (cslc_Package entry) w of
        Inl e \<Rightarrow> (w, Inl e)
      | Inr w1 \<Rightarrow>
         (let superseded = supersededCustomSLCPackage (InstalledCustomSLCs state) entry;
              state' = state\<lparr>InstalledCustomSLCs := upsertInstalledCustomSLC (InstalledCustomSLCs state) entry\<rparr>
          in case write_state env state' w1 of
               (w2, Some e) \<Rightarrow> (w2, Inl e)
             | (w2, None) \<Rightarrow>
                 (if superseded \<noteq> [] then removeCustomSLCPackage superseded w2 else w2, Inr entry)))"

definition checkCustomSLCAliasConflicts ::
  "slc_world \<Rightarrow> ExasolPersonalState \<Rightarrow> string list \<Rightarrow> nat option \<Rightarrow> slc_error option"
where
  "checkCustomSLCAliasConflicts w state candidate excludeCustomIndex =
     (case customSLCProviders w (InstalledCustomSLCs state) excludeCustomIndex of
        Inl e \<Rightarrow> Some e
      | Inr customProviders \<Rightarrow>
          checkSLCAliasConflicts candidate (officialSLCAliasProviders (InstalledSLCs state) @ customProviders))"

section \<open>The database\<close>

definition currentScriptLanguages :: "slc_env \<Rightarrow> string \<Rightarrow> (slc_error, AliasEntry list) result" where
  "currentScriptLanguages env languages =
     (case se_query env languages of
        Inl e \<Rightarrow> Inl (SlcDatabaseError e)
      | Inr None \<Rightarrow> Inr []
      | Inr (Some v) \<Rightarrow> Inr (ParseScriptLanguages v))"

definition setScriptLanguages :: "slc_env \<Rightarrow> AliasEntry list \<Rightarrow> string \<Rightarrow> (slc_error, string) result" where
  "setScriptLanguages env es languages =
     (let v = SerializeScriptLanguages es in
      if CHR 0x27 \<in> set v then Inl (SlcQuoteRefused v)
      else case se_alter env v languages of Inl e \<Rightarrow> Inl (SlcDatabaseError e) | Inr languages' \<Rightarrow> Inr languages')"

definition aliasResolvesTo :: "AliasEntry list \<Rightarrow> string \<Rightarrow> string \<Rightarrow> bool" where
  "aliasResolvesTo es al uri \<longleftrightarrow> (case FindAlias es al of None \<Rightarrow> False | Some e \<Rightarrow> URI e = uri)"

definition activation_uri :: "InstalledCustomSLC \<Rightarrow> string" where
  "activation_uri c = BuildActivationURI (customSLCDir (cslc_Alias c)) (cslc_Language c)"

text \<open>The loop of \<open>activatePendingCustomSLCs\<close>: the table and the records, both updated in place.\<close>

fun activate_loop ::
  "nat list \<Rightarrow> AliasEntry list \<Rightarrow> InstalledCustomSLC list \<Rightarrow> AliasEntry list \<times> InstalledCustomSLC list"
where
  "activate_loop [] es cs = (es, cs)"
| "activate_loop (idx # pending) es cs =
     (let custom = cs ! idx;
          displaced = (case FindAlias es (cslc_Alias custom) of
              Some existing \<Rightarrow> if IsBuiltinURI (URI existing) \<and> cslc_DisplacedURI custom = [] then URI existing
                              else cslc_DisplacedURI custom
            | None \<Rightarrow> cslc_DisplacedURI custom);
          custom' = custom\<lparr>cslc_DisplacedURI := displaced, cslc_Activated := True\<rparr>
      in activate_loop pending (SetAlias es (cslc_Alias custom) (activation_uri custom)) (cs[idx := custom']))"

text \<open>\<open>applyScriptLanguages\<close>: the database as it is afterwards, and the error.\<close>

definition applyScriptLanguages ::
  "slc_env \<Rightarrow> AliasEntry list \<Rightarrow> InstalledCustomSLC list \<Rightarrow> nat list \<Rightarrow> string \<Rightarrow> string \<times> slc_error option"
where
  "applyScriptLanguages env es cs pending languages =
     (case setScriptLanguages env es languages of
        Inl e \<Rightarrow> (languages, Some e)
      | Inr languages' \<Rightarrow>
          (case currentScriptLanguages env languages' of
             Inl e \<Rightarrow> (languages', Some e)
           | Inr updated \<Rightarrow>
               (languages',
                case List.find (\<lambda>idx. cslc_Activated (cs ! idx)
                    \<and> \<not> aliasResolvesTo updated (cslc_Alias (cs ! idx)) (activation_uri (cs ! idx))) pending of
                  Some idx \<Rightarrow> Some (SlcActivationIneffective (cslc_Alias (cs ! idx)))
                | None \<Rightarrow> None)))"

definition activatePendingCustomSLCs ::
  "slc_env \<Rightarrow> ExasolPersonalState \<Rightarrow> nat list \<Rightarrow> string \<Rightarrow> string \<times> (slc_error, ExasolPersonalState) result"
where
  "activatePendingCustomSLCs env state pending languages =
     (case se_connect env of
        Some e \<Rightarrow> (languages, Inl (SlcDatabaseError e))
      | None \<Rightarrow>
     (case currentScriptLanguages env languages of
        Inl e \<Rightarrow> (languages, Inl e)
      | Inr es \<Rightarrow>
     (case activate_loop pending es (InstalledCustomSLCs state) of
        (es', cs') \<Rightarrow>
     (case applyScriptLanguages env es' cs' pending languages of
        (languages', Some e) \<Rightarrow> (languages', Inl e)
      | (languages', None) \<Rightarrow> (languages', Inr (state\<lparr>InstalledCustomSLCs := cs'\<rparr>))))))"

text \<open>\<open>readSLCImageStates\<close>: no report (\<^const>\<open>None\<close>) stands for a report that cannot be read; a missing
  file is an empty report. The map is filled from first to last, so the last status of an image counts.\<close>

definition readSLCImageStates :: "slc_world \<Rightarrow> (slc_error, string \<Rightarrow> string) result" where
  "readSLCImageStates w =
     (case sw_report w of
        None \<Rightarrow> Inl SlcReportError
      | Some report \<Rightarrow>
          Inr (\<lambda>img. case map_of (rev report) img of None \<Rightarrow> [] | Some st \<Rightarrow> st))"

definition customSLCImageAvailable :: "(string \<Rightarrow> string) \<Rightarrow> string \<Rightarrow> bool" where
  "customSLCImageAvailable states img \<longleftrightarrow>
     states img = ''present'' \<or> states img = ''imported'' \<or> states img = ''pulled''"

definition pending_customs :: "(string \<Rightarrow> string) \<Rightarrow> InstalledCustomSLC list \<Rightarrow> nat list" where
  "pending_customs states cs =
     filter (\<lambda>i. customSLCImageAvailable states (cslc_Image (cs ! i)) \<and> \<not> cslc_Activated (cs ! i)) [0..<length cs]"

definition reconcileCustomSLCActivation :: "slc_env \<Rightarrow> slc_world \<Rightarrow> slc_world \<times> slc_error option" where
  "reconcileCustomSLCActivation env w =
     (case read_state w of Inl e \<Rightarrow> (w, Some e) | Inr state \<Rightarrow>
     (case readSLCImageStates w of Inl e \<Rightarrow> (w, Some e) | Inr states \<Rightarrow>
     (let pending = pending_customs states (InstalledCustomSLCs state) in
      if pending = [] then (w, None)
      else case activatePendingCustomSLCs env state pending (sw_languages w) of
        (languages', Inl e) \<Rightarrow> (w\<lparr>sw_languages := languages'\<rparr>, Some e)
      | (languages', Inr state') \<Rightarrow> write_state env state' (w\<lparr>sw_languages := languages'\<rparr>))))"

section \<open>Removal\<close>

definition confirmDeactivated :: "AliasEntry list \<Rightarrow> string \<Rightarrow> string \<Rightarrow> slc_error option" where
  "confirmDeactivated es al restoreURI =
     (if restoreURI \<noteq> [] then
        (if \<not> aliasResolvesTo es al restoreURI then Some (SlcDeactivationIneffective al) else None)
      else case FindAlias es al of Some _ \<Rightarrow> Some (SlcDeactivationIneffective al) | None \<Rightarrow> None)"

definition deactivateCustomSLC :: "slc_env \<Rightarrow> string \<Rightarrow> string \<Rightarrow> string \<Rightarrow> string \<times> slc_error option" where
  "deactivateCustomSLC env al restoreURI languages =
     (case se_connect env of
        Some e \<Rightarrow> (languages, Some (SlcDatabaseError e))
      | None \<Rightarrow>
     (case currentScriptLanguages env languages of
        Inl e \<Rightarrow> (languages, Some e)
      | Inr es \<Rightarrow>
     (let updated = (if restoreURI \<noteq> [] then SetAlias es al restoreURI else RemoveAlias es al) in
      case setScriptLanguages env updated languages of
        Inl e \<Rightarrow> (languages, Some e)
      | Inr languages' \<Rightarrow>
          (case currentScriptLanguages env languages' of
             Inl e \<Rightarrow> (languages', Some e)
           | Inr confirmed \<Rightarrow> (languages', confirmDeactivated confirmed al restoreURI)))))"

record CustomSLCRemoveResult =
  cr_Alias :: string
  cr_Found :: bool
  cr_Changed :: bool

definition deactivate_removed :: "slc_env \<Rightarrow> InstalledCustomSLC \<Rightarrow> string \<Rightarrow> string \<times> slc_error option" where
  "deactivate_removed env removed languages =
     (if \<not> cslc_Activated removed then (languages, None)
      else if \<not> se_running_confirm env then (languages, Some ErrCustomSLCDatabaseNotRunning)
      else deactivateCustomSLC env (cslc_Alias removed) (cslc_DisplacedURI removed) languages)"

definition removeCustomSLCLocked ::
  "slc_env \<Rightarrow> string \<Rightarrow> slc_world \<Rightarrow> slc_world \<times> (slc_error, CustomSLCRemoveResult) result"
where
  "removeCustomSLCLocked env al w =
     (case validateCustomAlias al of Inl e \<Rightarrow> (w, Inl e) | Inr normalized \<Rightarrow>
     (case requireCustomSLCPreconditions env w of Some e \<Rightarrow> (w, Inl e) | None \<Rightarrow>
     (case read_state w of Inl e \<Rightarrow> (w, Inl e) | Inr state \<Rightarrow>
     (case findInstalledCustomSLC (InstalledCustomSLCs state) normalized of
        None \<Rightarrow> (w, Inr \<lparr>cr_Alias = normalized, cr_Found = False, cr_Changed = False\<rparr>)
      | Some idx \<Rightarrow>
     (let removed = InstalledCustomSLCs state ! idx in
         case deactivate_removed env removed (sw_languages w) of
           (languages', Some e) \<Rightarrow> (w\<lparr>sw_languages := languages'\<rparr>, Inl e)
         | (languages', None) \<Rightarrow>
             (case write_state env (state\<lparr>InstalledCustomSLCs := without_index idx (InstalledCustomSLCs state)\<rparr>)
                     (w\<lparr>sw_languages := languages'\<rparr>) of
                (w1, Some e) \<Rightarrow> (w1, Inl e)
              | (w1, None) \<Rightarrow>
                  (removeCustomSLCPackage (cslc_Package removed) w1,
                   Inr \<lparr>cr_Alias = cslc_Alias removed, cr_Found = True, cr_Changed = True\<rparr>)))))))"

definition RemoveCustomSLC ::
  "slc_env \<Rightarrow> string \<Rightarrow> slc_world \<Rightarrow> slc_world \<times> (slc_error, CustomSLCRemoveResult) result"
where
  "RemoveCustomSLC env al w =
     (case se_lock env of Some e \<Rightarrow> (w, Inl (SlcLockError e)) | None \<Rightarrow> removeCustomSLCLocked env al w)"

section \<open>Installation and update\<close>

text \<open>The user's answer depends on what is asked; \<^const>\<open>None\<close> is the nil function, which confirms all.\<close>

datatype custom_prompt = PromptReplaces | PromptOfficialAlias | PromptRestart

type_synonym CustomSLCConfirm = "(custom_prompt \<Rightarrow> string + bool) option"

definition confirmCustom :: "CustomSLCConfirm \<Rightarrow> custom_prompt \<Rightarrow> slc_error option" where
  "confirmCustom confirm prompt =
     (case confirm of
        None \<Rightarrow> None
      | Some ask \<Rightarrow>
          (case ask prompt of
             Inl e \<Rightarrow> Some (SlcConfirmError e)
           | Inr True \<Rightarrow> None
           | Inr False \<Rightarrow> Some ErrSLCOperationCancelled))"

definition confirmCustomRestartIfRunning :: "slc_env \<Rightarrow> bool \<Rightarrow> CustomSLCConfirm \<Rightarrow> slc_error option" where
  "confirmCustomRestartIfRunning env restart confirm =
     (if restart \<and> se_running_confirm env then confirmCustom confirm PromptRestart else None)"

fun officialOwner :: "InstalledSLC list \<Rightarrow> string \<Rightarrow> string" where
  "officialOwner [] al = []"
| "officialOwner (inst # rest) al =
     (if list_ex (\<lambda>declared. NormalizeAlias declared = NormalizeAlias al) (slc_Aliases inst) then slc_Flavor inst
      else officialOwner rest al)"

definition officialAliasNamespace :: "slc_env \<Rightarrow> AliasEntry list \<Rightarrow> string list" where
  "officialAliasNamespace env es =
     BuiltinAliases es @
     (case Load (se_catalog env) of
        Inl _ \<Rightarrow> []
      | Inr catalog \<Rightarrow>
          (case List_entries catalog (se_goarch env) of
             Inl _ \<Rightarrow> []
           | Inr ces \<Rightarrow> map NormalizeAlias (concat (map e_Aliases ces))))"

definition confirmOfficialAliasReuse ::
  "slc_env \<Rightarrow> ExasolPersonalState \<Rightarrow> AliasEntry list \<Rightarrow> string \<Rightarrow> CustomSLCConfirm \<Rightarrow> slc_error option"
where
  "confirmOfficialAliasReuse env state es al confirm =
     (let flavor = officialOwner (InstalledSLCs state) al in
      if flavor \<noteq> [] then Some (SlcOfficialAlias al flavor)
      else if al \<notin> set (officialAliasNamespace env es) then None
      else confirmCustom confirm PromptOfficialAlias)"

definition readScriptLanguages :: "slc_env \<Rightarrow> slc_world \<Rightarrow> (slc_error, AliasEntry list) result" where
  "readScriptLanguages env w =
     (case se_connect env of
        Some e \<Rightarrow> Inl (SlcDatabaseError e)
      | None \<Rightarrow> currentScriptLanguages env (sw_languages w))"

definition confirmCustomSLCInstall ::
  "slc_env \<Rightarrow> slc_world \<Rightarrow> ExasolPersonalState \<Rightarrow> customSLCRequest \<Rightarrow> CustomSLCConfirm \<Rightarrow> (slc_error, bool) result"
where
  "confirmCustomSLCInstall env w state request confirm =
     (if findInstalledCustomSLC (InstalledCustomSLCs state) (rq_alias request) \<noteq> None then
        (case confirmCustom confirm PromptReplaces of Some e \<Rightarrow> Inl e | None \<Rightarrow> Inr True)
      else
       bind_result (if se_running_confirm env then readScriptLanguages env w else Inr []) (\<lambda>es.
         case confirmOfficialAliasReuse env state es (rq_alias request) confirm of
           Some e \<Rightarrow> Inl e | None \<Rightarrow> Inr False))"

record CustomSLCInstallResult =
  ci_Alias :: string
  ci_Language :: string
  ci_AlreadyInstalled :: bool
  ci_Replaced :: bool
  ci_Changed :: bool
  ci_Outcome :: SLCApplyOutcome

definition acquireCustomTarball :: "slc_env \<Rightarrow> string \<Rightarrow> (slc_error, string \<times> tar_source) result" where
  "acquireCustomTarball env source =
     (case se_tarball env source of Inl e \<Rightarrow> Inl (SlcAcquireError e) | Inr t \<Rightarrow> Inr t)"

definition read_tarball_aliases :: "string \<times> tar_source \<Rightarrow> (slc_error, string list) result" where
  "read_tarball_aliases tarball =
     (case ReadAliases (snd tarball) of Inl e \<Rightarrow> Inl (SlcArchiveError e) | Inr als \<Rightarrow> Inr als)"

text \<open>The common end of the two staging functions: the archive's aliases, the conflicts, the record.\<close>

definition check_and_record ::
  "slc_env \<Rightarrow> ExasolPersonalState \<Rightarrow> customSLCRequest \<Rightarrow> string \<times> tar_source \<Rightarrow> nat option \<Rightarrow> slc_world
     \<Rightarrow> slc_world \<times> (slc_error, InstalledCustomSLC) result"
where
  "check_and_record env state request tarball idx w =
     (case read_tarball_aliases tarball of Inl e \<Rightarrow> (w, Inl e) | Inr als \<Rightarrow>
     (case checkCustomSLCAliasConflicts w state (rq_alias request # als) idx of Some e \<Rightarrow> (w, Inl e) | None \<Rightarrow>
       recordCustomSLC env state request tarball als w))"

definition stageCustomSLCInstall ::
  "slc_env \<Rightarrow> CustomSLCInstallOpts \<Rightarrow> bool \<Rightarrow> CustomSLCConfirm \<Rightarrow> slc_world
     \<Rightarrow> slc_world \<times> (slc_error, CustomSLCInstallResult \<times> InstalledCustomSLC option) result"
where
  "stageCustomSLCInstall env opts restart confirm w =
     (case validateCustomSLCOpts env opts of Inl e \<Rightarrow> (w, Inl e) | Inr request \<Rightarrow>
     (case requireCustomSLCPreconditions env w of Some e \<Rightarrow> (w, Inl e) | None \<Rightarrow>
     (case read_state w of Inl e \<Rightarrow> (w, Inl e) | Inr state \<Rightarrow>
     (case confirmCustomSLCInstall env w state request confirm of Inl e \<Rightarrow> (w, Inl e) | Inr replaced \<Rightarrow>
     (case confirmCustomRestartIfRunning env restart confirm of Some e \<Rightarrow> (w, Inl e) | None \<Rightarrow>
     (case acquireCustomTarball env (rq_source request) of Inl e \<Rightarrow> (w, Inl e) | Inr tarball \<Rightarrow>
     (let idx = findInstalledCustomSLC (InstalledCustomSLCs state) (rq_alias request) in
      if (case idx of None \<Rightarrow> False
          | Some i \<Rightarrow> customSLCUnchanged (InstalledCustomSLCs state ! i) (fst tarball) (rq_language request)) then
        (w, Inr (\<lparr>ci_Alias = rq_alias request, ci_Language = [], ci_AlreadyInstalled = True, ci_Replaced = False,
                  ci_Changed = False, ci_Outcome = SLCApplyNone\<rparr>, None))
      else case check_and_record env state request tarball idx w of
        (w1, Inl e) \<Rightarrow> (w1, Inl e)
      | (w1, Inr entry) \<Rightarrow>
          (w1, Inr (\<lparr>ci_Alias = rq_alias request, ci_Language = rq_language request, ci_AlreadyInstalled = False,
                     ci_Replaced = replaced, ci_Changed = True, ci_Outcome = SLCApplyDeferred\<rparr>,
                   if restart then Some entry else None)))))))))"

record CustomSLCUpdateResult =
  cu_Alias :: string
  cu_Found :: bool
  cu_Unchanged :: bool
  cu_Changed :: bool
  cu_Outcome :: SLCApplyOutcome

definition stageCustomSLCUpdate ::
  "slc_env \<Rightarrow> CustomSLCInstallOpts \<Rightarrow> bool \<Rightarrow> CustomSLCConfirm \<Rightarrow> slc_world
     \<Rightarrow> slc_world \<times> (slc_error, CustomSLCUpdateResult \<times> InstalledCustomSLC option) result"
where
  "stageCustomSLCUpdate env opts restart confirm w =
     (case validateCustomAlias (o_Alias opts) of Inl e \<Rightarrow> (w, Inl e) | Inr al \<Rightarrow>
     (case validateCustomSource env (o_Source opts) of Inl e \<Rightarrow> (w, Inl e) | Inr source \<Rightarrow>
     (case requireCustomSLCPreconditions env w of Some e \<Rightarrow> (w, Inl e) | None \<Rightarrow>
     (case read_state w of Inl e \<Rightarrow> (w, Inl e) | Inr state \<Rightarrow>
     (case findInstalledCustomSLC (InstalledCustomSLCs state) al of
        None \<Rightarrow> (w, Inr (\<lparr>cu_Alias = al, cu_Found = False, cu_Unchanged = False, cu_Changed = False,
                          cu_Outcome = SLCApplyNone\<rparr>, None))
      | Some idx \<Rightarrow>
     (let languageInput = (if TrimSpace (o_Language opts) = [] then cslc_Language (InstalledCustomSLCs state ! idx)
                           else o_Language opts) in
      case normalize_language languageInput of Inl e \<Rightarrow> (w, Inl e) | Inr language \<Rightarrow>
     (case confirmCustomRestartIfRunning env restart confirm of Some e \<Rightarrow> (w, Inl e) | None \<Rightarrow>
     (case acquireCustomTarball env source of Inl e \<Rightarrow> (w, Inl e) | Inr tarball \<Rightarrow>
      if customSLCUnchanged (InstalledCustomSLCs state ! idx) (fst tarball) language then
        (w, Inr (\<lparr>cu_Alias = al, cu_Found = True, cu_Unchanged = True, cu_Changed = False,
                  cu_Outcome = SLCApplyNone\<rparr>, None))
      else case check_and_record env state \<lparr>rq_alias = al, rq_language = language, rq_source = source\<rparr>
                  tarball (Some idx) w of
        (w1, Inl e) \<Rightarrow> (w1, Inl e)
      | (w1, Inr entry) \<Rightarrow>
          (w1, Inr (\<lparr>cu_Alias = al, cu_Found = True, cu_Unchanged = False, cu_Changed = True,
                     cu_Outcome = SLCApplyDeferred\<rparr>,
                   if restart then Some entry else None))))))))))"

definition verifyCustomSLCApplied :: "slc_world \<Rightarrow> InstalledCustomSLC \<Rightarrow> slc_error option" where
  "verifyCustomSLCApplied w entry =
     (case read_state w of
        Inl e \<Rightarrow> Some e
      | Inr state \<Rightarrow>
          (case findInstalledCustomSLC (InstalledCustomSLCs state) (cslc_Alias entry) of
             None \<Rightarrow> Some (SlcRemovedMeanwhile (cslc_Alias entry))
           | Some idx \<Rightarrow>
               (let recorded = InstalledCustomSLCs state ! idx in
                if cslc_Sha256 recorded \<noteq> cslc_Sha256 entry \<or> cslc_Language recorded \<noteq> cslc_Language entry
                then Some (SlcReplacedMeanwhile (cslc_Alias entry))
                else if \<not> cslc_Activated recorded then Some (SlcNotActive (cslc_Alias entry))
                else None)))"

definition applyStagedCustomSLC ::
  "slc_env \<Rightarrow> InstalledCustomSLC \<Rightarrow> slc_world \<Rightarrow> slc_world \<times> (slc_error, SLCApplyOutcome) result"
where
  "applyStagedCustomSLC env entry w =
     (case applySLCChange env True w of
        (w1, Inl e) \<Rightarrow> (w1, Inl e)
      | (w1, Inr outcome) \<Rightarrow>
          (case verifyCustomSLCApplied w1 entry of Some e \<Rightarrow> (w1, Inl e) | None \<Rightarrow> (w1, Inr outcome)))"

definition InstallCustomSLC ::
  "slc_env \<Rightarrow> CustomSLCInstallOpts \<Rightarrow> bool \<Rightarrow> CustomSLCConfirm \<Rightarrow> slc_world
     \<Rightarrow> slc_world \<times> (slc_error, CustomSLCInstallResult) result"
where
  "InstallCustomSLC env opts restart confirm w =
     (case se_lock env of Some e \<Rightarrow> (w, Inl (SlcLockError e)) | None \<Rightarrow>
     (case stageCustomSLCInstall env opts restart confirm w of
        (w1, Inl e) \<Rightarrow> (w1, Inl e)
      | (w1, Inr (result, None)) \<Rightarrow> (w1, Inr result)
      | (w1, Inr (result, Some entry)) \<Rightarrow>
          (case applyStagedCustomSLC env entry w1 of
             (w2, Inl e) \<Rightarrow> (w2, Inl e)
           | (w2, Inr outcome) \<Rightarrow> (w2, Inr (result\<lparr>ci_Outcome := outcome\<rparr>)))))"

definition UpdateCustomSLC ::
  "slc_env \<Rightarrow> CustomSLCInstallOpts \<Rightarrow> bool \<Rightarrow> CustomSLCConfirm \<Rightarrow> slc_world
     \<Rightarrow> slc_world \<times> (slc_error, CustomSLCUpdateResult) result"
where
  "UpdateCustomSLC env opts restart confirm w =
     (case se_lock env of Some e \<Rightarrow> (w, Inl (SlcLockError e)) | None \<Rightarrow>
     (case stageCustomSLCUpdate env opts restart confirm w of
        (w1, Inl e) \<Rightarrow> (w1, Inl e)
      | (w1, Inr (result, None)) \<Rightarrow> (w1, Inr result)
      | (w1, Inr (result, Some entry)) \<Rightarrow>
          (case applyStagedCustomSLC env entry w1 of
             (w2, Inl e) \<Rightarrow> (w2, Inl e)
           | (w2, Inr outcome) \<Rightarrow> (w2, Inr (result\<lparr>cu_Outcome := outcome\<rparr>)))))"

section \<open>The records are a keyed store\<close>

lemma find_index_Some:
  "find_index P xs = Some i \<Longrightarrow> i < length xs \<and> P (xs ! i) \<and> (\<forall>j < i. \<not> P (xs ! j))"
  by (induction xs arbitrary: i) (auto simp: less_Suc_eq_0_disj split: if_splits)

lemma find_index_None: "find_index P xs = None \<longleftrightarrow> (\<forall>x \<in> set xs. \<not> P x)"
  by (induction xs) auto

definition custom_key :: "InstalledCustomSLC \<Rightarrow> string" where
  "custom_key c = NormalizeAlias (cslc_Alias c)"

definition distinct_customs :: "InstalledCustomSLC list \<Rightarrow> bool" where
  "distinct_customs cs \<longleftrightarrow> distinct (map custom_key cs)"

definition find_custom :: "InstalledCustomSLC list \<Rightarrow> string \<Rightarrow> InstalledCustomSLC option" where
  "find_custom cs al = map_option ((!) cs) (findInstalledCustomSLC cs al)"

definition remove_custom :: "InstalledCustomSLC list \<Rightarrow> string \<Rightarrow> InstalledCustomSLC list" where
  "remove_custom cs al =
     (case findInstalledCustomSLC cs al of None \<Rightarrow> cs | Some i \<Rightarrow> without_index i cs)"

text \<open>With distinct keys a list is the map from keys to records; the three operations are those of it.\<close>

definition custom_map :: "InstalledCustomSLC list \<Rightarrow> string \<Rightarrow> InstalledCustomSLC option" where
  "custom_map cs = map_of (map (\<lambda>c. (custom_key c, c)) cs)"

lemma find_custom_map: "find_custom cs al = custom_map cs (NormalizeAlias al)"
  unfolding find_custom_def findInstalledCustomSLC_def custom_map_def Let_def
  by (induction cs) (auto simp: custom_key_def option.map_comp comp_def)

lemma custom_map_distinct:
  "distinct_customs cs \<Longrightarrow> custom_map cs k = Some c \<longleftrightarrow> c \<in> set cs \<and> custom_key c = k"
  unfolding custom_map_def distinct_customs_def
  by (subst map_of_eq_Some_iff) (auto simp: comp_def)

lemma custom_map_eqI:
  assumes "distinct_customs cs" and "\<And>c. c \<in> set cs \<and> custom_key c = k \<longleftrightarrow> r = Some c"
  shows "custom_map cs k = r"
  using custom_map_distinct [OF assms(1), of k] assms(2) by (metis not_Some_eq)

lemma distinct_pairs: "distinct (map f xs) \<longleftrightarrow> sorted_wrt (\<lambda>x y. f x \<noteq> f y) xs"
  by (induction xs) auto

lemma distinct_sort_key: "distinct (map f (sort_key g xs)) \<longleftrightarrow> distinct (map f xs)"
  unfolding distinct_pairs by (rule sorted_wrt_sort_key) auto

lemma distinct_upsert: "distinct_customs cs \<Longrightarrow> distinct_customs (upsertInstalledCustomSLC cs c)"
  unfolding distinct_customs_def upsertInstalledCustomSLC_def distinct_sort_key
  by (auto simp: distinct_map custom_key_def inj_on_def)

lemma set_upsertInstalledCustomSLC:
  "set (upsertInstalledCustomSLC cs c) = {d \<in> set cs. custom_key d \<noteq> custom_key c} \<union> {c}"
  by (auto simp: upsertInstalledCustomSLC_def custom_key_def)

lemma set_without_index_distinct:
  "distinct (map f xs) \<Longrightarrow> i < length xs \<Longrightarrow> set (without_index i xs) = {x \<in> set xs. f x \<noteq> f (xs ! i)}"
proof (induction xs arbitrary: i)
  case (Cons x xs)
  show ?case
  proof (cases i)
    case 0
    have "\<forall>y \<in> set xs. f y \<noteq> f x" using Cons.prems(1) by (metis distinct.simps(2) image_eqI image_set list.map(2))
    with 0 show ?thesis by auto
  next
    case (Suc j)
    then have "f x \<noteq> f (xs ! j)" using Cons.prems by auto
    with Suc Cons show ?thesis by auto
  qed
qed simp

lemma remove_custom_props:
  assumes "distinct_customs cs"
  shows "distinct_customs (remove_custom cs al)"
    and "set (remove_custom cs al) = {c \<in> set cs. custom_key c \<noteq> NormalizeAlias al}"
proof -
  show "distinct_customs (remove_custom cs al)"
    using assms sorted_wrt_without_index [of _ cs]
    by (auto simp: distinct_customs_def distinct_pairs remove_custom_def split: option.split)
  show "set (remove_custom cs al) = {c \<in> set cs. custom_key c \<noteq> NormalizeAlias al}"
  proof (cases "findInstalledCustomSLC cs al")
    case None
    then have "\<forall>c \<in> set cs. custom_key c \<noteq> NormalizeAlias al"
      by (simp add: findInstalledCustomSLC_def find_index_None custom_key_def)
    with None show ?thesis by (auto simp: remove_custom_def)
  next
    case (Some i)
    then have "i < length cs" "custom_key (cs ! i) = NormalizeAlias al"
      by (auto simp: findInstalledCustomSLC_def custom_key_def dest: find_index_Some)
    with Some set_without_index_distinct [of custom_key cs i] assms show ?thesis
      by (simp add: remove_custom_def distinct_customs_def)
  qed
qed

interpretation cs: keyed_store NormalizeAlias find_custom "\<lambda>m al c. upsertInstalledCustomSLC m c" remove_custom
  distinct_customs "\<lambda>al c. custom_key c = NormalizeAlias al"
proof unfold_locales
  fix m al c k'
  assume m: "distinct_customs m" and ok: "custom_key c = NormalizeAlias al"
  note up = custom_map_eqI [OF distinct_upsert [OF m], of c "NormalizeAlias k'"]
  show "find_custom (upsertInstalledCustomSLC m c) k'
      = (if NormalizeAlias k' = NormalizeAlias al then Some c else find_custom m k')"
    unfolding find_custom_map
    by (rule up) (auto simp: custom_map_distinct [OF m] set_upsertInstalledCustomSLC ok)
next
  fix m al k'
  assume m: "distinct_customs m"
  show "find_custom (remove_custom m al) k' = (if NormalizeAlias k' = NormalizeAlias al then None else find_custom m k')"
    unfolding find_custom_map
    by (rule custom_map_eqI [OF remove_custom_props(1) [OF m]])
      (auto simp: custom_map_distinct [OF m] remove_custom_props(2) [OF m])
qed (simp_all add: distinct_upsert remove_custom_props find_custom_map)

section \<open>Custom operations keep aliases apart\<close>

lemma custom_inv_distinct: "custom_inv cs \<Longrightarrow> distinct_customs cs"
  unfolding custom_inv_def distinct_customs_def distinct_pairs
  by (erule sorted_wrt_mono_rel [rotated]) (simp add: norm_apart_def recorded_aliases_def custom_key_def)

lemma checkCustomSLCAliasConflicts_None:
  assumes "checkCustomSLCAliasConflicts w s cand ex = None"
  shows "\<forall>x \<in> set (InstalledSLCs s). norm_apart cand (slc_Aliases x)"
    and "\<forall>i < length (InstalledCustomSLCs s). Some i \<noteq> ex \<longrightarrow>
      norm_apart cand (recorded_aliases (InstalledCustomSLCs s ! i))"
proof -
  obtain ps where ps: "customSLCProviders w (InstalledCustomSLCs s) ex = Inr ps"
    and none: "findSLCAliasConflict cand (officialSLCAliasProviders (InstalledSLCs s) @ ps) = None"
    using assms
    by (auto simp: checkCustomSLCAliasConflicts_def checkSLCAliasConflicts_def split: sum.splits option.splits)
  from none have both: "\<forall>p \<in> set (officialSLCAliasProviders (InstalledSLCs s)). norm_apart cand (p_Aliases p)"
    "findSLCAliasConflict cand ps = None" by (auto simp: findSLCAliasConflict_None)
  then show "\<forall>x \<in> set (InstalledSLCs s). norm_apart cand (slc_Aliases x)"
    by (auto simp: officialSLCAliasProviders_def)
  show "\<forall>i < length (InstalledCustomSLCs s). Some i \<noteq> ex \<longrightarrow>
      norm_apart cand (recorded_aliases (InstalledCustomSLCs s ! i))"
    using no_conflict_with_customs [OF ps both(2)] by blast
qed

lemma alias_inv_upsert_custom:
  assumes s: "alias_inv s" and ex: "ex = findInstalledCustomSLC (InstalledCustomSLCs s) (cslc_Alias c)"
    and ok: "checkCustomSLCAliasConflicts w s (recorded_aliases c) ex = None"
  shows "alias_inv (s\<lparr>InstalledCustomSLCs := upsertInstalledCustomSLC (InstalledCustomSLCs s) c\<rparr>)"
proof -
  let ?cs = "InstalledCustomSLCs s"
  let ?ys = "filter (\<lambda>i. NormalizeAlias (cslc_Alias i) \<noteq> NormalizeAlias (cslc_Alias c)) ?cs"
  let ?P = "\<lambda>c d. norm_apart (recorded_aliases c) (recorded_aliases d)"
  note apart = checkCustomSLCAliasConflicts_None [OF ok]
  have others: "?P d c" if "d \<in> set ?ys" for d
  proof -
    from that obtain i where i: "i < length ?cs" "d = ?cs ! i" by (auto simp: in_set_conv_nth)
    have "Some i \<noteq> ex"
    proof
      assume "Some i = ex"
      then have "NormalizeAlias (cslc_Alias (?cs ! i)) = NormalizeAlias (cslc_Alias c)"
        using ex find_index_Some [of _ ?cs i] by (fastforce simp: findInstalledCustomSLC_def Let_def)
      with that i show False by simp
    qed
    then show ?thesis using apart(2) i norm_apart_sym by blast
  qed
  have "sorted_wrt ?P (?ys @ [c])"
    using s others by (auto simp: sorted_wrt_append alias_inv_def custom_inv_def intro: sorted_wrt_filter)
  moreover have "\<And>x y. ?P x y \<longleftrightarrow> ?P y x" by (rule norm_apart_sym)
  ultimately have "custom_inv (upsertInstalledCustomSLC ?cs c)"
    unfolding custom_inv_def upsertInstalledCustomSLC_def by (simp only: sorted_wrt_sort_key)
  moreover have "cross_inv (InstalledSLCs s) (upsertInstalledCustomSLC ?cs c)"
    using s apart(1) by (auto simp: cross_inv_def alias_inv_def set_upsertInstalledCustomSLC norm_apart_sym)
  ultimately show ?thesis using s by (simp add: alias_inv_def)
qed

lemma world_inv_file: "sw_file w' = sw_file w \<Longrightarrow> world_inv w' \<longleftrightarrow> world_inv w"
  by (simp add: world_inv_def)

lemma sw_file_removeCustomSLCPackage [simp]: "sw_file (removeCustomSLCPackage n w) = sw_file w"
  by (simp add: removeCustomSLCPackage_def)

lemma recordCustomSLC_inv:
  assumes "world_inv w" and "alias_inv s"
    and "checkCustomSLCAliasConflicts w s (rq_alias request # als)
      (findInstalledCustomSLC (InstalledCustomSLCs s) (rq_alias request)) = None"
  shows "world_inv (fst (recordCustomSLC env s request tarball als w))"
proof -
  define entry where "entry = new_custom_entry s request (fst tarball) als"
  have inv: "alias_inv (s\<lparr>InstalledCustomSLCs := upsertInstalledCustomSLC (InstalledCustomSLCs s) entry\<rparr>)"
    using assms(2,3) by (intro alias_inv_upsert_custom) (simp_all add: recorded_aliases_def entry_def new_custom_entry_def)
  show ?thesis
  proof (cases "promoteCustomSLCPackage env (snd tarball) (cslc_Package entry) w")
    case (Inr w1)
    have w1: "world_inv w1"
      using assms(1) Inr by (auto simp: promoteCustomSLCPackage_def world_inv_def split: option.splits)
    obtain w2 err where wr: "write_state env
        (s\<lparr>InstalledCustomSLCs := upsertInstalledCustomSLC (InstalledCustomSLCs s) entry\<rparr>) w1 = (w2, err)"
      by fastforce
    have "world_inv w2" using write_state_inv [OF wr w1 inv] .
    then have "world_inv (removeCustomSLCPackage n w2)" for n by (simp add: world_inv_def)
    then show ?thesis
      using \<open>world_inv w2\<close> Inr wr
      by (simp add: recordCustomSLC_def Let_def entry_def [symmetric] split: option.split)
  qed (use assms(1) in \<open>simp add: recordCustomSLC_def Let_def entry_def [symmetric]\<close>)
qed

lemma check_and_record_inv:
  assumes "world_inv w" and "alias_inv s"
    and "idx = findInstalledCustomSLC (InstalledCustomSLCs s) (rq_alias request)"
  shows "world_inv (fst (check_and_record env s request tarball idx w))"
  using assms recordCustomSLC_inv
  by (auto simp: check_and_record_def split: sum.split option.split)

lemma stageCustomSLCInstall_inv:
  assumes "world_inv w"
  shows "world_inv (fst (stageCustomSLCInstall env opts restart confirm w))"
proof -
  have step: "world_inv w1"
    if "read_state w = Inr s" and "findInstalledCustomSLC (InstalledCustomSLCs s) (rq_alias request) = idx"
      and "check_and_record env s request tarball idx w = (w1, r)" for s request tarball idx w1 r
    using check_and_record_inv [OF assms read_state_inv [OF that(1) assms], of idx request env tarball] that(2,3)
    by simp
  show ?thesis
    using assms
    by (auto simp: stageCustomSLCInstall_def Let_def split: sum.split option.split prod.split dest: step)
qed

lemma stageCustomSLCUpdate_inv:
  assumes "world_inv w"
  shows "world_inv (fst (stageCustomSLCUpdate env opts restart confirm w))"
proof -
  have step: "world_inv w1"
    if "read_state w = Inr s" and "findInstalledCustomSLC (InstalledCustomSLCs s) al = Some i"
      and "check_and_record env s \<lparr>rq_alias = al, rq_language = l, rq_source = src\<rparr> tarball (Some i) w = (w1, r)"
    for s al i l src tarball w1 r
    using check_and_record_inv [OF assms read_state_inv [OF that(1) assms],
        of "Some i" "\<lparr>rq_alias = al, rq_language = l, rq_source = src\<rparr>" env tarball] that(2,3) by simp
  show ?thesis
    using assms
    by (auto simp: stageCustomSLCUpdate_def Let_def split: sum.split option.split prod.split dest: step)
qed

lemma applyStagedCustomSLC_inv:
  assumes "restart_keeps world_inv env" and "world_inv w"
  shows "world_inv (fst (applyStagedCustomSLC env c w))"
  using applySLCChange_keeps [OF assms, of True]
  by (auto simp: applyStagedCustomSLC_def split: prod.split sum.split option.split)

lemma InstallCustomSLC_inv:
  assumes "restart_keeps world_inv env" and "world_inv w"
  shows "world_inv (fst (InstallCustomSLC env opts restart confirm w))"
proof (cases "stageCustomSLCInstall env opts restart confirm w")
  case (Pair w1 r)
  with stageCustomSLCInstall_inv [OF assms(2), of env opts restart confirm] have w1: "world_inv w1" by simp
  have "world_inv w2" if "applyStagedCustomSLC env c w1 = (w2, r')" for c w2 r'
    using applyStagedCustomSLC_inv [OF assms(1) w1, of c] that by simp
  then show ?thesis
    using assms(2) Pair w1 by (auto simp: InstallCustomSLC_def split: sum.split option.split prod.split)
qed

lemma UpdateCustomSLC_inv:
  assumes "restart_keeps world_inv env" and "world_inv w"
  shows "world_inv (fst (UpdateCustomSLC env opts restart confirm w))"
proof (cases "stageCustomSLCUpdate env opts restart confirm w")
  case (Pair w1 r)
  with stageCustomSLCUpdate_inv [OF assms(2), of env opts restart confirm] have w1: "world_inv w1" by simp
  have "world_inv w2" if "applyStagedCustomSLC env c w1 = (w2, r')" for c w2 r'
    using applyStagedCustomSLC_inv [OF assms(1) w1, of c] that by simp
  then show ?thesis
    using assms(2) Pair w1 by (auto simp: UpdateCustomSLC_def split: sum.split option.split prod.split)
qed

lemma custom_inv_map: "custom_inv cs \<longleftrightarrow> sorted_wrt norm_apart (map recorded_aliases cs)"
  by (simp add: custom_inv_def sorted_wrt_map)

lemma cross_inv_map: "cross_inv xs cs \<longleftrightarrow> (\<forall>x \<in> set xs. \<forall>a \<in> set (map recorded_aliases cs). norm_apart (slc_Aliases x) a)"
  by (simp add: cross_inv_def)

lemma alias_inv_same_aliases:
  assumes "alias_inv s" and "map recorded_aliases cs = map recorded_aliases (InstalledCustomSLCs s)"
  shows "alias_inv (s\<lparr>InstalledCustomSLCs := cs\<rparr>)"
  using assms by (simp add: alias_inv_def custom_inv_map cross_inv_map)

lemma alias_inv_without_custom:
  assumes "alias_inv s"
  shows "alias_inv (s\<lparr>InstalledCustomSLCs := without_index i (InstalledCustomSLCs s)\<rparr>)"
  using assms set_without_index [of i "InstalledCustomSLCs s"]
  by (auto simp: alias_inv_def custom_inv_def cross_inv_def intro: sorted_wrt_without_index)

lemma activate_loop_aliases:
  "map recorded_aliases (snd (activate_loop pending es cs)) = map recorded_aliases cs"
proof (induction pending es cs rule: activate_loop.induct)
  case (2 idx pending es cs)
  have "map recorded_aliases (cs[idx := (cs ! idx)\<lparr>cslc_DisplacedURI := d, cslc_Activated := True\<rparr>])
      = map recorded_aliases cs" for d
    by (cases "idx < length cs")
      (simp_all add: map_update recorded_aliases_def list_update_same_conv list_update_beyond)
  then show ?case by (simp add: Let_def 2)
qed simp

lemma activatePending_state:
  assumes "activatePendingCustomSLCs env s pending l = (l', Inr s')"
  shows "\<exists>es es' cs'. se_connect env = None \<and> currentScriptLanguages env l = Inr es
    \<and> activate_loop pending es (InstalledCustomSLCs s) = (es', cs')
    \<and> applyScriptLanguages env es' cs' pending l = (l', None) \<and> s' = s\<lparr>InstalledCustomSLCs := cs'\<rparr>"
  using assms by (auto simp: activatePendingCustomSLCs_def split: option.splits sum.splits prod.splits)

lemma reconcile_inv:
  assumes "world_inv w"
  shows "world_inv (fst (reconcileCustomSLCActivation env w))"
proof -
  have lang: "world_inv (w\<lparr>sw_languages := l'\<rparr>)" for l' using assms by (simp add: world_inv_def)
  have step: "world_inv w1"
    if s: "read_state w = Inr s" and act: "activatePendingCustomSLCs env s pending l = (l', Inr s')"
      and wr: "write_state env s' (w\<lparr>sw_languages := l'\<rparr>) = (w1, e)" for s pending l l' s' w1 e
  proof -
    from activatePending_state [OF act] obtain es es' cs'
      where loop: "activate_loop pending es (InstalledCustomSLCs s) = (es', cs')"
        and s': "s' = s\<lparr>InstalledCustomSLCs := cs'\<rparr>" by blast
    have "map recorded_aliases cs' = map recorded_aliases (InstalledCustomSLCs s)"
      using activate_loop_aliases [of pending es "InstalledCustomSLCs s"] by (simp add: loop)
    then have "alias_inv s'"
      unfolding s' by (rule alias_inv_same_aliases [OF read_state_inv [OF s assms]])
    then show ?thesis by (rule write_state_inv [OF wr lang])
  qed
  have fst_step: "world_inv (fst (write_state env s' (w\<lparr>sw_languages := l'\<rparr>)))"
    if "read_state w = Inr s" and "activatePendingCustomSLCs env s pending l = (l', Inr s')" for s pending l l' s'
    by (rule step [OF that prod.collapse [symmetric]])
  show ?thesis
    unfolding reconcileCustomSLCActivation_def Let_def
    by (auto simp only: split: sum.split prod.split if_split)
      (use assms lang fst_step in simp_all)
qed

lemma RemoveCustomSLC_inv:
  assumes "world_inv w"
  shows "world_inv (fst (RemoveCustomSLC env al w))"
proof -
  have lang: "world_inv (w\<lparr>sw_languages := l'\<rparr>)" for l' using assms by (simp add: world_inv_def)
  have step: "world_inv w1 \<and> world_inv (removeCustomSLCPackage n w1)"
    if "read_state w = Inr s" and "write_state env
      (s\<lparr>InstalledCustomSLCs := without_index i (InstalledCustomSLCs s)\<rparr>) (w\<lparr>sw_languages := l'\<rparr>) = (w1, e)"
    for s i l' w1 e n
    using write_state_inv [OF that(2) lang alias_inv_without_custom [OF read_state_inv [OF that(1) assms]]]
    by (simp add: world_inv_def)
  show ?thesis
    using assms lang
    by (auto simp: RemoveCustomSLC_def removeCustomSLCLocked_def Let_def
        split: sum.split option.split prod.split dest: step)
qed

text \<open>The custom container operations keep the same rule: after an installation, an update, a removal
  or the activation that follows a start, whatever fails on the way, no alias in the recorded state
  is declared by two providers.\<close>

theorem custom_operations_keep_aliases_apart:
  assumes "restart_keeps world_inv env" and "world_inv w"
  shows "world_inv (fst (InstallCustomSLC env opts restart confirm w))
    \<and> world_inv (fst (UpdateCustomSLC env opts restart confirm w))
    \<and> world_inv (fst (RemoveCustomSLC env al w))
    \<and> world_inv (fst (reconcileCustomSLCActivation env w))"
  using assms InstallCustomSLC_inv UpdateCustomSLC_inv RemoveCustomSLC_inv reconcile_inv by blast

definition custom_alias_list :: "slc_world \<Rightarrow> string list list" where
  "custom_alias_list w =
     (case sw_file w of StoredState s \<Rightarrow> map recorded_aliases (InstalledCustomSLCs s) | _ \<Rightarrow> [])"

definition sample_custom_opts :: CustomSLCInstallOpts where
  "sample_custom_opts = \<lparr>o_Alias = ''my_py'', o_Language = ''Python'', o_Source = ''/tmp/slc.tar.gz''\<rparr>"

theorem custom_operations_keep_aliases_apart_witness:
  "world_inv (fst (InstallCustomSLC sample_slc_env sample_custom_opts False None sample_slc_world))
    \<and> custom_alias_list (fst (InstallCustomSLC sample_slc_env sample_custom_opts False None sample_slc_world))
        = [[''MY_PY'', ''PY'', ''R'']]"
proof -
  have "custom_alias_list (fst (InstallCustomSLC sample_slc_env sample_custom_opts False None sample_slc_world))
        = [[''MY_PY'', ''PY'', ''R'']]"
    by code_simp
  then show ?thesis
    using custom_operations_keep_aliases_apart [OF sample_slc_env_ok(1) sample_slc_world_inv,
        of sample_custom_opts False None] by simp
qed

section \<open>Activation and removal in the database\<close>

lemma activate_loop_length [simp]: "length (snd (activate_loop pending es cs)) = length cs"
  using arg_cong [OF activate_loop_aliases [of pending es cs], of length] by simp

text \<open>What the activation records as displaced: the built-in URI the alias had, if none was recorded.\<close>

definition displaced_by :: "InstalledCustomSLC \<Rightarrow> string option \<Rightarrow> string" where
  "displaced_by c before =
     (case before of Some u \<Rightarrow> if IsBuiltinURI u \<and> cslc_DisplacedURI c = [] then u else cslc_DisplacedURI c
      | None \<Rightarrow> cslc_DisplacedURI c)"

definition activated :: "InstalledCustomSLC \<Rightarrow> string option \<Rightarrow> InstalledCustomSLC" where
  "activated c before = c\<lparr>cslc_DisplacedURI := displaced_by c before, cslc_Activated := True\<rparr>"

lemma activate_loop_step:
  "activate_loop (idx # pending) es cs =
     activate_loop pending (SetAlias es (cslc_Alias (cs ! idx)) (activation_uri (cs ! idx)))
       (cs[idx := activated (cs ! idx) (find_uri es (cslc_Alias (cs ! idx)))])"
  by (simp add: Let_def activated_def displaced_by_def find_uri_def split: option.split)

declare activate_loop.simps(2) [simp del]

lemma activated_simps [simp]:
  "cslc_Alias (activated c b) = cslc_Alias c" "cslc_Language (activated c b) = cslc_Language c"
  "activation_uri (activated c b) = activation_uri c" "custom_key (activated c b) = custom_key c"
  "cslc_Activated (activated c b)" "cslc_DisplacedURI (activated c b) = displaced_by c b"
  by (simp_all add: activated_def activation_uri_def custom_key_def)

lemma activate_loop_other:
  "i \<notin> set pending \<Longrightarrow> snd (activate_loop pending es cs) ! i = cs ! i"
  by (induction pending arbitrary: es cs) (auto simp: activate_loop_step)

lemma activate_loop_activated:
  "i \<in> set pending \<Longrightarrow> i < length cs \<Longrightarrow> cslc_Activated (snd (activate_loop pending es cs) ! i)"
proof (induction pending arbitrary: es cs)
  case (Cons idx pending)
  then show ?case
    by (cases "i \<in> set pending") (auto simp: activate_loop_step activate_loop_other)
qed simp

lemma activate_loop_table:
  assumes "\<forall>i \<in> set pending. i < length cs"
  shows "fst (activate_loop pending es cs)
    = sl.put_all (map (\<lambda>i. (cslc_Alias (cs ! i), activation_uri (cs ! i))) pending) es"
  using assms
proof (induction pending arbitrary: es cs)
  case (Cons idx pending)
  let ?cs = "cs[idx := activated (cs ! idx) (find_uri es (cslc_Alias (cs ! idx)))]"
  let ?es = "SetAlias es (cslc_Alias (cs ! idx)) (activation_uri (cs ! idx))"
  have eq: "map (\<lambda>i. (cslc_Alias (?cs ! i), activation_uri (?cs ! i))) pending
      = map (\<lambda>i. (cslc_Alias (cs ! i), activation_uri (cs ! i))) pending"
    using Cons.prems by (auto simp: nth_list_update)
  have "fst (activate_loop pending ?es ?cs)
      = sl.put_all (map (\<lambda>i. (cslc_Alias (?cs ! i), activation_uri (?cs ! i))) pending) ?es"
    by (rule Cons.IH) (use Cons.prems in simp)
  then show ?case by (simp only: eq activate_loop_step) (simp add: sl.put_all_def)
qed (simp add: sl.put_all_def)

lemma activate_loop_records:
  assumes "distinct pending" and "\<forall>i \<in> set pending. i < length cs" and "distinct_customs cs" and "i \<in> set pending"
  shows "snd (activate_loop pending es cs) ! i = activated (cs ! i) (find_uri es (cslc_Alias (cs ! i)))"
  using assms
proof (induction pending arbitrary: es cs)
  case (Cons idx pending)
  let ?cs = "cs[idx := activated (cs ! idx) (find_uri es (cslc_Alias (cs ! idx)))]"
  show ?case
  proof (cases "i = idx")
    case True
    then show ?thesis using Cons.prems by (simp add: activate_loop_step activate_loop_other)
  next
    case False
    have "map custom_key ?cs = map custom_key cs"
      using Cons.prems(2) by (simp add: map_update list_update_same_conv)
    then have "distinct_customs ?cs" using Cons.prems(3) by (simp add: distinct_customs_def)
    moreover have "NormalizeAlias (cslc_Alias (cs ! i)) \<noteq> NormalizeAlias (cslc_Alias (cs ! idx))"
      using Cons.prems False by (auto simp: distinct_customs_def distinct_conv_nth custom_key_def)
    ultimately show ?thesis
      using Cons.IH [of ?cs] Cons.prems False by (simp add: activate_loop_step find_uri_SetAlias)
  qed
qed simp


definition sample_custom :: InstalledCustomSLC where
  "sample_custom = \<lparr>cslc_Alias = ''PYTHON'', cslc_PackageAliases = [], cslc_Language = ''python'',
     cslc_Image = ''img'', cslc_Target = ''t'', cslc_Package = [], cslc_Sha256 = ''00'', cslc_Source = ''s'',
     cslc_Activated = False, cslc_DisplacedURI = []\<rparr>"

definition sample_pending_world :: slc_world where
  "sample_pending_world = sample_slc_world\<lparr>
     sw_file := StoredState (sample_state\<lparr>InstalledCustomSLCs := [sample_custom]\<rparr>),
     sw_report := Some [(''img'', ''imported'')]\<rparr>"

lemma sample_pending:
  "read_state sample_pending_world = Inr (sample_state\<lparr>InstalledCustomSLCs := [sample_custom]\<rparr>)"
  "readSLCImageStates sample_pending_world = Inr (\<lambda>img. if img = ''img'' then ''imported'' else [])"
  "pending_customs (\<lambda>img. if img = ''img'' then ''imported'' else []) [sample_custom] = [0]"
  by (simp_all add: read_state_def ReadExasolPersonalState_def sample_pending_world_def sample_slc_world_def
      readSLCImageStates_def fun_eq_iff pending_customs_def customSLCImageAvailable_def sample_custom_def)


text \<open>A database that does what it is told and reports it.\<close>

definition faithful_database :: "slc_env \<Rightarrow> bool" where
  "faithful_database env \<longleftrightarrow> se_connect env = None \<and> (\<forall>v. se_query env v = Inr (Some v))
     \<and> (\<forall>v old. se_alter env v old = Inr v)"

definition plain_char :: "char \<Rightarrow> bool" where
  "plain_char x \<longleftrightarrow> \<not> is_space x \<and> x \<noteq> CHR ''='' \<and> x \<noteq> CHR 0x27"

definition custom_ok :: "InstalledCustomSLC \<Rightarrow> bool" where
  "custom_ok c \<longleftrightarrow> customAliasPattern (cslc_Alias c) \<and> languageIdentifierPattern (cslc_Language c)"

definition safe_entry :: "AliasEntry \<Rightarrow> bool" where
  "safe_entry e \<longleftrightarrow> wf_entry e \<and> CHR 0x27 \<notin> set (Alias e) \<and> CHR 0x27 \<notin> set (URI e)"

lemma plain_class: "is_letter x \<or> is_digit x \<or> x = CHR ''_'' \<Longrightarrow> plain_char x"
  by (auto simp: plain_char_def is_space_code is_letter_def is_upper_def is_lower_def is_digit_def)

lemma plain_lower: "plain_char x \<Longrightarrow> plain_char (lower_char x)"
proof -
  have "is_upper x \<Longrightarrow> is_lower (lower_char x)"
    by (simp add: is_upper_def is_lower_def lower_char_def)
  then show "plain_char x \<Longrightarrow> plain_char (lower_char x)"
    using plain_class [of "lower_char x"] by (cases "is_upper x") (auto simp: is_letter_def lower_char_def)
qed

lemma plain_upper: "plain_char x \<Longrightarrow> plain_char (upper_char x)"
proof -
  have "is_lower x \<Longrightarrow> is_upper (upper_char x)"
    by (auto simp: is_upper_def is_lower_def upper_char_def)
  then show "plain_char x \<Longrightarrow> plain_char (upper_char x)"
    using plain_class [of "upper_char x"] by (cases "is_lower x") (auto simp: is_letter_def upper_char_def)
qed

lemma custom_ok_chars:
  assumes "custom_ok c"
  shows "\<forall>x \<in> set (cslc_Alias c). plain_char x" and "\<forall>x \<in> set (cslc_Language c). plain_char x"
proof -
  show "\<forall>x \<in> set (cslc_Alias c). plain_char x"
    using assms plain_class
    by (auto simp: custom_ok_def customAliasPattern_def list_all_iff split: list.splits)
  have "plain_char CHR ''.''" "plain_char CHR ''-''" "plain_char CHR ''_''" by (simp_all add: plain_char_def is_space_def)
  then show "\<forall>x \<in> set (cslc_Language c). plain_char x"
    using assms plain_class
    by (auto simp: custom_ok_def languageIdentifierPattern_def list_all_iff is_letter_def split: list.splits)
qed

lemma custom_ok_activation:
  assumes "custom_ok c"
  shows "wf_alias (NormalizeAlias (cslc_Alias c))" and "CHR 0x27 \<notin> set (NormalizeAlias (cslc_Alias c))"
    and "no_spaces (activation_uri c)" and "CHR 0x27 \<notin> set (activation_uri c)"
proof -
  note plain = custom_ok_chars [OF assms]
  show "wf_alias (NormalizeAlias (cslc_Alias c))"
    using plain(1) by (intro wf_alias_NormalizeAlias) (auto simp: plain_char_def)
  have "\<forall>x \<in> set (NormalizeAlias (cslc_Alias c)). plain_char x"
    using plain(1) plain_upper set_TrimSpace [of "cslc_Alias c"] by (auto simp: NormalizeAlias_def ToUpper_def)
  then show "CHR 0x27 \<notin> set (NormalizeAlias (cslc_Alias c))" by (auto simp: plain_char_def)
  have low: "\<forall>x \<in> set (ToLower (cslc_Alias c)). plain_char x" using plain(1) plain_lower by (auto simp: ToLower_def)
  show "no_spaces (activation_uri c)" and "CHR 0x27 \<notin> set (activation_uri c)"
    using low plain(2)
    by (auto simp: no_spaces_def activation_uri_def BuildActivationURI_def builtinBucketPath_def clientRelPath_def
        customSLCDir_def customSLCDirPrefix_def plain_char_def is_space_def)
qed

lemma set_Join: "set (Join xs sep) \<subseteq> (\<Union>x \<in> set xs. set x) \<union> set sep"
  by (induction xs sep rule: Join.induct) auto

lemma Serialize_no_quote: "list_all safe_entry es \<Longrightarrow> CHR 0x27 \<notin> set (SerializeScriptLanguages es)"
  using set_Join [of "map (\<lambda>e. Alias e @ ''='' @ URI e) es" "'' ''"]
  by (fastforce simp: SerializeScriptLanguages_def list_all_iff safe_entry_def)

lemma Fields_acc_subset: "f \<in> set (Fields_acc w v) \<Longrightarrow> set f \<subseteq> set w \<union> set v"
  by (induction w v rule: Fields_acc.induct) (auto split: if_splits)

lemma upper_char_quote: "upper_char c = CHR 0x27 \<longleftrightarrow> c = CHR 0x27"
proof -
  have "(of_char (upper_char c) :: nat) = of_char CHR 0x27 \<longleftrightarrow> (of_char c :: nat) = of_char CHR 0x27"
    by (auto simp: upper_char_def is_lower_def)
  then show ?thesis by (metis char_of_char)
qed

lemma parse_fields_no_quote:
  "\<forall>f \<in> set fs. CHR 0x27 \<notin> set f \<Longrightarrow>
     \<forall>e \<in> set (parse_fields fs). CHR 0x27 \<notin> set (Alias e) \<and> CHR 0x27 \<notin> set (URI e)"
proof (induction fs)
  case (Cons f fs)
  have "CHR 0x27 \<notin> set (NormalizeAlias (take i f)) \<and> CHR 0x27 \<notin> set (drop (Suc i) f)" for i
    using Cons.prems set_TrimSpace [of "take i f"]
    by (auto simp: NormalizeAlias_def ToUpper_def upper_char_quote eq_commute [of "CHR 0x27"]
        dest: in_set_takeD in_set_dropD)
  then show ?case using Cons by (auto split: option.split)
qed simp

lemma Parse_safe: "CHR 0x27 \<notin> set v \<Longrightarrow> list_all safe_entry (ParseScriptLanguages v)"
proof -
  assume v: "CHR 0x27 \<notin> set v"
  have "\<forall>f \<in> set (Fields v). CHR 0x27 \<notin> set f"
    using Fields_acc_subset [of _ "[]" v] v unfolding Fields_def by auto
  from parse_fields_no_quote [OF this] show ?thesis
    using ParseScriptLanguages_wf [of v] by (auto simp: safe_entry_def list_all_iff ParseScriptLanguages_def)
qed

lemma safe_SetAlias:
  assumes "list_all safe_entry es" and "wf_alias (NormalizeAlias a)" and "CHR 0x27 \<notin> set (NormalizeAlias a)"
    and "no_spaces u" and "CHR 0x27 \<notin> set u"
  shows "list_all safe_entry (SetAlias es a u)"
  using assms by (auto simp: SetAlias_def Let_def list_all_iff safe_entry_def wf_entry_def)

lemma safe_RemoveAlias: "list_all safe_entry es \<Longrightarrow> list_all safe_entry (RemoveAlias es a)"
  by (auto simp: RemoveAlias_def Let_def list_all_iff)

lemma safe_put_all:
  "list_all safe_entry es \<Longrightarrow> \<forall>c \<in> set cs. custom_ok c \<Longrightarrow>
     list_all safe_entry (sl.put_all (map (\<lambda>c. (cslc_Alias c, activation_uri c)) cs) es)"
  by (induction cs arbitrary: es) (simp_all add: sl.put_all_def safe_SetAlias custom_ok_activation)

lemma safe_wf: "list_all safe_entry es \<Longrightarrow> list_all wf_entry es"
  by (auto simp: list_all_iff safe_entry_def)

lemma faithful_set_current:
  assumes "faithful_database env" and "list_all safe_entry es"
  shows "setScriptLanguages env es l = Inr (SerializeScriptLanguages es)"
    and "currentScriptLanguages env (SerializeScriptLanguages es) = Inr es"
    and "currentScriptLanguages env l' = Inr (ParseScriptLanguages l')"
  using assms Parse_Serialize [OF safe_wf [OF assms(2)]] Serialize_no_quote [OF assms(2)]
  by (simp_all add: setScriptLanguages_def currentScriptLanguages_def faithful_database_def Let_def)

lemma aliasResolvesTo_find_uri: "aliasResolvesTo es a u \<longleftrightarrow> find_uri es a = Some u"
  by (simp add: aliasResolvesTo_def find_uri_def split: option.split)

lemma reconcile_functional:
  assumes db: "faithful_database env" and wr: "se_write env = WriteOk"
    and s: "read_state w = Inr s" and cs: "custom_inv (InstalledCustomSLCs s)"
    and st: "readSLCImageStates w = Inr states" and ok: "\<forall>c \<in> set (InstalledCustomSLCs s). custom_ok c"
    and quote: "CHR 0x27 \<notin> set (sw_languages w)"
    and p: "pending = pending_customs states (InstalledCustomSLCs s)" "pending \<noteq> []"
  shows "\<exists>w1 cs1 es1. reconcileCustomSLCActivation env w = (w1, None) \<and> sw_languages w1 = SerializeScriptLanguages es1
    \<and> list_all safe_entry es1 \<and> sw_file w1 = StoredState (s\<lparr>InstalledCustomSLCs := cs1\<rparr>) \<and> length cs1 = length (InstalledCustomSLCs s)
    \<and> (\<forall>i < length cs1. cslc_Alias (cs1 ! i) = cslc_Alias (InstalledCustomSLCs s ! i))
    \<and> (\<forall>i \<in> set pending. find_uri es1 (cslc_Alias (InstalledCustomSLCs s ! i)) = Some (activation_uri (InstalledCustomSLCs s ! i))
         \<and> cs1 ! i = activated (InstalledCustomSLCs s ! i)
             (find_uri (ParseScriptLanguages (sw_languages w)) (cslc_Alias (InstalledCustomSLCs s ! i))))"
proof -
  let ?cs = "InstalledCustomSLCs s" and ?es = "ParseScriptLanguages (sw_languages w)"
  let ?kvs = "map (\<lambda>c. (cslc_Alias c, activation_uri c)) (map ((!) ?cs) pending)"
  obtain es1 cs1 where loop: "activate_loop pending ?es ?cs = (es1, cs1)" by fastforce
  have lt: "\<forall>i \<in> set pending. i < length ?cs" and dist: "distinct pending" by (auto simp: p(1) pending_customs_def)
  have dc: "distinct_customs ?cs" using cs by (rule custom_inv_distinct)
  have pc: "\<forall>c \<in> set (map ((!) ?cs) pending). custom_ok c" using ok lt by auto
  have es1: "es1 = sl.put_all ?kvs ?es"
    using activate_loop_table [OF lt, of ?es] loop by (simp add: comp_def)
  have safe: "list_all safe_entry es1" unfolding es1 by (rule safe_put_all [OF Parse_safe [OF quote] pc])
  have inj: "inj_on (\<lambda>i. custom_key (?cs ! i)) (set pending)"
    using dc lt by (auto simp: inj_on_def distinct_customs_def distinct_conv_nth)
  have found: "find_uri es1 (cslc_Alias (?cs ! i)) = Some (activation_uri (?cs ! i))" if "i \<in> set pending" for i
    unfolding es1
  proof (rule sl.find_put_all)
    show "distinct (map (NormalizeAlias \<circ> fst) ?kvs)"
      using inj dist by (simp add: comp_def distinct_map custom_key_def)
    show "\<forall>(k, v) \<in> set ?kvs. wf_alias (NormalizeAlias k) \<and> no_spaces v"
      using pc custom_ok_activation by auto
  qed (use that Parse_safe [OF quote] safe_wf in auto)
  have rec: "cs1 ! i = activated (?cs ! i) (find_uri ?es (cslc_Alias (?cs ! i)))" if "i \<in> set pending" for i
    using activate_loop_records [OF dist lt dc that, of ?es] loop by simp
  have "applyScriptLanguages env es1 cs1 pending (sw_languages w) = (SerializeScriptLanguages es1, None)"
    using faithful_set_current [OF db safe] found rec
    by (auto simp: applyScriptLanguages_def aliasResolvesTo_find_uri find_None_iff split: option.split)
  then have act: "activatePendingCustomSLCs env s pending (sw_languages w)
      = (SerializeScriptLanguages es1, Inr (s\<lparr>InstalledCustomSLCs := cs1\<rparr>))"
    using db faithful_set_current(3) [OF db safe] loop
    by (simp add: activatePendingCustomSLCs_def faithful_database_def)
  have al: "map recorded_aliases cs1 = map recorded_aliases ?cs"
    using activate_loop_aliases [of pending ?es ?cs] loop by simp
  then have "length cs1 = length ?cs" by (rule map_eq_imp_length_eq)
  moreover have "\<forall>i < length cs1. cslc_Alias (cs1 ! i) = cslc_Alias (?cs ! i)"
    using al by (metis (no_types, lifting) length_map list.inject nth_map recorded_aliases_def)
  ultimately show ?thesis
    using s st p act wr safe found rec
    by (intro exI [of _ "w\<lparr>sw_languages := SerializeScriptLanguages es1,
          sw_file := StoredState (s\<lparr>InstalledCustomSLCs := cs1\<rparr>)\<rparr>"] exI [of _ cs1] exI [of _ es1])
      (simp add: reconcileCustomSLCActivation_def Let_def write_state_def WriteExasolPersonalState_def)
qed

lemma deactivate_functional:
  assumes db: "faithful_database env" and safe: "list_all safe_entry es" and ok: "custom_ok c"
    and d: "no_spaces (cslc_DisplacedURI c)" "CHR 0x27 \<notin> set (cslc_DisplacedURI c)"
  shows "\<exists>es'. deactivateCustomSLC env (cslc_Alias c) (cslc_DisplacedURI c) (SerializeScriptLanguages es)
      = (SerializeScriptLanguages es', None) \<and> list_all safe_entry es'
    \<and> find_uri es' (cslc_Alias c) = (if cslc_DisplacedURI c = [] then None else Some (cslc_DisplacedURI c))
    \<and> (\<forall>b. NormalizeAlias b \<noteq> NormalizeAlias (cslc_Alias c) \<longrightarrow> find_uri es' b = find_uri es b)"
proof -
  let ?es' = "if cslc_DisplacedURI c \<noteq> [] then SetAlias es (cslc_Alias c) (cslc_DisplacedURI c)
    else RemoveAlias es (cslc_Alias c)"
  have safe': "list_all safe_entry ?es'"
    using safe_SetAlias [OF safe] safe_RemoveAlias [OF safe] custom_ok_activation(1,2) [OF ok] d by simp
  have "FindAlias ?es' (cslc_Alias c) = None" if "cslc_DisplacedURI c = []"
    using find_uri_RemoveAlias [of es "cslc_Alias c" "cslc_Alias c"] that by (simp add: find_uri_def)
  then have "confirmDeactivated ?es' (cslc_Alias c) (cslc_DisplacedURI c) = None"
    by (simp add: confirmDeactivated_def aliasResolvesTo_find_uri find_uri_SetAlias)
  then have "deactivateCustomSLC env (cslc_Alias c) (cslc_DisplacedURI c) (SerializeScriptLanguages es)
      = (SerializeScriptLanguages ?es', None)"
    using db faithful_set_current(2) [OF db safe] faithful_set_current(1,2) [OF db safe']
    by (simp add: deactivateCustomSLC_def faithful_database_def Let_def)
  with safe' show ?thesis by (intro exI [of _ ?es']) (auto simp: find_uri_SetAlias find_uri_RemoveAlias)
qed

lemma find_uri_safe:
  assumes "list_all safe_entry es" and "find_uri es a = Some u"
  shows "no_spaces u \<and> CHR 0x27 \<notin> set u"
proof -
  have "FindAlias_loop es k = Some e \<Longrightarrow> e \<in> set es" for k e by (induction es) (auto split: if_splits)
  with assms show ?thesis by (force simp: find_uri_def FindAlias_def list_all_iff safe_entry_def wf_entry_def)
qed

lemma customAliasPattern_trim: "customAliasPattern a \<Longrightarrow> TrimSpace a = a \<and> a \<noteq> []"
proof -
  assume a: "customAliasPattern a"
  then have "\<forall>x \<in> set a. \<not> is_space x"
    using plain_class plain_char_def
    by (auto simp: customAliasPattern_def list_all_iff split: list.splits)
  with a show ?thesis by (auto simp: customAliasPattern_def TrimSpace_no_space)
qed

lemma distinct_map_nth_inj:
  "distinct (map f xs) \<Longrightarrow> i < length xs \<Longrightarrow> j < length xs \<Longrightarrow> f (xs ! i) = f (xs ! j) \<Longrightarrow> i = j"
  by (metis distinct_conv_nth length_map nth_map)

lemma findInstalledCustomSLC_index:
  assumes "distinct_customs cs" and "i < length cs" and "custom_key (cs ! i) = NormalizeAlias a"
  shows "findInstalledCustomSLC cs a = Some i"
proof (cases "findInstalledCustomSLC cs a")
  case None
  with assms(2,3) nth_mem [OF assms(2)] show ?thesis
    by (auto simp: findInstalledCustomSLC_def find_index_None custom_key_def)
next
  case (Some j)
  then have "j < length cs" "custom_key (cs ! j) = NormalizeAlias a"
    by (auto simp: findInstalledCustomSLC_def custom_key_def dest: find_index_Some)
  then have "j = i" using assms unfolding distinct_customs_def by (metis distinct_map_nth_inj)
  with Some show ?thesis by simp
qed



end
