(* ===== verification/System_Composition.thy ===== *)
theory System_Composition
  imports Lifecycle_Outcomes Custom_Slc_Management
begin

text \<open>
  The container operations and the lifecycle, put together. An installation of a script language
  container that restarts the database calls \<open>Stop\<close> and \<open>Start\<close> of the lifecycle, and a start of a
  local deployment ends with the activation of the recorded custom containers, an operation of the
  container component: each component relies on the other through the state file.
\<close>

text \<open>The lifecycle as the container operations see it: a stop and a start, each a function on what
  they share, and an invariant of the recorded deployment that both keep.\<close>

locale restart_service =
  fixes stop_op start_op :: "slc_world \<Rightarrow> slc_world \<times> string option"
    and recorded_ok :: "slc_world \<Rightarrow> bool"
  assumes stop_keeps: "recorded_ok w \<Longrightarrow> recorded_ok (fst (stop_op w))"
    and start_keeps: "recorded_ok w \<Longrightarrow> recorded_ok (fst (start_op w))"
begin

lemma environment_keeps: "restart_keeps recorded_ok (env\<lparr>se_Stop := stop_op, se_Start := start_op\<rparr>)"
  by (simp add: restart_keeps_def stop_keeps start_keeps)

lemma apply_change_keeps:
  assumes "recorded_ok w"
  shows "recorded_ok (fst (applySLCChange (env\<lparr>se_Stop := stop_op, se_Start := start_op\<rparr>) ensure w))"
  using applySLCChange_keeps [OF environment_keeps assms] .

end

definition lifecycle_world :: "slc_world \<Rightarrow> lc_world" where
  "lifecycle_world w = \<lparr>lw_file = sw_file w, lw_writes = 0, lw_trace = []\<rparr>"

definition lifecycle_Stop :: "lc_env \<Rightarrow> slc_world \<Rightarrow> slc_world \<times> string option" where
  "lifecycle_Stop le w =
     (case stopLocked le (lifecycle_world w) of
        (v, err) \<Rightarrow> (w\<lparr>sw_file := lw_file v\<rparr>, map_option (le_error_text le) err))"

text \<open>The activation that ends a start reads the report and the packages of the world it finds and
  runs in the container component's own environment.\<close>

definition with_activation :: "slc_env \<Rightarrow> slc_world \<Rightarrow> lc_env \<Rightarrow> lc_env" where
  "with_activation env w le =
     le\<lparr>le_reconcile_slc := (\<lambda>f. sw_file (fst (reconcileCustomSLCActivation env (w\<lparr>sw_file := f\<rparr>))))\<rparr>"

text \<open>\<open>langs\<close> is what the start leaves in the database's list of script languages.\<close>

definition lifecycle_Start :: "slc_env \<Rightarrow> lc_env \<Rightarrow> (slc_world \<Rightarrow> string) \<Rightarrow> slc_world \<Rightarrow> slc_world \<times> string option" where
  "lifecycle_Start env le langs w =
     (case startLocked (with_activation env w le) (lifecycle_world w) of
        (v, err) \<Rightarrow> (w\<lparr>sw_file := lw_file v, sw_languages := langs w\<rparr>, map_option (le_error_text le) err))"

lemma alias_inv_ignores_workflow: "ignores_workflow alias_inv"
  by (simp add: ignores_workflow_def alias_inv_def)

lemma world_inv_file_inv: "world_inv w \<longleftrightarrow> file_inv alias_inv (sw_file w)"
  by (simp add: world_inv_def file_inv_def)

lemma activation_keeps: "slc_keeps alias_inv (with_activation env w le)"
proof -
  have "file_inv alias_inv (sw_file (fst (reconcileCustomSLCActivation env (w\<lparr>sw_file := f\<rparr>))))"
    if "file_inv alias_inv f" for f
    using that reconcile_inv [of "w\<lparr>sw_file := f\<rparr>" env] by (simp add: world_inv_file_inv)
  then show ?thesis by (simp add: slc_keeps_def with_activation_def)
qed

interpretation lcs: restart_service "lifecycle_Stop le" "lifecycle_Start env le langs" world_inv
  for le env langs
proof
  fix w assume "world_inv w"
  then show "world_inv (fst (lifecycle_Stop le w))"
    using stopLocked_keeps [OF alias_inv_ignores_workflow, of "lifecycle_world w" le]
    by (auto simp: world_inv_file_inv lifecycle_Stop_def lifecycle_world_def split: prod.split)
next
  fix w assume "world_inv w"
  then show "world_inv (fst (lifecycle_Start env le langs w))"
    using startLocked_keeps [OF alias_inv_ignores_workflow activation_keeps, of "lifecycle_world w" env w le]
    by (auto simp: world_inv_file_inv lifecycle_Start_def lifecycle_world_def split: prod.split)
qed

definition on_lifecycle :: "slc_env \<Rightarrow> lc_env \<Rightarrow> (slc_world \<Rightarrow> string) \<Rightarrow> slc_env" where
  "on_lifecycle env le langs = env\<lparr>se_Stop := lifecycle_Stop le, se_Start := lifecycle_Start env le langs\<rparr>"

text \<open>C8: with the lifecycle's own stop and start as the restart (each in any environment: failing
  backends, signals, lost writes), and the activation of custom containers inside that start, every
  container operation keeps the aliases of the recorded containers apart.\<close>

theorem restarting_operations_keep_aliases_apart:
  assumes "catalog_aliases_ok env" and "world_inv w" and "sys = on_lifecycle env le langs"
  shows "world_inv (fst (InstallSLC sys al restart w)) \<and> world_inv (fst (UpdateSLC sys al restart w))
    \<and> world_inv (fst (RemoveSLC sys al restart w))
    \<and> world_inv (fst (InstallCustomSLC sys opts restart confirm w))
    \<and> world_inv (fst (UpdateCustomSLC sys opts restart confirm w))
    \<and> world_inv (fst (RemoveCustomSLC sys al w))"
proof -
  have keep: "restart_keeps world_inv sys" unfolding assms(3) on_lifecycle_def by (rule lcs.environment_keeps)
  have cat: "catalog_aliases_ok sys" using assms(1,3) by (simp add: on_lifecycle_def catalog_aliases_ok_def)
  show ?thesis
    using InstallSLC_inv [OF keep assms(2) cat] UpdateSLC_inv [OF keep assms(2) cat] RemoveSLC_inv [OF keep assms(2)]
      InstallCustomSLC_inv [OF keep assms(2)] UpdateCustomSLC_inv [OF keep assms(2)] RemoveCustomSLC_inv [OF assms(2)]
    by blast
qed

definition running_slc_env :: slc_env where
  "running_slc_env = sample_slc_env\<lparr>se_running_apply := True\<rparr>"

definition running_slc_world :: slc_world where
  "running_slc_world = sample_slc_world\<lparr>sw_file :=
     StoredState (zero_state\<lparr>CurrentWorkflowState := no_workflow\<lparr>ws_Running := Some ()\<rparr>\<rparr>)\<rparr>"

definition running_system :: slc_env where
  "running_system = on_lifecycle running_slc_env (healthy_env ''local'') sw_languages"

theorem restarting_operations_keep_aliases_apart_witness:
  "world_inv (fst (InstallSLC running_system ''R4'' True running_slc_world))
   \<and> official_flavors (fst (InstallSLC running_system ''R4'' True running_slc_world)) = [''r-4.4'']
   \<and> workflow_on_disk (lifecycle_world (fst (InstallSLC running_system ''R4'' True running_slc_world))) = Some Running"
proof -
  have "catalog_aliases_ok running_slc_env"
    using sample_slc_env_ok(2) by (simp add: running_slc_env_def catalog_aliases_ok_def)
  moreover have "world_inv running_slc_world"
    by (simp add: world_inv_def running_slc_world_def zero_state_def alias_inv_def official_inv_def custom_inv_def cross_inv_def)
  moreover have "official_flavors (fst (InstallSLC running_system ''R4'' True running_slc_world)) = [''r-4.4'']"
    by code_simp
  moreover have "workflow_on_disk (lifecycle_world (fst (InstallSLC running_system ''R4'' True running_slc_world))) = Some Running"
    by code_simp
  ultimately show ?thesis
    using restarting_operations_keep_aliases_apart [OF _ _ running_system_def] by blast
qed

end
