(* ===== verification/Sql_Shell.thy ===== *)
theory Sql_Shell
  imports Go_Prelude
begin

text \<open>
  The SQL shell of \<^verbatim>\<open>src/internal/connect/shell.go\<close>: how a text is split into statements, which
  statement an interactive session executes when, and the two ways of running statements without a
  terminal (\<open>runStatements\<close> and, in \<^verbatim>\<open>json_execution.go\<close>, \<open>runJSONStatements\<close>).

  A position \<open>p\<close> of the Go string \<open>sql\<close> is represented by the rest \<^verbatim>\<open>sql[p:]\<close> of the text, so that
  \<^verbatim>\<open>sql[p] == c\<close> is a test of the first byte, \<^verbatim>\<open>p + 1 < len(sql)\<close> that there is a second one, and
  \<^verbatim>\<open>sql[start:end]\<close> is \<open>slice start end\<close>.
\<close>

section \<open>Positions\<close>

definition slice :: "string \<Rightarrow> string \<Rightarrow> string" where
  "slice start end = take (length start - length end) start"

definition rest_of :: "string \<Rightarrow> string \<Rightarrow> bool" where
  "rest_of s r \<longleftrightarrow> (\<exists>p. s = p @ r)"

lemma rest_of_refl [simp, intro]: "rest_of s s"
  by (simp add: rest_of_def)

lemma rest_of_Nil [simp, intro]: "rest_of s []"
  by (simp add: rest_of_def)

lemma rest_of_Cons: "rest_of s r \<Longrightarrow> rest_of (c # s) r"
  unfolding rest_of_def by (metis append_Cons)

lemma rest_of_trans: "rest_of s r \<Longrightarrow> rest_of r t \<Longrightarrow> rest_of s t"
  by (auto simp: rest_of_def)

lemma rest_of_drop [simp, intro]: "rest_of s (drop n s)"
  unfolding rest_of_def by (metis append_take_drop_id)

lemma rest_of_drop_trans: "rest_of (drop n s) r \<Longrightarrow> rest_of s r"
  using rest_of_trans rest_of_drop by blast

lemma rest_of_tl_trans: "rest_of (tl s) r \<Longrightarrow> rest_of s r"
  using rest_of_drop_trans [of 1 s r] by (simp add: drop_Suc)

lemma rest_of_length: "rest_of s r \<Longrightarrow> length r \<le> length s"
  by (auto simp: rest_of_def)

lemma slice_append: "rest_of s r \<Longrightarrow> slice s r @ r = s"
  by (auto simp: rest_of_def slice_def)

section \<open>The semicolon scanner\<close>

record terminator =
  statementEnd :: string
  nextStart :: string

record quoteCommentState =
  inSingleQuotes :: bool
  inDoubleQuotes :: bool
  inLineComment :: bool
  inBlockComment :: bool

definition zero_scan :: quoteCommentState where
  "zero_scan = \<lparr>inSingleQuotes = False, inDoubleQuotes = False, inLineComment = False, inBlockComment = False\<rparr>"

text \<open>Each consumer returns the new state and how many more bytes to skip.\<close>

definition consumeLineComment :: "quoteCommentState \<Rightarrow> string \<Rightarrow> quoteCommentState \<times> nat" where
  "consumeLineComment st s = (if hd s = newline then (st\<lparr>inLineComment := False\<rparr>, 0) else (st, 0))"

definition second_is :: "string \<Rightarrow> char \<Rightarrow> bool" where
  "second_is s c \<longleftrightarrow> (case tl s of [] \<Rightarrow> False | d # _ \<Rightarrow> d = c)"

definition consumeBlockComment :: "quoteCommentState \<Rightarrow> string \<Rightarrow> quoteCommentState \<times> nat" where
  "consumeBlockComment st s =
     (if hd s = CHR ''*'' \<and> second_is s CHR ''/'' then (st\<lparr>inBlockComment := False\<rparr>, 1) else (st, 0))"

abbreviation squote :: char where "squote \<equiv> CHR 0x27"
abbreviation dquote :: char where "dquote \<equiv> CHR 0x22"

definition consumeSingleQuote :: "quoteCommentState \<Rightarrow> string \<Rightarrow> quoteCommentState \<times> nat" where
  "consumeSingleQuote st s =
     (if hd s = squote \<and> second_is s squote then (st, 1)
      else if hd s = squote then (st\<lparr>inSingleQuotes := False\<rparr>, 0)
      else (st, 0))"

definition consumeDoubleQuote :: "quoteCommentState \<Rightarrow> string \<Rightarrow> quoteCommentState \<times> nat" where
  "consumeDoubleQuote st s =
     (if hd s = dquote \<and> second_is s dquote then (st, 1)
      else if hd s = dquote then (st\<lparr>inDoubleQuotes := False\<rparr>, 0)
      else (st, 0))"

definition consumeDefault :: "quoteCommentState \<Rightarrow> string \<Rightarrow> quoteCommentState \<times> terminator option \<times> nat" where
  "consumeDefault st s =
     (if hd s = squote then (st\<lparr>inSingleQuotes := True\<rparr>, None, 0)
      else if hd s = dquote then (st\<lparr>inDoubleQuotes := True\<rparr>, None, 0)
      else if hd s = CHR ''-'' \<and> second_is s CHR ''-'' then (st\<lparr>inLineComment := True\<rparr>, None, 1)
      else if hd s = CHR ''/'' \<and> second_is s CHR ''*'' then (st\<lparr>inBlockComment := True\<rparr>, None, 1)
      else if hd s = CHR '';'' then (st, Some \<lparr>statementEnd = s, nextStart = tl s\<rparr>, 0)
      else (st, None, 0))"

fun semicolon_loop :: "quoteCommentState \<Rightarrow> string \<Rightarrow> terminator option" where
  "semicolon_loop st [] = None"
| "semicolon_loop st (c # cs) =
     (if inLineComment st then
        (case consumeLineComment st (c # cs) of (st', k) \<Rightarrow> semicolon_loop st' (drop k cs))
      else if inBlockComment st then
        (case consumeBlockComment st (c # cs) of (st', k) \<Rightarrow> semicolon_loop st' (drop k cs))
      else if inSingleQuotes st then
        (case consumeSingleQuote st (c # cs) of (st', k) \<Rightarrow> semicolon_loop st' (drop k cs))
      else if inDoubleQuotes st then
        (case consumeDoubleQuote st (c # cs) of (st', k) \<Rightarrow> semicolon_loop st' (drop k cs))
      else
        (case consumeDefault st (c # cs) of
           (st', Some trm, _) \<Rightarrow> Some trm
         | (st', None, k) \<Rightarrow> semicolon_loop st' (drop k cs)))"

definition findSemicolonTerminator :: "string \<Rightarrow> terminator option" where
  "findSemicolonTerminator s = semicolon_loop zero_scan s"

section \<open>Script definitions\<close>

definition isSpaceByte :: "char \<Rightarrow> bool" where
  "isSpaceByte b \<longleftrightarrow> b = CHR '' '' \<or> b = CHR 0x09 \<or> b = CHR 0x0D \<or> b = newline"

definition isTokenSeparator :: "string \<Rightarrow> bool" where
  "isTokenSeparator s \<longleftrightarrow> isSpaceByte (hd s) \<or> hd s = CHR ''('' \<or> hd s = CHR '';''
     \<or> HasPrefix s ''--'' \<or> HasPrefix s ''/*''"

fun skipQuoted_loop :: "char \<Rightarrow> string \<Rightarrow> string" where
  "skipQuoted_loop q [] = []"
| "skipQuoted_loop q (c # cs) =
     (if c \<noteq> q then skipQuoted_loop q cs
      else case cs of
        [] \<Rightarrow> cs
      | d # ds \<Rightarrow> if d = q then skipQuoted_loop q ds else cs)"

definition skipQuoted :: "string \<Rightarrow> string" where
  "skipQuoted s = skipQuoted_loop (hd s) (tl s)"

lemma skipQuoted_loop_rest: "rest_of s (skipQuoted_loop q s)"
proof (induction q s rule: skipQuoted_loop.induct)
  case (2 q c cs)
  then show ?case by (cases cs) (auto intro: rest_of_Cons)
qed simp

lemma skipQuoted_rest: "s \<noteq> [] \<Longrightarrow> rest_of s (skipQuoted s) \<and> length (skipQuoted s) < length s"
  using skipQuoted_loop_rest [of "tl s" "hd s"] rest_of_length
  by (cases s) (auto simp: skipQuoted_def intro: rest_of_Cons le_imp_less_Suc)

function skipSpaceAndComments :: "string \<Rightarrow> string" where
  "skipSpaceAndComments s =
     (if s = [] then []
      else if isSpaceByte (hd s) then skipSpaceAndComments (tl s)
      else if HasPrefix s ''--'' then
        (case IndexByte s newline of None \<Rightarrow> [] | Some k \<Rightarrow> skipSpaceAndComments (drop (k + 1) s))
      else if HasPrefix s ''/*'' then
        (case Index s ''*/'' of None \<Rightarrow> [] | Some k \<Rightarrow> skipSpaceAndComments (drop (k + 2) s))
      else s)"
  by pat_completeness auto

termination
  by (relation "measure length") auto

declare skipSpaceAndComments.simps [simp del]

lemma skipSpace_rest: "rest_of s (skipSpaceAndComments s)"
proof (induction s rule: skipSpaceAndComments.induct)
  case (1 s)
  then show ?case
    by (subst skipSpaceAndComments.simps)
      (auto split: option.split intro: rest_of_drop_trans [of "Suc n" for n] rest_of_drop_trans [of "Suc (Suc n)" for n]
        rest_of_tl_trans)
qed

function token_end :: "string \<Rightarrow> string" where
  "token_end s =
     (if s = [] \<or> isTokenSeparator s then s
      else if hd s = squote \<or> hd s = dquote then token_end (skipQuoted s)
      else token_end (tl s))"
  by pat_completeness auto

termination
  by (relation "measure length") (auto simp: skipQuoted_rest)

declare token_end.simps [simp del]

lemma token_end_rest: "rest_of s (token_end s)"
proof (induction s rule: token_end.induct)
  case (1 s)
  show ?case
  proof (cases "s = [] \<or> isTokenSeparator s")
    case False
    then have "rest_of s (tl s)" "rest_of s (skipQuoted s)"
      using rest_of_drop [of s 1] skipQuoted_rest by (simp_all add: drop_Suc)
    then show ?thesis
      using 1 False rest_of_trans by (subst token_end.simps) auto
  qed (auto simp: token_end.simps [of s])
qed

definition nextToken :: "string \<Rightarrow> string \<times> string" where
  "nextToken s =
     (let start = skipSpaceAndComments s; end = token_end start in
      if end = start then ([], end) else (ToUpper (slice start end), end))"

lemma nextToken_rest: "rest_of s (snd (nextToken s))"
  using rest_of_trans [OF skipSpace_rest token_end_rest, of s] skipSpace_rest [of s]
  by (simp add: nextToken_def Let_def)

lemma nextToken_shorter:
  assumes "nextToken s = (token, r)" and "token \<noteq> []"
  shows "length r < length s"
proof -
  let ?st = "skipSpaceAndComments s"
  have r: "r = token_end ?st" "r \<noteq> ?st" using assms by (auto simp: nextToken_def Let_def split: if_splits)
  then obtain p where "?st = p @ r" "p \<noteq> []" using token_end_rest [of ?st] unfolding rest_of_def by (metis append_Nil)
  then show ?thesis using rest_of_length [OF skipSpace_rest [of s]] by (metis length_greater_0_conv length_append
      less_add_same_cancel2 order_less_le_trans)
qed

definition scriptBodyKeywords :: "string list" where
  "scriptBodyKeywords = [''SCRIPT'', ''FUNCTION'']"

function script_keyword_follows :: "string \<Rightarrow> bool" where
  "script_keyword_follows s =
     (case nextToken s of (token, pos) \<Rightarrow>
        if token = [] \<or> token = ''AS'' then False
        else if token \<in> set scriptBodyKeywords then True
        else script_keyword_follows pos)"
  by pat_completeness auto

termination
  by (relation "measure length") (auto dest: nextToken_shorter [OF sym])

declare script_keyword_follows.simps [simp del]

definition looksLikeScriptDDL :: "string \<Rightarrow> bool" where
  "looksLikeScriptDDL s =
     (case nextToken s of (token, pos) \<Rightarrow> if token \<noteq> ''CREATE'' then False else script_keyword_follows pos)"

function findScriptTerminator :: "string \<Rightarrow> terminator option" where
  "findScriptTerminator s =
     (if s = [] then None
      else
        (case IndexByte s newline of
           None \<Rightarrow> if TrimSpace s = ''/'' then Some \<lparr>statementEnd = s, nextStart = []\<rparr> else None
         | Some k \<Rightarrow>
             if TrimSpace (take k s) = ''/'' then Some \<lparr>statementEnd = s, nextStart = drop (k + 1) s\<rparr>
             else findScriptTerminator (drop (k + 1) s)))"
  by pat_completeness auto

termination
  by (relation "measure length") auto

declare findScriptTerminator.simps [simp del]

section \<open>Splitting\<close>

definition findStatementTerminator :: "string \<Rightarrow> terminator option" where
  "findStatementTerminator s = (if looksLikeScriptDDL s then findScriptTerminator s else findSemicolonTerminator s)"

text \<open>What a found terminator is: a semicolon, or a line that holds only a slash.\<close>

definition terminator_text :: "string \<Rightarrow> bool" where
  "terminator_text t \<longleftrightarrow> t = '';'' \<or> TrimSpace t = ''/''"

lemma consumeDefault_Some:
  "consumeDefault st (c # cs) = (st', Some trm, k) \<Longrightarrow> trm = \<lparr>statementEnd = c # cs, nextStart = cs\<rparr> \<and> c = CHR '';''"
  by (auto simp: consumeDefault_def split: if_splits)

lemma semicolon_loop_Some:
  "semicolon_loop st s = Some trm \<Longrightarrow>
     rest_of s (statementEnd trm) \<and> statementEnd trm = CHR '';'' # nextStart trm"
proof (induction st s rule: semicolon_loop.induct)
  case (2 st c cs)
  have rest: "rest_of (c # cs) r" if "rest_of (drop k cs) r" for k r
    using that rest_of_trans [OF rest_of_drop] rest_of_Cons by blast
  consider "inLineComment st" | "\<not> inLineComment st" "inBlockComment st"
    | "\<not> inLineComment st" "\<not> inBlockComment st" "inSingleQuotes st"
    | "\<not> inLineComment st" "\<not> inBlockComment st" "\<not> inSingleQuotes st" "inDoubleQuotes st"
    | "\<not> inLineComment st" "\<not> inBlockComment st" "\<not> inSingleQuotes st" "\<not> inDoubleQuotes st" by blast
  then show ?case
  proof cases
    case 5
    obtain st' t k where d: "consumeDefault st (c # cs) = (st', t, k)" by (metis prod_cases3)
    show ?thesis
      using 2(5) [OF 5 d [symmetric]] "2.prems" 5 d consumeDefault_Some [of st c cs st' trm k] rest [of k]
      by (cases t) auto
  qed (use 2(1-4) "2.prems" rest in \<open>auto split: prod.splits\<close>)
qed simp

lemma TrimSpace_snoc_space:
  assumes "is_space c"
  shows "TrimSpace (s @ [c]) = TrimSpace s"
proof (cases "\<forall>x \<in> set s. is_space x")
  case True
  then have "TrimSpace (s @ [c]) = []" "TrimSpace s = []" using assms by (auto simp: TrimSpace_Nil_iff)
  then show ?thesis by simp
next
  case False
  then have "dropWhile is_space (s @ [c]) = dropWhile is_space s @ [c]" by (auto simp: dropWhile_append1)
  then show ?thesis using assms by (simp add: TrimSpace_def)
qed

lemma findScriptTerminator_Some:
  "findScriptTerminator s = Some trm \<Longrightarrow>
     rest_of s (statementEnd trm)
     \<and> (\<exists>x. statementEnd trm = x @ nextStart trm \<and> TrimSpace x = ''/'')"
proof (induction s rule: findScriptTerminator.induct)
  case (1 s)
  have line: "TrimSpace (take (Suc k) s) = TrimSpace (take k s)" if "IndexByte s newline = Some k" for k
    using IndexByte_Some [OF that] TrimSpace_snoc_space [of newline "take k s"]
    by (simp add: take_Suc_conv_app_nth is_space_def)
  show ?case
  proof (cases "IndexByte s newline")
    case None
    then show ?thesis
      using "1.prems" by (subst (asm) findScriptTerminator.simps) (auto split: if_splits)
  next
    case (Some k)
    show ?thesis
    proof (cases "TrimSpace (take k s) = ''/''")
      case True
      then have "trm = \<lparr>statementEnd = s, nextStart = drop (k + 1) s\<rparr>"
        using "1.prems" Some by (subst (asm) findScriptTerminator.simps) (auto split: if_splits)
      then show ?thesis
        using line [OF Some] True by (auto intro!: exI [of _ "take (Suc k) s"])
    next
      case False
      then have ne: "s \<noteq> []" and found: "findScriptTerminator (drop (k + 1) s) = Some trm"
        using "1.prems" Some by (subst (asm) findScriptTerminator.simps, auto split: if_splits)+
      show ?thesis using "1.IH" [OF ne Some False found] rest_of_drop_trans by blast
    qed
  qed
qed

lemma terminator_cases:
  assumes "findStatementTerminator s = Some trm"
  shows "\<exists>x. statementEnd trm = x @ nextStart trm \<and> terminator_text x \<and> rest_of s (statementEnd trm)"
  using assms findScriptTerminator_Some [of s trm] semicolon_loop_Some [of zero_scan s trm]
  by (auto simp: findStatementTerminator_def findSemicolonTerminator_def terminator_text_def split: if_splits)

lemma terminator_shorter:
  assumes "findStatementTerminator s = Some trm"
  shows "length (nextStart trm) < length s"
proof -
  obtain x where x: "statementEnd trm = x @ nextStart trm" "terminator_text x" "rest_of s (statementEnd trm)"
    using terminator_cases [OF assms] by blast
  have "x \<noteq> []" using x(2) by (auto simp: terminator_text_def TrimSpace_def)
  then show ?thesis using rest_of_length [OF x(3)] x(1) by (cases x) auto
qed

function splitStatements :: "string \<Rightarrow> string list \<times> string" where
  "splitStatements sql =
     (if sql = [] then ([], [])
      else
        (case findStatementTerminator sql of
           None \<Rightarrow> ([], sql)
         | Some trm \<Rightarrow>
             (let statement = TrimSpace (slice sql (statementEnd trm)) in
              case splitStatements (nextStart trm) of
                (statements, remainder) \<Rightarrow>
                  (if statement \<noteq> [] then statement # statements else statements, remainder))))"
  by pat_completeness auto

termination
  by (relation "measure length") (auto simp: terminator_shorter)

declare splitStatements.simps [simp del]

text \<open>C27: splitting loses nothing: the text is the sequence of its segments, each followed by its
  terminator (a semicolon, or a line with a lone slash), and the remainder; the statements are the
  segments that are not blank, trimmed, in order; and the remainder has no terminator left.\<close>

theorem split_reassembles:
  "case splitStatements sql of (statements, remainder) \<Rightarrow>
     \<exists>segs. sql = concat (map (\<lambda>(x, t). x @ t) segs) @ remainder
       \<and> list_all (terminator_text \<circ> snd) segs
       \<and> statements = filter (\<lambda>x. x \<noteq> []) (map (TrimSpace \<circ> fst) segs)
       \<and> (remainder = [] \<or> findStatementTerminator remainder = None)"
proof (induction sql rule: splitStatements.induct)
  case (1 sql)
  show ?case
  proof (cases "findStatementTerminator sql")
    case None
    then show ?thesis by (subst splitStatements.simps) (auto intro!: exI [of _ "[]"])
  next
    case (Some trm)
    then have ne: "sql \<noteq> []" using terminator_shorter by force
    obtain ss r where rec: "splitStatements (nextStart trm) = (ss, r)" by fastforce
    obtain x where x: "statementEnd trm = x @ nextStart trm" "terminator_text x" "rest_of sql (statementEnd trm)"
      using terminator_cases [OF Some] by blast
    obtain segs where segs: "nextStart trm = concat (map (\<lambda>(x, t). x @ t) segs) @ r"
      "list_all (terminator_text \<circ> snd) segs" "ss = filter (\<lambda>x. x \<noteq> []) (map (TrimSpace \<circ> fst) segs)"
      "r = [] \<or> findStatementTerminator r = None"
      using "1.IH" [OF ne Some refl] rec by (simp only: prod.case) blast
    let ?seg = "(slice sql (statementEnd trm), x)"
    have "sql = concat (map (\<lambda>(x, t). x @ t) (?seg # segs)) @ r"
      using slice_append [OF x(3)] x(1) segs(1) by simp
    then show ?thesis
      using x(2) segs(2-4) rec ne Some
      by (subst splitStatements.simps) (auto simp: Let_def intro!: exI [of _ "?seg # segs"])
  qed
qed

section \<open>The scanner and the lexical grammar\<close>

text \<open>The lexical elements of a statement, and how each is written.\<close>

datatype sql_piece = Plain char | Literal string | Identifier string | LineComment string | BlockComment string

definition doubled :: "char \<Rightarrow> string \<Rightarrow> string" where
  "doubled q s = concat (map (\<lambda>c. if c = q then [q, q] else [c]) s)"

fun written :: "sql_piece \<Rightarrow> string" where
  "written (Plain c) = [c]"
| "written (Literal s) = squote # doubled squote s @ [squote]"
| "written (Identifier s) = dquote # doubled dquote s @ [dquote]"
| "written (LineComment s) = ''--'' @ s @ [newline]"
| "written (BlockComment s) = ''/*'' @ s @ ''*/''"

fun piece_ok :: "sql_piece \<Rightarrow> bool" where
  "piece_ok (Plain c) = (c \<notin> {squote, dquote, CHR '';''})"
| "piece_ok (LineComment s) = (newline \<notin> set s)"
| "piece_ok (BlockComment s) = (\<not> Contains s ''*/'')"
| "piece_ok _ = True"

text \<open>Two elements next to each other stay two elements.\<close>

fun apart_from :: "sql_piece \<Rightarrow> string \<Rightarrow> bool" where
  "apart_from (Plain c) r = (r = [] \<or> \<not> (c = CHR ''-'' \<and> hd r = CHR ''-'') \<and> \<not> (c = CHR ''/'' \<and> hd r = CHR ''*''))"
| "apart_from (Literal _) r = (r = [] \<or> hd r \<noteq> squote)"
| "apart_from (Identifier _) r = (r = [] \<or> hd r \<noteq> dquote)"
| "apart_from _ r = True"

fun pieces_ok :: "sql_piece list \<Rightarrow> string \<Rightarrow> bool" where
  "pieces_ok [] r = True"
| "pieces_ok (p # ps) r = (piece_ok p \<and> apart_from p (concat (map written ps) @ r) \<and> pieces_ok ps r)"

lemmas scan_defs = zero_scan_def consumeLineComment_def consumeBlockComment_def consumeSingleQuote_def
  consumeDoubleQuote_def consumeDefault_def second_is_def

lemma scan_literal:
  assumes "r = [] \<or> hd r \<noteq> squote"
  shows "semicolon_loop (zero_scan\<lparr>inSingleQuotes := True\<rparr>) (doubled squote s @ squote # r) = semicolon_loop zero_scan r"
proof (induction s)
  case Nil
  then show ?case using assms by (cases r) (auto simp: scan_defs doubled_def)
next
  case (Cons c s)
  then show ?case by (auto simp: scan_defs doubled_def)
qed

lemma scan_identifier:
  assumes "r = [] \<or> hd r \<noteq> dquote"
  shows "semicolon_loop (zero_scan\<lparr>inDoubleQuotes := True\<rparr>) (doubled dquote s @ dquote # r) = semicolon_loop zero_scan r"
proof (induction s)
  case Nil
  then show ?case using assms by (cases r) (auto simp: scan_defs doubled_def)
next
  case (Cons c s)
  then show ?case by (auto simp: scan_defs doubled_def)
qed

lemma scan_line_comment:
  "newline \<notin> set s \<Longrightarrow>
     semicolon_loop (zero_scan\<lparr>inLineComment := True\<rparr>) (s @ newline # r) = semicolon_loop zero_scan r"
  by (induction s) (auto simp: scan_defs)

lemma scan_block_comment:
  "\<not> Contains s ''*/'' \<Longrightarrow>
     semicolon_loop (zero_scan\<lparr>inBlockComment := True\<rparr>) (s @ ''*/'' @ r) = semicolon_loop zero_scan r"
proof (induction s)
  case (Cons c s)
  have tail: "\<not> Contains s ''*/''" and head: "\<not> HasPrefix (c # s) ''*/''"
    using Cons.prems by (auto simp: Contains_def split: if_splits)
  have "\<not> (c = CHR ''*'' \<and> second_is (c # s @ ''*/'' @ r) CHR ''/'')"
    using head by (cases s) (auto simp: HasPrefix_def second_is_def)
  then show ?case using Cons.IH [OF tail] by (auto simp: scan_defs)
qed (simp add: scan_defs)

lemma scan_piece:
  assumes "piece_ok p" and "apart_from p r"
  shows "semicolon_loop zero_scan (written p @ r) = semicolon_loop zero_scan r"
proof (cases p)
  case (Plain c)
  then show ?thesis using assms by (cases r) (auto simp: scan_defs)
next
  case (Literal s)
  then show ?thesis using assms(2) scan_literal [of r s] by (auto simp: scan_defs)
next
  case (Identifier s)
  then show ?thesis using assms(2) scan_identifier [of r s] by (auto simp: scan_defs)
next
  case (LineComment s)
  then show ?thesis using assms(1) scan_line_comment [of s r] by (auto simp: scan_defs)
next
  case (BlockComment s)
  then show ?thesis using assms(1) scan_block_comment [of s r] by (auto simp: scan_defs)
qed

lemma scan_pieces:
  "pieces_ok ps r \<Longrightarrow> semicolon_loop zero_scan (concat (map written ps) @ r) = semicolon_loop zero_scan r"
  by (induction ps) (auto simp: scan_piece)

text \<open>C33: the scanner agrees with the lexical grammar: a text that is a sequence of plain bytes, string
  literals, quoted identifiers and comments, whatever semicolons, quotes and dashes these contain,
  has no terminator inside; a semicolon that follows it is the terminator found.\<close>

theorem scanner_respects_grammar:
  assumes "pieces_ok ps ('';'' @ r)" and "pieces_ok ps []"
  shows "findSemicolonTerminator (concat (map written ps) @ '';'' @ r)
      = Some \<lparr>statementEnd = '';'' @ r, nextStart = r\<rparr>
    \<and> findSemicolonTerminator (concat (map written ps)) = None"
  using scan_pieces [OF assms(1)] scan_pieces [OF assms(2)]
  by (simp add: findSemicolonTerminator_def scan_defs)

theorem scanner_respects_grammar_witness:
  "findSemicolonTerminator ([squote] @ ''a;'' @ [squote, squote] @ ''b'' @ [squote] @ ''/* ; */; x'')
     = Some \<lparr>statementEnd = ''; x'', nextStart = '' x''\<rparr>"
proof -
  let ?ps = "[Literal (''a;'' @ [squote] @ ''b''), BlockComment '' ; '']"
  have "pieces_ok ?ps ('';'' @ '' x'')" "pieces_ok ?ps []" by code_simp+
  then show ?thesis using scanner_respects_grammar [of ?ps "'' x''"] by (simp add: doubled_def)
qed

end
