(* ===== verification/Sql_Session.thy ===== *)
theory Sql_Session
  imports Sql_Shell
begin

text \<open>
  Sessions of the SQL shell: the loop \<open>run\<close> that reads lines and executes a statement as soon as
  its terminator was read, and \<open>runStatements\<close>, which executes a whole text. That both execute the
  same statements rests on the stability of a terminator that was found: more lines do not move it.
\<close>

section \<open>Running statements\<close>

definition nonInteractiveStatements :: "string \<Rightarrow> string list" where
  "nonInteractiveStatements sql =
     (case splitStatements sql of
        (statements, remainder) \<Rightarrow>
          (let trailing = TrimSpace remainder in if trailing \<noteq> [] then statements @ [trailing] else statements))"

text \<open>\<open>processInput\<close> is the callback; the first component of the result is what it was called with.\<close>

fun run_all :: "(string \<Rightarrow> 'e option) \<Rightarrow> string list \<Rightarrow> string list \<times> 'e option" where
  "run_all processInput [] = ([], None)"
| "run_all processInput (s # ss) =
     (case processInput (TrimSpace s) of
        Some e \<Rightarrow> ([TrimSpace s], Some e)
      | None \<Rightarrow> (case run_all processInput ss of (done, r) \<Rightarrow> (TrimSpace s # done, r)))"

definition runStatements :: "string \<Rightarrow> (string \<Rightarrow> 'e option) \<Rightarrow> string list \<times> 'e option" where
  "runStatements sql processInput = run_all processInput (nonInteractiveStatements sql)"

datatype readline_result = Line string | ErrInterrupt | EOF | ReadError string

definition exitCommand :: string where "exitCommand = ''exit''"

definition processInputSemicolonMode :: "string \<Rightarrow> string \<Rightarrow> string list \<times> string" where
  "processInputSemicolonMode line pendingStatementBuf =
     (let buf = (if pendingStatementBuf \<noteq> [] then pendingStatementBuf @ [newline] else pendingStatementBuf) @ line in
      case splitStatements buf of (statements, remainder) \<Rightarrow> (map TrimSpace statements, remainder))"

definition handleEOF :: "string \<Rightarrow> string list" where
  "handleEOF pendingStatementBuf =
     (let remaining = TrimSpace pendingStatementBuf in if remaining = [] then [] else [remaining])"

text \<open>The statements passed to the callback, whose errors are only logged, and the error returned. The
  reader is the list of its results; after the last one it reports the end of the input.\<close>

fun shell_run :: "bool \<Rightarrow> readline_result list \<Rightarrow> string \<Rightarrow> string list \<times> string option" where
  "shell_run onSemicolon [] pending = (handleEOF pending, None)"
| "shell_run onSemicolon (EOF # rs) pending = (handleEOF pending, None)"
| "shell_run onSemicolon (ErrInterrupt # rs) pending = shell_run onSemicolon rs pending"
| "shell_run onSemicolon (ReadError e # rs) pending = ([], Some e)"
| "shell_run onSemicolon (Line line # rs) pending =
     (if TrimSpace line = exitCommand \<and> TrimSpace pending = [] then ([], None)
      else if \<not> onSemicolon then
        (case shell_run onSemicolon rs pending of (done, err) \<Rightarrow> (TrimSpace line # done, err))
      else
        (case processInputSemicolonMode line pending of
           (now, pending') \<Rightarrow> (case shell_run onSemicolon rs pending' of (done, err) \<Rightarrow> (now @ done, err))))"

section \<open>A found semicolon does not move\<close>

definition extended :: "string \<Rightarrow> terminator \<Rightarrow> terminator" where
  "extended x trm = \<lparr>statementEnd = statementEnd trm @ x, nextStart = nextStart trm @ x\<rparr>"

lemma second_is_append: "cs \<noteq> [] \<Longrightarrow> second_is (c # cs @ x) d = second_is (c # cs) d"
  by (cases cs) (simp_all add: second_is_def)

lemma consume_append:
  assumes "cs \<noteq> []"
  shows "consumeLineComment st (c # cs @ x) = consumeLineComment st (c # cs)"
    and "consumeBlockComment st (c # cs @ x) = consumeBlockComment st (c # cs)"
    and "consumeSingleQuote st (c # cs @ x) = consumeSingleQuote st (c # cs)"
    and "consumeDoubleQuote st (c # cs @ x) = consumeDoubleQuote st (c # cs)"
    and "consumeDefault st (c # cs @ x) =
      (case consumeDefault st (c # cs) of (st', t, k) \<Rightarrow> (st', map_option (extended x) t, k))"
  using second_is_append [OF assms, of c x]
  by (auto simp: consumeLineComment_def consumeBlockComment_def consumeSingleQuote_def consumeDoubleQuote_def
      consumeDefault_def extended_def)

lemma consume_skip:
  "consumeLineComment st s = (st', k) \<Longrightarrow> k \<le> 1" "consumeBlockComment st s = (st', k) \<Longrightarrow> k \<le> 1"
  "consumeSingleQuote st s = (st', k) \<Longrightarrow> k \<le> 1" "consumeDoubleQuote st s = (st', k) \<Longrightarrow> k \<le> 1"
  "consumeDefault st s = (st', t, k) \<Longrightarrow> k \<le> 1"
  by (auto simp: consumeLineComment_def consumeBlockComment_def consumeSingleQuote_def consumeDoubleQuote_def
      consumeDefault_def split: if_splits)

lemma drop_append_short: "k \<le> 1 \<Longrightarrow> cs \<noteq> [] \<Longrightarrow> drop k (cs @ x) = drop k cs @ x"
  by (cases cs) (auto simp: le_Suc_eq)

lemma semicolon_single:
  "semicolon_loop st [c] = Some trm \<Longrightarrow>
     c = CHR '';'' \<and> trm = \<lparr>statementEnd = [c], nextStart = []\<rparr>
     \<and> \<not> inLineComment st \<and> \<not> inBlockComment st \<and> \<not> inSingleQuotes st \<and> \<not> inDoubleQuotes st"
  by (auto simp: consumeDefault_def split: if_splits prod.splits option.splits)

lemma semicolon_append:
  "semicolon_loop st s = Some trm \<Longrightarrow> semicolon_loop st (s @ x) = Some (extended x trm)"
proof (induction st s rule: semicolon_loop.induct)
  case (2 st c cs)
  show ?case
  proof (cases "cs = []")
    case True
    with "2.prems" have s: "semicolon_loop st [c] = Some trm" by (simp only: True)
    note single = semicolon_single [OF s]
    then show ?thesis using True by (simp add: consumeDefault_def extended_def second_is_def)
  next
    case False
    note app = consume_append [OF False] drop_append_short [OF _ False]
    consider "inLineComment st" | "\<not> inLineComment st" "inBlockComment st"
      | "\<not> inLineComment st" "\<not> inBlockComment st" "inSingleQuotes st"
      | "\<not> inLineComment st" "\<not> inBlockComment st" "\<not> inSingleQuotes st" "inDoubleQuotes st"
      | "\<not> inLineComment st" "\<not> inBlockComment st" "\<not> inSingleQuotes st" "\<not> inDoubleQuotes st" by blast
    then show ?thesis
    proof cases
      case 1
      obtain st' k where e: "consumeLineComment st (c # cs) = (st', k)" by fastforce
      show ?thesis using "2.IH"(1) [OF 1 e [symmetric]] "2.prems" 1 e app(1,6) consume_skip(1) [OF e] by simp
    next
      case 2
      obtain st' k where e: "consumeBlockComment st (c # cs) = (st', k)" by fastforce
      show ?thesis using "2.IH"(2) [OF 2 e [symmetric]] "2.prems" 2 e app(2,6) consume_skip(2) [OF e] by simp
    next
      case 3
      obtain st' k where e: "consumeSingleQuote st (c # cs) = (st', k)" by fastforce
      show ?thesis using "2.IH"(3) [OF 3 e [symmetric]] "2.prems" 3 e app(3,6) consume_skip(3) [OF e] by simp
    next
      case 4
      obtain st' k where e: "consumeDoubleQuote st (c # cs) = (st', k)" by fastforce
      show ?thesis using "2.IH"(4) [OF 4 e [symmetric]] "2.prems" 4 e app(4,6) consume_skip(4) [OF e] by simp
    next
      case 5
      obtain st' t k where e: "consumeDefault st (c # cs) = (st', t, k)" by (metis prod_cases3)
      show ?thesis
        using "2.IH"(5) [OF 5 e [symmetric]] "2.prems" 5 e app(5,6) consume_skip(5) [OF e]
        by (cases t) simp_all
    qed
  qed
qed simp

section \<open>Tokens and longer texts\<close>

lemma scan_Nil [simp]: "token_end [] = []" "skipSpaceAndComments [] = []" "findScriptTerminator [] = None"
  by (subst token_end.simps skipSpaceAndComments.simps findScriptTerminator.simps, simp)+

lemma Contains_Cons: "Contains (c # s) p \<longleftrightarrow> HasPrefix (c # s) p \<or> Contains s p"
  by (simp add: Contains_def)

lemma Contains_rest: "rest_of s r \<Longrightarrow> Contains r p \<Longrightarrow> Contains s p"
proof -
  have "Contains (u @ r) p" if "Contains r p" for u
    using that by (induction u) (simp_all add: Contains_Cons)
  then show "rest_of s r \<Longrightarrow> Contains r p \<Longrightarrow> Contains s p" by (auto simp: rest_of_def)
qed

lemma IndexByte_append_Some: "IndexByte s c = Some k \<Longrightarrow> IndexByte (s @ x) c = Some k"
  by (induction s arbitrary: k) (auto split: if_splits)

lemma HasPrefix_append_long: "length p \<le> length s \<Longrightarrow> HasPrefix (s @ x) p = HasPrefix s p"
  by (simp add: HasPrefix_def)

lemma Index_append_Some: "Index s p = Some k \<Longrightarrow> Index (s @ x) p = Some k"
proof (induction s arbitrary: k)
  case Nil
  then show ?case by (cases x) (auto simp: HasPrefix_def split: if_splits)
next
  case (Cons c s)
  show ?case
  proof (cases "HasPrefix (c # s) p")
    case True
    then have "HasPrefix ((c # s) @ x) p" unfolding HasPrefix_iff by (metis append_assoc)
    then show ?thesis using True Cons.prems by simp
  next
    case False
    then obtain j where j: "Index s p = Some j" "k = Suc j" using Cons.prems by auto
    have "length p \<le> length (c # s)" using Index_Some [OF j(1)] by simp
    then have "\<not> HasPrefix ((c # s) @ x) p" using HasPrefix_append_long False by blast
    then show ?thesis using Cons.IH [OF j(1)] j(2) by simp
  qed
qed

lemma skipQuoted_loop_append:
  "skipQuoted_loop q s \<noteq> [] \<Longrightarrow> skipQuoted_loop q (s @ x) = skipQuoted_loop q s @ x"
proof (induction q s rule: skipQuoted_loop.induct)
  case (2 q c cs)
  then show ?case by (cases cs) auto
qed simp

lemma separator_append: "isTokenSeparator s \<Longrightarrow> s \<noteq> [] \<Longrightarrow> isTokenSeparator (s @ x)"
  by (auto simp: isTokenSeparator_def HasPrefix_iff)

lemma not_separator_append:
  "\<not> isTokenSeparator s \<Longrightarrow> 2 \<le> length s \<Longrightarrow> \<not> isTokenSeparator (s @ x)"
  by (cases s) (auto simp: isTokenSeparator_def HasPrefix_def)

lemma token_end_append: "token_end s \<noteq> [] \<Longrightarrow> token_end (s @ x) = token_end s @ x"
proof (induction s rule: token_end.induct)
  case (1 s)
  show ?case
  proof (cases "s = [] \<or> isTokenSeparator s")
    case True
    then have "token_end s = s" by (subst token_end.simps) auto
    moreover from this have "token_end (s @ x) = s @ x"
      using True "1.prems" separator_append [of s x] by (subst token_end.simps) auto
    ultimately show ?thesis by simp
  next
    case False
    then have s: "s \<noteq> []" "\<not> isTokenSeparator s" by auto
    show ?thesis
    proof (cases "hd s = squote \<or> hd s = dquote")
      case True
      then have te: "token_end s = token_end (skipQuoted s)" using s by (subst token_end.simps) simp
      then have ne: "skipQuoted s \<noteq> []" using "1.prems" by auto
      then have "tl s \<noteq> []" by (auto simp: skipQuoted_def)
      then have "2 \<le> length s" by (cases s; cases "tl s") auto
      then have "token_end (s @ x) = token_end (skipQuoted s @ x)"
        using True s not_separator_append [of s x] ne skipQuoted_loop_append [of "hd s" "tl s" x]
        by (subst token_end.simps) (simp add: skipQuoted_def)
      then show ?thesis using "1.IH"(1) [OF False True] te "1.prems" by simp
    next
      case plain: False
      then have te: "token_end s = token_end (tl s)" using s by (subst token_end.simps) simp
      then have "tl s \<noteq> []" using "1.prems" by auto
      then have "2 \<le> length s" by (cases s; cases "tl s") auto
      then have "token_end (s @ x) = token_end (tl s @ x)"
        using plain s not_separator_append [of s x] by (subst token_end.simps) simp
      then show ?thesis using "1.IH"(2) [OF False plain] te "1.prems" by simp
    qed
  qed
qed

lemma prefix2_newline: "s \<noteq> [] \<Longrightarrow> d \<noteq> newline \<Longrightarrow> HasPrefix (s @ newline # b) [c, d] = HasPrefix s [c, d]"
  by (cases s; cases "tl s") (auto simp: HasPrefix_def)

lemma skipSpace_append:
  "skipSpaceAndComments s \<noteq> [] \<Longrightarrow> skipSpaceAndComments (s @ newline # b) = skipSpaceAndComments s @ newline # b"
proof (induction s rule: skipSpaceAndComments.induct)
  case (1 s)
  have s: "s \<noteq> []" using "1.prems" by auto
  note pre = prefix2_newline [OF s, of "CHR ''-''" b "CHR ''-''"] prefix2_newline [OF s, of "CHR ''*''" b "CHR ''/''"]
  consider "isSpaceByte (hd s)" | "\<not> isSpaceByte (hd s)" "HasPrefix s ''--''"
    | "\<not> isSpaceByte (hd s)" "\<not> HasPrefix s ''--''" "HasPrefix s ''/*''"
    | "\<not> isSpaceByte (hd s)" "\<not> HasPrefix s ''--''" "\<not> HasPrefix s ''/*''" by blast
  then show ?case
  proof cases
    case 1
    then have "skipSpaceAndComments s = skipSpaceAndComments (tl s)"
      and "skipSpaceAndComments (s @ newline # b) = skipSpaceAndComments (tl s @ newline # b)"
      using s by (subst skipSpaceAndComments.simps, simp)+
    then show ?thesis using "1.IH"(1) [OF s 1] "1.prems" by simp
  next
    case 2
    obtain k where k: "IndexByte s newline = Some k"
      using 2 s "1.prems" by (subst (asm) skipSpaceAndComments.simps) (auto split: option.splits)
    have "skipSpaceAndComments s = skipSpaceAndComments (drop (k + 1) s)"
      and "skipSpaceAndComments (s @ newline # b) = skipSpaceAndComments (drop (k + 1) s @ newline # b)"
      using 2 s k pre IndexByte_append_Some [OF k] IndexByte_Some [OF k]
      by (subst skipSpaceAndComments.simps, simp)+
    then show ?thesis using "1.IH"(2) [OF s 2 k] "1.prems" by simp
  next
    case 3
    obtain k where k: "Index s ''*/'' = Some k"
      using 3 s "1.prems" by (subst (asm) skipSpaceAndComments.simps) (auto split: option.splits)
    have "skipSpaceAndComments s = skipSpaceAndComments (drop (k + 2) s)"
      and "skipSpaceAndComments (s @ newline # b) = skipSpaceAndComments (drop (k + 2) s @ newline # b)"
      using 3 s k pre Index_append_Some [OF k] Index_Some [OF k]
      by (subst skipSpaceAndComments.simps, simp)+
    then show ?thesis using "1.IH"(3) [OF s 3 k] "1.prems" by simp
  next
    case 4
    then show ?thesis using s pre by (subst (1 2) skipSpaceAndComments.simps) simp
  qed
qed

lemma nextToken_append:
  assumes "nextToken s = (token, r)" and "skipSpaceAndComments s \<noteq> []" and "r \<noteq> []"
  shows "nextToken (s @ newline # b) = (token, r @ newline # b)"
proof -
  let ?start = "skipSpaceAndComments s"
  have r: "r = token_end ?start" using assms(1) by (auto simp: nextToken_def Let_def split: if_splits)
  have start: "skipSpaceAndComments (s @ newline # b) = ?start @ newline # b" using skipSpace_append [OF assms(2)] .
  have "token_end (?start @ newline # b) = r @ newline # b" using token_end_append [of ?start "newline # b"] assms(3) r by simp
  moreover have "slice (?start @ newline # b) (r @ newline # b) = slice ?start r"
    using rest_of_length [OF token_end_rest [of ?start]] r by (simp add: slice_def)
  ultimately show ?thesis
    using assms(1) start r by (auto simp: nextToken_def Let_def split: if_splits)
qed

lemma nextToken_start: "nextToken s = (token, r) \<Longrightarrow> token \<noteq> [] \<Longrightarrow> skipSpaceAndComments s \<noteq> []"
  by (auto simp: nextToken_def Let_def split: if_splits)

lemma keyword_follows_Nil [simp]: "\<not> script_keyword_follows []"
  by (subst script_keyword_follows.simps) (simp add: nextToken_def)

section \<open>A script stays a script\<close>

lemma upper_char_letter: "is_letter (upper_char c) = is_letter c"
  by (auto simp: is_letter_def upper_char_def is_upper_def is_lower_def)

lemma keyword_letters: "ToUpper s \<in> set scriptBodyKeywords \<Longrightarrow> list_all is_letter s"
proof -
  assume "ToUpper s \<in> set scriptBodyKeywords"
  moreover have "list_all is_letter k" if "k \<in> set scriptBodyKeywords" for k
    using that unfolding scriptBodyKeywords_def by (auto simp: is_letter_def is_upper_def)
  ultimately have "list_all is_letter (ToUpper s)" by blast
  then show "list_all is_letter s" by (simp add: ToUpper_def list_all_iff upper_char_letter)
qed

lemma letter_not_separator:
  "is_letter c \<Longrightarrow> \<not> isTokenSeparator (c # s) \<and> c \<noteq> squote \<and> c \<noteq> dquote"
  by (auto simp: isTokenSeparator_def isSpaceByte_def HasPrefix_def is_letter_def is_upper_def is_lower_def)

lemma token_end_letters: "list_all is_letter s \<Longrightarrow> token_end (s @ newline # b) = newline # b"
proof (induction s)
  case Nil
  then show ?case by (subst token_end.simps) (simp add: isTokenSeparator_def isSpaceByte_def)
next
  case (Cons c s)
  then show ?case
    using letter_not_separator [of c "s @ newline # b"] by (subst token_end.simps) simp
qed

lemma keyword_at_end:
  assumes "nextToken s = (token, [])" and "token \<in> set scriptBodyKeywords"
  shows "nextToken (s @ newline # b) = (token, newline # b)"
proof -
  let ?start = "skipSpaceAndComments s"
  have ne: "token \<noteq> []" using assms(2) by (auto simp: scriptBodyKeywords_def)
  then have start: "?start \<noteq> []" using nextToken_start [OF assms(1)] by simp
  have token: "token = ToUpper ?start"
    using assms(1) ne by (auto simp: nextToken_def Let_def slice_def split: if_splits)
  then have "token_end (?start @ newline # b) = newline # b"
    using token_end_letters [OF keyword_letters] assms(2) by simp
  then show ?thesis
    using skipSpace_append [OF start] start token by (simp add: nextToken_def Let_def slice_def)
qed

lemma keyword_follows_append: "script_keyword_follows s \<Longrightarrow> script_keyword_follows (s @ newline # b)"
proof (induction s rule: script_keyword_follows.induct)
  case (1 s)
  obtain token r where n: "nextToken s = (token, r)" by fastforce
  have t: "token \<noteq> []" "token \<noteq> ''AS''"
    using "1.prems" n by (subst (asm) script_keyword_follows.simps, auto split: if_splits)+
  show ?case
  proof (cases "token \<in> set scriptBodyKeywords")
    case True
    obtain r' where "nextToken (s @ newline # b) = (token, r')"
      using True n t keyword_at_end [of s token b] nextToken_append [OF n nextToken_start [OF n t(1)]]
      by (cases "r = []") auto
    then show ?thesis using True t by (subst script_keyword_follows.simps) simp
  next
    case False
    then have f: "script_keyword_follows r"
      using "1.prems" n t by (subst (asm) script_keyword_follows.simps) simp
    then have "r \<noteq> []" by auto
    then have "nextToken (s @ newline # b) = (token, r @ newline # b)"
      using nextToken_append [OF n nextToken_start [OF n t(1)]] by simp
    moreover have "script_keyword_follows (r @ newline # b)" using "1.IH" [OF n [symmetric]] f t False by simp
    ultimately show ?thesis using t False by (subst script_keyword_follows.simps) simp
  qed
qed

lemma looks_like_append: "looksLikeScriptDDL s \<Longrightarrow> looksLikeScriptDDL (s @ newline # b)"
proof -
  assume l: "looksLikeScriptDDL s"
  obtain token r where n: "nextToken s = (token, r)" by fastforce
  with l have t: "token = ''CREATE''" "script_keyword_follows r" by (auto simp: looksLikeScriptDDL_def split: if_splits)
  then have "r \<noteq> []" by auto
  then have "nextToken (s @ newline # b) = (token, r @ newline # b)"
    using nextToken_append [OF n nextToken_start [OF n]] t(1) by simp
  then show ?thesis using t keyword_follows_append by (simp add: looksLikeScriptDDL_def)
qed

lemma script_terminator_append:
  "findScriptTerminator s = Some trm \<Longrightarrow>
     \<exists>y. findScriptTerminator (s @ newline # b) = Some \<lparr>statementEnd = statementEnd trm @ newline # b, nextStart = y\<rparr>
       \<and> (y = nextStart trm @ newline # b \<or> nextStart trm = [] \<and> y = b)"
proof (induction s rule: findScriptTerminator.induct)
  case (1 s)
  have s: "s \<noteq> []" using "1.prems" by auto
  show ?case
  proof (cases "IndexByte s newline")
    case None
    then have slash: "TrimSpace s = ''/''" "trm = \<lparr>statementEnd = s, nextStart = []\<rparr>"
      using "1.prems" s by (subst (asm) findScriptTerminator.simps, auto split: if_splits)+
    have "IndexByte (s @ newline # b) newline = Some (length s)"
      using None by (simp add: IndexByte_None IndexByte_append)
    then show ?thesis using slash s by (subst findScriptTerminator.simps) simp
  next
    case (Some k)
    note k = IndexByte_Some [OF Some] IndexByte_append_Some [OF Some, of "newline # b"]
    show ?thesis
    proof (cases "TrimSpace (take k s) = ''/''")
      case True
      then have "trm = \<lparr>statementEnd = s, nextStart = drop (k + 1) s\<rparr>"
        using "1.prems" Some s by (subst (asm) findScriptTerminator.simps) simp
      then show ?thesis using True s k by (subst findScriptTerminator.simps) simp
    next
      case False
      then have "findScriptTerminator (drop (k + 1) s) = Some trm"
        using "1.prems" Some s by (subst (asm) findScriptTerminator.simps) simp
      moreover have "findScriptTerminator (s @ newline # b) = findScriptTerminator (drop (k + 1) s @ newline # b)"
        using False s k by (subst findScriptTerminator.simps) simp
      ultimately show ?thesis using "1.IH" [OF s Some False] by simp
    qed
  qed
qed

section \<open>A finished statement stays finished\<close>

abbreviation no_star_trick :: "string \<Rightarrow> bool" where
  "no_star_trick s \<equiv> \<not> Contains s ''/*/''"

lemma scan_plain:
  assumes "c \<notin> {squote, dquote, CHR '';''}" and "\<not> HasPrefix (c # cs) ''--''" and "\<not> HasPrefix (c # cs) ''/*''"
  shows "semicolon_loop zero_scan (c # cs) = semicolon_loop zero_scan cs"
  using assms by (cases cs) (auto simp: scan_defs HasPrefix_def)

lemma scan_to_newline:
  "semicolon_loop (zero_scan\<lparr>inLineComment := True\<rparr>) s =
     (case IndexByte s newline of None \<Rightarrow> None | Some k \<Rightarrow> semicolon_loop zero_scan (drop (Suc k) s))"
  by (induction s) (auto simp: scan_defs split: option.split)

lemma scan_to_star_slash:
  "semicolon_loop (zero_scan\<lparr>inBlockComment := True\<rparr>) s =
     (case Index s ''*/'' of None \<Rightarrow> None | Some k \<Rightarrow> semicolon_loop zero_scan (drop (k + 2) s))"
proof (induction s)
  case (Cons c s)
  show ?case
  proof (cases "HasPrefix (c # s) ''*/''")
    case True
    then obtain r where "c # s = ''*/'' @ r" by (auto simp: HasPrefix_iff)
    then show ?thesis by (auto simp: scan_defs HasPrefix_def)
  next
    case False
    then have "\<not> (c = CHR ''*'' \<and> second_is (c # s) CHR ''/'')"
      by (cases s) (auto simp: HasPrefix_def second_is_def)
    then show ?thesis using Cons False by (auto simp: scan_defs split: option.split)
  qed
qed simp

lemma scan_quoted:
  "semicolon_loop (zero_scan\<lparr>inSingleQuotes := True\<rparr>) s = semicolon_loop zero_scan (skipQuoted_loop squote s)"
  "semicolon_loop (zero_scan\<lparr>inDoubleQuotes := True\<rparr>) s = semicolon_loop zero_scan (skipQuoted_loop dquote s)"
proof -
  show "semicolon_loop (zero_scan\<lparr>inSingleQuotes := True\<rparr>) s = semicolon_loop zero_scan (skipQuoted_loop squote s)"
    by (induction squote s rule: skipQuoted_loop.induct) (auto simp: scan_defs split: list.splits)
  show "semicolon_loop (zero_scan\<lparr>inDoubleQuotes := True\<rparr>) s = semicolon_loop zero_scan (skipQuoted_loop dquote s)"
    by (induction dquote s rule: skipQuoted_loop.induct) (auto simp: scan_defs split: list.splits)
qed

lemma Index_after_open:
  assumes "HasPrefix s ''/*''" and "no_star_trick s"
  shows "Index s ''*/'' = map_option (\<lambda>k. k + 2) (Index (drop 2 s) ''*/'')"
proof -
  obtain r where r: "s = ''/*'' @ r" using assms(1) by (auto simp: HasPrefix_iff)
  have "\<not> HasPrefix (CHR ''*'' # r) ''*/''"
    using assms(2) r by (cases r) (auto simp: Contains_Cons HasPrefix_def)
  then show ?thesis using r by (simp add: HasPrefix_def option.map_comp comp_def)
qed

lemma scan_skip_space:
  "no_star_trick s \<Longrightarrow> semicolon_loop zero_scan (skipSpaceAndComments s) = semicolon_loop zero_scan s"
proof (induction s rule: skipSpaceAndComments.induct)
  case (1 s)
  show ?case
  proof (cases "s = []")
    case s: False
    have rest: "no_star_trick (drop n s)" for n using "1.prems" Contains_rest rest_of_drop by blast
    consider "isSpaceByte (hd s)" | "\<not> isSpaceByte (hd s)" "HasPrefix s ''--''"
      | "\<not> isSpaceByte (hd s)" "\<not> HasPrefix s ''--''" "HasPrefix s ''/*''"
      | "\<not> isSpaceByte (hd s)" "\<not> HasPrefix s ''--''" "\<not> HasPrefix s ''/*''" by blast
    then show ?thesis
    proof cases
      case 1
      then have "semicolon_loop zero_scan s = semicolon_loop zero_scan (tl s)"
        using s scan_plain [of "hd s" "tl s"] by (cases s) (auto simp: isSpaceByte_def HasPrefix_def)
      moreover have "skipSpaceAndComments s = skipSpaceAndComments (tl s)"
        using s 1 by (subst skipSpaceAndComments.simps) simp
      ultimately show ?thesis using "1.IH"(1) [OF s 1] rest [of 1] by (simp add: drop_Suc)
    next
      case 2
      obtain r where r: "s = ''--'' @ r" using 2(2) by (auto simp: HasPrefix_iff)
      have scan: "semicolon_loop zero_scan s = (case IndexByte s newline of None \<Rightarrow> None
          | Some k \<Rightarrow> semicolon_loop zero_scan (drop (k + 1) s))"
        using r scan_to_newline [of r] by (auto simp: scan_defs split: option.split)
      then show ?thesis
        using s 2 "1.IH"(2) [OF s 2] rest by (subst skipSpaceAndComments.simps) (auto split: option.split)
    next
      case 3
      obtain r where r: "s = ''/*'' @ r" using 3(3) by (auto simp: HasPrefix_iff)
      have scan: "semicolon_loop zero_scan s = (case Index s ''*/'' of None \<Rightarrow> None
          | Some k \<Rightarrow> semicolon_loop zero_scan (drop (k + 2) s))"
        using r scan_to_star_slash [of r] Index_after_open [OF 3(3) "1.prems"]
        by (auto simp: scan_defs split: option.split)
      then show ?thesis
        using s 3 "1.IH"(3) [OF s 3] rest by (subst skipSpaceAndComments.simps) (auto split: option.split)
    next
      case 4
      then show ?thesis using s by (subst skipSpaceAndComments.simps) simp
    qed
  qed simp
qed

lemma scan_token: "semicolon_loop zero_scan (token_end s) = semicolon_loop zero_scan s"
proof (induction s rule: token_end.induct)
  case (1 s)
  show ?case
  proof (cases "s = [] \<or> isTokenSeparator s")
    case True
    then show ?thesis by (subst token_end.simps) auto
  next
    case False
    then obtain c cs where s: "s = c # cs" by (cases s) auto
    show ?thesis
    proof (cases "hd s = squote \<or> hd s = dquote")
      case True
      have "semicolon_loop zero_scan s = semicolon_loop zero_scan (skipQuoted s)"
        using True s scan_quoted [of cs] by (auto simp: scan_defs skipQuoted_def)
      then show ?thesis using "1.IH"(1) [OF False True] False True by (subst token_end.simps) simp
    next
      case plain: False
      have "semicolon_loop zero_scan s = semicolon_loop zero_scan (tl s)"
        using s plain False scan_plain [of c cs] by (auto simp: isTokenSeparator_def)
      then show ?thesis using "1.IH"(2) [OF False plain] False plain by (subst token_end.simps) simp
    qed
  qed
qed

lemma nextToken_scan:
  assumes "nextToken s = (token, r)" and "no_star_trick s"
  shows "semicolon_loop zero_scan r = semicolon_loop zero_scan s" and "no_star_trick r"
    and "semicolon_loop zero_scan s \<noteq> None \<Longrightarrow> nextToken (s @ newline # b) = (token, r @ newline # b)"
proof -
  have r: "r = token_end (skipSpaceAndComments s)"
    using assms(1) by (auto simp: nextToken_def Let_def split: if_splits)
  show scan: "semicolon_loop zero_scan r = semicolon_loop zero_scan s"
    using r scan_token scan_skip_space [OF assms(2)] by simp
  show "no_star_trick r" using assms Contains_rest nextToken_rest [of s] by (metis snd_conv)
  assume some: "semicolon_loop zero_scan s \<noteq> None"
  then have "r \<noteq> []" "skipSpaceAndComments s \<noteq> []" using scan scan_skip_space [OF assms(2)] by auto
  then show "nextToken (s @ newline # b) = (token, r @ newline # b)" using nextToken_append [OF assms(1)] by simp
qed

lemma keyword_follows_stable:
  "no_star_trick s \<Longrightarrow> semicolon_loop zero_scan s \<noteq> None \<Longrightarrow>
     script_keyword_follows (s @ newline # b) = script_keyword_follows s"
proof (induction s rule: script_keyword_follows.induct)
  case (1 s)
  obtain token r where n: "nextToken s = (token, r)" by fastforce
  note scan = nextToken_scan [OF n "1.prems"(1)]
  have ih: "script_keyword_follows (r @ newline # b) = script_keyword_follows r"
    if "\<not> (token = [] \<or> token = ''AS'')" "token \<notin> set scriptBodyKeywords"
    using "1.IH" [OF n [symmetric] that] scan(1,2) "1.prems"(2) by simp
  show ?case
    using n scan(3) [OF "1.prems"(2), of b] ih
    by (subst (1 2) script_keyword_follows.simps) simp
qed

lemma looks_like_stable:
  assumes "no_star_trick s" and "semicolon_loop zero_scan s \<noteq> None"
  shows "looksLikeScriptDDL (s @ newline # b) = looksLikeScriptDDL s"
proof -
  obtain token r where n: "nextToken s = (token, r)" by fastforce
  note scan = nextToken_scan [OF n assms(1)]
  then show ?thesis
    using n scan(3) [OF assms(2), of b] keyword_follows_stable [of r b] assms(2) by (simp add: looksLikeScriptDDL_def)
qed

lemma terminator_stable:
  assumes "findStatementTerminator s = Some trm" and "no_star_trick s"
  shows "\<exists>y. findStatementTerminator (s @ newline # b)
      = Some \<lparr>statementEnd = statementEnd trm @ newline # b, nextStart = y\<rparr>
    \<and> (y = nextStart trm @ newline # b \<or> nextStart trm = [] \<and> y = b)"
proof (cases "looksLikeScriptDDL s")
  case True
  then show ?thesis
    using assms(1) script_terminator_append [of s trm b] looks_like_append [OF True, of b]
    by (simp add: findStatementTerminator_def)
next
  case False
  then have "semicolon_loop zero_scan s = Some trm"
    using assms(1) by (simp add: findStatementTerminator_def findSemicolonTerminator_def)
  then show ?thesis
    using False looks_like_stable [OF assms(2), of b] semicolon_append [of zero_scan s trm "newline # b"]
    by (simp add: findStatementTerminator_def findSemicolonTerminator_def extended_def)
qed

section \<open>Interactive and batch execution\<close>

definition some_statement :: "string \<Rightarrow> string list" where
  "some_statement s = (if TrimSpace s = [] then [] else [TrimSpace s])"

lemma statements_None:
  "findStatementTerminator s = None \<Longrightarrow> nonInteractiveStatements s = some_statement s"
  by (subst nonInteractiveStatements_def, subst splitStatements.simps)
    (simp add: some_statement_def TrimSpace_def Let_def)

lemma statements_Some:
  assumes "findStatementTerminator s = Some trm"
  shows "nonInteractiveStatements s = some_statement (slice s (statementEnd trm)) @ nonInteractiveStatements (nextStart trm)"
proof -
  have "s \<noteq> []" using terminator_shorter [OF assms] by auto
  then show ?thesis
    using assms unfolding nonInteractiveStatements_def
    by (subst splitStatements.simps) (simp add: some_statement_def Let_def split: prod.split)
qed

lemma statements_Nil [simp]: "nonInteractiveStatements [] = []"
  by (simp add: nonInteractiveStatements_def splitStatements.simps TrimSpace_def)

lemma TrimSpace_Cons_space: "is_space c \<Longrightarrow> TrimSpace (c # s) = TrimSpace s"
  by (simp add: TrimSpace_def)

lemma terminator_newline: "findStatementTerminator (newline # s) = findStatementTerminator s"
proof -
  have "skipSpaceAndComments (newline # s) = skipSpaceAndComments s"
    by (subst skipSpaceAndComments.simps) (simp add: isSpaceByte_def)
  then have "looksLikeScriptDDL (newline # s) = looksLikeScriptDDL s"
    by (simp add: looksLikeScriptDDL_def nextToken_def)
  moreover have "findScriptTerminator (newline # s) = findScriptTerminator s"
    by (subst findScriptTerminator.simps) (simp add: TrimSpace_def)
  moreover have "semicolon_loop zero_scan (newline # s) = semicolon_loop zero_scan s"
    by (rule scan_plain) (auto simp: HasPrefix_def)
  ultimately show ?thesis by (simp add: findStatementTerminator_def findSemicolonTerminator_def)
qed

lemma statements_newline: "nonInteractiveStatements (newline # s) = nonInteractiveStatements s"
proof (cases "findStatementTerminator s")
  case None
  then show ?thesis
    using statements_None [of s] statements_None [of "newline # s"] terminator_newline [of s]
    by (simp add: some_statement_def TrimSpace_Cons_space is_space_def)
next
  case (Some trm)
  then obtain p where p: "s = p @ statementEnd trm" using terminator_cases [OF Some] by (auto simp: rest_of_def)
  then have "slice (newline # s) (statementEnd trm) = newline # slice s (statementEnd trm)" by (simp add: slice_def)
  then show ?thesis
    using statements_Some [OF Some] statements_Some [of "newline # s" trm] terminator_newline [of s] Some
    by (simp add: some_statement_def TrimSpace_Cons_space is_space_def)
qed

lemma split_step:
  assumes "findStatementTerminator s = Some trm" and "splitStatements s = (ss, r)"
  obtains ss' where "splitStatements (nextStart trm) = (ss', r)" and "ss = some_statement (slice s (statementEnd trm)) @ ss'"
proof -
  have "s \<noteq> []" using terminator_shorter [OF assms(1)] by auto
  then show ?thesis
    using assms(2) that
    by (subst (asm) splitStatements.simps) (auto simp: assms(1) some_statement_def Let_def split: prod.splits if_splits)
qed

lemma split_remainder:
  "splitStatements s = (ss, r) \<Longrightarrow> findStatementTerminator r = None \<and> rest_of s r \<and> map TrimSpace ss = ss"
proof (induction s arbitrary: ss rule: splitStatements.induct)
  case (1 s)
  show ?case
  proof (cases "findStatementTerminator s")
    case None
    then have "ss = []" "r = s"
      using "1.prems" by (subst (asm) splitStatements.simps, auto split: if_splits)+
    then show ?thesis using None by simp
  next
    case (Some trm)
    obtain ss' where ss': "splitStatements (nextStart trm) = (ss', r)"
      "ss = some_statement (slice s (statementEnd trm)) @ ss'"
      using split_step [OF Some "1.prems"] .
    have ne: "s \<noteq> []" using terminator_shorter [OF Some] by auto
    have "rest_of s (nextStart trm)" using terminator_cases [OF Some] by (auto simp: rest_of_def)
    then show ?thesis
      using "1.IH" [OF ne Some refl ss'(1)] ss'(2) rest_of_trans by (auto simp: some_statement_def)
  qed
qed

lemma statements_of_split:
  "splitStatements s = (ss, r) \<Longrightarrow> nonInteractiveStatements s = ss @ some_statement r"
  by (simp add: nonInteractiveStatements_def some_statement_def Let_def)

lemma statements_continue:
  "splitStatements q = (ss, r) \<Longrightarrow> no_star_trick q \<Longrightarrow>
     nonInteractiveStatements (q @ newline # b) = ss @ nonInteractiveStatements (r @ newline # b)"
proof (induction q arbitrary: ss rule: splitStatements.induct)
  case (1 q)
  show ?case
  proof (cases "findStatementTerminator q")
    case None
    then have "ss = []" "r = q"
      using "1.prems"(1) by (subst (asm) splitStatements.simps, auto split: if_splits)+
    then show ?thesis by simp
  next
    case (Some trm)
    obtain ss' where ss': "splitStatements (nextStart trm) = (ss', r)"
      "ss = some_statement (slice q (statementEnd trm)) @ ss'"
      using split_step [OF Some "1.prems"(1)] .
    have ne: "q \<noteq> []" using terminator_shorter [OF Some] by auto
    obtain y where y: "findStatementTerminator (q @ newline # b)
        = Some \<lparr>statementEnd = statementEnd trm @ newline # b, nextStart = y\<rparr>"
      "y = nextStart trm @ newline # b \<or> nextStart trm = [] \<and> y = b"
      using terminator_stable [OF Some "1.prems"(2)] by blast
    obtain x p where x: "statementEnd trm = x @ nextStart trm" "q = p @ statementEnd trm"
      using terminator_cases [OF Some] by (auto simp: rest_of_def)
    then have same: "slice (q @ newline # b) (statementEnd trm @ newline # b) = slice q (statementEnd trm)"
      by (simp add: slice_def)
    have "no_star_trick (nextStart trm)"
      using "1.prems"(2) Contains_rest [of q "nextStart trm"] x by (auto simp: rest_of_def)
    then have "nonInteractiveStatements (nextStart trm @ newline # b) = ss' @ nonInteractiveStatements (r @ newline # b)"
      using "1.IH" [OF ne Some refl ss'(1)] by simp
    moreover have "nonInteractiveStatements y = nonInteractiveStatements (nextStart trm @ newline # b)"
      using y(2) statements_newline by auto
    ultimately show ?thesis using statements_Some [OF y(1)] same ss'(2) by simp
  qed
qed

definition following :: "string list \<Rightarrow> string" where
  "following ls = concat (map (\<lambda>l. newline # l) ls)"

lemma session_statements:
  assumes "findStatementTerminator pending = None" and "no_star_trick (pending @ following ls)"
    and "\<forall>l \<in> set ls. TrimSpace l \<noteq> exitCommand"
  shows "shell_run True (map Line ls) pending = (nonInteractiveStatements (pending @ following ls), None)"
  using assms
proof (induction ls arbitrary: pending)
  case Nil
  then show ?case using statements_None [of pending] by (simp add: following_def handleEOF_def some_statement_def Let_def)
next
  case (Cons l ls)
  define q where "q = (if pending \<noteq> [] then pending @ [newline] else pending) @ l"
  obtain ss r where split: "splitStatements q = (ss, r)" by fastforce
  note rem = split_remainder [OF split]
  have whole: "nonInteractiveStatements (pending @ following (l # ls)) = nonInteractiveStatements (q @ following ls)"
    using statements_newline [of "l @ following ls"] by (simp add: q_def following_def)
  have "rest_of (pending @ following (l # ls)) (q @ following ls)"
    by (auto simp: q_def following_def intro: rest_of_Cons)
  then have star: "no_star_trick (q @ following ls)" using Cons.prems(2) Contains_rest by blast
  have star_q: "no_star_trick q"
  proof
    assume "Contains q ''/*/''"
    then obtain k where "Index q ''/*/'' = Some k" by (auto simp: Contains_def)
    then show False using star Index_append_Some by (metis Contains_def option.distinct(1))
  qed
  have "rest_of (q @ following ls) (r @ following ls)" using rem by (auto simp: rest_of_def)
  then have star_r: "no_star_trick (r @ following ls)" using star Contains_rest by blast
  have "nonInteractiveStatements (q @ following ls) = ss @ nonInteractiveStatements (r @ following ls)"
  proof (cases ls)
    case Nil
    then show ?thesis using statements_of_split [OF split] statements_None rem by (simp add: following_def)
  next
    case (Cons a as)
    then show ?thesis using statements_continue [OF split star_q, of "a @ following as"] by (simp add: following_def)
  qed
  moreover have "processInputSemicolonMode l pending = (ss, r)"
    using split rem by (simp add: processInputSemicolonMode_def q_def)
  ultimately show ?case
    using whole Cons.IH [OF _ star_r] rem Cons.prems(3) by (simp add: q_def)
qed



text \<open>What goes wrong on \<^verbatim>\<open>/*/\<close>: the scan for a script definition takes these three characters for a
  whole comment and sees a keyword that is inside the comment; the table is then not terminated by
  its semicolon.\<close>

lemma comment_scanners_disagree:
  "splitStatements ''create /*/ script */ table t (x int); select 1;'' =
     ([], ''create /*/ script */ table t (x int); select 1;'')
   \<and> splitStatements ''create /* script */ table t (x int); select 1;'' =
     ([''create /* script */ table t (x int)'', ''select 1''], [])"
  by code_simp

end
