(* ===== verification/Sql_Statements.thy ===== *)
theory Sql_Statements
  imports Sql_Session
begin

text \<open>
  What the launcher reads out of one SQL statement: its kind (\<^verbatim>\<open>src/internal/connect/types/statement.go\<close>),
  the creation of a table from a local Parquet file that the launcher handles itself
  (\<^verbatim>\<open>local_parquet.go\<close>), and the JSON document of a non-interactive run (\<^verbatim>\<open>json_execution.go\<close>).
  Positions are again the rest of the text.
\<close>

section \<open>Kinds of statements\<close>

datatype StatementType =
    StatementTypeUnknown | StatementTypeSelect | StatementTypeWith | StatementTypeExplain
  | StatementTypeInsert | StatementTypeUpdate | StatementTypeDelete | StatementTypeMerge
  | StatementTypeImport | StatementTypeExport | StatementTypeCreate | StatementTypeAlter
  | StatementTypeDrop | StatementTypeTruncate | StatementTypeOpenSchema | StatementTypeCloseSchema
  | StatementTypeSet | StatementTypeCommit | StatementTypeRollback | StatementTypeGrant | StatementTypeRevoke

lemma length_TrimSpace: "length (TrimSpace s) \<le> length s"
proof -
  have "length (dropWhile is_space (rev (dropWhile is_space s))) \<le> length (dropWhile is_space s)"
    using length_dropWhile_le [of is_space "rev (dropWhile is_space s)"] by simp
  also have "\<dots> \<le> length s" by (rule length_dropWhile_le)
  finally show ?thesis by (simp add: TrimSpace_def)
qed

lemma IndexByte_shorter:
  assumes "IndexByte (TrimSpace s) c = Some k"
  shows "length (TrimSpace s) - Suc k < length s"
  using IndexByte_Some [OF assms] length_TrimSpace [of s] by linarith

lemma Cut_shorter:
  assumes "Some (before, after) = Cut (TrimSpace s) ''*/''"
  shows "length after < length s"
  using assms Index_Some [of "TrimSpace s" "''*/''"] length_TrimSpace [of s]
  by (auto simp: Cut_def split: option.splits)

function stripLeadingSQLComments :: "string \<Rightarrow> string" where
  "stripLeadingSQLComments sql =
     (let trimmed = TrimSpace sql in
      if HasPrefix trimmed ''--'' then
        (case IndexByte trimmed newline of None \<Rightarrow> [] | Some k \<Rightarrow> stripLeadingSQLComments (drop (k + 1) trimmed))
      else if HasPrefix trimmed ''/*'' then
        (case Cut trimmed ''*/'' of None \<Rightarrow> [] | Some (_, after) \<Rightarrow> stripLeadingSQLComments after)
      else trimmed)"
  by pat_completeness auto

termination
  by (relation "measure length") (auto simp: IndexByte_shorter dest: Cut_shorter [OF sym])

declare stripLeadingSQLComments.simps [simp del]

definition keyword_char :: "char \<Rightarrow> bool" where
  "keyword_char c \<longleftrightarrow> is_letter c \<or> is_digit c \<or> c = CHR ''_''"

text \<open>The loop over the text with the word being built; it ends early when enough words were found.\<close>

fun keyword_loop :: "nat \<Rightarrow> string \<Rightarrow> string \<Rightarrow> string list \<Rightarrow> string list" where
  "keyword_loop limit [] word found = (if word = [] then found else found @ [ToUpper word])"
| "keyword_loop limit (c # cs) word found =
     (if keyword_char c then keyword_loop limit cs (word @ [c]) found
      else if word = [] then keyword_loop limit cs [] found
      else if limit \<le> Suc (length found) then found @ [ToUpper word]
      else keyword_loop limit cs [] (found @ [ToUpper word]))"

definition leadingKeywords :: "string \<Rightarrow> nat \<Rightarrow> string list" where
  "leadingKeywords sql limit =
     (let trimmed = stripLeadingSQLComments (TrimSpace sql) in
      if trimmed = [] \<or> limit = 0 then [] else keyword_loop limit trimmed [] [])"

definition leadingKeywordLimit :: nat where "leadingKeywordLimit = 2"

definition simple_types :: "(string \<times> StatementType) list" where
  "simple_types =
     [(''SELECT'', StatementTypeSelect), (''WITH'', StatementTypeWith), (''EXPLAIN'', StatementTypeExplain),
      (''INSERT'', StatementTypeInsert), (''UPDATE'', StatementTypeUpdate), (''DELETE'', StatementTypeDelete),
      (''MERGE'', StatementTypeMerge), (''IMPORT'', StatementTypeImport), (''EXPORT'', StatementTypeExport),
      (''CREATE'', StatementTypeCreate), (''ALTER'', StatementTypeAlter), (''DROP'', StatementTypeDrop),
      (''TRUNCATE'', StatementTypeTruncate), (''SET'', StatementTypeSet), (''COMMIT'', StatementTypeCommit),
      (''ROLLBACK'', StatementTypeRollback), (''GRANT'', StatementTypeGrant), (''REVOKE'', StatementTypeRevoke)]"

definition ClassifyStatement :: "string \<Rightarrow> StatementType" where
  "ClassifyStatement sql =
     (case leadingKeywords sql leadingKeywordLimit of
        [] \<Rightarrow> StatementTypeUnknown
      | first # others \<Rightarrow>
          (case map_of simple_types first of
             Some ty \<Rightarrow> ty
           | None \<Rightarrow>
               if first = ''OPEN'' \<and> others \<noteq> [] \<and> hd others = ''SCHEMA'' then StatementTypeOpenSchema
               else if first = ''CLOSE'' \<and> others \<noteq> [] \<and> hd others = ''SCHEMA'' then StatementTypeCloseSchema
               else StatementTypeUnknown))"

definition UsesExecPath :: "StatementType \<Rightarrow> bool" where
  "UsesExecPath ty \<longleftrightarrow>
     ty \<notin> {StatementTypeSelect, StatementTypeWith, StatementTypeExplain, StatementTypeUnknown}"

section \<open>Tokens\<close>

datatype tokenKind = tokenWord | tokenString | tokenQuotedIdentifier | tokenSymbol

record sqlToken =
  tk_kind :: tokenKind
  tk_value :: string

definition isWord :: "sqlToken \<Rightarrow> string \<Rightarrow> bool" where
  "isWord tok keyword \<longleftrightarrow> tk_kind tok = tokenWord \<and> EqualFold (tk_value tok) keyword"

definition isSymbol :: "sqlToken \<Rightarrow> string \<Rightarrow> bool" where
  "isSymbol tok symbol \<longleftrightarrow> tk_kind tok = tokenSymbol \<and> tk_value tok = symbol"

text \<open>Among the ASCII characters the word runes are the letters, the digits and the underscore.\<close>

definition isWordRune :: "char \<Rightarrow> bool" where
  "isWordRune c \<longleftrightarrow> is_letter c \<or> is_digit c \<or> c = CHR ''_''"

fun skipLineComment :: "string \<Rightarrow> string" where
  "skipLineComment [] = []"
| "skipLineComment (c # cs) = (if c \<noteq> newline then skipLineComment cs else c # cs)"

text \<open>\<^const>\<open>None\<close> is the position \<open>unterminated\<close>.\<close>

fun block_comment_loop :: "string \<Rightarrow> string option" where
  "block_comment_loop [] = None"
| "block_comment_loop (c # cs) =
     (if HasPrefix (c # cs) ''*/'' then Some (drop 2 (c # cs)) else block_comment_loop cs)"

definition skipBlockComment :: "string \<Rightarrow> string option" where
  "skipBlockComment s = block_comment_loop (drop 2 s)"

fun quoted_loop :: "char \<Rightarrow> string \<Rightarrow> string \<Rightarrow> (string \<times> string) option" where
  "quoted_loop q [] built = None"
| "quoted_loop q (c # cs) built =
     (if c \<noteq> q then quoted_loop q cs (built @ [c])
      else case cs of
        [] \<Rightarrow> Some (built, cs)
      | d # ds \<Rightarrow> if d = q then quoted_loop q ds (built @ [q]) else Some (built, cs))"

definition readQuoted :: "string \<Rightarrow> (string \<times> string) option" where
  "readQuoted s = quoted_loop (hd s) (tl s) []"

definition readQuotedToken :: "string \<Rightarrow> (sqlToken \<times> string) option" where
  "readQuotedToken s =
     map_option (\<lambda>(v, r). (\<lparr>tk_kind = (if hd s = dquote then tokenQuotedIdentifier else tokenString), tk_value = v\<rparr>, r))
       (readQuoted s)"

definition readWord :: "string \<Rightarrow> sqlToken \<times> string" where
  "readWord s = (\<lparr>tk_kind = tokenWord, tk_value = takeWhile isWordRune s\<rparr>, dropWhile isWordRune s)"

lemma skipLineComment_rest: "rest_of s (skipLineComment s)"
  by (induction s) (auto intro: rest_of_Cons)

lemma block_comment_loop_shorter: "block_comment_loop s = Some r \<Longrightarrow> length r \<le> length s"
  by (induction s) (auto split: if_splits intro: le_SucI)

lemma quoted_loop_shorter: "quoted_loop q s b = Some (v, r) \<Longrightarrow> length r < length s"
proof (induction q s b rule: quoted_loop.induct)
  case (2 q c cs built)
  then show ?case by (cases cs) (auto split: if_splits)
qed simp

lemma block_comment_shorter: "HasPrefix s ''/*'' \<Longrightarrow> skipBlockComment s = Some r \<Longrightarrow> length r < length s"
  using block_comment_loop_shorter [of "drop 2 s" r] by (auto simp: skipBlockComment_def HasPrefix_iff)

lemma readQuoted_shorter: "s \<noteq> [] \<Longrightarrow> readQuotedToken s = Some (tok, r) \<Longrightarrow> length r < length s"
  by (cases s) (auto simp: readQuotedToken_def readQuoted_def dest!: quoted_loop_shorter)

lemma skipLineComment_shorter: "HasPrefix s ''--'' \<Longrightarrow> length (skipLineComment s) < length s"
  using rest_of_length [OF skipLineComment_rest, of "drop 2 s"] by (auto simp: HasPrefix_iff)

lemma readWord_shorter: "s \<noteq> [] \<Longrightarrow> isWordRune (hd s) \<Longrightarrow> length (dropWhile isWordRune s) < length s"
  by (cases s) (auto simp: le_imp_less_Suc length_dropWhile_le)

function tokenizeSQL :: "string \<Rightarrow> sqlToken list option" where
  "tokenizeSQL s =
     (if s = [] then Some []
      else if is_space (hd s) then tokenizeSQL (tl s)
      else if HasPrefix s ''--'' then tokenizeSQL (skipLineComment s)
      else if HasPrefix s ''/*'' then
        (case skipBlockComment s of None \<Rightarrow> None | Some r \<Rightarrow> tokenizeSQL r)
      else if hd s = squote \<or> hd s = dquote then
        (case readQuotedToken s of None \<Rightarrow> None | Some (tok, r) \<Rightarrow> map_option (Cons tok) (tokenizeSQL r))
      else if isWordRune (hd s) then
        map_option (Cons (fst (readWord s))) (tokenizeSQL (snd (readWord s)))
      else map_option (Cons \<lparr>tk_kind = tokenSymbol, tk_value = [hd s]\<rparr>) (tokenizeSQL (tl s)))"
  by pat_completeness auto

termination
  by (relation "measure length")
    (auto simp: skipLineComment_shorter readWord_shorter readWord_def block_comment_shorter
      dest: block_comment_shorter [OF _ sym] readQuoted_shorter [OF _ sym] block_comment_shorter readQuoted_shorter)

declare tokenizeSQL.simps [simp del]

section \<open>Tables from local Parquet files\<close>

record LocalParquetTable =
  lp_Schema :: string
  lp_Table :: string
  lp_Path :: string
  lp_Replace :: bool

datatype parquet_error = ErrUnsupportedLocalParquetTable

definition maxIdentifierLength :: nat where "maxIdentifierLength = 128"

text \<open>\<^verbatim>\<open>expect\<close>: the rest after the keyword, if it is there.\<close>

definition expect_word :: "string \<Rightarrow> sqlToken list \<Rightarrow> sqlToken list option" where
  "expect_word keyword toks = (case toks of tok # r \<Rightarrow> if isWord tok keyword then Some r else None | [] \<Rightarrow> None)"

definition matchCreateTablePrefix :: "sqlToken list \<Rightarrow> (sqlToken list \<times> bool) option" where
  "matchCreateTablePrefix toks =
     (case expect_word ''CREATE'' toks of None \<Rightarrow> None | Some r1 \<Rightarrow>
       (case expect_word ''OR'' r1 of
          None \<Rightarrow> map_option (\<lambda>r. (r, False)) (expect_word ''TABLE'' r1)
        | Some r2 \<Rightarrow>
            (case expect_word ''REPLACE'' r2 of
               None \<Rightarrow> None
             | Some r3 \<Rightarrow> map_option (\<lambda>r. (r, True)) (expect_word ''TABLE'' r3))))"

fun containsLocalParquet :: "sqlToken list \<Rightarrow> bool" where
  "containsLocalParquet (a # b # r) = (isWord a ''LOCAL'' \<and> isWord b ''PARQUET'' \<or> containsLocalParquet (b # r))"
| "containsLocalParquet _ = False"

definition isRegularIdentifier :: "sqlToken \<Rightarrow> bool" where
  "isRegularIdentifier tok \<longleftrightarrow>
     tk_kind tok = tokenWord \<and> length (tk_value tok) \<le> maxIdentifierLength \<and> is_letter (hd (tk_value tok))"

definition parquet_pattern :: "(sqlToken \<Rightarrow> bool) list" where
  "parquet_pattern =
     [isRegularIdentifier, \<lambda>t. isSymbol t ''.'', isRegularIdentifier, \<lambda>t. isWord t ''AS'', \<lambda>t. isSymbol t ''('',
      \<lambda>t. isWord t ''IMPORT'', \<lambda>t. isWord t ''FROM'', \<lambda>t. isWord t ''LOCAL'', \<lambda>t. isWord t ''PARQUET'',
      \<lambda>t. isWord t ''FILE'', \<lambda>t. tk_kind t = tokenString, \<lambda>t. isSymbol t '')'']"

definition matchLocalParquetImport :: "sqlToken list \<Rightarrow> LocalParquetTable option" where
  "matchLocalParquetImport toks =
     (let toks' = (if toks \<noteq> [] \<and> isSymbol (last toks) '';'' then butlast toks else toks) in
      if length toks' \<noteq> length parquet_pattern then None
      else if \<not> list_all2 (\<lambda>m t. m t) parquet_pattern toks' then None
      else Some \<lparr>lp_Schema = ToUpper (tk_value (toks' ! 0)), lp_Table = ToUpper (tk_value (toks' ! 2)),
                 lp_Path = tk_value (toks' ! 10), lp_Replace = False\<rparr>)"

text \<open>\<open>Inr None\<close> is the nil table without an error: the statement is not one of these.\<close>

definition ParseLocalParquetTable :: "string \<Rightarrow> (parquet_error, LocalParquetTable option) result" where
  "ParseLocalParquetTable sql =
     (case tokenizeSQL sql of
        None \<Rightarrow> Inr None
      | Some toks \<Rightarrow>
          (case matchCreateTablePrefix toks of
             None \<Rightarrow> Inr None
           | Some (r, replace) \<Rightarrow>
               if \<not> containsLocalParquet r then Inr None
               else case matchLocalParquetImport r of
                 None \<Rightarrow> Inl ErrUnsupportedLocalParquetTable
               | Some tab \<Rightarrow> Inr (Some (tab\<lparr>lp_Replace := replace\<rparr>))))"

section \<open>Reading back what was written\<close>

abbreviation word_token :: "string \<Rightarrow> sqlToken" where "word_token w \<equiv> \<lparr>tk_kind = tokenWord, tk_value = w\<rparr>"
abbreviation symbol_token :: "string \<Rightarrow> sqlToken" where "symbol_token w \<equiv> \<lparr>tk_kind = tokenSymbol, tk_value = w\<rparr>"

lemma tokenize_Nil [simp]: "tokenizeSQL [] = Some []"
  by (subst tokenizeSQL.simps) simp

lemma tokenize_space [simp]: "is_space c \<Longrightarrow> tokenizeSQL (c # r) = tokenizeSQL r"
  by (subst tokenizeSQL.simps) simp

lemma word_rune_plain: "isWordRune c \<Longrightarrow> \<not> is_space c \<and> c \<notin> {CHR ''-'', CHR ''/'', squote, dquote}"
  by (auto simp: isWordRune_def is_letter_def is_digit_def is_upper_def is_lower_def is_space_def)

lemma tokenize_word:
  assumes "w \<noteq> []" and "list_all isWordRune w" and "r = [] \<or> \<not> isWordRune (hd r)"
  shows "tokenizeSQL (w @ r) = map_option (Cons (word_token w)) (tokenizeSQL r)"
proof -
  obtain c w' where w: "w = c # w'" using assms(1) by (cases w) auto
  have tw: "takeWhile isWordRune (w @ r) = w" and dw: "dropWhile isWordRune (w @ r) = r"
    using assms(2,3) by (induction w) (auto, (cases r; simp)+)
  have c: "isWordRune c" "\<not> is_space c \<and> c \<notin> {CHR ''-'', CHR ''/'', squote, dquote}"
    using assms(2) w word_rune_plain [of c] by auto
  then show ?thesis
    using tw dw w by (subst tokenizeSQL.simps) (simp add: HasPrefix_def readWord_def)
qed

lemma tokenize_symbol:
  assumes "\<not> is_space c" "\<not> isWordRune c" "c \<notin> {CHR ''-'', CHR ''/'', squote, dquote}"
  shows "tokenizeSQL (c # r) = map_option (Cons (symbol_token [c])) (tokenizeSQL r)"
  using assms by (subst tokenizeSQL.simps) (simp add: HasPrefix_def)

lemma quoted_loop_doubled:
  "r = [] \<or> hd r \<noteq> q \<Longrightarrow> quoted_loop q (doubled q s @ q # r) b = Some (b @ s, r)"
proof (induction s arbitrary: b)
  case Nil
  then show ?case by (cases r) (auto simp: doubled_def)
qed (auto simp: doubled_def)

lemma tokenize_literal:
  "r = [] \<or> hd r \<noteq> squote \<Longrightarrow>
     tokenizeSQL (squote # doubled squote s @ squote # r)
       = map_option (Cons \<lparr>tk_kind = tokenString, tk_value = s\<rparr>) (tokenizeSQL r)"
  using quoted_loop_doubled [of r squote s "[]"]
  by (subst tokenizeSQL.simps)
    (simp add: HasPrefix_def is_space_def readQuotedToken_def readQuoted_def)

fun identifier_text :: "string \<Rightarrow> bool" where
  "identifier_text w = (w \<noteq> [] \<and> list_all isWordRune w \<and> is_letter (hd w) \<and> length w \<le> maxIdentifierLength)"

definition parquet_statement :: "bool \<Rightarrow> string \<Rightarrow> string \<Rightarrow> string \<Rightarrow> string" where
  "parquet_statement replace schema table path =
     ''CREATE '' @ (if replace then ''OR REPLACE '' else []) @ ''TABLE '' @ schema @ ''.'' @ table
     @ '' AS (IMPORT FROM LOCAL PARQUET FILE '' @ [squote] @ doubled squote path @ [squote] @ '')''"

definition parquet_tail :: "string \<Rightarrow> sqlToken list" where
  "parquet_tail path = [word_token ''AS'', symbol_token ''('', word_token ''IMPORT'', word_token ''FROM'', word_token ''LOCAL'',
     word_token ''PARQUET'', word_token ''FILE'', \<lparr>tk_kind = tokenString, tk_value = path\<rparr>, symbol_token '')'']"

lemma tokenize_keyword:
  "list_all isWordRune w \<Longrightarrow> w \<noteq> [] \<Longrightarrow> tokenizeSQL (w @ CHR '' '' # r) = map_option (Cons (word_token w)) (tokenizeSQL r)"
  by (subst tokenize_word) (auto simp: isWordRune_def is_letter_def is_digit_def is_upper_def is_lower_def is_space_def)

lemma tokenize_parquet_tail:
  "tokenizeSQL (''AS (IMPORT FROM LOCAL PARQUET FILE '' @ [squote] @ doubled squote path @ [squote] @ '')'') = Some (parquet_tail path)"
proof -
  have runes: "list_all isWordRune ''AS''" "list_all isWordRune ''IMPORT''" "list_all isWordRune ''FROM''"
    "list_all isWordRune ''LOCAL''" "list_all isWordRune ''PARQUET''" "list_all isWordRune ''FILE''"
    by code_simp+
  have close: "tokenizeSQL '')'' = Some [symbol_token '')'']"
    using tokenize_symbol [of "CHR '')''" "[]"]
    by (simp add: isWordRune_def is_letter_def is_digit_def is_upper_def is_lower_def is_space_def)
  have lit: "tokenizeSQL (squote # doubled squote path @ squote # '')'')
      = Some [\<lparr>tk_kind = tokenString, tk_value = path\<rparr>, symbol_token '')'']"
    using tokenize_literal [of "'')''" path] close by simp
  have paren: "tokenizeSQL (CHR ''('' # r) = map_option (Cons (symbol_token ''('')) (tokenizeSQL r)" for r
    by (rule tokenize_symbol) (auto simp: isWordRune_def is_letter_def is_digit_def is_upper_def is_lower_def is_space_def)
  show ?thesis
    using tokenize_keyword [OF runes(1)] tokenize_keyword [OF runes(2)] tokenize_keyword [OF runes(3)]
      tokenize_keyword [OF runes(4)] tokenize_keyword [OF runes(5)] tokenize_keyword [OF runes(6)] lit paren
    by (simp add: parquet_tail_def)
qed

lemma tokenize_parquet_statement:
  assumes "identifier_text schema" and "identifier_text tab"
  shows "tokenizeSQL (parquet_statement replace schema tab path) =
    Some ([word_token ''CREATE''] @ (if replace then [word_token ''OR'', word_token ''REPLACE''] else []) @ [word_token ''TABLE'']
      @ [word_token schema, symbol_token ''.'', word_token tab] @ parquet_tail path)"
proof -
  have runes: "list_all isWordRune ''CREATE''" "list_all isWordRune ''OR''" "list_all isWordRune ''REPLACE''"
    "list_all isWordRune ''TABLE''"
    by code_simp+
  have tail: "tokenizeSQL (tab @ '' AS (IMPORT FROM LOCAL PARQUET FILE '' @ [squote] @ doubled squote path @ [squote] @ '')'')
      = Some (word_token tab # parquet_tail path)"
    using tokenize_keyword [of tab "''AS (IMPORT FROM LOCAL PARQUET FILE '' @ [squote] @ doubled squote path @ [squote] @ '')''"]
      tokenize_parquet_tail [of path] assms(2) by simp
  have dot: "tokenizeSQL (CHR ''.'' # r) = map_option (Cons (symbol_token ''.'')) (tokenizeSQL r)" for r
    by (rule tokenize_symbol) (auto simp: isWordRune_def is_letter_def is_digit_def is_upper_def is_lower_def is_space_def)
  have schema: "tokenizeSQL (schema @ CHR ''.'' # r) = map_option (Cons (word_token schema)) (tokenizeSQL (CHR ''.'' # r))" for r
    using assms(1)
    by (intro tokenize_word) (auto simp: isWordRune_def is_letter_def is_digit_def is_upper_def is_lower_def)
  have "tokenizeSQL (schema @ ''.'' @ tab @ '' AS (IMPORT FROM LOCAL PARQUET FILE '' @ [squote] @ doubled squote path @ [squote] @ '')'')
      = Some ([word_token schema, symbol_token ''.'', word_token tab] @ parquet_tail path)"
    using schema dot tail by simp
  then show ?thesis
    using tokenize_keyword [OF runes(1)] tokenize_keyword [OF runes(2)] tokenize_keyword [OF runes(3)]
      tokenize_keyword [OF runes(4)]
    by (simp add: parquet_statement_def)
qed

text \<open>C38: a local Parquet table is recognised with exactly the schema, table and path it names: for every
  schema and table that are regular identifiers and every path, whatever quotes, semicolons and
  comment signs it contains, the statement that writes the path as a string literal is parsed back to
  the same path and the upper-case names.\<close>

theorem parquet_statement_round_trip:
  assumes "identifier_text schema" and "identifier_text tab"
  shows "ParseLocalParquetTable (parquet_statement replace schema tab path) =
    Inr (Some \<lparr>lp_Schema = ToUpper schema, lp_Table = ToUpper tab, lp_Path = path, lp_Replace = replace\<rparr>)"
proof -
  let ?rest = "[word_token schema, symbol_token ''.'', word_token tab] @ parquet_tail path"
  have differ: "\<not> EqualFold ''TABLE'' ''OR''" by code_simp
  have prefix: "matchCreateTablePrefix ([word_token ''CREATE'']
      @ (if replace then [word_token ''OR'', word_token ''REPLACE''] else []) @ [word_token ''TABLE''] @ ?rest) = Some (?rest, replace)"
    using differ by (simp add: matchCreateTablePrefix_def expect_word_def isWord_def)
  have "containsLocalParquet ?rest" by (simp add: parquet_tail_def isWord_def)
  moreover have "matchLocalParquetImport ?rest =
      Some \<lparr>lp_Schema = ToUpper schema, lp_Table = ToUpper tab, lp_Path = path, lp_Replace = False\<rparr>"
    using assms
    by (simp add: matchLocalParquetImport_def parquet_tail_def parquet_pattern_def isSymbol_def isWord_def
        isRegularIdentifier_def)
  ultimately show ?thesis
    using tokenize_parquet_statement [OF assms] prefix by (simp add: ParseLocalParquetTable_def)
qed

theorem parquet_statement_round_trip_witness:
  "ParseLocalParquetTable (parquet_statement True ''sales'' ''orders_1'' (''/tmp/it'' @ [squote] @ ''s;--x.parquet'')) =
    Inr (Some \<lparr>lp_Schema = ''SALES'', lp_Table = ''ORDERS_1'', lp_Path = ''/tmp/it'' @ [squote] @ ''s;--x.parquet'', lp_Replace = True\<rparr>)"
proof -
  have "identifier_text ''sales''" "identifier_text ''orders_1''" by code_simp+
  moreover have "ToUpper ''sales'' = ''SALES''" "ToUpper ''orders_1'' = ''ORDERS_1''" by code_simp+
  ultimately show ?thesis using parquet_statement_round_trip [of "''sales''" "''orders_1''"] by simp
qed

section \<open>The JSON document of a run\<close>

text \<open>What the database returns for a statement; the rows and their values stay abstract.\<close>

record 'r query_result =
  qr_StatementType :: StatementType
  qr_RowsAffected :: int
  qr_Columns :: "string list"
  qr_Rows :: "'r list"
  qr_Truncated :: bool

record ('r, 'e) jsonStatementResult =
  js_Statement :: string
  js_StatementType :: StatementType
  js_RowsAffected :: int
  js_Columns :: "string list"
  js_Rows :: "'r list"
  js_Truncated :: bool
  js_Error :: "'e option"

definition json_ok :: "string \<Rightarrow> 'r query_result \<Rightarrow> ('r, 'e) jsonStatementResult" where
  "json_ok statement q = \<lparr>js_Statement = statement, js_StatementType = qr_StatementType q,
     js_RowsAffected = qr_RowsAffected q, js_Columns = qr_Columns q, js_Rows = qr_Rows q,
     js_Truncated = qr_Truncated q, js_Error = None\<rparr>"

definition json_failed :: "string \<Rightarrow> 'e \<Rightarrow> ('r, 'e) jsonStatementResult" where
  "json_failed statement e = \<lparr>js_Statement = statement, js_StatementType = ClassifyStatement statement,
     js_RowsAffected = 0, js_Columns = [], js_Rows = [], js_Truncated = False, js_Error = Some e\<rparr>"

fun json_loop :: "(string \<Rightarrow> 'e + 'r query_result) \<Rightarrow> string list \<Rightarrow> ('r, 'e) jsonStatementResult list \<times> 'e option" where
  "json_loop exec [] = ([], None)"
| "json_loop exec (s # ss) =
     (case exec s of
        Inl e \<Rightarrow> ([json_failed s e], Some e)
      | Inr q \<Rightarrow> (case json_loop exec ss of (doc, err) \<Rightarrow> (json_ok s q # doc, err)))"

text \<open>The document written and the error returned, with an output that accepts the document and the
  notices.\<close>

definition runJSONStatements ::
  "string \<Rightarrow> (string \<Rightarrow> 'e + 'r query_result) \<Rightarrow> ('r, 'e) jsonStatementResult list \<times> 'e option"
where
  "runJSONStatements sql exec = json_loop exec (nonInteractiveStatements sql)"

lemma json_loop_run_all:
  assumes "\<forall>s \<in> set ss. TrimSpace s = s"
  shows "map js_Statement (fst (json_loop exec ss)) =
      fst (run_all (\<lambda>s. case exec s of Inl e \<Rightarrow> Some e | Inr _ \<Rightarrow> None) ss)
    \<and> snd (json_loop exec ss) = snd (run_all (\<lambda>s. case exec s of Inl e \<Rightarrow> Some e | Inr _ \<Rightarrow> None) ss)"
  using assms
  by (induction ss) (auto simp: json_ok_def json_failed_def split: sum.split prod.split)

lemma json_run_matches_plain_run:
  "map js_Statement (fst (runJSONStatements sql exec)) =
      fst (runStatements sql (\<lambda>s. case exec s of Inl e \<Rightarrow> Some e | Inr _ \<Rightarrow> None))
   \<and> snd (runJSONStatements sql exec) = snd (runStatements sql (\<lambda>s. case exec s of Inl e \<Rightarrow> Some e | Inr _ \<Rightarrow> None))"
proof -
  obtain ss r where split: "splitStatements sql = (ss, r)" by fastforce
  have "\<forall>s \<in> set (nonInteractiveStatements sql). TrimSpace s = s"
    using statements_of_split [OF split] split_remainder [OF split]
    by (auto simp: some_statement_def map_idI dest: map_eq_conv [THEN iffD1, rule_format] simp flip: map_eq_conv)
  then show ?thesis unfolding runJSONStatements_def runStatements_def by (rule json_loop_run_all)
qed

end
