(* ===== verification/Sidecar_Spec.thy ===== *)
theory Sidecar_Spec
  imports Go_Prelude
begin

text \<open>
  What a sidecar is: the definitions of \<^verbatim>\<open>src/internal/sidecar/types.go\<close>, their validation
  (\<^verbatim>\<open>validate.go\<close>, \<^verbatim>\<open>probe.go\<close>) and defaults, the resolution of the environment against the
  deployment's secrets (\<^verbatim>\<open>resolve.go\<close>), the catalogs (\<^verbatim>\<open>catalog.go\<close>) and the cause reported for a
  failed start (\<^verbatim>\<open>errors.go\<close>). A Go map is an association list. Two library parsers are parameters:
  the image reference parser and \<^verbatim>\<open>netip.ParseAddr\<close>, which gives the normal form of an address and
  whether it is a loopback address.
\<close>

section \<open>Definitions\<close>

definition Always :: string where "Always = ''Always''"
definition IfNotPresent :: string where "IfNotPresent = ''IfNotPresent''"
definition Never :: string where "Never = ''Never''"
definition OnFailure :: string where "OnFailure = ''OnFailure''"

record SecretValue =
  sv_Value :: string
  sv_Sensitive :: bool

type_synonym Secrets = "(string \<times> (string \<times> SecretValue) list) list"

record SecretKeyRef =
  sk_Name :: string
  sk_Key :: string
  sk_Optional :: bool

text \<open>\<^verbatim>\<open>ValueFrom\<close> is a pointer to a struct whose only field is a pointer.\<close>

record EnvVar =
  ev_Name :: string
  ev_Value :: "string option"
  ev_ValueFrom :: "SecretKeyRef option option"

record Port =
  pt_Name :: string
  pt_ContainerPort :: int
  pt_HostPort :: int
  pt_HostIP :: string
  pt_Protocol :: string

record PortReference =
  pr_Number :: int
  pr_Name :: string

record HTTPGetAction =
  hg_Path :: string
  hg_Port :: PortReference
  hg_Scheme :: string

record Probe =
  pb_Exec :: "string list option"
  pb_HTTPGet :: "HTTPGetAction option"
  pb_TCPSocket :: "PortReference option"
  pb_InitialDelaySeconds :: int
  pb_PeriodSeconds :: int
  pb_TimeoutSeconds :: int
  pb_FailureThreshold :: int

record Container =
  ct_Name :: string
  ct_Image :: string
  ct_ImagePullPolicy :: string
  ct_Command :: "string list"
  ct_Args :: "string list"
  ct_WorkingDir :: string
  ct_Env :: "EnvVar list"
  ct_Ports :: "Port list"
  ct_RestartPolicy :: string
  ct_ReadinessProbe :: "Probe option"

record Endpoint =
  ep_Port :: string
  ep_Scheme :: string
  ep_Path :: string

record Definition =
  df_Enabled :: "bool option"
  df_Container :: Container
  df_Endpoints :: "Endpoint list"

record Entry = Definition +
  en_Description :: string
  en_Architectures :: "string list"

type_synonym Document = "(string \<times> Definition) list"

definition IsEnabled :: "'a Definition_scheme \<Rightarrow> bool" where
  "IsEnabled d \<longleftrightarrow> df_Enabled d = None \<or> df_Enabled d = Some True"

record sidecar_libs =
  sl_image_ok :: "string \<Rightarrow> bool"
  sl_ParseAddr :: "string \<Rightarrow> (string \<times> bool) option"

section \<open>Validation\<close>

text \<open>An error names the place in the document and says what was expected there.\<close>

datatype sidecar_error =
    Invalid string string
  | SecretUnavailable string string string
  | EnvContainsNUL string string
  | NotInCatalog string "string list"
  | NotForArchitecture string string "string list"

abbreviation nul :: char where "nul \<equiv> CHR 0x00"

fun first_error :: "'e option list \<Rightarrow> 'e option" where
  "first_error [] = None"
| "first_error (None # es) = first_error es"
| "first_error (Some e # es) = Some e"

lemma first_error_None: "first_error es = None \<longleftrightarrow> (\<forall>e \<in> set es. e = None)"
  by (induction es rule: first_error.induct) auto

definition fail_if :: "bool \<Rightarrow> string \<Rightarrow> string \<Rightarrow> sidecar_error option" where
  "fail_if b path message = (if b then Some (Invalid path message) else None)"

lemma fail_if_None [simp]: "fail_if b p m = None \<longleftrightarrow> \<not> b"
  by (simp add: fail_if_def)

definition indexed :: "string \<Rightarrow> nat \<Rightarrow> string" where
  "indexed path i = path @ ''['' @ Itoa (int i) @ '']''"

definition label_char :: "char \<Rightarrow> bool" where
  "label_char c \<longleftrightarrow> is_lower c \<or> is_digit c"

definition dnsLabel :: "string \<Rightarrow> bool" where
  "dnsLabel s \<longleftrightarrow> s \<noteq> [] \<and> label_char (hd s) \<and> label_char (last s) \<and> list_all (\<lambda>c. label_char c \<or> c = CHR ''-'') s"

definition urlScheme_ok :: "string \<Rightarrow> bool" where
  "urlScheme_ok s \<longleftrightarrow> s \<noteq> [] \<and> is_lower (hd s)
     \<and> list_all (\<lambda>c. is_lower c \<or> is_digit c \<or> c \<in> {CHR ''+'', CHR ''.'', CHR ''-''}) s"

fun nul_in :: "string \<Rightarrow> nat \<Rightarrow> string list \<Rightarrow> sidecar_error option" where
  "nul_in path i [] = None"
| "nul_in path i (v # vs) =
     (if nul \<in> set v then Some (Invalid (indexed path i) ''contains a NUL character'') else nul_in path (Suc i) vs)"

definition validateEntrypoint :: "Container \<Rightarrow> string \<Rightarrow> sidecar_error option" where
  "validateEntrypoint c path =
     first_error [nul_in (path @ ''.command'') 0 (ct_Command c), nul_in (path @ ''.args'') 0 (ct_Args c)]"

fun validateEnv_loop :: "string \<Rightarrow> nat \<Rightarrow> string set \<Rightarrow> EnvVar list \<Rightarrow> sidecar_error option" where
  "validateEnv_loop path i seen [] = None"
| "validateEnv_loop path i seen (e # es) =
     (let location = indexed path i in
      if ev_Name e = [] \<or> CHR ''='' \<in> set (ev_Name e) \<or> nul \<in> set (ev_Name e) \<or> ev_Name e \<in> seen then
        Some (Invalid (location @ ''.name'') (''expected a unique environment name without '' @ [CHR 0x27] @ ''='' @ [CHR 0x27] @ '' or NUL''))
      else if (case ev_Value e of None \<Rightarrow> False | Some v \<Rightarrow> nul \<in> set v) then
        Some (Invalid (location @ ''.value'') ''contains a NUL character'')
      else
        (case ev_ValueFrom e of
           None \<Rightarrow> validateEnv_loop path (Suc i) (insert (ev_Name e) seen) es
         | Some src \<Rightarrow>
             if ev_Value e \<noteq> None then Some (Invalid location ''value and valueFrom are mutually exclusive'')
             else if (case src of None \<Rightarrow> True | Some ref \<Rightarrow> sk_Name ref = [] \<or> sk_Key ref = []) then
               Some (Invalid (location @ ''.valueFrom.secretKeyRef'') ''name and key are required'')
             else validateEnv_loop path (Suc i) (insert (ev_Name e) seen) es))"

definition validateEnv :: "EnvVar list \<Rightarrow> string \<Rightarrow> sidecar_error option" where
  "validateEnv environment path = validateEnv_loop path 0 {} environment"

definition Port_Validate :: "sidecar_libs \<Rightarrow> Port \<Rightarrow> string \<Rightarrow> sidecar_error option" where
  "Port_Validate lib p path =
     first_error
       [fail_if (pt_ContainerPort p < 1 \<or> pt_ContainerPort p > 65535) (path @ ''.containerPort'') ''expected 1 through 65535'',
        fail_if (pt_HostPort p < 0 \<or> pt_HostPort p > 65535) (path @ ''.hostPort'') ''expected 0 through 65535'',
        fail_if (pt_Protocol p \<noteq> [] \<and> pt_Protocol p \<noteq> ''TCP'') (path @ ''.protocol'') ''only TCP is supported'',
        fail_if (pt_HostIP p \<noteq> [] \<and> (case sl_ParseAddr lib (pt_HostIP p) of None \<Rightarrow> True | Some (_, loopback) \<Rightarrow> \<not> loopback))
          (path @ ''.hostIP'') ''local sidecars support only loopback publication'']"

fun validatePorts_loop :: "sidecar_libs \<Rightarrow> string \<Rightarrow> nat \<Rightarrow> string set \<Rightarrow> Port list \<Rightarrow> sidecar_error option" where
  "validatePorts_loop lib path i seen [] = None"
| "validatePorts_loop lib path i seen (p # ps) =
     (let location = indexed (path @ ''.ports'') i in
      if pt_Name p \<noteq> [] \<and> (15 < length (pt_Name p) \<or> \<not> dnsLabel (pt_Name p) \<or> pt_Name p \<in> seen) then
        Some (Invalid (location @ ''.name'') ''expected a unique port DNS label of at most 15 characters'')
      else case Port_Validate lib p location of
        Some e \<Rightarrow> Some e
      | None \<Rightarrow> validatePorts_loop lib path (Suc i) (if pt_Name p \<noteq> [] then insert (pt_Name p) seen else seen) ps)"

definition validatePorts :: "sidecar_libs \<Rightarrow> Port list \<Rightarrow> string \<Rightarrow> sidecar_error option" where
  "validatePorts lib ports path = validatePorts_loop lib path 0 {} ports"

text \<open>\<open>PortReference.Port\<close>.\<close>

definition referenced_port :: "PortReference \<Rightarrow> Port list \<Rightarrow> Port option" where
  "referenced_port reference ports =
     List.find (\<lambda>p. if pr_Name reference \<noteq> [] then pt_Name p = pr_Name reference
                    else pt_ContainerPort p = pr_Number reference) ports"

definition validateProbePort :: "PortReference \<Rightarrow> Port list \<Rightarrow> string \<Rightarrow> sidecar_error option" where
  "validateProbePort reference ports path =
     fail_if (case referenced_port reference ports of None \<Rightarrow> True | Some p \<Rightarrow> pt_HostPort p = 0)
       path ''expected a container port with a hostPort''"

definition validateHTTPGet :: "HTTPGetAction \<Rightarrow> Port list \<Rightarrow> string \<Rightarrow> sidecar_error option" where
  "validateHTTPGet action ports path =
     first_error
       [fail_if (hg_Path action \<noteq> [] \<and> \<not> HasPrefix (hg_Path action) ''/'') (path @ ''.path'') ''expected a path beginning with /'',
        fail_if (hg_Scheme action \<notin> {[], ''HTTP'', ''HTTPS''}) (path @ ''.scheme'') ''expected HTTP or HTTPS'',
        validateProbePort (hg_Port action) ports (path @ ''.port'')]"

definition validateExec :: "string list \<Rightarrow> string \<Rightarrow> sidecar_error option" where
  "validateExec command path =
     first_error [fail_if (command = []) (path @ ''.command'') ''expected a command'', nul_in (path @ ''.command'') 0 command]"

definition validateTiming :: "Probe \<Rightarrow> string \<Rightarrow> sidecar_error option" where
  "validateTiming probe path =
     first_error (map (\<lambda>(name, v). fail_if (v < 0) (path @ ''.'' @ name) ''expected a non-negative integer'')
       [(''initialDelaySeconds'', pb_InitialDelaySeconds probe), (''periodSeconds'', pb_PeriodSeconds probe),
        (''timeoutSeconds'', pb_TimeoutSeconds probe), (''failureThreshold'', pb_FailureThreshold probe)])"

definition Probe_validate :: "Probe option \<Rightarrow> Port list \<Rightarrow> string \<Rightarrow> sidecar_error option" where
  "Probe_validate p ports path =
     (case p of
        None \<Rightarrow> None
      | Some probe \<Rightarrow>
          if length (filter id [pb_Exec probe \<noteq> None, pb_HTTPGet probe \<noteq> None, pb_TCPSocket probe \<noteq> None]) \<noteq> 1 then
            Some (Invalid path ''expected exactly one of exec, httpGet, or tcpSocket'')
          else case validateTiming probe path of
            Some e \<Rightarrow> Some e
          | None \<Rightarrow>
              (case (pb_Exec probe, pb_HTTPGet probe, pb_TCPSocket probe) of
                 (Some command, _, _) \<Rightarrow> validateExec command (path @ ''.exec'')
               | (None, Some action, _) \<Rightarrow> validateHTTPGet action ports (path @ ''.httpGet'')
               | (None, None, Some reference) \<Rightarrow> validateProbePort reference ports (path @ ''.tcpSocket.port'')
               | (None, None, None) \<Rightarrow> None))"

definition Validate :: "sidecar_libs \<Rightarrow> Container \<Rightarrow> string \<Rightarrow> sidecar_error option" where
  "Validate lib c path =
     first_error
       [fail_if (63 < length (ct_Name c) \<or> \<not> dnsLabel (ct_Name c) \<or> ct_Name c = ''database'')
          (path @ ''.name'') ''expected a DNS label other than database'',
        fail_if (\<not> sl_image_ok lib (ct_Image c)) (path @ ''.image'') ''invalid container image reference'',
        fail_if (ct_ImagePullPolicy c \<notin> {[], Always, IfNotPresent, Never})
          (path @ ''.imagePullPolicy'') ''expected Always, IfNotPresent, or Never'',
        fail_if (ct_RestartPolicy c \<notin> {[], Always, OnFailure, Never})
          (path @ ''.restartPolicy'') ''expected Always, OnFailure, or Never'',
        fail_if (nul \<in> set (ct_WorkingDir c)) (path @ ''.workingDir'') ''contains a NUL character'',
        validateEntrypoint c path,
        validateEnv (ct_Env c) (path @ ''.env''),
        validatePorts lib (ct_Ports c) path,
        Probe_validate (ct_ReadinessProbe c) (ct_Ports c) (path @ ''.readinessProbe'')]"

fun validateEndpoints_loop :: "Port list \<Rightarrow> string \<Rightarrow> nat \<Rightarrow> string set \<Rightarrow> Endpoint list \<Rightarrow> sidecar_error option" where
  "validateEndpoints_loop ports path i declared [] = None"
| "validateEndpoints_loop ports path i declared (e # es) =
     (let location = indexed path i in
      if \<not> list_ex (\<lambda>p. pt_Name p \<noteq> [] \<and> pt_Name p = ep_Port e) ports then
        Some (Invalid (location @ ''.port'') ''expected the name of a container port'')
      else if ep_Port e \<in> declared then
        Some (Invalid (location @ ''.port'') ''expected a unique container port name'')
      else if \<not> urlScheme_ok (ep_Scheme e) then
        Some (Invalid (location @ ''.scheme'') ''expected an application protocol such as http'')
      else if ep_Path e \<noteq> [] \<and> \<not> HasPrefix (ep_Path e) ''/'' then
        Some (Invalid (location @ ''.path'') ''expected a path beginning with /'')
      else validateEndpoints_loop ports path (Suc i) (insert (ep_Port e) declared) es)"

definition validateEndpoints :: "Endpoint list \<Rightarrow> Port list \<Rightarrow> string \<Rightarrow> sidecar_error option" where
  "validateEndpoints endpoints ports path = validateEndpoints_loop ports path 0 {} endpoints"

definition named :: "'a Definition_scheme \<Rightarrow> string \<Rightarrow> (sidecar_error, 'a Definition_scheme) result" where
  "named d name =
     (let d' = (if ct_Name (df_Container d) = [] then d\<lparr>df_Container := (df_Container d)\<lparr>ct_Name := name\<rparr>\<rparr> else d) in
      if ct_Name (df_Container d') \<noteq> name then
        Inl (Invalid (''sidecars.'' @ name @ ''.container.name'') ''must match its key'')
      else Inr d')"

definition Definition_validate :: "sidecar_libs \<Rightarrow> 'a Definition_scheme \<Rightarrow> string \<Rightarrow> sidecar_error option" where
  "Definition_validate lib d name =
     first_error
       [Validate lib (df_Container d) (''sidecars.'' @ name @ ''.container''),
        validateEndpoints (df_Endpoints d) (ct_Ports (df_Container d)) (''sidecars.'' @ name @ ''.endpoints'')]"

text \<open>\<open>Parse\<close> after the YAML decoder: the sidecars in the order of their names.\<close>

fun Parse_loop :: "sidecar_libs \<Rightarrow> Document \<Rightarrow> string list \<Rightarrow> (sidecar_error, Document) result" where
  "Parse_loop lib doc [] = Inr doc"
| "Parse_loop lib doc (n # ns) =
     (case map_of doc n of
        None \<Rightarrow> Parse_loop lib doc ns
      | Some d \<Rightarrow>
          (case named d n of
             Inl e \<Rightarrow> Inl e
           | Inr d' \<Rightarrow>
               (case Definition_validate lib d' n of
                  Some e \<Rightarrow> Inl e
                | None \<Rightarrow> Parse_loop lib (map (\<lambda>(k, v). if k = n then (k, d') else (k, v)) doc) ns)))"

definition Parse :: "sidecar_libs \<Rightarrow> Document \<Rightarrow> (sidecar_error, Document) result" where
  "Parse lib doc = Parse_loop lib doc (sorted_keys doc)"

section \<open>Defaults\<close>

definition Probe_defaults :: "Probe \<Rightarrow> Probe" where
  "Probe_defaults p = p\<lparr>
     pb_PeriodSeconds := (if pb_PeriodSeconds p = 0 then 10 else pb_PeriodSeconds p),
     pb_TimeoutSeconds := (if pb_TimeoutSeconds p = 0 then 1 else pb_TimeoutSeconds p),
     pb_FailureThreshold := (if pb_FailureThreshold p = 0 then 3 else pb_FailureThreshold p),
     pb_HTTPGet := map_option (\<lambda>g. g\<lparr>hg_Path := (if hg_Path g = [] then ''/'' else hg_Path g),
       hg_Scheme := (if hg_Scheme g = [] then ''HTTP'' else hg_Scheme g)\<rparr>) (pb_HTTPGet p)\<rparr>"

text \<open>The part of the image after the last slash.\<close>

definition last_part :: "string \<Rightarrow> string" where
  "last_part img = rev (takeWhile (\<lambda>c. c \<noteq> CHR ''/'') (rev img))"

definition default_pull_policy :: "string \<Rightarrow> string" where
  "default_pull_policy img =
     (if \<not> Contains img ''@'' \<and> (\<not> Contains (last_part img) '':'' \<or> HasSuffix (last_part img) '':latest'')
      then Always else IfNotPresent)"

definition Port_defaults :: "sidecar_libs \<Rightarrow> Port \<Rightarrow> Port" where
  "Port_defaults lib p =
     (let ip = (if pt_HostPort p > 0 \<and> pt_HostIP p = [] then ''127.0.0.1'' else pt_HostIP p) in
      p\<lparr>pt_Protocol := (if pt_Protocol p = [] then ''TCP'' else pt_Protocol p),
        pt_HostIP := (case sl_ParseAddr lib ip of None \<Rightarrow> ip | Some (normal, _) \<Rightarrow> normal)\<rparr>)"

definition Defaults :: "sidecar_libs \<Rightarrow> Container \<Rightarrow> Container" where
  "Defaults lib c = c\<lparr>
     ct_RestartPolicy := (if ct_RestartPolicy c = [] then Always else ct_RestartPolicy c),
     ct_ReadinessProbe := map_option Probe_defaults (ct_ReadinessProbe c),
     ct_ImagePullPolicy := (if ct_ImagePullPolicy c = [] then default_pull_policy (ct_Image c) else ct_ImagePullPolicy c),
     ct_Ports := map (Port_defaults lib) (ct_Ports c)\<rparr>"

section \<open>Resolution\<close>

definition expandReference :: "string \<Rightarrow> (string \<times> string) list \<Rightarrow> (string \<times> string) option" where
  "expandReference s values =
     (if \<not> HasPrefix s ''$('' then None
      else case IndexByte (drop 2 s) CHR '')'' of
        None \<Rightarrow> None
      | Some k \<Rightarrow>
          (case map_of values (take k (drop 2 s)) of
             Some v \<Rightarrow> Some (v, drop (k + 3) s)
           | None \<Rightarrow> Some (take (k + 3) s, drop (k + 3) s)))"

lemma expandReference_shorter: "expandReference s vs = Some (x, r) \<Longrightarrow> length r < length s"
  by (auto simp: expandReference_def HasPrefix_iff split: if_splits option.splits)

function Expand :: "string \<Rightarrow> (string \<times> string) list \<Rightarrow> string" where
  "Expand [] values = []"
| "Expand (c # cs) values =
     (if c \<noteq> CHR ''$'' \<or> cs = [] then c # Expand cs values
      else if hd cs = CHR ''$'' then CHR ''$'' # Expand (tl cs) values
      else case expandReference (c # cs) values of
        None \<Rightarrow> c # Expand cs values
      | Some (x, r) \<Rightarrow> x @ Expand r values)"
  by pat_completeness auto

termination
  by (relation "measure (length \<circ> fst)") (auto dest: expandReference_shorter)

definition lookup_secret :: "Secrets \<Rightarrow> SecretKeyRef \<Rightarrow> SecretValue option" where
  "lookup_secret secrets ref = (case map_of secrets (sk_Name ref) of None \<Rightarrow> None | Some s \<Rightarrow> map_of s (sk_Key ref))"

text \<open>The value and whether it is present. A reference without a target is a nil pointer; validation
  has excluded it.\<close>

definition resolveEnv ::
  "string \<Rightarrow> EnvVar \<Rightarrow> Secrets \<Rightarrow> (string \<times> string) list \<Rightarrow> (sidecar_error, string option) result"
where
  "resolveEnv name env secrets values =
     (case ev_ValueFrom env of
        None \<Rightarrow> (case ev_Value env of None \<Rightarrow> Inr (Some []) | Some v \<Rightarrow> Inr (Some (Expand v values)))
      | Some None \<Rightarrow> Inl (Invalid name ''nil secretKeyRef'')
      | Some (Some ref) \<Rightarrow>
          (case lookup_secret secrets ref of
             Some s \<Rightarrow> Inr (Some (sv_Value s))
           | None \<Rightarrow>
               if sk_Optional ref then Inr None
               else Inl (SecretUnavailable name (sk_Name ref) (sk_Key ref))))"

fun resolve_loop ::
  "string \<Rightarrow> Secrets \<Rightarrow> (string \<times> string) list \<Rightarrow> EnvVar list \<Rightarrow> (sidecar_error, EnvVar list \<times> (string \<times> string) list) result"
where
  "resolve_loop name secrets values [] = Inr ([], values)"
| "resolve_loop name secrets values (e # es) =
     (case resolveEnv name e secrets values of
        Inl err \<Rightarrow> Inl err
      | Inr None \<Rightarrow> resolve_loop name secrets values es
      | Inr (Some v) \<Rightarrow>
          if nul \<in> set v then Inl (EnvContainsNUL name (ev_Name e))
          else case resolve_loop name secrets ((ev_Name e, v) # values) es of
            Inl err \<Rightarrow> Inl err
          | Inr (out, values') \<Rightarrow>
              Inr (\<lparr>ev_Name = ev_Name e, ev_Value = Some v, ev_ValueFrom = None\<rparr> # out, values'))"

definition sensitive_values :: "Secrets \<Rightarrow> EnvVar list \<Rightarrow> string list" where
  "sensitive_values secrets es =
     List.map_filter (\<lambda>e. case ev_ValueFrom e of
        Some (Some ref) \<Rightarrow> (case lookup_secret secrets ref of
            Some s \<Rightarrow> if sv_Sensitive s then Some (sv_Value s) else None | None \<Rightarrow> None)
      | _ \<Rightarrow> None) es"

text \<open>The resolved container and the values that diagnostics must not show.\<close>

definition Resolve :: "sidecar_libs \<Rightarrow> Container \<Rightarrow> Secrets \<Rightarrow> (sidecar_error, Container \<times> string list) result" where
  "Resolve lib c secrets =
     (case Validate lib c ''container'' of
        Some e \<Rightarrow> Inl e
      | None \<Rightarrow>
          (case resolve_loop (ct_Name c) secrets [] (ct_Env c) of
             Inl e \<Rightarrow> Inl e
           | Inr (env, values) \<Rightarrow>
               (let r = Defaults lib c in
                Inr (r\<lparr>ct_Env := env, ct_Command := map (\<lambda>v. Expand v values) (ct_Command r),
                       ct_Args := map (\<lambda>v. Expand v values) (ct_Args r)\<rparr>,
                     sensitive_values secrets (ct_Env c)))))"

section \<open>Catalogs\<close>

definition validateMetadata :: "Entry \<Rightarrow> string \<Rightarrow> sidecar_error option" where
  "validateMetadata e location =
     first_error
       ([fail_if (df_Enabled e \<noteq> None) (location @ ''.enabled'') (''only a deployment'' @ [CHR 0x27] @ ''s saved entry is enabled''),
         fail_if (TrimSpace (en_Description e) = [] \<or> en_Architectures e = []) location ''description and architectures are required'']
        @ map (\<lambda>arch. fail_if (arch \<notin> {''amd64'', ''arm64''}) (location @ ''.architectures'') ''unsupported architecture'')
            (en_Architectures e))"

fun NewCatalog_loop :: "sidecar_libs \<Rightarrow> (string \<times> Entry) list \<Rightarrow> string list \<Rightarrow> (sidecar_error, (string \<times> Entry) list) result" where
  "NewCatalog_loop lib entries [] = Inr []"
| "NewCatalog_loop lib entries (n # ns) =
     (case map_of entries n of
        None \<Rightarrow> NewCatalog_loop lib entries ns
      | Some entry \<Rightarrow>
          (case named entry n of
             Inl e \<Rightarrow> Inl e
           | Inr entry' \<Rightarrow>
               (case first_error [validateMetadata entry' (''sidecars.'' @ n), Definition_validate lib entry' n] of
                  Some e \<Rightarrow> Inl e
                | None \<Rightarrow>
                    bind_result (NewCatalog_loop lib entries ns) (\<lambda>rest.
                      Inr ((n, entry'\<lparr>df_Container := Defaults lib (df_Container entry')\<rparr>) # rest)))))"

definition NewCatalog :: "sidecar_libs \<Rightarrow> (string \<times> Entry) list \<Rightarrow> (sidecar_error, (string \<times> Entry) list) result" where
  "NewCatalog lib entries = NewCatalog_loop lib entries (sorted_keys entries)"

definition resolveEntry :: "(string \<times> Entry) list \<Rightarrow> string \<Rightarrow> string \<Rightarrow> (sidecar_error, Entry) result" where
  "resolveEntry entries name architecture =
     (let choices = sort (map fst (filter (\<lambda>(k, e). architecture \<in> set (en_Architectures e)) entries)) in
      case map_of entries name of
        None \<Rightarrow> Inl (NotInCatalog name choices)
      | Some e \<Rightarrow>
          if architecture \<in> set (en_Architectures e) then Inr e
          else Inl (NotForArchitecture name architecture choices))"

text \<open>The catalogs in order of precedence; the first member wins for a name both have.\<close>

definition Catalogs_Entries :: "(string \<times> Entry) list list \<Rightarrow> (string \<times> Entry) list" where
  "Catalogs_Entries catalogs = fold (\<lambda>c m. c @ filter (\<lambda>(k, _). k \<notin> fst ` set c) m) (rev catalogs) []"

definition Catalogs_Resolve :: "(string \<times> Entry) list list \<Rightarrow> string \<Rightarrow> string \<Rightarrow> (sidecar_error, Entry) result" where
  "Catalogs_Resolve catalogs name architecture =
     (case List.map_filter (\<lambda>c. case resolveEntry c name architecture of Inr e \<Rightarrow> Some e | Inl _ \<Rightarrow> None) catalogs of
        e # _ \<Rightarrow> Inr e
      | [] \<Rightarrow> resolveEntry (Catalogs_Entries catalogs) name architecture)"

section \<open>Reported causes\<close>

definition isErrorLine :: "string \<Rightarrow> bool" where
  "isErrorLine line \<longleftrightarrow>
     (let lower = TrimPrefix (ToLower line) ''docker: '' in
      HasPrefix lower ''error:'' \<or> HasPrefix lower ''error response from daemon:'')"

fun reported_loop :: "string list \<Rightarrow> string \<Rightarrow> string list \<Rightarrow> string \<times> string list" where
  "reported_loop [] last_line reported = (last_line, reported)"
| "reported_loop (l # ls) last_line reported =
     (let trimmed = TrimSpace l in
      if trimmed = [] \<or> HasPrefix trimmed (''Run '' @ [CHR 0x27]) then reported_loop ls last_line reported
      else reported_loop ls trimmed
        (if isErrorLine trimmed then [trimmed] else if reported \<noteq> [] then reported @ [trimmed] else reported))"

definition ReportedCause :: "string \<Rightarrow> string" where
  "ReportedCause diagnostic =
     (case reported_loop (SplitByte diagnostic newline) [] [] of
        (last_line, reported) \<Rightarrow> if reported \<noteq> [] then Join reported [newline] else last_line)"

section \<open>When a sidecar's environment can be resolved\<close>

text \<open>What the secrets must supply for a variable, and when the variable is passed at all.\<close>

definition secrets_supply :: "Secrets \<Rightarrow> EnvVar \<Rightarrow> bool" where
  "secrets_supply secrets e \<longleftrightarrow>
     (case ev_ValueFrom e of
        Some (Some ref) \<Rightarrow> (case lookup_secret secrets ref of Some s \<Rightarrow> nul \<notin> set (sv_Value s) | None \<Rightarrow> sk_Optional ref)
      | _ \<Rightarrow> True)"

definition env_present :: "Secrets \<Rightarrow> EnvVar \<Rightarrow> bool" where
  "env_present secrets e \<longleftrightarrow>
     (case ev_ValueFrom e of Some (Some ref) \<Rightarrow> lookup_secret secrets ref \<noteq> None | _ \<Rightarrow> True)"

definition plain_env :: "EnvVar \<Rightarrow> bool" where
  "plain_env e \<longleftrightarrow> ev_ValueFrom e = None \<and> (case ev_Value e of Some v \<Rightarrow> nul \<notin> set v | None \<Rightarrow> False)"

lemma expandReference_no_nul:
  assumes "expandReference s vs = Some (x, r)" and "nul \<notin> set s" and "\<forall>(k, v) \<in> set vs. nul \<notin> set v"
  shows "nul \<notin> set x \<and> nul \<notin> set r"
proof -
  have parts: "nul \<notin> set (take n s)" "nul \<notin> set (drop n s)" for n
    using assms(2) by (auto dest: in_set_takeD in_set_dropD)
  have "nul \<notin> set v" if "map_of vs k = Some v" for k v using map_of_SomeD [OF that] assms(3) by auto
  then show ?thesis using assms(1) parts by (auto simp: expandReference_def split: if_splits option.splits)
qed

lemma Expand_no_nul:
  "nul \<notin> set s \<Longrightarrow> \<forall>(k, v) \<in> set vs. nul \<notin> set v \<Longrightarrow> nul \<notin> set (Expand s vs)"
proof (induction s vs rule: Expand.induct)
  case (2 c cs vs)
  consider "c \<noteq> CHR ''$'' \<or> cs = []" | "c = CHR ''$''" "cs \<noteq> []" "hd cs = CHR ''$''"
    | "c = CHR ''$''" "cs \<noteq> []" "hd cs \<noteq> CHR ''$''" by blast
  then show ?case
  proof cases
    case 1
    then show ?thesis using 2 by auto
  next
    case 2
    then show ?thesis using "2.IH"(2) "2.prems" by (auto dest: list.set_sel(2))
  next
    case 3
    show ?thesis
    proof (cases "expandReference (c # cs) vs")
      case None
      then show ?thesis using 3 "2.IH"(3) "2.prems" by auto
    next
      case (Some xr)
      obtain x r where xr: "xr = (x, r)" by fastforce
      then have eq: "Expand (c # cs) vs = x @ Expand r vs" using 3 Some by simp
      have no_nul: "nul \<notin> set x \<and> nul \<notin> set r"
        using expandReference_no_nul [of "c # cs" vs x r] Some xr "2.prems" by simp
      have "nul \<notin> set (Expand r vs)" by (rule "2.IH"(4) [OF _ _ Some xr [symmetric]]) (use 3 no_nul "2.prems" in simp_all)
      then show ?thesis unfolding eq using no_nul by simp
    qed
  qed
qed simp

lemma resolve_step:
  assumes "validateEnv_loop path i seen (e # es) = None" and "\<forall>(k, v) \<in> set vs. nul \<notin> set v"
  shows "validateEnv_loop path (Suc i) (insert (ev_Name e) seen) es = None"
    and "ev_Name e \<notin> seen"
    and "case resolveEnv name e secrets vs of
        Inl _ \<Rightarrow> \<not> secrets_supply secrets e
      | Inr None \<Rightarrow> secrets_supply secrets e \<and> \<not> env_present secrets e
      | Inr (Some v) \<Rightarrow> env_present secrets e \<and> (secrets_supply secrets e \<longleftrightarrow> nul \<notin> set v)"
  using assms Expand_no_nul [of _ vs]
  by (auto simp: Let_def resolveEnv_def secrets_supply_def env_present_def split: if_splits option.splits)

lemma resolve_loop_iff:
  assumes "validateEnv_loop path i seen es = None" and "\<forall>(k, v) \<in> set vs. nul \<notin> set v"
  shows "case resolve_loop name secrets vs es of
      Inl _ \<Rightarrow> \<not> list_all (secrets_supply secrets) es
    | Inr (out, _) \<Rightarrow> list_all (secrets_supply secrets) es
        \<and> map ev_Name out = map ev_Name (filter (env_present secrets) es) \<and> list_all plain_env out"
  using assms
proof (induction es arbitrary: i seen vs)
  case (Cons e es)
  note step = resolve_step [OF Cons.prems]
  show ?case
  proof (cases "resolveEnv name e secrets vs")
    case (Inl err)
    then show ?thesis using step(3) [where name = name and secrets = secrets] by simp
  next
    case (Inr r)
    show ?thesis
    proof (cases r)
      case None
      then show ?thesis
        using Inr step(3) [where name = name and secrets = secrets] Cons.IH [OF step(1) Cons.prems(2)] by (auto split: sum.splits)
    next
      case (Some v)
      show ?thesis
      proof (cases "nul \<in> set v")
        case False
        then have "\<forall>(k, v) \<in> set ((ev_Name e, v) # vs). nul \<notin> set v" using Cons.prems(2) by auto
        from Cons.IH [OF step(1) this] False Inr Some step(3) [where name = name and secrets = secrets] show ?thesis
          by (auto simp: plain_env_def split: sum.splits)
      qed (use Inr Some step(3) [where name = name and secrets = secrets] in simp)
    qed
  qed
qed simp

lemma validateEnv_distinct:
  "validateEnv_loop path i seen es = None \<Longrightarrow> distinct (map ev_Name es) \<and> set (map ev_Name es) \<inter> seen = {}"
proof (induction es arbitrary: i seen)
  case (Cons e es)
  note step = resolve_step(1,2) [OF Cons.prems, of "[]"]
  then show ?case using Cons.IH [of "Suc i" "insert (ev_Name e) seen"] by auto
qed simp

text \<open>A valid sidecar definition can be resolved exactly when the deployment's secrets supply every
  variable that is not optional with a value free of NUL bytes. The environment that is then passed has
  the variables that are present, in the declared order and under distinct names, each with a plain
  value without NUL bytes and no reference left, whatever the expansions inserted.\<close>

theorem resolve_succeeds_iff_supplied:
  assumes "Validate lib c ''container'' = None"
  shows "case Resolve lib c secrets of
      Inl _ \<Rightarrow> \<not> list_all (secrets_supply secrets) (ct_Env c)
    | Inr (r, _) \<Rightarrow> list_all (secrets_supply secrets) (ct_Env c)
        \<and> map ev_Name (ct_Env r) = map ev_Name (filter (env_present secrets) (ct_Env c))
        \<and> distinct (map ev_Name (ct_Env r)) \<and> list_all plain_env (ct_Env r)"
proof -
  have env: "validateEnv_loop ''container.env'' 0 {} (ct_Env c) = None"
    using assms by (simp add: Validate_def first_error_None validateEnv_def)
  have "distinct (map ev_Name (filter (env_present secrets) (ct_Env c)))"
    using validateEnv_distinct [OF env] by (simp add: distinct_map_filter)
  then show ?thesis
    using resolve_loop_iff [OF env, of "[]", where name = "ct_Name c" and secrets = secrets] assms
    by (auto simp: Resolve_def Let_def split: sum.splits)
qed

definition sample_libs :: sidecar_libs where
  "sample_libs = \<lparr>sl_image_ok = (\<lambda>s. s \<noteq> []), sl_ParseAddr = (\<lambda>s. if s = ''127.0.0.1'' then Some (s, True) else None)\<rparr>"

definition sample_sidecar :: Container where
  "sample_sidecar = \<lparr>ct_Name = ''mcp'', ct_Image = ''exasol/mcp:1.0'', ct_ImagePullPolicy = [], ct_Command = [],
     ct_Args = [''--dsn=$(HOST):8563''], ct_WorkingDir = [],
     ct_Env = [\<lparr>ev_Name = ''HOST'', ev_Value = None,
                 ev_ValueFrom = Some (Some \<lparr>sk_Name = ''exasol-database'', sk_Key = ''host'', sk_Optional = False\<rparr>)\<rparr>,
               \<lparr>ev_Name = ''TOKEN'', ev_Value = None,
                 ev_ValueFrom = Some (Some \<lparr>sk_Name = ''exasol-database'', sk_Key = ''token'', sk_Optional = True\<rparr>)\<rparr>],
     ct_Ports = [\<lparr>pt_Name = ''http'', pt_ContainerPort = 8000, pt_HostPort = 4896, pt_HostIP = [], pt_Protocol = []\<rparr>],
     ct_RestartPolicy = [], ct_ReadinessProbe = None\<rparr>"

definition sample_secrets :: Secrets where
  "sample_secrets = [(''exasol-database'', [(''host'', \<lparr>sv_Value = ''database'', sv_Sensitive = False\<rparr>)])]"

theorem resolve_succeeds_iff_supplied_witness:
  "\<exists>r s. Resolve sample_libs sample_sidecar sample_secrets = Inr (r, s) \<and> ct_Args r = [''--dsn=database:8563'']
     \<and> map ev_Name (ct_Env r) = [''HOST''] \<and> list_all plain_env (ct_Env r)"
proof -
  have valid: "Validate sample_libs sample_sidecar ''container'' = None" by code_simp
  have args: "map_sum id (ct_Args \<circ> fst) (Resolve sample_libs sample_sidecar sample_secrets) = Inr [''--dsn=database:8563'']"
    by code_simp
  then obtain r s where r: "Resolve sample_libs sample_sidecar sample_secrets = Inr (r, s)" "ct_Args r = [''--dsn=database:8563'']"
    by (cases "Resolve sample_libs sample_sidecar sample_secrets") auto
  have "map ev_Name (filter (env_present sample_secrets) (ct_Env sample_sidecar)) = [''HOST'']" by code_simp
  then show ?thesis using resolve_succeeds_iff_supplied [OF valid, of sample_secrets] r by auto
qed

end
