(* ===== verification/Container_Runtime.thy ===== *)
theory Container_Runtime
  imports Sidecar_Spec Lifecycle_Status
begin

text \<open>
  The container engines: \<^verbatim>\<open>src/internal/localinstall/container.go\<close>, \<^verbatim>\<open>container_spec.go\<close>,
  \<^verbatim>\<open>container_podman.go\<close>, \<^verbatim>\<open>container_docker.go\<close> and \<^verbatim>\<open>command_error.go\<close>. An operation of the interface
  \<open>ContainerRuntime\<close> is a command line and a reading of its reply; the command itself is run by a
  \<open>CommandRunner\<close>, whose state has the type \<open>'g\<close>. The decoders of the JSON replies are fields of the
  runner's record, because the replies' wire format is the engine's.
\<close>

section \<open>Specifications and listings\<close>

datatype PullPolicy = PullAlways | PullIfNotPresent | PullNever | PullUnset

datatype RestartPolicy = RestartNever | RestartOnFailure | RestartAlways | RestartUnset

datatype MountKind = MountBind | MountImage

record PortMapping =
  pm_HostIP :: string
  pm_HostPort :: int
  pm_ContainerPort :: int
  pm_Protocol :: string
  pm_Mapping :: string

record Mount =
  mo_Kind :: MountKind
  mo_Source :: string
  mo_Target :: string
  mo_ReadOnly :: bool
  mo_Relabel :: bool
  mo_Writable :: bool

record ContainerSpec =
  cs_Name :: string
  cs_Image :: string
  cs_Args :: "string list"
  cs_Labels :: "(string \<times> string) list"
  cs_Env :: "(string \<times> string) list"
  cs_EnvFile :: string
  cs_Network :: string
  cs_NetworkAlias :: string
  cs_Ports :: "PortMapping list"
  cs_Mounts :: "Mount list"
  cs_Entrypoint :: "string list"
  cs_WorkingDir :: string
  cs_Pull :: PullPolicy
  cs_Restart :: RestartPolicy
  cs_Replace :: bool
  cs_SharedMemorySize :: string
  cs_ProcessLimit :: string
  cs_NestedSandbox :: bool
  cs_SecurityOptions :: "string list"
  cs_Capabilities :: "string list"

datatype ContainerLifecycle =
    ContainerLifecycleUnknown
  | ContainerLifecycleRunning
  | ContainerLifecycleRestarting
  | ContainerLifecyclePaused
  | ContainerLifecycleStopped

record ContainerPort =
  cp_HostIP :: string
  cp_HostPort :: int
  cp_ContainerPort :: int
  cp_Protocol :: string

text \<open>\<open>StartedAt\<close> in nanoseconds; \<^const>\<open>None\<close> is the zero time.\<close>

record ContainerListing =
  cl_ID :: string
  cl_Names :: "string list"
  cl_Labels :: "(string \<times> string) list"
  cl_State :: string
  cl_Lifecycle :: ContainerLifecycle
  cl_ExitCode :: int
  cl_Ports :: "ContainerPort list"
  cl_StartedAt :: "int option"

definition listing_Running :: "ContainerListing \<Rightarrow> bool" where
  "listing_Running c \<longleftrightarrow> cl_Lifecycle c = ContainerLifecycleRunning"

definition listing_Active :: "ContainerListing \<Rightarrow> bool" where
  "listing_Active c \<longleftrightarrow> cl_Lifecycle c \<noteq> ContainerLifecycleStopped"

record ContainerNetwork =
  cn_Name :: string
  cn_Bridge :: bool
  cn_DNSEnabled :: bool
  cn_Labels :: "(string \<times> string) list"

record ContainerAttachment =
  ca_Bridged :: bool
  ca_Networks :: "(string \<times> string list) list"
  ca_Labels :: "(string \<times> string) list"

record ContainerMount =
  cm_BindMount :: bool
  cm_Source :: string
  cm_Destination :: string

record NetworkSpec =
  ns_Name :: string
  ns_Labels :: "(string \<times> string) list"
  ns_DNS :: bool

datatype ContainerFilter = FilterName string | FilterLabel string

text \<open>The value of a label, empty when the label is missing.\<close>

definition label :: "(string \<times> string) list \<Rightarrow> string \<Rightarrow> string" where
  "label labels key = (case map_of labels key of None \<Rightarrow> [] | Some v \<Rightarrow> v)"

section \<open>Running a command\<close>

definition stderrTailLimit :: nat where "stderrTailLimit = 64 * 1024"

text \<open>\<open>stderrTail.Write\<close>: what was written last, up to the limit.\<close>

definition stderrTail_Write :: "string \<Rightarrow> string \<Rightarrow> string" where
  "stderrTail_Write tail chunk =
     (let grown = tail @ chunk in drop (length grown - stderrTailLimit) grown)"

definition newCommandError :: "go_error option \<Rightarrow> string \<Rightarrow> go_error option" where
  "newCommandError err stderr =
     (case err of
        None \<Rightarrow> None
      | Some e \<Rightarrow> (let output = TrimSpace stderr in if output = [] then Some e else Some (CommandError output e)))"

definition CommandStderr :: "go_error option \<Rightarrow> string" where
  "CommandStderr err =
     (case err of None \<Rightarrow> []
      | Some e \<Rightarrow> (case errors_As (\<lambda>x. case x of CommandError s _ \<Rightarrow> Some s | _ \<Rightarrow> None) e of None \<Rightarrow> [] | Some s \<Rightarrow> s))"

record cliDialect =
  cd_replaceFlag :: bool
  cd_jsonEntrypoint :: bool
  cd_writableImageMounts :: bool
  cd_nestedSandbox :: "string list"

text \<open>The reply of a command: its standard output, the chunks of its standard error, its failure.\<close>

record reply =
  rp_stdout :: string
  rp_stderr :: "string list"
  rp_err :: "go_error option"

record podmanListing =
  pl_ID :: string
  pl_Names :: "string list"
  pl_Labels :: "(string \<times> string) list"
  pl_State :: string
  pl_ExitCode :: int
  pl_Ports :: "ContainerPort list"
  pl_StartedAt :: int

record podmanNetwork =
  pn_Name :: string
  pn_Driver :: string
  pn_DNSEnabled :: bool
  pn_Labels :: "(string \<times> string) list"

record podmanInspection =
  pi_Labels :: "(string \<times> string) list"
  pi_NetworkMode :: string
  pi_Networks :: "(string \<times> string list) list"

record podmanMount =
  pmt_Type :: string
  pmt_Source :: string
  pmt_Destination :: string

record dockerInspection =
  di_ID :: string
  di_Name :: string
  di_Status :: string
  di_ExitCode :: int
  di_StartedAt :: "int option"
  di_Labels :: "(string \<times> string) list"
  di_NetworkMode :: string
  di_Ports :: "(string \<times> (string \<times> string) list) list"
  di_Networks :: "(string \<times> string list) list"

record dockerNetwork =
  dn_Name :: string
  dn_Driver :: string
  dn_Labels :: "(string \<times> string) list"

record 'g runner =
  cr_Run :: "string list \<Rightarrow> 'g \<Rightarrow> 'g \<times> reply"
  cr_windows :: bool
  cr_userNamespacesRestricted :: bool
  cr_marshal_strings :: "string list \<Rightarrow> string"
  cr_podmanListings :: "string \<Rightarrow> (go_error, podmanListing list) result"
  cr_podmanNetworks :: "string \<Rightarrow> (go_error, podmanNetwork list) result"
  cr_podmanInspections :: "string \<Rightarrow> (go_error, podmanInspection list) result"
  cr_podmanMounts :: "string \<Rightarrow> (go_error, podmanMount list) result"
  cr_dockerInspections :: "string \<Rightarrow> (go_error, dockerInspection list) result"
  cr_dockerNetworks :: "string \<Rightarrow> (go_error, dockerNetwork list) result"
  cr_strings :: "string \<Rightarrow> (go_error, string list) result"

text \<open>A command with what it wrote to standard output and to standard error.\<close>

definition run_command :: "'g runner \<Rightarrow> string \<Rightarrow> string list \<Rightarrow> 'g \<Rightarrow> 'g \<times> (string \<times> string) \<times> go_error option" where
  "run_command r binary args g =
     (case cr_Run r (binary # args) g of
        (g', reply) \<Rightarrow>
          (g', (rp_stdout reply, concat (rp_stderr reply)),
           newCommandError (rp_err reply) (fold (\<lambda>c t. stderrTail_Write t c) (rp_stderr reply) [])))"

definition run_output :: "'g runner \<Rightarrow> string \<Rightarrow> string list \<Rightarrow> 'g \<Rightarrow> 'g \<times> string \<times> go_error option" where
  "run_output r binary args g = (case run_command r binary args g of (g', (out, _), err) \<Rightarrow> (g', out, err))"

definition run :: "'g runner \<Rightarrow> string \<Rightarrow> string list \<Rightarrow> 'g \<Rightarrow> 'g \<times> go_error option" where
  "run r binary args g = (case run_command r binary args g of (g', _, err) \<Rightarrow> (g', err))"

text \<open>A query that answers by its exit status: 1 is the negative answer.\<close>

definition succeeded :: "'g runner \<Rightarrow> string \<Rightarrow> string list \<Rightarrow> 'g \<Rightarrow> 'g \<times> (go_error, bool) result" where
  "succeeded r binary args g =
     (case run r binary args g of
        (g', None) \<Rightarrow> (g', Inr True)
      | (g', Some e) \<Rightarrow>
          (case errors_As (\<lambda>x. case x of ExitError c \<Rightarrow> Some c | _ \<Rightarrow> None) e of
             Some c \<Rightarrow> (g', if c = 1 then Inr False else Inl e)
           | None \<Rightarrow> (g', Inl e)))"

section \<open>The arguments of a run\<close>

definition podmanPullPolicy :: "PullPolicy \<Rightarrow> string option" where
  "podmanPullPolicy p = (case p of PullAlways \<Rightarrow> Some ''always'' | PullIfNotPresent \<Rightarrow> Some ''missing''
     | PullNever \<Rightarrow> Some ''never'' | PullUnset \<Rightarrow> None)"

definition podmanRestartPolicy :: "RestartPolicy \<Rightarrow> string option" where
  "podmanRestartPolicy p = (case p of RestartAlways \<Rightarrow> Some ''always'' | RestartOnFailure \<Rightarrow> Some ''on-failure''
     | RestartNever \<Rightarrow> Some ''no'' | RestartUnset \<Rightarrow> None)"

text \<open>\<^verbatim>\<open>net.JoinHostPort\<close>: an address with a colon is bracketed.\<close>

definition hostAddress :: "string \<Rightarrow> int \<Rightarrow> string" where
  "hostAddress hostIP hostPort =
     (if CHR '':'' \<in> set hostIP then ''['' @ hostIP @ '']'' else hostIP) @ '':'' @ Itoa hostPort"

definition PortMapping_encode :: "PortMapping \<Rightarrow> string" where
  "PortMapping_encode p =
     (if pm_Mapping p \<noteq> [] then pm_Mapping p
      else (let protocol = (if pm_Protocol p = [] then ''tcp'' else pm_Protocol p);
                published = (if pm_HostIP p \<noteq> [] then hostAddress (pm_HostIP p) (pm_HostPort p) else Itoa (pm_HostPort p))
                  @ '':'' @ Itoa (pm_ContainerPort p)
            in published @ ''/'' @ protocol))"

definition encodeImage :: "bool \<Rightarrow> Mount \<Rightarrow> string" where
  "encodeImage writable m =
     ''type=image,source='' @ mo_Source m @ '',destination='' @ mo_Target m
     @ (if writable then '',rw='' @ (if mo_Writable m then ''true'' else ''false'') else [])"

definition Mount_encode :: "Mount \<Rightarrow> string" where
  "Mount_encode m =
     mo_Source m @ '':'' @ mo_Target m @ (if mo_ReadOnly m then '':ro'' else []) @ (if mo_Relabel m then '',Z'' else [])"

text \<open>\<open>--flag key=value\<close> for every entry of a map, in the order of the keys.\<close>

definition keyed_args :: "string \<Rightarrow> (string \<times> string) list \<Rightarrow> string list" where
  "keyed_args flag m = concat (map (\<lambda>k. [flag, k @ ''='' @ label m k]) (sorted_keys m))"

definition podmanIdentityArgs :: "ContainerSpec \<Rightarrow> cliDialect \<Rightarrow> string list" where
  "podmanIdentityArgs spec dialect =
     (if cs_Replace spec \<and> cd_replaceFlag dialect then [''--replace''] else [])
     @ (if cs_Name spec \<noteq> [] then [''--name'', cs_Name spec] else [])
     @ keyed_args ''--label'' (cs_Labels spec)
     @ (case podmanPullPolicy (cs_Pull spec) of None \<Rightarrow> [] | Some p \<Rightarrow> [''--pull'', p])
     @ (case podmanRestartPolicy (cs_Restart spec) of None \<Rightarrow> [] | Some p \<Rightarrow> [''--restart'', p])"

definition podmanResourceArgs :: "bool \<Rightarrow> ContainerSpec \<Rightarrow> cliDialect \<Rightarrow> string list" where
  "podmanResourceArgs windows spec dialect =
     (if cs_SharedMemorySize spec \<noteq> [] then [''--shm-size='' @ cs_SharedMemorySize spec] else [])
     @ (if cs_ProcessLimit spec \<noteq> [] \<and> \<not> windows then [''--pids-limit='' @ cs_ProcessLimit spec] else [])
     @ concat (map (\<lambda>c. [''--cap-add'', c]) (cs_Capabilities spec))
     @ concat (map (\<lambda>o'. [''--security-opt'', o'])
         ((if cs_NestedSandbox spec then cd_nestedSandbox dialect else []) @ cs_SecurityOptions spec))"

definition podmanNetworkArgs :: "ContainerSpec \<Rightarrow> string list" where
  "podmanNetworkArgs spec =
     (if cs_Network spec \<noteq> [] then [''--network'', cs_Network spec] else [])
     @ (if cs_NetworkAlias spec \<noteq> [] then [''--network-alias'', cs_NetworkAlias spec] else [])
     @ concat (map (\<lambda>p. [''--publish'', PortMapping_encode p]) (cs_Ports spec))"

definition podmanStorageArgs :: "ContainerSpec \<Rightarrow> cliDialect \<Rightarrow> string list" where
  "podmanStorageArgs spec dialect =
     concat (map (\<lambda>m. if mo_Kind m = MountImage then [''--mount'', encodeImage (cd_writableImageMounts dialect) m]
                      else [''--volume'', Mount_encode m]) (cs_Mounts spec))"

text \<open>\<^verbatim>\<open>json.Marshal\<close> of a list of strings cannot fail.\<close>

definition podmanExecutionArgs :: "(string list \<Rightarrow> string) \<Rightarrow> ContainerSpec \<Rightarrow> cliDialect \<Rightarrow> string list" where
  "podmanExecutionArgs marshal spec dialect =
     keyed_args ''--env'' (cs_Env spec)
     @ (if cs_EnvFile spec \<noteq> [] then [''--env-file'', cs_EnvFile spec] else [])
     @ (case cs_Entrypoint spec of
          [] \<Rightarrow> []
        | exe # _ \<Rightarrow> [''--entrypoint'', if cd_jsonEntrypoint dialect then marshal (cs_Entrypoint spec) else exe])
     @ (if cs_WorkingDir spec \<noteq> [] then [''--workdir'', cs_WorkingDir spec] else [])"

definition createArgs :: "bool \<Rightarrow> (string list \<Rightarrow> string) \<Rightarrow> ContainerSpec \<Rightarrow> cliDialect \<Rightarrow> bool \<Rightarrow> string list" where
  "createArgs windows marshal spec dialect detach =
     [''run'', if detach then ''--detach'' else ''--rm'']
     @ podmanIdentityArgs spec dialect
     @ podmanResourceArgs windows spec dialect
     @ podmanNetworkArgs spec
     @ podmanStorageArgs spec dialect
     @ podmanExecutionArgs marshal spec dialect
     @ [cs_Image spec]
     @ (if \<not> cd_jsonEntrypoint dialect then tl (cs_Entrypoint spec) else [])
     @ cs_Args spec"

section \<open>Podman\<close>

definition podmanDialect :: cliDialect where
  "podmanDialect = \<lparr>cd_replaceFlag = True, cd_jsonEntrypoint = True, cd_writableImageMounts = True,
     cd_nestedSandbox = [''unmask=ALL'']\<rparr>"

definition cli_Create ::
  "'g runner \<Rightarrow> string \<Rightarrow> cliDialect \<Rightarrow> bool \<Rightarrow> ContainerSpec \<Rightarrow> 'g \<Rightarrow> 'g \<times> string \<times> go_error option"
where
  "cli_Create r binary dialect detach spec g =
     (case run_command r binary (createArgs (cr_windows r) (cr_marshal_strings r) spec dialect detach) g of
        (g', (_, outErr), err) \<Rightarrow> (g', outErr, err))"

definition podman_Create :: "'g runner \<Rightarrow> ContainerSpec \<Rightarrow> 'g \<Rightarrow> 'g \<times> string \<times> go_error option" where
  "podman_Create r spec g = cli_Create r ''podman'' podmanDialect True spec g"

text \<open>\<open>RunToCompletion\<close> and the other commands below are shared by both engines.\<close>

definition cli_RunToCompletion ::
  "'g runner \<Rightarrow> string \<Rightarrow> cliDialect \<Rightarrow> ContainerSpec \<Rightarrow> 'g \<Rightarrow> 'g \<times> string \<times> go_error option"
where
  "cli_RunToCompletion r binary dialect spec g = cli_Create r binary dialect False spec g"

definition podman_Remove :: "'g runner \<Rightarrow> string \<Rightarrow> bool \<Rightarrow> 'g \<Rightarrow> 'g \<times> go_error option" where
  "podman_Remove r name force g =
     run r ''podman'' (if force then [''rm'', ''--force'', ''--ignore'', ''--'', name] else [''rm'', ''--'', name]) g"

definition cli_Stop :: "'g runner \<Rightarrow> string \<Rightarrow> string \<Rightarrow> 'g \<Rightarrow> 'g \<times> go_error option" where
  "cli_Stop r binary name g = run r binary [''stop'', name] g"

definition cli_Rename :: "'g runner \<Rightarrow> string \<Rightarrow> string \<Rightarrow> string \<Rightarrow> 'g \<Rightarrow> 'g \<times> go_error option" where
  "cli_Rename r binary from_name to_name g = run r binary [''rename'', from_name, to_name] g"

definition cli_CopyFrom :: "'g runner \<Rightarrow> string \<Rightarrow> string \<Rightarrow> string \<Rightarrow> string \<Rightarrow> 'g \<Rightarrow> 'g \<times> go_error option" where
  "cli_CopyFrom r binary container path destination g = run r binary [''cp'', container @ '':'' @ path, destination] g"

definition cli_Exec :: "'g runner \<Rightarrow> string \<Rightarrow> string \<Rightarrow> string list \<Rightarrow> 'g \<Rightarrow> 'g \<times> go_error option" where
  "cli_Exec r binary container command g = run r binary ([''exec'', container] @ command) g"

definition filter_args :: "ContainerFilter list \<Rightarrow> string list" where
  "filter_args filters = concat (map (\<lambda>f. case f of
       FilterName n \<Rightarrow> if n \<noteq> [] then [''--filter'', ''name=^'' @ n @ ''$''] else []
     | FilterLabel l \<Rightarrow> if l \<noteq> [] then [''--filter'', ''label='' @ l] else []) filters)"

definition podmanLifecycle :: "string \<Rightarrow> ContainerLifecycle" where
  "podmanLifecycle state =
     (if state = ''running'' then ContainerLifecycleRunning
      else if state = ''paused'' then ContainerLifecyclePaused
      else if state \<in> {''configured'', ''created'', ''initialized'', ''exited'', ''stopped'', ''stopping'', ''removing''}
        then ContainerLifecycleStopped
      else ContainerLifecycleUnknown)"

definition podmanListing_container :: "podmanListing \<Rightarrow> ContainerListing" where
  "podmanListing_container l = \<lparr>cl_ID = pl_ID l, cl_Names = pl_Names l, cl_Labels = pl_Labels l, cl_State = pl_State l,
     cl_Lifecycle = podmanLifecycle (pl_State l), cl_ExitCode = pl_ExitCode l, cl_Ports = pl_Ports l,
     cl_StartedAt = (if pl_StartedAt l > 0 then Some (pl_StartedAt l * 1000000000) else None)\<rparr>"

definition podman_List :: "'g runner \<Rightarrow> ContainerFilter list \<Rightarrow> 'g \<Rightarrow> 'g \<times> (go_error, ContainerListing list) result" where
  "podman_List r filters g =
     (case run_output r ''podman'' ([''ps'', ''--all''] @ filter_args filters @ [''--format'', ''json'']) g of
        (g', _, Some e) \<Rightarrow> (g', Inl e)
      | (g', output, None) \<Rightarrow>
          (g', if TrimSpace output = [] then Inr []
               else case cr_podmanListings r output of
                 Inl e \<Rightarrow> Inl (Wrap ''decode container listing'' e)
               | Inr ls \<Rightarrow> Inr (map podmanListing_container ls)))"

definition has_name :: "string \<Rightarrow> ContainerListing list \<Rightarrow> bool" where
  "has_name name containers \<longleftrightarrow> list_ex (\<lambda>c. name \<in> set (cl_Names c)) containers"

definition podman_exists :: "'g runner \<Rightarrow> string \<Rightarrow> 'g \<Rightarrow> 'g \<times> (go_error, bool) result" where
  "podman_exists r name g =
     (case podman_List r [FilterName name] g of
        (g', Inl e) \<Rightarrow> (g', Inl e)
      | (g', Inr cs) \<Rightarrow> (g', Inr (has_name name cs)))"

definition podmanInspection_attachment :: "podmanInspection \<Rightarrow> ContainerAttachment" where
  "podmanInspection_attachment i =
     \<lparr>ca_Bridged = (pi_NetworkMode i = ''bridge''), ca_Networks = pi_Networks i, ca_Labels = pi_Labels i\<rparr>"

definition podman_Attachment :: "'g runner \<Rightarrow> string \<Rightarrow> 'g \<Rightarrow> 'g \<times> (go_error, ContainerAttachment option) result" where
  "podman_Attachment r name g =
     (case podman_exists r name g of
        (g1, Inl e) \<Rightarrow> (g1, Inl e)
      | (g1, Inr False) \<Rightarrow> (g1, Inr None)
      | (g1, Inr True) \<Rightarrow>
          (case run_output r ''podman'' [''container'', ''inspect'', name] g1 of
             (g2, _, Some e) \<Rightarrow> (g2, Inl e)
           | (g2, output, None) \<Rightarrow>
               (g2, case cr_podmanInspections r output of
                      Inl e \<Rightarrow> Inl (Wrap ''decode container attachment'' e)
                    | Inr [i] \<Rightarrow> Inr (Some (podmanInspection_attachment i))
                    | Inr _ \<Rightarrow> Inl (Plain (''runtime did not report container '' @ name)))))"

definition podmanMount_mount :: "podmanMount \<Rightarrow> ContainerMount" where
  "podmanMount_mount m = \<lparr>cm_BindMount = (pmt_Type m = ''bind''), cm_Source = pmt_Source m, cm_Destination = pmt_Destination m\<rparr>"

definition cli_Mounts :: "'g runner \<Rightarrow> string \<Rightarrow> string \<Rightarrow> 'g \<Rightarrow> 'g \<times> (go_error, ContainerMount list) result" where
  "cli_Mounts r binary name g =
     (case run_output r binary [''container'', ''inspect'', ''--format'', ''{{json .Mounts}}'', name] g of
        (g', _, Some e) \<Rightarrow> (g', Inl e)
      | (g', output, None) \<Rightarrow>
          (g', case cr_podmanMounts r output of
                 Inl e \<Rightarrow> Inl (Wrap ''decode container mounts'' e)
               | Inr ms \<Rightarrow> Inr (map podmanMount_mount ms)))"

text \<open>The image a load reports; several different ones are an error.\<close>

fun parseLoaded_loop :: "string list \<Rightarrow> string \<Rightarrow> (go_error, string) result" where
  "parseLoaded_loop [] loaded =
     (if loaded = [] then Inl (Plain ''container runtime reported no loaded image'') else Inr loaded)"
| "parseLoaded_loop (l # ls) loaded =
     (case (case Cut l ''Loaded image:'' of None \<Rightarrow> Cut l ''Loaded image ID:'' | Some c \<Rightarrow> Some c) of
        None \<Rightarrow> parseLoaded_loop ls loaded
      | Some (_, rest) \<Rightarrow>
          (let img = TrimSpace rest in
           if img = [] then parseLoaded_loop ls loaded
           else if loaded \<noteq> [] \<and> loaded \<noteq> img then Inl (Plain ''container runtime reported multiple images'')
           else parseLoaded_loop ls img))"

definition parseLoadedImage :: "string \<Rightarrow> (go_error, string) result" where
  "parseLoadedImage output = parseLoaded_loop (SplitByte output newline) []"

definition cli_LoadImage :: "'g runner \<Rightarrow> string \<Rightarrow> string \<Rightarrow> 'g \<Rightarrow> 'g \<times> (go_error, string) result" where
  "cli_LoadImage r binary path g =
     (case run_output r binary [''load'', ''-i'', path] g of
        (g', _, Some e) \<Rightarrow> (g', Inl e)
      | (g', output, None) \<Rightarrow> (g', parseLoadedImage output))"

definition podman_ImageExists :: "'g runner \<Rightarrow> string \<Rightarrow> 'g \<Rightarrow> 'g \<times> (go_error, bool) result" where
  "podman_ImageExists r img g = succeeded r ''podman'' [''image'', ''exists'', img] g"

definition cli_PullImage :: "'g runner \<Rightarrow> string \<Rightarrow> string \<Rightarrow> 'g \<Rightarrow> 'g \<times> go_error option" where
  "cli_PullImage r binary img g = run r binary [''pull'', img] g"

definition cli_RemoveImage :: "'g runner \<Rightarrow> string \<Rightarrow> string \<Rightarrow> 'g \<Rightarrow> 'g \<times> go_error option" where
  "cli_RemoveImage r binary img g = run r binary [''rmi'', img] g"

definition cli_ImportImage :: "'g runner \<Rightarrow> string \<Rightarrow> string \<Rightarrow> string \<Rightarrow> string list \<Rightarrow> 'g \<Rightarrow> 'g \<times> go_error option" where
  "cli_ImportImage r binary path img labels g =
     run r binary ([''import''] @ concat (map (\<lambda>l. [''--change'', ''LABEL '' @ l]) labels) @ [path, img]) g"

definition cli_Images :: "'g runner \<Rightarrow> string \<Rightarrow> string list \<Rightarrow> 'g \<Rightarrow> 'g \<times> (go_error, string list) result" where
  "cli_Images r binary labels g =
     (case run_output r binary ([''images''] @ concat (map (\<lambda>l. [''--filter'', ''label='' @ l]) labels)
             @ [''--format'', ''{{.Repository}}:{{.Tag}}'']) g of
        (g', _, Some e) \<Rightarrow> (g', Inl e)
      | (g', output, None) \<Rightarrow> (g', Inr (Fields output)))"

definition podman_CreateNetwork :: "'g runner \<Rightarrow> NetworkSpec \<Rightarrow> 'g \<Rightarrow> 'g \<times> go_error option" where
  "podman_CreateNetwork r spec g =
     run r ''podman'' ([''network'', ''create'', ''--ignore'', ''--driver'', ''bridge'']
       @ (if ns_DNS spec then [] else [''--disable-dns'']) @ keyed_args ''--label'' (ns_Labels spec) @ [ns_Name spec]) g"

definition podmanNetwork_network :: "podmanNetwork \<Rightarrow> ContainerNetwork" where
  "podmanNetwork_network n =
     \<lparr>cn_Name = pn_Name n, cn_Bridge = (pn_Driver n = ''bridge''), cn_DNSEnabled = pn_DNSEnabled n, cn_Labels = pn_Labels n\<rparr>"

definition decodePodmanNetworks :: "'g runner \<Rightarrow> string \<Rightarrow> (go_error, ContainerNetwork list) result" where
  "decodePodmanNetworks r output =
     (if TrimSpace output = [] then Inr []
      else case cr_podmanNetworks r output of
        Inl e \<Rightarrow> Inl (Wrap ''decode container networks'' e)
      | Inr ns \<Rightarrow> Inr (map podmanNetwork_network ns))"

definition podman_Network :: "'g runner \<Rightarrow> string \<Rightarrow> 'g \<Rightarrow> 'g \<times> (go_error, ContainerNetwork option) result" where
  "podman_Network r name g =
     (case run_output r ''podman'' [''network'', ''inspect'', name] g of
        (g', _, Some e) \<Rightarrow> (g', Inl e)
      | (g', output, None) \<Rightarrow>
          (g', bind_result (decodePodmanNetworks r output) (\<lambda>ns. Inr (List.find (\<lambda>n. cn_Name n = name) ns))))"

definition podman_Networks :: "'g runner \<Rightarrow> 'g \<Rightarrow> 'g \<times> (go_error, ContainerNetwork list) result" where
  "podman_Networks r g =
     (case run_output r ''podman'' [''network'', ''ls'', ''--format'', ''json''] g of
        (g', _, Some e) \<Rightarrow> (g', Inl e)
      | (g', output, None) \<Rightarrow> (g', decodePodmanNetworks r output))"

definition cli_ConnectNetwork ::
  "'g runner \<Rightarrow> string \<Rightarrow> string \<Rightarrow> string \<Rightarrow> string list \<Rightarrow> 'g \<Rightarrow> 'g \<times> go_error option"
where
  "cli_ConnectNetwork r binary network container aliases g =
     run r binary ([''network'', ''connect''] @ concat (map (\<lambda>a. [''--alias'', a]) aliases) @ [network, container]) g"

definition cli_RemoveNetwork :: "'g runner \<Rightarrow> string \<Rightarrow> string \<Rightarrow> 'g \<Rightarrow> 'g \<times> go_error option" where
  "cli_RemoveNetwork r binary name g = run r binary [''network'', ''rm'', name] g"

section \<open>Docker\<close>

definition dockerDialect :: cliDialect where
  "dockerDialect = \<lparr>cd_replaceFlag = False, cd_jsonEntrypoint = False, cd_writableImageMounts = False,
     cd_nestedSandbox = [''seccomp=unconfined'', ''apparmor=unconfined'', ''systempaths=unconfined'']\<rparr>"

text \<open>A forced removal of a container that is gone succeeds; what the command wrote tells.\<close>

definition docker_Remove :: "'g runner \<Rightarrow> string \<Rightarrow> bool \<Rightarrow> 'g \<Rightarrow> 'g \<times> string \<times> go_error option" where
  "docker_Remove r name force g =
     (if \<not> force then (case run_command r ''docker'' [''rm'', ''--'', name] g of (g', (_, outErr), err) \<Rightarrow> (g', outErr, err))
      else case run_command r ''docker'' [''rm'', ''--force'', ''--'', name] g of
        (g', (_, outErr), err) \<Rightarrow>
          (g', outErr, if err \<noteq> None \<and> Contains outErr ''No such container'' then None else err))"

fun apparmor_loop :: "string list \<Rightarrow> bool \<Rightarrow> bool" where
  "apparmor_loop [] apparmor = apparmor"
| "apparmor_loop (o' # os) apparmor =
     (if o' = ''name=rootless'' \<or> HasPrefix o' ''name=rootless,'' then False
      else apparmor_loop os (apparmor \<or> o' = ''name=apparmor'' \<or> HasPrefix o' ''name=apparmor,''))"

definition sandboxNeedsSysAdmin :: "'g runner \<Rightarrow> 'g \<Rightarrow> 'g \<times> string \<times> (go_error, bool) result" where
  "sandboxNeedsSysAdmin r g =
     (if \<not> cr_userNamespacesRestricted r then (g, [], Inr False)
      else case run_command r ''docker'' [''info'', ''--format'', ''{{json .SecurityOptions}}''] g of
        (g', (_, outErr), Some e) \<Rightarrow> (g', outErr, Inl e)
      | (g', (output, outErr), None) \<Rightarrow>
          (g', outErr,
           case cr_strings r output of
             Inl e \<Rightarrow> Inl (Wrap ''decode Docker security options'' e)
           | Inr options \<Rightarrow> Inr (apparmor_loop options False)))"

definition docker_Create :: "'g runner \<Rightarrow> ContainerSpec \<Rightarrow> 'g \<Rightarrow> 'g \<times> string \<times> go_error option" where
  "docker_Create r spec g =
     (case (if cs_Replace spec \<and> cs_Name spec \<noteq> [] then docker_Remove r (cs_Name spec) True g else (g, [], None)) of
        (g1, out1, Some e) \<Rightarrow> (g1, out1, Some e)
      | (g1, out1, None) \<Rightarrow>
          (case (if cs_NestedSandbox spec then sandboxNeedsSysAdmin r g1 else (g1, [], Inr False)) of
             (g2, out2, Inl e) \<Rightarrow> (g2, out1 @ out2, Some e)
           | (g2, out2, Inr privileged) \<Rightarrow>
               (case cli_Create r ''docker'' dockerDialect True
                       (if privileged then spec\<lparr>cs_Capabilities := cs_Capabilities spec @ [''SYS_ADMIN'']\<rparr> else spec) g2 of
                  (g3, out3, err) \<Rightarrow> (g3, out1 @ out2 @ out3, err))))"

definition dockerLifecycle :: "string \<Rightarrow> ContainerLifecycle" where
  "dockerLifecycle status =
     (if status = ''running'' then ContainerLifecycleRunning
      else if status = ''restarting'' then ContainerLifecycleRestarting
      else if status = ''paused'' then ContainerLifecyclePaused
      else if status \<in> {''created'', ''exited'', ''dead'', ''removing''} then ContainerLifecycleStopped
      else ContainerLifecycleUnknown)"

text \<open>The bindings of a port key \<^verbatim>\<open>8563/tcp\<close>; a key or a binding that is no number is left out.\<close>

definition port_bindings :: "string \<Rightarrow> (string \<times> string) list \<Rightarrow> ContainerPort list" where
  "port_bindings published bindings =
     (let (rawPort, protocol) = (case Cut published ''/'' of None \<Rightarrow> (published, []) | Some c \<Rightarrow> c) in
      case Atoi rawPort of
        None \<Rightarrow> []
      | Some containerPort \<Rightarrow>
          List.map_filter (\<lambda>(ip, port). map_option (\<lambda>hostPort.
              \<lparr>cp_HostIP = ip, cp_HostPort = hostPort, cp_ContainerPort = containerPort, cp_Protocol = protocol\<rparr>) (Atoi port))
            bindings)"

definition dockerInspection_listing :: "dockerInspection \<Rightarrow> ContainerListing" where
  "dockerInspection_listing i =
     \<lparr>cl_ID = di_ID i, cl_Names = [TrimPrefix (di_Name i) ''/''], cl_Labels = di_Labels i, cl_State = di_Status i,
      cl_Lifecycle = dockerLifecycle (di_Status i), cl_ExitCode = di_ExitCode i,
      cl_Ports = concat (map (\<lambda>p. port_bindings p (case map_of (di_Ports i) p of None \<Rightarrow> [] | Some bs \<Rightarrow> bs))
        (sorted_keys (di_Ports i))),
      cl_StartedAt = di_StartedAt i\<rparr>"

definition dockerInspection_attachment :: "dockerInspection \<Rightarrow> ContainerAttachment" where
  "dockerInspection_attachment i =
     \<lparr>ca_Bridged = (di_NetworkMode i \<noteq> ''host'' \<and> di_NetworkMode i \<noteq> ''none'' \<and> \<not> HasPrefix (di_NetworkMode i) ''container:''),
      ca_Networks = di_Networks i, ca_Labels = di_Labels i\<rparr>"

definition dockerNetwork_network :: "dockerNetwork \<Rightarrow> ContainerNetwork" where
  "dockerNetwork_network n =
     \<lparr>cn_Name = dn_Name n, cn_Bridge = (dn_Driver n = ''bridge''),
      cn_DNSEnabled = (dn_Driver n = ''bridge'' \<and> dn_Name n \<noteq> ''bridge''), cn_Labels = dn_Labels n\<rparr>"

definition dockerObjectMissing :: "string \<Rightarrow> bool" where
  "dockerObjectMissing diagnostic \<longleftrightarrow>
     Contains diagnostic ''No such container'' \<or> Contains diagnostic ''No such network''
     \<or> (Contains diagnostic ''network '' \<and> Contains diagnostic '' not found'')"

datatype 'a inspected = Gone | Found "'a list" | InspectFails go_error

definition inspectDocker ::
  "'g runner \<Rightarrow> (string \<Rightarrow> (go_error, 'a list) result) \<Rightarrow> string \<Rightarrow> string list \<Rightarrow> 'g \<Rightarrow> 'g \<times> 'a inspected"
where
  "inspectDocker r decode kind ids g =
     (case run_command r ''docker'' ([kind, ''inspect''] @ ids) g of
        (g', (_, diagnostic), Some e) \<Rightarrow> (g', if dockerObjectMissing diagnostic then Gone else InspectFails e)
      | (g', (output, _), None) \<Rightarrow>
          (g', case decode output of
                 Inl e \<Rightarrow> InspectFails (Wrap (''decode '' @ kind @ '' inspection'') e)
               | Inr xs \<Rightarrow> Found xs))"

fun inspect_each ::
  "'g runner \<Rightarrow> (string \<Rightarrow> (go_error, 'a list) result) \<Rightarrow> string \<Rightarrow> string list \<Rightarrow> 'g \<Rightarrow> 'g \<times> (go_error, 'a list) result"
where
  "inspect_each r decode kind [] g = (g, Inr [])"
| "inspect_each r decode kind (i # is) g =
     (case inspectDocker r decode kind [i] g of
        (g', InspectFails e) \<Rightarrow> (g', Inl e)
      | (g', Gone) \<Rightarrow> inspect_each r decode kind is g'
      | (g', Found xs) \<Rightarrow>
          (case inspect_each r decode kind is g' of
             (g'', Inl e) \<Rightarrow> (g'', Inl e)
           | (g'', Inr ys) \<Rightarrow> (g'', Inr (xs @ ys))))"

definition inspectListed ::
  "'g runner \<Rightarrow> (string \<Rightarrow> (go_error, 'a list) result) \<Rightarrow> string \<Rightarrow> string list \<Rightarrow> 'g \<Rightarrow> 'g \<times> (go_error, 'a list) result"
where
  "inspectListed r decode kind ids g =
     (case inspectDocker r decode kind ids g of
        (g', InspectFails e) \<Rightarrow> (g', Inl e)
      | (g', Found xs) \<Rightarrow> (g', Inr xs)
      | (g', Gone) \<Rightarrow> if length ids = 1 then (g', Inr []) else inspect_each r decode kind ids g')"

definition docker_List :: "'g runner \<Rightarrow> ContainerFilter list \<Rightarrow> 'g \<Rightarrow> 'g \<times> (go_error, ContainerListing list) result" where
  "docker_List r filters g =
     (case run_output r ''docker'' ([''ps'', ''--all'', ''--quiet'', ''--no-trunc''] @ filter_args filters) g of
        (g', _, Some e) \<Rightarrow> (g', Inl e)
      | (g', output, None) \<Rightarrow>
          (let ids = Fields output in
           if ids = [] then (g', Inr [])
           else case inspectListed r (cr_dockerInspections r) ''container'' ids g' of
             (g'', Inl e) \<Rightarrow> (g'', Inl e)
           | (g'', Inr is) \<Rightarrow> (g'', Inr (map dockerInspection_listing is))))"

definition docker_exists :: "'g runner \<Rightarrow> string \<Rightarrow> 'g \<Rightarrow> 'g \<times> (go_error, bool) result" where
  "docker_exists r name g =
     (case docker_List r [FilterName name] g of
        (g', Inl e) \<Rightarrow> (g', Inl e)
      | (g', Inr cs) \<Rightarrow> (g', Inr (has_name name cs)))"

definition docker_Attachment :: "'g runner \<Rightarrow> string \<Rightarrow> 'g \<Rightarrow> 'g \<times> (go_error, ContainerAttachment option) result" where
  "docker_Attachment r name g =
     (case docker_exists r name g of
        (g1, Inl e) \<Rightarrow> (g1, Inl e)
      | (g1, Inr False) \<Rightarrow> (g1, Inr None)
      | (g1, Inr True) \<Rightarrow>
          (case inspectListed r (cr_dockerInspections r) ''container'' [name] g1 of
             (g2, Inl e) \<Rightarrow> (g2, Inl e)
           | (g2, Inr []) \<Rightarrow> (g2, Inr None)
           | (g2, Inr [i]) \<Rightarrow> (g2, Inr (Some (dockerInspection_attachment i)))
           | (g2, Inr _) \<Rightarrow> (g2, Inl (Plain (''runtime did not report container '' @ name)))))"

definition docker_ImageExists :: "'g runner \<Rightarrow> string \<Rightarrow> 'g \<Rightarrow> 'g \<times> (go_error, bool) result" where
  "docker_ImageExists r img g =
     (case run_command r ''docker'' [''image'', ''inspect'', ''--format'', ''{{.Id}}'', ''--'', img] g of
        (g', _, None) \<Rightarrow> (g', Inr True)
      | (g', (_, diagnostic), Some e) \<Rightarrow> (g', if Contains diagnostic ''No such image'' then Inr False else Inl e))"

definition docker_Network :: "'g runner \<Rightarrow> string \<Rightarrow> 'g \<Rightarrow> 'g \<times> (go_error, ContainerNetwork option) result" where
  "docker_Network r name g =
     (case inspectListed r (cr_dockerNetworks r) ''network'' [name] g of
        (g', Inl e) \<Rightarrow> (g', Inl e)
      | (g', Inr ns) \<Rightarrow> (g', Inr (map_option dockerNetwork_network (List.find (\<lambda>n. dn_Name n = name) ns))))"

definition docker_CreateNetwork :: "'g runner \<Rightarrow> NetworkSpec \<Rightarrow> 'g \<Rightarrow> 'g \<times> go_error option" where
  "docker_CreateNetwork r spec g =
     (case docker_Network r (ns_Name spec) g of
        (g', Inl e) \<Rightarrow> (g', Some e)
      | (g', Inr (Some _)) \<Rightarrow> (g', None)
      | (g', Inr None) \<Rightarrow>
          run r ''docker'' ([''network'', ''create'', ''--driver'', ''bridge''] @ keyed_args ''--label'' (ns_Labels spec)
            @ [ns_Name spec]) g')"

definition docker_Networks :: "'g runner \<Rightarrow> 'g \<Rightarrow> 'g \<times> (go_error, ContainerNetwork list) result" where
  "docker_Networks r g =
     (case run_output r ''docker'' [''network'', ''ls'', ''--quiet'', ''--no-trunc''] g of
        (g', _, Some e) \<Rightarrow> (g', Inl e)
      | (g', output, None) \<Rightarrow>
          (let ids = Fields output in
           if ids = [] then (g', Inr [])
           else case inspectListed r (cr_dockerNetworks r) ''network'' ids g' of
             (g'', Inl e) \<Rightarrow> (g'', Inl e)
           | (g'', Inr ns) \<Rightarrow> (g'', Inr (map dockerNetwork_network ns))))"

section \<open>The interface\<close>

text \<open>\<open>ContainerRuntime\<close>: one record for both engines. \<open>Create\<close> and \<open>RunToCompletion\<close> also give what was
  written to the error stream.\<close>

record 'g ContainerRuntime =
  cc_Create :: "ContainerSpec \<Rightarrow> 'g \<Rightarrow> 'g \<times> string \<times> go_error option"
  cc_RunToCompletion :: "ContainerSpec \<Rightarrow> 'g \<Rightarrow> 'g \<times> string \<times> go_error option"
  cc_Remove :: "string \<Rightarrow> bool \<Rightarrow> 'g \<Rightarrow> 'g \<times> go_error option"
  cc_Stop :: "string \<Rightarrow> 'g \<Rightarrow> 'g \<times> go_error option"
  cc_Rename :: "string \<Rightarrow> string \<Rightarrow> 'g \<Rightarrow> 'g \<times> go_error option"
  cc_CopyFrom :: "string \<Rightarrow> string \<Rightarrow> string \<Rightarrow> 'g \<Rightarrow> 'g \<times> go_error option"
  cc_Exec :: "string \<Rightarrow> string list \<Rightarrow> 'g \<Rightarrow> 'g \<times> go_error option"
  cc_List :: "ContainerFilter list \<Rightarrow> 'g \<Rightarrow> 'g \<times> (go_error, ContainerListing list) result"
  cc_Attachment :: "string \<Rightarrow> 'g \<Rightarrow> 'g \<times> (go_error, ContainerAttachment option) result"
  cc_Mounts :: "string \<Rightarrow> 'g \<Rightarrow> 'g \<times> (go_error, ContainerMount list) result"
  cc_LoadImage :: "string \<Rightarrow> 'g \<Rightarrow> 'g \<times> (go_error, string) result"
  cc_ImageExists :: "string \<Rightarrow> 'g \<Rightarrow> 'g \<times> (go_error, bool) result"
  cc_PullImage :: "string \<Rightarrow> 'g \<Rightarrow> 'g \<times> go_error option"
  cc_RemoveImage :: "string \<Rightarrow> 'g \<Rightarrow> 'g \<times> go_error option"
  cc_ImportImage :: "string \<Rightarrow> string \<Rightarrow> string list \<Rightarrow> 'g \<Rightarrow> 'g \<times> go_error option"
  cc_Images :: "string list \<Rightarrow> 'g \<Rightarrow> 'g \<times> (go_error, string list) result"
  cc_CreateNetwork :: "NetworkSpec \<Rightarrow> 'g \<Rightarrow> 'g \<times> go_error option"
  cc_Network :: "string \<Rightarrow> 'g \<Rightarrow> 'g \<times> (go_error, ContainerNetwork option) result"
  cc_Networks :: "'g \<Rightarrow> 'g \<times> (go_error, ContainerNetwork list) result"
  cc_ConnectNetwork :: "string \<Rightarrow> string \<Rightarrow> string list \<Rightarrow> 'g \<Rightarrow> 'g \<times> go_error option"
  cc_RemoveNetwork :: "string \<Rightarrow> 'g \<Rightarrow> 'g \<times> go_error option"

definition newPodmanRuntime :: "'g runner \<Rightarrow> 'g ContainerRuntime" where
  "newPodmanRuntime r =
     \<lparr>cc_Create = podman_Create r, cc_RunToCompletion = cli_RunToCompletion r ''podman'' podmanDialect,
      cc_Remove = podman_Remove r, cc_Stop = cli_Stop r ''podman'', cc_Rename = cli_Rename r ''podman'',
      cc_CopyFrom = cli_CopyFrom r ''podman'', cc_Exec = cli_Exec r ''podman'', cc_List = podman_List r,
      cc_Attachment = podman_Attachment r, cc_Mounts = cli_Mounts r ''podman'', cc_LoadImage = cli_LoadImage r ''podman'',
      cc_ImageExists = podman_ImageExists r, cc_PullImage = cli_PullImage r ''podman'',
      cc_RemoveImage = cli_RemoveImage r ''podman'', cc_ImportImage = cli_ImportImage r ''podman'',
      cc_Images = cli_Images r ''podman'', cc_CreateNetwork = podman_CreateNetwork r, cc_Network = podman_Network r,
      cc_Networks = podman_Networks r, cc_ConnectNetwork = cli_ConnectNetwork r ''podman'',
      cc_RemoveNetwork = cli_RemoveNetwork r ''podman''\<rparr>"

definition newDockerRuntime :: "'g runner \<Rightarrow> 'g ContainerRuntime" where
  "newDockerRuntime r =
     \<lparr>cc_Create = docker_Create r, cc_RunToCompletion = cli_RunToCompletion r ''docker'' dockerDialect,
      cc_Remove = (\<lambda>name force g. case docker_Remove r name force g of (g', _, err) \<Rightarrow> (g', err)),
      cc_Stop = cli_Stop r ''docker'', cc_Rename = cli_Rename r ''docker'',
      cc_CopyFrom = cli_CopyFrom r ''docker'', cc_Exec = cli_Exec r ''docker'', cc_List = docker_List r,
      cc_Attachment = docker_Attachment r, cc_Mounts = cli_Mounts r ''docker'', cc_LoadImage = cli_LoadImage r ''docker'',
      cc_ImageExists = docker_ImageExists r, cc_PullImage = cli_PullImage r ''docker'',
      cc_RemoveImage = cli_RemoveImage r ''docker'', cc_ImportImage = cli_ImportImage r ''docker'',
      cc_Images = cli_Images r ''docker'', cc_CreateNetwork = docker_CreateNetwork r, cc_Network = docker_Network r,
      cc_Networks = docker_Networks r, cc_ConnectNetwork = cli_ConnectNetwork r ''docker'',
      cc_RemoveNetwork = cli_RemoveNetwork r ''docker''\<rparr>"

definition NewContainerRuntime :: "string \<Rightarrow> 'g runner \<Rightarrow> (go_error, 'g ContainerRuntime) result" where
  "NewContainerRuntime engine r =
     (if engine = ''podman'' then Inr (newPodmanRuntime r)
      else if engine = ''docker'' then Inr (newDockerRuntime r)
      else Inl (Plain (''unsupported container engine '' @ engine)))"

section \<open>Bounded diagnostics\<close>

text \<open>However a command's error output is cut into chunks, its tail is kept.\<close>

lemma stderrTail_Write_suffix:
  "stderrTail_Write (drop (length s - stderrTailLimit) s) c = drop (length (s @ c) - stderrTailLimit) (s @ c)"
proof (cases "length s \<le> stderrTailLimit")
  case False
  let ?k = "length s - stderrTailLimit"
  have "drop ?k s @ c = drop ?k (s @ c)" using False by simp
  moreover have "length (drop ?k (s @ c)) - stderrTailLimit = length c" using False by simp
  moreover have "length (s @ c) - stderrTailLimit = ?k + length c" using False by simp
  ultimately show ?thesis by (simp add: stderrTail_Write_def Let_def add.commute)
qed (simp add: stderrTail_Write_def Let_def)

lemma stderrTail_keeps_tail:
  "fold (\<lambda>c t. stderrTail_Write t c) chunks [] = drop (length (concat chunks) - stderrTailLimit) (concat chunks)"
proof -
  have "fold (\<lambda>c t. stderrTail_Write t c) chunks (drop (length s - stderrTailLimit) s)
      = drop (length (s @ concat chunks) - stderrTailLimit) (s @ concat chunks)" for s
  proof (induction chunks arbitrary: s)
    case (Cons c chunks)
    show ?case using Cons[of "s @ c"] by (simp add: stderrTail_Write_suffix)
  qed simp
  from this[of "[]"] show ?thesis by simp
qed

section \<open>Listing while containers disappear\<close>

text \<open>What the code relies on of \<^verbatim>\<open>docker inspect\<close> in a state whose containers are \<open>db\<close>: it answers for all
  the objects when all exist, fails with a message that says so when one is gone, and changes nothing.\<close>

definition docker_inspects :: "'g runner \<Rightarrow> (string \<Rightarrow> dockerInspection option) \<Rightarrow> 'g \<Rightarrow> bool" where
  "docker_inspects r db g \<longleftrightarrow>
     (\<forall>ids. if list_all (\<lambda>i. db i \<noteq> None) ids
        then (\<exists>out. run_command r ''docker'' ([''container'', ''inspect''] @ ids) g = (g, out, None)
               \<and> cr_dockerInspections r (fst out) = Inr (List.map_filter db ids))
        else (\<exists>out e. run_command r ''docker'' ([''container'', ''inspect''] @ ids) g = (g, out, Some e)
               \<and> dockerObjectMissing (snd out)))"

lemma inspectDocker_lawful:
  assumes "docker_inspects r db g"
  shows "inspectDocker r (cr_dockerInspections r) ''container'' ids g
    = (g, if list_all (\<lambda>i. db i \<noteq> None) ids then Found (List.map_filter db ids) else Gone)"
  using assms[unfolded docker_inspects_def, rule_format, of ids]
  by (auto simp: inspectDocker_def split: if_splits)

lemma inspect_each_lawful:
  assumes "docker_inspects r db g"
  shows "inspect_each r (cr_dockerInspections r) ''container'' ids g = (g, Inr (List.map_filter db ids))"
  by (induction ids) (auto simp: inspectDocker_lawful[OF assms] List.map_filter_def)

text \<open>Listing survives containers that disappear. Docker lists identifiers first and inspects them in a
  second command; when another program has removed some of the containers in between, the listing is
  exactly that of the containers still there, in their order, and not an error.\<close>

theorem docker_list_skips_gone:
  assumes "run_output r ''docker'' ([''ps'', ''--all'', ''--quiet'', ''--no-trunc''] @ filter_args filters) g = (g', output, None)"
    and "docker_inspects r db g'"
  shows "docker_List r filters g = (g', Inr (map dockerInspection_listing (List.map_filter db (Fields output))))"
proof (cases "list_all (\<lambda>i. db i \<noteq> None) (Fields output)")
  case True
  then show ?thesis using assms(1)
    by (auto simp: docker_List_def Let_def inspectListed_def inspectDocker_lawful[OF assms(2)] List.map_filter_def)
next
  case False
  have "inspectListed r (cr_dockerInspections r) ''container'' (Fields output) g' = (g', Inr (List.map_filter db (Fields output)))"
  proof (cases "length (Fields output) = 1")
    case True
    then obtain i where "Fields output = [i]" by (metis One_nat_def length_0_conv length_Suc_conv)
    then show ?thesis using False by (auto simp: inspectListed_def inspectDocker_lawful[OF assms(2)] List.map_filter_def)
  next
    case several: False
    then show ?thesis
      using False by (simp add: inspectListed_def inspectDocker_lawful[OF assms(2)] inspect_each_lawful[OF assms(2)])
  qed
  then show ?thesis using False assms(1) by (auto simp: docker_List_def Let_def)
qed

text \<open>An engine that reported two containers, one of which is gone when they are inspected.\<close>

definition demo_inspection :: "string \<Rightarrow> dockerInspection" where
  "demo_inspection i = \<lparr>di_ID = i, di_Name = ''/db'', di_Status = ''running'', di_ExitCode = 0, di_StartedAt = None,
     di_Labels = [], di_NetworkMode = ''bridge'', di_Ports = [(''8563/tcp'', [(''127.0.0.1'', ''8563'')])], di_Networks = []\<rparr>"

definition demo_runner :: "unit runner" where
  "demo_runner = \<lparr>cr_Run = (\<lambda>args g. (g,
       if take 2 args = [''docker'', ''ps''] then \<lparr>rp_stdout = ''aa bb'', rp_stderr = [], rp_err = None\<rparr>
       else if list_all (\<lambda>i. i = ''aa'') (drop 3 args)
       then \<lparr>rp_stdout = concat (drop 3 args), rp_stderr = [], rp_err = None\<rparr>
       else \<lparr>rp_stdout = [], rp_stderr = [''Error: No such container: bb''], rp_err = Some (ExitError 1)\<rparr>)),
     cr_windows = False, cr_userNamespacesRestricted = False, cr_marshal_strings = concat,
     cr_podmanListings = (\<lambda>_. Inr []), cr_podmanNetworks = (\<lambda>_. Inr []), cr_podmanInspections = (\<lambda>_. Inr []),
     cr_podmanMounts = (\<lambda>_. Inr []),
     cr_dockerInspections = (\<lambda>s. Inr (replicate (length s div 2) (demo_inspection ''aa''))),
     cr_dockerNetworks = (\<lambda>_. Inr []), cr_strings = (\<lambda>_. Inr [])\<rparr>"

lemma demo_runner_inspects:
  "docker_inspects demo_runner (\<lambda>i. if i = ''aa'' then Some (demo_inspection i) else None) ()"
proof -
  have all: "list_all (\<lambda>i. i = ''aa'') ids \<Longrightarrow> length (concat ids) div 2 = length ids
      \<and> List.map_filter (\<lambda>i. if i = ''aa'' then Some (demo_inspection i) else None) ids = replicate (length ids) (demo_inspection ''aa'')" for ids
    by (induction ids) (auto simp: List.map_filter_def)
  have missing: "dockerObjectMissing ''Error: No such container: bb''" by code_simp
  show ?thesis
    unfolding docker_inspects_def using all missing
    by (auto simp: run_command_def demo_runner_def newCommandError_def Let_def)
qed

theorem docker_list_skips_gone_witness:
  "docker_List demo_runner [] () = ((), Inr [dockerInspection_listing (demo_inspection ''aa'')])"
proof -
  have "run_output demo_runner ''docker'' ([''ps'', ''--all'', ''--quiet'', ''--no-trunc''] @ filter_args []) () = ((), ''aa bb'', None)"
    by (simp add: run_output_def run_command_def demo_runner_def newCommandError_def)
  moreover have "Fields ''aa bb'' = [''aa'', ''bb'']" by code_simp
  ultimately show ?thesis
    using docker_list_skips_gone[OF _ demo_runner_inspects] by (simp add: List.map_filter_def)
qed

end
