(* ===== verification/Sidecar_Runtime.thy ===== *)
theory Sidecar_Runtime
  imports Container_Runtime
begin

text \<open>
  The containers of sidecars: \<^verbatim>\<open>src/internal/localinstall/sidecars.go\<close>, \<^verbatim>\<open>sidecar_network.go\<close> and
  \<^verbatim>\<open>sidecar_env.go\<close>, with the redaction of \<^verbatim>\<open>src/internal/sidecar/resolve.go\<close> and the startup error of
  \<^verbatim>\<open>errors.go\<close>. A runtime owns the containers that carry its owner label; \<open>Ensure\<close> converges the
  containers of one sidecar to its definition, \<open>Remove\<close> deletes them. Environment values pass through
  a file that exists while the container is created.
\<close>

section \<open>Redaction\<close>

definition apostrophe :: char where "apostrophe = CHR 0x27"

definition replace_apostrophe :: "string \<Rightarrow> string \<Rightarrow> string" where
  "replace_apostrophe s by_text = concat (map (\<lambda>c. if c = apostrophe then by_text else [c]) s)"

definition redact_variants :: "string list \<Rightarrow> string list" where
  "redact_variants values =
     sort_key (\<lambda>v. - int (length v))
       (concat (map (\<lambda>v. if v = [] then []
          else [v, quoted_inner v, replace_apostrophe v [apostrophe, CHR 0x22, apostrophe, CHR 0x22, apostrophe],
                replace_apostrophe v [apostrophe, apostrophe]]) values))"

definition redacted :: string where "redacted = ''[redacted]''"

text \<open>\<^verbatim>\<open>strings.Replacer\<close>: at each position the first old string that matches is replaced, and the
  search goes on behind it.\<close>

function redact_scan :: "string list \<Rightarrow> string \<Rightarrow> string" where
  "redact_scan vs [] = []"
| "redact_scan vs (c # cs) =
     (case List.find (\<lambda>v. v \<noteq> [] \<and> HasPrefix (c # cs) v) vs of
        Some v \<Rightarrow> redacted @ redact_scan vs (drop (length v) (c # cs))
      | None \<Rightarrow> c # redact_scan vs cs)"
  by pat_completeness auto
termination
  by (relation "measure (\<lambda>(vs, s). length s)") (auto simp: find_Some_iff)

definition Redact :: "string list \<Rightarrow> string \<Rightarrow> string" where
  "Redact sensitive message = redact_scan (redact_variants sensitive) message"

definition NewStartupError :: "string \<Rightarrow> string \<Rightarrow> string \<Rightarrow> go_error" where
  "NewStartupError name diagnostic failure =
     (let reason = ReportedCause diagnostic in
      if reason \<noteq> [] then StartupError name (failure @ '': '' @ reason) (failure @ '': '' @ diagnostic)
      else StartupError name failure failure)"

section \<open>The runtime\<close>

definition sidecarOwnerLabel :: string where "sidecarOwnerLabel = ''com.exasol.launcher.sidecar-owner''"
definition SidecarNameLabel :: string where "SidecarNameLabel = ''com.exasol.launcher.sidecar-name''"
definition sidecarDefinitionLabel :: string where "sidecarDefinitionLabel = ''com.exasol.launcher.sidecar-definition''"
definition serviceNetworkUnsupportedLabel :: string where
  "serviceNetworkUnsupportedLabel = ''com.exasol.launcher.service-network-unsupported''"

record RuntimePath =
  rp_HostPath :: string
  rp_RuntimePath :: string

text \<open>The client, the owner, the directory of environment files, and what the host decides: how errors
  print, the YAML encoder and the digest behind the fingerprint, the failures of the two file
  operations. A failed write leaves some content behind.\<close>

record 'g SidecarRuntime =
  rt_client :: "'g ContainerRuntime"
  rt_owner :: string
  rt_PublishPort :: "(Port \<Rightarrow> string) option"
  rt_EnvDir :: RuntimePath
  rt_libs :: sidecar_libs
  rt_wsl :: bool
  rt_Error :: "go_error \<Rightarrow> string"
  rt_spec_error :: "sidecar_error \<Rightarrow> go_error"
  rt_marshal :: "Container \<Rightarrow> (go_error, string) result"
  rt_sha256 :: "string \<Rightarrow> string"
  rt_MkdirAll :: "go_error option"
  rt_WriteFile :: "(go_error \<times> string) option"

record 'g rt_world =
  rw_client :: 'g
  rw_env_files :: "(string \<times> string) list"

definition SidecarName :: "ContainerListing \<Rightarrow> string" where
  "SidecarName c = label (cl_Labels c) SidecarNameLabel"

definition runtimeName_ok :: "string \<Rightarrow> bool" where
  "runtimeName_ok s \<longleftrightarrow>
     (case s of [] \<Rightarrow> False
      | c # cs \<Rightarrow> (is_letter c \<or> is_digit c) \<and> list_all (\<lambda>x. is_letter x \<or> is_digit x \<or> x \<in> set ''_.-'') cs)"

definition ContainerName :: "'g SidecarRuntime \<Rightarrow> string \<Rightarrow> string" where
  "ContainerName rt sidecarName = rt_owner rt @ ''-sidecar-'' @ sidecarName"

definition NetworkName :: "'g SidecarRuntime \<Rightarrow> string" where
  "NetworkName rt = rt_owner rt @ ''-services''"

definition fingerprint :: "'g SidecarRuntime \<Rightarrow> Container \<Rightarrow> (go_error, string) result" where
  "fingerprint rt resolved =
     (case rt_marshal rt ((Defaults (rt_libs rt) resolved)\<lparr>ct_ReadinessProbe := None\<rparr>) of
        Inl e \<Rightarrow> Inl e
      | Inr data \<Rightarrow> Inr (rt_sha256 rt data))"

definition runtime_Resolve ::
  "'g SidecarRuntime \<Rightarrow> Container \<Rightarrow> Secrets \<Rightarrow> (go_error, Container \<times> string list) result"
where
  "runtime_Resolve rt definition' secrets =
     (case Resolve (rt_libs rt) definition' secrets of Inl e \<Rightarrow> Inl (rt_spec_error rt e) | Inr r \<Rightarrow> Inr r)"

definition Matches ::
  "'g SidecarRuntime \<Rightarrow> ContainerListing \<Rightarrow> Container \<Rightarrow> Secrets \<Rightarrow> (go_error, bool) result"
where
  "Matches rt container definition' secrets =
     (if \<not> listing_Running container \<or> SidecarName container \<noteq> ct_Name definition' then Inr False
      else bind_result (runtime_Resolve rt definition' secrets) (\<lambda>(resolved, _).
           bind_result (fingerprint rt resolved) (\<lambda>f.
             Inr (label (cl_Labels container) sidecarDefinitionLabel = f))))"

definition owned :: "'g SidecarRuntime \<Rightarrow> ContainerListing \<Rightarrow> bool" where
  "owned rt c \<longleftrightarrow> label (cl_Labels c) sidecarOwnerLabel = rt_owner rt \<and> SidecarName c \<noteq> []"

definition sidecars_List :: "'g SidecarRuntime \<Rightarrow> 'g \<Rightarrow> 'g \<times> (go_error, ContainerListing list) result" where
  "sidecars_List rt g =
     (case cc_List (rt_client rt) [FilterLabel (sidecarOwnerLabel @ ''='' @ rt_owner rt)] g of
        (g', Inl e) \<Rightarrow> (g', Inl e)
      | (g', Inr containers) \<Rightarrow> (g', Inr (filter (owned rt) containers)))"

definition removeContainer :: "'g SidecarRuntime \<Rightarrow> ContainerListing \<Rightarrow> 'g \<Rightarrow> 'g \<times> go_error option" where
  "removeContainer rt container g =
     (if cl_ID container = [] then (g, Some (Plain ''sidecar runtime returned an empty container ID''))
      else case cc_Remove (rt_client rt) (cl_ID container) True g of
        (g', None) \<Rightarrow> (g', None)
      | (g', Some e) \<Rightarrow> (g', Some (Wrap (''sidecar '' @ SidecarName container) e)))"

fun converge_loop ::
  "'g SidecarRuntime \<Rightarrow> string \<Rightarrow> string \<Rightarrow> ContainerListing list \<Rightarrow> 'g \<Rightarrow> 'g \<times> (go_error, bool) result"
where
  "converge_loop rt name f [] g = (g, Inr False)"
| "converge_loop rt name f (c # cs) g =
     (if SidecarName c \<noteq> name then converge_loop rt name f cs g
      else if listing_Running c \<and> label (cl_Labels c) sidecarDefinitionLabel = f then (g, Inr True)
      else case removeContainer rt c g of
        (g', Some e) \<Rightarrow> (g', Inl e)
      | (g', None) \<Rightarrow> converge_loop rt name f cs g')"

definition converge :: "'g SidecarRuntime \<Rightarrow> Container \<Rightarrow> string \<Rightarrow> 'g \<Rightarrow> 'g \<times> (go_error, bool) result" where
  "converge rt definition' f g =
     (case sidecars_List rt g of
        (g', Inl e) \<Rightarrow> (g', Inl (Wrap (''sidecar '' @ ct_Name definition') e))
      | (g', Inr containers) \<Rightarrow> converge_loop rt (ct_Name definition') f containers g')"

definition sidecarPulls :: "string \<Rightarrow> PullPolicy" where
  "sidecarPulls p = (if p = Always then PullAlways else if p = IfNotPresent then PullIfNotPresent
     else if p = Never then PullNever else PullUnset)"

definition sidecarRestarts :: "string \<Rightarrow> RestartPolicy" where
  "sidecarRestarts p = (if p = Always then RestartAlways else if p = OnFailure then RestartOnFailure
     else if p = Never then RestartNever else RestartUnset)"

definition createSpec :: "'g SidecarRuntime \<Rightarrow> Container \<Rightarrow> string \<Rightarrow> string \<Rightarrow> ContainerSpec" where
  "createSpec rt c f envPath =
     \<lparr>cs_Name = ContainerName rt (ct_Name c), cs_Image = ct_Image c, cs_Args = ct_Args c,
      cs_Labels = [(sidecarOwnerLabel, rt_owner rt), (SidecarNameLabel, ct_Name c), (sidecarDefinitionLabel, f)],
      cs_Env = [], cs_EnvFile = envPath, cs_Network = NetworkName rt, cs_NetworkAlias = ct_Name c,
      cs_Ports = map (\<lambda>p. \<lparr>pm_HostIP = pt_HostIP p, pm_HostPort = pt_HostPort p, pm_ContainerPort = pt_ContainerPort p,
           pm_Protocol = [], pm_Mapping = (case rt_PublishPort rt of None \<Rightarrow> [] | Some publish \<Rightarrow> publish p)\<rparr>)
         (filter (\<lambda>p. pt_HostPort p \<noteq> 0) (ct_Ports c)),
      cs_Mounts = [], cs_Entrypoint = ct_Command c, cs_WorkingDir = ct_WorkingDir c,
      cs_Pull = sidecarPulls (ct_ImagePullPolicy c), cs_Restart = sidecarRestarts (ct_RestartPolicy c),
      cs_Replace = False, cs_SharedMemorySize = [], cs_ProcessLimit = [], cs_NestedSandbox = False,
      cs_SecurityOptions = [], cs_Capabilities = []\<rparr>"

section \<open>The environment file\<close>

definition formatEnvFile :: "(string \<times> string) list \<Rightarrow> (go_error, string) result" where
  "formatEnvFile values =
     (let bad = (\<lambda>v. list_ex (\<lambda>c. c = newline \<or> c = CHR 0x0d \<or> c = CHR 0x00) v) in
      case List.find (\<lambda>n. bad (label values n)) (sorted_keys values) of
        Some n \<Rightarrow> Inl (Plain (''environment value for '' @ n @ '' contains a line break and cannot be passed to the container''))
      | None \<Rightarrow> Inr (concat (map (\<lambda>n. n @ ''='' @ label values n @ [newline]) (sorted_keys values))))"

definition put_file :: "string \<Rightarrow> string \<Rightarrow> (string \<times> string) list \<Rightarrow> (string \<times> string) list" where
  "put_file path content files = (path, content) # filter (\<lambda>(p, _). p \<noteq> path) files"

definition del_file :: "string \<Rightarrow> (string \<times> string) list \<Rightarrow> (string \<times> string) list" where
  "del_file path files = filter (\<lambda>(p, _). p \<noteq> path) files"

definition env_path :: "string \<Rightarrow> string \<Rightarrow> string" where
  "env_path directory name = directory @ ''/'' @ name @ ''.env''"

text \<open>\<open>envFile\<close>: the files afterwards and the error, or the path and its removal.\<close>

definition envFile ::
  "'g SidecarRuntime \<Rightarrow> string \<Rightarrow> (string \<times> string) list \<Rightarrow> (string \<times> string) list
    \<Rightarrow> (string \<times> string) list \<times> (go_error, RuntimePath) result"
where
  "envFile rt name values files =
     (let directory = rt_EnvDir rt in
      if rp_HostPath directory = [] \<or> rp_RuntimePath directory = [] then
        (files, Inl (Plain ''sidecar runtime was created without an environment directory''))
      else case formatEnvFile values of
        Inl e \<Rightarrow> (files, Inl e)
      | Inr content \<Rightarrow>
          (case rt_MkdirAll rt of
             Some e \<Rightarrow> (files, Inl (Wrap ''prepare environment directory'' e))
           | None \<Rightarrow>
               (let hostPath = env_path (rp_HostPath directory) name in
                case rt_WriteFile rt of
                  Some (e, partial) \<Rightarrow> (put_file hostPath partial files, Inl (Wrap ''write environment file'' e))
                | None \<Rightarrow>
                    (put_file hostPath content files,
                     Inr \<lparr>rp_HostPath = hostPath, rp_RuntimePath = env_path (rp_RuntimePath directory) name\<rparr>))))"

section \<open>Ensure, remove, execute\<close>

definition create_error :: "'g SidecarRuntime \<Rightarrow> string \<Rightarrow> string list \<Rightarrow> string \<Rightarrow> go_error \<Rightarrow> go_error" where
  "create_error rt name sensitive diagnostic e =
     (let cause = (case errors_As (\<lambda>x. case x of CommandError _ inner \<Rightarrow> Some inner | _ \<Rightarrow> None) e of
                     None \<Rightarrow> e | Some inner \<Rightarrow> inner)
      in NewStartupError name (Redact sensitive diagnostic) (Redact sensitive (rt_Error rt cause)))"

definition Ensure ::
  "'g SidecarRuntime \<Rightarrow> Container \<Rightarrow> Secrets \<Rightarrow> 'g rt_world \<Rightarrow> 'g rt_world \<times> go_error option"
where
  "Ensure rt definition' secrets w =
     (case runtime_Resolve rt definition' secrets of Inl e \<Rightarrow> (w, Some e) | Inr (resolved, sensitive) \<Rightarrow>
     (case fingerprint rt resolved of Inl e \<Rightarrow> (w, Some e) | Inr f \<Rightarrow>
     (case converge rt definition' f (rw_client w) of
        (g1, Inl e) \<Rightarrow> (w\<lparr>rw_client := g1\<rparr>, Some e)
      | (g1, Inr True) \<Rightarrow> (w\<lparr>rw_client := g1\<rparr>, None)
      | (g1, Inr False) \<Rightarrow>
          (let values = map (\<lambda>e. (ev_Name e, case ev_Value e of None \<Rightarrow> [] | Some v \<Rightarrow> v)) (ct_Env resolved);
               files = rw_env_files w
           in case (if values \<noteq> [] then envFile rt (ct_Name definition') (rev values) files
                    else (files, Inr \<lparr>rp_HostPath = [], rp_RuntimePath = []\<rparr>)) of
                (files1, Inl e) \<Rightarrow> (\<lparr>rw_client = g1, rw_env_files = files1\<rparr>, Some e)
              | (files1, Inr path) \<Rightarrow>
                  (case cc_Create (rt_client rt) (createSpec rt resolved f (rp_RuntimePath path)) g1 of
                     (g2, diagnostic, err) \<Rightarrow>
                       (\<lparr>rw_client = g2, rw_env_files = (if values \<noteq> [] then del_file (rp_HostPath path) files1 else files1)\<rparr>,
                        map_option (create_error rt (ct_Name definition') sensitive diagnostic) err))))))"

definition sidecars_Exec :: "'g SidecarRuntime \<Rightarrow> ContainerListing \<Rightarrow> string list \<Rightarrow> 'g \<Rightarrow> 'g \<times> go_error option" where
  "sidecars_Exec rt container command g =
     (case cc_Exec (rt_client rt) (cl_ID container) command g of
        (g', None) \<Rightarrow> (g', None)
      | (g', Some e) \<Rightarrow>
          (g', Some (case errors_As (\<lambda>x. case x of ExitError c \<Rightarrow> Some c | _ \<Rightarrow> None) e of
                       Some c \<Rightarrow> Plain (''command exited with status '' @ Itoa c)
                     | None \<Rightarrow> e)))"

fun remove_named :: "'g SidecarRuntime \<Rightarrow> string \<Rightarrow> ContainerListing list \<Rightarrow> 'g \<Rightarrow> 'g \<times> go_error option list" where
  "remove_named rt name [] g = (g, [])"
| "remove_named rt name (c # cs) g =
     (if SidecarName c = name then
        (case removeContainer rt c g of (g', err) \<Rightarrow>
          (case remove_named rt name cs g' of (g'', errs) \<Rightarrow> (g'', err # errs)))
      else remove_named rt name cs g)"

definition sidecars_Remove :: "'g SidecarRuntime \<Rightarrow> string \<Rightarrow> 'g \<Rightarrow> 'g \<times> go_error option" where
  "sidecars_Remove rt name g =
     (case sidecars_List rt g of
        (g', Inl e) \<Rightarrow> (g', Some e)
      | (g', Inr containers) \<Rightarrow>
          (case remove_named rt name containers g' of (g'', errs) \<Rightarrow> (g'', errors_Join errs)))"

section \<open>The service network\<close>

definition newServiceNetworkUnsupportedError :: "'g SidecarRuntime \<Rightarrow> go_error" where
  "newServiceNetworkUnsupportedError rt = ServiceNetworkUnsupportedError (rt_wsl rt)"

definition serviceNetworkUnsupported :: "go_error option \<Rightarrow> bool" where
  "serviceNetworkUnsupported err \<longleftrightarrow>
     Contains (CommandStderr err) ''netavark'' \<and> Contains (CommandStderr err) ''nftables error''"

definition put_label :: "string \<Rightarrow> string \<Rightarrow> (string \<times> string) list \<Rightarrow> (string \<times> string) list" where
  "put_label k v labels = (k, v) # filter (\<lambda>(k', _). k' \<noteq> k) labels"

definition withoutServiceNetwork :: "ContainerSpec \<Rightarrow> ContainerSpec" where
  "withoutServiceNetwork spec =
     spec\<lparr>cs_Network := [], cs_NetworkAlias := [],
          cs_Labels := put_label serviceNetworkUnsupportedLabel ''true'' (cs_Labels spec)\<rparr>"

definition lacksServiceNetwork :: "ContainerAttachment \<Rightarrow> bool" where
  "lacksServiceNetwork a \<longleftrightarrow> label (ca_Labels a) serviceNetworkUnsupportedLabel \<noteq> []"

definition validateNetwork :: "'g SidecarRuntime \<Rightarrow> ContainerNetwork \<Rightarrow> go_error option" where
  "validateNetwork rt n =
     (if label (cn_Labels n) sidecarOwnerLabel \<noteq> rt_owner rt then
        Some (Plain (''network '' @ cn_Name n @ '' is not owned by this deployment''))
      else if \<not> cn_Bridge n \<or> \<not> cn_DNSEnabled n then
        Some (Plain (''deployment network '' @ cn_Name n @ '' requires a DNS-enabled bridge''))
      else None)"

definition EnsureNetwork :: "'g SidecarRuntime \<Rightarrow> 'g \<Rightarrow> 'g \<times> go_error option" where
  "EnsureNetwork rt g =
     (let name = NetworkName rt in
      case cc_CreateNetwork (rt_client rt)
             \<lparr>ns_Name = name, ns_Labels = [(sidecarOwnerLabel, rt_owner rt)], ns_DNS = True\<rparr> g of
        (g1, Some e) \<Rightarrow> (g1, Some e)
      | (g1, None) \<Rightarrow>
          (case cc_Network (rt_client rt) name g1 of
             (g2, Inl e) \<Rightarrow> (g2, Some e)
           | (g2, Inr None) \<Rightarrow> (g2, Some (Plain (''runtime did not report deployment network '' @ name)))
           | (g2, Inr (Some n)) \<Rightarrow> (g2, validateNetwork rt n)))"

definition DatabaseAlias :: string where "DatabaseAlias = ''database''"

definition AttachDatabase :: "'g SidecarRuntime \<Rightarrow> 'g \<Rightarrow> 'g \<times> (go_error, bool) result" where
  "AttachDatabase rt g =
     (case cc_Attachment (rt_client rt) (rt_owner rt) g of
        (g1, Inl e) \<Rightarrow> (g1, Inl e)
      | (g1, Inr None) \<Rightarrow> (g1, Inr False)
      | (g1, Inr (Some container)) \<Rightarrow>
          if lacksServiceNetwork container then (g1, Inl (newServiceNetworkUnsupportedError rt))
          else if \<not> ca_Bridged container then (g1, Inr True)
          else case EnsureNetwork rt g1 of
            (g2, Some e) \<Rightarrow> (g2, Inl e)
          | (g2, None) \<Rightarrow>
              (case map_of (ca_Networks container) (NetworkName rt) of
                 Some aliases \<Rightarrow> (g2, Inr (DatabaseAlias \<notin> set aliases))
               | None \<Rightarrow>
                   (case cc_ConnectNetwork (rt_client rt) (NetworkName rt) (rt_owner rt) [DatabaseAlias] g2 of
                      (g3, Some e) \<Rightarrow> (g3, Inl e)
                    | (g3, None) \<Rightarrow> (g3, Inr False))))"

definition DatabaseRestartRequired :: "'g SidecarRuntime \<Rightarrow> 'g \<Rightarrow> 'g \<times> (go_error, bool) result" where
  "DatabaseRestartRequired rt g =
     (case cc_Attachment (rt_client rt) (rt_owner rt) g of
        (g1, Inl e) \<Rightarrow> (g1, Inl e)
      | (g1, Inr None) \<Rightarrow> (g1, Inr False)
      | (g1, Inr (Some container)) \<Rightarrow>
          (g1, Inr (if lacksServiceNetwork container then False
             else if \<not> ca_Bridged container then True
             else case map_of (ca_Networks container) (NetworkName rt) of
               None \<Rightarrow> False | Some aliases \<Rightarrow> DatabaseAlias \<notin> set aliases)))"

definition ServiceNetworkSupported :: "'g SidecarRuntime \<Rightarrow> 'g \<Rightarrow> 'g \<times> go_error option" where
  "ServiceNetworkSupported rt g =
     (case cc_Attachment (rt_client rt) (rt_owner rt) g of
        (g1, Inl e) \<Rightarrow> (g1, Some e)
      | (g1, Inr None) \<Rightarrow> (g1, None)
      | (g1, Inr (Some container)) \<Rightarrow>
          (g1, if lacksServiceNetwork container then Some (newServiceNetworkUnsupportedError rt) else None))"

definition sidecars_RemoveNetwork :: "'g SidecarRuntime \<Rightarrow> 'g \<Rightarrow> 'g \<times> go_error option" where
  "sidecars_RemoveNetwork rt g =
     (case cc_Networks (rt_client rt) g of
        (g1, Inl e) \<Rightarrow> (g1, Some e)
      | (g1, Inr networks) \<Rightarrow>
          (case List.find (\<lambda>n. cn_Name n = NetworkName rt) networks of
             None \<Rightarrow> (g1, None)
           | Some n \<Rightarrow>
               (case validateNetwork rt n of
                  Some e \<Rightarrow> (g1, Some e)
                | None \<Rightarrow> cc_RemoveNetwork (rt_client rt) (cn_Name n) g1)))"

definition NewSidecarRuntime :: "'g SidecarRuntime \<Rightarrow> (go_error, 'g SidecarRuntime) result" where
  "NewSidecarRuntime rt =
     (if \<not> runtimeName_ok (rt_owner rt) then
        Inl (Plain ''sidecar runtime requires a container runtime and a valid deployment owner'')
      else Inr rt)"

section \<open>What redaction leaves\<close>

definition free_of :: "string list \<Rightarrow> string \<Rightarrow> bool" where
  "free_of vs s \<longleftrightarrow> list_all (\<lambda>v. v = [] \<or> \<not> Contains s v) vs"

lemma HasPrefix_prefix: "HasPrefix s p \<longleftrightarrow> prefix p s"
  by (auto simp: HasPrefix_iff prefix_def)

lemma Contains_iff: "Contains s v \<longleftrightarrow> sublist v s"
  by (induction s) (auto simp: Contains_def HasPrefix_prefix sublist_Cons_right split: if_splits)

lemma redact_scan_pieces:
  "\<exists>l ls. redact_scan vs s = Join (l # ls) redacted \<and> list_all (free_of vs) (l # ls) \<and> (\<exists>r. s = l @ r)"
proof (induction vs s rule: redact_scan.induct)
  case (1 vs)
  have "free_of vs []" by (auto simp: free_of_def list_all_iff Contains_iff)
  then show ?case by (intro exI[of _ "[]"]) auto
next
  case (2 vs c cs)
  show ?case
  proof (cases "List.find (\<lambda>v. v \<noteq> [] \<and> HasPrefix (c # cs) v) vs")
    case None
    obtain l ls r where ih: "redact_scan vs cs = Join (l # ls) redacted" "list_all (free_of vs) (l # ls)" "cs = l @ r"
      using "2.IH"(1)[OF None] by blast
    have clear: "\<not> prefix v (c # cs)" if "v \<in> set vs" "v \<noteq> []" for v
      using None that by (auto simp: find_None_iff HasPrefix_prefix)
    have "free_of vs (c # l)"
      unfolding free_of_def list_all_iff
    proof
      fix v assume v: "v \<in> set vs"
      have "\<not> prefix v (c # l)" if "v \<noteq> []"
        using clear[OF v that] ih(3) by (metis append_Cons prefix_prefix)
      moreover have "v = [] \<or> \<not> sublist v l"
        using ih(2) v by (simp add: free_of_def list_all_iff Contains_iff)
      ultimately show "v = [] \<or> \<not> Contains (c # l) v"
        by (auto simp: Contains_iff sublist_Cons_right)
    qed
    moreover have "Join ((c # l) # ls) redacted = c # Join (l # ls) redacted" by (cases ls) auto
    ultimately show ?thesis
      using None ih by (intro exI[of _ "c # l"] exI[of _ ls]) auto
  next
    case (Some v)
    obtain l ls where ih: "redact_scan vs (drop (length v) (c # cs)) = Join (l # ls) redacted" "list_all (free_of vs) (l # ls)"
      using "2.IH"(2)[OF Some] by blast
    have "free_of vs []" by (auto simp: free_of_def list_all_iff Contains_iff)
    then show ?thesis using Some ih by (intro exI[of _ "[]"] exI[of _ "l # ls"]) auto
  qed
qed

lemma redact_scan_unchanged: "free_of vs s \<Longrightarrow> redact_scan vs s = s"
proof (induction s)
  case (Cons c cs)
  have "List.find (\<lambda>v. v \<noteq> [] \<and> HasPrefix (c # cs) v) vs = None"
    using Cons.prems by (auto simp: find_None_iff free_of_def list_all_iff Contains_iff HasPrefix_prefix prefix_imp_sublist)
  moreover have "free_of vs cs"
    using Cons.prems by (auto simp: free_of_def list_all_iff Contains_iff sublist_Cons_right)
  ultimately show ?case using Cons.IH by simp
qed simp

lemma redact_variants_cover: "v \<in> set sensitive \<Longrightarrow> v \<noteq> [] \<Longrightarrow> v \<in> set (redact_variants sensitive)"
  by (force simp: redact_variants_def)

text \<open>C34: a diagnostic never shows a sensitive value. The redacted message consists of pieces, separated by
  the marker, none of which contains a sensitive value or one of its quoted forms; and a message that
  mentions none of them is passed on unchanged.\<close>

theorem redaction_hides_secrets:
  "(\<exists>pieces. pieces \<noteq> [] \<and> Redact sensitive message = Join pieces redacted
      \<and> list_all (free_of (redact_variants sensitive)) pieces \<and> list_all (free_of sensitive) pieces)
   \<and> (free_of (redact_variants sensitive) message \<longrightarrow> Redact sensitive message = message)"
proof -
  have weaken: "free_of (redact_variants sensitive) s \<Longrightarrow> free_of sensitive s" for s
    using redact_variants_cover[of _ sensitive] unfolding free_of_def list_all_iff by blast
  obtain l ls where "redact_scan (redact_variants sensitive) message = Join (l # ls) redacted"
      "list_all (free_of (redact_variants sensitive)) (l # ls)"
    using redact_scan_pieces by blast
  then have "\<exists>pieces. pieces \<noteq> [] \<and> Redact sensitive message = Join pieces redacted
      \<and> list_all (free_of (redact_variants sensitive)) pieces \<and> list_all (free_of sensitive) pieces"
    by (intro exI[of _ "l # ls"]) (auto simp: Redact_def weaken list_all_iff)
  then show ?thesis by (simp add: Redact_def redact_scan_unchanged)
qed

theorem redaction_hides_secrets_witness:
  "Redact [''pw''] ''login failed'' = ''login failed'' \<and> Redact [''pw''] ''using pw twice pw'' = ''using [redacted] twice [redacted]''"
proof
  have "free_of (redact_variants [''pw'']) ''login failed''" by code_simp
  then show "Redact [''pw''] ''login failed'' = ''login failed''"
    using redaction_hides_secrets[of "[''pw'']" "''login failed''"] by blast
  show "Redact [''pw''] ''using pw twice pw'' = ''using [redacted] twice [redacted]''" by code_simp
qed

section \<open>Convergence\<close>

text \<open>What the launcher relies on of a container engine, on the containers \<open>cs g\<close> it has in a state:
  containers have distinct identifiers, listing by owner gives those with the label, a removal removes
  the container with the identifier and nothing else, and a creation adds one container with the labels
  of the specification, which runs when the creation succeeds. The other operations used here create
  and remove no containers.\<close>

definition has_spec_labels :: "ContainerSpec \<Rightarrow> ContainerListing \<Rightarrow> bool" where
  "has_spec_labels spec c \<longleftrightarrow> map_of (cl_Labels c) = map_of (cs_Labels spec)"

definition lawful_create :: "'g ContainerRuntime \<Rightarrow> ('g \<Rightarrow> ContainerListing list) \<Rightarrow> bool" where
  "lawful_create cl cs \<longleftrightarrow>
     (\<forall>spec g g' d err. cc_Create cl spec g = (g', d, err) \<longrightarrow>
        err \<noteq> None \<and> cs g' = cs g
        \<or> (\<exists>xs c ys. cs g = xs @ ys \<and> cs g' = xs @ c # ys \<and> has_spec_labels spec c
             \<and> (err = None \<longrightarrow> listing_Running c)))"

definition lawful_remove :: "'g ContainerRuntime \<Rightarrow> ('g \<Rightarrow> ContainerListing list) \<Rightarrow> bool" where
  "lawful_remove cl cs \<longleftrightarrow>
     (\<forall>i g g' err. cc_Remove cl i True g = (g', err) \<longrightarrow>
        cs g' = filter (\<lambda>c. cl_ID c \<noteq> i) (cs g) \<or> err \<noteq> None \<and> cs g' = cs g)"

definition lawful_list :: "'g ContainerRuntime \<Rightarrow> ('g \<Rightarrow> ContainerListing list) \<Rightarrow> bool" where
  "lawful_list cl cs \<longleftrightarrow>
     (\<forall>v g g' r. cc_List cl [FilterLabel (sidecarOwnerLabel @ ''='' @ v)] g = (g', r) \<longrightarrow>
        cs g' = cs g \<and> (\<forall>l. r = Inr l \<longrightarrow> l = filter (\<lambda>c. label (cl_Labels c) sidecarOwnerLabel = v) (cs g)))"

definition lawful_client :: "'g ContainerRuntime \<Rightarrow> ('g \<Rightarrow> ContainerListing list) \<Rightarrow> bool" where
  "lawful_client cl cs \<longleftrightarrow>
     (\<forall>g. distinct (map cl_ID (cs g))) \<and> lawful_list cl cs \<and> lawful_remove cl cs \<and> lawful_create cl cs
   \<and> (\<forall>n g. cs (fst (cc_Attachment cl n g)) = cs g)
   \<and> (\<forall>s g. cs (fst (cc_CreateNetwork cl s g)) = cs g)
   \<and> (\<forall>n g. cs (fst (cc_Network cl n g)) = cs g)
   \<and> (\<forall>n c as g. cs (fst (cc_ConnectNetwork cl n c as g)) = cs g)"

definition mine :: "'g SidecarRuntime \<Rightarrow> string \<Rightarrow> ContainerListing \<Rightarrow> bool" where
  "mine rt n c \<longleftrightarrow> owned rt c \<and> SidecarName c = n"

lemma lawful_ids: "lawful_client cl cs \<Longrightarrow> distinct (map cl_ID (cs g))"
  by (simp add: lawful_client_def)

lemma sidecars_List_lawful:
  assumes "lawful_client (rt_client rt) cs" and "sidecars_List rt g = (g', r)"
  shows "cs g' = cs g \<and> (\<forall>l. r = Inr l \<longrightarrow> l = filter (owned rt) (cs g))"
proof -
  obtain h s where run: "cc_List (rt_client rt) [FilterLabel (sidecarOwnerLabel @ ''='' @ rt_owner rt)] g = (h, s)"
    by fastforce
  have "cs h = cs g \<and> (\<forall>l. s = Inr l \<longrightarrow> l = filter (\<lambda>c. label (cl_Labels c) sidecarOwnerLabel = rt_owner rt) (cs g))"
    using assms(1) run unfolding lawful_client_def lawful_list_def by blast
  moreover have "filter (owned rt) (filter (\<lambda>c. label (cl_Labels c) sidecarOwnerLabel = rt_owner rt) xs) = filter (owned rt) xs" for xs
    by (induction xs) (auto simp: owned_def)
  ultimately show ?thesis
    using assms(2) run by (auto simp: sidecars_List_def split: sum.splits)
qed

lemma removeContainer_lawful:
  assumes law: "lawful_client (rt_client rt) cs" and run: "removeContainer rt c g = (g', err)" and c: "c \<in> set (cs g)"
  shows "cs g' = filter (\<lambda>x. x \<noteq> c) (cs g) \<or> err \<noteq> None \<and> cs g' = cs g"
proof -
  have "filter (\<lambda>x. cl_ID x \<noteq> cl_ID c) (cs g) = filter (\<lambda>x. x \<noteq> c) (cs g)"
    using lawful_ids[OF law, of g] c by (intro filter_cong) (auto simp: distinct_map inj_on_def)
  moreover obtain h e where rem: "cc_Remove (rt_client rt) (cl_ID c) True g = (h, e)" by fastforce
  moreover have "cs h = filter (\<lambda>x. cl_ID x \<noteq> cl_ID c) (cs g) \<or> e \<noteq> None \<and> cs h = cs g"
    using law rem unfolding lawful_client_def lawful_remove_def by blast
  ultimately show ?thesis
    using run by (auto simp: removeContainer_def split: if_splits option.splits)
qed

text \<open>The containers named \<open>n\<close> are removed from the front until one matches or a removal fails.\<close>

lemma converge_loop_lawful:
  assumes "lawful_client (rt_client rt) cs" and "converge_loop rt n f l g = (g', r)"
    and "set l \<subseteq> set (cs g)" and "distinct l"
  shows "\<exists>pre post. filter (\<lambda>c. SidecarName c = n) l = pre @ post
           \<and> cs g' = filter (\<lambda>x. x \<notin> set pre) (cs g)
           \<and> (r = Inr False \<longrightarrow> post = [])
           \<and> (r = Inr True \<longrightarrow> (\<exists>c rest. post = c # rest \<and> listing_Running c \<and> label (cl_Labels c) sidecarDefinitionLabel = f))"
  using assms(2-)
proof (induction l arbitrary: g)
  case (Cons c l)
  show ?case
  proof (cases "SidecarName c = n")
    case False
    then show ?thesis using Cons by auto
  next
    case named: True
    show ?thesis
    proof (cases "listing_Running c \<and> label (cl_Labels c) sidecarDefinitionLabel = f")
      case True
      then show ?thesis using named Cons.prems
        by (intro exI[of _ "[]"] exI[of _ "c # filter (\<lambda>c. SidecarName c = n) l"]) auto
    next
      case False
      obtain h err where rem: "removeContainer rt c g = (h, err)" by fastforce
      have h: "cs h = filter (\<lambda>x. x \<noteq> c) (cs g) \<or> err \<noteq> None \<and> cs h = cs g"
        using removeContainer_lawful[OF assms(1) rem] Cons.prems by simp
      show ?thesis
      proof (cases err)
        case (Some e)
        then have "g' = h \<and> r = Inl e" using named False rem Cons.prems by (auto split: if_splits)
        from h show ?thesis
        proof
          assume "cs h = filter (\<lambda>x. x \<noteq> c) (cs g)"
          with \<open>g' = h \<and> r = Inl e\<close> named show ?thesis
            by (intro exI[of _ "[c]"] exI[of _ "filter (\<lambda>c. SidecarName c = n) l"]) simp
        next
          assume "err \<noteq> None \<and> cs h = cs g"
          with \<open>g' = h \<and> r = Inl e\<close> named show ?thesis
            by (intro exI[of _ "[]"] exI[of _ "filter (\<lambda>c. SidecarName c = n) (c # l)"]) simp
        qed
      next
        case None
        then have step: "converge_loop rt n f l h = (g', r)" using named False rem Cons.prems by (auto split: if_splits)
        have cs_h: "cs h = filter (\<lambda>x. x \<noteq> c) (cs g)" using h None by simp
        have sub: "set l \<subseteq> set (cs h)" using cs_h Cons.prems by auto
        have distinct_l: "distinct l" using Cons.prems by simp
        obtain pre post where split: "filter (\<lambda>c. SidecarName c = n) l = pre @ post"
            "cs g' = filter (\<lambda>x. x \<notin> set pre) (cs h)" "r = Inr False \<longrightarrow> post = []"
            "r = Inr True \<longrightarrow> (\<exists>c rest. post = c # rest \<and> listing_Running c \<and> label (cl_Labels c) sidecarDefinitionLabel = f)"
          using Cons.IH[OF step sub distinct_l] by blast
        have "cs g' = filter (\<lambda>x. x \<notin> set (c # pre)) (cs g)"
          using split(2) cs_h by (simp add: conj_commute)
        then show ?thesis using split named by (intro exI[of _ "c # pre"] exI[of _ post]) auto
      qed
    qed
  qed
qed auto

lemma converge_lawful:
  assumes law: "lawful_client (rt_client rt) cs" and run: "converge rt d f g = (g', r)"
  shows "\<exists>post. filter (mine rt (ct_Name d)) (cs g') = post
           \<and> filter (\<lambda>c. \<not> mine rt (ct_Name d) c) (cs g') = filter (\<lambda>c. \<not> mine rt (ct_Name d) c) (cs g)
           \<and> set (cs g') \<subseteq> set (cs g)
           \<and> (r = Inr False \<longrightarrow> post = [])
           \<and> (r = Inr True \<longrightarrow> (\<exists>c rest. post = c # rest \<and> listing_Running c \<and> label (cl_Labels c) sidecarDefinitionLabel = f))"
proof -
  obtain h s where lst: "sidecars_List rt g = (h, s)" by fastforce
  note listed = sidecars_List_lawful[OF law lst]
  show ?thesis
  proof (cases s)
    case (Inl e)
    then show ?thesis using listed lst run by (auto simp: converge_def)
  next
    case (Inr l)
    have l: "l = filter (owned rt) (cs h)" using listed Inr by simp
    have ids: "distinct (cs h)" using lawful_ids[OF law, of h] by (simp add: distinct_map)
    have "converge_loop rt (ct_Name d) f l h = (g', r)" using run lst Inr by (simp add: converge_def)
    then obtain pre post where split: "filter (\<lambda>c. SidecarName c = ct_Name d) l = pre @ post"
        "cs g' = filter (\<lambda>x. x \<notin> set pre) (cs h)" "r = Inr False \<longrightarrow> post = []"
        "r = Inr True \<longrightarrow> (\<exists>c rest. post = c # rest \<and> listing_Running c \<and> label (cl_Labels c) sidecarDefinitionLabel = f)"
      using converge_loop_lawful[OF law] l ids by (metis distinct_filter filter_is_subset)
    have named: "filter (mine rt (ct_Name d)) (cs h) = pre @ post"
      using split(1) unfolding l mine_def by (simp add: conj_commute)
    have "filter (mine rt (ct_Name d)) (cs g') = filter (\<lambda>x. x \<notin> set pre) (pre @ post)"
      unfolding split(2) named[symmetric] by (simp add: conj_commute)
    moreover have "distinct (pre @ post)" using ids named by (metis distinct_filter)
    then have "filter (\<lambda>x. x \<notin> set pre) (pre @ post) = post" by (auto simp: filter_id_conv filter_empty_conv)
    moreover have "set pre \<subseteq> {c. mine rt (ct_Name d) c}"
      using arg_cong[OF named, of set] by auto
    then have "filter (\<lambda>c. \<not> mine rt (ct_Name d) c) (cs g') = filter (\<lambda>c. \<not> mine rt (ct_Name d) c) (cs h)"
      unfolding split(2) by (auto intro!: filter_cong)
    ultimately show ?thesis using split listed by auto
  qed
qed

lemma Resolve_name: "Resolve lib c secrets = Inr (r, s) \<Longrightarrow> ct_Name r = ct_Name c \<and> ct_Name c \<noteq> []"
  by (auto simp: Resolve_def Defaults_def Validate_def dnsLabel_def fail_if_def Let_def
      split: option.splits sum.splits prod.splits if_splits)

lemma created_mine:
  assumes "has_spec_labels (createSpec rt r f p) c" and "ct_Name r = n" and "n \<noteq> []"
  shows "mine rt n c" and "label (cl_Labels c) sidecarDefinitionLabel = f"
  using assms by (auto simp: has_spec_labels_def createSpec_def mine_def owned_def SidecarName_def label_def
      sidecarOwnerLabel_def SidecarNameLabel_def sidecarDefinitionLabel_def)

text \<open>The sidecar's containers begin with one that runs with the definition's fingerprint; the containers
  that are not the sidecar's.\<close>

definition ensured :: "'g SidecarRuntime \<Rightarrow> Container \<Rightarrow> Secrets \<Rightarrow> ContainerListing list \<Rightarrow> bool" where
  "ensured rt d s cs \<longleftrightarrow>
     (\<exists>r sens f c rest. runtime_Resolve rt d s = Inr (r, sens) \<and> fingerprint rt r = Inr f
        \<and> filter (mine rt (ct_Name d)) cs = c # rest \<and> listing_Running c \<and> label (cl_Labels c) sidecarDefinitionLabel = f)"

definition others :: "'g SidecarRuntime \<Rightarrow> string \<Rightarrow> ContainerListing list \<Rightarrow> ContainerListing list" where
  "others rt n cs = filter (\<lambda>c. \<not> mine rt n c) cs"

lemma create_lawful:
  assumes law: "lawful_client (rt_client rt) cs" and res: "runtime_Resolve rt d s = Inr (r, sens)" and fp: "fingerprint rt r = Inr f"
    and none: "filter (mine rt (ct_Name d)) (cs g) = []"
    and made: "cc_Create (rt_client rt) (createSpec rt r f p) g = (g', diag, e)"
  shows "others rt (ct_Name d) (cs g') = others rt (ct_Name d) (cs g) \<and> (e = None \<longrightarrow> ensured rt d s (cs g'))"
proof -
  have name: "ct_Name r = ct_Name d" "ct_Name d \<noteq> []"
    using res Resolve_name by (fastforce simp: runtime_Resolve_def split: sum.splits)+
  consider "e \<noteq> None" "cs g' = cs g"
    | xs c ys where "cs g = xs @ ys" "cs g' = xs @ c # ys" "has_spec_labels (createSpec rt r f p) c" "e = None \<longrightarrow> listing_Running c"
    using law made unfolding lawful_client_def lawful_create_def by blast
  then show ?thesis
  proof cases
    case 1
    then show ?thesis by auto
  next
    case 2
    note created = created_mine[OF 2(3) name]
    then have "filter (mine rt (ct_Name d)) (cs g') = [c]" using 2 none by simp
    then show ?thesis using 2 created res fp by (auto simp: others_def ensured_def)
  qed
qed

text \<open>On every outcome only containers of the ensured sidecar change, and a success ensures it.\<close>

lemma Ensure_lawful:
  assumes law: "lawful_client (rt_client rt) cs" and run: "Ensure rt d s w = (w', err)"
  shows "others rt (ct_Name d) (cs (rw_client w')) = others rt (ct_Name d) (cs (rw_client w))
         \<and> (err = None \<longrightarrow> ensured rt d s (cs (rw_client w')))"
proof (cases "\<exists>r sens f. runtime_Resolve rt d s = Inr (r, sens) \<and> fingerprint rt r = Inr f")
  case False
  then have "w' = w \<and> err \<noteq> None" using run by (auto simp: Ensure_def split: sum.splits)
  then show ?thesis by auto
next
  case True
  then obtain r sens f where res: "runtime_Resolve rt d s = Inr (r, sens)" and fp: "fingerprint rt r = Inr f" by blast
  obtain g1 k where conv: "converge rt d f (rw_client w) = (g1, k)" by fastforce
  note c1 = converge_lawful[OF law conv]
  have kept: "others rt (ct_Name d) (cs g1) = others rt (ct_Name d) (cs (rw_client w))" using c1 by (simp add: others_def)
  show ?thesis
  proof (cases "k = Inr False")
    case False
    then have "rw_client w' = g1 \<and> (err = None \<longrightarrow> k = Inr True)"
      using run res fp conv by (auto simp: Ensure_def split: sum.splits bool.splits)
    then show ?thesis using c1 res fp kept by (auto simp: ensured_def)
  next
    case create: True
    have "rw_client w' = g1 \<and> err \<noteq> None
        \<or> (\<exists>p diag e. cc_Create (rt_client rt) (createSpec rt r f p) g1 = (rw_client w', diag, e) \<and> (\<exists>k. err = map_option k e))"
      using run res fp conv create
      by (simp add: Ensure_def Let_def split: sum.splits if_splits prod.splits; fastforce)
    then consider "rw_client w' = g1" "err \<noteq> None"
      | p diag e k where "cc_Create (rt_client rt) (createSpec rt r f p) g1 = (rw_client w', diag, e)" "err = map_option k e"
      by blast
    then show ?thesis
    proof cases
      case 1
      then show ?thesis using kept by auto
    next
      case 2
      then show ?thesis using create_lawful[OF law res fp _ 2(1)] c1 create kept by simp
    qed
  qed
qed

lemma ensured_Matches:
  assumes "ensured rt d s cs"
  shows "\<exists>c. c \<in> set cs \<and> mine rt (ct_Name d) c \<and> Matches rt c d s = Inr True"
proof -
  obtain r sens f c rest where r: "runtime_Resolve rt d s = Inr (r, sens)" "fingerprint rt r = Inr f"
      "filter (mine rt (ct_Name d)) cs = c # rest" "listing_Running c" "label (cl_Labels c) sidecarDefinitionLabel = f"
    using assms unfolding ensured_def by blast
  have "c \<in> set (filter (mine rt (ct_Name d)) cs)" unfolding r(3) by simp
  then have "c \<in> set cs" "mine rt (ct_Name d) c" by auto
  then show ?thesis using r by (auto simp: Matches_def mine_def)
qed

lemma ensured_stable:
  assumes law: "lawful_client (rt_client rt) cs" and ok: "ensured rt d s (cs (rw_client w))" and run: "Ensure rt d s w = (w', err)"
  shows "cs (rw_client w') = cs (rw_client w) \<and> rw_env_files w' = rw_env_files w"
proof -
  obtain r sens f c rest where r: "runtime_Resolve rt d s = Inr (r, sens)" "fingerprint rt r = Inr f"
      "filter (mine rt (ct_Name d)) (cs (rw_client w)) = c # rest" "listing_Running c" "label (cl_Labels c) sidecarDefinitionLabel = f"
    using ok unfolding ensured_def by blast
  obtain h k where lst: "sidecars_List rt (rw_client w) = (h, k)" by fastforce
  note listed = sidecars_List_lawful[OF law lst]
  have front: "converge_loop rt (ct_Name d) f l g = (g, Inr True)" if "filter (\<lambda>c. SidecarName c = ct_Name d) l = c # rest" for l g
    using that r(4,5) by (induction l) (auto split: if_splits)
  show ?thesis
  proof (cases k)
    case (Inl e)
    then show ?thesis using run r lst listed by (auto simp: Ensure_def converge_def)
  next
    case (Inr l)
    then have "filter (\<lambda>c. SidecarName c = ct_Name d) l = c # rest"
      using listed r(3) by (simp add: mine_def[abs_def] conj_commute)
    then show ?thesis using run r lst listed Inr front by (auto simp: Ensure_def converge_def)
  qed
qed


text \<open>An engine to evaluate with: a container is its labels under the number it was created with, and a
  removed container leaves its number unused.\<close>

definition demo_container :: "nat \<Rightarrow> (string \<times> string) list \<Rightarrow> ContainerListing" where
  "demo_container i labels = \<lparr>cl_ID = replicate (Suc i) CHR ''x'', cl_Names = [], cl_Labels = labels, cl_State = ''running'',
     cl_Lifecycle = ContainerLifecycleRunning, cl_ExitCode = 0, cl_Ports = [], cl_StartedAt = Some 0\<rparr>"

fun demo_from :: "nat \<Rightarrow> (string \<times> string) list option list \<Rightarrow> ContainerListing list" where
  "demo_from i [] = []"
| "demo_from i (None # g) = demo_from (Suc i) g"
| "demo_from i (Some labels # g) = demo_container i labels # demo_from (Suc i) g"

fun demo_remove :: "nat \<Rightarrow> string \<Rightarrow> (string \<times> string) list option list \<Rightarrow> (string \<times> string) list option list" where
  "demo_remove i x [] = []"
| "demo_remove i x (l # g) = (if x = replicate (Suc i) CHR ''x'' then None else l) # demo_remove (Suc i) x g"

definition demo_client :: "(string \<times> string) list option list ContainerRuntime" where
  "demo_client =
     \<lparr>cc_Create = (\<lambda>spec g. (g @ [Some (cs_Labels spec)], [], None)), cc_RunToCompletion = (\<lambda>spec g. (g, [], None)),
      cc_Remove = (\<lambda>x force g. (demo_remove 0 x g, None)), cc_Stop = (\<lambda>n g. (g, None)), cc_Rename = (\<lambda>n m g. (g, None)),
      cc_CopyFrom = (\<lambda>n p d g. (g, None)), cc_Exec = (\<lambda>n c g. (g, None)),
      cc_List = (\<lambda>fs g. (g, Inr (filter (\<lambda>c. list_all (\<lambda>f. case f of FilterName n \<Rightarrow> n \<in> set (cl_Names c)
          | FilterLabel l \<Rightarrow> l = sidecarOwnerLabel @ ''='' @ label (cl_Labels c) sidecarOwnerLabel) fs) (demo_from 0 g)))),
      cc_Attachment = (\<lambda>n g. (g, Inr None)), cc_Mounts = (\<lambda>n g. (g, Inr [])), cc_LoadImage = (\<lambda>p g. (g, Inr [])),
      cc_ImageExists = (\<lambda>i g. (g, Inr True)), cc_PullImage = (\<lambda>i g. (g, None)), cc_RemoveImage = (\<lambda>i g. (g, None)),
      cc_ImportImage = (\<lambda>p i ls g. (g, None)), cc_Images = (\<lambda>ls g. (g, Inr [])), cc_CreateNetwork = (\<lambda>s g. (g, None)),
      cc_Network = (\<lambda>n g. (g, Inr None)), cc_Networks = (\<lambda>g. (g, Inr [])), cc_ConnectNetwork = (\<lambda>n c as g. (g, None)),
      cc_RemoveNetwork = (\<lambda>n g. (g, None))\<rparr>"

lemma demo_from_ids: "c \<in> set (demo_from i g) \<Longrightarrow> \<exists>j \<ge> i. cl_ID c = replicate (Suc j) CHR ''x''"
  by (induction i g rule: demo_from.induct) (auto simp: demo_container_def dest: Suc_leD)

lemma demo_from_distinct: "distinct (map cl_ID (demo_from i g))"
  by (induction i g rule: demo_from.induct)
     (auto simp: demo_container_def dest!: demo_from_ids simp flip: replicate_Suc simp: replicate_eq_replicate)

lemma demo_from_append: "\<exists>j. demo_from i (g @ [Some ls]) = demo_from i g @ [demo_container j ls]"
  by (induction i g rule: demo_from.induct) auto

lemma demo_from_remove: "demo_from i (demo_remove i x g) = filter (\<lambda>c. cl_ID c \<noteq> x) (demo_from i g)"
  by (induction i g rule: demo_from.induct) (auto simp: demo_container_def)

lemma demo_lawful: "lawful_client demo_client (demo_from 0)"
proof -
  have "lawful_create demo_client (demo_from 0)"
    unfolding lawful_create_def
  proof (intro allI impI)
    fix spec g g' d err
    assume made: "cc_Create demo_client spec g = (g', d, err)"
    obtain j where "demo_from 0 g' = demo_from 0 g @ [demo_container j (cs_Labels spec)]"
      using made demo_from_append[of 0 g "cs_Labels spec"] by (auto simp: demo_client_def)
    then show "err \<noteq> None \<and> demo_from 0 g' = demo_from 0 g
        \<or> (\<exists>xs c ys. demo_from 0 g = xs @ ys \<and> demo_from 0 g' = xs @ c # ys \<and> has_spec_labels spec c
             \<and> (err = None \<longrightarrow> listing_Running c))"
      by (intro disjI2 exI[of _ "demo_from 0 g"] exI[of _ "demo_container j (cs_Labels spec)"] exI[of _ "[]"])
         (simp add: has_spec_labels_def demo_container_def listing_Running_def)
  qed
  moreover have "lawful_remove demo_client (demo_from 0)"
    by (auto simp: lawful_remove_def demo_client_def demo_from_remove)
  moreover have "lawful_list demo_client (demo_from 0)"
    by (auto simp: lawful_list_def demo_client_def eq_commute[of _ "label _ _"])
  ultimately show ?thesis
    by (simp add: lawful_client_def demo_from_distinct demo_client_def)
qed

definition demo_runtime :: "(string \<times> string) list option list SidecarRuntime" where
  "demo_runtime = \<lparr>rt_client = demo_client, rt_owner = ''exasol-db-1'', rt_PublishPort = None,
     rt_EnvDir = \<lparr>rp_HostPath = ''/d/sidecar-env'', rp_RuntimePath = ''/d/sidecar-env''\<rparr>, rt_libs = sample_libs, rt_wsl = False,
     rt_Error = (\<lambda>_. ''failed''), rt_spec_error = (\<lambda>_. Plain ''invalid''),
     rt_marshal = (\<lambda>c. Inr (ct_Image c)), rt_sha256 = id, rt_MkdirAll = None, rt_WriteFile = None\<rparr>"

definition demo_world :: "(string \<times> string) list option list rt_world" where
  "demo_world = \<lparr>rw_client = [Some [(sidecarOwnerLabel, ''exasol-db-1''), (SidecarNameLabel, ct_Name sample_sidecar),
     (sidecarDefinitionLabel, ''stale'')]], rw_env_files = []\<rparr>"


section \<open>The environment file's life\<close>

text \<open>No environment file survives. Unless the write of the file itself fails, \<open>Ensure\<close> leaves no
  file behind that was not there before, whatever the engine does and however the operation ends.\<close>

theorem environment_file_is_temporary:
  assumes "rt_WriteFile rt = None" and "Ensure rt d s w = (w', err)"
  shows "set (rw_env_files w') \<subseteq> set (rw_env_files w)"
proof -
  have failed: "files' = files" if "envFile rt n vs files = (files', Inl e)" for n vs files files' e
    using assms(1) that by (auto simp: envFile_def Let_def split: sum.splits option.splits if_splits)
  have written: "set (del_file (rp_HostPath path) files') \<subseteq> set files"
    if "envFile rt n vs files = (files', Inr path)" for n vs files files' path
    using assms(1) that
    by (auto simp: envFile_def Let_def del_file_def put_file_def split: sum.splits option.splits if_splits)
  show ?thesis
    using assms(2)
    by (auto simp: Ensure_def Let_def split: sum.splits prod.splits if_splits bool.splits
        dest!: failed dest: subsetD[OF written])
qed

theorem environment_file_is_temporary_witness:
  "\<exists>w' err. Ensure demo_runtime sample_sidecar sample_secrets demo_world = (w', err) \<and> rw_env_files w' = []"
proof -
  obtain w' err where run: "Ensure demo_runtime sample_sidecar sample_secrets demo_world = (w', err)" by fastforce
  have "rt_WriteFile demo_runtime = None" by (simp add: demo_runtime_def)
  from environment_file_is_temporary[OF this run] run show ?thesis by (simp add: demo_world_def)
qed

text \<open>A write that fails leaves what was written, values included, because the removal is only armed after
  a successful write.\<close>

lemma failed_environment_write_remains:
  assumes "rt_WriteFile rt = Some (e, partial)" and "rt_MkdirAll rt = None"
    and "rp_HostPath (rt_EnvDir rt) \<noteq> []" and "rp_RuntimePath (rt_EnvDir rt) \<noteq> []"
    and "runtime_Resolve rt d s = Inr (r, sens)" and "fingerprint rt r = Inr f"
    and "converge rt d f (rw_client w) = (g, Inr False)" and "ct_Env r \<noteq> []"
    and "formatEnvFile (rev (map (\<lambda>v. (ev_Name v, case ev_Value v of None \<Rightarrow> [] | Some x \<Rightarrow> x)) (ct_Env r))) = Inr content"
  shows "map_of (rw_env_files (fst (Ensure rt d s w))) (env_path (rp_HostPath (rt_EnvDir rt)) (ct_Name d)) = Some partial"
  using assms by (simp add: Ensure_def envFile_def put_file_def Let_def)

end
