(* ===== verification/Sidecar_Management.thy ===== *)
theory Sidecar_Management
  imports Sidecar_Runtime
begin

text \<open>
  Enabling, disabling, removing and reconciling sidecars: \<^verbatim>\<open>src/internal/deploy/sidecars.go\<close> and
  \<^verbatim>\<open>sidecar_health.go\<close> over the files of \<^verbatim>\<open>src/internal/config/sidecars.go\<close> and \<^verbatim>\<open>sidecar_state.go\<close>. The
  containers are those of the theory \<open>Sidecar_Runtime\<close>; the host of the containers, the forwarded
  ports, the network probes and the clock are fields of the environment. All operations run under the
  deployment lock.
\<close>

section \<open>Files\<close>

datatype document_file = NoDocument | UnreadableDocument go_error | SavedDocument Document

datatype failures_file = NoFailures | UnreadableFailures go_error | SavedFailures "(string \<times> string) list"

text \<open>How an atomic write ends: the error of the final directory sync comes after the replacement.\<close>

datatype atomic_outcome = Replaced | NotReplaced go_error | ReplacedUnsynced go_error

definition replaces :: "atomic_outcome \<Rightarrow> bool" where
  "replaces r \<longleftrightarrow> (case r of NotReplaced _ \<Rightarrow> False | _ \<Rightarrow> True)"

definition atomic_error :: "atomic_outcome \<Rightarrow> go_error option" where
  "atomic_error r = (case r of Replaced \<Rightarrow> None | NotReplaced e \<Rightarrow> Some e | ReplacedUnsynced e \<Rightarrow> Some e)"

section \<open>The engine and the environment\<close>

record PublishedPort =
  pp_Sidecar :: string
  pp_Index :: nat
  pp_HostIP :: string
  pp_HostPort :: int
  pp_RuntimePort :: int

text \<open>A file that is read after its existence was tested.\<close>

datatype 'a tested_file = FileAbsent | StatFails go_error | ReadFails go_error | FileContent 'a

record 'g sc_env =
  sc_runtime :: "'g SidecarRuntime"
  sc_goarch :: string
  sc_embedded :: "(string \<times> Entry) list"
  sc_templates :: "(string \<times> Entry) list option"
  sc_SidecarHostRunning :: "'g \<Rightarrow> (go_error, bool) result"
  sc_Sidecars :: "'g \<Rightarrow> go_error option"
  sc_OpenPorts :: "PublishedPort list \<Rightarrow> 'g \<Rightarrow> 'g \<times> go_error option"
  sc_OpenedPorts :: "'g \<Rightarrow> (go_error, PublishedPort list) result"
  sc_Status :: "'g \<Rightarrow> (go_error, bool) result"
  sc_now :: "'g \<Rightarrow> int"
  sc_http :: "string \<Rightarrow> 'g \<Rightarrow> (go_error, int) result"
  sc_dial :: "string \<Rightarrow> 'g \<Rightarrow> go_error option"
  sc_URL :: "string \<Rightarrow> string \<Rightarrow> string \<Rightarrow> string"
  sc_node_details :: "string option tested_file"
  sc_secrets_file :: "string tested_file"
  sc_write :: "nat \<Rightarrow> atomic_outcome"
  sc_stat_document :: "go_error option"
  sc_stat_failures :: "go_error option"

abbreviation sc_libs :: "'g sc_env \<Rightarrow> sidecar_libs" where "sc_libs env \<equiv> rt_libs (sc_runtime env)"

abbreviation sc_spec_error :: "'g sc_env \<Rightarrow> sidecar_error \<Rightarrow> go_error" where
  "sc_spec_error env \<equiv> rt_spec_error (sc_runtime env)"

record 'g sc_world =
  sx_state :: state_file
  sx_document :: document_file
  sx_failures :: failures_file
  sx_engine :: "'g rt_world"
  sx_writes :: nat

abbreviation sx_client :: "'g sc_world \<Rightarrow> 'g" where "sx_client w \<equiv> rw_client (sx_engine w)"

definition with_client :: "'g \<Rightarrow> 'g rt_world \<Rightarrow> 'g rt_world" where
  "with_client g e = e\<lparr>rw_client := g\<rparr>"

text \<open>\<open>sidecarDiagnostic\<close>: the full account of a failed start, the text of any other error.\<close>

definition sidecarDiagnostic :: "'g sc_env \<Rightarrow> go_error \<Rightarrow> string" where
  "sidecarDiagnostic env e =
     (case errors_As (\<lambda>x. case x of StartupError _ _ d \<Rightarrow> Some d | _ \<Rightarrow> None) e of
        Some d \<Rightarrow> d | None \<Rightarrow> rt_Error (sc_runtime env) e)"

definition sidecarSecrets :: "'g sc_env \<Rightarrow> (go_error, Secrets) result" where
  "sidecarSecrets env =
     bind_result (case sc_node_details env of
         FileAbsent \<Rightarrow> Inr [] | StatFails e \<Rightarrow> Inl e | ReadFails e \<Rightarrow> Inl e
       | FileContent None \<Rightarrow> Inr []
       | FileContent (Some username) \<Rightarrow>
           Inr [(''username'', \<lparr>sv_Value = (if username = [] then ''sys'' else username), sv_Sensitive = False\<rparr>)]) (\<lambda>user.
     bind_result (case sc_secrets_file env of
         FileAbsent \<Rightarrow> Inr [] | StatFails e \<Rightarrow> Inl e | ReadFails e \<Rightarrow> Inl e
       | FileContent password \<Rightarrow> Inr [(''password'', \<lparr>sv_Value = password, sv_Sensitive = True\<rparr>)]) (\<lambda>password.
       Inr [(''exasol-database'',
             [(''host'', \<lparr>sv_Value = DatabaseAlias, sv_Sensitive = False\<rparr>),
              (''port'', \<lparr>sv_Value = Itoa 8563, sv_Sensitive = False\<rparr>)] @ user @ password)]))"

definition ReadSidecars :: "'g sc_env \<Rightarrow> 'g sc_world \<Rightarrow> (go_error, Document) result" where
  "ReadSidecars env w =
     (case sx_document w of
        NoDocument \<Rightarrow> Inr []
      | UnreadableDocument e \<Rightarrow> Inl e
      | SavedDocument d \<Rightarrow>
          (case Parse (sc_libs env) d of
             Inl e \<Rightarrow> Inl (Wrap ''sidecars.yaml'' (sc_spec_error env e))
           | Inr d' \<Rightarrow> Inr d'))"

definition WriteSidecars :: "'g sc_env \<Rightarrow> Document \<Rightarrow> 'g sc_world \<Rightarrow> 'g sc_world \<times> go_error option" where
  "WriteSidecars env d w =
     (case Parse (sc_libs env) d of
        Inl e \<Rightarrow> (w, Some (sc_spec_error env e))
      | Inr _ \<Rightarrow>
          (let r = sc_write env (sx_writes w) in
           (w\<lparr>sx_document := (if replaces r then SavedDocument d else sx_document w), sx_writes := Suc (sx_writes w)\<rparr>,
            atomic_error r)))"

definition ReadSidecarState :: "'g sc_world \<Rightarrow> (go_error, (string \<times> string) list) result" where
  "ReadSidecarState w =
     (case sx_failures w of NoFailures \<Rightarrow> Inr [] | UnreadableFailures e \<Rightarrow> Inl e | SavedFailures m \<Rightarrow> Inr m)"

definition WriteSidecarState ::
  "'g sc_env \<Rightarrow> (string \<times> string) list \<Rightarrow> 'g sc_world \<Rightarrow> 'g sc_world \<times> go_error option"
where
  "WriteSidecarState env m w =
     (case sx_failures w of
        UnreadableFailures e \<Rightarrow> (w, Some e)
      | _ \<Rightarrow>
          (let r = sc_write env (sx_writes w) in
           (w\<lparr>sx_failures := (if replaces r then SavedFailures m else sx_failures w), sx_writes := Suc (sx_writes w)\<rparr>,
            atomic_error r)))"

definition Containers :: "Document \<Rightarrow> Container list" where
  "Containers d =
     List.map_filter (\<lambda>n. case map_of d n of Some x \<Rightarrow> if IsEnabled x then Some (df_Container x) else None | None \<Rightarrow> None)
       (sorted_keys d)"

definition enabledSidecar :: "Document \<Rightarrow> string \<Rightarrow> bool" where
  "enabledSidecar d name = (case map_of d name of None \<Rightarrow> False | Some x \<Rightarrow> IsEnabled x)"

definition containsSidecar :: "Document \<Rightarrow> string \<Rightarrow> bool" where
  "containsSidecar d name \<longleftrightarrow> map_of d name \<noteq> None"

section \<open>The deployment's state\<close>

definition workflowState :: "'g sc_world \<Rightarrow> (go_error, workflow) result" where
  "workflowState w =
     (case ReadExasolPersonalState (sx_state w) of
        Inl e \<Rightarrow> Inl (StateError e)
      | Inr s \<Rightarrow> (case GetWorkflowState s of None \<Rightarrow> Inl ErrNoWorkflowStateSet | Some st \<Rightarrow> Inr st))"

definition deploymentInitialized :: "'g sc_world \<Rightarrow> (go_error, bool) result" where
  "deploymentInitialized w = (case workflowState w of Inl e \<Rightarrow> Inl e | Inr st \<Rightarrow> Inr (st = Initialized))"

definition mutationDeferred :: "'g sc_world \<Rightarrow> (go_error, bool) result" where
  "mutationDeferred w =
     (case workflowState w of
        Inl e \<Rightarrow> Inl e
      | Inr st \<Rightarrow>
          if st = Initialized \<or> st = Stopped then Inr True
          else if st = Running then Inr False
          else Inl (Plain ''deployment state does not allow sidecar changes''))"

section \<open>Applying the desired set\<close>

record SidecarApplyResult =
  ar_Applied :: bool
  ar_Failures :: "(string \<times> go_error) list"

definition not_applied :: SidecarApplyResult where
  "not_applied = \<lparr>ar_Applied = False, ar_Failures = []\<rparr>"

fun ensure_loop ::
  "'g sc_env \<Rightarrow> go_error option \<Rightarrow> Secrets \<Rightarrow> Container list \<Rightarrow> (string \<times> go_error) list \<Rightarrow> 'g rt_world
    \<Rightarrow> (string \<times> go_error) list \<times> 'g rt_world"
where
  "ensure_loop env unreachable secrets [] failures g = (failures, g)"
| "ensure_loop env unreachable secrets (c # cs) failures g =
     (case unreachable of
        Some e \<Rightarrow>
          ensure_loop env unreachable secrets cs
            (map_put (ct_Name c) (Wrap (''sidecar '' @ ct_Name c) e) failures) g
      | None \<Rightarrow>
          (case Ensure (sc_runtime env) c secrets g of
             (g', Some e) \<Rightarrow> ensure_loop env unreachable secrets cs (map_put (ct_Name c) e failures) g'
           | (g', None) \<Rightarrow> ensure_loop env unreachable secrets cs failures g'))"

fun owned_loop :: "ContainerListing list \<Rightarrow> string list \<Rightarrow> string list" where
  "owned_loop [] names = names"
| "owned_loop (c # cs) names =
     (let name = SidecarName c in
      owned_loop cs (if name \<noteq> [] \<and> name \<notin> set names then names @ [name] else names))"

definition ownedNames :: "ContainerListing list \<Rightarrow> string list" where
  "ownedNames containers = owned_loop containers []"

fun remove_loop ::
  "'g sc_env \<Rightarrow> string set \<Rightarrow> string list \<Rightarrow> (string \<times> go_error) list \<Rightarrow> 'g \<Rightarrow> (string \<times> go_error) list \<times> 'g"
where
  "remove_loop env desired [] failures g = (failures, g)"
| "remove_loop env desired (n # ns) failures g =
     (if n \<in> desired then remove_loop env desired ns failures g
      else case sidecars_Remove (sc_runtime env) n g of
        (g', Some e) \<Rightarrow> remove_loop env desired ns (map_put n e failures) g'
      | (g', None) \<Rightarrow> remove_loop env desired ns failures g')"

definition removeUndesired ::
  "'g sc_env \<Rightarrow> Container list \<Rightarrow> (string \<times> go_error) list \<Rightarrow> 'g \<Rightarrow> ((string \<times> go_error) list \<times> 'g) \<times> go_error option"
where
  "removeUndesired env desired failures g =
     (case sidecars_List (sc_runtime env) g of
        (g', Inl e) \<Rightarrow> ((failures, g'), Some e)
      | (g', Inr containers) \<Rightarrow> (remove_loop env (ct_Name ` set desired) (ownedNames containers) failures g', None))"

text \<open>The first running container that binds a port decides where it is bound.\<close>

definition boundContainerPorts :: "ContainerListing list \<Rightarrow> string \<Rightarrow> int \<Rightarrow> int" where
  "boundContainerPorts containers name port =
     (case filter (\<lambda>b. cp_ContainerPort b = port \<and> cp_HostPort b > 0)
             (concat (map cl_Ports (filter (\<lambda>c. listing_Running c \<and> SidecarName c = name) containers))) of
        [] \<Rightarrow> 0
      | b # _ \<Rightarrow> cp_HostPort b)"

definition published_ports :: "sidecar_libs \<Rightarrow> ContainerListing list \<Rightarrow> Container \<Rightarrow> PublishedPort list" where
  "published_ports lib containers c =
     List.map_filter (\<lambda>(i, p). if pt_HostPort p = 0 then None
         else Some \<lparr>pp_Sidecar = ct_Name c, pp_Index = i, pp_HostIP = pt_HostIP p, pp_HostPort = pt_HostPort p,
                    pp_RuntimePort = boundContainerPorts containers (ct_Name c) (pt_ContainerPort p)\<rparr>)
       (enumerate 0 (ct_Ports (Defaults lib c)))"

definition publish :: "'g sc_env \<Rightarrow> Container list \<Rightarrow> 'g \<Rightarrow> 'g \<times> go_error option" where
  "publish env desired g =
     (case sidecars_List (sc_runtime env) g of
        (g', Inl e) \<Rightarrow> (g', Some e)
      | (g', Inr containers) \<Rightarrow>
          sc_OpenPorts env (concat (map (published_ports (sc_libs env) containers) desired)) g')"

datatype apply_error = RestartRequired | ApplyError go_error

text \<open>The database's attachment: an error other than the missing network support ends the operation,
  that one marks every sidecar as unreachable, and a needed restart is reported as such.\<close>

definition is_network_unsupported :: "go_error \<Rightarrow> bool" where
  "is_network_unsupported e \<longleftrightarrow> errors_As (\<lambda>x. case x of ServiceNetworkUnsupportedError b \<Rightarrow> Some b | _ \<Rightarrow> None) e \<noteq> None"

definition attach ::
  "'g sc_env \<Rightarrow> Container list \<Rightarrow> 'g \<Rightarrow> 'g \<times> (apply_error, go_error option) result"
where
  "attach env desired g =
     (if desired = [] then (g, Inr None)
      else case AttachDatabase (sc_runtime env) g of
        (g', Inl e) \<Rightarrow> (g', if is_network_unsupported e then Inr (Some e) else Inl (ApplyError e))
      | (g', Inr True) \<Rightarrow> (g', Inl RestartRequired)
      | (g', Inr False) \<Rightarrow> (g', Inr None))"

definition converge_set ::
  "'g sc_env \<Rightarrow> Container list \<Rightarrow> go_error option \<Rightarrow> Secrets \<Rightarrow> 'g rt_world \<Rightarrow> 'g rt_world \<times> SidecarApplyResult \<times> apply_error option"
where
  "converge_set env desired unreachable secrets g =
     (case ensure_loop env unreachable secrets desired [] g of (failures, g1) \<Rightarrow>
     (case removeUndesired env desired failures (rw_client g1) of
        ((failures', h), Some e) \<Rightarrow>
          (with_client h g1, \<lparr>ar_Applied = True, ar_Failures = failures'\<rparr>, Some (ApplyError e))
      | ((failures', h), None) \<Rightarrow>
          (case publish env desired h of
             (h', err) \<Rightarrow>
               (with_client h' g1, \<lparr>ar_Applied = True, ar_Failures = failures'\<rparr>, map_option ApplyError err))))"

definition applySidecars ::
  "'g sc_env \<Rightarrow> Container list \<Rightarrow> 'g rt_world \<Rightarrow> 'g rt_world \<times> SidecarApplyResult \<times> apply_error option"
where
  "applySidecars env desired g =
     (case sc_SidecarHostRunning env (rw_client g) of
        Inl e \<Rightarrow> (g, not_applied, Some (ApplyError e))
      | Inr False \<Rightarrow> (g, not_applied, None)
      | Inr True \<Rightarrow>
     (case sc_Sidecars env (rw_client g) of Some e \<Rightarrow> (g, not_applied, Some (ApplyError e)) | None \<Rightarrow>
     (case attach env desired (rw_client g) of
        (h, Inl e) \<Rightarrow> (with_client h g, not_applied, Some e)
      | (h, Inr unreachable) \<Rightarrow>
          (case sidecarSecrets env of
             Inl e \<Rightarrow> (with_client h g, not_applied, Some (ApplyError e))
           | Inr secrets \<Rightarrow> converge_set env desired unreachable secrets (with_client h g)))))"

text \<open>\<open>recordFailures\<close>: the failures replace those recorded before.\<close>

definition recordFailures :: "'g sc_env \<Rightarrow> (string \<times> go_error) list \<Rightarrow> 'g sc_world \<Rightarrow> 'g sc_world \<times> go_error option" where
  "recordFailures env perSidecar w =
     WriteSidecarState env (map (\<lambda>(n, e). (n, sidecarDiagnostic env e)) perSidecar) w"

definition apply_sidecars :: "'g sc_env \<Rightarrow> Container list \<Rightarrow> 'g sc_world \<Rightarrow> 'g sc_world \<times> go_error option" where
  "apply_sidecars env desired w =
     (case applySidecars env desired (sx_engine w) of
        (g, result, err) \<Rightarrow>
          (let applyErr = (case err of Some (ApplyError e) \<Rightarrow> Some e | _ \<Rightarrow> None); w1 = w\<lparr>sx_engine := g\<rparr> in
           if \<not> ar_Applied result then (w1, applyErr)
           else case recordFailures env (ar_Failures result) w1 of
             (w2, recErr) \<Rightarrow> (w2, errors_Join [applyErr, recErr, joinSidecarFailures (ar_Failures result)])))"

section \<open>Health\<close>

definition sidecarHealthStarting :: string where "sidecarHealthStarting = ''starting''"
definition sidecarHealthServing :: string where "sidecarHealthServing = ''serving''"
definition sidecarHealthFailing :: string where "sidecarHealthFailing = ''failing''"

record sidecarHealth =
  sh_State :: string
  sh_Failure :: string

text \<open>Durations are 64-bit nanoseconds.\<close>

definition seconds :: "int \<Rightarrow> int" where "seconds v = wrap64 (v * 1000000000)"

definition Window :: "Probe \<Rightarrow> int" where
  "Window p = wrap64 (pb_InitialDelaySeconds p + wrap64 (pb_PeriodSeconds p * pb_FailureThreshold p))"

definition probeAddress :: "PortReference \<Rightarrow> Port list \<Rightarrow> string" where
  "probeAddress reference ports =
     (case referenced_port reference ports of None \<Rightarrow> hostAddress [] 0 | Some p \<Rightarrow> hostAddress (pt_HostIP p) (pt_HostPort p))"

definition httpProbe :: "'g sc_env \<Rightarrow> HTTPGetAction \<Rightarrow> string \<Rightarrow> 'g \<Rightarrow> go_error option" where
  "httpProbe env action address g =
     (let target = sc_URL env (if hg_Scheme action = ''HTTP'' then ''http'' else if hg_Scheme action = ''HTTPS'' then ''https'' else [])
            address (hg_Path action)
      in case sc_http env target g of
           Inl e \<Rightarrow> Some e
         | Inr status \<Rightarrow>
             if status < 200 \<or> 400 \<le> status then Some (Plain (''GET '' @ target @ '' returned status '' @ Itoa status)) else None)"

definition runProbe ::
  "'g sc_env \<Rightarrow> ContainerListing \<Rightarrow> Port list \<Rightarrow> Probe \<Rightarrow> 'g \<Rightarrow> 'g \<times> go_error option"
where
  "runProbe env container ports probe g =
     (case (pb_Exec probe, pb_HTTPGet probe, pb_TCPSocket probe) of
        (Some command, _, _) \<Rightarrow> sidecars_Exec (sc_runtime env) container command g
      | (None, Some action, _) \<Rightarrow> (g, httpProbe env action (probeAddress (hg_Port action) ports) g)
      | (None, None, Some reference) \<Rightarrow> (g, sc_dial env (probeAddress reference ports) g)
      | (None, None, None) \<Rightarrow> (g, Some (Plain ''invalid memory address or nil pointer dereference'')))"

text \<open>\<^verbatim>\<open>now.Sub(startedAt)\<close>, which saturates: a container that never started is older than any window.\<close>

definition elapsed_since :: "int option \<Rightarrow> int \<Rightarrow> int" where
  "elapsed_since started now =
     (case started of None \<Rightarrow> max_int64 | Some t \<Rightarrow> max min_int64 (min max_int64 (now - t)))"

definition probeSidecar ::
  "'g sc_env \<Rightarrow> ContainerListing \<Rightarrow> Container \<Rightarrow> int \<Rightarrow> 'g \<Rightarrow> 'g \<times> sidecarHealth"
where
  "probeSidecar env container c now g =
     (let d = Defaults (sc_libs env) c in
      case ct_ReadinessProbe d of
        None \<Rightarrow> (g, \<lparr>sh_State = [], sh_Failure = []\<rparr>)
      | Some probe \<Rightarrow>
          (let elapsed = elapsed_since (cl_StartedAt container) now in
           if elapsed < seconds (pb_InitialDelaySeconds probe) then (g, \<lparr>sh_State = sidecarHealthStarting, sh_Failure = []\<rparr>)
           else case runProbe env container (ct_Ports d) probe g of
             (g', None) \<Rightarrow> (g', \<lparr>sh_State = sidecarHealthServing, sh_Failure = []\<rparr>)
           | (g', Some e) \<Rightarrow>
               (g', \<lparr>sh_State = (if elapsed < seconds (Window probe) then sidecarHealthStarting else sidecarHealthFailing),
                     sh_Failure = rt_Error (sc_runtime env) e\<rparr>)))"

section \<open>Observing\<close>

record SidecarEndpoint =
  se_IP :: string
  se_Port :: int
  se_URL :: string

record SidecarObservation =
  so_Name :: string
  so_Running :: bool
  so_State :: string
  so_ExitCode :: int
  so_Matches :: bool
  so_Endpoints :: "SidecarEndpoint list"
  so_Health :: sidecarHealth

record SidecarInspection =
  si_Available :: bool
  si_DatabaseRunning :: bool
  si_RestartRequired :: bool
  si_Sidecars :: "SidecarObservation list"

record SidecarResult =
  sr_Name :: string
  sr_Enabled :: bool
  sr_NothingToRemove :: bool
  sr_Running :: bool
  sr_RestartRequired :: bool
  sr_State :: string
  sr_Reconciliation :: string
  sr_ExitCode :: int
  sr_Health :: string
  sr_HealthError :: string
  sr_Error :: string
  sr_LastOperationError :: string
  sr_Endpoints :: "SidecarEndpoint list"

definition sidecarReconciliationComplete :: string where "sidecarReconciliationComplete = ''complete''"
definition sidecarReconciliationPending :: string where "sidecarReconciliationPending = ''pending''"
definition sidecarReconciliationUnknown :: string where "sidecarReconciliationUnknown = ''unknown''"

text \<open>The zero value, and the value a status begins with.\<close>

definition no_result :: SidecarResult where
  "no_result = \<lparr>sr_Name = [], sr_Enabled = False, sr_NothingToRemove = False, sr_Running = False,
     sr_RestartRequired = False, sr_State = [], sr_Reconciliation = [],
     sr_ExitCode = 0, sr_Health = [], sr_HealthError = [], sr_Error = [], sr_LastOperationError = [], sr_Endpoints = []\<rparr>"

definition stopped_result :: "string \<Rightarrow> SidecarResult" where
  "stopped_result name = no_result\<lparr>sr_Name := name, sr_State := ''stopped'', sr_Reconciliation := sidecarReconciliationUnknown\<rparr>"

text \<open>The declaration for a published address, the last one that was entered; its URL is made of the
  declaration's scheme and path and the address.\<close>

definition declarationsFor :: "sidecar_libs \<Rightarrow> Definition \<Rightarrow> (string \<times> Endpoint) list" where
  "declarationsFor lib d =
     rev (concat (map (\<lambda>e. List.map_filter (\<lambda>p. if pt_Name p = ep_Port e \<and> pt_HostPort p > 0
            then Some (hostAddress (pt_HostIP p) (pt_HostPort p), e) else None)
          (ct_Ports (Defaults lib (df_Container d)))) (df_Endpoints d)))"

definition endpoint_for :: "'g sc_env \<Rightarrow> (string \<times> Endpoint) list \<Rightarrow> string \<Rightarrow> int \<Rightarrow> SidecarEndpoint" where
  "endpoint_for env declarations hostIP hostPort =
     (let address = hostAddress hostIP hostPort in
      \<lparr>se_IP = hostIP, se_Port = hostPort,
       se_URL = (case map_of declarations address of None \<Rightarrow> [] | Some d \<Rightarrow> sc_URL env (ep_Scheme d) address (ep_Path d))\<rparr>)"

definition sidecarEndpoints ::
  "'g sc_env \<Rightarrow> ContainerListing \<Rightarrow> PublishedPort list \<Rightarrow> (string \<times> Endpoint) list \<Rightarrow> SidecarEndpoint list"
where
  "sidecarEndpoints env container published declarations =
     (if published \<noteq> [] then map (\<lambda>p. endpoint_for env declarations (pp_HostIP p) (pp_HostPort p)) published
      else map (\<lambda>b. endpoint_for env declarations (cp_HostIP b) (cp_HostPort b))
             (filter (\<lambda>b. cp_HostPort b > 0) (cl_Ports container)))"

definition openedFor :: "PublishedPort list \<Rightarrow> string \<Rightarrow> PublishedPort list" where
  "openedFor opened name = filter (\<lambda>p. pp_Sidecar p = name) opened"

definition observeSidecar ::
  "'g sc_env \<Rightarrow> ContainerListing \<Rightarrow> Document \<Rightarrow> PublishedPort list \<Rightarrow> Secrets \<Rightarrow> int \<Rightarrow> 'g
    \<Rightarrow> 'g \<times> (go_error, SidecarObservation) result"
where
  "observeSidecar env container d opened secrets now g =
     (let name = SidecarName container;
          declarations = (case map_of d name of Some x \<Rightarrow> declarationsFor (sc_libs env) x | None \<Rightarrow> []);
          seen = \<lparr>so_Name = name, so_Running = listing_Running container, so_State = cl_State container,
                  so_ExitCode = cl_ExitCode container, so_Matches = False,
                  so_Endpoints = (if listing_Running container
                    then sidecarEndpoints env container (openedFor opened name) declarations else []),
                  so_Health = \<lparr>sh_State = [], sh_Failure = []\<rparr>\<rparr>
      in case map_of d name of
           None \<Rightarrow> (g, Inr seen)
         | Some x \<Rightarrow>
             (case (if listing_Running container then probeSidecar env container (df_Container x) now g
                    else (g, \<lparr>sh_State = [], sh_Failure = []\<rparr>)) of
                (g', health) \<Rightarrow>
                  (g', case Matches (sc_runtime env) container (df_Container x) secrets of
                         Inl e \<Rightarrow> Inl e
                       | Inr m \<Rightarrow> Inr (seen\<lparr>so_Health := health, so_Matches := m\<rparr>))))"

fun observe_all ::
  "'g sc_env \<Rightarrow> Document \<Rightarrow> PublishedPort list \<Rightarrow> Secrets \<Rightarrow> int \<Rightarrow> ContainerListing list \<Rightarrow> 'g
    \<Rightarrow> 'g \<times> (go_error, SidecarObservation list) result"
where
  "observe_all env d opened secrets now [] g = (g, Inr [])"
| "observe_all env d opened secrets now (c # cs) g =
     (case observeSidecar env c d opened secrets now g of
        (g', Inl e) \<Rightarrow> (g', Inl e)
      | (g', Inr seen) \<Rightarrow>
          (case observe_all env d opened secrets now cs g' of
             (g'', Inl e) \<Rightarrow> (g'', Inl e)
           | (g'', Inr rest) \<Rightarrow> (g'', Inr (seen # rest))))"

definition inspectSidecars :: "'g sc_env \<Rightarrow> Document \<Rightarrow> 'g \<Rightarrow> 'g \<times> (go_error, SidecarInspection option) result" where
  "inspectSidecars env d g =
     (case sc_SidecarHostRunning env g of Inl e \<Rightarrow> (g, Inl e) | Inr False \<Rightarrow> (g, Inr None) | Inr True \<Rightarrow>
     (case sc_Sidecars env g of Some e \<Rightarrow> (g, Inl e) | None \<Rightarrow>
     (case sidecars_List (sc_runtime env) g of (g1, Inl e) \<Rightarrow> (g1, Inl e) | (g1, Inr containers) \<Rightarrow>
     (case sc_OpenedPorts env g1 of Inl e \<Rightarrow> (g1, Inl e) | Inr opened \<Rightarrow>
     (case DatabaseRestartRequired (sc_runtime env) g1 of (g2, Inl e) \<Rightarrow> (g2, Inl e) | (g2, Inr restart) \<Rightarrow>
     (case sc_Status env g2 of Inl e \<Rightarrow> (g2, Inl e) | Inr running \<Rightarrow>
     (case sidecarSecrets env of Inl e \<Rightarrow> (g2, Inl e) | Inr secrets \<Rightarrow>
     (case observe_all env d opened secrets (sc_now env g2) containers g2 of
        (g3, Inl e) \<Rightarrow> (g3, Inl e)
      | (g3, Inr observed) \<Rightarrow>
          (g3, Inr (Some \<lparr>si_Available = True, si_DatabaseRunning = running, si_RestartRequired = restart,
                         si_Sidecars = observed\<rparr>))))))))))"

text \<open>The balance of declared and observed addresses, counted per address.\<close>

definition endpointsMatch :: "sidecar_libs \<Rightarrow> Container \<Rightarrow> SidecarEndpoint list \<Rightarrow> bool" where
  "endpointsMatch lib c endpoints =
     (let declared = map (\<lambda>p. hostAddress (pt_HostIP p) (pt_HostPort p))
            (filter (\<lambda>p. pt_HostPort p > 0) (ct_Ports (Defaults lib c)));
          observed = map (\<lambda>e. hostAddress (se_IP e) (se_Port e)) endpoints
      in list_all (\<lambda>a. count_list declared a = count_list observed a) (declared @ observed))"

definition reconciliation ::
  "sidecar_libs \<Rightarrow> string \<Rightarrow> Document \<Rightarrow> SidecarObservation list \<Rightarrow> SidecarResult \<Rightarrow> bool \<Rightarrow> string"
where
  "reconciliation lib name d observed result databaseRunning =
     (if \<not> enabledSidecar d name \<or> \<not> databaseRunning then
        (if observed = [] \<and> sr_Endpoints result = [] then sidecarReconciliationComplete else sidecarReconciliationPending)
      else if sr_RestartRequired result \<or> length observed \<noteq> 1 then sidecarReconciliationPending
      else if \<not> so_Running (hd observed) \<or> \<not> so_Matches (hd observed) then sidecarReconciliationPending
      else if (case map_of d name of None \<Rightarrow> False | Some x \<Rightarrow> \<not> endpointsMatch lib (df_Container x) (sr_Endpoints result))
        then sidecarReconciliationPending
      else sidecarReconciliationComplete)"

definition note_observation :: "SidecarObservation \<Rightarrow> SidecarResult \<Rightarrow> SidecarResult" where
  "note_observation seen result =
     (let r = result\<lparr>sr_Running := so_Running seen, sr_State := so_State seen, sr_ExitCode := so_ExitCode seen\<rparr> in
      if so_Running seen then
        r\<lparr>sr_Endpoints := so_Endpoints seen, sr_Health := sh_State (so_Health seen), sr_HealthError := sh_Failure (so_Health seen)\<rparr>
      else r)"

definition describe ::
  "'g sc_env \<Rightarrow> string \<Rightarrow> Document \<Rightarrow> SidecarResult \<Rightarrow> 'g sc_world \<Rightarrow> 'g sc_world \<times> SidecarResult \<times> go_error option"
where
  "describe env name d result w =
     (case deploymentInitialized w of
        Inl e \<Rightarrow> (w, result, Some e)
      | Inr True \<Rightarrow> (w, result, None)
      | Inr False \<Rightarrow>
          (case inspectSidecars env d (sx_client w) of (g, inspected) \<Rightarrow>
             (let w1 = w\<lparr>sx_engine := with_client g (sx_engine w)\<rparr> in
              case inspected of
                Inl e \<Rightarrow> (w1, result, Some e)
              | Inr None \<Rightarrow> (w1, result, None)
              | Inr (Some insp) \<Rightarrow>
                  (let observed = filter (\<lambda>s. so_Name s = name) (si_Sidecars insp);
                       r = (fold note_observation observed result)\<lparr>sr_RestartRequired := si_RestartRequired insp\<rparr>
                   in (w1, r\<lparr>sr_Reconciliation := reconciliation (sc_libs env) name d observed r (si_DatabaseRunning insp)\<rparr>, None)))))"

text \<open>\<open>status\<close> clears a recorded failure once the sidecar is reconciled.\<close>

definition sidecar_status :: "'g sc_env \<Rightarrow> string \<Rightarrow> 'g sc_world \<Rightarrow> 'g sc_world \<times> SidecarResult \<times> go_error option" where
  "sidecar_status env name w =
     (case ReadSidecars env w of
        Inl e \<Rightarrow> (w, stopped_result name, Some e)
      | Inr d \<Rightarrow>
         (let r0 = (stopped_result name)\<lparr>sr_Enabled := enabledSidecar d name\<rparr> in
          case ReadSidecarState w of
            Inl e \<Rightarrow> (w, r0, Some e)
          | Inr failures \<Rightarrow>
             (let r1 = r0\<lparr>sr_LastOperationError := (case map_of failures name of None \<Rightarrow> [] | Some m \<Rightarrow> m)\<rparr> in
              case describe env name d r1 w of (w1, r, err) \<Rightarrow>
                (let r2 = (case err of None \<Rightarrow> r
                       | Some e \<Rightarrow> r\<lparr>sr_State := ''unknown'', sr_Reconciliation := sidecarReconciliationUnknown,
                                    sr_Error := rt_Error (sc_runtime env) e\<rparr>)
                 in if sr_Reconciliation r2 \<noteq> sidecarReconciliationComplete \<or> sr_LastOperationError r2 = [] then (w1, r2, None)
                    else case WriteSidecarState env (map_del name failures) w1 of
                      (w2, werr) \<Rightarrow> (w2, r2\<lparr>sr_LastOperationError := []\<rparr>, werr)))))"

section \<open>Enable, disable, remove\<close>

definition applyAndReport :: "'g sc_env \<Rightarrow> string \<Rightarrow> 'g sc_world \<Rightarrow> 'g sc_world \<times> SidecarResult \<times> go_error option" where
  "applyAndReport env name w =
     (case mutationDeferred w of
        Inl e \<Rightarrow> (w, no_result, Some e)
      | Inr deferred \<Rightarrow>
          (case (if deferred then (w, [])
                 else case ReadSidecars env w of
                   Inl e \<Rightarrow> (w, [Some e])
                 | Inr d \<Rightarrow> (case apply_sidecars env (Containers d) w of (w1, e) \<Rightarrow> (w1, [None, e]))) of
             (w1, failures) \<Rightarrow>
               (case sidecar_status env name w1 of
                  (w2, result, err) \<Rightarrow> (w2, result, errors_Join (failures @ [err])))))"

definition serviceNetworkSupported :: "'g sc_env \<Rightarrow> 'g \<Rightarrow> 'g \<times> go_error option" where
  "serviceNetworkSupported env g =
     (case sc_SidecarHostRunning env g of
        Inl e \<Rightarrow> (g, Some e)
      | Inr False \<Rightarrow> (g, None)
      | Inr True \<Rightarrow>
          (case sc_Sidecars env g of Some e \<Rightarrow> (g, Some e) | None \<Rightarrow> ServiceNetworkSupported (sc_runtime env) g))"

definition sidecarCatalog :: "'g sc_env \<Rightarrow> (string \<times> Entry) list list" where
  "sidecarCatalog env = (case sc_templates env of None \<Rightarrow> [sc_embedded env] | Some t \<Rightarrow> [t, sc_embedded env])"

definition enable_definition :: "'g sc_env \<Rightarrow> string \<Rightarrow> Document \<Rightarrow> (go_error, Definition) result" where
  "enable_definition env name d =
     (case map_of d name of
        Some x \<Rightarrow> Inr x
      | None \<Rightarrow>
          (case Catalogs_Resolve (sidecarCatalog env) name (sc_goarch env) of
             Inl e \<Rightarrow> Inl (sc_spec_error env e)
           | Inr entry \<Rightarrow> Inr (Definition.truncate entry)))"

text \<open>\<open>enable\<close> once the definition is known: an entry that is already enabled is not written again.\<close>

definition enable_saved ::
  "'g sc_env \<Rightarrow> string \<Rightarrow> Document \<Rightarrow> Definition \<Rightarrow> 'g sc_world \<Rightarrow> 'g sc_world \<times> SidecarResult \<times> go_error option"
where
  "enable_saved env name d x w =
     (if df_Enabled x = Some True then applyAndReport env name w
      else case WriteSidecars env (map_put name (x\<lparr>df_Enabled := Some True\<rparr>) d) w of
        (w1, Some e) \<Rightarrow> (w1, no_result, Some e)
      | (w1, None) \<Rightarrow> applyAndReport env name w1)"

definition sidecar_enable :: "'g sc_env \<Rightarrow> string \<Rightarrow> 'g sc_world \<Rightarrow> 'g sc_world \<times> SidecarResult \<times> go_error option" where
  "sidecar_enable env name w =
     (case mutationDeferred w of Inl e \<Rightarrow> (w, no_result, Some e) | Inr deferred \<Rightarrow>
     (case (if deferred then (sx_client w, None) else serviceNetworkSupported env (sx_client w)) of
        (g, supported) \<Rightarrow>
          (let w1 = w\<lparr>sx_engine := with_client g (sx_engine w)\<rparr> in
           case supported of
             Some e \<Rightarrow> (w1, no_result, Some (Wrap (''cannot enable sidecar '' @ name) e))
           | None \<Rightarrow>
               (case ReadSidecars env w1 of Inl e \<Rightarrow> (w1, no_result, Some e) | Inr d \<Rightarrow>
               (case enable_definition env name d of
                  Inl e \<Rightarrow> (w1, no_result, Some e)
                | Inr x \<Rightarrow> enable_saved env name d x w1)))))"

definition disabled_document :: "string \<Rightarrow> bool \<Rightarrow> Document \<Rightarrow> Document" where
  "disabled_document name remove d =
     (if remove then map_del name d
      else case map_of d name of None \<Rightarrow> d | Some x \<Rightarrow> map_put name (x\<lparr>df_Enabled := Some False\<rparr>) d)"

definition finish_disable ::
  "'g sc_env \<Rightarrow> string \<Rightarrow> bool \<Rightarrow> 'g sc_world \<Rightarrow> 'g sc_world \<times> SidecarResult \<times> go_error option"
where
  "finish_disable env name deferred w =
     (case applyAndReport env name w of (w1, result, err) \<Rightarrow>
       if deferred \<or> (err = None \<and> sr_Reconciliation result = sidecarReconciliationComplete) then (w1, result, err)
       else
         (let cause = (case err of Some e \<Rightarrow> e | None \<Rightarrow> Plain (''sidecar '' @ name @ '' cleanup could not be verified'')) in
          case ReadSidecarState w1 of
            Inl readErr \<Rightarrow> (w1, result, errors_Join [Some cause, Some readErr])
          | Inr failures \<Rightarrow>
              (case WriteSidecarState env (map_put name (sidecarDiagnostic env cause) failures) w1 of
                 (w2, writeErr) \<Rightarrow>
                   (w2, result\<lparr>sr_LastOperationError := sidecarDiagnostic env cause\<rparr>, errors_Join [Some cause, writeErr]))))"

definition nothing_to_remove :: "string \<Rightarrow> SidecarResult" where
  "nothing_to_remove name = (stopped_result name)\<lparr>sr_Reconciliation := sidecarReconciliationComplete, sr_NothingToRemove := True\<rparr>"

definition sidecar_disable ::
  "'g sc_env \<Rightarrow> string \<Rightarrow> bool \<Rightarrow> 'g sc_world \<Rightarrow> 'g sc_world \<times> SidecarResult \<times> go_error option"
where
  "sidecar_disable env name remove w =
     (case mutationDeferred w of Inl e \<Rightarrow> (w, no_result, Some e) | Inr deferred \<Rightarrow>
     (case ReadSidecars env w of Inl e \<Rightarrow> (w, no_result, Some e) | Inr d \<Rightarrow>
     (case (if map_of d name = None \<or> \<not> remove \<and> \<not> enabledSidecar d name
            then map_sum id (\<lambda>failures. map_of failures name = None) (ReadSidecarState w) else Inr False) of
        Inl e \<Rightarrow> (w, no_result, Some e)
      | Inr True \<Rightarrow> (w, nothing_to_remove name, None)
      | Inr False \<Rightarrow>
          (case WriteSidecars env (disabled_document name remove d) w of
             (w1, Some e) \<Rightarrow> (w1, no_result, Some e)
           | (w1, None) \<Rightarrow> finish_disable env name deferred w1))))"

section \<open>Reconciliation with a start or a stop\<close>

definition sidecarsUntouched :: "'g sc_env \<Rightarrow> 'g sc_world \<Rightarrow> (go_error, bool) result" where
  "sidecarsUntouched env w =
     (case sc_stat_document env of Some e \<Rightarrow> Inl e | None \<Rightarrow>
      if sx_document w \<noteq> NoDocument then Inr False
      else case sc_stat_failures env of Some e \<Rightarrow> Inl e | None \<Rightarrow> Inr (sx_failures w = NoFailures))"

definition recordDefinitionFailures ::
  "'g sc_env \<Rightarrow> Document \<Rightarrow> go_error \<Rightarrow> 'g sc_world \<Rightarrow> 'g sc_world \<times> (string \<times> go_error) list \<times> go_error option"
where
  "recordDefinitionFailures env d failure w =
     (let desired = Containers d in
      if desired = [] then (w, [], Some failure)
      else
        (let perSidecar = map (\<lambda>c. (ct_Name c, failure)) desired in
         case recordFailures env perSidecar w of (w', err) \<Rightarrow> (w', perSidecar, err)))"

definition ErrSidecarRestartRequired :: go_error where
  "ErrSidecarRestartRequired = Plain ''enabled sidecars require a deployment restart''"

definition reconcile_sidecars ::
  "'g sc_env \<Rightarrow> bool \<Rightarrow> 'g sc_world \<Rightarrow> 'g sc_world \<times> (string \<times> go_error) list \<times> go_error option"
where
  "reconcile_sidecars env cleanup w =
     (case sidecarsUntouched env w of Inl e \<Rightarrow> (w, [], Some e) | Inr True \<Rightarrow> (w, [], None) | Inr False \<Rightarrow>
     (case (case ReadSidecars env w of Inl e \<Rightarrow> if cleanup then Inr [] else Inl e | Inr d \<Rightarrow> Inr d) of
        Inl e \<Rightarrow> (w, [], Some e)
      | Inr d \<Rightarrow>
          (case applySidecars env (if cleanup then [] else Containers d) (sx_engine w) of
             (g, result, Some err) \<Rightarrow>
               recordDefinitionFailures env d
                 (case err of ApplyError e \<Rightarrow> e | RestartRequired \<Rightarrow> ErrSidecarRestartRequired) (w\<lparr>sx_engine := g\<rparr>)
           | (g, result, None) \<Rightarrow>
               if \<not> ar_Applied result then (w\<lparr>sx_engine := g\<rparr>, [], None)
               else case recordFailures env (ar_Failures result) (w\<lparr>sx_engine := g\<rparr>) of
                 (w', err) \<Rightarrow> (w', ar_Failures result, err))))"

end
