(* ===== verification/Sidecar_Convergence.thy ===== *)
theory Sidecar_Convergence
  imports Sidecar_Management
begin

text \<open>
  What the operations of \<open>Sidecar_Management\<close> achieve: with an engine that keeps its contract, applying a
  set of sidecars leaves exactly these running and nothing else changed; enabling, disabling and
  removing one sidecar changes that entry of the saved document and no other.
\<close>

section \<open>Removal\<close>

lemma others_mine: "n \<noteq> m \<Longrightarrow> filter (mine rt n) (others rt m xs) = filter (mine rt n) xs"
  unfolding others_def by (induction xs) (auto simp: mine_def)

lemma others_mine_eq: "others rt m xs = others rt m ys \<Longrightarrow> n \<noteq> m \<Longrightarrow> filter (mine rt n) xs = filter (mine rt n) ys"
  by (metis others_mine)

lemma others_foreign: "filter (\<lambda>c. \<not> owned rt c) (others rt m xs) = filter (\<lambda>c. \<not> owned rt c) xs"
  unfolding others_def by (induction xs) (auto simp: mine_def)

lemma others_foreign_eq:
  "others rt m xs = others rt m ys \<Longrightarrow> filter (\<lambda>c. \<not> owned rt c) xs = filter (\<lambda>c. \<not> owned rt c) ys"
  by (metis others_foreign)

lemma remove_named_lawful:
  assumes "lawful_client (rt_client rt) cs" and "remove_named rt n l g = (g', errs)"
    and "set l \<subseteq> set (cs g)" and "distinct l"
  shows "\<exists>gone. set gone \<subseteq> {c \<in> set l. SidecarName c = n} \<and> cs g' = filter (\<lambda>x. x \<notin> set gone) (cs g)
           \<and> ((\<forall>e \<in> set errs. e = None) \<longrightarrow> set gone = {c \<in> set l. SidecarName c = n})"
  using assms(2-)
proof (induction l arbitrary: g errs)
  case (Cons c l)
  show ?case
  proof (cases "SidecarName c = n")
    case False
    then show ?thesis using Cons.IH[of g errs] Cons.prems by auto
  next
    case True
    obtain h err where rem: "removeContainer rt c g = (h, err)" by fastforce
    obtain errs' where rest: "remove_named rt n l h = (g', errs')" and errs: "errs = err # errs'"
      using Cons.prems True rem by (auto split: prod.splits)
    have h: "cs h = filter (\<lambda>x. x \<noteq> c) (cs g) \<or> err \<noteq> None \<and> cs h = cs g"
      using removeContainer_lawful[OF assms(1) rem] Cons.prems by simp
    have sub: "set l \<subseteq> set (cs h)" and dist: "distinct l" using h Cons.prems by auto
    obtain gone where gone: "set gone \<subseteq> {c \<in> set l. SidecarName c = n}" "cs g' = filter (\<lambda>x. x \<notin> set gone) (cs h)"
        "(\<forall>e \<in> set errs'. e = None) \<longrightarrow> set gone = {c \<in> set l. SidecarName c = n}"
      using Cons.IH[OF rest sub dist] by blast
    from h show ?thesis
    proof
      assume removed: "cs h = filter (\<lambda>x. x \<noteq> c) (cs g)"
      have "cs g' = filter (\<lambda>x. x \<notin> set (c # gone)) (cs g)" using gone(2) removed by (simp add: conj_commute)
      then show ?thesis using gone errs True by (intro exI[of _ "c # gone"]) auto
    next
      assume "err \<noteq> None \<and> cs h = cs g"
      then show ?thesis using gone errs by (intro exI[of _ gone]) auto
    qed
  qed
qed auto

lemma errors_Join_None: "errors_Join es = None \<longleftrightarrow> (\<forall>e \<in> set es. e = None)"
  by (induction es) (auto simp: errors_Join_def Let_def List.map_filter_def)

lemma sidecars_Remove_lawful:
  assumes law: "lawful_client (rt_client rt) cs" and run: "sidecars_Remove rt n g = (g', err)"
  shows "others rt n (cs g') = others rt n (cs g) \<and> set (cs g') \<subseteq> set (cs g)
         \<and> (err = None \<longrightarrow> filter (mine rt n) (cs g') = [])"
proof -
  obtain h k where lst: "sidecars_List rt g = (h, k)" by fastforce
  note listed = sidecars_List_lawful[OF law lst]
  show ?thesis
  proof (cases k)
    case (Inl e)
    then show ?thesis using run lst listed by (auto simp: sidecars_Remove_def)
  next
    case (Inr l)
    then have l: "l = filter (owned rt) (cs h)" using listed by simp
    obtain errs where rem: "remove_named rt n l h = (g', errs)" and err: "err = errors_Join errs"
      using run lst Inr by (auto simp: sidecars_Remove_def split: prod.splits)
    have "distinct l" using lawful_ids[OF law, of h] l by (simp add: distinct_map)
    then obtain gone where gone: "set gone \<subseteq> {c \<in> set l. SidecarName c = n}" "cs g' = filter (\<lambda>x. x \<notin> set gone) (cs h)"
        "(\<forall>e \<in> set errs. e = None) \<longrightarrow> set gone = {c \<in> set l. SidecarName c = n}"
      using remove_named_lawful[OF law rem] l by auto
    have mine_gone: "c \<in> set gone \<Longrightarrow> mine rt n c" for c using gone(1) l by (auto simp: mine_def)
    have "others rt n (cs g') = others rt n (cs h)"
      unfolding gone(2) others_def by (auto simp: mine_gone intro!: filter_cong)
    moreover have "filter (mine rt n) (cs g') = []" if "err = None"
      using that gone l by (auto simp: err errors_Join_None filter_empty_conv mine_def)
    ultimately show ?thesis using listed gone(2) by auto
  qed
qed

section \<open>The loops\<close>

lemma map_put_not_Nil [simp]: "map_put k v m \<noteq> []"
  by (simp add: map_put_def)

lemma ensured_cong: "filter (mine rt (ct_Name d)) xs = filter (mine rt (ct_Name d)) ys \<Longrightarrow> ensured rt d s xs = ensured rt d s ys"
  by (simp add: ensured_def)

lemma ensure_loop_keeps:
  assumes "lawful_client (rt_client (sc_runtime env)) cs"
    and "ensure_loop env u s ds fs w = (fs', w')"
  shows "filter (\<lambda>c. \<not> owned (sc_runtime env) c) (cs (rw_client w')) = filter (\<lambda>c. \<not> owned (sc_runtime env) c) (cs (rw_client w))
    \<and> (\<forall>n. n \<notin> ct_Name ` set ds \<longrightarrow>
         filter (mine (sc_runtime env) n) (cs (rw_client w')) = filter (mine (sc_runtime env) n) (cs (rw_client w)))
    \<and> (fs' = [] \<longrightarrow> fs = [])"
  using assms(2)
proof (induction ds arbitrary: fs w)
  case (Cons d ds)
  show ?case
  proof (cases u)
    case (Some e)
    then show ?thesis using Cons.IH[of "map_put (ct_Name d) (Wrap (''sidecar '' @ ct_Name d) e) fs" w] Cons.prems by auto
  next
    case None
    obtain w1 err where ens: "Ensure (sc_runtime env) d s w = (w1, err)" by fastforce
    note one = Ensure_lawful[OF assms(1) ens]
    show ?thesis
      using Cons.IH[of "case err of None \<Rightarrow> fs | Some e \<Rightarrow> map_put (ct_Name d) e fs" w1] Cons.prems None ens
        others_foreign_eq[OF conjunct1[OF one]] others_mine_eq[OF conjunct1[OF one]]
      by (auto split: option.splits)
  qed
qed simp

lemma ensure_loop_ensures:
  assumes law: "lawful_client (rt_client (sc_runtime env)) cs"
    and "ensure_loop env u s ds fs w = ([], w')" and "distinct (map ct_Name ds)"
  shows "list_all (\<lambda>d. ensured (sc_runtime env) d s (cs (rw_client w'))) ds"
  using assms(2-)
proof (induction ds arbitrary: fs w)
  case (Cons d ds)
  show ?case
  proof (cases u)
    case (Some e)
    then have "ensure_loop env u s ds (map_put (ct_Name d) (Wrap (''sidecar '' @ ct_Name d) e) fs) w = ([], w')"
      using Cons.prems by simp
    then show ?thesis using ensure_loop_keeps[OF law] by fastforce
  next
    case None
    obtain w1 err where ens: "Ensure (sc_runtime env) d s w = (w1, err)" by fastforce
    note one = Ensure_lawful[OF law ens]
    have step: "ensure_loop env u s ds (case err of None \<Rightarrow> fs | Some e \<Rightarrow> map_put (ct_Name d) e fs) w1 = ([], w')"
      using Cons.prems None ens by (auto split: option.splits)
    have ok: "err = None" using ensure_loop_keeps[OF law step] by (cases err) auto
    then have rest: "ensure_loop env u s ds fs w1 = ([], w')" using step by simp
    have "ensured (sc_runtime env) d s (cs (rw_client w'))"
    proof -
      have "ct_Name d \<notin> ct_Name ` set ds" using Cons.prems(2) by simp
      then have "filter (mine (sc_runtime env) (ct_Name d)) (cs (rw_client w')) = filter (mine (sc_runtime env) (ct_Name d)) (cs (rw_client w1))"
        using ensure_loop_keeps[OF law rest] by blast
      then show ?thesis using one ok ensured_cong by blast
    qed
    then show ?thesis using Cons.IH[OF rest] Cons.prems(2) by simp
  qed
qed simp

lemma remove_loop_keeps:
  assumes law: "lawful_client (rt_client (sc_runtime env)) cs" and "remove_loop env desired ns fs g = (fs', g')"
  shows "filter (\<lambda>c. \<not> owned (sc_runtime env) c) (cs g') = filter (\<lambda>c. \<not> owned (sc_runtime env) c) (cs g)
    \<and> (\<forall>n \<in> desired. filter (mine (sc_runtime env) n) (cs g') = filter (mine (sc_runtime env) n) (cs g))
    \<and> set (cs g') \<subseteq> set (cs g)
    \<and> (fs' = [] \<longrightarrow> fs = [] \<and> (\<forall>n \<in> set ns - desired. filter (mine (sc_runtime env) n) (cs g') = []))"
  using assms(2)
proof (induction ns arbitrary: fs g)
  case (Cons n ns)
  show ?case
  proof (cases "n \<in> desired")
    case True
    then show ?thesis using Cons.IH[of fs g] Cons.prems by auto
  next
    case False
    obtain h err where rem: "sidecars_Remove (sc_runtime env) n g = (h, err)" by fastforce
    note one = sidecars_Remove_lawful[OF law rem]
    let ?fs = "case err of None \<Rightarrow> fs | Some e \<Rightarrow> map_put n e fs"
    have rest: "remove_loop env desired ns ?fs h = (fs', g')"
      using Cons.prems False rem by (auto split: option.splits)
    note ih = Cons.IH[OF rest]
    have "filter (mine (sc_runtime env) n) (cs g') = []" if "fs' = []"
    proof -
      have "err = None" using ih that by (auto split: option.splits)
      then have "filter (mine (sc_runtime env) n) (cs h) = []" using one by simp
      then show ?thesis using ih by (auto simp: filter_empty_conv)
    qed
    moreover have "\<forall>m \<in> desired. filter (mine (sc_runtime env) m) (cs g') = filter (mine (sc_runtime env) m) (cs g)"
      using ih others_mine_eq[OF conjunct1[OF one]] False by (metis (no_types, lifting))
    ultimately show ?thesis
      using ih others_foreign_eq[OF conjunct1[OF one]] one by (auto split: option.splits)
  qed
qed auto

section \<open>Applying a set of sidecars\<close>

lemma EnsureNetwork_lawful: "lawful_client (rt_client rt) cs \<Longrightarrow> cs (fst (EnsureNetwork rt g)) = cs g"
  by (auto simp: EnsureNetwork_def Let_def lawful_client_def split: prod.splits option.splits sum.splits)
     (metis fst_conv)+

lemma AttachDatabase_lawful:
  assumes law: "lawful_client (rt_client rt) cs"
  shows "cs (fst (AttachDatabase rt g)) = cs g"
proof -
  obtain g1 a where att: "cc_Attachment (rt_client rt) (rt_owner rt) g = (g1, a)" by fastforce
  then have g1: "cs g1 = cs g" using law unfolding lawful_client_def by (metis fst_conv)
  obtain g2 e where net: "EnsureNetwork rt g1 = (g2, e)" by fastforce
  then have g2: "cs g2 = cs g" using EnsureNetwork_lawful[OF law, of g1] g1 by simp
  obtain g3 e' where con: "cc_ConnectNetwork (rt_client rt) (NetworkName rt) (rt_owner rt) [DatabaseAlias] g2 = (g3, e')" by fastforce
  then have "cs g3 = cs g" using law g2 unfolding lawful_client_def by (metis fst_conv)
  then show ?thesis
    using g1 g2 att net con by (auto simp: AttachDatabase_def split: sum.splits option.splits)
qed

lemma attach_lawful: "lawful_client (rt_client (sc_runtime env)) cs \<Longrightarrow> attach env ds g = (g', r) \<Longrightarrow> cs g' = cs g"
  using AttachDatabase_lawful[of "sc_runtime env" cs g]
  by (auto simp: attach_def split: if_splits prod.splits sum.splits bool.splits)

lemma owned_loop_set: "set (owned_loop cs ns) = set ns \<union> {SidecarName c |c. c \<in> set cs \<and> SidecarName c \<noteq> []}"
  by (induction cs arbitrary: ns) (auto simp: Let_def)

lemma removeUndesired_lawful:
  assumes law: "lawful_client (rt_client (sc_runtime env)) cs" and run: "removeUndesired env ds fs g = ((fs', g'), err)"
  shows "filter (\<lambda>c. \<not> owned (sc_runtime env) c) (cs g') = filter (\<lambda>c. \<not> owned (sc_runtime env) c) (cs g)
    \<and> (\<forall>d \<in> set ds. filter (mine (sc_runtime env) (ct_Name d)) (cs g') = filter (mine (sc_runtime env) (ct_Name d)) (cs g))
    \<and> (fs' = [] \<longrightarrow> fs = [])
    \<and> (fs' = [] \<and> err = None \<longrightarrow> list_all (\<lambda>c. owned (sc_runtime env) c \<longrightarrow> SidecarName c \<in> ct_Name ` set ds) (cs g'))"
proof -
  obtain h k where lst: "sidecars_List (sc_runtime env) g = (h, k)" by fastforce
  note listed = sidecars_List_lawful[OF law lst]
  show ?thesis
  proof (cases k)
    case (Inl e)
    then show ?thesis using run lst listed by (auto simp: removeUndesired_def)
  next
    case (Inr l)
    then have rem: "remove_loop env (ct_Name ` set ds) (ownedNames l) fs h = (fs', g')"
      using run lst by (auto simp: removeUndesired_def)
    note kept = remove_loop_keeps[OF law rem]
    have "SidecarName c \<in> ct_Name ` set ds" if clean: "fs' = []" and c: "c \<in> set (cs g')" "owned (sc_runtime env) c" for c
    proof (rule ccontr)
      assume undesired: "SidecarName c \<notin> ct_Name ` set ds"
      have "c \<in> set l" using c kept listed Inr by auto
      then have "SidecarName c \<in> set (ownedNames l)" using c by (auto simp: ownedNames_def owned_loop_set owned_def)
      then have "filter (mine (sc_runtime env) (SidecarName c)) (cs g') = []" using kept clean undesired by blast
      then show False using c by (auto simp: filter_empty_conv mine_def)
    qed
    then show ?thesis using kept listed by (auto simp: list_all_iff)
  qed
qed

lemma publish_lawful:
  assumes law: "lawful_client (rt_client (sc_runtime env)) cs" and ports: "\<And>ps g. cs (fst (sc_OpenPorts env ps g)) = cs g"
    and run: "publish env ds g = (g', err)"
  shows "cs g' = cs g"
proof -
  obtain h k where lst: "sidecars_List (sc_runtime env) g = (h, k)" by fastforce
  show ?thesis using sidecars_List_lawful[OF law lst] ports run lst
    by (auto simp: publish_def split: sum.splits) (metis fst_conv)
qed

lemma converge_set_lawful:
  assumes law: "lawful_client (rt_client (sc_runtime env)) cs" and ports: "\<And>ps g. cs (fst (sc_OpenPorts env ps g)) = cs g"
    and dist: "distinct (map ct_Name ds)" and run: "converge_set env ds u s w = (w', res, err)"
  shows "filter (\<lambda>c. \<not> owned (sc_runtime env) c) (cs (rw_client w')) = filter (\<lambda>c. \<not> owned (sc_runtime env) c) (cs (rw_client w))
    \<and> (ar_Failures res = [] \<and> err = None \<longrightarrow>
         list_all (\<lambda>d. ensured (sc_runtime env) d s (cs (rw_client w'))) ds
         \<and> list_all (\<lambda>c. owned (sc_runtime env) c \<longrightarrow> SidecarName c \<in> ct_Name ` set ds) (cs (rw_client w')))"
proof -
  obtain fs w1 where ens: "ensure_loop env u s ds [] w = (fs, w1)" by fastforce
  obtain fs' h e where rem: "removeUndesired env ds fs (rw_client w1) = ((fs', h), e)" by (metis surj_pair)
  obtain h' e' where pub: "publish env ds h = (h', e')" by fastforce
  note kept = ensure_loop_keeps[OF law ens] and removed = removeUndesired_lawful[OF law rem]
  have same: "cs h' = cs h" by (rule publish_lawful[OF law ports pub])
  have client: "cs (rw_client w') = cs h" and res: "ar_Failures res = fs'" "err = None \<longrightarrow> e = None"
    using run ens rem pub same by (auto simp: converge_set_def with_client_def split: option.splits)
  have "list_all (\<lambda>d. ensured (sc_runtime env) d s (cs h)) ds" if "fs' = []"
  proof -
    have "list_all (\<lambda>d. ensured (sc_runtime env) d s (cs (rw_client w1))) ds"
      using ensure_loop_ensures[OF law _ dist] ens removed that by simp
    then show ?thesis using removed ensured_cong unfolding list_all_iff by blast
  qed
  then show ?thesis using kept removed client res by simp
qed

lemma list_all_Matches:
  "list_all (\<lambda>d. ensured rt d s xs) ds \<Longrightarrow> list_all (\<lambda>d. list_ex (\<lambda>c. mine rt (ct_Name d) c \<and> Matches rt c d s = Inr True) xs) ds"
  using ensured_Matches unfolding list_all_iff list_ex_iff by blast


section \<open>The saved document\<close>

text \<open>Parsing works entry by entry: an entry without a container name gets its key, and every entry must
  be valid.\<close>

definition parsed_entry :: "sidecar_libs \<Rightarrow> string \<Rightarrow> Definition \<Rightarrow> Definition option" where
  "parsed_entry lib n x = (case named x n of Inl _ \<Rightarrow> None | Inr y \<Rightarrow> if Definition_validate lib y n = None then Some y else None)"

definition set_entry :: "string \<Rightarrow> Definition \<Rightarrow> Document \<Rightarrow> Document" where
  "set_entry n y doc = map (\<lambda>(k, v). if k = n then (k, y) else (k, v)) doc"

lemma map_of_set_entry: "map_of (set_entry n y doc) m = (if m = n then map_option (\<lambda>_. y) (map_of doc n) else map_of doc m)"
  by (induction doc) (auto simp: set_entry_def)

lemma Parse_loop_step:
  assumes "map_of doc n = Some x"
  shows "parsed_entry lib n x = Some y \<Longrightarrow> Parse_loop lib doc (n # ns) = Parse_loop lib (set_entry n y doc) ns"
    and "parsed_entry lib n x = None \<Longrightarrow> \<exists>e. Parse_loop lib doc (n # ns) = Inl e"
  using assms by (auto simp: parsed_entry_def set_entry_def split: sum.splits option.splits if_splits)

lemma Parse_loop_entry:
  "distinct ns \<Longrightarrow> Parse_loop lib doc ns = Inr doc' \<Longrightarrow>
    map_of doc' m = (if m \<in> set ns then Option.bind (map_of doc m) (parsed_entry lib m) else map_of doc m)
    \<and> (m \<in> set ns \<longrightarrow> map_of doc m \<noteq> None \<longrightarrow> map_of doc' m \<noteq> None)"
proof (induction ns arbitrary: doc)
  case (Cons n ns)
  show ?case
  proof (cases "map_of doc n")
    case None
    then show ?thesis using Cons.IH[of doc] Cons.prems by (auto split: if_splits dest: sym)
  next
    case (Some x)
    then obtain y where y: "parsed_entry lib n x = Some y"
      using Parse_loop_step(2)[OF Some] Cons.prems(2) by (metis Inl_Inr_False not_None_eq)
    then have "Parse_loop lib (set_entry n y doc) ns = Inr doc'"
      using Parse_loop_step(1)[OF Some y] Cons.prems(2) by simp
    from Cons.IH[OF _ this] Cons.prems(1) show ?thesis
      using Some y by (auto simp: map_of_set_entry split: if_splits dest: sym)
  qed
qed simp

lemma Parse_loop_succeeds:
  "distinct ns \<Longrightarrow> (\<forall>n x. map_of doc n = Some x \<longrightarrow> parsed_entry lib n x \<noteq> None) \<Longrightarrow> \<exists>doc'. Parse_loop lib doc ns = Inr doc'"
proof (induction ns arbitrary: doc)
  case (Cons n ns)
  show ?case
  proof (cases "map_of doc n")
    case None
    then show ?thesis using Cons by auto
  next
    case (Some x)
    then obtain y where y: "parsed_entry lib n x = Some y" using Cons.prems by blast
    have again: "parsed_entry lib n y = Some y"
      using y by (auto simp: parsed_entry_def named_def Let_def split: sum.splits if_splits)
    have "\<exists>doc'. Parse_loop lib (set_entry n y doc) ns = Inr doc'"
      using Cons.prems again by (intro Cons.IH) (auto simp: map_of_set_entry split: if_splits)
    then show ?thesis using Parse_loop_step(1)[OF Some y] by simp
  qed
qed simp

lemma map_of_in_keys: "m \<notin> fst ` set doc \<Longrightarrow> map_of doc m = None"
  by (simp add: map_of_eq_None_iff)

lemma Parse_entry: "Parse lib doc = Inr doc' \<Longrightarrow> map_of doc' m = Option.bind (map_of doc m) (parsed_entry lib m)"
  using Parse_loop_entry[of "sorted_keys doc" lib doc doc' m] by (auto simp: Parse_def map_of_in_keys split: if_splits)

lemma Parse_valid: "Parse lib doc = Inr doc' \<Longrightarrow> map_of doc m = Some x \<Longrightarrow> \<exists>y. parsed_entry lib m x = Some y \<and> map_of doc' m = Some y"
  using Parse_loop_entry[of "sorted_keys doc" lib doc doc' m]
  by (auto simp: Parse_def image_iff dest: map_of_SomeD split: if_splits) (metis (no_types) fst_conv map_of_SomeD)+

lemma Parse_succeeds:
  "(\<And>n x. map_of doc n = Some x \<Longrightarrow> parsed_entry lib n x \<noteq> None) \<Longrightarrow> \<exists>doc'. Parse lib doc = Inr doc'"
  unfolding Parse_def by (rule Parse_loop_succeeds) simp_all

text \<open>The entries of a parsed document parse to themselves.\<close>

lemma parsed_entry_idem: "parsed_entry lib n x = Some y \<Longrightarrow> parsed_entry lib n y = Some y"
  by (auto simp: parsed_entry_def named_def Let_def split: sum.splits if_splits)

lemma Parse_again:
  assumes "Parse lib doc = Inr doc'" and "map_of doc' m = Some y"
  shows "parsed_entry lib m y = Some y"
  using assms Parse_entry[OF assms(1), of m] parsed_entry_idem by (auto simp: bind_eq_Some_conv)

lemma read_entry:
  assumes "ReadSidecars env w = Inr d" and "map_of d m = Some y"
  shows "parsed_entry (sc_libs env) m y = Some y"
  using assms by (auto simp: ReadSidecars_def split: document_file.splits sum.splits intro: Parse_again)

lemma ReadSidecars_cong: "sx_document w' = sx_document w \<Longrightarrow> ReadSidecars env w' = ReadSidecars env w"
  by (simp add: ReadSidecars_def)

text \<open>A document that differs from the saved one in one entry can be read again whatever the write does.\<close>

lemma write_one_entry:
  assumes read: "ReadSidecars env w = Inr d" and same: "\<And>m. m \<noteq> name \<Longrightarrow> map_of new m = map_of d m"
    and wr: "WriteSidecars env new w = (w', err)"
  shows "\<exists>d'. ReadSidecars env w' = Inr d' \<and> (\<forall>m. m \<noteq> name \<longrightarrow> map_of d' m = map_of d m)
    \<and> (err = None \<longrightarrow> (case map_of new name of None \<Rightarrow> map_of d' name = None
         | Some x \<Rightarrow> map_of d' name = parsed_entry (sc_libs env) name x \<and> parsed_entry (sc_libs env) name x \<noteq> None))"
proof (cases "sx_document w' = sx_document w")
  case True
  then have "err \<noteq> None \<or> sx_document w = SavedDocument new"
    using wr by (auto simp: WriteSidecars_def replaces_def atomic_error_def Let_def split: sum.splits atomic_outcome.splits if_splits)
  then show ?thesis
  proof
    assume "err \<noteq> None" then show ?thesis using read ReadSidecars_cong[OF True] by (intro exI[of _ d]) auto
  next
    assume "sx_document w = SavedDocument new"
    then have "Parse (sc_libs env) new = Inr d" using read by (auto simp: ReadSidecars_def split: sum.splits)
    then show ?thesis using read ReadSidecars_cong[OF True] Parse_entry[of _ new d name] Parse_valid[of _ new d name]
      by (intro exI[of _ d]) (auto split: option.splits)
  qed
next
  case False
  then obtain p where p: "Parse (sc_libs env) new = Inr p" and doc: "sx_document w' = SavedDocument new"
    using wr by (auto simp: WriteSidecars_def Let_def split: sum.splits if_splits)
  then have "ReadSidecars env w' = Inr p" by (simp add: ReadSidecars_def)
  moreover have "map_of p m = map_of d m" if "m \<noteq> name" for m
    using Parse_entry[OF p, of m] same[OF that] read_entry[OF read, of m] by (cases "map_of d m") auto
  ultimately show ?thesis using Parse_entry[OF p, of name] Parse_valid[OF p, of name]
    by (intro exI[of _ p]) (auto split: option.splits)
qed

lemma WriteSidecarState_frame: "WriteSidecarState env m w = (w', e) \<Longrightarrow> sx_document w' = sx_document w"
  by (auto simp: WriteSidecarState_def Let_def split: failures_file.splits)

lemma describe_frame: "describe env name d r w = (w', r', e) \<Longrightarrow> sx_document w' = sx_document w"
  by (auto simp: describe_def Let_def split: sum.splits bool.splits prod.splits option.splits)

lemma status_frame: "sidecar_status env name w = (w', r, e) \<Longrightarrow> sx_document w' = sx_document w"
  by (auto simp: sidecar_status_def Let_def split: sum.splits prod.splits if_splits
      dest!: describe_frame WriteSidecarState_frame)

lemma apply_frame: "apply_sidecars env ds w = (w', e) \<Longrightarrow> sx_document w' = sx_document w"
  by (auto simp: apply_sidecars_def recordFailures_def Let_def split: prod.splits if_splits dest!: WriteSidecarState_frame)

lemma applyAndReport_frame: "applyAndReport env name w = (w', r, e) \<Longrightarrow> sx_document w' = sx_document w"
  by (auto simp: applyAndReport_def split: sum.splits prod.splits if_splits dest!: status_frame apply_frame)

lemma finish_disable_frame: "finish_disable env name df w = (w', r, e) \<Longrightarrow> sx_document w' = sx_document w"
  by (auto simp: finish_disable_def Let_def split: prod.splits sum.splits if_splits
      dest!: applyAndReport_frame WriteSidecarState_frame)

section \<open>Changing one sidecar\<close>

datatype sidecar_command = EnableSidecar | DisableSidecar | RemoveSidecar

definition change_sidecar ::
  "sidecar_command \<Rightarrow> 'g sc_env \<Rightarrow> string \<Rightarrow> 'g sc_world \<Rightarrow> 'g sc_world \<times> SidecarResult \<times> go_error option"
where
  "change_sidecar c env name w =
     (case c of EnableSidecar \<Rightarrow> sidecar_enable env name w
      | DisableSidecar \<Rightarrow> sidecar_disable env name False w
      | RemoveSidecar \<Rightarrow> sidecar_disable env name True w)"

text \<open>What the entry must be after a success.\<close>

definition changed_as :: "sidecar_command \<Rightarrow> Document \<Rightarrow> string \<Rightarrow> bool" where
  "changed_as c d name \<longleftrightarrow>
     (case c of EnableSidecar \<Rightarrow> enabledSidecar d name
      | DisableSidecar \<Rightarrow> \<not> enabledSidecar d name
      | RemoveSidecar \<Rightarrow> map_of d name = None)"

definition loaded_catalog :: "sidecar_libs \<Rightarrow> (string \<times> Entry) list \<Rightarrow> bool" where
  "loaded_catalog lib c \<longleftrightarrow> (\<exists>entries. NewCatalog lib entries = Inr c)"

lemma named_Enabled: "named x n = Inr y \<Longrightarrow> df_Enabled y = df_Enabled x"
  unfolding named_def Let_def by (auto split: if_splits dest: arg_cong[where f = df_Enabled])

lemma parsed_entry_Enabled: "parsed_entry lib n x = Some y \<Longrightarrow> df_Enabled y = df_Enabled x"
  by (auto simp: parsed_entry_def named_Enabled split: sum.splits if_splits)

lemma parsed_set_enabled: "parsed_entry lib n (x\<lparr>df_Enabled := Some b\<rparr>) = Some y \<Longrightarrow> IsEnabled y \<longleftrightarrow> b"
  by (auto simp: IsEnabled_def dest!: parsed_entry_Enabled)

lemma NewCatalog_loop_Enabled: "NewCatalog_loop lib entries ns = Inr c \<Longrightarrow> (n, e) \<in> set c \<Longrightarrow> df_Enabled e = None"
proof (induction ns arbitrary: c)
  case (Cons m ns)
  then show ?case
    by (auto simp: bind_result_Inr validateMetadata_def first_error_None fail_if_def split: option.splits sum.splits if_splits)
qed simp

lemma fold_catalogs_set:
  "set (fold (\<lambda>c m. c @ filter (\<lambda>(k, _). k \<notin> fst ` set c) m) cs m) \<subseteq> \<Union> (set ` set cs) \<union> set m"
proof (induction cs arbitrary: m)
  case (Cons c cs)
  show ?case using Cons.IH[of "c @ filter (\<lambda>(k, _). k \<notin> fst ` set c) m"] by auto
qed simp

lemma catalog_entry_not_enabled:
  assumes "list_all (loaded_catalog lib) cats" and "Catalogs_Resolve cats name arch = Inr e"
  shows "df_Enabled e = None"
proof -
  have none: "df_Enabled x = None" if "c \<in> set cats" "(n, x) \<in> set c" for c n x
    using assms(1) that by (auto simp: list_all_iff loaded_catalog_def NewCatalog_def dest: NewCatalog_loop_Enabled)
  have resolved: "\<exists>n. (n, x) \<in> set c" if "resolveEntry c name arch = Inr x" for c x
    using that by (auto simp: resolveEntry_def Let_def split: option.splits if_splits dest: map_of_SomeD)
  have merged: "set (Catalogs_Entries cats) \<subseteq> \<Union> (set ` set cats)"
    unfolding Catalogs_Entries_def using fold_catalogs_set[of "rev cats" "[]"] by simp
  show ?thesis
  proof (cases "List.map_filter (\<lambda>c. case resolveEntry c name arch of Inr e \<Rightarrow> Some e | Inl _ \<Rightarrow> None) cats")
    case Nil
    then have "resolveEntry (Catalogs_Entries cats) name arch = Inr e" using assms(2) by (simp add: Catalogs_Resolve_def)
    then show ?thesis using resolved merged none by blast
  next
    case (Cons x xs)
    then have "e = x" using assms(2) by (simp add: Catalogs_Resolve_def)
    then have "e \<in> set (List.map_filter (\<lambda>c. case resolveEntry c name arch of Inr e \<Rightarrow> Some e | Inl _ \<Rightarrow> None) cats)"
      using Cons by simp
    then obtain c where "c \<in> set cats" "resolveEntry c name arch = Inr e"
      by (auto simp: List.map_filter_def split: sum.splits)
    then show ?thesis using resolved none by blast
  qed
qed

lemma enable_saved_local:
  assumes read: "ReadSidecars env w = Inr d" and run: "enable_saved env name d x w = (w', r, err)"
    and saved: "df_Enabled x = Some True \<Longrightarrow> map_of d name = Some x"
  shows "\<exists>d'. ReadSidecars env w' = Inr d' \<and> (\<forall>m. m \<noteq> name \<longrightarrow> map_of d' m = map_of d m)
           \<and> (err = None \<longrightarrow> enabledSidecar d' name)"
proof (cases "df_Enabled x = Some True")
  case True
  then have "sx_document w' = sx_document w" using run applyAndReport_frame by (simp add: enable_saved_def)
  from ReadSidecars_cong[OF this] show ?thesis using read saved[OF True] True
    by (intro exI[of _ d]) (auto simp: enabledSidecar_def IsEnabled_def)
next
  case False
  obtain w1 e where wr: "WriteSidecars env (map_put name (x\<lparr>df_Enabled := Some True\<rparr>) d) w = (w1, e)" by fastforce
  then have doc: "sx_document w' = sx_document w1" and err: "err = None \<longrightarrow> e = None"
    using run False by (auto simp: enable_saved_def split: option.splits dest: applyAndReport_frame)
  obtain d' where d': "ReadSidecars env w1 = Inr d'" "\<forall>m. m \<noteq> name \<longrightarrow> map_of d' m = map_of d m"
      "e = None \<longrightarrow> map_of d' name = parsed_entry (sc_libs env) name (x\<lparr>df_Enabled := Some True\<rparr>)
         \<and> parsed_entry (sc_libs env) name (x\<lparr>df_Enabled := Some True\<rparr>) \<noteq> None"
    using write_one_entry[OF read _ wr, of name] by auto
  then show ?thesis using doc err ReadSidecars_cong[OF doc]
    by (intro exI[of _ d']) (auto simp: enabledSidecar_def parsed_set_enabled)
qed

lemma sidecar_disable_local:
  assumes read: "ReadSidecars env w = Inr d" and run: "sidecar_disable env name rm w = (w', r, err)"
  shows "\<exists>d'. ReadSidecars env w' = Inr d' \<and> (\<forall>m. m \<noteq> name \<longrightarrow> map_of d' m = map_of d m)
           \<and> (err = None \<longrightarrow> (if rm then map_of d' name = None else \<not> enabledSidecar d' name))"
proof -
  obtain w1 e where wr: "WriteSidecars env (disabled_document name rm d) w = (w1, e)" by fastforce
  have "w' = w \<and> (err = None \<longrightarrow> map_of d name = None \<or> \<not> rm \<and> \<not> enabledSidecar d name)
      \<or> sx_document w' = sx_document w1 \<and> (err = None \<longrightarrow> e = None)"
    using run read wr unfolding sidecar_disable_def
    by (auto split: sum.splits if_splits bool.splits option.splits dest: finish_disable_frame)
  then show ?thesis
  proof (elim disjE conjE)
    assume "w' = w" "err = None \<longrightarrow> map_of d name = None \<or> \<not> rm \<and> \<not> enabledSidecar d name"
    then show ?thesis using read by (intro exI[of _ d]) (auto simp: enabledSidecar_def)
  next
    assume doc: "sx_document w' = sx_document w1" and err: "err = None \<longrightarrow> e = None"
    have keep: "m \<noteq> name \<Longrightarrow> map_of (disabled_document name rm d) m = map_of d m" for m
      by (auto simp: disabled_document_def split: option.splits)
    obtain d' where d': "ReadSidecars env w1 = Inr d'" "\<forall>m. m \<noteq> name \<longrightarrow> map_of d' m = map_of d m"
        "e = None \<longrightarrow> (case map_of (disabled_document name rm d) name of None \<Rightarrow> map_of d' name = None
         | Some x \<Rightarrow> map_of d' name = parsed_entry (sc_libs env) name x \<and> parsed_entry (sc_libs env) name x \<noteq> None)"
      using write_one_entry[OF read keep wr] by blast
    then show ?thesis using ReadSidecars_cong[OF doc] err
      by (intro exI[of _ d'])
         (auto simp: enabledSidecar_def disabled_document_def split: option.splits if_splits dest: parsed_set_enabled)
  qed
qed

lemma sidecar_enable_local:
  assumes read: "ReadSidecars env w = Inr d" and cats: "list_all (loaded_catalog (sc_libs env)) (sidecarCatalog env)"
    and run: "sidecar_enable env name w = (w', r, err)"
  shows "\<exists>d'. ReadSidecars env w' = Inr d' \<and> (\<forall>m. m \<noteq> name \<longrightarrow> map_of d' m = map_of d m)
           \<and> (err = None \<longrightarrow> enabledSidecar d' name)"
proof (cases "mutationDeferred w")
  case (Inl e)
  then show ?thesis using read run by (intro exI[of _ d]) (auto simp: sidecar_enable_def)
next
  case (Inr deferred)
  obtain g sup where g: "(if deferred then (sx_client w, None) else serviceNetworkSupported env (sx_client w)) = (g, sup)"
    by fastforce
  let ?w = "w\<lparr>sx_engine := with_client g (sx_engine w)\<rparr>"
  have read1: "ReadSidecars env ?w = Inr d" using read ReadSidecars_cong[of ?w w] by simp
  show ?thesis
  proof (cases "sup = None \<and> (\<exists>x. enable_definition env name d = Inr x)")
    case True
    then obtain x where x: "enable_definition env name d = Inr x" by blast
    then have "enable_saved env name d x ?w = (w', r, err)"
      using run Inr g read1 True by (simp add: sidecar_enable_def Let_def)
    moreover have "map_of d name = Some x" if "df_Enabled x = Some True"
      using that x catalog_entry_not_enabled[OF cats]
      by (auto simp: enable_definition_def Definition.defs split: option.splits sum.splits)
    ultimately show ?thesis using enable_saved_local[OF read1] by blast
  next
    case False
    then have "w' = ?w \<and> err \<noteq> None"
      using run Inr g read1 by (auto simp: sidecar_enable_def Let_def split: option.splits sum.splits)
    then show ?thesis using read1 by (intro exI[of _ d]) auto
  qed
qed

text \<open>C28: a sidecar command changes one entry. Whatever becomes of it, the saved document can be read
  afterwards and every other sidecar's entry is what it was; and a command that succeeds has enabled,
  disabled or removed the named one.\<close>

theorem sidecar_change_is_local:
  assumes "ReadSidecars env w = Inr d" and "list_all (loaded_catalog (sc_libs env)) (sidecarCatalog env)"
    and "change_sidecar c env name w = (w', r, err)"
  shows "\<exists>d'. ReadSidecars env w' = Inr d' \<and> (\<forall>m. m \<noteq> name \<longrightarrow> map_of d' m = map_of d m)
           \<and> (err = None \<longrightarrow> changed_as c d' name)"
proof (cases c)
  case EnableSidecar
  then show ?thesis
    using sidecar_enable_local[OF assms(1,2)] assms(3) by (simp add: change_sidecar_def changed_as_def)
next
  case DisableSidecar
  then show ?thesis
    using sidecar_disable_local[OF assms(1), of name False w' r err] assms(3) by (simp add: change_sidecar_def changed_as_def)
next
  case RemoveSidecar
  then show ?thesis
    using sidecar_disable_local[OF assms(1), of name True w' r err] assms(3) by (simp add: change_sidecar_def changed_as_def)
qed

section \<open>A deployment to evaluate\<close>

definition demo_entries :: "(string \<times> Entry) list" where
  "demo_entries = [(''mcp'', \<lparr>df_Enabled = None, df_Container = sample_sidecar, df_Endpoints = [],
     en_Description = ''MCP server'', en_Architectures = [''amd64'']\<rparr>)]"

definition demo_catalog :: "(string \<times> Entry) list" where
  "demo_catalog = (case NewCatalog sample_libs demo_entries of Inr c \<Rightarrow> c | Inl _ \<Rightarrow> [])"

definition demo_env :: "(string \<times> string) list option list sc_env" where
  "demo_env = \<lparr>sc_runtime = demo_runtime, sc_goarch = ''amd64'', sc_embedded = demo_catalog, sc_templates = None,
     sc_SidecarHostRunning = (\<lambda>g. Inr True), sc_Sidecars = (\<lambda>g. None), sc_OpenPorts = (\<lambda>ps g. (g, None)),
     sc_OpenedPorts = (\<lambda>g. Inr []), sc_Status = (\<lambda>g. Inr True), sc_now = (\<lambda>g. 1), sc_http = (\<lambda>u g. Inr 200),
     sc_dial = (\<lambda>a g. None), sc_URL = (\<lambda>s h p. s @ ''://'' @ h @ p), sc_node_details = FileAbsent,
     sc_secrets_file = FileContent ''pw'', sc_write = (\<lambda>_. Replaced), sc_stat_document = None, sc_stat_failures = None\<rparr>"

definition demo_sc_world :: "(string \<times> string) list option list sc_world" where
  "demo_sc_world = \<lparr>sx_state = StoredState (zero_state\<lparr>CurrentWorkflowState := no_workflow\<lparr>ws_Running := Some ()\<rparr>\<rparr>),
     sx_document = NoDocument, sx_failures = NoFailures, sx_engine = demo_world, sx_writes = 0\<rparr>"


theorem sidecar_change_is_local_witness:
  "\<exists>w' r d'. change_sidecar EnableSidecar demo_env ''mcp'' demo_sc_world = (w', r, None)
     \<and> ReadSidecars demo_env w' = Inr d' \<and> enabledSidecar d' ''mcp''"
proof -
  have cat: "NewCatalog sample_libs demo_entries = Inr demo_catalog" by code_simp
  have cats: "list_all (loaded_catalog (sc_libs demo_env)) (sidecarCatalog demo_env)"
    using cat by (auto simp: loaded_catalog_def demo_env_def demo_runtime_def sidecarCatalog_def)
  have read: "ReadSidecars demo_env demo_sc_world = Inr []" by (simp add: ReadSidecars_def demo_sc_world_def)
  have "snd (snd (change_sidecar EnableSidecar demo_env ''mcp'' demo_sc_world)) = None" by code_simp
  then obtain w' r where run: "change_sidecar EnableSidecar demo_env ''mcp'' demo_sc_world = (w', r, None)"
    by (metis prod.collapse)
  from sidecar_change_is_local[OF read cats run] run show ?thesis by (auto simp: changed_as_def)
qed

end
