(* ===== verification/Sidecar_Commands.thy ===== *)
theory Sidecar_Commands
  imports Sidecar_Convergence
begin

text \<open>
  The commands on sidecars, from \<^verbatim>\<open>src/internal/deploy/sidecars.go\<close> and \<^verbatim>\<open>sidecar_health.go\<close>: selecting the
  deployment's sidecars, listing what is available, the status of one or of all sidecars, and enabling
  with a wait for the sidecar's health. Every command but the listing holds the deployment lock
  exclusively while its callback runs; the callbacks are the definitions here.
\<close>

section \<open>The deployment's sidecars\<close>

datatype manifest_file = ManifestMissing go_error | ManifestFails go_error | ManifestRead "InfrastructureManifest option"

record 'g cmd_env =
  cm_sidecars :: "'g sc_env"
  cm_manifest :: manifest_file
  cm_runtime_error :: "go_error option"
  cm_pause :: "'g \<Rightarrow> 'g \<times> go_error option"

definition ErrSidecarsUnsupported :: go_error where
  "ErrSidecarsUnsupported = Plain ''sidecars are not supported for this deployment type''"

definition newDeploymentSidecars :: "'g cmd_env \<Rightarrow> (go_error, 'g sc_env) result" where
  "newDeploymentSidecars c =
     (case cm_manifest c of
        ManifestMissing e \<Rightarrow> Inl e
      | ManifestFails e \<Rightarrow> Inl e
      | ManifestRead m \<Rightarrow>
          bind_result (resolveBackendKind m) (\<lambda>kind.
            if kind \<noteq> ''local'' then Inl ErrSidecarsUnsupported
            else case cm_runtime_error c of Some e \<Rightarrow> Inl e | None \<Rightarrow> Inr (cm_sidecars c)))"

definition withSidecar ::
  "'g cmd_env \<Rightarrow> ('g sc_env \<Rightarrow> 'g sc_world \<Rightarrow> 'g sc_world \<times> SidecarResult \<times> go_error option)
    \<Rightarrow> 'g sc_world \<Rightarrow> 'g sc_world \<times> SidecarResult \<times> go_error option"
where
  "withSidecar c action w =
     (case newDeploymentSidecars c of Inl e \<Rightarrow> (w, no_result, Some e) | Inr env \<Rightarrow> action env w)"

section \<open>Availability\<close>

record SidecarAvailability =
  av_Name :: string
  av_Description :: string
  av_Architectures :: "string list"
  av_Supported :: bool
  av_Enabled :: bool
  av_Unsupported :: string

definition unsupportedAvailability :: "'g sc_env \<Rightarrow> string \<Rightarrow> SidecarAvailability list" where
  "unsupportedAvailability env kind =
     (let entries = Catalogs_Entries (sidecarCatalog env) in
      List.map_filter (\<lambda>n. map_option (\<lambda>e. \<lparr>av_Name = n, av_Description = en_Description e,
          av_Architectures = en_Architectures e, av_Supported = False, av_Enabled = False,
          av_Unsupported = ''not supported for '' @ kind @ '' deployments''\<rparr>) (map_of entries n)) (sorted_keys entries))"

definition catalogAvailability :: "'g sc_env \<Rightarrow> Document \<Rightarrow> SidecarAvailability list" where
  "catalogAvailability env d =
     (let entries = Catalogs_Entries [sc_embedded env] in
      List.map_filter (\<lambda>n. map_option (\<lambda>e. \<lparr>av_Name = n, av_Description = en_Description e,
          av_Architectures = en_Architectures e, av_Supported = (sc_goarch env \<in> set (en_Architectures e)),
          av_Enabled = enabledSidecar d n, av_Unsupported = []\<rparr>) (map_of entries n)) (sorted_keys entries))"

definition ListSidecars :: "'g cmd_env \<Rightarrow> 'g sc_world \<Rightarrow> (go_error, SidecarAvailability list) result" where
  "ListSidecars c w =
     (let env = cm_sidecars c in
      case cm_manifest c of
        ManifestMissing _ \<Rightarrow> Inr (catalogAvailability env [])
      | ManifestFails e \<Rightarrow> Inl e
      | ManifestRead m \<Rightarrow>
          bind_result (resolveBackendKind m) (\<lambda>kind.
            if kind \<noteq> ''local'' then Inr (unsupportedAvailability (env\<lparr>sc_templates := None\<rparr>) kind)
            else bind_result (ReadSidecars env w) (\<lambda>d. Inr (catalogAvailability env d))))"

definition catalogSupportsArchitecture :: "'g sc_env \<Rightarrow> string \<Rightarrow> string \<Rightarrow> bool" where
  "catalogSupportsArchitecture env name architecture =
     (case map_of (sc_embedded env) name of None \<Rightarrow> False | Some e \<Rightarrow> architecture \<in> set (en_Architectures e))"

section \<open>Status\<close>

definition knownName :: "'g sc_env \<Rightarrow> string \<Rightarrow> 'g sc_world \<Rightarrow> go_error option" where
  "knownName env name w =
     (case ReadSidecars env w of Inl e \<Rightarrow> Some e | Inr d \<Rightarrow>
      if containsSidecar d name then None
      else case ReadSidecarState w of Inl e \<Rightarrow> Some e | Inr failures \<Rightarrow>
        if map_of failures name \<noteq> None then None
        else
          (let entries = Catalogs_Entries (sidecarCatalog env) in
           if map_of entries name \<noteq> None then None
           else Some (Plain (''sidecar '' @ name @ '' is not enabled and not in the catalog; supported choices: ''
                  @ Join (sorted_keys entries) '', ''))))"

definition GetSidecarStatus :: "'g cmd_env \<Rightarrow> string \<Rightarrow> 'g sc_world \<Rightarrow> 'g sc_world \<times> SidecarResult \<times> go_error option" where
  "GetSidecarStatus c name w =
     withSidecar (c\<lparr>cm_sidecars := (cm_sidecars c)\<lparr>sc_templates := None\<rparr>\<rparr>)
       (\<lambda>env w. case knownName env name w of
          Some e \<Rightarrow> (w, no_result, Some e)
        | None \<Rightarrow> sidecar_status env name w) w"

fun status_all ::
  "'g sc_env \<Rightarrow> string list \<Rightarrow> 'g sc_world \<Rightarrow> 'g sc_world \<times> SidecarResult list \<times> go_error option"
where
  "status_all env [] w = (w, [], None)"
| "status_all env (n # ns) w =
     (case sidecar_status env n w of
        (w1, r, Some e) \<Rightarrow> (w1, [], Some e)
      | (w1, r, None) \<Rightarrow> (case status_all env ns w1 of (w2, rs, err) \<Rightarrow> (w2, r # rs, err)))"

definition GetAllSidecarStatus :: "'g cmd_env \<Rightarrow> 'g sc_world \<Rightarrow> 'g sc_world \<times> SidecarResult list \<times> go_error option" where
  "GetAllSidecarStatus c w =
     (case newDeploymentSidecars c of Inl e \<Rightarrow> (w, [], Some e) | Inr env \<Rightarrow>
     (case ReadSidecars env w of Inl e \<Rightarrow> (w, [], Some e) | Inr d \<Rightarrow> status_all env (sorted_keys d) w))"

section \<open>Waiting for health\<close>

text \<open>The poll of \<open>awaitHealth\<close>; not returning is \<^const>\<open>None\<close>.\<close>

partial_function (option) await_loop ::
  "('g \<Rightarrow> 'g \<times> go_error option) \<Rightarrow> 'g sc_env \<Rightarrow> string \<Rightarrow> int \<Rightarrow> SidecarResult \<Rightarrow> 'g sc_world
    \<Rightarrow> ('g sc_world \<times> SidecarResult \<times> go_error option) option"
where
  "await_loop pause env name deadline result w =
     (if sr_Health result = sidecarHealthStarting \<and> sc_now env (sx_client w) < deadline then
        (case pause (sx_client w) of (g, err) \<Rightarrow>
          (let w1 = w\<lparr>sx_engine := with_client g (sx_engine w)\<rparr> in
           case err of
             Some e \<Rightarrow> Some (w1, result, Some e)
           | None \<Rightarrow>
               (case sidecar_status env name w1 of (w2, result', err') \<Rightarrow>
                  (case err' of Some e \<Rightarrow> Some (w2, result', Some e)
                   | None \<Rightarrow> await_loop pause env name deadline result' w2))))
      else Some (w, result, None))"

text \<open>The end of the probe's window from now on, when the saved sidecar has a probe.\<close>

definition wait_deadline :: "'g sc_env \<Rightarrow> Document \<Rightarrow> string \<Rightarrow> 'g sc_world \<Rightarrow> int option" where
  "wait_deadline env d name w =
     Option.bind (map_of d name) (\<lambda>x.
       map_option (\<lambda>probe. sc_now env (sx_client w) + seconds (Window probe))
         (ct_ReadinessProbe (Defaults (sc_libs env) (df_Container x))))"

definition awaitHealth ::
  "'g cmd_env \<Rightarrow> 'g sc_env \<Rightarrow> string \<Rightarrow> SidecarResult \<Rightarrow> 'g sc_world \<Rightarrow> ('g sc_world \<times> SidecarResult \<times> go_error option) option"
where
  "awaitHealth c env name result w =
     (if sr_Health result \<noteq> sidecarHealthStarting then Some (w, result, None)
      else case ReadSidecars env w of
        Inl e \<Rightarrow> Some (w, result, Some e)
      | Inr d \<Rightarrow>
          (case wait_deadline env d name w of
             None \<Rightarrow> Some (w, result, None)
           | Some deadline \<Rightarrow> await_loop (cm_pause c) env name deadline result w))"

definition enableSidecarTemplate ::
  "'g cmd_env \<Rightarrow> string \<Rightarrow> bool \<Rightarrow> 'g sc_world \<Rightarrow> ('g sc_world \<times> SidecarResult \<times> go_error option) option"
where
  "enableSidecarTemplate c name wait w =
     (case newDeploymentSidecars c of Inl e \<Rightarrow> Some (w, no_result, Some e) | Inr env \<Rightarrow>
     (case sidecar_enable env name w of (w1, result, err) \<Rightarrow>
        if err \<noteq> None \<or> \<not> wait then Some (w1, result, err) else awaitHealth c env name result w1))"

text \<open>The clock: a pause that is not cancelled takes at least the poll interval of one second, and looking
  at the sidecar does not turn the clock back.\<close>

definition poll_interval :: int where "poll_interval = 1000000000"

definition clock_advances :: "'g cmd_env \<Rightarrow> 'g sc_env \<Rightarrow> bool" where
  "clock_advances c env \<longleftrightarrow>
     (\<forall>g g'. cm_pause c g = (g', None) \<longrightarrow> sc_now env g + poll_interval \<le> sc_now env g')
   \<and> (\<forall>name w w' r e. sidecar_status env name w = (w', r, e) \<longrightarrow> sc_now env (sx_client w) \<le> sc_now env (sx_client w'))"

lemma await_loop_returns:
  assumes clock: "clock_advances c env"
  shows "\<exists>w' r e. await_loop (cm_pause c) env name deadline result w = Some (w', r, e)
           \<and> (e = None \<longrightarrow> sr_Health r \<noteq> sidecarHealthStarting \<or> deadline \<le> sc_now env (sx_client w'))"
proof (induction "nat (deadline - sc_now env (sx_client w))" arbitrary: result w rule: less_induct)
  case less
  show ?case
  proof (cases "sr_Health result = sidecarHealthStarting \<and> sc_now env (sx_client w) < deadline")
    case False
    then show ?thesis by (subst await_loop.simps) auto
  next
    case True
    obtain g err where p: "cm_pause c (sx_client w) = (g, err)" by fastforce
    let ?w = "w\<lparr>sx_engine := with_client g (sx_engine w)\<rparr>"
    obtain w2 r2 e2 where s: "sidecar_status env name ?w = (w2, r2, e2)" by (metis prod_cases3)
    show ?thesis
    proof (cases "err = None \<and> e2 = None")
      case False
      then show ?thesis using True p s by (subst await_loop.simps) (auto simp: Let_def split: option.splits)
    next
      case go: True
      have "sc_now env (sx_client w) + poll_interval \<le> sc_now env (sx_client ?w)"
        using clock p go by (auto simp: clock_advances_def with_client_def)
      moreover have "sc_now env (sx_client ?w) \<le> sc_now env (sx_client w2)"
        using clock s unfolding clock_advances_def by blast
      ultimately have "nat (deadline - sc_now env (sx_client w2)) < nat (deadline - sc_now env (sx_client w))"
        using True by (simp add: poll_interval_def)
      from less(1)[OF this, of r2] show ?thesis
        using True p s go by (subst await_loop.simps) simp
    qed
  qed
qed

text \<open>C32: waiting for a sidecar ends. With a clock that advances while the command pauses, enabling a
  sidecar with a wait always returns, however often its container restarts; and when it returns
  without an error the sidecar is not starting any more, or the window of its probe has passed.\<close>

theorem enable_wait_returns:
  assumes "clock_advances c (cm_sidecars c)"
  shows "\<exists>w' r e. enableSidecarTemplate c name True w = Some (w', r, e)
    \<and> (e = None \<and> sr_Health r = sidecarHealthStarting \<longrightarrow>
         (\<exists>w1 r1 d. sidecar_enable (cm_sidecars c) name w = (w1, r1, None) \<and> ReadSidecars (cm_sidecars c) w1 = Inr d
            \<and> (case wait_deadline (cm_sidecars c) d name w1 of
                 None \<Rightarrow> True | Some deadline \<Rightarrow> deadline \<le> sc_now (cm_sidecars c) (sx_client w'))))"
proof (cases "newDeploymentSidecars c")
  case (Inl e)
  then show ?thesis by (simp add: enableSidecarTemplate_def)
next
  case (Inr env)
  then have env: "cm_sidecars c = env"
    by (auto simp: newDeploymentSidecars_def bind_result_def split: manifest_file.splits sum.splits option.splits if_splits)
  obtain w1 r1 e1 where en: "sidecar_enable env name w = (w1, r1, e1)" by (metis prod_cases3)
  show ?thesis
  proof (cases "e1 = None \<and> sr_Health r1 = sidecarHealthStarting \<and> (\<exists>d. ReadSidecars env w1 = Inr d)")
    case False
    then show ?thesis using Inr en
      by (auto simp: enableSidecarTemplate_def awaitHealth_def split: sum.splits)
  next
    case True
    then obtain d where read: "ReadSidecars env w1 = Inr d" by blast
    have step: "enableSidecarTemplate c name True w
        = (case wait_deadline env d name w1 of None \<Rightarrow> Some (w1, r1, None)
           | Some deadline \<Rightarrow> await_loop (cm_pause c) env name deadline r1 w1)"
      using Inr en True read by (simp add: enableSidecarTemplate_def awaitHealth_def)
    show ?thesis
    proof (cases "wait_deadline env d name w1")
      case None
      then show ?thesis using step en read True env by simp
    next
      case (Some deadline)
      then show ?thesis
        using step en read True env await_loop_returns[of c env name deadline r1 w1] assms by auto
    qed
  qed
qed

text \<open>Looking at a sidecar leaves an engine alone whose queries and commands in containers do.\<close>

definition quiet_client :: "'g ContainerRuntime \<Rightarrow> bool" where
  "quiet_client cl \<longleftrightarrow> (\<forall>fs g. fst (cc_List cl fs g) = g) \<and> (\<forall>n g. fst (cc_Attachment cl n g) = g)
     \<and> (\<forall>n com g. fst (cc_Exec cl n com g) = g)"

lemma quiet_runtime:
  assumes "quiet_client (rt_client rt)"
  shows "sidecars_List rt g = (g', a) \<Longrightarrow> g' = g" and "DatabaseRestartRequired rt g = (g', b) \<Longrightarrow> g' = g"
    and "sidecars_Exec rt con com g = (g', e) \<Longrightarrow> g' = g"
  using assms unfolding quiet_client_def
  by (auto simp: sidecars_List_def DatabaseRestartRequired_def sidecars_Exec_def split: prod.splits sum.splits option.splits)
     (metis fst_conv)+

lemma quiet_probe:
  assumes "quiet_client (rt_client (sc_runtime env))"
  shows "probeSidecar env con x now g = (g', h) \<Longrightarrow> g' = g"
  using quiet_runtime(3)[OF assms]
  by (auto simp: probeSidecar_def runProbe_def Let_def split: option.splits if_splits prod.splits)

lemma quiet_observe:
  assumes "quiet_client (rt_client (sc_runtime env))"
  shows "observe_all env d op s now cs g = (g', r) \<Longrightarrow> g' = g"
proof (induction cs arbitrary: r)
  case (Cons x cs)
  obtain g1 o1 where one: "observeSidecar env x d op s now g = (g1, o1)" by fastforce
  then have "g1 = g"
    using quiet_probe[OF assms] by (auto simp: observeSidecar_def Let_def split: option.splits prod.splits if_splits)
  then show ?case using Cons one by (auto split: sum.splits prod.splits)
qed simp

lemma quiet_inspect:
  assumes quiet: "quiet_client (rt_client (sc_runtime env))" and run: "inspectSidecars env d g = (g', r)"
  shows "g' = g"
proof -
  obtain g1 a where l: "sidecars_List (sc_runtime env) g = (g1, a)" by fastforce
  then have g1: "g1 = g" by (rule quiet_runtime(1)[OF quiet])
  obtain g2 b where rr: "DatabaseRestartRequired (sc_runtime env) g = (g2, b)" by fastforce
  then have g2: "g2 = g" by (rule quiet_runtime(2)[OF quiet])
  show ?thesis
    using run l rr g1 g2
    by (auto simp: inspectSidecars_def split: sum.splits option.splits bool.splits prod.splits dest: quiet_observe[OF quiet])
qed

lemma quiet_status:
  assumes quiet: "quiet_client (rt_client (sc_runtime env))" and run: "sidecar_status env name w = (w', r, e)"
  shows "sx_client w' = sx_client w"
proof -
  have wr: "sx_client w2 = sx_client w1" if "WriteSidecarState env m w1 = (w2, err)" for m w1 w2 err
    using that by (auto simp: WriteSidecarState_def Let_def split: failures_file.splits)
  have desc: "sx_client w2 = sx_client w1" if "describe env name d r1 w1 = (w2, r2, e2)" for d r1 w1 w2 r2 e2
    using that
    by (auto simp: describe_def Let_def with_client_def split: sum.splits bool.splits prod.splits option.splits
        dest: quiet_inspect[OF quiet])
  show ?thesis
    using run by (auto simp: sidecar_status_def Let_def split: sum.splits prod.splits if_splits dest!: wr desc)
qed

text \<open>A deployment whose sidecar has a probe that fails, and whose clock counts the places of the engine.\<close>

definition demo_probed :: Entry where
  "demo_probed = \<lparr>df_Enabled = None,
     df_Container = sample_sidecar\<lparr>ct_ReadinessProbe := Some \<lparr>pb_Exec = None, pb_HTTPGet = None,
       pb_TCPSocket = Some \<lparr>pr_Number = 8000, pr_Name = []\<rparr>, pb_InitialDelaySeconds = 0, pb_PeriodSeconds = 0,
       pb_TimeoutSeconds = 0, pb_FailureThreshold = 0\<rparr>\<rparr>,
     df_Endpoints = [], en_Description = ''MCP server'', en_Architectures = [''amd64'']\<rparr>"

definition demo_cmd :: "(string \<times> string) list option list cmd_env" where
  "demo_cmd = \<lparr>cm_sidecars = demo_env\<lparr>sc_embedded := [(''mcp'', demo_probed)], sc_dial := (\<lambda>a g. Some (Plain ''refused'')),
       sc_now := (\<lambda>g. int (length g) * poll_interval)\<rparr>,
     cm_manifest = ManifestRead (Some \<lparr>m_Backend = ''local'', m_Tofu = False\<rparr>), cm_runtime_error = None,
     cm_pause = (\<lambda>g. (g @ [None], None))\<rparr>"

theorem enable_wait_returns_witness:
  "(case newDeploymentSidecars demo_cmd of Inl _ \<Rightarrow> False | Inr env \<Rightarrow>
      sr_Health (fst (snd (sidecar_enable env ''mcp'' demo_sc_world))) = sidecarHealthStarting)
   \<and> (\<exists>w' r e. enableSidecarTemplate demo_cmd ''mcp'' True demo_sc_world = Some (w', r, e))"
proof
  show "case newDeploymentSidecars demo_cmd of Inl _ \<Rightarrow> False | Inr env \<Rightarrow>
      sr_Health (fst (snd (sidecar_enable env ''mcp'' demo_sc_world))) = sidecarHealthStarting" by code_simp
  have "quiet_client (rt_client (sc_runtime (cm_sidecars demo_cmd)))"
    by (simp add: quiet_client_def demo_cmd_def demo_env_def demo_runtime_def demo_client_def)
  from quiet_status[OF this] have "clock_advances demo_cmd (cm_sidecars demo_cmd)"
    unfolding clock_advances_def by (auto simp: demo_cmd_def poll_interval_def)
  from enable_wait_returns[OF this, of "''mcp''" demo_sc_world]
  show "\<exists>w' r e. enableSidecarTemplate demo_cmd ''mcp'' True demo_sc_world = Some (w', r, e)" by blast
qed

end
