(* ===== verification/Config_Values.thy ===== *)
theory Config_Values
  imports Lifecycle_Status
begin

text \<open>
  The configuration of a deployment as the commands see it: the option values of
  \<^verbatim>\<open>src/internal/deploy/configuration.go\<close> and \<^verbatim>\<open>config_variables.go\<close>, their selection, reset and patch.

  A value of Go's type \<^verbatim>\<open>any\<close> is a \<open>scalar\<close>. A \<^verbatim>\<open>float64\<close> is represented by its shortest decimal text,
  the one \<^verbatim>\<open>strconv.FormatFloat(v, 'f', -1, 64)\<close> prints, which identifies it. The iteration over a map is
  that of an association list in an arbitrary order.
\<close>

section \<open>Values\<close>

datatype scalar =
    StringScalar string
  | BoolScalar bool
  | IntScalar int
  | Int64Scalar int
  | FloatScalar string
  | NilScalar
  | OtherScalar string

definition ConfigVariableTypeString :: string where "ConfigVariableTypeString = ''string''"
definition ConfigVariableTypeBool :: string where "ConfigVariableTypeBool = ''bool''"
definition ConfigVariableTypeNumber :: string where "ConfigVariableTypeNumber = ''number''"

record ConfigVariableDefinition =
  vd_Name :: string
  vd_Description :: string
  vd_Type :: string
  vd_DefaultDisplay :: string
  vd_Required :: bool

record DeploymentConfigValue =
  cv_Name :: string
  cv_Type :: string
  cv_Value :: scalar
  cv_Default :: scalar
  cv_RawValue :: string
  cv_RawDefault :: string

definition ReplaceByte :: "string \<Rightarrow> char \<Rightarrow> char \<Rightarrow> string" where
  "ReplaceByte s c d = map (\<lambda>x. if x = c then d else x) s"

definition DisplayName :: "DeploymentConfigValue \<Rightarrow> string" where
  "DisplayName v = ReplaceByte (cv_Name v) CHR ''_'' CHR ''-''"

definition FormatBool :: "bool \<Rightarrow> string" where
  "FormatBool b = (if b then ''true'' else ''false'')"

definition scalarToRawString :: "scalar \<Rightarrow> (go_error, string) result" where
  "scalarToRawString v =
     (case v of
        StringScalar s \<Rightarrow> Inr s
      | BoolScalar b \<Rightarrow> Inr (FormatBool b)
      | IntScalar n \<Rightarrow> Inr (Itoa n)
      | Int64Scalar n \<Rightarrow> Inr (Itoa n)
      | FloatScalar t \<Rightarrow> Inr t
      | NilScalar \<Rightarrow> Inl (Plain ''unsupported scalar type <nil>'')
      | OtherScalar t \<Rightarrow> Inl (Plain (''unsupported scalar type '' @ t)))"

definition normalizeConfigOptionName :: "string \<Rightarrow> string" where
  "normalizeConfigOptionName name = ReplaceByte (TrimSpace name) CHR ''-'' CHR ''_''"

definition installationVariableType :: "string \<Rightarrow> string" where
  "installationVariableType raw =
     (if TrimSpace raw = ConfigVariableTypeBool then ConfigVariableTypeBool
      else if TrimSpace raw = ConfigVariableTypeNumber then ConfigVariableTypeNumber
      else ConfigVariableTypeString)"

section \<open>Sections\<close>

record PresetIdentityInfo =
  pi_Selector :: string
  pi_Kind :: string
  pi_Name :: string
  pi_Path :: string
  pi_DisplayName :: string
  pi_Description :: string

record DeploymentConfigurationSection =
  sec_Identity :: PresetIdentityInfo
  sec_Options :: "DeploymentConfigValue list"

record DeploymentConfiguration =
  dc_Infrastructure :: DeploymentConfigurationSection
  dc_Installation :: DeploymentConfigurationSection
  dc_ApplyCommand :: string

definition presetIdentityInfo :: "string \<Rightarrow> string \<Rightarrow> string \<Rightarrow> PresetIdentityInfo" where
  "presetIdentityInfo selector displayName description =
     (let info = \<lparr>pi_Selector = TrimSpace selector, pi_Kind = [], pi_Name = [], pi_Path = [],
            pi_DisplayName = TrimSpace displayName, pi_Description = TrimSpace description\<rparr> in
      case Cut (pi_Selector info) '':'' of
        None \<Rightarrow> info
      | Some (kind, v) \<Rightarrow>
          (let info = info\<lparr>pi_Kind := TrimSpace kind\<rparr> in
           if pi_Kind info = ''name'' then info\<lparr>pi_Name := TrimSpace v\<rparr>
           else if pi_Kind info = ''path'' then info\<lparr>pi_Path := TrimSpace v\<rparr>
           else info))"

definition sortConfigurationValues :: "DeploymentConfigValue list \<Rightarrow> DeploymentConfigValue list" where
  "sortConfigurationValues = sort_key cv_Name"

section \<open>Selecting options\<close>

definition filterConfigurationValues ::
  "DeploymentConfigValue list \<Rightarrow> string list \<Rightarrow> DeploymentConfigValue list" where
  "filterConfigurationValues values selected =
     filter (\<lambda>v. normalizeConfigOptionName (cv_Name v) \<in> set selected) values"

definition configurationValuesContainOption :: "DeploymentConfigValue list \<Rightarrow> string \<Rightarrow> bool" where
  "configurationValuesContainOption values normalized \<longleftrightarrow>
     list_ex (\<lambda>v. normalizeConfigOptionName (cv_Name v) = normalized) values"

definition configurationContainsOption :: "DeploymentConfiguration \<Rightarrow> string \<Rightarrow> bool" where
  "configurationContainsOption configuration optionName \<longleftrightarrow>
     (let normalized = normalizeConfigOptionName optionName in
      configurationValuesContainOption (sec_Options (dc_Infrastructure configuration)) normalized
      \<or> configurationValuesContainOption (sec_Options (dc_Installation configuration)) normalized)"

definition unknown_option :: "string \<Rightarrow> go_error" where
  "unknown_option optionName = Plain (''unknown configuration option '' @ Quote optionName)"

definition filterDeploymentConfiguration ::
  "DeploymentConfiguration \<Rightarrow> string list \<Rightarrow> (go_error, DeploymentConfiguration) result" where
  "filterDeploymentConfiguration configuration optionNames =
     (if optionNames = [] then Inr configuration
      else let selected = map normalizeConfigOptionName optionNames;
               filtered = \<lparr>dc_Infrastructure = \<lparr>sec_Identity = sec_Identity (dc_Infrastructure configuration),
                   sec_Options = filterConfigurationValues (sec_Options (dc_Infrastructure configuration)) selected\<rparr>,
                 dc_Installation = \<lparr>sec_Identity = sec_Identity (dc_Installation configuration),
                   sec_Options = filterConfigurationValues (sec_Options (dc_Installation configuration)) selected\<rparr>,
                 dc_ApplyCommand = []\<rparr>
           in case List.find (\<lambda>n. \<not> configurationContainsOption filtered n) optionNames of
                Some n \<Rightarrow> Inl (unknown_option n)
              | None \<Rightarrow> Inr filtered)"

section \<open>Resetting options\<close>

definition reset_value :: "DeploymentConfigValue \<Rightarrow> DeploymentConfigValue" where
  "reset_value v = v\<lparr>cv_RawValue := cv_RawDefault v, cv_Value := cv_Default v\<rparr>"

text \<open>The options after the reset and the normalized names that were found.\<close>

definition resetSelectedConfigurationValues ::
  "DeploymentConfigValue list \<Rightarrow> string list \<Rightarrow> string list \<Rightarrow> DeploymentConfigValue list \<times> string list" where
  "resetSelectedConfigurationValues values selected found =
     (map (\<lambda>v. if normalizeConfigOptionName (cv_Name v) \<in> set selected then reset_value v else v) values,
      found @ filter (\<lambda>n. n \<in> set selected) (map (\<lambda>v. normalizeConfigOptionName (cv_Name v)) values))"

definition resetAllConfigurationValues :: "DeploymentConfigValue list \<Rightarrow> DeploymentConfigValue list" where
  "resetAllConfigurationValues = map reset_value"

definition with_options ::
  "DeploymentConfigValue list \<Rightarrow> DeploymentConfigValue list \<Rightarrow> DeploymentConfiguration \<Rightarrow> DeploymentConfiguration" where
  "with_options infra install c =
     c\<lparr>dc_Infrastructure := (dc_Infrastructure c)\<lparr>sec_Options := infra\<rparr>,
       dc_Installation := (dc_Installation c)\<lparr>sec_Options := install\<rparr>\<rparr>"

definition resetSelectedDeploymentConfiguration ::
  "DeploymentConfiguration \<Rightarrow> string list \<Rightarrow> (go_error, DeploymentConfiguration) result" where
  "resetSelectedDeploymentConfiguration configuration optionNames =
     (let selected = map normalizeConfigOptionName optionNames;
          (infra, found1) = resetSelectedConfigurationValues (sec_Options (dc_Infrastructure configuration)) selected [];
          (install, found) = resetSelectedConfigurationValues (sec_Options (dc_Installation configuration)) selected found1;
          missing = sort (remdups (filter (\<lambda>n. n \<notin> set found) selected))
      in if missing \<noteq> [] then Inl (unknown_option (hd missing))
         else Inr (with_options infra install configuration))"

definition applyConfigurationReset ::
  "DeploymentConfiguration \<Rightarrow> string list \<Rightarrow> bool \<Rightarrow> (go_error, DeploymentConfiguration) result" where
  "applyConfigurationReset configuration optionNames resetAll =
     (if resetAll then
        Inr (with_options (resetAllConfigurationValues (sec_Options (dc_Infrastructure configuration)))
          (resetAllConfigurationValues (sec_Options (dc_Installation configuration))) configuration)
      else resetSelectedDeploymentConfiguration configuration optionNames)"

definition validateResetSelection :: "string list \<Rightarrow> bool \<Rightarrow> go_error option" where
  "validateResetSelection optionNames resetAll =
     (if \<not> resetAll \<and> optionNames = [] then Some (Plain ''provide option names to reset, or pass --all'')
      else if resetAll \<and> optionNames \<noteq> [] then Some (Plain ''pass either --all or option names, not both'')
      else None)"

section \<open>Raw values and patches\<close>

definition raw_config_value :: "string \<Rightarrow> string \<Rightarrow> DeploymentConfigValue" where
  "raw_config_value name rawValue =
     \<lparr>cv_Name = name, cv_Type = [], cv_Value = NilScalar, cv_Default = NilScalar,
      cv_RawValue = rawValue, cv_RawDefault = []\<rparr>"

definition rawConfigValues :: "(string \<times> string) list \<Rightarrow> DeploymentConfigValue list" where
  "rawConfigValues values = map (\<lambda>(name, rawValue). raw_config_value name rawValue) values"

definition no_identity :: PresetIdentityInfo where
  "no_identity = \<lparr>pi_Selector = [], pi_Kind = [], pi_Name = [], pi_Path = [], pi_DisplayName = [], pi_Description = []\<rparr>"

definition newDeploymentConfigurationFromRaw ::
  "(string \<times> string) list \<Rightarrow> (string \<times> string) list \<Rightarrow> DeploymentConfiguration" where
  "newDeploymentConfigurationFromRaw infraVars installVars =
     \<lparr>dc_Infrastructure = \<lparr>sec_Identity = no_identity, sec_Options = rawConfigValues infraVars\<rparr>,
      dc_Installation = \<lparr>sec_Identity = no_identity, sec_Options = rawConfigValues installVars\<rparr>,
      dc_ApplyCommand = []\<rparr>"

definition configValuesRawMap :: "DeploymentConfigValue list \<Rightarrow> (string \<times> string) list" where
  "configValuesRawMap values =
     fold (\<lambda>v m. let name = TrimSpace (cv_Name v) in
         if name = [] then m else map_put name (cv_RawValue v) m) values []"

text \<open>One override replaces the raw value of the first option of that name, or adds an option.\<close>

fun patch_value :: "string \<Rightarrow> string \<Rightarrow> DeploymentConfigValue list \<Rightarrow> DeploymentConfigValue list" where
  "patch_value name rawValue [] = [raw_config_value name rawValue]"
| "patch_value name rawValue (v # vs) =
     (if cv_Name v = name then v\<lparr>cv_RawValue := rawValue\<rparr> # vs else v # patch_value name rawValue vs)"

definition patchConfigurationValues ::
  "DeploymentConfigValue list \<Rightarrow> (string \<times> string) list \<Rightarrow> DeploymentConfigValue list" where
  "patchConfigurationValues values overrides =
     fold (\<lambda>(name, rawValue). patch_value name rawValue) overrides values"

section \<open>Facts\<close>

lemma names_patch_value:
  "map cv_Name (patch_value n r vs) = (if n \<in> set (map cv_Name vs) then map cv_Name vs else map cv_Name vs @ [n])"
  by (induction vs) (auto simp: raw_config_value_def)

lemma configValuesRawMap_snoc:
  "configValuesRawMap (vs @ [v]) =
     (if TrimSpace (cv_Name v) = [] then configValuesRawMap vs
      else map_put (TrimSpace (cv_Name v)) (cv_RawValue v) (configValuesRawMap vs))"
  by (simp add: configValuesRawMap_def Let_def)

text \<open>With trimmed, distinct names the raw map is the list of names and raw values.\<close>

definition option_names :: "DeploymentConfigValue list \<Rightarrow> bool" where
  "option_names vs \<longleftrightarrow> distinct (map cv_Name vs)
     \<and> list_all (\<lambda>n. n \<noteq> [] \<and> TrimSpace n = n) (map cv_Name vs)"

lemma map_of_rawMap:
  "option_names vs \<Longrightarrow>
     map_of (configValuesRawMap vs) n = map_of (map (\<lambda>v. (cv_Name v, cv_RawValue v)) vs) n"
proof (induction vs rule: rev_induct)
  case (snoc v vs)
  then have "option_names vs" by (auto simp: option_names_def)
  moreover have "map_of (map (\<lambda>v. (cv_Name v, cv_RawValue v)) vs) (cv_Name v) = None"
    using snoc.prems by (auto simp: option_names_def map_of_eq_None_iff)
  ultimately show ?case
    using snoc by (auto simp: configValuesRawMap_snoc option_names_def map_add_def split: option.split)
qed (simp add: configValuesRawMap_def)

lemma distinct_keys_rawMap: "distinct (map fst (configValuesRawMap vs))"
proof (induction vs rule: rev_induct)
  case (snoc v vs)
  then show ?case
    by (auto simp: configValuesRawMap_snoc map_put_def distinct_map_filter)
qed (simp add: configValuesRawMap_def)

lemma option_names_patch_value:
  "option_names vs \<Longrightarrow> n \<noteq> [] \<Longrightarrow> TrimSpace n = n \<Longrightarrow> option_names (patch_value n r vs)"
  by (auto simp: option_names_def names_patch_value)

lemma map_of_patch_value:
  "distinct (map cv_Name vs) \<Longrightarrow>
     map_of (map (\<lambda>v. (cv_Name v, cv_RawValue v)) (patch_value n r vs)) m
       = (if m = n then Some r else map_of (map (\<lambda>v. (cv_Name v, cv_RawValue v)) vs) m)"
  by (induction vs) (auto simp: raw_config_value_def)

text \<open>The raw map of a patched configuration is the raw map with the overrides on top.\<close>

lemma rawMap_patch:
  assumes "option_names vs" and "distinct (map fst overrides)"
    and "list_all (\<lambda>(n, _). n \<noteq> [] \<and> TrimSpace n = n) overrides"
  shows "map_of (configValuesRawMap (patchConfigurationValues vs overrides))
      = map_of (configValuesRawMap vs) ++ map_of overrides"
  using assms
proof (induction overrides arbitrary: vs)
  case Nil
  then show ?case by (simp add: patchConfigurationValues_def)
next
  case (Cons o1 os)
  obtain n r where o1: "o1 = (n, r)" by fastforce
  have nm: "option_names (patch_value n r vs)"
    using Cons.prems o1 by (intro option_names_patch_value) auto
  have os: "map_of os n = None" using Cons.prems o1 by (auto simp: map_of_eq_None_iff)
  have d: "distinct (map cv_Name vs)" using Cons.prems by (simp add: option_names_def)
  have "map_of (configValuesRawMap (patchConfigurationValues vs (o1 # os)))
      = map_of (configValuesRawMap (patch_value n r vs)) ++ map_of os"
    using Cons.IH [OF nm] Cons.prems o1 by (simp add: patchConfigurationValues_def)
  also have "\<dots> = map_of (configValuesRawMap vs) ++ map_of (o1 # os)"
    using os by (auto simp: fun_eq_iff map_add_def o1 map_of_rawMap [OF nm] map_of_rawMap [OF Cons.prems(1)]
        map_of_patch_value [OF d] split: option.split)
  finally show ?case .
qed

lemma filter_contains:
  "configurationValuesContainOption (filterConfigurationValues values selected) n
     \<longleftrightarrow> n \<in> set selected \<and> configurationValuesContainOption values n"
  by (auto simp: configurationValuesContainOption_def filterConfigurationValues_def list_ex_iff)

section \<open>Typed values\<close>

definition scalar_has_type :: "string \<Rightarrow> scalar \<Rightarrow> bool" where
  "scalar_has_type t v =
     (case v of
        StringScalar _ \<Rightarrow> t = ConfigVariableTypeString
      | BoolScalar _ \<Rightarrow> t = ConfigVariableTypeBool
      | IntScalar _ \<Rightarrow> t = ConfigVariableTypeNumber
      | Int64Scalar _ \<Rightarrow> t = ConfigVariableTypeNumber
      | FloatScalar _ \<Rightarrow> t = ConfigVariableTypeNumber
      | NilScalar \<Rightarrow> False
      | OtherScalar _ \<Rightarrow> False)"

text \<open>Value and default have the declared type, and the raw forms are their renderings.\<close>

definition value_typed :: "DeploymentConfigValue \<Rightarrow> bool" where
  "value_typed v \<longleftrightarrow> scalar_has_type (cv_Type v) (cv_Value v) \<and> scalar_has_type (cv_Type v) (cv_Default v)
     \<and> scalarToRawString (cv_Value v) = Inr (cv_RawValue v)
     \<and> scalarToRawString (cv_Default v) = Inr (cv_RawDefault v)"

lemma value_typed_reset: "value_typed v \<Longrightarrow> value_typed (reset_value v)"
  by (simp add: value_typed_def reset_value_def)

end
