(* ===== verification/Engine_Selection.thy ===== *)
theory Engine_Selection
  imports Config_Values
begin

text \<open>
  The container engine of a direct-host deployment: what the host offers
  (\<^verbatim>\<open>src/internal/localruntime/host_docker_environment.go\<close>), the record of the engine the deployment was
  first prepared with (\<^verbatim>\<open>container_engine_record.go\<close>) and the choice between record, configuration and
  detection (\<^verbatim>\<open>src/internal/deploy/local_backend.go\<close>).

  An \<open>engine_host\<close> is what the host's commands answer; \<open>error_text\<close> is \<^verbatim>\<open>Error()\<close>.
\<close>

section \<open>The host\<close>

definition EnginePodman :: string where "EnginePodman = ''podman''"
definition EngineDocker :: string where "EngineDocker = ''docker''"

definition errDockerUnavailable :: go_error where "errDockerUnavailable = Sentinel ''errDockerUnavailable''"

text \<open>\<open>eh_docker_path\<close> is the error of \<^verbatim>\<open>LookPath("docker")\<close>, \<open>eh_docker_info\<close> the outcome of
  \<^verbatim>\<open>docker info\<close>: its standard output, or the error with the standard error output, and
  \<open>eh_docker_version\<close> that of \<^verbatim>\<open>docker --version\<close>.\<close>

record engine_host =
  eh_docker_path :: "go_error option"
  eh_docker_info :: "(go_error \<times> string, string) result"
  eh_docker_version :: "(go_error, string) result"
  eh_podman_on_path :: bool
  eh_windows :: bool
  eh_podman_resolvable :: "go_error option"
  eh_error_text :: "go_error \<Rightarrow> string"

record dockerProbe =
  dp_osType :: string
  dp_serverVersion :: string
  dp_output :: string

definition dockerLinuxOSType :: string where "dockerLinuxOSType = ''linux''"

definition minimumDockerMajorVersion :: int where "minimumDockerMajorVersion = 29"

definition cut_or_all :: "string \<Rightarrow> string \<Rightarrow> string \<times> string" where
  "cut_or_all s sep = (case Cut s sep of Some p \<Rightarrow> p | None \<Rightarrow> (s, []))"

definition dockerVersionSupported :: "string \<Rightarrow> bool" where
  "dockerVersionSupported serverVersion =
     (case Atoi (fst (cut_or_all serverVersion ''.'')) of
        Some number \<Rightarrow> number \<ge> minimumDockerMajorVersion
      | None \<Rightarrow> False)"

definition probeDockerDaemon :: "engine_host \<Rightarrow> dockerProbe \<times> go_error option" where
  "probeDockerDaemon h =
     (case eh_docker_info h of
        Inl (e, stderr) \<Rightarrow> (\<lparr>dp_osType = [], dp_serverVersion = [], dp_output = TrimSpace stderr\<rparr>, Some e)
      | Inr stdout \<Rightarrow>
          (let (osType, serverVersion) = cut_or_all (TrimSpace stdout) '' '' in
           (\<lparr>dp_osType = osType, dp_serverVersion = serverVersion, dp_output = []\<rparr>, None)))"

definition dockerUnavailable :: "engine_host \<Rightarrow> go_error \<Rightarrow> string \<Rightarrow> go_error" where
  "dockerUnavailable h e output =
     (let detail = (if output \<noteq> [] then output else eh_error_text h e) in
      Wrap (detail @ newline # ''Check that the Docker daemon is running (`docker info`), that your user may use it (for example membership of the `docker` group, which applies to new login sessions), and that the active Docker context (`docker context ls`) is the one you expect'')
        errDockerUnavailable)"

definition requireDockerLinuxEngine :: "engine_host \<Rightarrow> go_error option" where
  "requireDockerLinuxEngine h =
     (case eh_docker_path h of
        Some e \<Rightarrow> Some (dockerUnavailable h e [])
      | None \<Rightarrow>
          (case probeDockerDaemon h of
             (probe, Some e) \<Rightarrow> Some (dockerUnavailable h e (dp_output probe))
           | (probe, None) \<Rightarrow>
               if dp_osType probe \<noteq> dockerLinuxOSType then
                 Some (Wrap (''the Docker daemon runs '' @ Quote (dp_osType probe)
                   @ '' containers, but local deployments need Linux containers; switch Docker to Linux containers, or select Podman with `exasol config set --container-engine podman`'') errDockerUnavailable)
               else if \<not> dockerVersionSupported (dp_serverVersion probe) then
                 Some (Wrap (''the Docker daemon runs Docker Engine '' @ Quote (dp_serverVersion probe)
                   @ '', but local deployments need Docker Engine '' @ Itoa minimumDockerMajorVersion
                   @ '' or later; upgrade Docker, or select Podman with `exasol config set --container-engine podman`'')
                   errDockerUnavailable)
               else None))"

text \<open>A daemon that does not answer is unreachable, not stopped.\<close>

definition ContainerHostRunning :: "engine_host \<Rightarrow> (go_error, bool) result" where
  "ContainerHostRunning h =
     (case eh_docker_path h of
        Some e \<Rightarrow> Inl (Joined [ErrContainerHostUnreachable, dockerUnavailable h e []])
      | None \<Rightarrow>
          (case probeDockerDaemon h of
             (probe, Some e) \<Rightarrow> Inl (Joined [ErrContainerHostUnreachable, dockerUnavailable h e (dp_output probe)])
           | (_, None) \<Rightarrow> Inr True))"

definition podmanInstalled :: "engine_host \<Rightarrow> bool" where
  "podmanInstalled h \<longleftrightarrow> eh_podman_on_path h \<or> (eh_windows h \<and> eh_podman_resolvable h = None)"

definition dockerIsPodman :: "engine_host \<Rightarrow> bool" where
  "dockerIsPodman h =
     (case eh_docker_version h of Inl _ \<Rightarrow> False | Inr output \<Rightarrow> Contains (ToLower output) ''podman'')"

definition dockerInstalled :: "engine_host \<Rightarrow> bool" where
  "dockerInstalled h =
     (if eh_docker_path h \<noteq> None then False
      else if dockerIsPodman h then False
      else (let (probe, e) = probeDockerDaemon h in e \<noteq> None \<or> dp_osType probe = dockerLinuxOSType))"

definition containerEngineInstalled :: "engine_host \<Rightarrow> string \<Rightarrow> bool" where
  "containerEngineInstalled h engine =
     (if engine = EnginePodman then podmanInstalled h
      else if engine = EngineDocker then dockerInstalled h
      else False)"

definition DetectContainerEngine :: "engine_host \<Rightarrow> string list \<Rightarrow> string" where
  "DetectContainerEngine h preference =
     (case List.find (containerEngineInstalled h) preference of Some engine \<Rightarrow> engine | None \<Rightarrow> EnginePodman)"

section \<open>The record\<close>

text \<open>The marker file in the runtime directory: its text is a JSON object with an engine, or is
  not (\<open>InvalidMarker\<close>).\<close>

datatype engine_marker = NoMarker | UnreadableMarker go_error | InvalidMarker | EngineMarker string

datatype path_stat = PathExists | PathMissing | PathFails go_error

record engine_files =
  ef_marker :: engine_marker
  ef_data :: path_stat

definition RecordedContainerEngine :: "engine_files \<Rightarrow> (go_error, string option) result" where
  "RecordedContainerEngine f =
     (case ef_marker f of
        EngineMarker engine \<Rightarrow>
          if engine = [] then Inl (Plain ''invalid container engine record'') else Inr (Some engine)
      | InvalidMarker \<Rightarrow> Inl (Plain ''invalid container engine record'')
      | UnreadableMarker e \<Rightarrow> Inl (Wrap ''failed to read the container engine record'' e)
      | NoMarker \<Rightarrow>
          (case ef_data f of
             PathExists \<Rightarrow> Inr (Some EnginePodman)
           | PathFails e \<Rightarrow> Inl (Wrap ''failed to inspect the local database data'' e)
           | PathMissing \<Rightarrow> Inr None))"

text \<open>The first preparation writes the record; a marker that exists stays. \<open>write\<close> is the error of the
  atomic write.\<close>

definition recordContainerEngine :: "go_error option \<Rightarrow> string \<Rightarrow> engine_files \<Rightarrow> engine_files \<times> go_error option" where
  "recordContainerEngine write engine f =
     (case ef_marker f of
        NoMarker \<Rightarrow>
          (case write of
             Some e \<Rightarrow> (f, Some (Wrap ''failed to record the container engine'' e))
           | None \<Rightarrow> (f\<lparr>ef_marker := EngineMarker engine\<rparr>, None))
      | _ \<Rightarrow> (f, None))"

section \<open>Platforms\<close>

definition localMacOS :: string where "localMacOS = ''darwin''"
definition localMacArch :: string where "localMacArch = ''arm64''"
definition localLinuxOS :: string where "localLinuxOS = ''linux''"
definition localLinuxAMD64 :: string where "localLinuxAMD64 = ''amd64''"
definition localLinuxARM64 :: string where "localLinuxARM64 = ''arm64''"
definition localWindowsOS :: string where "localWindowsOS = ''windows''"
definition localWindowsAMD64 :: string where "localWindowsAMD64 = ''amd64''"

definition errUnsupportedLocalPlatform :: go_error where
  "errUnsupportedLocalPlatform = Sentinel ''errUnsupportedLocalPlatform''"

definition unsupported_platform :: "string \<Rightarrow> string \<Rightarrow> go_error" where
  "unsupported_platform goos goarch =
     Wrap (''(current platform: '' @ goos @ ''/'' @ goarch @ '')'') errUnsupportedLocalPlatform"

definition validateLocalPlatform :: "string \<Rightarrow> string \<Rightarrow> go_error option" where
  "validateLocalPlatform goos goarch =
     (if (goos = localMacOS \<and> goarch = localMacArch)
         \<or> (goos = localLinuxOS \<and> (goarch = localLinuxAMD64 \<or> goarch = localLinuxARM64))
         \<or> (goos = localWindowsOS \<and> goarch = localWindowsAMD64)
      then None else Some (unsupported_platform goos goarch))"

definition localContainerEnginesForPlatform :: "string \<Rightarrow> string \<Rightarrow> string list" where
  "localContainerEnginesForPlatform goos goarch =
     (if goos = localMacOS \<and> goarch = localMacArch then []
      else if goos = localWindowsOS then [EnginePodman, EngineDocker]
      else [EnginePodman, EngineDocker])"

definition formatContainerEngines :: "string list \<Rightarrow> string" where
  "formatContainerEngines engines = Join engines '', ''"

section \<open>The choice\<close>

definition localContainerEngineConfigName :: string where "localContainerEngineConfigName = ''container_engine''"
definition localContainerEngineAuto :: string where "localContainerEngineAuto = ''auto''"

definition containerEngineChoiceError :: "string \<Rightarrow> string \<Rightarrow> string list \<Rightarrow> go_error" where
  "containerEngineChoiceError name rawValue supported =
     Plain (''local infrastructure configuration option '' @ Quote name @ '' must be one of ''
       @ localContainerEngineAuto @ '', '' @ formatContainerEngines supported @ '', got '' @ Quote rawValue)"

definition parseLocalContainerEngineChoice ::
  "string \<Rightarrow> string \<Rightarrow> string list \<Rightarrow> (go_error, string) result" where
  "parseLocalContainerEngineChoice name rawValue supported =
     (let choice = ToLower (TrimSpace rawValue) in
      if choice = [] \<or> choice = localContainerEngineAuto then Inr localContainerEngineAuto
      else if choice \<notin> set supported then Inl (containerEngineChoiceError name rawValue supported)
      else Inr choice)"

text \<open>\<open>configured\<close> is the engine of the manifest, empty when it has none; \<open>detect\<close> resolves \<^verbatim>\<open>auto\<close>.\<close>

definition localContainerEngine ::
  "engine_files \<Rightarrow> string \<Rightarrow> string \<Rightarrow> string \<Rightarrow> (string list \<Rightarrow> string) \<Rightarrow> (go_error, string) result" where
  "localContainerEngine f configured goos goarch detect =
     (let engines = localContainerEnginesForPlatform goos goarch in
      if engines = [] then Inl (unsupported_platform goos goarch)
      else case RecordedContainerEngine f of
          Inl e \<Rightarrow> Inl e
        | Inr (Some recorded) \<Rightarrow>
            if recorded \<notin> set engines then
              Inl (Plain (''the deployment runs on '' @ Quote recorded @ '', which this platform does not support''))
            else Inr recorded
        | Inr None \<Rightarrow>
            (case parseLocalContainerEngineChoice localContainerEngineConfigName configured engines of
               Inl e \<Rightarrow> Inl e
             | Inr choice \<Rightarrow>
                 if choice = localContainerEngineAuto then Inr (detect engines) else Inr choice))"

text \<open>The runtime a deployment gets: the virtual machine on macOS, the host with an engine elsewhere.\<close>

datatype selected_runtime = MacVMRuntime | HostLinuxRuntime string | HostWindowsRuntime string

definition newLocalRuntimeForPlatform ::
  "engine_files \<Rightarrow> string \<Rightarrow> string \<Rightarrow> string \<Rightarrow> (string list \<Rightarrow> string) \<Rightarrow> (go_error, selected_runtime) result" where
  "newLocalRuntimeForPlatform f configured goos goarch detect =
     (if goos = localMacOS \<and> goarch = localMacArch then Inr MacVMRuntime
      else if goos = localLinuxOS \<and> (goarch = localLinuxAMD64 \<or> goarch = localLinuxARM64) then
        (case localContainerEngine f configured goos goarch detect of
           Inl e \<Rightarrow> Inl e | Inr engine \<Rightarrow> Inr (HostLinuxRuntime engine))
      else if goos = localWindowsOS \<and> goarch = localWindowsAMD64 then
        (case localContainerEngine f configured goos goarch detect of
           Inl e \<Rightarrow> Inl e | Inr engine \<Rightarrow> Inr (HostWindowsRuntime engine))
      else Inl (unsupported_platform goos goarch))"

definition canonicalLocalConfigName :: "string \<Rightarrow> string" where
  "canonicalLocalConfigName name =
     ToLower (TrimSpace (filter (\<lambda>c. c \<noteq> CHR ''_'') (filter (\<lambda>c. c \<noteq> CHR ''-'') name)))"

text \<open>An explicit choice of another engine than the recorded one is refused. The iteration goes over
  the overrides in their order.\<close>

fun rejectRecordedContainerEngineChange :: "engine_files \<Rightarrow> (string \<times> string) list \<Rightarrow> go_error option" where
  "rejectRecordedContainerEngineChange f [] = None"
| "rejectRecordedContainerEngineChange f ((name, rawValue) # rest) =
     (if canonicalLocalConfigName name \<noteq> canonicalLocalConfigName localContainerEngineConfigName
      then rejectRecordedContainerEngineChange f rest
      else let choice = ToLower (TrimSpace rawValue) in
           if choice = [] \<or> choice = localContainerEngineAuto then rejectRecordedContainerEngineChange f rest
           else case RecordedContainerEngine f of
               Inl e \<Rightarrow> Some e
             | Inr (Some recorded) \<Rightarrow>
                 if recorded \<noteq> choice then
                   Some (Plain (''the deployment runs on '' @ recorded
                     @ ''; run `exasol destroy` before changing its container engine to '' @ choice
                     @ ''. Destroying deletes the database and its data; then run `exasol config set --container-engine ''
                     @ choice @ ''` and `exasol deploy`''))
                 else rejectRecordedContainerEngineChange f rest
             | Inr None \<Rightarrow> rejectRecordedContainerEngineChange f rest)"

section \<open>The engine stays\<close>

lemma DetectContainerEngine_in:
  "set preference \<subseteq> E \<Longrightarrow> EnginePodman \<in> E \<Longrightarrow> DetectContainerEngine h preference \<in> E"
  by (auto simp: DetectContainerEngine_def find_Some_iff split: option.splits)

lemma record_then_recorded:
  assumes "RecordedContainerEngine f = Inr None" and "recordContainerEngine w engine f = (f', None)"
    and "engine \<noteq> []"
  shows "RecordedContainerEngine f' = Inr (Some engine)"
  using assms
  by (auto simp: RecordedContainerEngine_def recordContainerEngine_def split: engine_marker.splits
      path_stat.splits option.splits if_splits)

lemma recorded_stays:
  assumes "RecordedContainerEngine f = Inr (Some engine)" and "recordContainerEngine w engine f = (f', r)"
    and "engine \<noteq> []"
  shows "RecordedContainerEngine f' = Inr (Some engine)"
  using assms
  by (auto simp: RecordedContainerEngine_def recordContainerEngine_def split: engine_marker.splits
      path_stat.splits option.splits if_splits)

lemma engines_not_empty:
  "engine \<in> set (localContainerEnginesForPlatform goos goarch) \<Longrightarrow> engine \<noteq> []"
  by (auto simp: localContainerEnginesForPlatform_def EnginePodman_def EngineDocker_def split: if_splits)

lemma selected_engine_in:
  assumes "localContainerEngine f configured goos goarch (DetectContainerEngine h) = Inr engine"
  shows "engine \<in> set (localContainerEnginesForPlatform goos goarch)"
proof -
  let ?E = "localContainerEnginesForPlatform goos goarch"
  have "?E \<noteq> []" using assms by (auto simp: localContainerEngine_def)
  then have "EnginePodman \<in> set ?E"
    by (auto simp: localContainerEnginesForPlatform_def split: if_splits)
  from DetectContainerEngine_in [OF subset_refl this, of h] assms show ?thesis
    by (auto simp: localContainerEngine_def Let_def parseLocalContainerEngineChoice_def
        split: if_splits sum.splits option.splits)
qed

text \<open>C15: Once a preparation has selected a container engine and recorded it, every later selection
  returns that engine, whatever the configuration has become and whatever engines are found on the host
  then; and a configuration that names another supported engine is refused.\<close>

theorem engine_is_sticky:
  assumes "localContainerEngine f configured goos goarch (DetectContainerEngine h) = Inr engine"
    and "recordContainerEngine w engine f = (f', None)"
  shows "localContainerEngine f' configured' goos goarch (DetectContainerEngine h') = Inr engine
    \<and> (rejectRecordedContainerEngineChange f' [(localContainerEngineConfigName, choice)] = None
       \<longleftrightarrow> ToLower (TrimSpace choice) \<in> {[], localContainerEngineAuto, engine})"
proof -
  have E: "engine \<in> set (localContainerEnginesForPlatform goos goarch)"
    using selected_engine_in [OF assms(1)] .
  then have ne: "engine \<noteq> []" by (rule engines_not_empty)
  have "RecordedContainerEngine f = Inr None \<or> RecordedContainerEngine f = Inr (Some engine)"
    using assms(1) by (auto simp: localContainerEngine_def Let_def split: if_splits sum.splits option.splits)
  then have rec: "RecordedContainerEngine f' = Inr (Some engine)"
    using record_then_recorded [OF _ assms(2) ne] recorded_stays [OF _ assms(2) ne] by auto
  with E show ?thesis by (auto simp: localContainerEngine_def Let_def)
qed

definition demo_host :: "bool \<Rightarrow> bool \<Rightarrow> engine_host" where
  "demo_host podman docker =
     \<lparr>eh_docker_path = (if docker then None else Some (Plain ''not found'')),
      eh_docker_info = Inr ''linux 29.1.0'', eh_docker_version = Inr ''Docker version 29.1.0'',
      eh_podman_on_path = podman, eh_windows = False, eh_podman_resolvable = None,
      eh_error_text = (\<lambda>_. [])\<rparr>"

text \<open>Docker is recorded while Podman is missing; Podman appears later and stays unused.\<close>

lemma engine_is_sticky_witness:
  "localContainerEngine \<lparr>ef_marker = EngineMarker ''docker'', ef_data = PathMissing\<rparr> ''podman'' ''linux'' ''amd64''
     (DetectContainerEngine (demo_host True True)) = Inr ''docker''"
proof -
  have "localContainerEngine \<lparr>ef_marker = NoMarker, ef_data = PathMissing\<rparr> [] ''linux'' ''amd64''
      (DetectContainerEngine (demo_host False True)) = Inr ''docker''"
    by code_simp
  moreover have "recordContainerEngine None ''docker'' \<lparr>ef_marker = NoMarker, ef_data = PathMissing\<rparr>
      = (\<lparr>ef_marker = EngineMarker ''docker'', ef_data = PathMissing\<rparr>, None)"
    by (simp add: recordContainerEngine_def)
  ultimately show ?thesis using engine_is_sticky by blast
qed

end
