(* ===== verification/Local_Ports.thy ===== *)
theory Local_Ports
  imports Lifecycle_Status
begin

text \<open>
  The host ports of the local services: \<^verbatim>\<open>src/internal/deploy/local_ports.go\<close>. The deployment's
  configuration maps services to host ports; a port of 0, or no entry, asks for one that is free on every
  loopback address. The allocator holds the listeners of the ports it found until it has found all
  of them, and then closes them.

  The operating system is a parameter: \<open>pa_lookupIP\<close> is what resolving \<^verbatim>\<open>localhost\<close> gives, \<open>pa_listen\<close>
  tells which addresses other processes leave free. The addresses this process listens on are the
  state of the operations, the newest first.
\<close>

section \<open>Addresses\<close>

text \<open>\<^verbatim>\<open>net.IPAddr\<close>: the bytes of the address, \<^const>\<open>None\<close> for Go's \<^verbatim>\<open>nil\<close>, and the zone.\<close>

record IPAddr =
  ia_IP :: "nat list option"
  ia_Zone :: string

text \<open>\<^verbatim>\<open>To4\<close>, \<^verbatim>\<open>IsLoopback\<close> and \<^verbatim>\<open>String\<close> of \<^verbatim>\<open>net.IP\<close>. The text is used of loopback addresses only: a
  dotted quad or \<^verbatim>\<open>::1\<close>.\<close>

definition To4 :: "nat list \<Rightarrow> nat list option" where
  "To4 ip =
     (if length ip = 4 then Some ip
      else if length ip = 16 \<and> take 12 ip = replicate 10 0 @ [255, 255] then Some (drop 12 ip)
      else None)"

definition IPv6loopback :: "nat list" where
  "IPv6loopback = replicate 15 0 @ [1]"

definition IsLoopback :: "nat list \<Rightarrow> bool" where
  "IsLoopback ip = (case To4 ip of Some q \<Rightarrow> hd q = 127 | None \<Rightarrow> ip = IPv6loopback)"

definition IP_String :: "nat list \<Rightarrow> string" where
  "IP_String ip =
     (case To4 ip of Some q \<Rightarrow> Join (map (\<lambda>b. Itoa (int b)) q) ''.'' | None \<Rightarrow> ''::1'')"

section \<open>Services and the allocator\<close>

definition localMinimumAutomaticPort :: int where "localMinimumAutomaticPort = 1024"

definition localMaximumPort :: int where "localMaximumPort = 65535"

definition localDatabasePort :: int where "localDatabasePort = 8563"

definition localDatabaseService :: string where "localDatabaseService = ''db''"

record localService =
  ls_name :: string
  ls_guestPort :: int
  ls_defaultHostPort :: int

definition localServiceCatalog :: "localService list" where
  "localServiceCatalog =
     [\<lparr>ls_name = localDatabaseService, ls_guestPort = localDatabasePort, ls_defaultHostPort = localDatabasePort\<rparr>]"

record localPortAllocator =
  pa_lookupIP :: "(go_error, IPAddr list) result"
  pa_listen :: "string \<Rightarrow> bool"
  pa_minimumPort :: int
  pa_maximumPort :: int

definition newLocalPortAllocator ::
  "(go_error, IPAddr list) result \<Rightarrow> (string \<Rightarrow> bool) \<Rightarrow> localPortAllocator" where
  "newLocalPortAllocator lookup listens =
     \<lparr>pa_lookupIP = lookup, pa_listen = listens,
      pa_minimumPort = localMinimumAutomaticPort, pa_maximumPort = localMaximumPort\<rparr>"

type_synonym listeners = "string list"

section \<open>Parsing and formatting\<close>

fun parse_entries ::
  "string list \<Rightarrow> (string \<times> int) list \<Rightarrow> string list \<Rightarrow> (go_error, (string \<times> int) list \<times> string list) result" where
  "parse_entries [] mappings order = Inr (mappings, order)"
| "parse_entries (raw # rest) mappings order =
     (let entry = TrimSpace raw in
      case Cut entry '':'' of
        None \<Rightarrow> Inl (Plain (''invalid local port mapping '' @ Quote entry @ ''; expected <service>:<port>''))
      | Some (s, p) \<Rightarrow>
          (let service = TrimSpace s; rawPort = TrimSpace p in
           if service = [] \<or> rawPort = [] then
             Inl (Plain (''invalid local port mapping '' @ Quote entry @ ''; expected <service>:<port>''))
           else if map_of mappings service \<noteq> None then
             Inl (Plain (''local service '' @ Quote service @ '' is configured more than once''))
           else case Atoi rawPort of
               None \<Rightarrow> Inl (Plain (''invalid local port '' @ Quote rawPort @ '' for service '' @ Quote service))
             | Some port \<Rightarrow>
                 if port < 0 \<or> port > localMaximumPort then
                   Inl (Plain (''invalid local port '' @ Quote rawPort @ '' for service '' @ Quote service))
                 else parse_entries rest (mappings @ [(service, port)]) (order @ [service])))"

definition parseLocalPortMappings ::
  "string \<Rightarrow> (go_error, (string \<times> int) list \<times> string list) result" where
  "parseLocalPortMappings raw0 =
     (let raw = TrimSpace raw0 in
      if raw = [] \<or> EqualFold raw ''auto'' then Inr ([], [])
      else parse_entries (SplitByte raw CHR '','') [] [])"

text \<open>The catalog's services first, then the order of the configuration, then what is left, sorted.\<close>

definition ordered_services ::
  "(string \<times> int) list \<Rightarrow> localService list \<Rightarrow> string list \<Rightarrow> string list" where
  "ordered_services mappings services originalOrder =
     (let known = filter (\<lambda>n. map_of mappings n \<noteq> None) (map ls_name services);
          later = fold (\<lambda>s acc. if s \<in> set acc then acc else acc @ [s]) originalOrder known;
          remaining = sort (filter (\<lambda>s. s \<notin> set later) (map fst mappings))
      in later @ remaining)"

definition formatLocalPortMappings ::
  "(string \<times> int) list \<Rightarrow> localService list \<Rightarrow> string list \<Rightarrow> string" where
  "formatLocalPortMappings mappings services originalOrder =
     Join (map (\<lambda>s. s @ '':'' @ Itoa (case map_of mappings s of Some p \<Rightarrow> p | None \<Rightarrow> 0))
       (ordered_services mappings services originalOrder)) '',''"

section \<open>Allocation\<close>

fun loopback_loop :: "IPAddr list \<Rightarrow> string list \<Rightarrow> IPAddr list" where
  "loopback_loop [] seen = []"
| "loopback_loop (a # rest) seen =
     (case ia_IP a of
        None \<Rightarrow> loopback_loop rest seen
      | Some ip \<Rightarrow>
          if \<not> IsLoopback ip then loopback_loop rest seen
          else (let key = IP_String ip @ ''%'' @ ia_Zone a in
                if key \<in> set seen then loopback_loop rest seen
                else a # loopback_loop rest (key # seen)))"

definition loopbackAddresses :: "localPortAllocator \<Rightarrow> (go_error, IPAddr list) result" where
  "loopbackAddresses al =
     (case pa_lookupIP al of
        Inl e \<Rightarrow> Inl (Wrap ''failed to resolve localhost for local port allocation'' e)
      | Inr addresses \<Rightarrow>
          (let loopbacks = loopback_loop addresses [] in
           if loopbacks = [] then Inl (Plain ''localhost resolved to no loopback addresses'')
           else Inr loopbacks))"

definition listen_address :: "IPAddr \<Rightarrow> int \<Rightarrow> string" where
  "listen_address a port =
     (let ip = (case ia_IP a of Some ip \<Rightarrow> IP_String ip | None \<Rightarrow> ''<nil>'');
          host = (if ia_Zone a \<noteq> [] then ip @ ''%'' @ ia_Zone a else ip)
      in JoinHostPort host (Itoa port))"

text \<open>\<^verbatim>\<open>Listen\<close> fails on an address in use, also by this process; \<^verbatim>\<open>Close\<close> frees it.\<close>

definition Listen :: "localPortAllocator \<Rightarrow> string \<Rightarrow> listeners \<Rightarrow> listeners option" where
  "Listen al address s = (if pa_listen al address \<and> address \<notin> set s then Some (address # s) else None)"

definition close_all :: "listeners \<Rightarrow> listeners \<Rightarrow> listeners" where
  "close_all ls s = fold remove1 ls s"

fun listen_loop ::
  "localPortAllocator \<Rightarrow> int \<Rightarrow> IPAddr list \<Rightarrow> listeners \<Rightarrow> listeners \<Rightarrow> listeners \<times> listeners option" where
  "listen_loop al port [] listeners s = (s, Some listeners)"
| "listen_loop al port (a # rest) listeners s =
     (case Listen al (listen_address a port) s of
        None \<Rightarrow> (close_all listeners s, None)
      | Some s' \<Rightarrow> listen_loop al port rest (listeners @ [listen_address a port]) s')"

definition tryPort ::
  "localPortAllocator \<Rightarrow> int \<Rightarrow> IPAddr list \<Rightarrow> (int \<times> string) list \<Rightarrow> listeners \<Rightarrow> listeners \<times> listeners option" where
  "tryPort al port addresses reserved s =
     (if map_of reserved port \<noteq> None then (s, None) else listen_loop al port addresses [] s)"

text \<open>One of the two loops of \<^verbatim>\<open>selectPort\<close>: the ports from \<open>port\<close> to \<open>last\<close>.\<close>

function try_ports ::
  "localPortAllocator \<Rightarrow> IPAddr list \<Rightarrow> (int \<times> string) list \<Rightarrow> int \<Rightarrow> int \<Rightarrow> listeners
    \<Rightarrow> listeners \<times> (int \<times> listeners) option" where
  "try_ports al addresses reserved port last_port s =
     (if port \<le> last_port then
        case tryPort al port addresses reserved s of
          (s', Some ls) \<Rightarrow> (s', Some (port, ls))
        | (s', None) \<Rightarrow> try_ports al addresses reserved (port + 1) last_port s'
      else (s, None))"
  by pat_completeness auto
termination
  by (relation "measure (\<lambda>(_, _, _, port, last_port, _). nat (last_port - port + 1))") auto

declare try_ports.simps [simp del]

definition selectPort ::
  "localPortAllocator \<Rightarrow> localService \<Rightarrow> IPAddr list \<Rightarrow> (int \<times> string) list \<Rightarrow> listeners
    \<Rightarrow> listeners \<times> (go_error, int \<times> listeners) result" where
  "selectPort al service addresses reserved s =
     (let d = ls_defaultHostPort service in
      if d < pa_minimumPort al \<or> d > pa_maximumPort al then
        (s, Inl (Plain (''local service '' @ Quote (ls_name service) @ '' has invalid default host port '' @ Itoa d)))
      else case try_ports al addresses reserved d (pa_maximumPort al) s of
          (s1, Some r) \<Rightarrow> (s1, Inr r)
        | (s1, None) \<Rightarrow>
            (case try_ports al addresses reserved (pa_minimumPort al) (d - 1) s1 of
               (s2, Some r) \<Rightarrow> (s2, Inr r)
             | (s2, None) \<Rightarrow>
                 (s2, Inl (Plain (''no usable host port is available for local service '' @ Quote (ls_name service)
                    @ '' in range '' @ Itoa (pa_minimumPort al) @ ''-'' @ Itoa (pa_maximumPort al))))))"

fun reserve_loop :: "(string \<times> int) list \<Rightarrow> (int \<times> string) list \<Rightarrow> (go_error, (int \<times> string) list) result" where
  "reserve_loop [] reserved = Inr reserved"
| "reserve_loop ((service, port) # rest) reserved =
     (if port \<le> 0 then reserve_loop rest reserved
      else case map_of reserved port of
          Some other \<Rightarrow>
            if other \<noteq> service then
              Inl (Plain (''local services '' @ Quote other @ '' and '' @ Quote service
                @ '' use the same host port '' @ Itoa port))
            else reserve_loop rest (map_put port service reserved)
        | None \<Rightarrow> reserve_loop rest (map_put port service reserved))"

fun allocate_loop ::
  "localPortAllocator \<Rightarrow> localService list \<Rightarrow> IPAddr list option \<Rightarrow> (string \<times> int) list \<Rightarrow> (int \<times> string) list
    \<Rightarrow> listeners \<Rightarrow> listeners \<Rightarrow> listeners \<times> listeners \<times> (go_error, (string \<times> int) list) result" where
  "allocate_loop al [] addresses mappings reserved held s = (s, held, Inr mappings)"
| "allocate_loop al (service # rest) addresses mappings reserved held s =
     (if (case map_of mappings (ls_name service) of Some p \<Rightarrow> p > 0 | None \<Rightarrow> False)
      then allocate_loop al rest addresses mappings reserved held s
      else case (case addresses of None \<Rightarrow> loopbackAddresses al | Some found \<Rightarrow> Inr found) of
          Inl e \<Rightarrow> (s, held, Inl e)
        | Inr found \<Rightarrow>
            (case selectPort al service found reserved s of
               (s', Inl e) \<Rightarrow> (s', held, Inl e)
             | (s', Inr (port, ls)) \<Rightarrow>
                 allocate_loop al rest (Some found) (map_put (ls_name service) port mappings)
                   (map_put port (ls_name service) reserved) (held @ ls) s'))"

definition unknown_automatic :: "localService list \<Rightarrow> (string \<times> int) list \<Rightarrow> string option" where
  "unknown_automatic services mappings =
     map_option fst (List.find (\<lambda>(service, port). service \<notin> set (map ls_name services) \<and> port = 0) mappings)"

definition resolve ::
  "localPortAllocator \<Rightarrow> string \<Rightarrow> localService list \<Rightarrow> listeners \<Rightarrow> listeners \<times> (go_error, string) result" where
  "resolve al raw services s =
     (case parseLocalPortMappings raw of
        Inl e \<Rightarrow> (s, Inl e)
      | Inr (mappings, order) \<Rightarrow>
          (case reserve_loop mappings [] of
             Inl e \<Rightarrow> (s, Inl e)
           | Inr reserved \<Rightarrow>
               (case allocate_loop al services None mappings reserved [] s of
                  (s', held, Inl e) \<Rightarrow> (close_all held s', Inl e)
                | (s', held, Inr allocated) \<Rightarrow>
                    (close_all held s',
                     (case unknown_automatic services allocated of
                        Some service \<Rightarrow>
                          Inl (Plain (''cannot automatically allocate unknown local service '' @ Quote service))
                      | None \<Rightarrow> Inr (formatLocalPortMappings allocated services order))))))"

section \<open>The listeners\<close>

lemma close_all_filter: "distinct s \<Longrightarrow> close_all ls s = filter (\<lambda>a. a \<notin> set ls) s"
proof (induction ls arbitrary: s)
  case (Cons l ls)
  have "close_all (l # ls) s = close_all ls (remove1 l s)" by (simp add: close_all_def)
  also have "\<dots> = filter (\<lambda>a. a \<notin> set ls) (remove1 l s)" using Cons by simp
  also have "remove1 l s = filter (\<lambda>a. a \<noteq> l) s"
    using Cons.prems by (simp add: distinct_remove1_removeAll removeAll_filter_not_eq) (metis (lifting))
  finally show ?case by (simp add: conj_commute)
qed (simp add: close_all_def)

lemma close_all_held: "distinct (rev ls @ s) \<Longrightarrow> close_all ls (rev ls @ s) = s"
  by (subst close_all_filter) (auto simp: filter_empty_conv filter_id_conv)

lemma listen_loop_state:
  assumes "listen_loop al port as ls s = (s', r)" and "s = rev ls @ s0" and "distinct s"
  shows "case r of None \<Rightarrow> s' = s0 | Some ls' \<Rightarrow> s' = rev ls' @ s0 \<and> distinct s'"
  using assms
proof (induction al port as ls s rule: listen_loop.induct)
  case (2 al port a rest ls s)
  show ?case
  proof (cases "Listen al (listen_address a port) s")
    case None
    with 2 show ?thesis using close_all_held [of ls s0] by auto
  next
    case (Some t)
    then have "t = listen_address a port # s" "listen_address a port \<notin> set s"
      by (auto simp: Listen_def split: if_splits)
    with 2 Some show ?thesis by auto
  qed
qed auto

lemma tryPort_state:
  assumes "tryPort al port as reserved s = (s', r)" and "distinct s"
  shows "case r of None \<Rightarrow> s' = s
    | Some ls \<Rightarrow> s' = rev ls @ s \<and> distinct s' \<and> map_of reserved port = None"
  using assms listen_loop_state [of al port as "[]" s s' r s]
  by (auto simp: tryPort_def split: if_splits option.splits)

lemma try_ports_state:
  assumes "try_ports al as reserved lo hi s = (s', r)" and "distinct s"
  shows "case r of None \<Rightarrow> s' = s
    | Some (port, ls) \<Rightarrow> lo \<le> port \<and> port \<le> hi \<and> map_of reserved port = None \<and> s' = rev ls @ s \<and> distinct s'"
  using assms
proof (induction al as reserved lo hi s arbitrary: s' rule: try_ports.induct)
  case (1 al as reserved lo hi s)
  obtain t q where t: "tryPort al lo as reserved s = (t, q)" by fastforce
  note st = tryPort_state [OF t "1.prems"(2)]
  show ?case
  proof (cases "lo \<le> hi")
    case False
    with "1.prems" show ?thesis by (subst (asm) try_ports.simps) auto
  next
    case True
    show ?thesis
    proof (cases q)
      case None
      with st have "t = s" by simp
      with "1.prems" True t None have "try_ports al as reserved (lo + 1) hi s = (s', r)"
        by (subst (asm) try_ports.simps) auto
      from "1.IH" [OF True t [symmetric] None, unfolded \<open>t = s\<close>, OF this "1.prems"(2)]
      show ?thesis by (auto split: option.splits)
    next
      case (Some ls)
      with "1.prems" True t have "s' = t" "r = Some (lo, ls)"
        by (subst (asm) try_ports.simps; auto)+
      have "t = rev ls @ s \<and> distinct t \<and> map_of reserved lo = None"
        using st unfolding Some option.case .
      with True show ?thesis unfolding \<open>s' = t\<close> \<open>r = _\<close> option.case prod.case by blast
    qed
  qed
qed

lemma selectPort_state:
  assumes "selectPort al service as reserved s = (s', r)" and "distinct s"
  shows "case r of Inl _ \<Rightarrow> s' = s
    | Inr (port, ls) \<Rightarrow> pa_minimumPort al \<le> port \<and> port \<le> pa_maximumPort al
        \<and> map_of reserved port = None \<and> s' = rev ls @ s \<and> distinct s'"
proof -
  let ?d = "ls_defaultHostPort service"
  obtain s1 r1 where t1: "try_ports al as reserved ?d (pa_maximumPort al) s = (s1, r1)" by fastforce
  obtain s2 r2 where t2: "try_ports al as reserved (pa_minimumPort al) (?d - 1) s1 = (s2, r2)" by fastforce
  note st1 = try_ports_state [OF t1 assms(2)]
  show ?thesis
  proof (cases "?d < pa_minimumPort al \<or> ?d > pa_maximumPort al")
    case False
    show ?thesis
    proof (cases r1)
      case None
      with st1 have "s1 = s" by simp
      with try_ports_state [OF t2] assms(2)
      have r2: "case r2 of None \<Rightarrow> s2 = s | Some (port, ls) \<Rightarrow> pa_minimumPort al \<le> port \<and> port \<le> ?d - 1
        \<and> map_of reserved port = None \<and> s2 = rev ls @ s \<and> distinct s2" by blast
      with assms(1) t1 t2 None False show ?thesis
        by (cases r2) (auto simp: selectPort_def Let_def)
    next
      case (Some q)
      with st1 assms(1) t1 False show ?thesis by (auto simp: selectPort_def Let_def)
    qed
  qed (use assms in \<open>auto simp: selectPort_def\<close>)
qed

section \<open>What parsing returns\<close>

definition service_name :: "string \<Rightarrow> bool" where
  "service_name n \<longleftrightarrow> n \<noteq> [] \<and> TrimSpace n = n \<and> CHR '':'' \<notin> set n \<and> CHR '','' \<notin> set n"

definition port_map :: "(string \<times> int) list \<Rightarrow> bool" where
  "port_map m \<longleftrightarrow> distinct (map fst m)
     \<and> list_all (\<lambda>(n, p). service_name n \<and> 0 \<le> p \<and> p \<le> localMaximumPort) m"

lemma parse_entries_port_map:
  assumes "parse_entries ws m order = Inr (m', order')" and "list_all (\<lambda>w. CHR '','' \<notin> set w) ws"
    and "port_map m" and "order = map fst m"
  shows "port_map m' \<and> order' = map fst m'"
  using assms
proof (induction ws m order rule: parse_entries.induct)
  case (2 raw rest m order)
  let ?e = "TrimSpace raw"
  obtain s p where cut: "Cut ?e '':'' = Some (s, p)"
    using "2.prems"(1) by (auto simp: Let_def split: option.splits)
  let ?n = "TrimSpace s" let ?r = "TrimSpace p"
  have n: "?n \<noteq> []" "?r \<noteq> []" "map_of m ?n = None"
    using "2.prems"(1) cut by (auto simp: Let_def split: if_splits)
  obtain port where port: "Atoi ?r = Some port"
    using "2.prems"(1) cut n by (auto simp: Let_def split: option.splits)
  have bound: "0 \<le> port" "port \<le> localMaximumPort"
    and go: "parse_entries rest (m @ [(?n, port)]) (order @ [?n]) = Inr (m', order')"
    using "2.prems"(1) cut n port by (auto simp: Let_def split: if_splits)
  have "set ?n \<subseteq> set s" "CHR '':'' \<notin> set s" "set s \<subseteq> set raw"
    using set_TrimSpace [of s] set_TrimSpace [of raw] Cut_byte_Some [OF cut] by auto
  with "2.prems"(2) n have "service_name ?n" by (auto simp: service_name_def)
  moreover have "?n \<notin> fst ` set m" using n(3) by (simp add: map_of_eq_None_iff)
  ultimately have pm: "port_map (m @ [(?n, port)])"
    using "2.prems"(3) bound by (auto simp: port_map_def)
  have len: "\<not> (port < 0 \<or> port > localMaximumPort)" using bound by simp
  have ne: "\<not> (?n = [] \<or> ?r = [])" "\<not> map_of m ?n \<noteq> None" using n by auto
  show ?case
    using "2.IH" [OF refl cut refl refl refl ne port len go] "2.prems"(2,4) pm by simp
qed auto

lemma parse_port_map:
  assumes "parseLocalPortMappings raw = Inr (m, order)"
  shows "port_map m \<and> order = map fst m"
proof (cases "TrimSpace raw = [] \<or> EqualFold (TrimSpace raw) ''auto''")
  case True
  with assms show ?thesis by (auto simp: parseLocalPortMappings_def port_map_def Let_def)
next
  case False
  with assms have "parse_entries (SplitByte (TrimSpace raw) CHR '','') [] [] = Inr (m, order)"
    by (simp add: parseLocalPortMappings_def Let_def)
  moreover have "list_all (\<lambda>w. CHR '','' \<notin> set w) (SplitByte (TrimSpace raw) CHR '','')"
    by (auto simp: list_all_iff dest: SplitByte_pieces)
  ultimately show ?thesis by (rule parse_entries_port_map) (simp_all add: port_map_def)
qed

section \<open>Parsing what was formatted\<close>

definition port_entry :: "string \<times> int \<Rightarrow> string" where
  "port_entry = (\<lambda>(n, p). n @ '':'' @ Itoa p)"

lemma digit_not: "is_digit c \<Longrightarrow> \<not> is_space c \<and> c \<noteq> CHR '','' \<and> c \<noteq> CHR '':''"
  by (auto simp: is_digit_def is_space_code)

lemma Itoa_chars:
  assumes "0 \<le> p"
  shows "\<forall>c \<in> set (Itoa p). \<not> is_space c \<and> c \<noteq> CHR '','' \<and> c \<noteq> CHR '':''"
  using Itoa_nat_digits [OF assms] digit_not by (auto simp: list_all_iff)

lemma port_entry_trim:
  assumes "service_name n" and "0 \<le> p"
  shows "TrimSpace (port_entry (n, p)) = port_entry (n, p)"
proof (rule TrimSpace_id)
  from assms(1) have "hd (TrimSpace n) = hd n" "TrimSpace n \<noteq> []" by (simp_all add: service_name_def)
  with TrimSpace_ends(1) [of n] have "\<not> is_space (hd n)" by metis
  moreover have "\<not> is_space (last (Itoa p))" using Itoa_chars [OF assms(2)] by (simp add: last_in_set)
  ultimately show "port_entry (n, p) = [] \<or> \<not> is_space (hd (port_entry (n, p)))
      \<and> \<not> is_space (last (port_entry (n, p)))"
    using assms(1) by (simp add: port_entry_def service_name_def)
qed

lemma parse_entries_format:
  assumes "port_map (m @ m2)"
  shows "parse_entries (map port_entry m2) m (map fst m) = Inr (m @ m2, map fst (m @ m2))"
  using assms
proof (induction m2 arbitrary: m)
  case (Cons e m2)
  obtain n p where e: "e = (n, p)" by fastforce
  from Cons.prems e have n: "service_name n" and p: "0 \<le> p" "p \<le> localMaximumPort"
    and new: "map_of m n = None"
    by (auto simp: port_map_def map_of_eq_None_iff)
  have cut: "Cut (TrimSpace (port_entry e)) '':'' = Some (n, Itoa p)"
    using port_entry_trim [OF n p(1)] n by (simp add: e port_entry_def service_name_def Cut_byte)
  have trim: "TrimSpace n = n" "TrimSpace (Itoa p) = Itoa p" "n \<noteq> []"
    using n Itoa_chars [OF p(1)] TrimSpace_no_space by (auto simp: service_name_def)
  have "p \<le> max_int64" using p by (simp add: localMaximumPort_def max_int64_def)
  then have "Atoi (Itoa p) = Some p" using Atoi_Itoa p by blast
  then have "parse_entries (map port_entry (e # m2)) m (map fst m)
      = parse_entries (map port_entry m2) (m @ [(n, p)]) (map fst (m @ [(n, p)]))"
    using cut trim new p by (simp add: Let_def e)
  also have "\<dots> = Inr ((m @ [(n, p)]) @ m2, map fst ((m @ [(n, p)]) @ m2))"
    using Cons.prems e by (intro Cons.IH) simp
  finally show ?case by (simp add: e)
qed simp

lemma Join_ends:
  "ws \<noteq> [] \<Longrightarrow> list_all (\<lambda>w. w \<noteq> [] \<and> \<not> is_space (hd w) \<and> \<not> is_space (last w)) ws
    \<Longrightarrow> Join ws sep \<noteq> [] \<and> hd (Join ws sep) = hd (hd ws) \<and> last (Join ws sep) = last (last ws)"
  by (induction ws sep rule: Join.induct) auto

lemma set_subset_Join: "w \<in> set ws \<Longrightarrow> set w \<subseteq> set (Join ws sep)"
  by (induction ws sep rule: Join.induct) auto

lemma parse_format:
  assumes "port_map m"
  shows "parseLocalPortMappings (Join (map port_entry m) '','') = Inr (m, map fst m)"
proof (cases "m = []")
  case True
  then show ?thesis by (simp add: parseLocalPortMappings_def TrimSpace_def)
next
  case False
  let ?t = "Join (map port_entry m) '',''"
  have ok: "service_name n \<and> 0 \<le> p" if "(n, p) \<in> set m" for n p
    using assms that by (auto simp: port_map_def list_all_iff)
  have all: "list_all (\<lambda>w. w \<noteq> [] \<and> \<not> is_space (hd w) \<and> \<not> is_space (last w)) (map port_entry m)"
  proof -
    have "port_entry (n, p) \<noteq> []" for n p by (simp add: port_entry_def)
    with ok port_entry_trim TrimSpace_ends show ?thesis by (auto simp: list_all_iff) metis+
  qed
  have last_ok: "hd (map port_entry m) \<in> set (map port_entry m)" "last (map port_entry m) \<in> set (map port_entry m)"
    using False by (auto simp del: set_map)
  have trim: "TrimSpace ?t = ?t"
    using Join_ends [OF _ all, of "'',''"] all last_ok False
    by (intro TrimSpace_id) (auto simp: list_all_iff)
  have colon: "CHR '':'' \<in> set ?t"
    using set_subset_Join [OF last_ok(1), of "'',''"] False by (cases m) (auto simp: port_entry_def)
  have not_auto: "\<not> EqualFold ?t ''auto''"
  proof
    assume "EqualFold ?t ''auto''"
    then have "lower_char CHR '':'' \<in> set (ToLower ''auto'')"
      using colon by (metis EqualFold_def ToLower_def image_eqI list.set_map)
    then show False by (simp add: ToLower_def lower_char_def is_upper_def)
  qed
  have "\<forall>w \<in> set (map port_entry m). CHR '','' \<notin> set w"
    using ok Itoa_chars by (auto simp: port_entry_def service_name_def)
  then have "SplitByte ?t CHR '','' = map port_entry m"
    using False by (intro SplitByte_Join) auto
  then show ?thesis
    using trim colon not_auto parse_entries_format [of "[]" m] assms
    by (auto simp: parseLocalPortMappings_def Let_def)
qed

section \<open>What formatting writes\<close>

definition formatted_map :: "(string \<times> int) list \<Rightarrow> localService list \<Rightarrow> string list \<Rightarrow> (string \<times> int) list" where
  "formatted_map m services order =
     map (\<lambda>s. (s, case map_of m s of Some p \<Rightarrow> p | None \<Rightarrow> 0)) (ordered_services m services order)"

lemma formatLocalPortMappings_map:
  "formatLocalPortMappings m services order = Join (map port_entry (formatted_map m services order)) '',''"
  by (simp add: formatLocalPortMappings_def formatted_map_def port_entry_def comp_def)

lemma fold_later:
  "distinct known \<Longrightarrow> distinct (fold (\<lambda>s acc. if s \<in> set acc then acc else acc @ [s]) order known)
     \<and> set (fold (\<lambda>s acc. if s \<in> set acc then acc else acc @ [s]) order known) = set known \<union> set order"
  by (induction order arbitrary: known) auto

lemma ordered_services_set:
  assumes "distinct (map ls_name services)" and "distinct (map fst m)" and "set order \<subseteq> fst ` set m"
  shows "distinct (ordered_services m services order)
    \<and> set (ordered_services m services order) = fst ` set m"
proof -
  let ?known = "filter (\<lambda>n. map_of m n \<noteq> None) (map ls_name services)"
  have "set ?known \<subseteq> fst ` set m" by (auto simp: map_of_eq_None_iff)
  moreover have "distinct ?known" using assms(1) by (simp only: distinct_filter)
  ultimately show ?thesis
    using fold_later [of ?known order] assms(2,3)
    by (auto simp: ordered_services_def Let_def)
qed

lemma formatted_map_same:
  assumes "distinct (map ls_name services)" and "port_map m" and "set order \<subseteq> fst ` set m"
  shows "port_map (formatted_map m services order) \<and> set (formatted_map m services order) = set m"
proof -
  from assms(2) have d: "distinct (map fst m)" by (simp add: port_map_def)
  note os = ordered_services_set [OF assms(1) d assms(3)]
  have "set (formatted_map m services order)
      = (\<lambda>s. (s, case map_of m s of Some p \<Rightarrow> p | None \<Rightarrow> 0)) ` (fst ` set m)"
    using os by (simp add: formatted_map_def)
  also have "\<dots> = (\<lambda>e. e) ` set m"
    unfolding image_image using d by (intro image_cong) (auto simp: map_of_eq_Some_iff [THEN iffD2])
  finally have eq: "set (formatted_map m services order) = set m" by simp
  have "map fst (formatted_map m services order) = ordered_services m services order"
    by (simp add: formatted_map_def comp_def)
  with os eq assms(2) show ?thesis by (simp add: port_map_def list_all_iff)
qed

section \<open>What allocation returns\<close>

definition reserves :: "(int \<times> string) list \<Rightarrow> (string \<times> int) list \<Rightarrow> bool" where
  "reserves reserved m \<longleftrightarrow> (\<forall>n p. map_of m n = Some p \<and> 0 < p \<longrightarrow> map_of reserved p = Some n)"

lemma reserve_loop_keeps:
  assumes "reserve_loop m r = Inr r'"
  shows "(\<forall>p n. map_of r p = Some n \<longrightarrow> map_of r' p = Some n)
    \<and> (\<forall>(n, p) \<in> set m. 0 < p \<longrightarrow> map_of r' p = Some n)"
  using assms
proof (induction m r rule: reserve_loop.induct)
  case (2 service port rest r)
  show ?case
  proof (cases "port \<le> 0")
    case False
    with "2.prems" have same: "map_of r port = None \<or> map_of r port = Some service"
      and go: "reserve_loop rest (map_put port service r) = Inr r'"
      by (auto split: if_splits option.splits)
    from False same go "2.IH"(2,3)
    have "(\<forall>p n. map_of (map_put port service r) p = Some n \<longrightarrow> map_of r' p = Some n)
      \<and> (\<forall>(n, p) \<in> set rest. 0 < p \<longrightarrow> map_of r' p = Some n)" by auto
    then have ih: "\<And>p n. map_of (map_put port service r) p = Some n \<Longrightarrow> map_of r' p = Some n"
      and mem: "\<forall>(n, p) \<in> set rest. 0 < p \<longrightarrow> map_of r' p = Some n" by blast+
    have "map_of r' p = Some n" if "map_of r p = Some n" for p n
      using ih [of p n] that same by (cases "p = port") auto
    moreover have "map_of r' port = Some service" using ih [of port service] by simp
    ultimately show ?thesis using mem by auto
  qed (use 2 in auto)
qed auto

lemma reserve_loop_reserves: "reserve_loop m [] = Inr r \<Longrightarrow> reserves r m"
  using reserve_loop_keeps [of m "[]" r] by (fastforce simp: reserves_def dest: map_of_SomeD)

lemma reserves_put:
  assumes "reserves r m" and "map_of r p = None"
  shows "reserves (map_put p n r) (map_put n p m)"
  using assms by (auto simp: reserves_def)

lemma port_map_put:
  assumes "port_map m" and "service_name n" and "0 \<le> p" "p \<le> localMaximumPort"
  shows "port_map (map_put n p m)"
proof -
  have "distinct (map fst (filter (\<lambda>(k', _). k' \<noteq> n) m))"
    using assms(1) by (auto simp: port_map_def distinct_map_filter)
  with assms show ?thesis by (auto simp: port_map_def map_put_def list_all_iff)
qed

lemma allocate_loop_state:
  assumes "allocate_loop al services addresses m reserved held s = (s', held', r)"
    and "s = rev held @ s0" and "distinct s"
  shows "s' = rev held' @ s0 \<and> distinct s'"
  using assms
proof (induction al services addresses m reserved held s rule: allocate_loop.induct)
  case (2 al service rest addresses m reserved held s)
  show ?case
  proof (cases "case map_of m (ls_name service) of Some p \<Rightarrow> p > 0 | None \<Rightarrow> False")
    case True
    then have "allocate_loop al rest addresses m reserved held s = (s', held', r)"
      using "2.prems"(1) by simp
    from "2.IH"(1) [OF True this "2.prems"(2,3)] show ?thesis .
  next
    case False
    show ?thesis
    proof (cases "case addresses of None \<Rightarrow> loopbackAddresses al | Some found \<Rightarrow> Inr found")
      case (Inl e)
      with False "2.prems"(1) have "s' = s" "held' = held" by simp_all
      then show ?thesis using "2.prems"(2,3) by blast
    next
      case (Inr found)
      obtain t q where t: "selectPort al service found reserved s = (t, q)" by fastforce
      note st = selectPort_state [OF t "2.prems"(3)]
      show ?thesis
      proof (cases q)
        case (Inl e)
        with False \<open>_ = Inr found\<close> t st "2.prems"(1) have "s' = s" "held' = held" by simp_all
        then show ?thesis using "2.prems"(2,3) by blast
      next
        case (Inr pl)
        obtain port ls where pl: "pl = (port, ls)" by fastforce
        from st have "t = rev ls @ s \<and> distinct t" unfolding Inr pl sum.case prod.case by blast
        then have t': "t = rev (held @ ls) @ s0" "distinct t" using "2.prems"(2) by auto
        have "allocate_loop al rest (Some found) (map_put (ls_name service) port m)
            (map_put port (ls_name service) reserved) (held @ ls) t = (s', held', r)"
          using False \<open>_ = Inr found\<close> t Inr pl "2.prems"(1) by simp
        from "2.IH"(2) [OF False \<open>_ = Inr found\<close> t [symmetric] Inr pl [symmetric] this t'] show ?thesis .
      qed
    qed
  qed
qed auto

lemma allocate_loop_ports:
  assumes "allocate_loop al services addresses m reserved held s = (s', held', Inr m')"
    and "distinct s" and "port_map m" and "reserves reserved m"
    and "list_all (\<lambda>sv. service_name (ls_name sv)) services"
    and "1 \<le> pa_minimumPort al" and "pa_maximumPort al \<le> localMaximumPort"
  shows "port_map m' \<and> (\<exists>reserved'. reserves reserved' m')
    \<and> fst ` set m' = fst ` set m \<union> ls_name ` set services
    \<and> (\<forall>n p. map_of m n = Some p \<and> 0 < p \<longrightarrow> map_of m' n = Some p)
    \<and> (\<forall>n p. map_of m' n = Some p
         \<longrightarrow> map_of m n = Some p \<or> pa_minimumPort al \<le> p \<and> p \<le> pa_maximumPort al)
    \<and> (\<forall>sv \<in> set services. map_of m' (ls_name sv) \<noteq> Some 0)"
  using assms
proof (induction al services addresses m reserved held s rule: allocate_loop.induct)
  case (2 al service rest addresses m reserved held s)
  let ?n = "ls_name service"
  show ?case
  proof (cases "case map_of m ?n of Some p \<Rightarrow> p > 0 | None \<Rightarrow> False")
    case True
    then obtain p where p: "map_of m ?n = Some p" "0 < p" by (auto split: option.splits)
    then have "?n \<in> fst ` set m" by (force dest: map_of_SomeD)
    from True "2.prems"(1) have go: "allocate_loop al rest addresses m reserved held s = (s', held', Inr m')"
      by simp
    have rest: "list_all (\<lambda>sv. service_name (ls_name sv)) rest" using "2.prems"(5) by simp
    note ih = "2.IH"(1) [OF True go "2.prems"(2-4) rest "2.prems"(6,7)]
    then have "map_of m' ?n = Some p" using p by blast
    with ih p \<open>?n \<in> _\<close> show ?thesis by (simp add: insert_absorb)
  next
    case False
    then obtain found where found: "(case addresses of None \<Rightarrow> loopbackAddresses al | Some f \<Rightarrow> Inr f) = Inr found"
      using "2.prems"(1) by (auto split: sum.splits)
    obtain t q where t: "selectPort al service found reserved s = (t, q)" by fastforce
    then obtain port ls where q: "q = Inr (port, ls)"
      using "2.prems"(1) False found by (auto split: sum.splits)
    have st: "pa_minimumPort al \<le> port" "port \<le> pa_maximumPort al" "map_of reserved port = None" "distinct t"
      using selectPort_state [OF t "2.prems"(2)] unfolding q sum.case prod.case by blast+
    let ?m = "map_put ?n port m" let ?r = "map_put port ?n reserved"
    have go: "allocate_loop al rest (Some found) ?m ?r (held @ ls) t = (s', held', Inr m')"
      using "2.prems"(1) False found t q by simp
    have pm: "port_map ?m" using "2.prems" st by (intro port_map_put) auto
    have rs: "reserves ?r ?m" using "2.prems"(4) st(3) by (rule reserves_put)
    have rest: "list_all (\<lambda>sv. service_name (ls_name sv)) rest" using "2.prems"(5) by simp
    note ih = "2.IH"(2) [OF False found t [symmetric] q refl go st(4) pm rs rest "2.prems"(6,7)]
    have keys: "fst ` set ?m = insert ?n (fst ` set m)" by (force simp: map_put_def)
    have old: "\<not> (\<exists>p. map_of m ?n = Some p \<and> 0 < p)" using False by (auto split: option.splits)
    have pos: "0 < port" using "2.prems"(6) st by simp
    have new: "map_of m' ?n = Some port" using ih pos by simp
    have keep: "\<forall>n p. map_of m n = Some p \<and> 0 < p \<longrightarrow> map_of m' n = Some p"
      using ih old by (metis map_of_put)
    have range: "\<forall>n p. map_of m' n = Some p
        \<longrightarrow> map_of m n = Some p \<or> pa_minimumPort al \<le> p \<and> p \<le> pa_maximumPort al"
      using ih new st by (metis map_of_put option.inject)
    have "fst ` set m' = fst ` set m \<union> ls_name ` set (service # rest)" using ih keys by auto
    moreover have "\<forall>sv \<in> set (service # rest). map_of m' (ls_name sv) \<noteq> Some 0"
      using ih new pos by auto
    ultimately show ?thesis using ih keep range by blast
  qed
qed auto

lemma distinct_ports:
  assumes "port_map m" and "reserves reserved m" and "list_all (\<lambda>(n, p). 1 \<le> p) m"
  shows "distinct (map snd m)"
proof -
  have d: "distinct (map fst m)" using assms(1) by (simp add: port_map_def)
  have "e = f" if e: "e \<in> set m" and f: "f \<in> set m" and eq: "snd e = snd f" for e f
  proof -
    from d e f have mo: "map_of m (fst e) = Some (snd e)" "map_of m (fst f) = Some (snd f)"
      by (auto simp: map_of_eq_Some_iff)
    from assms(3) e have pos: "0 < snd e" by (auto simp: list_all_iff)
    from assms(2) mo pos eq have "map_of reserved (snd e) = Some (fst e)" "map_of reserved (snd e) = Some (fst f)"
      unfolding reserves_def by metis+
    with eq show "e = f" by (simp add: prod_eq_iff)
  qed
  then have "inj_on snd (set m)" by (auto simp: inj_on_def)
  moreover have "distinct m" using d by (simp add: distinct_map)
  ultimately show ?thesis by (simp add: distinct_map)
qed

section \<open>The resolved mapping\<close>

lemma resolve_cases:
  assumes "resolve al raw services s = (s', r)" and "distinct s"
  shows "s' = s \<and> (\<forall>out. r = Inr out \<longrightarrow>
    (\<exists>configured reserved held t m. parseLocalPortMappings raw = Inr (configured, map fst configured)
      \<and> port_map configured \<and> reserves reserved configured
      \<and> allocate_loop al services None configured reserved [] s = (t, held, Inr m)
      \<and> unknown_automatic services m = None
      \<and> out = formatLocalPortMappings m services (map fst configured)))"
proof (cases "parseLocalPortMappings raw")
  case (Inl e)
  with assms show ?thesis by (auto simp: resolve_def)
next
  case (Inr mo)
  obtain configured order where mo: "mo = (configured, order)" by fastforce
  have pm: "port_map configured" "order = map fst configured"
    using parse_port_map Inr mo by auto
  show ?thesis
  proof (cases "reserve_loop configured []")
    case Inl': (Inl e)
    with assms Inr mo show ?thesis by (auto simp: resolve_def)
  next
    case Inr': (Inr reserved)
    obtain t held q where q: "allocate_loop al services None configured reserved [] s = (t, held, q)"
      by (metis prod_cases3)
    have "t = rev held @ s \<and> distinct t"
      by (rule allocate_loop_state [OF q _ assms(2)]) simp
    then have "close_all held t = s" by (metis close_all_held)
    with assms(1) Inr Inr' mo q pm reserve_loop_reserves [OF Inr'] show ?thesis
      by (cases q) (auto simp: resolve_def split: option.splits)
  qed
qed

lemma resolved_mapping:
  assumes "distinct s" and "list_all (\<lambda>sv. service_name (ls_name sv)) services"
    and "distinct (map ls_name services)"
    and "1 \<le> pa_minimumPort al" and "pa_maximumPort al \<le> localMaximumPort"
    and "resolve al raw services s = (s', r)"
  shows "s' = s \<and> (case r of Inl e \<Rightarrow> True | Inr out \<Rightarrow>
    \<exists>configured m. parseLocalPortMappings raw = Inr (configured, map fst configured)
      \<and> parseLocalPortMappings out = Inr (m, map fst m)
      \<and> fst ` set m = fst ` set configured \<union> ls_name ` set services
      \<and> list_all (\<lambda>(n, p). 1 \<le> p \<and> p \<le> localMaximumPort) m \<and> distinct (map snd m)
      \<and> list_all (\<lambda>(n, p). p = 0 \<or> (n, p) \<in> set m) configured
      \<and> list_all (\<lambda>(n, p). (n, p) \<in> set configured \<or> pa_minimumPort al \<le> p \<and> p \<le> pa_maximumPort al) m)"
proof -
  note rc = resolve_cases [OF assms(6,1)]
  have "\<exists>configured m'. parseLocalPortMappings raw = Inr (configured, map fst configured)
      \<and> parseLocalPortMappings out = Inr (m', map fst m')
      \<and> fst ` set m' = fst ` set configured \<union> ls_name ` set services
      \<and> list_all (\<lambda>(n, p). 1 \<le> p \<and> p \<le> localMaximumPort) m' \<and> distinct (map snd m')
      \<and> list_all (\<lambda>(n, p). p = 0 \<or> (n, p) \<in> set m') configured
      \<and> list_all (\<lambda>(n, p). (n, p) \<in> set configured \<or> pa_minimumPort al \<le> p \<and> p \<le> pa_maximumPort al) m'"
    if r: "r = Inr out" for out
  proof -
    obtain configured reserved held t m where parsed: "parseLocalPortMappings raw = Inr (configured, map fst configured)"
      and pm: "port_map configured" and rs: "reserves reserved configured"
      and al: "allocate_loop al services None configured reserved [] s = (t, held, Inr m)"
      and unk: "unknown_automatic services m = None"
      and out: "out = formatLocalPortMappings m services (map fst configured)"
      using rc r by blast
    note alp = allocate_loop_ports [OF al assms(1) pm rs assms(2,4,5)]
    then obtain reserved' where rs': "reserves reserved' m" and pm': "port_map m" by blast
    have keys: "set (map fst configured) \<subseteq> fst ` set m" using alp by auto
    let ?m' = "formatted_map m services (map fst configured)"
    note fm = formatted_map_same [OF assms(3) pm' keys]
    have dm: "distinct (map fst m)" "distinct (map fst ?m')" "distinct (map fst configured)"
      using fm pm pm' by (simp_all add: port_map_def)
    have mo: "map_of ?m' = map_of m"
      using fm dm map_of_inject_set by blast
    have pos: "1 \<le> p \<and> p \<le> localMaximumPort" if e: "(n, p) \<in> set ?m'" for n p
    proof -
      have b: "0 \<le> p" "p \<le> localMaximumPort" using fm e by (auto simp: port_map_def list_all_iff)
      have "p \<noteq> 0"
      proof
        assume "p = 0"
        then have "map_of m n = Some 0" using e fm dm by (auto simp: map_of_eq_Some_iff)
        then have "n \<notin> ls_name ` set services" using alp by auto
        with \<open>p = 0\<close> unk e fm show False
          by (auto simp: unknown_automatic_def find_None_iff)
      qed
      with b show ?thesis by simp
    qed
    have rs'': "reserves reserved' ?m'" using rs' mo by (simp add: reserves_def)
    have all_pos: "list_all (\<lambda>(n, p). 1 \<le> p) ?m'" using pos by (auto simp: list_all_iff)
    have "distinct (map snd ?m')" using distinct_ports [OF _ rs'' all_pos] fm by simp
    moreover have "p = 0 \<or> (n, p) \<in> set ?m'" if "(n, p) \<in> set configured" for n p
    proof -
      from that dm(3) have "map_of configured n = Some p" by (simp add: map_of_eq_Some_iff)
      moreover have "0 \<le> p" using that pm by (auto simp: port_map_def list_all_iff)
      moreover have "map_of configured n = Some p \<and> 0 < p \<longrightarrow> map_of m n = Some p" using alp by blast
      ultimately have "p = 0 \<or> map_of m n = Some p" by linarith
      then show ?thesis using fm dm(1) by (simp add: map_of_eq_Some_iff)
    qed
    moreover have "(n, p) \<in> set configured \<or> pa_minimumPort al \<le> p \<and> p \<le> pa_maximumPort al"
      if "(n, p) \<in> set ?m'" for n p
    proof -
      from that fm dm(1) have "map_of m n = Some p" by (simp add: map_of_eq_Some_iff)
      then have "map_of configured n = Some p \<or> pa_minimumPort al \<le> p \<and> p \<le> pa_maximumPort al"
        using alp by blast
      then show ?thesis by (auto dest: map_of_SomeD)
    qed
    ultimately show ?thesis
      using parsed parse_format [of ?m'] fm alp pos out
      by - (rule exI [of _ configured], rule exI [of _ ?m'],
          auto simp: formatLocalPortMappings_map list_all_iff)
  qed
  with rc show ?thesis by (cases r) auto
qed

text \<open>C14: Resolving a port configuration closes every listener it opened, whether it succeeds or not.
  When it succeeds, the text it returns parses back to a mapping that names exactly the configured
  services and those of the catalog, gives each a port between 1 and 65535, no port twice, keeps every
  port the configuration fixed, and takes every other port from the allocator's range.\<close>

theorem resolved_ports:
  assumes "distinct s" and "list_all (\<lambda>sv. service_name (ls_name sv)) services"
    and "distinct (map ls_name services)"
    and "1 \<le> pa_minimumPort al" and "pa_maximumPort al \<le> localMaximumPort"
    and "resolve al raw services s = (s', r)"
  shows "s' = s \<and> (case r of Inl e \<Rightarrow> True | Inr out \<Rightarrow>
    \<exists>configured m. parseLocalPortMappings raw = Inr (configured, map fst configured)
      \<and> parseLocalPortMappings out = Inr (m, map fst m)
      \<and> fst ` set m = fst ` set configured \<union> ls_name ` set services
      \<and> list_all (\<lambda>(n, p). 1 \<le> p \<and> p \<le> localMaximumPort) m \<and> distinct (map snd m)
      \<and> list_all (\<lambda>(n, p). p = 0 \<or> (n, p) \<in> set m) configured
      \<and> list_all (\<lambda>(n, p). (n, p) \<in> set configured \<or> pa_minimumPort al \<le> p \<and> p \<le> pa_maximumPort al) m)"
  by (rule resolved_mapping [OF assms])

definition demo_allocator :: localPortAllocator where
  "demo_allocator = (newLocalPortAllocator
     (Inr [\<lparr>ia_IP = Some [127, 0, 0, 1], ia_Zone = []\<rparr>, \<lparr>ia_IP = Some IPv6loopback, ia_Zone = []\<rparr>])
     (\<lambda>address. address \<notin> {''127.0.0.1:8563'', ''[::1]:8564''}))
     \<lparr>pa_minimumPort := 8562, pa_maximumPort := 8567\<rparr>"

text \<open>Port 8563 is taken on one address and 8564 on the other, and 8565 is fixed by the configuration.\<close>

lemma demo_resolve:
  "resolve demo_allocator '' db:0, web:8565 '' localServiceCatalog [] = ([], Inr ''db:8566,web:8565'')"
  by code_simp

lemma resolved_ports_witness:
  "\<exists>configured m. parseLocalPortMappings '' db:0, web:8565 '' = Inr (configured, map fst configured)
      \<and> parseLocalPortMappings ''db:8566,web:8565'' = Inr (m, map fst m)
      \<and> fst ` set m = fst ` set configured \<union> {localDatabaseService}
      \<and> list_all (\<lambda>(n, p). 1 \<le> p \<and> p \<le> localMaximumPort) m \<and> distinct (map snd m)"
proof -
  have n: "service_name localDatabaseService"
    by (simp add: service_name_def localDatabaseService_def TrimSpace_def is_space_def)
  show ?thesis
    using resolved_ports [OF _ _ _ _ _ demo_resolve] n
    by (auto simp: localServiceCatalog_def demo_allocator_def newLocalPortAllocator_def
        localMinimumAutomaticPort_def localMaximumPort_def)
qed

end
