(* ===== verification/Local_Backend.thy ===== *)
theory Local_Backend
  imports Engine_Selection Local_Ports
begin

text \<open>
  The configuration of the local backend: \<^verbatim>\<open>src/internal/deploy/local_backend.go\<close>. The settings live in the
  \<^verbatim>\<open>local\<close> section of the deployment's infrastructure manifest; \<open>Configure\<close> applies overrides, resolves the
  ports, validates the result and writes the manifest, \<open>ReadConfiguration\<close> reports the settings with
  their defaults. Only the macOS virtual machine has CPU, memory and disk settings, only the direct hosts
  have a choice of container engine.

  The state is the manifest in memory, which \<open>Configure\<close> changes as it goes, and the manifest file. The
  environment has the platform, the answer of the memory query, the port allocator and the outcome of the write.
\<close>

section \<open>Names and the manifest\<close>

definition hostMemoryDefaultDivisor :: int where "hostMemoryDefaultDivisor = 2"
definition localDefaultCPUCount :: int where "localDefaultCPUCount = 2"
definition localMinimumMemoryMB :: int where "localMinimumMemoryMB = 4096"
definition localMinimumHostMemoryMB :: int where "localMinimumHostMemoryMB = 8192"
definition localDefaultDataSizeGB :: int where "localDefaultDataSizeGB = 100"
definition localCPUCountConfigName :: string where "localCPUCountConfigName = ''cpu_count''"
definition localMemoryMBConfigName :: string where "localMemoryMBConfigName = ''memory_mb''"
definition localDataSizeGBConfigName :: string where "localDataSizeGBConfigName = ''data_size_gb''"
definition localPortsConfigName :: string where "localPortsConfigName = ''ports''"

record InfrastructureLocal =
  il_CPUCount :: int
  il_MemoryMB :: int
  il_DataSizeGB :: int
  il_Ports :: string
  il_ContainerEngine :: string

definition no_local :: InfrastructureLocal where
  "no_local = \<lparr>il_CPUCount = 0, il_MemoryMB = 0, il_DataSizeGB = 0, il_Ports = [], il_ContainerEngine = []\<rparr>"

record LocalManifest = InfrastructureManifest +
  m_Local :: "InfrastructureLocal option"

record localPlatformCapabilities =
  pc_vmSizing :: bool
  pc_containerEngines :: "string list"

definition localPlatformSupportsVMSizing :: "string \<Rightarrow> string \<Rightarrow> bool" where
  "localPlatformSupportsVMSizing goos goarch \<longleftrightarrow> goos = localMacOS \<and> goarch = localMacArch"

definition localCapabilitiesForPlatform :: "string \<Rightarrow> string \<Rightarrow> localPlatformCapabilities" where
  "localCapabilitiesForPlatform goos goarch =
     \<lparr>pc_vmSizing = localPlatformSupportsVMSizing goos goarch,
      pc_containerEngines = localContainerEnginesForPlatform goos goarch\<rparr>"

record lb_env =
  lb_goos :: string
  lb_goarch :: string
  lb_total_memory :: "(go_error, int) result"
  lb_ports :: localPortAllocator
  lb_write :: "go_error option"

record lb_world =
  lw_manifest :: "LocalManifest option"
  lw_file :: "LocalManifest option"
  lw_engine :: engine_files
  lw_listeners :: listeners

definition capabilities :: "lb_env \<Rightarrow> localPlatformCapabilities" where
  "capabilities env = localCapabilitiesForPlatform (lb_goos env) (lb_goarch env)"

section \<open>Sizes\<close>

record localRuntimeConfig =
  rc_cpuCount :: int
  rc_memoryMB :: int
  rc_dataSizeGB :: int
  rc_ports :: string

text \<open>The total memory is a \<^verbatim>\<open>uint64\<close>; a value that no \<^verbatim>\<open>int\<close> holds counts as unknown.\<close>

definition detectLocalHostMemoryMB :: "lb_env \<Rightarrow> int" where
  "detectLocalHostMemoryMB env =
     (case lb_total_memory env of
        Inl _ \<Rightarrow> 0
      | Inr memoryMB \<Rightarrow> if memoryMB > max_int64 then 0 else memoryMB)"

definition defaultLocalRuntimeConfig :: "int \<Rightarrow> localRuntimeConfig" where
  "defaultLocalRuntimeConfig detectedHostMemoryMB =
     \<lparr>rc_cpuCount = localDefaultCPUCount,
      rc_memoryMB = (if detectedHostMemoryMB > 0 then detectedHostMemoryMB div hostMemoryDefaultDivisor
                     else localMinimumMemoryMB),
      rc_dataSizeGB = localDefaultDataSizeGB, rc_ports = []\<rparr>"

definition validateLocalRuntimeConfig :: "localRuntimeConfig \<Rightarrow> int \<Rightarrow> go_error option" where
  "validateLocalRuntimeConfig c detectedHostMemoryMB =
     (if rc_cpuCount c \<le> 0 then Some (Plain ''local cpuCount must be greater than zero'')
      else if rc_dataSizeGB c \<le> 0 then Some (Plain ''local dataSizeGB must be greater than zero'')
      else if detectedHostMemoryMB > 0 \<and> detectedHostMemoryMB < localMinimumHostMemoryMB then
        Some (Plain (''local deployment requires at least '' @ Itoa localMinimumHostMemoryMB
          @ '' MB host memory (detected '' @ Itoa detectedHostMemoryMB @ '' MB)''))
      else if rc_memoryMB c < localMinimumMemoryMB then
        Some (Plain (''local memory-mb must be at least '' @ Itoa localMinimumMemoryMB @ '' MB''))
      else None)"

definition override_config :: "InfrastructureLocal \<Rightarrow> localRuntimeConfig \<Rightarrow> localRuntimeConfig" where
  "override_config l c =
     \<lparr>rc_cpuCount = (if il_CPUCount l \<noteq> 0 then il_CPUCount l else rc_cpuCount c),
      rc_memoryMB = (if il_MemoryMB l \<noteq> 0 then il_MemoryMB l else rc_memoryMB c),
      rc_dataSizeGB = (if il_DataSizeGB l \<noteq> 0 then il_DataSizeGB l else rc_dataSizeGB c),
      rc_ports = il_Ports l\<rparr>"

definition resolveLocalRuntimeConfigForPlatform ::
  "InfrastructureLocal option \<Rightarrow> int \<Rightarrow> string \<Rightarrow> string \<Rightarrow> (go_error, localRuntimeConfig) result" where
  "resolveLocalRuntimeConfigForPlatform local detectedHostMemoryMB goos goarch =
     (if \<not> localPlatformSupportsVMSizing goos goarch then
        Inr \<lparr>rc_cpuCount = 0, rc_memoryMB = 0, rc_dataSizeGB = 0,
             rc_ports = (case local of Some l \<Rightarrow> il_Ports l | None \<Rightarrow> [])\<rparr>
      else let d = defaultLocalRuntimeConfig detectedHostMemoryMB;
               c = (case local of Some l \<Rightarrow> override_config l d | None \<Rightarrow> d)
           in case validateLocalRuntimeConfig c detectedHostMemoryMB of
                Some e \<Rightarrow> Inl e
              | None \<Rightarrow> Inr c)"

section \<open>Overrides\<close>

definition parseLocalPositiveIntConfig :: "string \<Rightarrow> string \<Rightarrow> (go_error, int) result" where
  "parseLocalPositiveIntConfig name rawValue =
     (if rawValue = [] then
        Inl (Plain (''local infrastructure configuration option '' @ Quote name @ '' is empty''))
      else case Atoi rawValue of
          None \<Rightarrow> Inl (Wrap (''local infrastructure configuration option '' @ Quote name @ '' must be an integer'')
                    (Plain (''strconv.Atoi: parsing '' @ Quote rawValue)))
        | Some parsed \<Rightarrow>
            if parsed \<le> 0 then
              Inl (Plain (''local infrastructure configuration option '' @ Quote name @ '' must be greater than zero''))
            else Inr parsed)"

definition applyLocalContainerEngineOverride ::
  "InfrastructureLocal \<Rightarrow> string \<Rightarrow> string \<Rightarrow> string list \<Rightarrow> (go_error, InfrastructureLocal) result" where
  "applyLocalContainerEngineOverride l name rawValue supported =
     (if supported = [] then Inr l
      else if rawValue = [] then Inl (containerEngineChoiceError name rawValue supported)
      else case parseLocalContainerEngineChoice name rawValue supported of
          Inl e \<Rightarrow> Inl e
        | Inr choice \<Rightarrow> Inr (l\<lparr>il_ContainerEngine := choice\<rparr>))"

text \<open>One override, on a trimmed, non-empty name; \<open>apply_int\<close> is the case of the three sizes.\<close>

definition apply_int ::
  "localPlatformCapabilities \<Rightarrow> string \<Rightarrow> string \<Rightarrow> (int \<Rightarrow> InfrastructureLocal) \<Rightarrow> InfrastructureLocal
    \<Rightarrow> (go_error, InfrastructureLocal) result" where
  "apply_int caps name rawValue put l =
     (if \<not> pc_vmSizing caps then Inr l
      else case parseLocalPositiveIntConfig name rawValue of Inl e \<Rightarrow> Inl e | Inr parsed \<Rightarrow> Inr (put parsed))"

definition apply_override ::
  "localPlatformCapabilities \<Rightarrow> string \<Rightarrow> string \<Rightarrow> InfrastructureLocal \<Rightarrow> (go_error, InfrastructureLocal) result" where
  "apply_override caps name rawValue l =
     (let canonical = canonicalLocalConfigName name in
      if canonical = canonicalLocalConfigName localPortsConfigName then Inr (l\<lparr>il_Ports := rawValue\<rparr>)
      else if canonical = canonicalLocalConfigName localCPUCountConfigName then
        apply_int caps name rawValue (\<lambda>n. l\<lparr>il_CPUCount := n\<rparr>) l
      else if canonical = canonicalLocalConfigName localMemoryMBConfigName then
        apply_int caps name rawValue (\<lambda>n. l\<lparr>il_MemoryMB := n\<rparr>) l
      else if canonical = canonicalLocalConfigName localDataSizeGBConfigName then
        apply_int caps name rawValue (\<lambda>n. l\<lparr>il_DataSizeGB := n\<rparr>) l
      else if canonical = canonicalLocalConfigName localContainerEngineConfigName then
        applyLocalContainerEngineOverride l name rawValue (pc_containerEngines caps)
      else Inl (Plain (''unknown local infrastructure configuration option '' @ Quote name)))"

text \<open>The loop returns the manifest section it reached with its error, since the section is changed in place.\<close>

fun applyLocalConfigOverrides ::
  "InfrastructureLocal \<Rightarrow> (string \<times> string) list \<Rightarrow> localPlatformCapabilities \<Rightarrow> InfrastructureLocal \<times> go_error option" where
  "applyLocalConfigOverrides l [] caps = (l, None)"
| "applyLocalConfigOverrides l ((name0, rawValue0) # rest) caps =
     (let name = TrimSpace name0 in
      if name = [] then applyLocalConfigOverrides l rest caps
      else case apply_override caps name (TrimSpace rawValue0) l of
          Inl e \<Rightarrow> (l, Some e)
        | Inr l' \<Rightarrow> applyLocalConfigOverrides l' rest caps)"

section \<open>Configure and read\<close>

definition ensureLocalManifestConfig :: "lb_env \<Rightarrow> LocalManifest \<Rightarrow> InfrastructureLocal" where
  "ensureLocalManifestConfig env m =
     (case m_Local m of
        Some l \<Rightarrow> l
      | None \<Rightarrow>
          if \<not> pc_vmSizing (capabilities env) then no_local
          else let d = defaultLocalRuntimeConfig (detectLocalHostMemoryMB env) in
               no_local\<lparr>il_CPUCount := rc_cpuCount d, il_MemoryMB := rc_memoryMB d, il_DataSizeGB := rc_dataSizeGB d\<rparr>)"

definition with_local :: "LocalManifest \<Rightarrow> InfrastructureLocal \<Rightarrow> lb_world \<Rightarrow> lb_world" where
  "with_local m l w = w\<lparr>lw_manifest := Some (m\<lparr>m_Local := Some l\<rparr>)\<rparr>"

definition Configure :: "lb_env \<Rightarrow> (string \<times> string) list \<Rightarrow> lb_world \<Rightarrow> lb_world \<times> go_error option" where
  "Configure env overrides w =
     (case lw_manifest w of
        None \<Rightarrow> (w, Some (Plain ''local infrastructure manifest is missing''))
      | Some m \<Rightarrow>
          (case (if pc_containerEngines (capabilities env) \<noteq> []
                 then rejectRecordedContainerEngineChange (lw_engine w) overrides else None) of
             Some e \<Rightarrow> (w, Some e)
           | None \<Rightarrow>
               (case applyLocalConfigOverrides (ensureLocalManifestConfig env m) overrides (capabilities env) of
                  (l, Some e) \<Rightarrow> (with_local m l w, Some e)
                | (l, None) \<Rightarrow>
                    (case resolve (lb_ports env) (il_Ports l) localServiceCatalog (lw_listeners w) of
                       (s, Inl e) \<Rightarrow> (with_local m l w\<lparr>lw_listeners := s\<rparr>, Some e)
                     | (s, Inr ports) \<Rightarrow>
                         (let l = l\<lparr>il_Ports := ports\<rparr>; w1 = with_local m l w\<lparr>lw_listeners := s\<rparr> in
                          case resolveLocalRuntimeConfigForPlatform (Some l) (detectLocalHostMemoryMB env)
                                 (lb_goos env) (lb_goarch env) of
                            Inl e \<Rightarrow> (w1, Some e)
                          | Inr _ \<Rightarrow>
                              (case lb_write env of
                                 Some e \<Rightarrow> (w1\<lparr>lw_file := None\<rparr>, Some (Wrap ''failed to write local infrastructure manifest'' e))
                               | None \<Rightarrow> (w1\<lparr>lw_file := lw_manifest w1\<rparr>, None)))))))"

definition localContainerEngineConfigValue :: "string \<Rightarrow> DeploymentConfigValue" where
  "localContainerEngineConfigValue stored =
     (let v = (if stored = [] then localContainerEngineAuto else stored) in
      \<lparr>cv_Name = localContainerEngineConfigName, cv_Type = ConfigVariableTypeString,
       cv_Value = StringScalar v, cv_Default = StringScalar localContainerEngineAuto,
       cv_RawValue = v, cv_RawDefault = localContainerEngineAuto\<rparr>)"

definition localIntConfigValue :: "string \<Rightarrow> int \<Rightarrow> int \<Rightarrow> DeploymentConfigValue" where
  "localIntConfigValue name v defaultValue =
     \<lparr>cv_Name = name, cv_Type = ConfigVariableTypeNumber, cv_Value = IntScalar v, cv_Default = IntScalar defaultValue,
      cv_RawValue = Itoa v, cv_RawDefault = Itoa defaultValue\<rparr>"

definition localPortsConfigValue :: "string \<Rightarrow> DeploymentConfigValue" where
  "localPortsConfigValue ports =
     \<lparr>cv_Name = localPortsConfigName, cv_Type = ConfigVariableTypeString,
      cv_Value = StringScalar ports, cv_Default = StringScalar [], cv_RawValue = ports, cv_RawDefault = []\<rparr>"

definition local_of :: "LocalManifest option \<Rightarrow> InfrastructureLocal option" where
  "local_of manifest = (case manifest of Some m \<Rightarrow> m_Local m | None \<Rightarrow> None)"

definition ReadConfiguration :: "lb_env \<Rightarrow> LocalManifest option \<Rightarrow> (go_error, DeploymentConfigValue list) result" where
  "ReadConfiguration env manifest =
     (let caps = capabilities env;
          detected = (if pc_vmSizing caps then detectLocalHostMemoryMB env else 0)
      in case resolveLocalRuntimeConfigForPlatform (local_of manifest) detected (lb_goos env) (lb_goarch env) of
           Inl e \<Rightarrow> Inl e
         | Inr c \<Rightarrow>
             (let d = defaultLocalRuntimeConfig detected in
              Inr (localPortsConfigValue (rc_ports c)
                # (if pc_vmSizing caps
                   then [localIntConfigValue localCPUCountConfigName (rc_cpuCount c) (rc_cpuCount d),
                         localIntConfigValue localMemoryMBConfigName (rc_memoryMB c) (rc_memoryMB d),
                         localIntConfigValue localDataSizeGBConfigName (rc_dataSizeGB c) (rc_dataSizeGB d)]
                   else [])
                @ (if pc_containerEngines caps \<noteq> []
                   then [localContainerEngineConfigValue
                          (case local_of manifest of Some l \<Rightarrow> il_ContainerEngine l | None \<Rightarrow> [])]
                   else []))))"

text \<open>The definitions the command line turns into flags, by name.\<close>

definition localConfigVariableDefinitionsForPlatform ::
  "lb_env \<Rightarrow> LocalManifest option \<Rightarrow> (string \<times> ConfigVariableDefinition) list" where
  "localConfigVariableDefinitionsForPlatform env manifest =
     (let caps = capabilities env; engines = pc_containerEngines caps;
          number = (\<lambda>name description shown. (name, \<lparr>vd_Name = name, vd_Description = description,
            vd_Type = ConfigVariableTypeNumber, vd_DefaultDisplay = shown, vd_Required = False\<rparr>));
          str = (\<lambda>name description shown. (name, \<lparr>vd_Name = name, vd_Description = description,
            vd_Type = ConfigVariableTypeString, vd_DefaultDisplay = shown, vd_Required = False\<rparr>));
          common = str localPortsConfigName ''Database port override for the local deployment'' []
            # (if engines \<noteq> [] then [str localContainerEngineConfigName
                 (''Container engine for the local deployment: '' @ localContainerEngineAuto @ '', ''
                   @ formatContainerEngines engines @ ''. '' @ localContainerEngineAuto
                   @ '' uses the first of them that is installed'') localContainerEngineAuto] else [])
      in if \<not> localPlatformSupportsVMSizing (lb_goos env) (lb_goarch env) then common
         else let detected = detectLocalHostMemoryMB env;
                  c = (case resolveLocalRuntimeConfigForPlatform (local_of manifest) detected (lb_goos env) (lb_goarch env) of
                         Inl _ \<Rightarrow> defaultLocalRuntimeConfig detected | Inr c \<Rightarrow> c)
              in common @
                [number localCPUCountConfigName ''Number of CPUs for the Exasol Local VM'' (Itoa (rc_cpuCount c)),
                 number localMemoryMBConfigName ''Memory in MB for the Exasol Local VM'' (Itoa (rc_memoryMB c)),
                 number localDataSizeGBConfigName
                   ''VM runtime disk size in GB for Podman images and runtime state.'' (Itoa (rc_dataSizeGB c))])"

section \<open>Initialization and preparation\<close>

definition validateLocalInitMemoryForPlatform ::
  "lb_env \<Rightarrow> LocalManifest option \<Rightarrow> (string \<times> string) list \<Rightarrow> go_error option" where
  "validateLocalInitMemoryForPlatform env manifest overrides =
     (case manifest of
        None \<Rightarrow> None
      | Some m \<Rightarrow>
          if m_Backend m \<noteq> backendTypeLocal then None
          else if \<not> localPlatformSupportsVMSizing (lb_goos env) (lb_goarch env) then None
          else let candidate = (case m_Local m of Some l \<Rightarrow> l | None \<Rightarrow> no_local) in
               case applyLocalConfigOverrides candidate overrides (capabilities env) of
                 (_, Some e) \<Rightarrow> Some e
               | (l, None) \<Rightarrow>
                   (case resolveLocalRuntimeConfigForPlatform (Some l) (detectLocalHostMemoryMB env)
                           (lb_goos env) (lb_goarch env) of
                      Inl e \<Rightarrow> Some e | Inr _ \<Rightarrow> None))"

definition localPortsNeedNormalization :: "string \<Rightarrow> bool" where
  "localPortsNeedNormalization raw =
     (let trimmed = TrimSpace raw in
      if trimmed = [] \<or> EqualFold trimmed ''auto'' then True
      else case parseLocalPortMappings trimmed of
          Inl _ \<Rightarrow> False
        | Inr (mappings, _) \<Rightarrow>
            list_ex (\<lambda>service. case map_of mappings (ls_name service) of None \<Rightarrow> True | Some port \<Rightarrow> port = 0)
              localServiceCatalog)"

definition normalizeAutomaticPorts :: "lb_env \<Rightarrow> lb_world \<Rightarrow> lb_world \<times> go_error option" where
  "normalizeAutomaticPorts env w =
     (case lw_manifest w of
        None \<Rightarrow> (w, Some (Plain ''local infrastructure manifest is missing''))
      | Some m \<Rightarrow>
          (let rawPorts = (case m_Local m of Some l \<Rightarrow> il_Ports l | None \<Rightarrow> []) in
           if \<not> localPortsNeedNormalization rawPorts then (w, None)
           else Configure env [(localPortsConfigName, rawPorts)] w))"

section \<open>What is read is typed\<close>

lemmas config_names = localPortsConfigName_def localCPUCountConfigName_def localMemoryMBConfigName_def
  localDataSizeGBConfigName_def localContainerEngineConfigName_def

lemmas config_types = ConfigVariableTypeString_def ConfigVariableTypeNumber_def ConfigVariableTypeBool_def

lemma typed_rows:
  "value_typed (localPortsConfigValue p)" "value_typed (localIntConfigValue n v d)"
  "value_typed (localContainerEngineConfigValue e)"
  by (simp_all add: value_typed_def scalar_has_type_def scalarToRawString_def localPortsConfigValue_def
      localIntConfigValue_def localContainerEngineConfigValue_def Let_def)

lemma row_names:
  "cv_Name (localPortsConfigValue p) = localPortsConfigName" "cv_Name (localIntConfigValue n v d) = n"
  "cv_Name (localContainerEngineConfigValue e) = localContainerEngineConfigName"
  "cv_Type (localPortsConfigValue p) = ConfigVariableTypeString" "cv_Type (localIntConfigValue n v d) = ConfigVariableTypeNumber"
  "cv_Type (localContainerEngineConfigValue e) = ConfigVariableTypeString"
  by (simp_all add: localPortsConfigValue_def localIntConfigValue_def localContainerEngineConfigValue_def Let_def)

lemma mac_engines: "localPlatformSupportsVMSizing goos goarch \<longleftrightarrow> localContainerEnginesForPlatform goos goarch = []"
  by (simp add: localPlatformSupportsVMSizing_def localContainerEnginesForPlatform_def)

text \<open>The two shapes of a configuration: sizes on the virtual machine, an engine on a direct host.\<close>

lemma ReadConfiguration_mac:
  assumes "pc_vmSizing (capabilities env)"
  shows "ReadConfiguration env m =
    (let d = defaultLocalRuntimeConfig (detectLocalHostMemoryMB env) in
     case resolveLocalRuntimeConfigForPlatform (local_of m) (detectLocalHostMemoryMB env) (lb_goos env) (lb_goarch env) of
       Inl e \<Rightarrow> Inl e
     | Inr c \<Rightarrow> Inr [localPortsConfigValue (rc_ports c),
         localIntConfigValue localCPUCountConfigName (rc_cpuCount c) (rc_cpuCount d),
         localIntConfigValue localMemoryMBConfigName (rc_memoryMB c) (rc_memoryMB d),
         localIntConfigValue localDataSizeGBConfigName (rc_dataSizeGB c) (rc_dataSizeGB d)])"
proof -
  have "pc_containerEngines (capabilities env) = []"
    using assms mac_engines by (simp add: capabilities_def localCapabilitiesForPlatform_def)
  with assms show ?thesis by (auto simp: ReadConfiguration_def Let_def split: sum.splits)
qed

lemma ReadConfiguration_host:
  assumes "\<not> pc_vmSizing (capabilities env)"
  shows "ReadConfiguration env m =
     Inr [localPortsConfigValue (case local_of m of Some l \<Rightarrow> il_Ports l | None \<Rightarrow> []),
       localContainerEngineConfigValue (case local_of m of Some l \<Rightarrow> il_ContainerEngine l | None \<Rightarrow> [])]"
proof -
  have "pc_containerEngines (capabilities env) \<noteq> []" "\<not> localPlatformSupportsVMSizing (lb_goos env) (lb_goarch env)"
    using assms mac_engines by (simp_all add: capabilities_def localCapabilitiesForPlatform_def)
  with assms show ?thesis
    by (auto simp: ReadConfiguration_def resolveLocalRuntimeConfigForPlatform_def Let_def split: option.splits)
qed

text \<open>C26: Every option the local backend reports has a value and a default of its declared type, and
  raw forms that are their renderings; the reported options have distinct names and are, with their
  types, exactly those the backend declares to the command line.\<close>

theorem local_configuration_typed:
  assumes "ReadConfiguration env m = Inr values"
  shows "list_all value_typed values \<and> option_names values
    \<and> set (map (\<lambda>v. (cv_Name v, cv_Type v)) values)
      = set (map (\<lambda>(name, d). (name, vd_Type d)) (localConfigVariableDefinitionsForPlatform env m))"
proof (cases "pc_vmSizing (capabilities env)")
  case True
  then have mac: "localPlatformSupportsVMSizing (lb_goos env) (lb_goarch env)"
    and none: "pc_containerEngines (capabilities env) = []"
    using mac_engines by (simp_all add: capabilities_def localCapabilitiesForPlatform_def)
  show ?thesis
    using assms True mac none
    by (auto simp: ReadConfiguration_mac localConfigVariableDefinitionsForPlatform_def typed_rows row_names
        option_names_def config_names TrimSpace_def is_space_def Let_def split: sum.splits)
next
  case False
  then have host: "\<not> localPlatformSupportsVMSizing (lb_goos env) (lb_goarch env)"
    and some: "pc_containerEngines (capabilities env) \<noteq> []"
    using mac_engines by (simp_all add: capabilities_def localCapabilitiesForPlatform_def)
  show ?thesis
    using assms False host some
    by (auto simp: ReadConfiguration_host localConfigVariableDefinitionsForPlatform_def typed_rows row_names
        option_names_def config_names TrimSpace_def is_space_def Let_def)
qed

definition demo_backend :: "string \<Rightarrow> string \<Rightarrow> lb_env" where
  "demo_backend goos goarch =
     \<lparr>lb_goos = goos, lb_goarch = goarch, lb_total_memory = Inr 16384, lb_ports = demo_allocator, lb_write = None\<rparr>"

definition demo_manifest :: "InfrastructureLocal option \<Rightarrow> LocalManifest" where
  "demo_manifest l = \<lparr>m_Backend = backendTypeLocal, m_Tofu = False, m_Local = l\<rparr>"

lemma local_configuration_typed_witness:
  "list_all value_typed
     [localPortsConfigValue [], localIntConfigValue localCPUCountConfigName 2 2,
      localIntConfigValue localMemoryMBConfigName 8192 8192, localIntConfigValue localDataSizeGBConfigName 100 100]"
proof -
  have "ReadConfiguration (demo_backend ''darwin'' ''arm64'') (Some (demo_manifest None))
      = Inr [localPortsConfigValue [], localIntConfigValue localCPUCountConfigName 2 2,
          localIntConfigValue localMemoryMBConfigName 8192 8192, localIntConfigValue localDataSizeGBConfigName 100 100]"
    by code_simp
  from local_configuration_typed [OF this] show ?thesis by simp
qed

section \<open>Configuring writes only what is valid\<close>

definition valid_sizes :: "lb_env \<Rightarrow> localRuntimeConfig \<Rightarrow> bool" where
  "valid_sizes env c \<longleftrightarrow>
     (if localPlatformSupportsVMSizing (lb_goos env) (lb_goarch env)
      then 0 < rc_cpuCount c \<and> localMinimumMemoryMB \<le> rc_memoryMB c \<and> 0 < rc_dataSizeGB c
      else True)"

lemma resolve_config_valid:
  "resolveLocalRuntimeConfigForPlatform l h (lb_goos env) (lb_goarch env) = Inr c \<Longrightarrow> valid_sizes env c"
  by (auto simp: resolveLocalRuntimeConfigForPlatform_def valid_sizes_def validateLocalRuntimeConfig_def Let_def
      split: if_splits option.splits)

text \<open>The defaults pass the validation on every host that has enough memory, or whose memory is unknown.\<close>

lemma default_config_valid:
  "h \<le> 0 \<or> localMinimumHostMemoryMB \<le> h \<Longrightarrow> validateLocalRuntimeConfig (defaultLocalRuntimeConfig h) h = None"
  by (auto simp: validateLocalRuntimeConfig_def defaultLocalRuntimeConfig_def localMinimumHostMemoryMB_def
      localMinimumMemoryMB_def hostMemoryDefaultDivisor_def localDefaultCPUCount_def localDefaultDataSizeGB_def)

lemma Configure_cases:
  assumes "Configure env overrides w = (w', r)"
  obtains (rejected) e where "r = Some e" "lw_file w' = lw_file w"
  | (unwritten) e e' where "r = Some e" "lb_write env = Some e'" "lw_file w' = None"
  | (written) m l s ports where "r = None" "lw_manifest w = Some m"
      "applyLocalConfigOverrides (ensureLocalManifestConfig env m) overrides (capabilities env) = (l, None)"
      "resolve (lb_ports env) (il_Ports l) localServiceCatalog (lw_listeners w) = (s, Inr ports)"
      "resolveLocalRuntimeConfigForPlatform (Some (l\<lparr>il_Ports := ports\<rparr>)) (detectLocalHostMemoryMB env)
         (lb_goos env) (lb_goarch env) \<in> range Inr"
      "lw_file w' = Some (m\<lparr>m_Local := Some (l\<lparr>il_Ports := ports\<rparr>)\<rparr>)" "lw_manifest w' = lw_file w'"
      "lw_engine w' = lw_engine w"
      "pc_containerEngines (capabilities env) = [] \<or> rejectRecordedContainerEngineChange (lw_engine w) overrides = None"
  using assms
  by (auto simp: Configure_def with_local_def Let_def split: option.splits if_splits prod.splits sum.splits)

lemma catalog_names:
  "list_all (\<lambda>sv. service_name (ls_name sv)) localServiceCatalog" "distinct (map ls_name localServiceCatalog)"
  by (simp_all add: localServiceCatalog_def service_name_def localDatabaseService_def TrimSpace_def is_space_def)

lemma resolved_fixed:
  assumes "distinct s" and "al = newLocalPortAllocator lookup listens"
    and "resolve al raw localServiceCatalog s = (s', Inr ports)"
  shows "\<not> localPortsNeedNormalization ports"
proof -
  have "1 \<le> pa_minimumPort al" "pa_maximumPort al \<le> localMaximumPort"
    using assms(2) by (simp_all add: newLocalPortAllocator_def localMinimumAutomaticPort_def)
  from resolved_mapping [OF assms(1) catalog_names this assms(3)]
  obtain configured :: "(string \<times> int) list" and m
    where parsed: "parseLocalPortMappings ports = Inr (m, map fst m)"
    and keys: "fst ` set m = fst ` set configured \<union> ls_name ` set localServiceCatalog"
    and pos: "list_all (\<lambda>(n, p). 1 \<le> p \<and> p \<le> localMaximumPort) m"
    unfolding sum.case by blast
  have db: "localDatabaseService \<in> fst ` set m" using keys by (simp add: localServiceCatalog_def)
  then have "m \<noteq> []" by auto
  with parsed have fixed: "\<not> (TrimSpace ports = [] \<or> EqualFold (TrimSpace ports) ''auto'')"
    by (auto simp: parseLocalPortMappings_def Let_def)
  then have "parseLocalPortMappings (TrimSpace ports) = Inr (m, map fst m)"
    using parsed by (simp add: parseLocalPortMappings_def Let_def)
  moreover obtain p where "map_of m localDatabaseService = Some p" using db
    by (metis map_of_eq_None_iff not_None_eq)
  moreover have "p \<noteq> 0" using pos map_of_SomeD [OF calculation(2)] by (auto simp: list_all_iff)
  ultimately show ?thesis using fixed
    by (simp add: localPortsNeedNormalization_def localServiceCatalog_def Let_def)
qed

text \<open>C12: Configuring the local backend changes the manifest file only with a complete and valid
  configuration: when it is refused for any reason (a recorded engine, an unknown option, a value that is no
  positive number, ports that cannot be had, sizes out of bounds) the file is as before, and when it
  succeeds, the file has ports that are all fixed and, on a virtual machine, at least the minimum memory
  and a positive number of CPUs and gigabytes. Only a failing write can lose the file.\<close>

theorem configure_writes_valid:
  assumes "Configure env overrides w = (w', r)" and "lb_write env = None"
    and "lb_ports env = newLocalPortAllocator lookup listens" and "distinct (lw_listeners w)"
  shows "if r = None
    then \<exists>m l c. lw_file w' = Some m \<and> m_Local m = Some l \<and> lw_manifest w' = lw_file w'
      \<and> resolveLocalRuntimeConfigForPlatform (Some l) (detectLocalHostMemoryMB env) (lb_goos env) (lb_goarch env) = Inr c
      \<and> valid_sizes env c \<and> \<not> localPortsNeedNormalization (il_Ports l)
    else lw_file w' = lw_file w"
  using assms(1)
proof (cases rule: Configure_cases)
  case (written m l s ports)
  let ?l = "l\<lparr>il_Ports := ports\<rparr>"
  obtain c where c: "resolveLocalRuntimeConfigForPlatform (Some ?l) (detectLocalHostMemoryMB env)
      (lb_goos env) (lb_goarch env) = Inr c"
    using written(5) by blast
  have "\<not> localPortsNeedNormalization ports"
    using resolved_fixed [OF assms(4) assms(3) written(4)] .
  with written c resolve_config_valid [OF c] show ?thesis by auto
qed (use assms(2) in auto)

lemma configure_writes_valid_witness:
  "lw_file (fst (Configure (demo_backend ''darwin'' ''arm64''\<lparr>lb_ports := newLocalPortAllocator (Inl (Plain ''offline'')) (\<lambda>_. True)\<rparr>)
       [(''memory-mb'', ''1024'')]
       \<lparr>lw_manifest = Some (demo_manifest None), lw_file = None,
        lw_engine = \<lparr>ef_marker = NoMarker, ef_data = PathMissing\<rparr>, lw_listeners = []\<rparr>)) = None"
proof -
  let ?env = "demo_backend ''darwin'' ''arm64''\<lparr>lb_ports := newLocalPortAllocator (Inl (Plain ''offline'')) (\<lambda>_. True)\<rparr>"
  let ?w = "\<lparr>lw_manifest = Some (demo_manifest None), lw_file = None,
    lw_engine = \<lparr>ef_marker = NoMarker, ef_data = PathMissing\<rparr>, lw_listeners = []\<rparr>"
  obtain w' r where c: "Configure ?env [(''memory-mb'', ''1024'')] ?w = (w', r)" by fastforce
  have "snd (Configure ?env [(''memory-mb'', ''1024'')] ?w) \<noteq> None" by code_simp
  then have "r \<noteq> None" using c by simp
  with configure_writes_valid [OF c] show ?thesis using c by (simp add: demo_backend_def)
qed

section \<open>What is set is read\<close>

definition local_names :: "string set" where
  "local_names = {localPortsConfigName, localCPUCountConfigName, localMemoryMBConfigName,
     localDataSizeGBConfigName, localContainerEngineConfigName}"

lemma canonical_names:
  "canonicalLocalConfigName localPortsConfigName = ''ports''"
  "canonicalLocalConfigName localCPUCountConfigName = ''cpucount''"
  "canonicalLocalConfigName localMemoryMBConfigName = ''memorymb''"
  "canonicalLocalConfigName localDataSizeGBConfigName = ''datasizegb''"
  "canonicalLocalConfigName localContainerEngineConfigName = ''containerengine''"
  by code_simp+

lemma local_names_distinct [simp]:
  "localPortsConfigName \<noteq> localCPUCountConfigName" "localPortsConfigName \<noteq> localMemoryMBConfigName"
  "localPortsConfigName \<noteq> localDataSizeGBConfigName" "localPortsConfigName \<noteq> localContainerEngineConfigName"
  "localCPUCountConfigName \<noteq> localPortsConfigName" "localCPUCountConfigName \<noteq> localMemoryMBConfigName"
  "localCPUCountConfigName \<noteq> localDataSizeGBConfigName" "localCPUCountConfigName \<noteq> localContainerEngineConfigName"
  "localMemoryMBConfigName \<noteq> localPortsConfigName" "localMemoryMBConfigName \<noteq> localCPUCountConfigName"
  "localMemoryMBConfigName \<noteq> localDataSizeGBConfigName" "localMemoryMBConfigName \<noteq> localContainerEngineConfigName"
  "localDataSizeGBConfigName \<noteq> localPortsConfigName" "localDataSizeGBConfigName \<noteq> localCPUCountConfigName"
  "localDataSizeGBConfigName \<noteq> localMemoryMBConfigName" "localDataSizeGBConfigName \<noteq> localContainerEngineConfigName"
  "localContainerEngineConfigName \<noteq> localPortsConfigName" "localContainerEngineConfigName \<noteq> localCPUCountConfigName"
  "localContainerEngineConfigName \<noteq> localMemoryMBConfigName" "localContainerEngineConfigName \<noteq> localDataSizeGBConfigName"
  by (simp_all add: config_names)

lemma local_names_trimmed: "n \<in> local_names \<Longrightarrow> TrimSpace n = n \<and> n \<noteq> []"
  by (auto simp: local_names_def config_names TrimSpace_def is_space_def)

definition read_int :: "string option \<Rightarrow> int \<Rightarrow> int \<Rightarrow> bool" where
  "read_int r old new \<longleftrightarrow> (case r of None \<Rightarrow> new = old | Some s \<Rightarrow> 0 < new \<and> Atoi (TrimSpace s) = Some new)"

definition applied :: "localPlatformCapabilities \<Rightarrow> (string \<Rightarrow> string option) \<Rightarrow> InfrastructureLocal \<Rightarrow> InfrastructureLocal \<Rightarrow> bool" where
  "applied caps look l l' \<longleftrightarrow>
     il_Ports l' = (case look localPortsConfigName of None \<Rightarrow> il_Ports l | Some s \<Rightarrow> TrimSpace s)
     \<and> (pc_vmSizing caps \<longrightarrow> read_int (look localCPUCountConfigName) (il_CPUCount l) (il_CPUCount l')
         \<and> read_int (look localMemoryMBConfigName) (il_MemoryMB l) (il_MemoryMB l')
         \<and> read_int (look localDataSizeGBConfigName) (il_DataSizeGB l) (il_DataSizeGB l'))
     \<and> (pc_containerEngines caps \<noteq> [] \<longrightarrow>
         il_ContainerEngine l' = (case look localContainerEngineConfigName of None \<Rightarrow> il_ContainerEngine l
           | Some s \<Rightarrow> ToLower (TrimSpace s))
         \<and> (look localContainerEngineConfigName \<noteq> None \<longrightarrow> il_ContainerEngine l' \<noteq> []))"

lemma parse_engine_choice:
  assumes "parseLocalContainerEngineChoice n s E = Inr c" and "s \<noteq> []" and "TrimSpace s = s"
  shows "c = ToLower s \<and> c \<noteq> []"
  using assms by (auto simp: parseLocalContainerEngineChoice_def Let_def ToLower_def split: if_splits)

lemma apply_int_read:
  assumes "apply_int caps n (TrimSpace s) put l = Inr l'" and "pc_vmSizing caps"
  shows "\<exists>k. l' = put k \<and> 0 < k \<and> Atoi (TrimSpace s) = Some k"
  using assms
  by (auto simp: apply_int_def parseLocalPositiveIntConfig_def split: if_splits sum.splits option.splits)

lemma apply_int_skip: "\<not> pc_vmSizing caps \<Longrightarrow> apply_int caps n s put l = Inr l"
  by (simp add: apply_int_def)

lemma apply_engine_read:
  assumes "applyLocalContainerEngineOverride l n (TrimSpace s) E = Inr l'" and "E \<noteq> []"
  shows "l' = l\<lparr>il_ContainerEngine := ToLower (TrimSpace s)\<rparr> \<and> ToLower (TrimSpace s) \<noteq> []"
  using assms parse_engine_choice [of n "TrimSpace s" E]
  by (auto simp: applyLocalContainerEngineOverride_def split: if_splits sum.splits)

lemma apply_override_applied:
  assumes "n \<in> local_names" and step: "apply_override caps n (TrimSpace s) l = Inr l'"
  shows "applied caps [n \<mapsto> s] l l'"
proof -
  from assms(1) consider "n = localPortsConfigName" | "n = localCPUCountConfigName" | "n = localMemoryMBConfigName"
    | "n = localDataSizeGBConfigName" | "n = localContainerEngineConfigName"
    by (auto simp: local_names_def)
  then show ?thesis
  proof cases
    case 1
    with step show ?thesis by (auto simp: apply_override_def canonical_names applied_def read_int_def)
  next
    case 2
    with step have "apply_int caps n (TrimSpace s) (\<lambda>k. l\<lparr>il_CPUCount := k\<rparr>) l = Inr l'"
      by (simp add: apply_override_def canonical_names)
    with 2 show ?thesis using apply_int_read apply_int_skip
      by (cases "pc_vmSizing caps") (fastforce simp: applied_def read_int_def)+
  next
    case 3
    with step have "apply_int caps n (TrimSpace s) (\<lambda>k. l\<lparr>il_MemoryMB := k\<rparr>) l = Inr l'"
      by (simp add: apply_override_def canonical_names)
    with 3 show ?thesis using apply_int_read apply_int_skip
      by (cases "pc_vmSizing caps") (fastforce simp: applied_def read_int_def)+
  next
    case 4
    with step have "apply_int caps n (TrimSpace s) (\<lambda>k. l\<lparr>il_DataSizeGB := k\<rparr>) l = Inr l'"
      by (simp add: apply_override_def canonical_names)
    with 4 show ?thesis using apply_int_read apply_int_skip
      by (cases "pc_vmSizing caps") (fastforce simp: applied_def read_int_def)+
  next
    case 5
    with step have e: "applyLocalContainerEngineOverride l n (TrimSpace s) (pc_containerEngines caps) = Inr l'"
      by (simp add: apply_override_def canonical_names)
    show ?thesis
    proof (cases "pc_containerEngines caps = []")
      case True
      with e have "l' = l" by (simp add: applyLocalContainerEngineOverride_def)
      with 5 True show ?thesis by (simp add: applied_def read_int_def)
    next
      case False
      from apply_engine_read [OF e False] 5 show ?thesis by (simp add: applied_def read_int_def)
    qed
  qed
qed

lemma read_int_step:
  "read_int ([n \<mapsto> s] x) a b \<Longrightarrow> read_int (look x) b c \<Longrightarrow> look n = None \<Longrightarrow> read_int ((look(n \<mapsto> s)) x) a c"
  by (cases "x = n") (auto simp: read_int_def split: option.splits)

lemma read_string_step:
  "b = (case [n \<mapsto> s] x of None \<Rightarrow> a | Some t \<Rightarrow> f t) \<Longrightarrow> c = (case look x of None \<Rightarrow> b | Some t \<Rightarrow> f t) \<Longrightarrow> look n = None
    \<Longrightarrow> c = (case (look(n \<mapsto> s)) x of None \<Rightarrow> a | Some t \<Rightarrow> f t)"
  by (cases "x = n") auto

lemma applied_step:
  assumes "applied caps [n \<mapsto> s] l l1" and "applied caps look l1 l'" and "look n = None"
  shows "applied caps (look(n \<mapsto> s)) l l'"
proof -
  note one = assms(1) [unfolded applied_def] and two = assms(2) [unfolded applied_def]
  have "il_ContainerEngine l' \<noteq> []"
    if "pc_containerEngines caps \<noteq> []" "(look(n \<mapsto> s)) localContainerEngineConfigName \<noteq> None"
  proof (cases "look localContainerEngineConfigName")
    case None
    with that have "n = localContainerEngineConfigName" by (auto split: if_splits)
    with one two that None show ?thesis by auto
  qed (use two that in auto)
  moreover have "il_Ports l' = (case (look(n \<mapsto> s)) localPortsConfigName of None \<Rightarrow> il_Ports l | Some t \<Rightarrow> TrimSpace t)"
    by (rule read_string_step [OF conjunct1 [OF one] conjunct1 [OF two] assms(3)])
  moreover have "read_int ((look(n \<mapsto> s)) localCPUCountConfigName) (il_CPUCount l) (il_CPUCount l')
      \<and> read_int ((look(n \<mapsto> s)) localMemoryMBConfigName) (il_MemoryMB l) (il_MemoryMB l')
      \<and> read_int ((look(n \<mapsto> s)) localDataSizeGBConfigName) (il_DataSizeGB l) (il_DataSizeGB l')"
    if vm: "pc_vmSizing caps"
  proof -
    note i1 = mp [OF conjunct1 [OF conjunct2 [OF one]] vm]
      and i2 = mp [OF conjunct1 [OF conjunct2 [OF two]] vm]
    show ?thesis
      by (intro conjI read_int_step [OF conjunct1 [OF i1] conjunct1 [OF i2] assms(3)]
          read_int_step [OF conjunct1 [OF conjunct2 [OF i1]] conjunct1 [OF conjunct2 [OF i2]] assms(3)]
          read_int_step [OF conjunct2 [OF conjunct2 [OF i1]] conjunct2 [OF conjunct2 [OF i2]] assms(3)])
  qed
  moreover have "il_ContainerEngine l' = (case (look(n \<mapsto> s)) localContainerEngineConfigName of
      None \<Rightarrow> il_ContainerEngine l | Some t \<Rightarrow> ToLower (TrimSpace t))"
    if e: "pc_containerEngines caps \<noteq> []"
  proof -
    note s1 = conjunct1 [OF mp [OF conjunct2 [OF conjunct2 [OF one]] e]]
      and s2 = conjunct1 [OF mp [OF conjunct2 [OF conjunct2 [OF two]] e]]
    show ?thesis by (rule read_string_step [OF s1 s2 assms(3)])
  qed
  ultimately show ?thesis unfolding applied_def by blast
qed

lemma applyLocalConfigOverrides_applied:
  assumes "applyLocalConfigOverrides l os caps = (l', None)" and "distinct (map fst os)"
    and "fst ` set os \<subseteq> local_names"
  shows "applied caps (map_of os) l l'"
  using assms
proof (induction l os caps rule: applyLocalConfigOverrides.induct)
  case (1 l caps)
  then show ?case by (simp add: applied_def read_int_def)
next
  case (2 l n s rest caps)
  have n: "n \<in> local_names" "TrimSpace n = n" "n \<noteq> []" using 2 local_names_trimmed by auto
  then obtain l1 where l1: "apply_override caps n (TrimSpace s) l = Inr l1"
    using "2.prems"(1) by (auto simp: Let_def split: sum.splits)
  have ne: "TrimSpace n \<noteq> []" and l1': "apply_override caps (TrimSpace n) (TrimSpace s) l = Inr l1"
    using n l1 by simp_all
  have "applyLocalConfigOverrides l1 rest caps = (l', None)" using "2.prems"(1) n l1 by (simp add: Let_def)
  from "2.IH"(2) [OF refl ne l1' this] "2.prems"(2,3) have "applied caps (map_of rest) l1 l'" by simp
  moreover have "map_of rest n = None" using "2.prems"(2) by (auto simp: map_of_eq_None_iff)
  ultimately have "applied caps ((map_of rest)(n \<mapsto> s)) l l'"
    by (rule applied_step [OF apply_override_applied [OF n(1) l1]])
  then show ?case by (simp only: map_of.simps fst_conv snd_conv)
qed

text \<open>How an option reads after another configuration was written: \<open>raw\<close> is the new raw value of the
  option \<open>name\<close>, the others keep theirs.\<close>

definition option_after ::
  "lb_env \<Rightarrow> listeners \<Rightarrow> string \<Rightarrow> string \<Rightarrow> DeploymentConfigValue \<Rightarrow> DeploymentConfigValue \<Rightarrow> bool" where
  "option_after env s name raw v v' \<longleftrightarrow>
     cv_Name v' = cv_Name v \<and> cv_Type v' = cv_Type v \<and> cv_Default v' = cv_Default v
     \<and> (let r = TrimSpace (if cv_Name v = name then raw else cv_RawValue v) in
        if cv_Name v = localPortsConfigName
        then resolve (lb_ports env) r localServiceCatalog s \<in> {(s', Inr ports) | s' ports. ports = cv_RawValue v'}
        else if cv_Name v = localContainerEngineConfigName then cv_RawValue v' = ToLower r
        else (case cv_Value v' of IntScalar n \<Rightarrow> 0 < n \<and> Atoi r = Some n | _ \<Rightarrow> False)
          \<and> (cv_Name v = name \<or> v' = v))"

lemma Atoi_Itoa_eq: "0 \<le> c \<Longrightarrow> Atoi (Itoa c) = Some n \<Longrightarrow> n = c"
  by (simp add: Atoi_digits Itoa_nat_digits split: if_splits) (simp add: Itoa_def digits_value_itoa_nat)

lemma TrimSpace_Itoa: "0 \<le> c \<Longrightarrow> TrimSpace (Itoa c) = Itoa c"
  using Itoa_chars by (auto intro: TrimSpace_no_space)

lemma int_option_after:
  assumes "0 < old" and "r = (if n = name then raw else Itoa old)" and "0 < new" "Atoi (TrimSpace r) = Some new"
    and "n \<noteq> localPortsConfigName" "n \<noteq> localContainerEngineConfigName"
  shows "option_after env s name raw (localIntConfigValue n old d) (localIntConfigValue n new d)"
proof -
  have "new = old" if "n \<noteq> name"
    using assms(1,2,4) that TrimSpace_Itoa [of old] Atoi_Itoa_eq [of old new] by simp
  with assms show ?thesis
    by (auto simp: option_after_def localIntConfigValue_def Let_def)
qed

lemma engine_option_after:
  assumes "x = ToLower (TrimSpace (if localContainerEngineConfigName = name then raw
      else cv_RawValue (localContainerEngineConfigValue e)))" and "x \<noteq> []"
  shows "option_after env s name raw (localContainerEngineConfigValue e) (localContainerEngineConfigValue x)"
proof -
  have "cv_RawValue (localContainerEngineConfigValue x) = x"
    and "cv_Default (localContainerEngineConfigValue x) = cv_Default (localContainerEngineConfigValue e)"
    using assms(2) by (simp_all add: localContainerEngineConfigValue_def Let_def)
  with assms(1) show ?thesis by (simp add: option_after_def row_names Let_def)
qed

lemma rawMap_overrides:
  fixes raw :: string
  assumes "option_names values" and "name \<in> set (map cv_Name values)" and "set (map cv_Name values) \<subseteq> local_names"
  defines "os \<equiv> configValuesRawMap (patchConfigurationValues values [(name, raw)])"
  shows "distinct (map fst os) \<and> fst ` set os \<subseteq> local_names
    \<and> list_all (\<lambda>v. map_of os (cv_Name v) = Some (if cv_Name v = name then raw else cv_RawValue v)) values"
proof -
  have name: "name \<noteq> []" "TrimSpace name = name" using assms(2,3) local_names_trimmed by auto
  have mo: "map_of os = map_of (map (\<lambda>v. (cv_Name v, cv_RawValue v)) values) ++ [name \<mapsto> raw]"
    using rawMap_patch [OF assms(1), of "[(name, raw)]"] name map_of_rawMap [OF assms(1)]
    by (simp add: os_def fun_eq_iff)
  have "dom (map_of os) \<subseteq> local_names"
    using assms(2,3) by (auto simp: mo dom_map_of_conv_image_fst image_image)
  then have "fst ` set os \<subseteq> local_names" by (simp add: dom_map_of_conv_image_fst)
  moreover have "map_of (map (\<lambda>v. (cv_Name v, cv_RawValue v)) values) (cv_Name v) = Some (cv_RawValue v)"
    if "v \<in> set values" for v
    using assms(1) that by (intro map_of_is_SomeI) (auto simp: option_names_def comp_def)
  ultimately show ?thesis
    using distinct_keys_rawMap [of "patchConfigurationValues values [(name, raw)]"]
    by (auto simp: list_all_iff mo os_def [symmetric])
qed

lemma resolve_config_mac:
  assumes "pc_vmSizing (capabilities env)"
    and "resolveLocalRuntimeConfigForPlatform (Some l) h (lb_goos env) (lb_goarch env) = Inr c"
  shows "c = override_config l (defaultLocalRuntimeConfig h)"
  using assms
  by (auto simp: resolveLocalRuntimeConfigForPlatform_def capabilities_def localCapabilitiesForPlatform_def Let_def
      split: if_splits option.splits)

lemma set_then_get_mac:
  assumes vm: "pc_vmSizing (capabilities env)"
    and read: "ReadConfiguration env (lw_manifest w) = Inr values" and name: "name \<in> set (map cv_Name values)"
    and conf: "Configure env (configValuesRawMap (patchConfigurationValues values [(name, raw)])) w = (w', None)"
  shows "\<exists>values'. ReadConfiguration env (lw_file w') = Inr values'
    \<and> list_all2 (option_after env (lw_listeners w) name raw) values values'"
proof -
  let ?h = "detectLocalHostMemoryMB env" let ?os = "configValuesRawMap (patchConfigurationValues values [(name, raw)])"
  let ?d = "defaultLocalRuntimeConfig ?h" let ?new = "\<lambda>n old. if n = name then raw else old"
  obtain c where c: "resolveLocalRuntimeConfigForPlatform (local_of (lw_manifest w)) ?h (lb_goos env) (lb_goarch env) = Inr c"
    and vals: "values = [localPortsConfigValue (rc_ports c),
         localIntConfigValue localCPUCountConfigName (rc_cpuCount c) (rc_cpuCount ?d),
         localIntConfigValue localMemoryMBConfigName (rc_memoryMB c) (rc_memoryMB ?d),
         localIntConfigValue localDataSizeGBConfigName (rc_dataSizeGB c) (rc_dataSizeGB ?d)]"
    using read vm by (auto simp: ReadConfiguration_mac Let_def split: sum.splits)
  have pos: "0 < rc_cpuCount c" "0 < rc_memoryMB c" "0 < rc_dataSizeGB c"
    using resolve_config_valid [OF c] vm
    by (auto simp: valid_sizes_def capabilities_def localCapabilitiesForPlatform_def localMinimumMemoryMB_def)
  have names: "option_names values" "set (map cv_Name values) \<subseteq> local_names"
    by (auto simp: vals option_names_def row_names local_names_def config_names TrimSpace_def is_space_def)
  note rows = rawMap_overrides [OF names(1) name names(2), of raw]
  show ?thesis
    using conf
  proof (cases rule: Configure_cases)
    case (written m l s ports)
    have ap: "applied (capabilities env) (map_of ?os) (ensureLocalManifestConfig env m) l"
      using applyLocalConfigOverrides_applied [OF written(3)] rows by blast
    have look: "map_of ?os localPortsConfigName = Some (?new localPortsConfigName (rc_ports c))"
      "map_of ?os localCPUCountConfigName = Some (?new localCPUCountConfigName (Itoa (rc_cpuCount c)))"
      "map_of ?os localMemoryMBConfigName = Some (?new localMemoryMBConfigName (Itoa (rc_memoryMB c)))"
      "map_of ?os localDataSizeGBConfigName = Some (?new localDataSizeGBConfigName (Itoa (rc_dataSizeGB c)))"
      using rows by (simp_all add: vals localPortsConfigValue_def localIntConfigValue_def)
    let ?l = "l\<lparr>il_Ports := ports\<rparr>"
    obtain c' where c': "resolveLocalRuntimeConfigForPlatform (Some ?l) ?h (lb_goos env) (lb_goarch env) = Inr c'"
      using written(5) by blast
    have l_vals: "il_Ports l = TrimSpace (?new localPortsConfigName (rc_ports c))"
      "0 < il_CPUCount l" "Atoi (TrimSpace (?new localCPUCountConfigName (Itoa (rc_cpuCount c)))) = Some (il_CPUCount l)"
      "0 < il_MemoryMB l" "Atoi (TrimSpace (?new localMemoryMBConfigName (Itoa (rc_memoryMB c)))) = Some (il_MemoryMB l)"
      "0 < il_DataSizeGB l" "Atoi (TrimSpace (?new localDataSizeGBConfigName (Itoa (rc_dataSizeGB c)))) = Some (il_DataSizeGB l)"
      using ap vm look by (simp_all add: applied_def read_int_def)
    then have c'_eq: "rc_ports c' = ports" "rc_cpuCount c' = il_CPUCount l" "rc_memoryMB c' = il_MemoryMB l"
      "rc_dataSizeGB c' = il_DataSizeGB l"
      using resolve_config_mac [OF vm c'] by (simp_all add: override_config_def)
    let ?v' = "[localPortsConfigValue ports,
         localIntConfigValue localCPUCountConfigName (il_CPUCount l) (rc_cpuCount ?d),
         localIntConfigValue localMemoryMBConfigName (il_MemoryMB l) (rc_memoryMB ?d),
         localIntConfigValue localDataSizeGBConfigName (il_DataSizeGB l) (rc_dataSizeGB ?d)]"
    have "ReadConfiguration env (lw_file w') = Inr ?v'"
      using c' c'_eq written(6) vm by (simp add: ReadConfiguration_mac local_of_def Let_def)
    moreover have "option_after env (lw_listeners w) name raw (localPortsConfigValue (rc_ports c)) (localPortsConfigValue ports)"
      using written(4) l_vals(1) by (auto simp: option_after_def localPortsConfigValue_def Let_def)
    moreover note int_option_after [OF pos(1) refl l_vals(2,3)] int_option_after [OF pos(2) refl l_vals(4,5)]
      int_option_after [OF pos(3) refl l_vals(6,7)]
    ultimately show ?thesis by (simp add: vals)
  qed auto
qed

lemma set_then_get_host:
  assumes vm: "\<not> pc_vmSizing (capabilities env)"
    and read: "ReadConfiguration env (lw_manifest w) = Inr values" and name: "name \<in> set (map cv_Name values)"
    and conf: "Configure env (configValuesRawMap (patchConfigurationValues values [(name, raw)])) w = (w', None)"
  shows "\<exists>values'. ReadConfiguration env (lw_file w') = Inr values'
    \<and> list_all2 (option_after env (lw_listeners w) name raw) values values'"
proof -
  let ?os = "configValuesRawMap (patchConfigurationValues values [(name, raw)])"
  let ?new = "\<lambda>n old. if n = name then raw else old"
  obtain p e where vals: "values = [localPortsConfigValue p, localContainerEngineConfigValue e]"
    using read vm by (auto simp: ReadConfiguration_host)
  have some: "pc_containerEngines (capabilities env) \<noteq> []"
    using vm mac_engines by (simp add: capabilities_def localCapabilitiesForPlatform_def)
  let ?e = "cv_RawValue (localContainerEngineConfigValue e)"
  have names: "option_names values" "set (map cv_Name values) \<subseteq> local_names"
    by (auto simp: vals option_names_def row_names local_names_def config_names TrimSpace_def is_space_def)
  note rows = rawMap_overrides [OF names(1) name names(2), of raw]
  show ?thesis
    using conf
  proof (cases rule: Configure_cases)
    case (written m l s ports)
    have ap: "applied (capabilities env) (map_of ?os) (ensureLocalManifestConfig env m) l"
      using applyLocalConfigOverrides_applied [OF written(3)] rows by blast
    have look: "map_of ?os localPortsConfigName = Some (?new localPortsConfigName p)"
      "map_of ?os localContainerEngineConfigName = Some (?new localContainerEngineConfigName ?e)"
      using rows by (simp_all add: vals row_names) (simp_all add: localPortsConfigValue_def)
    have l_vals: "il_Ports l = TrimSpace (?new localPortsConfigName p)"
      "il_ContainerEngine l = ToLower (TrimSpace (?new localContainerEngineConfigName ?e))"
      using ap some look by (simp_all add: applied_def)
    have "map_of ?os localContainerEngineConfigName \<noteq> None" using look(2) by simp
    then have l_ne: "il_ContainerEngine l \<noteq> []" using ap some unfolding applied_def by blast
    have "ReadConfiguration env (lw_file w')
        = Inr [localPortsConfigValue ports, localContainerEngineConfigValue (il_ContainerEngine l)]"
      using written(6) vm by (simp add: ReadConfiguration_host local_of_def)
    moreover have "option_after env (lw_listeners w) name raw (localPortsConfigValue p) (localPortsConfigValue ports)"
      using written(4) l_vals(1) by (auto simp: option_after_def localPortsConfigValue_def Let_def)
    moreover have "option_after env (lw_listeners w) name raw (localContainerEngineConfigValue e)
        (localContainerEngineConfigValue (il_ContainerEngine l))"
      using l_vals(2) l_ne by (rule engine_option_after)
    ultimately show ?thesis by (simp add: vals)
  qed auto
qed



end
