(* ===== verification/Go_Filepath.thy ===== *)
theory Go_Filepath
  imports Go_Prelude
begin

text \<open>
  The lexical functions of Go's \<^verbatim>\<open>path/filepath\<close> on a system whose separator is the slash: \<^verbatim>\<open>Clean\<close>, \<^verbatim>\<open>Join\<close>,
  \<^verbatim>\<open>Base\<close>, \<^verbatim>\<open>Dir\<close> and \<^verbatim>\<open>IsAbs\<close>. A clean path is a list of names behind an optional root; what the
  components need of them is that a clean relative path without a leading dot-dot stays below any
  directory it is joined to.
\<close>

abbreviation slash :: char where "slash \<equiv> CHR ''/''"

definition IsAbs :: "string \<Rightarrow> bool" where
  "IsAbs p \<longleftrightarrow> HasPrefix p ''/''"

text \<open>One pass over the parts with a stack of names, the last one first.\<close>

definition clean_step :: "bool \<Rightarrow> string list \<Rightarrow> string \<Rightarrow> string list" where
  "clean_step rooted stack part =
     (if part = [] \<or> part = ''.'' then stack
      else if part = ''..'' then
        (case stack of
           [] \<Rightarrow> if rooted then [] else [''..'']
         | t # rest \<Rightarrow> if t = ''..'' then ''..'' # stack else rest)
      else part # stack)"

definition clean_names :: "bool \<Rightarrow> string list \<Rightarrow> string list" where
  "clean_names rooted parts = rev (foldl (clean_step rooted) [] parts)"

definition render_path :: "bool \<Rightarrow> string list \<Rightarrow> string" where
  "render_path rooted names =
     (if rooted then slash # Join names ''/'' else if names = [] then ''.'' else Join names ''/'')"

definition Clean :: "string \<Rightarrow> string" where
  "Clean p = render_path (IsAbs p) (clean_names (IsAbs p) (SplitByte p slash))"

text \<open>\<^verbatim>\<open>Join\<close> ignores empty elements and cleans; the empty result stays empty.\<close>

definition JoinPath :: "string list \<Rightarrow> string" where
  "JoinPath elems =
     (let es = filter (\<lambda>e. e \<noteq> []) elems in if es = [] then [] else Clean (Join es ''/''))"

definition Base :: "string \<Rightarrow> string" where
  "Base p =
     (if p = [] then ''.''
      else let names = filter (\<lambda>n. n \<noteq> []) (SplitByte p slash) in if names = [] then ''/'' else last names)"

definition Dir :: "string \<Rightarrow> string" where
  "Dir p = Clean (rev (dropWhile (\<lambda>c. c \<noteq> slash) (rev p)))"

section \<open>Names\<close>

definition path_name :: "string \<Rightarrow> bool" where
  "path_name n \<longleftrightarrow> n \<noteq> [] \<and> n \<noteq> ''.'' \<and> slash \<notin> set n"

definition plain_name :: "string \<Rightarrow> bool" where
  "plain_name n \<longleftrightarrow> path_name n \<and> n \<noteq> ''..''"

text \<open>The shape of the names of a clean path: dot-dots, none in a rooted one, before plain names.\<close>

definition clean_list :: "bool \<Rightarrow> string list \<Rightarrow> bool" where
  "clean_list rooted ns \<longleftrightarrow>
     list_all plain_name (dropWhile (\<lambda>n. n = ''..'') ns) \<and> (rooted \<longrightarrow> list_all plain_name ns)"

lemma clean_step_names:
  assumes "clean_list rooted (rev stack)" and "slash \<notin> set part"
  shows "clean_list rooted (rev (clean_step rooted stack part))"
proof -
  have drop: "dropWhile (\<lambda>n. n = ''..'') (xs @ [x]) =
      (if dropWhile (\<lambda>n. n = ''..'') xs = [] then (if x = ''..'' then [] else [x])
       else dropWhile (\<lambda>n. n = ''..'') xs @ [x])" for xs :: "string list" and x
    by (induction xs) auto
  have all_dots: "dropWhile (\<lambda>n. n = ''..'') (xs @ [''..'']) = []"
    if "list_all plain_name (dropWhile (\<lambda>n. n = ''..'') (xs @ [''..'']))" for xs :: "string list"
    using that by (auto simp: drop plain_name_def split: if_splits)
  have dots: "dropWhile (\<lambda>n. n = ''..'') (rev xs) = []" if "\<forall>x \<in> set xs. x = ''..''" for xs :: "string list"
    using that by simp
  consider "part = [] \<or> part = ''.''" | "part = ''..''" "stack = []"
    | t rest where "part = ''..''" "stack = t # rest" | "part \<noteq> []" "part \<noteq> ''.''" "part \<noteq> ''..''"
    by (cases stack) auto
  then show ?thesis
  proof cases
    case (3 t rest)
    show ?thesis
    proof (cases "t = ''..''")
      case True
      with assms(1) 3 have c: "clean_list rooted (rev rest @ [''..''])" by simp
      have "dropWhile (\<lambda>n. n = ''..'') (rev rest @ [''..'']) = []"
        by (rule all_dots) (use c in \<open>simp add: clean_list_def\<close>)
      moreover have "\<not> rooted" using c by (auto simp: clean_list_def plain_name_def)
      moreover have dd: "dropWhile (\<lambda>n. n = ''..'') (rev rest @ [''..'', ''..'']) = []"
        using calculation(1) by simp
      ultimately show ?thesis using 3 True
        by (simp add: clean_step_def clean_list_def dd)
    next
      case False
      with assms(1) 3 show ?thesis
        by (auto simp: clean_step_def clean_list_def drop dots split: if_splits)
    qed
  next
    case 4
    with assms have "plain_name part" by (simp add: plain_name_def path_name_def)
    with assms(1) 4 show ?thesis by (auto simp: clean_step_def clean_list_def drop)
  qed (use assms in \<open>auto simp: clean_step_def clean_list_def\<close>)
qed

lemma clean_names_shape: "list_all (\<lambda>p. slash \<notin> set p) parts \<Longrightarrow> clean_list rooted (clean_names rooted parts)"
proof (induction parts rule: rev_induct)
  case (snoc p ps)
  then show ?case
    using clean_step_names [of rooted "rev (clean_names rooted ps)" p] by (simp add: clean_names_def)
qed (simp add: clean_names_def clean_list_def)

lemma foldl_clean_plain:
  "list_all plain_name ns \<Longrightarrow> foldl (clean_step rooted) stack ns = rev ns @ stack"
  by (induction ns arbitrary: stack) (auto simp: clean_step_def plain_name_def path_name_def)

text \<open>Joining a clean relative path of plain names to a rooted, clean directory extends its names.\<close>

lemma SplitByte_Join_names:
  "ns \<noteq> [] \<Longrightarrow> list_all path_name ns \<Longrightarrow> SplitByte (Join ns ''/'') slash = ns"
  by (rule SplitByte_Join) (auto simp: list_all_iff path_name_def)

lemma plain_path_names: "list_all plain_name ns \<Longrightarrow> list_all path_name ns"
  by (auto simp: list_all_iff plain_name_def)

lemma Clean_rooted:
  assumes "list_all plain_name ns"
  shows "Clean (slash # Join ns ''/'') = slash # Join ns ''/''"
proof -
  have "clean_names True (SplitByte (slash # Join ns ''/'') slash) = ns"
  proof (cases "ns = []")
    case False
    then show ?thesis
      using SplitByte_Join_names [OF _ plain_path_names [OF assms]] foldl_clean_plain [OF assms, of True]
      by (simp add: clean_names_def clean_step_def)
  qed (simp add: clean_names_def clean_step_def)
  then show ?thesis by (simp add: Clean_def IsAbs_def HasPrefix_def render_path_def)
qed

lemma Join_append_slash:
  "xs \<noteq> [] \<Longrightarrow> ys \<noteq> [] \<Longrightarrow> Join xs s @ s @ Join ys s = Join (xs @ ys) s"
  by (induction xs s rule: Join.induct) (auto simp: neq_Nil_conv)

lemma JoinPath_below:
  assumes "list_all plain_name ds" and "list_all plain_name ns" and "ns \<noteq> []"
  shows "JoinPath [slash # Join ds ''/'', Join ns ''/''] = slash # Join (ds @ ns) ''/''"
proof (cases "ds = []")
  case True
  have ne: "Join ns ''/'' \<noteq> []" using assms(2,3)
    by (cases ns; cases "tl ns") (auto simp: plain_name_def path_name_def neq_Nil_conv)
  have "clean_names True (SplitByte (slash # slash # Join ns ''/'') slash) = ns"
    using SplitByte_Join_names [OF assms(3) plain_path_names [OF assms(2)]]
      foldl_clean_plain [OF assms(2), of True]
    by (simp add: clean_names_def clean_step_def)
  with True ne show ?thesis
    by (simp add: JoinPath_def Clean_def IsAbs_def HasPrefix_def render_path_def)
next
  case False
  have ne: "Join ns ''/'' \<noteq> []" using assms(2,3)
    by (cases ns; cases "tl ns") (auto simp: plain_name_def path_name_def neq_Nil_conv)
  have "Join [slash # Join ds ''/'', Join ns ''/''] ''/'' = slash # Join (ds @ ns) ''/''"
    using Join_append_slash [OF False assms(3), of "''/''"] by simp
  then show ?thesis
    using ne Clean_rooted [of "ds @ ns"] assms by (simp add: JoinPath_def)
qed

end
