(* ===== verification/Deployment_Info.thy ===== *)
theory Deployment_Info
  imports Local_Ports Go_Filepath
begin

text \<open>
  What a deployment tells its clients: the deployment info file with its normalization
  (\<^verbatim>\<open>src/internal/config/node_details.go\<close>), the connection that is resolved from it
  (\<^verbatim>\<open>src/internal/config/connection_info.go\<close>) and the identity strings of a deployment
  (\<^verbatim>\<open>src/internal/deploy/identity.go\<close>).

  The nodes are an association list in an arbitrary order. Decoding PEM and hashing are parameters. The file
  holds the record itself: its JSON form omits what is empty and reads back as such.
\<close>

section \<open>The records\<close>

record DeploymentDatabase =
  db_DbPort :: string
  db_UiPort :: string
  db_Url :: string

record DeploymentSSH =
  ssh_Command :: string
  ssh_KeyFile :: string
  ssh_KeyName :: string
  ssh_Port :: string
  ssh_Username :: string

record DeploymentNode =
  dn_AvailabilityZone :: string
  dn_Database :: DeploymentDatabase
  dn_DnsName :: string
  dn_InstanceId :: string
  dn_PrivateIp :: string
  dn_PublicIp :: string
  dn_Ssh :: DeploymentSSH
  dn_TlsCert :: string

record DeploymentAdminUI =
  ui_URL :: string
  ui_Username :: string
  ui_CertFingerprint :: string
  ui_InsecureSkipCertValidation :: bool

record DeploymentConnection =
  cn_Host :: string
  cn_DisplayHost :: string
  cn_PublicIp :: string
  cn_DBPort :: int
  cn_UIPort :: int
  cn_AdminUI :: "DeploymentAdminUI option"
  cn_Username :: string
  cn_CertFingerprint :: string
  cn_InsecureSkipCertValidation :: bool
  cn_SSHCommand :: string
  cn_SSHPort :: string
  cn_ShellSupported :: bool

record DeploymentInfo =
  in_Backend :: string
  in_DeploymentId :: string
  in_DeploymentState :: string
  in_Region :: string
  in_AvailabilityZone :: string
  in_ClusterSize :: int
  in_ClusterState :: string
  in_InstanceType :: string
  in_VpcId :: string
  in_SubnetId :: string
  in_Nodes :: "(string \<times> DeploymentNode) list"
  in_Connection :: "DeploymentConnection option"

record SSHDetails =
  sd_Host :: string
  sd_Port :: string
  sd_User :: string
  sd_KeyFile :: string

text \<open>\<open>ce_pem\<close> is the type and content of the first PEM block, \<open>ce_sha256\<close> the hash.\<close>

record cert_libs =
  ce_pem :: "string \<Rightarrow> (string \<times> string) option"
  ce_sha256 :: "string \<Rightarrow> string"

definition primaryNodeName :: string where "primaryNodeName = ''n11''"
definition defaultUsername :: string where "defaultUsername = ''sys''"
definition defaultAdminUIUsername :: string where "defaultAdminUIUsername = ''admin''"

section \<open>Helpers\<close>

definition firstNonEmpty :: "string list \<Rightarrow> string" where
  "firstNonEmpty vs = (case List.find (\<lambda>v. v \<noteq> []) (map TrimSpace vs) of Some v \<Rightarrow> v | None \<Rightarrow> [])"

definition parseConnectionPort :: "string \<Rightarrow> int" where
  "parseConnectionPort v = (let t = TrimSpace v in if t = [] then 0 else Atoi_value t)"

definition makeAdminUIURL :: "string \<Rightarrow> int \<Rightarrow> string" where
  "makeAdminUIURL host port =
     (let h = TrimSpace host in if h = [] \<or> port \<le> 0 then [] else ''https://'' @ JoinHostPort h (Itoa port))"

definition ListNodes :: "DeploymentInfo \<Rightarrow> string list" where
  "ListNodes s = sort (map fst (in_Nodes s))"

definition hex_upper :: "string \<Rightarrow> string" where
  "hex_upper s = ToUpper (concat (map (\<lambda>c. [hex_digit (of_char c div 16), hex_digit (of_char c)]) s))"

text \<open>The node an endpoint is read from: \<^verbatim>\<open>n11\<close>, or the first in order of name.\<close>

definition main_node :: "DeploymentInfo \<Rightarrow> (string \<times> DeploymentNode) option" where
  "main_node s =
     (case map_of (in_Nodes s) primaryNodeName of
        Some node \<Rightarrow> Some (primaryNodeName, node)
      | None \<Rightarrow>
          (case ListNodes s of
             [] \<Rightarrow> None
           | n # _ \<Rightarrow> map_option (\<lambda>node. (n, node)) (map_of (in_Nodes s) n)))"

definition noNodes :: go_error where
  "noNodes = Plain ''no nodes found in the active deployment's infrastructure''"

definition ErrUnknownNodeName :: go_error where "ErrUnknownNodeName = Sentinel ''ErrUnknownNodeName''"

section \<open>Endpoints and certificates of the nodes\<close>

definition Resolve_path :: "string \<Rightarrow> string \<Rightarrow> string" where
  "Resolve_path root p = (if IsAbs p then p else JoinPath [root, p])"

definition GetSSHDetails :: "string \<Rightarrow> DeploymentInfo \<Rightarrow> string \<Rightarrow> (go_error, SSHDetails) result" where
  "GetSSHDetails root s nodeName =
     (case map_of (in_Nodes s) nodeName of
        None \<Rightarrow> Inl (Wrap nodeName ErrUnknownNodeName)
      | Some entry \<Rightarrow> Inr \<lparr>sd_Host = dn_PublicIp entry, sd_Port = ssh_Port (dn_Ssh entry),
            sd_User = ssh_Username (dn_Ssh entry), sd_KeyFile = Resolve_path root (ssh_KeyFile (dn_Ssh entry))\<rparr>)"

definition node_endpoint :: "DeploymentInfo \<Rightarrow> (go_error, string \<times> int) result" where
  "node_endpoint s =
     (case main_node s of
        None \<Rightarrow> Inl noNodes
      | Some (nodeName, node) \<Rightarrow>
          (let dns = TrimSpace (dn_DnsName node);
               host = (if dns = [] then TrimSpace (dn_PublicIp node) else dns);
               portRaw = TrimSpace (db_DbPort (dn_Database node))
           in if host = [] then
                Inl (Plain (''node '' @ nodeName @ '' has no reachable host: both dnsName and publicIp are empty''))
              else if portRaw = [] then Inl (Plain ''database port is empty in node details'')
              else case Atoi portRaw of
                  None \<Rightarrow> Inl (Wrap (''failed to parse database port '' @ portRaw) (Plain ''strconv.Atoi''))
                | Some port \<Rightarrow>
                    if port \<le> 0 \<or> port > 65535 then Inl (Plain (''database port out of range: '' @ Itoa port))
                    else Inr (host, port)))"

definition GetDeploymentHostPort :: "DeploymentInfo \<Rightarrow> (go_error, string \<times> int) result" where
  "GetDeploymentHostPort s =
     (case in_Connection s of
        Some c \<Rightarrow>
          if TrimSpace (cn_Host c) \<noteq> [] \<and> cn_DBPort c > 0 then Inr (cn_Host c, cn_DBPort c) else node_endpoint s
      | None \<Rightarrow> node_endpoint s)"

definition node_fingerprint :: "cert_libs \<Rightarrow> DeploymentInfo \<Rightarrow> (go_error, string) result" where
  "node_fingerprint libs s =
     (case main_node s of
        None \<Rightarrow> Inl noNodes
      | Some (nodeName, node) \<Rightarrow>
          (let pemStr = TrimSpace (dn_TlsCert node) in
           if pemStr = [] then Inl (Plain (''node '' @ nodeName @ '' has empty tls certificate''))
           else case ce_pem libs pemStr of
               None \<Rightarrow> Inl (Plain (''node '' @ nodeName @ '': failed to decode PEM block containing tls certificate''))
             | Some (kind, der) \<Rightarrow>
                 if kind \<noteq> ''CERTIFICATE'' then
                   Inl (Plain (''node '' @ nodeName @ '': failed to decode PEM block containing tls certificate''))
                 else Inr (hex_upper (ce_sha256 libs der))))"

definition GetCertFingerprint :: "cert_libs \<Rightarrow> DeploymentInfo \<Rightarrow> (go_error, string) result" where
  "GetCertFingerprint libs s =
     (case in_Connection s of
        Some c \<Rightarrow> if TrimSpace (cn_CertFingerprint c) \<noteq> [] then Inr (TrimSpace (cn_CertFingerprint c))
                  else node_fingerprint libs s
      | None \<Rightarrow> node_fingerprint libs s)"

section \<open>Normalization\<close>

definition admin_ui :: "string \<Rightarrow> DeploymentAdminUI" where
  "admin_ui url = \<lparr>ui_URL = url, ui_Username = defaultAdminUIUsername, ui_CertFingerprint = [],
     ui_InsecureSkipCertValidation = False\<rparr>"

definition deriveAdminUIFromNode :: "DeploymentNode \<Rightarrow> string \<Rightarrow> DeploymentAdminUI option" where
  "deriveAdminUIFromNode node host =
     (let url = TrimSpace (db_Url (dn_Database node)); uiPort = parseConnectionPort (db_UiPort (dn_Database node)) in
      if url \<noteq> [] then Some (admin_ui url)
      else if uiPort \<le> 0 then None
      else let url = makeAdminUIURL host uiPort in if url = [] then None else Some (admin_ui url))"

definition deriveConnectionFromNodes :: "cert_libs \<Rightarrow> DeploymentInfo \<Rightarrow> DeploymentConnection option" where
  "deriveConnectionFromNodes libs info =
     (case main_node info of
        None \<Rightarrow> None
      | Some (_, node) \<Rightarrow>
          (let host = firstNonEmpty [dn_DnsName node, dn_PublicIp node] in
           Some \<lparr>cn_Host = host, cn_DisplayHost = host, cn_PublicIp = dn_PublicIp node,
             cn_DBPort = parseConnectionPort (db_DbPort (dn_Database node)),
             cn_UIPort = parseConnectionPort (db_UiPort (dn_Database node)),
             cn_AdminUI = deriveAdminUIFromNode node host, cn_Username = defaultUsername,
             cn_CertFingerprint = (case GetCertFingerprint libs info of Inr f \<Rightarrow> f | Inl _ \<Rightarrow> []),
             cn_InsecureSkipCertValidation = False, cn_SSHCommand = ssh_Command (dn_Ssh node),
             cn_SSHPort = ssh_Port (dn_Ssh node), cn_ShellSupported = True\<rparr>))"

definition normalizeAdminUIConnection :: "DeploymentConnection \<Rightarrow> DeploymentConnection" where
  "normalizeAdminUIConnection c =
     (let derived = (if cn_AdminUI c = None \<and> cn_UIPort c > 0
            then Some (admin_ui (makeAdminUIURL (firstNonEmpty [cn_DisplayHost c, cn_Host c, cn_PublicIp c]) (cn_UIPort c)))
            else cn_AdminUI c)
      in c\<lparr>cn_AdminUI :=
           (case derived of
              None \<Rightarrow> None
            | Some ui \<Rightarrow>
                if TrimSpace (ui_URL ui) = [] then None
                else Some (ui\<lparr>ui_URL := TrimSpace (ui_URL ui),
                       ui_Username := (if TrimSpace (ui_Username ui) = [] then defaultAdminUIUsername
                                       else TrimSpace (ui_Username ui)),
                       ui_CertFingerprint := TrimSpace (ui_CertFingerprint ui)\<rparr>))\<rparr>)"

definition normalize_connection :: "DeploymentConnection \<Rightarrow> DeploymentConnection" where
  "normalize_connection c =
     (let c = (if TrimSpace (cn_DisplayHost c) = []
               then c\<lparr>cn_DisplayHost := firstNonEmpty [cn_DisplayHost c, cn_Host c, cn_PublicIp c]\<rparr> else c);
          c = (if TrimSpace (cn_Host c) = [] then c\<lparr>cn_Host := firstNonEmpty [cn_Host c, cn_PublicIp c]\<rparr> else c);
          c = (if TrimSpace (cn_Username c) = [] then c\<lparr>cn_Username := defaultUsername\<rparr> else c)
      in normalizeAdminUIConnection c)"

definition normalizeDeploymentInfo :: "cert_libs \<Rightarrow> DeploymentInfo \<Rightarrow> DeploymentInfo" where
  "normalizeDeploymentInfo libs info =
     (let connection = (if in_Connection info = None \<and> in_Nodes info \<noteq> []
                        then deriveConnectionFromNodes libs info else in_Connection info);
          backend = TrimSpace (in_Backend info)
      in info\<lparr>in_Connection := map_option normalize_connection connection,
           in_Backend := (if backend = [] \<and> (in_Nodes info \<noteq> [] \<or> in_Region info \<noteq> [] \<or> in_VpcId info \<noteq> []
                            \<or> in_SubnetId info \<noteq> []) then ''tofu'' else backend)\<rparr>)"

definition hasRecognizedDeploymentInfo :: "DeploymentInfo \<Rightarrow> bool" where
  "hasRecognizedDeploymentInfo info \<longleftrightarrow>
     TrimSpace (in_DeploymentId info) \<noteq> [] \<or> TrimSpace (in_Backend info) \<noteq> [] \<or> in_Connection info \<noteq> None
     \<or> in_Nodes info \<noteq> [] \<or> TrimSpace (in_Region info) \<noteq> [] \<or> TrimSpace (in_VpcId info) \<noteq> []
     \<or> TrimSpace (in_SubnetId info) \<noteq> []"

section \<open>The file\<close>

datatype info_file = InfoMissing | InfoStatFails go_error | InfoUnreadable go_error | InfoFile DeploymentInfo

definition ReadDeploymentInfo :: "cert_libs \<Rightarrow> info_file \<Rightarrow> (go_error, DeploymentInfo) result" where
  "ReadDeploymentInfo libs f =
     (case f of
        InfoStatFails e \<Rightarrow> Inl e
      | InfoMissing \<Rightarrow> Inl (Plain ''deployment info file not found in deployment directory'')
      | InfoUnreadable e \<Rightarrow> Inl e
      | InfoFile raw \<Rightarrow>
          (let info = normalizeDeploymentInfo libs raw in
           if \<not> hasRecognizedDeploymentInfo info
           then Inl (Plain ''deployment info file has no recognizable schema'') else Inr info))"

text \<open>The file is written in place; a failure leaves it unreadable.\<close>

definition WriteDeploymentInfo ::
  "cert_libs \<Rightarrow> go_error option \<Rightarrow> DeploymentInfo \<Rightarrow> info_file \<Rightarrow> info_file \<times> go_error option" where
  "WriteDeploymentInfo libs write info f =
     (case write of
        Some e \<Rightarrow> (InfoUnreadable e, Some e)
      | None \<Rightarrow> (InfoFile (normalizeDeploymentInfo libs info), None))"

section \<open>The connection\<close>

record ConnectionInfo =
  ci_DeploymentName :: string
  ci_DeploymentState :: string
  ci_ClusterSize :: int
  ci_ClusterState :: string
  ci_Host :: string
  ci_DisplayHost :: string
  ci_DBPort :: int
  ci_UIPort :: int
  ci_AdminUI :: "DeploymentAdminUI option"
  ci_Username :: string
  ci_CertFingerprint :: string
  ci_InsecureSkipCertValidation :: bool
  ci_SecretsFilePath :: string
  ci_PublicIP :: string
  ci_SSHCommand :: string
  ci_SSHPort :: string
  ci_ShellSupported :: bool

definition cloneDeploymentAdminUI :: "DeploymentAdminUI option \<Rightarrow> DeploymentAdminUI option" where
  "cloneDeploymentAdminUI adminUI =
     (case adminUI of
        None \<Rightarrow> None
      | Some ui \<Rightarrow> if TrimSpace (ui_URL ui) = [] then None
          else Some (ui\<lparr>ui_URL := TrimSpace (ui_URL ui), ui_Username := TrimSpace (ui_Username ui),
            ui_CertFingerprint := TrimSpace (ui_CertFingerprint ui)\<rparr>))"

definition legacyNodeTLSCertFingerprintFallback :: "cert_libs \<Rightarrow> DeploymentInfo \<Rightarrow> string" where
  "legacyNodeTLSCertFingerprintFallback libs info =
     (case GetCertFingerprint libs info of Inl _ \<Rightarrow> [] | Inr f \<Rightarrow> f)"

definition resolveConnectionCertFingerprint :: "cert_libs \<Rightarrow> DeploymentInfo \<Rightarrow> string" where
  "resolveConnectionCertFingerprint libs info =
     (case in_Connection info of
        None \<Rightarrow> []
      | Some c \<Rightarrow> if TrimSpace (cn_CertFingerprint c) \<noteq> [] then TrimSpace (cn_CertFingerprint c)
                  else legacyNodeTLSCertFingerprintFallback libs info)"

definition info_connection :: "cert_libs \<Rightarrow> (go_error, string) result \<Rightarrow> DeploymentInfo \<Rightarrow> (go_error, ConnectionInfo) result" where
  "info_connection libs secrets_path info =
     (case in_Connection info of
        None \<Rightarrow> Inl (Plain ''deployment connection details are missing'')
      | Some c \<Rightarrow>
          (case secrets_path of
             Inl e \<Rightarrow> Inl e
           | Inr secretsFilePath \<Rightarrow>
               (let host = TrimSpace (cn_Host c); display = TrimSpace (cn_DisplayHost c); user = TrimSpace (cn_Username c) in
                if host = [] then Inl (Plain ''deployment connection host is missing'')
                else if cn_DBPort c \<le> 0 then Inl (Plain ''deployment database port is missing'')
                else Inr \<lparr>ci_DeploymentName = in_DeploymentId info, ci_DeploymentState = in_DeploymentState info,
                  ci_ClusterSize = in_ClusterSize info, ci_ClusterState = in_ClusterState info, ci_Host = host,
                  ci_DisplayHost = (if display = [] then host else display), ci_DBPort = cn_DBPort c,
                  ci_UIPort = cn_UIPort c, ci_AdminUI = cloneDeploymentAdminUI (cn_AdminUI c),
                  ci_Username = (if user = [] then ''sys'' else user),
                  ci_CertFingerprint = resolveConnectionCertFingerprint libs info,
                  ci_InsecureSkipCertValidation = cn_InsecureSkipCertValidation c,
                  ci_SecretsFilePath = secretsFilePath, ci_PublicIP = TrimSpace (cn_PublicIp c),
                  ci_SSHCommand = TrimSpace (cn_SSHCommand c), ci_SSHPort = TrimSpace (cn_SSHPort c),
                  ci_ShellSupported = cn_ShellSupported c\<rparr>)))"

definition ResolveConnectionInfo ::
  "cert_libs \<Rightarrow> (go_error, string) result \<Rightarrow> info_file \<Rightarrow> (go_error, ConnectionInfo) result" where
  "ResolveConnectionInfo libs secrets_path f =
     (case ReadDeploymentInfo libs f of
        Inl e \<Rightarrow> Inl (Wrap ''failed to get deployment info'' e)
      | Inr info \<Rightarrow> info_connection libs secrets_path info)"

section \<open>Identity\<close>

record PresetRef =
  pr_Name :: string
  pr_Path :: string

definition IsPath :: "PresetRef \<Rightarrow> bool" where
  "IsPath p \<longleftrightarrow> TrimSpace (pr_Path p) \<noteq> []"

definition clusterIdentityPrefix :: string where "clusterIdentityPrefix = ''exasol-personal''"

definition databasePasswordAlphabet :: string where
  "databasePasswordAlphabet = ''ABCDEFGHIJKLMNOPQRSTUVWXYZabcdefghijklmnopqrstuvwxyz0123456789''"

definition databasePasswordLength :: nat where "databasePasswordLength = 16"

text \<open>\<open>random\<close> are the numbers the source of randomness gives, below the size asked for, or its error.\<close>

definition generateDatabasePassword :: "(go_error, nat list) result \<Rightarrow> (go_error, string) result" where
  "generateDatabasePassword random =
     (case random of
        Inl e \<Rightarrow> Inl e
      | Inr positions \<Rightarrow> Inr (map (\<lambda>p. databasePasswordAlphabet ! (p mod length databasePasswordAlphabet))
          (take databasePasswordLength positions)))"

definition GenerateDeploymentId :: "(go_error, char list) result \<Rightarrow> (go_error, string) result" where
  "GenerateDeploymentId random =
     (case random of
        Inl e \<Rightarrow> Inl e
      | Inr bytes \<Rightarrow> Inr (concat (map (\<lambda>c. [hex_digit (of_char c div 16), hex_digit (of_char c)]) (take 4 bytes))))"

definition replace_with :: "char \<Rightarrow> char \<Rightarrow> string \<Rightarrow> string" where
  "replace_with c d s = map (\<lambda>x. if x = c then d else x) s"

definition presetIdentityToken :: "PresetRef \<Rightarrow> string" where
  "presetIdentityToken p =
     (let tok = (if IsPath p then Base (Clean (TrimSpace (pr_Path p))) else TrimSpace (pr_Name p)) in
      if tok = [] then ''unknown''
      else replace_with CHR '' '' CHR ''_'' (replace_with CHR '';'' CHR ''_'' tok))"

definition ComputeClusterIdentity :: "string \<Rightarrow> PresetRef \<Rightarrow> PresetRef \<Rightarrow> string" where
  "ComputeClusterIdentity deploymentId infraPreset installPreset =
     (let i = TrimSpace deploymentId; i = (if i = [] then ''unknown'' else i) in
      Join [clusterIdentityPrefix, i, presetIdentityToken infraPreset, presetIdentityToken installPreset] '';'')"

section \<open>Normalizing twice changes nothing\<close>

text \<open>An administration URL that is given but blank is the exception: see \<open>blank_admin_url_comes_back\<close>.\<close>

definition admin_url_given :: "DeploymentConnection \<Rightarrow> bool" where
  "admin_url_given c \<longleftrightarrow> (case cn_AdminUI c of None \<Rightarrow> True | Some ui \<Rightarrow> TrimSpace (ui_URL ui) \<noteq> [])"

lemma firstNonEmpty_simps [simp]:
  "firstNonEmpty [] = []"
  "firstNonEmpty (v # vs) = (if TrimSpace v = [] then firstNonEmpty vs else TrimSpace v)"
  by (simp_all add: firstNonEmpty_def)

lemma TrimSpace_firstNonEmpty [simp]: "TrimSpace (firstNonEmpty vs) = firstNonEmpty vs"
  by (induction vs) (simp_all, simp add: firstNonEmpty_def TrimSpace_def)

lemma blank_defaults [simp]: "TrimSpace defaultUsername = defaultUsername" "defaultUsername \<noteq> []"
  "TrimSpace defaultAdminUIUsername = defaultAdminUIUsername" "defaultAdminUIUsername \<noteq> []" "TrimSpace [] = []"
  "TrimSpace ''tofu'' = ''tofu''"
  by code_simp+

text \<open>The administration URL is missing for want of a host only, and then the host stays missing.\<close>

lemma makeAdminUIURL_Nil: "port > 0 \<Longrightarrow> makeAdminUIURL h port = [] \<longleftrightarrow> TrimSpace h = []"
  by (simp add: makeAdminUIURL_def Let_def)

lemma normalizeAdminUI_twice:
  assumes "admin_url_given c"
  shows "normalizeAdminUIConnection (normalizeAdminUIConnection c) = normalizeAdminUIConnection c"
  using assms
  by (cases "cn_AdminUI c")
    (auto simp: normalizeAdminUIConnection_def admin_url_given_def admin_ui_def Let_def)

text \<open>The connection without its administration entry is normalized by one pass as well.\<close>

definition normalize_hosts :: "DeploymentConnection \<Rightarrow> DeploymentConnection" where
  "normalize_hosts c =
     c\<lparr>cn_DisplayHost := (if TrimSpace (cn_DisplayHost c) = [] then firstNonEmpty [cn_DisplayHost c, cn_Host c, cn_PublicIp c]
                           else cn_DisplayHost c),
       cn_Host := (if TrimSpace (cn_Host c) = [] then firstNonEmpty [cn_Host c, cn_PublicIp c] else cn_Host c),
       cn_Username := (if TrimSpace (cn_Username c) = [] then defaultUsername else cn_Username c)\<rparr>"

lemma normalize_connection_split: "normalize_connection c = normalizeAdminUIConnection (normalize_hosts c)"
  by (simp add: normalize_connection_def normalize_hosts_def)

lemma normalize_hosts_twice [simp]: "normalize_hosts (normalize_hosts c) = normalize_hosts c"
  by (simp add: normalize_hosts_def)

lemma normalize_hosts_admin [simp]:
  "normalize_hosts (normalizeAdminUIConnection (normalize_hosts c)) = normalizeAdminUIConnection (normalize_hosts c)"
  by (simp add: normalizeAdminUIConnection_def normalize_hosts_def Let_def)

lemma admin_url_given_hosts [simp]: "admin_url_given (normalize_hosts c) = admin_url_given c"
  by (simp add: admin_url_given_def normalize_hosts_def)

lemma normalize_connection_twice:
  "admin_url_given c \<Longrightarrow> normalize_connection (normalize_connection c) = normalize_connection c"
  by (simp add: normalize_connection_split normalizeAdminUI_twice)

lemma TrimSpace_h [simp]: "TrimSpace (CHR ''h'' # s) \<noteq> []"
proof -
  have "\<not> is_space CHR ''h''" by code_simp
  then show ?thesis unfolding TrimSpace_Nil_iff by auto
qed

lemma derived_node_url: "deriveAdminUIFromNode node host = Some ui \<Longrightarrow> TrimSpace (ui_URL ui) \<noteq> []"
  by (auto simp: deriveAdminUIFromNode_def admin_ui_def makeAdminUIURL_def Let_def split: if_splits)

lemma derived_admin_url: "deriveConnectionFromNodes libs info = Some c \<Longrightarrow> admin_url_given c"
  by (cases "main_node info")
    (auto simp: deriveConnectionFromNodes_def admin_url_given_def derived_node_url Let_def split: option.splits)

definition connection_of :: "cert_libs \<Rightarrow> DeploymentInfo \<Rightarrow> DeploymentConnection option" where
  "connection_of libs info =
     (if in_Connection info = None \<and> in_Nodes info \<noteq> [] then deriveConnectionFromNodes libs info
      else in_Connection info)"

definition info_stable :: "DeploymentInfo \<Rightarrow> bool" where
  "info_stable info \<longleftrightarrow> (case in_Connection info of None \<Rightarrow> True | Some c \<Rightarrow> admin_url_given c)"

lemma normalize_info_split:
  "normalizeDeploymentInfo libs info =
     info\<lparr>in_Connection := map_option normalize_connection (connection_of libs info),
       in_Backend := in_Backend (normalizeDeploymentInfo libs info)\<rparr>"
  by (simp add: normalizeDeploymentInfo_def connection_of_def Let_def)

lemma ListNodes_Nil: "ListNodes s = [] \<longleftrightarrow> in_Nodes s = []"
  by (metis ListNodes_def length_0_conv length_map length_sort)

lemma main_node_none: "in_Nodes s = [] \<Longrightarrow> main_node s = None"
  by (simp add: main_node_def ListNodes_def)

lemma main_node_some: "in_Nodes s \<noteq> [] \<Longrightarrow> \<exists>n node. main_node s = Some (n, node)"
proof -
  assume ne: "in_Nodes s \<noteq> []"
  then obtain n ns where l: "ListNodes s = n # ns" by (cases "ListNodes s") (auto simp: ListNodes_Nil)
  then have "n \<in> fst ` set (in_Nodes s)" by (metis ListNodes_def image_set list.set_intros(1) set_sort)
  then obtain node where "map_of (in_Nodes s) n = Some node" by (auto dest: weak_map_of_SomeI)
  with l show ?thesis by (auto simp: main_node_def split: option.splits)
qed

lemma normalize_info_twice:
  assumes "info_stable info"
  shows "normalizeDeploymentInfo libs (normalizeDeploymentInfo libs info) = normalizeDeploymentInfo libs info"
proof -
  let ?n = "normalizeDeploymentInfo libs info"
  have nodes: "in_Nodes ?n = in_Nodes info" "in_Region ?n = in_Region info" "in_VpcId ?n = in_VpcId info"
    "in_SubnetId ?n = in_SubnetId info"
    by (simp_all add: normalizeDeploymentInfo_def Let_def)
  have c: "in_Connection ?n = map_option normalize_connection (connection_of libs info)"
    by (subst normalize_info_split) simp
  have some: "connection_of libs info \<noteq> None" if "in_Nodes info \<noteq> []"
    using main_node_some [OF that]
    by (auto simp: connection_of_def deriveConnectionFromNodes_def Let_def main_node_none split: option.splits)
  have given: "admin_url_given k" if "connection_of libs info = Some k" for k
    using that assms derived_admin_url by (auto simp: connection_of_def info_stable_def split: if_splits option.splits)
  have "connection_of libs ?n = in_Connection ?n"
    using some by (auto simp: connection_of_def [of libs ?n] nodes c)
  then have "map_option normalize_connection (connection_of libs ?n) = in_Connection ?n"
    using given by (cases "connection_of libs info") (simp_all add: c normalize_connection_twice)
  moreover have "in_Backend (normalizeDeploymentInfo libs ?n) = in_Backend ?n"
    by (simp add: normalizeDeploymentInfo_def Let_def)
  ultimately show ?thesis
    using normalize_info_split [of libs ?n] by simp
qed

section \<open>What is written is what is read\<close>

definition keeps_connection :: "DeploymentConnection \<Rightarrow> DeploymentConnection \<Rightarrow> bool" where
  "keeps_connection c k \<longleftrightarrow>
     (if TrimSpace (cn_Host c) = [] then True else cn_Host k = cn_Host c) \<and> cn_DBPort k = cn_DBPort c
     \<and> cn_UIPort k = cn_UIPort c \<and> cn_CertFingerprint k = cn_CertFingerprint c
     \<and> (if TrimSpace (cn_Username c) = [] then cn_Username k = ''sys'' else cn_Username k = cn_Username c)"

lemma normalize_keeps_connection: "keeps_connection c (normalize_connection c)"
  by (simp add: keeps_connection_def normalize_connection_split normalize_hosts_def normalizeAdminUIConnection_def
      Let_def defaultUsername_def)


text \<open>A blank administration URL is dropped by the first pass and derived from the port by the second.\<close>

definition blank_admin :: DeploymentInfo where
  "blank_admin = \<lparr>in_Backend = ''local'', in_DeploymentId = ''ab'', in_DeploymentState = [], in_Region = [],
     in_AvailabilityZone = [], in_ClusterSize = 1, in_ClusterState = [], in_InstanceType = [], in_VpcId = [],
     in_SubnetId = [], in_Nodes = [],
     in_Connection = Some \<lparr>cn_Host = ''h'', cn_DisplayHost = [], cn_PublicIp = [], cn_DBPort = 8563, cn_UIPort = 8443,
       cn_AdminUI = Some (admin_ui []), cn_Username = [], cn_CertFingerprint = [],
       cn_InsecureSkipCertValidation = False, cn_SSHCommand = [], cn_SSHPort = [], cn_ShellSupported = False\<rparr>\<rparr>"

definition demo_certs :: cert_libs where
  "demo_certs = \<lparr>ce_pem = (\<lambda>s. Some (''CERTIFICATE'', s)), ce_sha256 = (\<lambda>s. s)\<rparr>"

definition admin_of :: "DeploymentInfo \<Rightarrow> DeploymentAdminUI option" where
  "admin_of info = (case in_Connection info of None \<Rightarrow> None | Some c \<Rightarrow> cn_AdminUI c)"

lemma blank_admin_url_comes_back:
  "admin_of (normalizeDeploymentInfo demo_certs blank_admin) = None
   \<and> admin_of (normalizeDeploymentInfo demo_certs (normalizeDeploymentInfo demo_certs blank_admin))
       = Some (admin_ui ''https://h:8443'')"
  by code_simp

definition demo_node :: "string \<Rightarrow> string \<Rightarrow> DeploymentNode" where
  "demo_node dns port = \<lparr>dn_AvailabilityZone = [],
     dn_Database = \<lparr>db_DbPort = port, db_UiPort = ''8443'', db_Url = []\<rparr>, dn_DnsName = dns, dn_InstanceId = [],
     dn_PrivateIp = [], dn_PublicIp = ''1.2.3.4'',
     dn_Ssh = \<lparr>ssh_Command = [], ssh_KeyFile = ''k.pem'', ssh_KeyName = [], ssh_Port = ''22'', ssh_Username = ''u''\<rparr>,
     dn_TlsCert = ''AB''\<rparr>"

definition demo_info :: DeploymentInfo where
  "demo_info = blank_admin\<lparr>in_Backend := [], in_Connection := None,
     in_Nodes := [(''n12'', demo_node ''b'' ''8563''), (''n11'', demo_node '' a '' ''8563'')]\<rparr>"

lemma demo_connection:
  "in_Connection demo_info = None" "hasRecognizedDeploymentInfo (normalizeDeploymentInfo demo_certs demo_info)"
  "node_endpoint demo_info = Inr (''a'', 8563)"
  by (simp add: demo_info_def) code_simp+


section \<open>The endpoint of the nodes\<close>

lemma port_of_endpoint:
  "node_endpoint info = Inr (h, p) \<longleftrightarrow>
     (case main_node info of None \<Rightarrow> False
      | Some (_, node) \<Rightarrow> h = firstNonEmpty [dn_DnsName node, dn_PublicIp node] \<and> h \<noteq> []
          \<and> p = parseConnectionPort (db_DbPort (dn_Database node)) \<and> 0 < p \<and> p \<le> 65535)"
proof (cases "main_node info")
  case (Some x)
  obtain n node where x: "x = (n, node)" by (cases x)
  show ?thesis
  proof (cases "TrimSpace (db_DbPort (dn_Database node)) = []")
    case True
    with Some x show ?thesis by (auto simp: node_endpoint_def parseConnectionPort_def Let_def)
  next
    case False
    with Some x Atoi_value_None [of "TrimSpace (db_DbPort (dn_Database node))"] show ?thesis
      by (cases "Atoi (TrimSpace (db_DbPort (dn_Database node)))")
        (auto simp: node_endpoint_def parseConnectionPort_def Let_def min_int64_def max_int64_def
          Atoi_value_def [of "TrimSpace (db_DbPort (dn_Database node))"])
  qed
qed (simp add: node_endpoint_def)

lemma derived_normal:
  assumes "in_Connection info = None" and "main_node info = Some (n, node)"
  obtains k where "in_Connection (normalizeDeploymentInfo libs info) = Some k"
    and "cn_Host k = firstNonEmpty [dn_DnsName node, dn_PublicIp node]"
    and "cn_DBPort k = parseConnectionPort (db_DbPort (dn_Database node))"
proof -
  have "in_Nodes info \<noteq> []" using assms(2) main_node_none by fastforce
  with assms have "connection_of libs info = deriveConnectionFromNodes libs info" by (simp add: connection_of_def)
  moreover obtain c where c: "deriveConnectionFromNodes libs info = Some c"
    "cn_Host c = firstNonEmpty [dn_DnsName node, dn_PublicIp node]" "cn_PublicIp c = dn_PublicIp node"
    "cn_DBPort c = parseConnectionPort (db_DbPort (dn_Database node))"
    using assms(2) by (simp add: deriveConnectionFromNodes_def Let_def)
  ultimately have "in_Connection (normalizeDeploymentInfo libs info) = Some (normalize_connection c)"
    by (subst normalize_info_split) simp
  moreover have "cn_Host (normalize_connection c) = cn_Host c" "cn_DBPort (normalize_connection c) = cn_DBPort c"
    using c(2,3) by (simp_all add: normalize_connection_split normalize_hosts_def normalizeAdminUIConnection_def Let_def)
  ultimately show thesis using that c by simp
qed

lemma derived_missing:
  assumes "in_Connection info = None" and "main_node info = None"
  shows "in_Connection (normalizeDeploymentInfo libs info) = None"
  using assms main_node_some [of info]
  by (subst normalize_info_split) (auto simp: connection_of_def)

definition endpoint_of :: "(go_error, ConnectionInfo) result \<Rightarrow> (string \<times> int) option" where
  "endpoint_of r = (case r of Inl _ \<Rightarrow> None | Inr ci \<Rightarrow> Some (ci_Host ci, ci_DBPort ci))"

lemma endpoint_of_connection:
  "endpoint_of (info_connection libs (Inr path) info) =
     (case in_Connection info of
        None \<Rightarrow> None
      | Some c \<Rightarrow> if TrimSpace (cn_Host c) = [] \<or> cn_DBPort c \<le> 0 then None else Some (TrimSpace (cn_Host c), cn_DBPort c))"
  by (auto simp: endpoint_of_def info_connection_def Let_def split: option.splits)

text \<open>C25: A deployment that only lists its nodes is connected to at exactly the endpoint its nodes name: for a port
  in range, resolving the connection from the file gives a host and a port if and only if the endpoint of the
  primary node is that host and that port.\<close>

theorem nodes_give_the_connection:
  assumes "in_Connection info = None" and "p \<le> 65535"
  shows "(endpoint_of (ResolveConnectionInfo libs (Inr path) (InfoFile info)) = Some (h, p))
    = (GetDeploymentHostPort info = Inr (h, p))"
proof (cases "main_node info")
  case None
  then show ?thesis
    using assms(1) derived_missing [OF assms(1) None, of libs]
    by (auto simp: ResolveConnectionInfo_def ReadDeploymentInfo_def Let_def GetDeploymentHostPort_def node_endpoint_def
        endpoint_of_connection) (simp_all add: endpoint_of_def endpoint_of_connection [unfolded endpoint_of_def])
next
  case (Some x)
  obtain n node where x: "x = (n, node)" by (cases x)
  obtain k where k: "in_Connection (normalizeDeploymentInfo libs info) = Some k"
    "cn_Host k = firstNonEmpty [dn_DnsName node, dn_PublicIp node]"
    "cn_DBPort k = parseConnectionPort (db_DbPort (dn_Database node))"
    by (rule derived_normal [OF assms(1) Some [unfolded x]])
  then have "ResolveConnectionInfo libs (Inr path) (InfoFile info)
      = info_connection libs (Inr path) (normalizeDeploymentInfo libs info)"
    by (simp add: ResolveConnectionInfo_def ReadDeploymentInfo_def Let_def hasRecognizedDeploymentInfo_def)
  with k assms Some x show ?thesis
    by (auto simp: endpoint_of_connection GetDeploymentHostPort_def port_of_endpoint)
qed

theorem nodes_give_the_connection_witness:
  "endpoint_of (ResolveConnectionInfo demo_certs (Inr ''s'') (InfoFile demo_info)) = Some (''a'', 8563)"
  using nodes_give_the_connection [of demo_info 8563 demo_certs "''s''" "''a''"] demo_connection
  by (simp add: GetDeploymentHostPort_def)

text \<open>Out of range, the two disagree: the connection takes any positive port.\<close>

lemma port_out_of_range:
  "endpoint_of (ResolveConnectionInfo demo_certs (Inr ''s'')
      (InfoFile (demo_info\<lparr>in_Nodes := [(''n11'', demo_node ''a'' ''70000'')]\<rparr>))) = Some (''a'', 70000)
   \<and> GetDeploymentHostPort (demo_info\<lparr>in_Nodes := [(''n11'', demo_node ''a'' ''70000'')]\<rparr>)
       = Inl (Plain ''database port out of range: 70000'')"
  by code_simp

section \<open>The identity of a cluster\<close>

lemma replace_with_absent: "c \<noteq> d \<Longrightarrow> c \<notin> set (replace_with c d s)"
  by (auto simp: replace_with_def)

lemma replace_with_keeps_absent: "c \<notin> set s \<Longrightarrow> c \<noteq> d' \<Longrightarrow> c \<notin> set (replace_with d d' s)"
  by (auto simp: replace_with_def)

lemma token_has_no_delimiter: "CHR '';'' \<notin> set (presetIdentityToken p)"
  by (simp add: presetIdentityToken_def Let_def replace_with_keeps_absent replace_with_absent)

lemma identity_fields:
  assumes "CHR '';'' \<notin> set (TrimSpace i)" and "TrimSpace i \<noteq> []"
  shows "SplitByte (ComputeClusterIdentity i infra install) CHR '';''
    = [clusterIdentityPrefix, TrimSpace i, presetIdentityToken infra, presetIdentityToken install]"
proof -
  have "CHR '';'' \<notin> set clusterIdentityPrefix" by (simp add: clusterIdentityPrefix_def)
  with assms token_has_no_delimiter show ?thesis
    unfolding ComputeClusterIdentity_def Let_def by (subst SplitByte_Join) auto
qed

lemma generated_password:
  assumes "generateDatabasePassword random = Inr p"
  shows "set p \<subseteq> set databasePasswordAlphabet" and "length p \<le> databasePasswordLength"
proof -
  have "0 < length databasePasswordAlphabet" by (simp add: databasePasswordAlphabet_def)
  then have "databasePasswordAlphabet ! (k mod length databasePasswordAlphabet) \<in> set databasePasswordAlphabet" for k
    by (intro nth_mem mod_less_divisor)
  with assms show "set p \<subseteq> set databasePasswordAlphabet" and "length p \<le> databasePasswordLength"
    by (auto simp: generateDatabasePassword_def split: sum.splits)
qed

end
