(* ===== verification/Op_Monad.thy ===== *)
theory Op_Monad
  imports Lifecycle_Status
begin

text \<open>
  Operations on a state that may fail: the shape of every Go function that runs commands or touches files and
  returns an error. A failure keeps the state it was found in, and what follows is skipped. The second part
  are the rules for what such an operation keeps, and for what holds when it succeeds.
\<close>

section \<open>Operations\<close>

type_synonym ('g, 'a) op = "'g \<Rightarrow> 'g \<times> (go_error, 'a) result"

definition ret :: "'a \<Rightarrow> ('g, 'a) op" where
  "ret x g = (g, Inr x)"

definition raise :: "go_error \<Rightarrow> ('g, 'a) op" where
  "raise e g = (g, Inl e)"

definition bind_op :: "('g, 'a) op \<Rightarrow> ('a \<Rightarrow> ('g, 'b) op) \<Rightarrow> ('g, 'b) op" where
  "bind_op m f g = (case m g of (g', Inl e) \<Rightarrow> (g', Inl e) | (g', Inr x) \<Rightarrow> f x g')"

definition seq_op :: "('g, 'a) op \<Rightarrow> ('g, 'b) op \<Rightarrow> ('g, 'b) op" where
  "seq_op m k = bind_op m (\<lambda>_. k)"

text \<open>An operation that reports an error or nil; \<open>fmt.Errorf\<close> around one; one whose error is dropped.\<close>

definition try_op :: "('g \<Rightarrow> 'g \<times> go_error option) \<Rightarrow> ('g, unit) op" where
  "try_op m g = (case m g of (g', None) \<Rightarrow> (g', Inr ()) | (g', Some e) \<Rightarrow> (g', Inl e))"

definition wrap_op :: "string \<Rightarrow> ('g, 'a) op \<Rightarrow> ('g, 'a) op" where
  "wrap_op msg m g = (case m g of (g', Inl e) \<Rightarrow> (g', Inl (Wrap msg e)) | (g', Inr x) \<Rightarrow> (g', Inr x))"

definition ignore_op :: "('g, 'a) op \<Rightarrow> ('g, unit) op" where
  "ignore_op m g = (fst (m g), Inr ())"

text \<open>An operation with a handler of its failure.\<close>

definition catch_op :: "('g, 'a) op \<Rightarrow> (go_error \<Rightarrow> ('g, 'a) op) \<Rightarrow> ('g, 'a) op" where
  "catch_op m h g = (case m g of (g', Inl e) \<Rightarrow> h e g' | (g', Inr x) \<Rightarrow> (g', Inr x))"

text \<open>A failure after some cleaning up, whose own failure takes part in the error.\<close>

definition fail_after :: "('g, 'b) op \<Rightarrow> (go_error option \<Rightarrow> go_error) \<Rightarrow> ('g, 'a) op" where
  "fail_after m f g = (case m g of (g', Inl e) \<Rightarrow> (g', Inl (f (Some e))) | (g', Inr _) \<Rightarrow> (g', Inl (f None)))"

definition op_error :: "'g \<times> (go_error, 'a) result \<Rightarrow> 'g \<times> go_error option" where
  "op_error r = (case r of (g, Inl e) \<Rightarrow> (g, Some e) | (g, Inr _) \<Rightarrow> (g, None))"

lemma bind_ret [simp]: "bind_op (ret x) f = f x"
  by (rule ext) (simp add: bind_op_def ret_def)

lemma bind_raise [simp]: "bind_op (raise e) f = raise e"
  by (rule ext) (simp add: bind_op_def raise_def)

section \<open>What an operation keeps\<close>

definition op_inv :: "('g \<Rightarrow> bool) \<Rightarrow> ('g, 'a) op \<Rightarrow> bool" where
  "op_inv I m \<longleftrightarrow> (\<forall>g. I g \<longrightarrow> I (fst (m g)))"

named_theorems op_invs \<open>operations that keep an invariant\<close>

lemma op_invD: "op_inv I m \<Longrightarrow> I g \<Longrightarrow> m g = (g', r) \<Longrightarrow> I g'"
  by (metis fst_conv op_inv_def)

lemma op_inv_ret [op_invs]: "op_inv I (ret x)"
  by (simp add: op_inv_def ret_def)

lemma op_inv_raise [op_invs]: "op_inv I (raise e)"
  by (simp add: op_inv_def raise_def)

lemma op_inv_bind [op_invs]: "op_inv I m \<Longrightarrow> (\<And>x. op_inv I (f x)) \<Longrightarrow> op_inv I (bind_op m f)"
  by (auto simp: op_inv_def bind_op_def split: prod.split sum.split)

lemma op_inv_seq [op_invs]: "op_inv I m \<Longrightarrow> op_inv I k \<Longrightarrow> op_inv I (seq_op m k)"
  by (simp add: seq_op_def op_inv_bind)

lemma op_inv_wrap [op_invs]: "op_inv I m \<Longrightarrow> op_inv I (wrap_op msg m)"
  by (auto simp: op_inv_def wrap_op_def split: prod.split sum.split)

lemma op_inv_ignore [op_invs]: "op_inv I m \<Longrightarrow> op_inv I (ignore_op m)"
  by (auto simp: op_inv_def ignore_op_def)

lemma op_inv_catch [op_invs]: "op_inv I m \<Longrightarrow> (\<And>e. op_inv I (h e)) \<Longrightarrow> op_inv I (catch_op m h)"
  by (auto simp: op_inv_def catch_op_def split: prod.split sum.split)

lemma op_inv_fail_after [op_invs]: "op_inv I m \<Longrightarrow> op_inv I (fail_after m f)"
  by (auto simp: op_inv_def fail_after_def split: prod.split sum.split)

lemma op_inv_if [op_invs]: "op_inv I m \<Longrightarrow> op_inv I k \<Longrightarrow> op_inv I (if b then m else k)"
  by simp

lemma op_inv_option [op_invs]:
  "op_inv I n \<Longrightarrow> (\<And>x. op_inv I (f x)) \<Longrightarrow> op_inv I (case x of None \<Rightarrow> n | Some y \<Rightarrow> f y)"
  by (simp split: option.split)

lemma op_inv_try: "(\<And>g. I g \<Longrightarrow> I (fst (m g))) \<Longrightarrow> op_inv I (try_op m)"
  by (auto simp: op_inv_def try_op_def split: prod.split option.split) (metis fst_conv)+

section \<open>What holds afterwards\<close>

text \<open>From a state with \<open>P\<close> a success establishes \<open>Q\<close> of its result and a failure leaves \<open>F\<close>.\<close>

definition triple :: "('g \<Rightarrow> bool) \<Rightarrow> ('g, 'a) op \<Rightarrow> ('a \<Rightarrow> 'g \<Rightarrow> bool) \<Rightarrow> (go_error \<Rightarrow> 'g \<Rightarrow> bool) \<Rightarrow> bool" where
  "triple P m Q F \<longleftrightarrow> (\<forall>g. P g \<longrightarrow> (case m g of (g', Inr x) \<Rightarrow> Q x g' | (g', Inl e) \<Rightarrow> F e g'))"

lemma tripleI:
  "(\<And>g g' x. P g \<Longrightarrow> m g = (g', Inr x) \<Longrightarrow> Q x g') \<Longrightarrow> (\<And>g g' e. P g \<Longrightarrow> m g = (g', Inl e) \<Longrightarrow> F e g')
    \<Longrightarrow> triple P m Q F"
  by (auto simp: triple_def split: prod.split sum.split)

lemma tripleD:
  "triple P m Q F \<Longrightarrow> P g \<Longrightarrow> m g = (g', Inr x) \<Longrightarrow> Q x g'"
  "triple P m Q F \<Longrightarrow> P g \<Longrightarrow> m g = (g', Inl e) \<Longrightarrow> F e g'"
  by (fastforce simp: triple_def)+

lemma triple_ret: "(\<And>g. P g \<Longrightarrow> Q x g) \<Longrightarrow> triple P (ret x) Q F"
  by (simp add: triple_def ret_def)

lemma triple_raise: "(\<And>g. P g \<Longrightarrow> F e g) \<Longrightarrow> triple P (raise e) Q F"
  by (simp add: triple_def raise_def)

lemma triple_bind: "triple P m R F \<Longrightarrow> (\<And>x. triple (R x) (f x) Q F) \<Longrightarrow> triple P (bind_op m f) Q F"
  by (fastforce simp: triple_def bind_op_def split: prod.splits sum.splits)

lemma triple_seq: "triple P m (\<lambda>_. R) F \<Longrightarrow> triple R k Q F \<Longrightarrow> triple P (seq_op m k) Q F"
  unfolding seq_op_def by (rule triple_bind) auto

lemma triple_wrap: "triple P m Q (\<lambda>e. F (Wrap msg e)) \<Longrightarrow> triple P (wrap_op msg m) Q F"
  by (fastforce simp: triple_def wrap_op_def split: prod.splits sum.splits)

lemma triple_catch: "triple P m Q G \<Longrightarrow> (\<And>e. triple (G e) (h e) Q F) \<Longrightarrow> triple P (catch_op m h) Q F"
  by (fastforce simp: triple_def catch_op_def split: prod.splits sum.splits)

lemma triple_fail_after:
  "triple P m (\<lambda>_ g. F (f None) g) (\<lambda>e g. F (f (Some e)) g) \<Longrightarrow> triple P (fail_after m f) Q F"
  by (fastforce simp: triple_def fail_after_def split: prod.splits sum.splits)

lemma triple_if:
  "(b \<Longrightarrow> triple P m Q F) \<Longrightarrow> (\<not> b \<Longrightarrow> triple P k Q F) \<Longrightarrow> triple P (if b then m else k) Q F"
  by simp

lemma triple_pre: "triple P m Q F \<Longrightarrow> (\<And>g. R g \<Longrightarrow> P g) \<Longrightarrow> triple R m Q F"
  by (simp add: triple_def)

lemma triple_post:
  "triple P m Q F \<Longrightarrow> (\<And>x g. Q x g \<Longrightarrow> Q' x g) \<Longrightarrow> (\<And>e g. F e g \<Longrightarrow> F' e g) \<Longrightarrow> triple P m Q' F'"
  by (fastforce simp: triple_def split: prod.splits sum.splits)

lemma triple_inv: "op_inv I m \<Longrightarrow> triple I m (\<lambda>_. I) (\<lambda>_. I)"
  by (auto simp: triple_def op_inv_def split: prod.splits sum.splits)

end
