(* ===== verification/Host_Files.thy ===== *)
theory Host_Files
  imports Op_Monad Go_Filepath
begin

text \<open>
  The file system an installation works on and the environment it reaches it through
  (\<^verbatim>\<open>src/internal/localinstall/environment.go\<close>). The files are a list of absolute paths with what they hold;
  the functions of Go's \<^verbatim>\<open>os\<close> package that the environment calls are written out over it. Every call may
  fail: \<open>hf_fail\<close> says which, by a count of the calls, so a run with a failure at any point is a run of the
  model. The engine's own state travels along in \<open>ho_engine\<close>.
\<close>

section \<open>The files\<close>

datatype fnode = FDir | FFile string

type_synonym files = "(string \<times> fnode) list"

definition is_below :: "string \<Rightarrow> string \<Rightarrow> bool" where
  "is_below d p \<longleftrightarrow> HasPrefix p (d @ ''/'')"

definition within :: "string \<Rightarrow> string \<Rightarrow> bool" where
  "within d p \<longleftrightarrow> p = d \<or> is_below d p"

text \<open>What a directory holds, by the path below it.\<close>

definition tree :: "files \<Rightarrow> string \<Rightarrow> (string \<times> fnode) list" where
  "tree fs d = map (\<lambda>(p, n). (drop (Suc (length d)) p, n)) (filter (\<lambda>(p, _). is_below d p) fs)"

text \<open>A path with something below it is a directory, whether it has an entry of its own or not.\<close>

definition node_at :: "files \<Rightarrow> string \<Rightarrow> fnode option" where
  "node_at fs p = (case map_of fs p of Some n \<Rightarrow> Some n | None \<Rightarrow> if tree fs p = [] then None else Some FDir)"

definition exists_path :: "files \<Rightarrow> string \<Rightarrow> bool" where
  "exists_path fs p \<longleftrightarrow> node_at fs p \<noteq> None"

definition remove_tree :: "string \<Rightarrow> files \<Rightarrow> files" where
  "remove_tree d fs = filter (\<lambda>(p, _). \<not> within d p) fs"

definition move_tree :: "string \<Rightarrow> string \<Rightarrow> files \<Rightarrow> files" where
  "move_tree a b fs = map (\<lambda>(p, n). (if within a p then b @ drop (length a) p else p, n)) fs"

definition ENOENT :: go_error where "ENOENT = Sentinel ''ErrNotExist''"
definition EEXIST :: go_error where "EEXIST = Sentinel ''ErrExist''"
definition ENOTEMPTY :: go_error where "ENOTEMPTY = Plain ''directory not empty''"
definition ENOTDIR :: go_error where "ENOTDIR = Plain ''not a directory''"

text \<open>\<^verbatim>\<open>os.Remove\<close>, \<^verbatim>\<open>os.Rename\<close>, \<^verbatim>\<open>os.Mkdir\<close> and \<^verbatim>\<open>os.MkdirAll\<close>.\<close>

definition os_Remove :: "string \<Rightarrow> files \<Rightarrow> (go_error, files) result" where
  "os_Remove p fs =
     (if \<not> exists_path fs p then Inl ENOENT
      else if tree fs p \<noteq> [] then Inl ENOTEMPTY else Inr (filter (\<lambda>(q, _). q \<noteq> p) fs))"

definition os_Rename :: "string \<Rightarrow> string \<Rightarrow> files \<Rightarrow> (go_error, files) result" where
  "os_Rename a b fs =
     (if \<not> exists_path fs a then Inl ENOENT
      else if is_below a b then Inl (Plain ''invalid argument'')
      else if a = b then Inr fs
      else if tree fs b \<noteq> [] then Inl ENOTEMPTY
      else if node_at fs b = Some FDir \<and> node_at fs a \<noteq> Some FDir then Inl EEXIST
      else if node_at fs a = Some FDir \<and> node_at fs b \<notin> {None, Some FDir} then Inl ENOTDIR
      else if node_at fs (Dir b) \<noteq> Some FDir then Inl ENOENT
      else Inr (move_tree a b (filter (\<lambda>(q, _). q \<noteq> b) fs)))"

definition os_Mkdir :: "string \<Rightarrow> files \<Rightarrow> (go_error, files) result" where
  "os_Mkdir p fs =
     (if exists_path fs p then Inl EEXIST
      else if node_at fs (Dir p) \<noteq> Some FDir then Inl ENOENT else Inr ((p, FDir) # fs))"

text \<open>The directories on the way to a path, the path last.\<close>

definition ancestors :: "string \<Rightarrow> string list" where
  "ancestors p =
     (let parts = filter (\<lambda>x. x \<noteq> []) (SplitByte p slash)
      in map (\<lambda>k. slash # Join (take (Suc k) parts) ''/'') [0..<length parts])"

fun make_dirs :: "string list \<Rightarrow> files \<Rightarrow> files \<times> (go_error, unit) result" where
  "make_dirs [] fs = (fs, Inr ())"
| "make_dirs (d # ds) fs =
     (case node_at fs d of
        Some FDir \<Rightarrow> make_dirs ds fs
      | Some (FFile _) \<Rightarrow> (fs, Inl ENOTDIR)
      | None \<Rightarrow> make_dirs ds ((d, FDir) # fs))"

section \<open>The host\<close>

record 'g host =
  ho_files :: files
  ho_engine :: 'g
  ho_clock :: nat

text \<open>Which call fails, with an error of its own that is none of those the files give, which paths a failing \<^verbatim>\<open>RemoveAll\<close> had already removed, the random part of a name.\<close>

record host_faults =
  hf_fail :: "nat \<Rightarrow> string option"
  hf_removed :: "nat \<Rightarrow> string \<Rightarrow> bool"
  hf_random :: "nat \<Rightarrow> string"

definition tick :: "'g host \<Rightarrow> 'g host" where
  "tick h = h\<lparr>ho_clock := Suc (ho_clock h)\<rparr>"

definition files_op :: "host_faults \<Rightarrow> (files \<Rightarrow> files \<times> (go_error, 'a) result) \<Rightarrow> ('g host, 'a) op" where
  "files_op ff f h =
     (case hf_fail ff (ho_clock h) of
        Some e \<Rightarrow> (tick h, Inl (Plain e))
      | None \<Rightarrow> (case f (ho_files h) of (fs, r) \<Rightarrow> (tick (h\<lparr>ho_files := fs\<rparr>), r)))"

definition settled :: "(go_error, files) result \<Rightarrow> files \<Rightarrow> files \<times> (go_error, unit) result" where
  "settled r fs = (case r of Inl e \<Rightarrow> (fs, Inl e) | Inr fs' \<Rightarrow> (fs', Inr ()))"

section \<open>The execution environment\<close>

record 'h ExecutionEnvironment =
  ee_Sync :: "('h, unit) op"
  ee_PathExists :: "string \<Rightarrow> ('h, bool) op"
  ee_DirectoryHasEntries :: "string \<Rightarrow> ('h, bool) op"
  ee_MkdirAll :: "string \<Rightarrow> ('h, unit) op"
  ee_MkdirTemp :: "string \<Rightarrow> string \<Rightarrow> ('h, string) op"
  ee_RemoveFile :: "string \<Rightarrow> ('h, unit) op"
  ee_RemoveDir :: "string \<Rightarrow> ('h, unit) op"
  ee_RemoveAll :: "string \<Rightarrow> ('h, unit) op"
  ee_Rename :: "string \<Rightarrow> string \<Rightarrow> ('h, unit) op"
  ee_WriteFileAtomically :: "string \<Rightarrow> string \<Rightarrow> ('h, unit) op"

definition direct_PathExists :: "host_faults \<Rightarrow> string \<Rightarrow> ('g host, bool) op" where
  "direct_PathExists ff p = files_op ff (\<lambda>fs. (fs, Inr (exists_path fs p)))"

definition direct_DirectoryHasEntries :: "host_faults \<Rightarrow> string \<Rightarrow> ('g host, bool) op" where
  "direct_DirectoryHasEntries ff p =
     files_op ff (\<lambda>fs. (fs,
       case node_at fs p of None \<Rightarrow> Inr False | Some (FFile _) \<Rightarrow> Inl ENOTDIR | Some FDir \<Rightarrow> Inr (tree fs p \<noteq> [])))"

definition direct_MkdirAll :: "host_faults \<Rightarrow> string \<Rightarrow> ('g host, unit) op" where
  "direct_MkdirAll ff p = files_op ff (make_dirs (ancestors p))"

text \<open>\<^verbatim>\<open>os.MkdirTemp\<close> with a pattern that ends in a star; a name that is taken fails.\<close>

definition direct_MkdirTemp :: "host_faults \<Rightarrow> string \<Rightarrow> string \<Rightarrow> ('g host, string) op" where
  "direct_MkdirTemp ff parent pattern h =
     (let p = JoinPath [parent, butlast pattern @ hf_random ff (ho_clock h)] in
      files_op ff (\<lambda>fs. case os_Mkdir p fs of Inl e \<Rightarrow> (fs, Inl e) | Inr fs' \<Rightarrow> (fs', Inr p)) h)"

definition direct_RemoveFile :: "host_faults \<Rightarrow> string \<Rightarrow> ('g host, unit) op" where
  "direct_RemoveFile ff p =
     catch_op (files_op ff (\<lambda>fs. settled (os_Remove p fs) fs)) (\<lambda>e. if errors_Is e ENOENT then ret () else raise e)"

definition direct_RemoveDir :: "host_faults \<Rightarrow> string \<Rightarrow> ('g host, unit) op" where
  "direct_RemoveDir ff p =
     catch_op (files_op ff (\<lambda>fs. settled (os_Remove p fs) fs)) (\<lambda>e. if errors_Is e ENOENT then ret () else raise e)"

definition direct_RemoveAll :: "host_faults \<Rightarrow> string \<Rightarrow> ('g host, unit) op" where
  "direct_RemoveAll ff p h =
     (case hf_fail ff (ho_clock h) of
        None \<Rightarrow> (tick (h\<lparr>ho_files := remove_tree p (ho_files h)\<rparr>), Inr ())
      | Some e \<Rightarrow>
          (tick (h\<lparr>ho_files := filter (\<lambda>(q, _). \<not> (within p q \<and> hf_removed ff (ho_clock h) q)) (ho_files h)\<rparr>),
           Inl (Plain e)))"

definition direct_Rename :: "host_faults \<Rightarrow> string \<Rightarrow> string \<Rightarrow> ('g host, unit) op" where
  "direct_Rename ff a b = files_op ff (\<lambda>fs. settled (os_Rename a b fs) fs)"

text \<open>The temporary file is created, written and renamed; its deferred removal covers every failure.\<close>

definition direct_WriteFileAtomically :: "host_faults \<Rightarrow> string \<Rightarrow> string \<Rightarrow> ('g host, unit) op" where
  "direct_WriteFileAtomically ff path data =
     seq_op (direct_MkdirAll ff (Dir path))
       (files_op ff (\<lambda>fs.
          if node_at fs path = Some FDir then (fs, Inl (Wrap (''failed to replace '' @ path) EEXIST))
          else ((path, FFile data) # filter (\<lambda>(q, _). q \<noteq> path) fs, Inr ())))"

definition DirectExecutionEnvironment :: "host_faults \<Rightarrow> 'g host ExecutionEnvironment" where
  "DirectExecutionEnvironment ff =
     \<lparr>ee_Sync = files_op ff (\<lambda>fs. (fs, Inr ())), ee_PathExists = direct_PathExists ff,
      ee_DirectoryHasEntries = direct_DirectoryHasEntries ff, ee_MkdirAll = direct_MkdirAll ff,
      ee_MkdirTemp = direct_MkdirTemp ff, ee_RemoveFile = direct_RemoveFile ff, ee_RemoveDir = direct_RemoveDir ff,
      ee_RemoveAll = direct_RemoveAll ff, ee_Rename = direct_Rename ff,
      ee_WriteFileAtomically = direct_WriteFileAtomically ff\<rparr>"

section \<open>What a rename moves\<close>

text \<open>Nothing of \<open>fs\<close> is missing in \<open>fs'\<close>, when what was in \<open>d\<close> is looked for in \<open>q\<close>.\<close>

definition kept_at :: "string \<Rightarrow> string \<Rightarrow> files \<Rightarrow> files \<Rightarrow> bool" where
  "kept_at d q fs fs' \<longleftrightarrow>
     list_all (\<lambda>(p, n). (if within d p then q @ drop (length d) p else p, n) \<in> set fs') fs"

lemma within_split: "within d p \<Longrightarrow> d @ drop (length d) p = p"
  by (auto simp: within_def is_below_def HasPrefix_iff)

lemma kept_at_same: "kept_at d d fs fs' \<longleftrightarrow> set fs \<subseteq> set fs'"
proof -
  have "(if within d p then d @ drop (length d) p else p) = p" for p by (simp add: within_split)
  then show ?thesis by (auto simp: kept_at_def list_all_iff)
qed

lemma kept_at_more: "kept_at d q fs fs' \<Longrightarrow> set fs' \<subseteq> set fs'' \<Longrightarrow> kept_at d q fs fs''"
  by (auto simp: kept_at_def list_all_iff)

lemma tree_Nil: "tree fs d = [] \<longleftrightarrow> (\<forall>(p, n) \<in> set fs. \<not> is_below d p)"
  by (auto simp: tree_def filter_empty_conv)

lemma tree_set: "set (tree fs d) = {(s, n). (d @ slash # s, n) \<in> set fs}"
  by (force simp: tree_def is_below_def HasPrefix_iff)

lemma not_exists: "\<not> exists_path fs p \<longleftrightarrow> (\<forall>(q, n) \<in> set fs. \<not> within p q)"
proof -
  have "\<not> exists_path fs p \<longleftrightarrow> map_of fs p = None \<and> tree fs p = []"
    by (auto simp: exists_path_def node_at_def split: option.split)
  then have "\<not> exists_path fs p \<longleftrightarrow> p \<notin> fst ` set fs \<and> tree fs p = []" by (simp add: map_of_eq_None_iff)
  then show ?thesis by (force simp: tree_Nil within_def)
qed

lemma within_trans: "within a b \<Longrightarrow> within b c \<Longrightarrow> within a c"
  by (auto simp: within_def is_below_def HasPrefix_iff)

lemma is_below_irrefl [simp]: "\<not> is_below d d"
  by (auto simp: is_below_def HasPrefix_iff)

lemma is_below_append: "is_below (d @ s) p \<Longrightarrow> \<not> within p d"
  by (auto simp: is_below_def within_def HasPrefix_iff)

lemma Rename_kept:
  assumes "os_Rename a b fs = Inr fs'" and "\<not> exists_path fs b"
  shows "kept_at a b fs fs'" and "\<not> within a b \<Longrightarrow> tree fs' b = tree fs a" and "\<not> within a b \<Longrightarrow> tree fs' a = []"
proof -
  have nb: "\<not> within b p" if "(p, n) \<in> set fs" for p n using that assms(2) by (auto simp: not_exists)
  have "exists_path fs a" using assms(1) by (auto simp: os_Rename_def split: if_splits)
  then have ab: "a \<noteq> b" using assms(2) by auto
  from \<open>exists_path fs a\<close> obtain p n where "(p, n) \<in> set fs" "within a p" using not_exists by fastforce
  then have ba: "\<not> within b a" using nb within_trans by blast
  then have fs': "fs' = move_tree a b (filter (\<lambda>(q, _). q \<noteq> b) fs)" and not: "\<not> is_below a b"
    using assms(1) ab by (simp_all add: os_Rename_def split: if_splits)
  have "filter (\<lambda>(q, _). q \<noteq> b) fs = fs" using nb by (auto simp: filter_id_conv within_def)
  then have fs': "fs' = move_tree a b fs" using fs' by simp
  show "kept_at a b fs fs'" by (force simp: kept_at_def list_all_iff fs' move_tree_def)
  have moved: "is_below b (b @ drop (length a) p) \<longleftrightarrow> is_below a p" if "within a p" for p
    using that by (auto simp: within_def is_below_def HasPrefix_iff)
  have gone: "\<not> is_below a (b @ drop (length a) p)" if "within a p" "\<not> within a b" for p
  proof
    assume "is_below a (b @ drop (length a) p)"
    then obtain r where r: "b @ drop (length a) p = a @ slash # r" by (auto simp: is_below_def HasPrefix_iff)
    define t where "t = drop (length a) p"
    then have t: "drop (length a) p = t" "t = [] \<or> (\<exists>u. t = slash # u)"
      using that(1) by (auto simp: within_def is_below_def HasPrefix_iff)
    from r t(1) consider us where "b = a @ us" "us @ t = slash # r" | us where "a = b @ us" "t = us @ slash # r"
      by (auto simp: append_eq_append_conv2)
    then show False
    proof cases
      case (1 us)
      with that(2) t show False
        by (cases us) (auto simp: within_def is_below_def HasPrefix_iff)
    next
      case (2 us)
      with ba t show False
        by (cases us) (auto simp: within_def is_below_def HasPrefix_iff)
    qed
  qed
  show "tree fs' b = tree fs a" if "\<not> within a b"
    using nb unfolding fs'
  proof (induction fs)
    case (Cons x xs)
    obtain p n where x: "x = (p, n)" by (cases x)
    have "\<not> within b p" using Cons.prems [of p n] by (simp add: x)
    with Cons moved [of p] show ?case by (auto simp: x tree_def move_tree_def within_def)
  qed (simp add: tree_def move_tree_def)
  show "tree fs' a = []" if "\<not> within a b"
    using gone [OF _ that] unfolding tree_Nil fs' move_tree_def by (auto simp: within_def split: if_splits)
qed

section \<open>The engine is left alone\<close>

lemma files_op_engine [op_invs]: "op_inv (\<lambda>h. I (ho_engine h)) (files_op ff f)"
  by (auto simp: op_inv_def files_op_def tick_def split: option.split prod.split)

lemma direct_engine [op_invs]:
  "op_inv (\<lambda>h. I (ho_engine h)) (direct_PathExists ff p)"
  "op_inv (\<lambda>h. I (ho_engine h)) (direct_DirectoryHasEntries ff p)"
  "op_inv (\<lambda>h. I (ho_engine h)) (direct_MkdirAll ff p)"
  "op_inv (\<lambda>h. I (ho_engine h)) (direct_MkdirTemp ff p q)"
  "op_inv (\<lambda>h. I (ho_engine h)) (direct_RemoveFile ff p)"
  "op_inv (\<lambda>h. I (ho_engine h)) (direct_RemoveDir ff p)"
  "op_inv (\<lambda>h. I (ho_engine h)) (direct_RemoveAll ff p)"
  "op_inv (\<lambda>h. I (ho_engine h)) (direct_Rename ff p q)"
  "op_inv (\<lambda>h. I (ho_engine h)) (direct_WriteFileAtomically ff p d)"
proof -
  show "op_inv (\<lambda>h. I (ho_engine h)) (direct_MkdirTemp ff p q)"
    by (auto simp: op_inv_def direct_MkdirTemp_def Let_def files_op_def tick_def split: option.split prod.split)
  show "op_inv (\<lambda>h. I (ho_engine h)) (direct_RemoveAll ff p)"
    by (auto simp: op_inv_def direct_RemoveAll_def tick_def split: option.split)
  have "op_inv (\<lambda>h. I (ho_engine h)) (direct_MkdirAll ff p)" for p
    unfolding direct_MkdirAll_def by (rule files_op_engine)
  then show "op_inv (\<lambda>h. I (ho_engine h)) (direct_MkdirAll ff p)"
    "op_inv (\<lambda>h. I (ho_engine h)) (direct_WriteFileAtomically ff p d)"
    by (simp_all add: direct_WriteFileAtomically_def op_inv_seq files_op_engine)
qed (auto simp: direct_PathExists_def direct_DirectoryHasEntries_def direct_RemoveFile_def direct_RemoveDir_def
    direct_Rename_def intro!: op_inv_catch op_inv_if op_inv_ret op_inv_raise files_op_engine)

section \<open>The calls as triples\<close>

text \<open>\<open>on P\<close> speaks of the files and the engine; a failing call leaves both, unless it says otherwise.\<close>

definition on :: "(files \<Rightarrow> 'g \<Rightarrow> bool) \<Rightarrow> 'g host \<Rightarrow> bool" where
  "on P h \<longleftrightarrow> P (ho_files h) (ho_engine h)"

lemma triple_files:
  assumes "\<And>fs e fs' x. P fs e \<Longrightarrow> f fs = (fs', Inr x) \<Longrightarrow> Q x fs' e"
    and "\<And>fs e fs' er. P fs e \<Longrightarrow> f fs = (fs', Inl er) \<Longrightarrow> F er fs' e"
    and "\<And>fs e m. P fs e \<Longrightarrow> F (Plain m) fs e"
  shows "triple (on P) (files_op ff f) (\<lambda>x. on (Q x)) (\<lambda>er. on (F er))"
  unfolding triple_def files_op_def on_def tick_def using assms
  by (auto split: option.split prod.split sum.split)

lemma PathExists_triple:
  "triple (on P) (direct_PathExists ff p) (\<lambda>b. on (\<lambda>fs e. P fs e \<and> b = exists_path fs p)) (\<lambda>_. on P)"
  unfolding direct_PathExists_def by (rule triple_files) auto

lemma DirectoryHasEntries_triple:
  "triple (on P) (direct_DirectoryHasEntries ff p) (\<lambda>b. on (\<lambda>fs e. P fs e \<and> b = (tree fs p \<noteq> []))) (\<lambda>_. on P)"
  unfolding direct_DirectoryHasEntries_def
  by (rule triple_files) (auto simp: node_at_def split: option.splits fnode.splits if_splits)

text \<open>Directories that were added: on the way to \<open>p\<close> only.\<close>

definition dirs_added :: "string \<Rightarrow> files \<Rightarrow> files \<Rightarrow> bool" where
  "dirs_added p fs fs' \<longleftrightarrow> (\<exists>new. fs' = new @ fs \<and> (\<forall>(q, n) \<in> set new. q \<in> set (ancestors p) \<and> n = FDir))"

lemma make_dirs_added:
  "make_dirs ds fs = (fs', r) \<Longrightarrow>
    (\<exists>new. fs' = new @ fs \<and> (\<forall>(q, n) \<in> set new. q \<in> set ds \<and> n = FDir))
    \<and> (r = Inr () \<longrightarrow> ds \<noteq> [] \<longrightarrow> node_at fs' (last ds) = Some FDir)"
proof (induction ds fs rule: make_dirs.induct)
  case (2 d ds fs)
  show ?case
  proof (cases "node_at fs d")
    case None
    then have m: "make_dirs ds ((d, FDir) # fs) = (fs', r)" using 2(3) by simp
    obtain new where "fs' = new @ (d, FDir) # fs" "\<forall>(q, n) \<in> set new. q \<in> set ds \<and> n = FDir"
      "r = Inr () \<longrightarrow> ds \<noteq> [] \<longrightarrow> node_at fs' (last ds) = Some FDir"
      using 2(1) [OF None m] by auto
    moreover have "node_at ((d, FDir) # fs) d = Some FDir" by (simp add: node_at_def)
    ultimately show ?thesis
      using m by (intro conjI exI [of _ "new @ [(d, FDir)]"]) (auto simp: case_prod_beta)
  next
    case (Some n)
    show ?thesis
    proof (cases n)
      case FDir
      with Some 2(3) have "make_dirs ds fs = (fs', r)" by simp
      from 2(2) [OF Some FDir this] Some FDir \<open>make_dirs ds fs = (fs', r)\<close> show ?thesis by (cases ds) auto
    next
      case (FFile c)
      with Some 2(3) show ?thesis by auto
    qed
  qed
qed auto

lemma MkdirAll_triple:
  "triple (on P) (direct_MkdirAll ff p)
     (\<lambda>_. on (\<lambda>fs' e. \<exists>fs. P fs e \<and> dirs_added p fs fs'
        \<and> (ancestors p \<noteq> [] \<longrightarrow> node_at fs' (last (ancestors p)) = Some FDir)))
     (\<lambda>_. on (\<lambda>fs' e. \<exists>fs. P fs e \<and> dirs_added p fs fs'))"
proof -
  have "dirs_added p fs fs" for fs by (simp add: dirs_added_def)
  then show ?thesis
    unfolding direct_MkdirAll_def
    by (intro triple_files) (use make_dirs_added in \<open>fastforce simp: dirs_added_def\<close>)+
qed

lemma MkdirTemp_triple:
  "triple (on P) (direct_MkdirTemp ff d q)
     (\<lambda>p. on (\<lambda>fs' e. \<exists>fs. P fs e \<and> fs' = (p, FDir) # fs \<and> \<not> exists_path fs p)) (\<lambda>_. on P)"
  unfolding direct_MkdirTemp_def triple_def files_op_def on_def tick_def os_Mkdir_def Let_def
  by (auto split: option.split prod.split sum.split)

lemma os_Remove_gone: "os_Remove p fs = Inr fs' \<Longrightarrow> fs' = filter (\<lambda>(q, _). q \<noteq> p) fs \<and> \<not> exists_path fs' p"
  by (auto simp: os_Remove_def not_exists tree_Nil within_def split: if_splits)

lemma filter_missing: "\<not> exists_path fs p \<Longrightarrow> filter (\<lambda>(q, _). q \<noteq> p) fs = fs"
  by (auto simp: not_exists filter_id_conv within_def)

lemma RemoveDir_triple:
  "triple (on P) (direct_RemoveDir ff p)
     (\<lambda>_. on (\<lambda>fs' e. \<exists>fs. P fs e \<and> fs' = filter (\<lambda>(q, _). q \<noteq> p) fs \<and> \<not> exists_path fs' p)) (\<lambda>_. on P)"
proof -
  have missing: "\<not> exists_path fs p" if "os_Remove p fs = Inl e" "errors_Is e ENOENT" for fs e
    using that by (auto simp: os_Remove_def errors_Is_def ENOENT_def ENOTEMPTY_def split: if_splits)
  have other: "\<not> errors_Is (Plain m) ENOENT" for m by (simp add: errors_Is_def ENOENT_def)
  show ?thesis
    unfolding triple_def
  proof (intro allI impI)
    fix g :: "'a host" assume P: "on P g"
    show "case direct_RemoveDir ff p g of
        (g', Inl e) \<Rightarrow> on P g'
      | (g', Inr x) \<Rightarrow> on (\<lambda>fs' e. \<exists>fs. P fs e \<and> fs' = filter (\<lambda>(q, _). q \<noteq> p) fs \<and> \<not> exists_path fs' p) g'"
    proof (cases "hf_fail ff (ho_clock g)")
      case None
      show ?thesis
      proof (cases "os_Remove p (ho_files g)")
        case (Inl e)
        then show ?thesis
          using None P missing [OF Inl] filter_missing [of "ho_files g" p]
          by (auto simp: direct_RemoveDir_def catch_op_def files_op_def on_def tick_def settled_def ret_def raise_def
              intro!: exI [of _ "ho_files g"])
      next
        case (Inr fs')
        then show ?thesis
          using None P os_Remove_gone [OF Inr]
          by (auto simp: direct_RemoveDir_def catch_op_def files_op_def on_def tick_def settled_def)
      qed
    next
      case (Some m)
      then show ?thesis
        using P other by (simp add: direct_RemoveDir_def catch_op_def files_op_def on_def tick_def raise_def)
    qed
  qed
qed

lemma RemoveAll_triple:
  "triple (on P) (direct_RemoveAll ff p)
     (\<lambda>_. on (\<lambda>fs' e. \<exists>fs. P fs e \<and> (\<forall>(q, n) \<in> set fs. within p q \<or> (q, n) \<in> set fs')))
     (\<lambda>_. on (\<lambda>fs' e. \<exists>fs. P fs e \<and> (\<forall>(q, n) \<in> set fs. within p q \<or> (q, n) \<in> set fs')))"
  unfolding triple_def
proof (intro allI impI, goal_cases)
  case (1 g)
  then show ?case
    by (cases "hf_fail ff (ho_clock g)")
      (auto simp: direct_RemoveAll_def on_def tick_def remove_tree_def intro!: exI [of _ "ho_files g"])
qed

lemma Rename_triple:
  "triple (on P) (direct_Rename ff a b) (\<lambda>_. on (\<lambda>fs' e. \<exists>fs. P fs e \<and> os_Rename a b fs = Inr fs')) (\<lambda>_. on P)"
  unfolding direct_Rename_def
  by (rule triple_files) (auto simp: settled_def split: sum.splits)

section \<open>Clean absolute paths\<close>

definition abs_path :: "string \<Rightarrow> bool" where
  "abs_path p \<longleftrightarrow> (\<exists>ns. ns \<noteq> [] \<and> list_all plain_name ns \<and> p = slash # Join ns ''/'')"

lemma ancestors_names:
  assumes "ns \<noteq> []" and "list_all plain_name ns"
  shows "ancestors (slash # Join ns ''/'') = map (\<lambda>k. slash # Join (take (Suc k) ns) ''/'') [0..<length ns]"
proof -
  have "SplitByte (slash # Join ns ''/'') slash = [] # ns"
    using SplitByte_Join_names [OF assms(1) plain_path_names [OF assms(2)]] by simp
  moreover have "filter (\<lambda>x. x \<noteq> []) ns = ns"
    using assms(2) by (auto simp: filter_id_conv list_all_iff plain_name_def path_name_def)
  ultimately show ?thesis by (simp add: ancestors_def)
qed

lemma ancestors_within:
  assumes "abs_path p" and "a \<in> set (ancestors p)"
  shows "within a p"
proof -
  obtain ns where ns: "ns \<noteq> []" "list_all plain_name ns" "p = slash # Join ns ''/''"
    using assms(1) by (auto simp: abs_path_def)
  then obtain k where k: "k < length ns" "a = slash # Join (take (Suc k) ns) ''/''"
    using assms(2) by (auto simp: ancestors_names)
  show ?thesis
  proof (cases "Suc k = length ns")
    case False
    with k have "take (Suc k) ns \<noteq> []" "drop (Suc k) ns \<noteq> []" by auto
    from Join_append_slash [OF this, of "''/''"] ns(3) k(2)
    have "p = a @ ''/'' @ Join (drop (Suc k) ns) ''/''" by simp
    then show ?thesis by (simp add: within_def is_below_def HasPrefix_iff)
  qed (use k ns in \<open>simp add: within_def\<close>)
qed

lemma ancestors_last:
  assumes "abs_path p"
  shows "ancestors p \<noteq> []" and "last (ancestors p) = p"
  using assms by (auto simp: abs_path_def ancestors_names last_map)

lemma tree_added:
  assumes "dirs_added p fs fs'" and "\<And>a. a \<in> set (ancestors p) \<Longrightarrow> \<not> is_below x a"
  shows "tree fs' x = tree fs x"
proof -
  obtain new where new: "fs' = new @ fs" "\<forall>(q, n) \<in> set new. q \<in> set (ancestors p) \<and> n = FDir"
    using assms(1) by (auto simp: dirs_added_def)
  then have "filter (\<lambda>(p, _). is_below x p) new = []" using assms(2) by (auto simp: filter_empty_conv)
  with new(1) show ?thesis by (simp add: tree_def)
qed

lemma dirs_added_keeps: "dirs_added p fs fs' \<Longrightarrow> set fs \<subseteq> set fs'"
  by (auto simp: dirs_added_def)

end
