(* ===== verification/Nano_Slc.thy ===== *)
theory Nano_Slc
  imports Host_Files Sidecar_Runtime
begin

text \<open>
  The installation of the database container, as far as script language containers go:
  \<^verbatim>\<open>src/internal/localinstall/types.go\<close>, \<^verbatim>\<open>podman_slc.go\<close> and the \<^verbatim>\<open>NanoInstall\<close> of \<^verbatim>\<open>podman_install.go\<close>. Before the
  database starts, the image of every configured container is made available, from the engine, by a pull or from a
  package in the staging directory, a report of the outcome is written, and images that nothing refers to are
  removed. Ranging over a Go map has no order: \<open>ni_order\<close> is the one of this run.
\<close>

section \<open>The installation\<close>

record VersionCheckConfig =
  vc_Enabled :: bool
  vc_URL :: string
  vc_Identity :: string
  vc_OperatingSystem :: string
  vc_IntervalSeconds :: int

record SLCConfig =
  sl_Image :: string
  sl_Target :: string
  sl_Package :: string

record 'h StartConfig =
  st_ContainerDBPort :: int
  st_ContainerDBBindHost :: string
  st_DataDir :: string
  st_InitParams :: "string list"
  st_VersionCheck :: VersionCheckConfig
  st_SLCs :: "SLCConfig list option"
  st_LegacyContainerNames :: "string list"
  st_BootstrapDir :: string
  st_InitialPassword :: "('h, string) op option"
  st_PrepareDataDir :: "(string \<Rightarrow> ('h, unit) op) option"

text \<open>The deployment is what reading the launcher state gives; \<open>ni_now\<close> is the time as the quarantine prints it.\<close>

record 'h NanoInstall =
  ni_deployment :: "(go_error, ExasolPersonalState) result"
  ni_environment :: "'h ExecutionEnvironment"
  ni_client :: "'h ContainerRuntime"
  ni_resolveImage :: "('h, RuntimePath) op option"
  ni_slcStagingDir :: RuntimePath
  ni_slcStatusPath :: RuntimePath
  ni_services :: "'h SidecarRuntime"
  ni_marshal_statuses :: "(string \<times> string) list \<Rightarrow> (go_error, string) result"
  ni_order :: "string list \<Rightarrow> string list"
  ni_now :: string

section \<open>Image references\<close>

definition officialSLCRepository :: string where "officialSLCRepository = ''exasol/script-language-container''"
definition slcImportLabel :: string where "slcImportLabel = ''com.exasol.slc.imported=true''"
definition slcStatusPresent :: string where "slcStatusPresent = ''present''"
definition slcStatusPulled :: string where "slcStatusPulled = ''pulled''"
definition slcStatusImported :: string where "slcStatusImported = ''imported''"
definition slcStatusMissing :: string where "slcStatusMissing = ''package-missing''"
definition slcStatusImportFailed :: string where "slcStatusImportFailed = ''import-failed''"

text \<open>\<^verbatim>\<open>strings.LastIndex\<close> of one byte.\<close>

definition last_index :: "string \<Rightarrow> char \<Rightarrow> int" where
  "last_index s c = (case IndexByte (rev s) c of None \<Rightarrow> - 1 | Some i \<Rightarrow> int (length s) - 1 - int i)"

definition normalizeSLCImageRef :: "string \<Rightarrow> string" where
  "normalizeSLCImageRef reference =
     (let n = TrimPrefix (TrimPrefix (TrimSpace reference) ''docker.io/'') ''localhost/''
      in if last_index n CHR '':'' \<le> last_index n CHR ''/'' then n @ '':latest'' else n)"

definition slcImageRepository :: "string \<Rightarrow> string" where
  "slcImageRepository reference =
     (let n = normalizeSLCImageRef reference; lastColon = last_index n CHR '':'' in
      if lastColon > last_index n CHR ''/'' then take (nat lastColon) n else n)"

definition isUntaggedImage :: "string \<Rightarrow> bool" where
  "isUntaggedImage reference \<longleftrightarrow>
     (let n = TrimSpace reference in n = [] \<or> HasSuffix n '':<none>'' \<or> HasPrefix n ''<none>:'')"

section \<open>Making the images available\<close>

definition nano_imageExists :: "'h NanoInstall \<Rightarrow> string \<Rightarrow> ('h, bool) op" where
  "nano_imageExists i ref = wrap_op (''failed to find SLC image '' @ ref) (cc_ImageExists (ni_client i) ref)"

definition slcPackagePath :: "'h NanoInstall \<Rightarrow> string \<Rightarrow> RuntimePath option" where
  "slcPackagePath i packageName =
     (if packageName = [] \<or> packageName \<noteq> Base packageName \<or> packageName = ''.'' then None
      else Some \<lparr>rp_HostPath = JoinPath [rp_HostPath (ni_slcStagingDir i), packageName],
                rp_RuntimePath = JoinPath [rp_RuntimePath (ni_slcStagingDir i), packageName]\<rparr>)"

text \<open>The diagnostics that accompany a failure are printed only.\<close>

definition materializeSLC :: "'h NanoInstall \<Rightarrow> SLCConfig \<Rightarrow> ('h, bool \<times> string) op" where
  "materializeSLC i slc =
     bind_op (nano_imageExists i (sl_Image slc)) (\<lambda>present.
       if present then ret (True, slcStatusPresent)
       else if sl_Package slc = [] then
         seq_op (wrap_op (''failed to pull SLC image '' @ sl_Image slc) (try_op (cc_PullImage (ni_client i) (sl_Image slc))))
           (ret (True, slcStatusPulled))
       else case slcPackagePath i (sl_Package slc) of
         None \<Rightarrow> ret (False, slcStatusMissing)
       | Some packagePath \<Rightarrow>
           bind_op (wrap_op (''failed to inspect custom SLC package '' @ rp_RuntimePath packagePath)
                     (ee_PathExists (ni_environment i) (rp_RuntimePath packagePath))) (\<lambda>packageExists.
             if \<not> packageExists then ret (False, slcStatusMissing)
             else catch_op
               (seq_op (try_op (cc_ImportImage (ni_client i) (rp_RuntimePath packagePath) (sl_Image slc) [slcImportLabel]))
                  (ret (True, slcStatusImported)))
               (\<lambda>_. ret (False, slcStatusImportFailed))))"

fun materialize_loop :: "'h NanoInstall \<Rightarrow> SLCConfig list \<Rightarrow> ('h, SLCConfig list \<times> (string \<times> string) list) op" where
  "materialize_loop i [] = ret ([], [])"
| "materialize_loop i (slc # rest) =
     bind_op (materializeSLC i slc) (\<lambda>(isAvailable, state).
       bind_op (materialize_loop i rest) (\<lambda>(available, statuses).
         ret (if isAvailable then slc # available else available, (sl_Image slc, state) # statuses)))"

definition writeSLCStatusAtomically :: "'h NanoInstall \<Rightarrow> string \<Rightarrow> (string \<times> string) list \<Rightarrow> ('h, unit) op" where
  "writeSLCStatusAtomically i path statuses =
     (case ni_marshal_statuses i statuses of
        Inl e \<Rightarrow> raise (Wrap ''failed to encode SLC status report'' e)
      | Inr data \<Rightarrow> wrap_op ''failed to replace SLC status report''
          (ee_WriteFileAtomically (ni_environment i) path (data @ [newline])))"

definition materializeSLCs :: "'h NanoInstall \<Rightarrow> SLCConfig list option \<Rightarrow> ('h, SLCConfig list) op" where
  "materializeSLCs i slcs =
     (case slcs of
        None \<Rightarrow> seq_op (wrap_op ''failed to remove stale SLC status report''
                  (ee_RemoveFile (ni_environment i) (rp_RuntimePath (ni_slcStatusPath i)))) (ret [])
      | Some configs \<Rightarrow>
          bind_op (materialize_loop i configs) (\<lambda>(available, statuses).
            seq_op (writeSLCStatusAtomically i (rp_RuntimePath (ni_slcStatusPath i)) statuses) (ret available)))"

section \<open>Removing what nothing refers to\<close>

text \<open>A listing that fails is reported on the output and contributes nothing.\<close>

definition listed_images :: "'h NanoInstall \<Rightarrow> string list \<Rightarrow> ('h, string list) op" where
  "listed_images i labels = catch_op (cc_Images (ni_client i) labels) (\<lambda>_. ret [])"

definition is_official :: "string \<Rightarrow> bool" where
  "is_official ref \<longleftrightarrow> \<not> isUntaggedImage ref \<and> slcImageRepository ref = officialSLCRepository"

fun remove_images :: "'h NanoInstall \<Rightarrow> string list \<Rightarrow> string list \<Rightarrow> ('h, unit) op" where
  "remove_images i desired [] = ret ()"
| "remove_images i desired (x # xs) =
     (if normalizeSLCImageRef x \<in> set desired then remove_images i desired xs
      else seq_op (ignore_op (try_op (cc_RemoveImage (ni_client i) x))) (remove_images i desired xs))"

definition pruneUnreferencedSLCImages :: "'h NanoInstall \<Rightarrow> SLCConfig list option \<Rightarrow> ('h, unit) op" where
  "pruneUnreferencedSLCImages i desiredSLCs =
     (case desiredSLCs of
        None \<Rightarrow> ret ()
      | Some slcs \<Rightarrow>
          (let desired = map (\<lambda>s. normalizeSLCImageRef (sl_Image s)) slcs in
           bind_op (listed_images i []) (\<lambda>allImages.
           bind_op (listed_images i [slcImportLabel]) (\<lambda>importedImages.
             remove_images i desired
               (ni_order i (remdups (filter is_official allImages
                  @ filter (\<lambda>x. \<not> isUntaggedImage x) importedImages)))))))"

section \<open>The images are there\<close>

text \<open>What an engine promises of its images: a query or an import loses none, a successful one has the image
  afterwards, and a removal touches only images whose reference means the same.\<close>

definition lawful_images ::
  "'h ContainerRuntime \<Rightarrow> 'h ExecutionEnvironment \<Rightarrow> ('h \<Rightarrow> string \<Rightarrow> bool) \<Rightarrow> bool"
where
  "lawful_images cl env has \<longleftrightarrow>
     (\<forall>r. \<forall>x. op_inv (\<lambda>h. has h r) (cc_ImageExists cl x))
     \<and> (\<forall>r. \<forall>x. op_inv (\<lambda>h. has h r) (try_op (cc_PullImage cl x)))
     \<and> (\<forall>r. \<forall>p x ls. op_inv (\<lambda>h. has h r) (try_op (cc_ImportImage cl p x ls)))
     \<and> (\<forall>r. \<forall>ls. op_inv (\<lambda>h. has h r) (cc_Images cl ls))
     \<and> (\<forall>r x. normalizeSLCImageRef r \<noteq> normalizeSLCImageRef x \<longrightarrow> op_inv (\<lambda>h. has h r) (try_op (cc_RemoveImage cl x)))
     \<and> (\<forall>h h' x. cc_ImageExists cl x h = (h', Inr True) \<longrightarrow> has h' x)
     \<and> (\<forall>h h' x. cc_PullImage cl x h = (h', None) \<longrightarrow> has h' x)
     \<and> (\<forall>h h' p x ls. cc_ImportImage cl p x ls h = (h', None) \<longrightarrow> has h' x)
     \<and> (\<forall>r. \<forall>p. op_inv (\<lambda>h. has h r) (ee_PathExists env p))
     \<and> (\<forall>r. \<forall>p d. op_inv (\<lambda>h. has h r) (ee_WriteFileAtomically env p d))"

definition has_all :: "('h \<Rightarrow> string \<Rightarrow> bool) \<Rightarrow> string set \<Rightarrow> 'h \<Rightarrow> bool" where
  "has_all has R h \<longleftrightarrow> (\<forall>r \<in> R. has h r)"

lemma has_all_insert: "has h x \<Longrightarrow> has_all has R h \<Longrightarrow> has_all has (insert x R) h"
  by (simp add: has_all_def)

lemma op_inv_all: "(\<And>r. r \<in> R \<Longrightarrow> op_inv (\<lambda>h. has h r) m) \<Longrightarrow> op_inv (has_all has R) m"
  by (simp add: op_inv_def has_all_def)

lemma lawful_images_keep:
  assumes "lawful_images (ni_client i) (ni_environment i) has"
  shows "op_inv (has_all has R) (cc_ImageExists (ni_client i) x)"
    and "op_inv (has_all has R) (try_op (cc_PullImage (ni_client i) x))"
    and "op_inv (has_all has R) (try_op (cc_ImportImage (ni_client i) p x ls))"
    and "op_inv (has_all has R) (cc_Images (ni_client i) ls)"
    and "op_inv (has_all has R) (ee_PathExists (ni_environment i) p)"
    and "op_inv (has_all has R) (ee_WriteFileAtomically (ni_environment i) p d)"
  using assms by (auto simp: lawful_images_def intro!: op_inv_all)

lemma lawful_images_gain:
  assumes "lawful_images (ni_client i) (ni_environment i) has"
  shows "triple (has_all has R) (cc_ImageExists (ni_client i) x)
      (\<lambda>ok h. has_all has (if ok then insert x R else R) h) (\<lambda>_ _. True)"
    and "triple (has_all has R) (try_op (cc_PullImage (ni_client i) x)) (\<lambda>_. has_all has (insert x R)) (\<lambda>_ _. True)"
    and "triple (has_all has R) (try_op (cc_ImportImage (ni_client i) p x ls))
      (\<lambda>_. has_all has (insert x R)) (\<lambda>_. has_all has R)"
proof -
  note keep = lawful_images_keep [OF assms, THEN triple_inv, THEN tripleD(1)]
    lawful_images_keep [OF assms, THEN triple_inv, THEN tripleD(2)]
  show "triple (has_all has R) (cc_ImageExists (ni_client i) x)
      (\<lambda>ok h. has_all has (if ok then insert x R else R) h) (\<lambda>_ _. True)"
  proof (rule tripleI)
    fix g g' ok assume "has_all has R g" "cc_ImageExists (ni_client i) x g = (g', Inr ok)"
    with keep(1) [of R g x g' ok] assms show "has_all has (if ok then insert x R else R) g'"
      by (auto simp: has_all_def lawful_images_def)
  qed simp
  have new: "has g' x" if "try_op (cc_PullImage (ni_client i) x) g = (g', Inr u)" for g g' u
    using that assms by (auto simp: try_op_def lawful_images_def split: prod.splits option.splits)
  show "triple (has_all has R) (try_op (cc_PullImage (ni_client i) x)) (\<lambda>_. has_all has (insert x R)) (\<lambda>_ _. True)"
    by (rule tripleI) (use keep(2) new in \<open>blast intro: has_all_insert\<close>, simp)
  have "cc_ImportImage (ni_client i) p x ls g = (g', None) \<Longrightarrow> has g' x" for g g'
    using assms unfolding lawful_images_def by blast
  then have new: "has g' x" if "try_op (cc_ImportImage (ni_client i) p x ls) g = (g', Inr u)" for g g' u
    using that by (auto simp: try_op_def split: prod.splits option.splits)
  show "triple (has_all has R) (try_op (cc_ImportImage (ni_client i) p x ls))
      (\<lambda>_. has_all has (insert x R)) (\<lambda>_. has_all has R)"
    by (rule tripleI) (use keep(3) new in \<open>blast intro: has_all_insert\<close>, rule keep(9))
qed

lemma materializeSLC_gains:
  assumes "lawful_images (ni_client i) (ni_environment i) has"
  shows "triple (has_all has R) (materializeSLC i slc)
      (\<lambda>(ok, state) h. has_all has (if ok then insert (sl_Image slc) R else R) h
         \<and> (if sl_Package slc = [] then ok else True)) (\<lambda>_ _. True)"
proof -
  note keep = lawful_images_keep [OF assms, THEN triple_inv] and gain = lawful_images_gain [OF assms]
  have pull: "triple (has_all has R) (wrap_op m (try_op (cc_PullImage (ni_client i) x)))
      (\<lambda>_. has_all has (insert x R)) (\<lambda>_ _. True)" for m x
    by (rule triple_wrap) (rule gain(2))
  have look: "triple (has_all has R) (wrap_op m (ee_PathExists (ni_environment i) p))
      (\<lambda>_. has_all has R) (\<lambda>_ _. True)" for m p
    by (rule triple_wrap, rule triple_post, rule keep(5)) simp_all
  have import: "triple (has_all has R)
      (catch_op (seq_op (try_op (cc_ImportImage (ni_client i) p x ls)) (ret (True, a))) (\<lambda>_. ret (False, b)))
      (\<lambda>(ok, state) h. has_all has (if ok then insert x R else R) h) (\<lambda>_ _. True)" for p x ls and a b :: string
    by (rule triple_catch, rule triple_seq, rule gain(3), rule triple_ret, simp, rule triple_ret, simp)
  show ?thesis
    unfolding materializeSLC_def nano_imageExists_def
  proof (rule triple_bind, rule triple_wrap, rule gain(1), rule triple_if, goal_cases)
    case 1
    then show ?case by (auto intro!: triple_ret)
  next
    case (2 present)
    then have pre: "(\<lambda>h. has_all has (if present then insert (sl_Image slc) R else R) h) = has_all has R" by auto
    show ?case
      unfolding pre
    proof (rule triple_if, goal_cases)
      case 1
      then show ?case by (auto intro!: triple_seq [OF pull] triple_ret)
    next
      case 2
      then show ?case
        using import by (auto intro!: triple_ret triple_bind [OF look] split: option.split)
    qed
  qed
qed

lemma materialize_loop_gains:
  assumes "lawful_images (ni_client i) (ni_environment i) has"
  shows "triple (has_all has R) (materialize_loop i slcs)
      (\<lambda>(available, statuses) h. has_all has (R \<union> set (map sl_Image available)) h \<and> subseq available slcs
         \<and> filter (\<lambda>s. sl_Package s = []) available = filter (\<lambda>s. sl_Package s = []) slcs
         \<and> map fst statuses = map sl_Image slcs) (\<lambda>_ _. True)"
proof (induction slcs arbitrary: R)
  case Nil
  show ?case by (simp add: triple_ret)
next
  case (Cons slc rest)
  show ?case
    unfolding materialize_loop.simps
  proof (rule triple_bind, rule materializeSLC_gains [OF assms], goal_cases)
    case (1 x)
    obtain ok state where x: "x = (ok, state)" by (cases x)
    have "triple (has_all has (if ok then insert (sl_Image slc) R else R))
       (bind_op (materialize_loop i rest) (\<lambda>(available, statuses).
         ret (if ok then slc # available else available, (sl_Image slc, state) # statuses)))
       (\<lambda>(available, statuses) h. has_all has (R \<union> set (map sl_Image available)) h \<and> subseq available (slc # rest)
         \<and> filter (\<lambda>s. sl_Package s = []) available = filter (\<lambda>s. sl_Package s = []) (slc # rest)
         \<and> map fst statuses = map sl_Image (slc # rest)) (\<lambda>_ _. True)"
      if "sl_Package slc = [] \<Longrightarrow> ok"
      by (rule triple_bind, rule Cons.IH) (use that in \<open>auto intro!: triple_ret simp: insert_commute\<close>)
    then show ?case
      unfolding x by (auto simp: triple_def split: if_splits)
  qed
qed

lemma op_inv_listed:
  "op_inv I (cc_Images (ni_client i) ls) \<Longrightarrow> op_inv I (listed_images i ls)"
  unfolding listed_images_def by (intro op_invs)

lemma remove_images_keeps:
  assumes "lawful_images (ni_client i) (ni_environment i) has" and "normalizeSLCImageRef r \<in> set desired"
  shows "op_inv (\<lambda>h. has h r) (remove_images i desired xs)"
proof (induction xs)
  case (Cons x xs)
  have "op_inv (\<lambda>h. has h r) (ignore_op (try_op (cc_RemoveImage (ni_client i) x)))"
    if "normalizeSLCImageRef x \<notin> set desired"
  proof (rule op_inv_ignore)
    have "normalizeSLCImageRef r \<noteq> normalizeSLCImageRef x" using that assms(2) by auto
    then show "op_inv (\<lambda>h. has h r) (try_op (cc_RemoveImage (ni_client i) x))"
      using assms(1) unfolding lawful_images_def by blast
  qed
  with Cons show ?case by (auto intro!: op_inv_seq)
qed (simp add: op_inv_ret)

lemma prune_keeps:
  assumes "lawful_images (ni_client i) (ni_environment i) has"
    and "normalizeSLCImageRef r \<in> (\<lambda>s. normalizeSLCImageRef (sl_Image s)) ` set slcs"
  shows "op_inv (\<lambda>h. has h r) (pruneUnreferencedSLCImages i (Some slcs))"
proof -
  have "op_inv (\<lambda>h. has h r) (cc_Images (ni_client i) ls)" for ls
    using assms(1) by (simp add: lawful_images_def)
  with assms show ?thesis
    unfolding pruneUnreferencedSLCImages_def option.case Let_def
    by (intro op_inv_bind op_inv_listed remove_images_keeps) auto
qed

lemma remove_images_succeeds: "snd (remove_images i desired xs h) = Inr ()"
  by (induction xs arbitrary: h) (auto simp: ret_def seq_op_def bind_op_def ignore_op_def)

lemma prune_succeeds: "snd (pruneUnreferencedSLCImages i slcs h) = Inr ()"
proof (cases slcs)
  case (Some xs)
  have "snd (listed_images i ls g) = Inr (projr (snd (listed_images i ls g)))" for ls g
    by (auto simp: listed_images_def catch_op_def ret_def split: prod.split sum.split)
  then have "\<exists>g' ys. listed_images i ls g = (g', Inr ys)" for ls g by (metis prod.collapse)
  then obtain g1 a where 1: "listed_images i [] h = (g1, Inr a)" by blast
  obtain g2 b where 2: "listed_images i [slcImportLabel] g1 = (g2, Inr b)"
    using \<open>\<And>ls g. \<exists>g' ys. listed_images i ls g = (g', Inr ys)\<close> by blast
  show ?thesis
    using Some 1 2 by (simp add: pruneUnreferencedSLCImages_def bind_op_def Let_def remove_images_succeeds)
qed (simp add: pruneUnreferencedSLCImages_def ret_def)


section \<open>An example and a gap\<close>

definition refused :: "'h \<Rightarrow> 'h \<times> go_error option" where "refused h = (h, Some (Plain ''refused''))"

definition null_client :: "'h ContainerRuntime" where
  "null_client =
     \<lparr>cc_Create = (\<lambda>_ h. (h, [], Some (Plain ''refused''))), cc_RunToCompletion = (\<lambda>_ h. (h, [], Some (Plain ''refused''))),
      cc_Remove = (\<lambda>_ _. refused), cc_Stop = (\<lambda>_. refused), cc_Rename = (\<lambda>_ _. refused),
      cc_CopyFrom = (\<lambda>_ _ _. refused), cc_Exec = (\<lambda>_ _. refused), cc_List = (\<lambda>_. ret []),
      cc_Attachment = (\<lambda>_. ret None), cc_Mounts = (\<lambda>_. ret []), cc_LoadImage = (\<lambda>_. raise (Plain ''refused'')),
      cc_ImageExists = (\<lambda>_. ret False), cc_PullImage = (\<lambda>_. refused), cc_RemoveImage = (\<lambda>_. refused),
      cc_ImportImage = (\<lambda>_ _ _. refused), cc_Images = (\<lambda>_. ret []), cc_CreateNetwork = (\<lambda>_. refused),
      cc_Network = (\<lambda>_. ret None), cc_Networks = ret [], cc_ConnectNetwork = (\<lambda>_ _ _. refused),
      cc_RemoveNetwork = (\<lambda>_. refused)\<rparr>"

text \<open>An engine that has images, and pulls any but the one called \<open>gone\<close>.\<close>

definition image_client :: "string list host ContainerRuntime" where
  "image_client = null_client
     \<lparr>cc_ImageExists := (\<lambda>x h. (h, Inr (x \<in> set (ho_engine h)))),
      cc_PullImage := (\<lambda>x h. if x = ''gone'' then (h, Some (Plain ''no such image'')) else (h\<lparr>ho_engine := x # ho_engine h\<rparr>, None)),
      cc_ImportImage := (\<lambda>p x ls h. (h\<lparr>ho_engine := x # ho_engine h\<rparr>, None)),
      cc_Images := (\<lambda>ls h. (h, Inr (ho_engine h))),
      cc_RemoveImage := (\<lambda>x h. (h\<lparr>ho_engine := filter (\<lambda>y. y \<noteq> x) (ho_engine h)\<rparr>, None))\<rparr>"

definition no_faults :: host_faults where
  "no_faults = \<lparr>hf_fail = (\<lambda>_. None), hf_removed = (\<lambda>_ _. False), hf_random = (\<lambda>_. ''1'')\<rparr>"

definition demo_services :: "string list host SidecarRuntime" where
  "demo_services = \<lparr>rt_client = image_client, rt_owner = ''exasol-db-d'', rt_PublishPort = None,
     rt_EnvDir = \<lparr>rp_HostPath = [], rp_RuntimePath = []\<rparr>,
     rt_libs = sample_libs,
     rt_wsl = False, rt_Error = (\<lambda>_. []), rt_spec_error = (\<lambda>_. Plain []), rt_marshal = (\<lambda>_. Inr []), rt_sha256 = id,
     rt_MkdirAll = None, rt_WriteFile = None\<rparr>"

definition demo_install :: "string list host NanoInstall" where
  "demo_install = \<lparr>ni_deployment = Inr (zero_state\<lparr>DeploymentId := ''d''\<rparr>),
     ni_environment = DirectExecutionEnvironment no_faults, ni_client = image_client, ni_resolveImage = None,
     ni_slcStagingDir = \<lparr>rp_HostPath = ''/s'', rp_RuntimePath = ''/s''\<rparr>,
     ni_slcStatusPath = \<lparr>rp_HostPath = ''/status'', rp_RuntimePath = ''/status''\<rparr>, ni_services = demo_services,
     ni_marshal_statuses = (\<lambda>_. Inr ''report''), ni_order = rev, ni_now = ''now''\<rparr>"

definition demo_host :: "string list host" where
  "demo_host = \<lparr>ho_files = [(''/s/p'', FFile ''x''), (''/s'', FDir), (''/'', FDir)],
     ho_engine = [officialSLCRepository @ '':old'', officialSLCRepository @ '':1''], ho_clock = 0\<rparr>"

definition demo_slcs :: "SLCConfig list" where
  "demo_slcs = [\<lparr>sl_Image = officialSLCRepository @ '':1'', sl_Target = ''/t'', sl_Package = []\<rparr>,
     \<lparr>sl_Image = ''mine'', sl_Target = ''/u'', sl_Package = ''p''\<rparr>,
     \<lparr>sl_Image = ''other'', sl_Target = ''/v'', sl_Package = ''none''\<rparr>]"

lemma image_client_lawful:
  "lawful_images (ni_client demo_install) (ni_environment demo_install) (\<lambda>h r. r \<in> set (ho_engine h))"
proof -
  have "ee_PathExists (ni_environment demo_install) = direct_PathExists no_faults"
    "ee_WriteFileAtomically (ni_environment demo_install) = direct_WriteFileAtomically no_faults"
    "ni_client demo_install = image_client"
    by (simp_all add: demo_install_def DirectExecutionEnvironment_def)
  moreover have "op_inv (\<lambda>h. r \<in> set (ho_engine h)) (direct_PathExists no_faults p)"
    "op_inv (\<lambda>h. r \<in> set (ho_engine h)) (direct_WriteFileAtomically no_faults p d)" for r p d
    by (rule direct_engine)+
  ultimately have files: "op_inv (\<lambda>h. r \<in> set (ho_engine h)) (ee_PathExists (ni_environment demo_install) p)"
    "op_inv (\<lambda>h. r \<in> set (ho_engine h)) (ee_WriteFileAtomically (ni_environment demo_install) p d)" for r p d
    by simp_all
  have client: "ni_client demo_install = image_client" by (simp add: demo_install_def)
  show ?thesis
    unfolding lawful_images_def client
    by (intro conjI allI impI files) (auto simp: image_client_def op_inv_def try_op_def split: if_splits)
qed

lemma demo_materialized:
  "materializeSLCs demo_install (Some demo_slcs) demo_host
     = (fst (materializeSLCs demo_install (Some demo_slcs) demo_host), Inr (take 2 demo_slcs))"
  by code_simp


lemma demo_pruned:
  "ho_engine (fst (pruneUnreferencedSLCImages demo_install (Some demo_slcs)
      (fst (materializeSLCs demo_install (Some demo_slcs) demo_host)))) = [''mine'', officialSLCRepository @ '':1'']"
  by code_simp

text \<open>The check of a package name lets the name of the parent directory through.\<close>

lemma dotdot_package_escapes:
  "map_option rp_RuntimePath (slcPackagePath (demo_install\<lparr>ni_slcStagingDir := \<lparr>rp_HostPath = ''/w/s'', rp_RuntimePath = ''/w/s''\<rparr>\<rparr>)
     ''..'') = Some ''/w''"
  by code_simp

text \<open>But for the root, any other accepted name is a plain one, and its path lies in the staging directory.\<close>

lemma slcPackagePath_below:
  assumes "slcPackagePath i name = Some path" and "name \<notin> {''..'', ''/''}"
    and "rp_RuntimePath (ni_slcStagingDir i) = slash # Join ds ''/''" and "list_all plain_name ds"
  shows "rp_RuntimePath path = slash # Join (ds @ [name]) ''/''"
proof -
  have ok: "name \<noteq> []" "name = Base name" "name \<noteq> ''.''"
    and path: "rp_RuntimePath path = JoinPath [rp_RuntimePath (ni_slcStagingDir i), name]"
    using assms(1) by (auto simp: slcPackagePath_def split: if_splits)
  have "filter (\<lambda>n. n \<noteq> []) (SplitByte name slash) \<noteq> []"
    using ok(1,2) assms(2) by (auto simp: Base_def)
  then have "last (filter (\<lambda>n. n \<noteq> []) (SplitByte name slash)) \<in> set (SplitByte name slash)"
    by (meson filter_is_subset last_in_set subsetD)
  with ok(1,2) \<open>filter _ _ \<noteq> []\<close> have "name \<in> set (SplitByte name slash)" by (simp add: Base_def)
  then have "slash \<notin> set name" by (rule SplitByte_pieces)
  with ok assms(2) have "plain_name name" by (simp add: plain_name_def path_name_def)
  then show ?thesis
    using JoinPath_below [OF assms(4), of "[name]"] assms(3) path by simp
qed

end
