(* ===== verification/Nano_Recovery.thy ===== *)
theory Nano_Recovery
  imports Nano_Slc
begin

text \<open>
  The data of the database container across failures and versions:
  \<^verbatim>\<open>src/internal/localinstall/podman_recovery.go\<close> sets aside the data of an initialization that did not end,
  \<^verbatim>\<open>podman_migration.go\<close> moves data that an old container kept in its own file system to the data directory. Both
  work on the concrete files of \<open>Host_Files\<close>; what is shown is that neither loses data, wherever it fails.
\<close>

section \<open>The container\<close>

record podmanContainerStatus =
  ps_Exists :: bool
  ps_Running :: bool
  ps_Active :: bool

definition no_container :: podmanContainerStatus where
  "no_container = \<lparr>ps_Exists = False, ps_Running = False, ps_Active = False\<rparr>"

definition nano_ContainerName :: "'h NanoInstall \<Rightarrow> (go_error, string) result" where
  "nano_ContainerName i =
     bind_result (ni_deployment i) (\<lambda>s.
       if TrimSpace (DeploymentId s) = [] then Inl (Plain ''deployment state is missing deployment ID'')
       else Inr (''exasol-db-'' @ TrimSpace (DeploymentId s)))"

definition listing_status :: "string \<Rightarrow> ContainerListing list \<Rightarrow> podmanContainerStatus" where
  "listing_status name containers =
     (case List.find (\<lambda>c. name \<in> set (cl_Names c)) containers of
        None \<Rightarrow> no_container
      | Some c \<Rightarrow> \<lparr>ps_Exists = True, ps_Running = listing_Running c, ps_Active = listing_Active c\<rparr>)"

definition inspectContainerStatus :: "'h NanoInstall \<Rightarrow> string \<Rightarrow> ('h, podmanContainerStatus) op" where
  "inspectContainerStatus i name =
     bind_op (wrap_op (''failed to find Nano container '' @ name) (cc_List (ni_client i) [FilterName name]))
       (\<lambda>containers. ret (listing_status name containers))"

definition client_stop :: "'h NanoInstall \<Rightarrow> string \<Rightarrow> ('h, unit) op" where
  "client_stop i name = try_op (cc_Stop (ni_client i) name)"

definition client_remove :: "'h NanoInstall \<Rightarrow> string \<Rightarrow> bool \<Rightarrow> ('h, unit) op" where
  "client_remove i name force = try_op (cc_Remove (ni_client i) name force)"

section \<open>Setting aside an incomplete initialization\<close>

definition initialCreateMarkerName :: string where "initialCreateMarkerName = ''.exanano-initial-create-in-progress''"
definition quarantineSuffix :: string where "quarantineSuffix = ''.failed-''"
definition nanoTLSFiles :: "string list" where
  "nanoTLSFiles = [''certificates/fullchain.pem'', ''certificates/privkey.pem'']"

text \<open>The search for a free name has no bound in the code; \<open>fuel\<close> counts its steps here, and
  \<open>quarantine_path_found\<close> shows how many are enough.\<close>

definition quarantine_base :: "'h NanoInstall \<Rightarrow> string \<Rightarrow> string" where
  "quarantine_base i dataDir = dataDir @ quarantineSuffix @ ni_now i"

definition quarantine_candidate :: "string \<Rightarrow> nat \<Rightarrow> string" where
  "quarantine_candidate base k = (if k = 0 then base else base @ ''-'' @ Itoa (int k))"

definition out_of_fuel :: go_error where "out_of_fuel = Sentinel ''out of fuel''"

fun quarantine_search :: "'h NanoInstall \<Rightarrow> string \<Rightarrow> nat \<Rightarrow> nat \<Rightarrow> ('h, string) op" where
  "quarantine_search i base k 0 = raise out_of_fuel"
| "quarantine_search i base k (Suc fuel) =
     bind_op (wrap_op (''failed to inspect Nano quarantine path '' @ quarantine_candidate base k)
               (ee_PathExists (ni_environment i) (quarantine_candidate base k)))
       (\<lambda>taken. if \<not> taken then ret (quarantine_candidate base k) else quarantine_search i base (Suc k) fuel)"

definition nextQuarantinePath :: "nat \<Rightarrow> 'h NanoInstall \<Rightarrow> string \<Rightarrow> ('h, string) op" where
  "nextQuarantinePath fuel i dataDir = quarantine_search i (quarantine_base i dataDir) 0 fuel"

definition quarantine_data :: "nat \<Rightarrow> 'h NanoInstall \<Rightarrow> string \<Rightarrow> ('h, unit) op" where
  "quarantine_data fuel i dataDir =
     bind_op (nextQuarantinePath fuel i dataDir) (\<lambda>quarantinePath.
       seq_op (wrap_op (''failed to quarantine incomplete Nano data at '' @ quarantinePath)
                (ee_Rename (ni_environment i) dataDir quarantinePath))
         (wrap_op (''failed to recreate Nano data directory '' @ dataDir) (ee_MkdirAll (ni_environment i) dataDir)))"

definition recoverIncompleteInitialCreate ::
  "nat \<Rightarrow> 'h NanoInstall \<Rightarrow> string \<Rightarrow> string \<Rightarrow> podmanContainerStatus \<Rightarrow> ('h, bool) op"
where
  "recoverIncompleteInitialCreate fuel i containerName dataDir status =
     (let markerPath = JoinPath [dataDir, initialCreateMarkerName] in
      bind_op (wrap_op (''failed to inspect Nano initial-create marker '' @ markerPath)
                (ee_PathExists (ni_environment i) markerPath)) (\<lambda>markerExists.
        if \<not> markerExists then ret False
        else seq_op
          (if ps_Exists status then
             seq_op (wrap_op (''failed to stop incomplete Nano container '' @ containerName) (client_stop i containerName))
               (wrap_op (''failed to remove incomplete Nano container '' @ containerName) (client_remove i containerName True))
           else ret ())
          (seq_op (quarantine_data fuel i dataDir) (ret True))))"

fun remove_tls :: "'h NanoInstall \<Rightarrow> string \<Rightarrow> string list \<Rightarrow> ('h, unit) op" where
  "remove_tls i dataDir [] = ret ()"
| "remove_tls i dataDir (f # fs) =
     seq_op (wrap_op (''failed to remove stale Nano TLS file '' @ JoinPath [dataDir, f])
              (ee_RemoveFile (ni_environment i) (JoinPath [dataDir, f])))
       (remove_tls i dataDir fs)"

definition removeStaleNanoTLSFiles :: "'h NanoInstall \<Rightarrow> string \<Rightarrow> ('h, unit) op" where
  "removeStaleNanoTLSFiles i dataDir = remove_tls i dataDir nanoTLSFiles"

text \<open>The names of the directories next to \<open>dataDir\<close> are what reading their parent gives.\<close>

definition HostQuarantinedDataDirs :: "(go_error, (string \<times> bool) list) result option \<Rightarrow> string \<Rightarrow> (go_error, string list) result" where
  "HostQuarantinedDataDirs entries dataDir =
     (case entries of
        None \<Rightarrow> Inr []
      | Some (Inl e) \<Rightarrow> Inl (Wrap (''failed to list quarantined Nano data in '' @ Dir dataDir) e)
      | Some (Inr es) \<Rightarrow>
          Inr (map (\<lambda>(n, _). JoinPath [Dir dataDir, n])
            (filter (\<lambda>(n, isDir). isDir \<and> HasPrefix n (Base dataDir @ quarantineSuffix)) es)))"

section \<open>Moving data out of an old container\<close>

definition nanoDataMountPath :: string where "nanoDataMountPath = ''/exa''"

definition containerHasPersistentExaMount :: "'h NanoInstall \<Rightarrow> string \<Rightarrow> ('h, bool) op" where
  "containerHasPersistentExaMount i containerName =
     bind_op (wrap_op (''failed to inspect mounts for Nano container '' @ containerName)
               (cc_Mounts (ni_client i) containerName))
       (\<lambda>mounts. ret (list_ex (\<lambda>m. cm_Destination m = nanoDataMountPath \<and> cm_BindMount m) mounts))"

definition directoryHasEntries :: "'h NanoInstall \<Rightarrow> string \<Rightarrow> ('h, bool) op" where
  "directoryHasEntries i path =
     wrap_op (''failed to inspect directory '' @ path) (ee_DirectoryHasEntries (ni_environment i) path)"

definition installOverlayDataAtomically :: "'h NanoInstall \<Rightarrow> string \<Rightarrow> string \<Rightarrow> ('h, unit) op" where
  "installOverlayDataAtomically i dataDir stagingDir =
     bind_op (directoryHasEntries i dataDir) (\<lambda>populated.
       if populated then
         raise (Plain (''persistent Nano data directory '' @ dataDir @ '' became populated during migration''))
       else seq_op (wrap_op (''failed to remove empty Nano data directory '' @ dataDir)
                     (ee_RemoveDir (ni_environment i) dataDir))
         (catch_op (ee_Rename (ni_environment i) stagingDir dataDir) (\<lambda>e.
            fail_after (ee_MkdirAll (ni_environment i) dataDir) (\<lambda>mkdirErr. case mkdirErr of
               None \<Rightarrow> Wrap ''failed to atomically install Nano data'' e
             | Some e' \<Rightarrow> Wrap (''failed to atomically install Nano data; also failed to recreate '' @ dataDir)
                          (Joined [e, e'])))))"

definition migrate_copy :: "'h NanoInstall \<Rightarrow> string \<Rightarrow> string \<Rightarrow> string \<Rightarrow> ('h, unit) op" where
  "migrate_copy i containerName dataDir stagingDir =
     catch_op (try_op (cc_CopyFrom (ni_client i) containerName (nanoDataMountPath @ ''/.'') stagingDir))
       (\<lambda>e. fail_after (ee_RemoveAll (ni_environment i) stagingDir) (\<lambda>_.
          Wrap (''failed to copy legacy Nano data from '' @ containerName @ '':/exa; the stopped container was retained'') e))"

text \<open>What follows the copy: the staged data becomes the data directory, then the old container goes.\<close>

definition migrate_install :: "'h NanoInstall \<Rightarrow> string \<Rightarrow> string \<Rightarrow> string \<Rightarrow> ('h, unit) op" where
  "migrate_install i containerName dataDir stagingDir =
     bind_op (wrap_op (''failed to inspect copied Nano data in '' @ stagingDir) (directoryHasEntries i stagingDir)) (\<lambda>stagedData.
       seq_op
         (if stagedData then
            wrap_op (''failed to install migrated Nano data from '' @ stagingDir) (installOverlayDataAtomically i dataDir stagingDir)
          else wrap_op ''failed to remove empty Nano migration staging directory'' (ee_RemoveDir (ni_environment i) stagingDir))
         (wrap_op (''migrated Nano data is installed at '' @ dataDir @ '', but the legacy container '' @ containerName @ '' could not be removed'')
            (client_remove i containerName False)))"

definition migrateOverlayDataIfNeeded ::
  "'h NanoInstall \<Rightarrow> string \<Rightarrow> string \<Rightarrow> podmanContainerStatus \<Rightarrow> ('h, bool) op"
where
  "migrateOverlayDataIfNeeded i containerName dataDir status =
     (if \<not> ps_Exists status then ret False
      else bind_op (containerHasPersistentExaMount i containerName) (\<lambda>persistent.
        if persistent then ret False
        else bind_op (directoryHasEntries i dataDir) (\<lambda>populated.
          if populated then raise (Plain (''refusing to overwrite populated persistent Nano data at '' @ dataDir))
          else seq_op (wrap_op (''failed to stop legacy Nano container '' @ containerName @ '' before migration'')
                        (client_stop i containerName))
            (seq_op (wrap_op ''failed to prepare Nano migration directory''
                      (ee_MkdirAll (ni_environment i) (Dir dataDir)))
              (bind_op (wrap_op ''failed to create Nano overlay migration staging directory''
                         (ee_MkdirTemp (ni_environment i) (Dir dataDir) (''.'' @ Base dataDir @ ''.overlay-migration-*'')))
                 (\<lambda>stagingDir.
                    seq_op (migrate_copy i containerName dataDir stagingDir)
                      (seq_op (migrate_install i containerName dataDir stagingDir) (ret True))))))))"

section \<open>Setting aside loses nothing\<close>

lemma direct_env:
  assumes "ni_environment i = DirectExecutionEnvironment ff"
  shows "ee_PathExists (ni_environment i) = direct_PathExists ff" "ee_Rename (ni_environment i) = direct_Rename ff"
    "ee_MkdirAll (ni_environment i) = direct_MkdirAll ff" "ee_MkdirTemp (ni_environment i) = direct_MkdirTemp ff"
    "ee_RemoveDir (ni_environment i) = direct_RemoveDir ff" "ee_RemoveAll (ni_environment i) = direct_RemoveAll ff"
    "ee_DirectoryHasEntries (ni_environment i) = direct_DirectoryHasEntries ff"
    "ee_RemoveFile (ni_environment i) = direct_RemoveFile ff"
  by (simp_all add: assms DirectExecutionEnvironment_def)

lemma onI: "on P h \<Longrightarrow> (\<And>fs e. P fs e \<Longrightarrow> Q fs e) \<Longrightarrow> on Q h"
  by (simp add: on_def)

lemma quarantine_search_triple:
  assumes "ni_environment i = DirectExecutionEnvironment ff"
  shows "triple (on P) (quarantine_search i base k fuel)
    (\<lambda>q. on (\<lambda>fs e. P fs e \<and> \<not> exists_path fs q \<and> HasPrefix q base)) (\<lambda>_. on P)"
proof (induction fuel arbitrary: k)
  case 0
  show ?case by (simp add: triple_raise)
next
  case (Suc fuel)
  have prefix: "HasPrefix (quarantine_candidate base k) base"
    by (auto simp: quarantine_candidate_def HasPrefix_iff)
  show ?case
    unfolding quarantine_search.simps direct_env [OF assms]
  proof (rule triple_bind, rule triple_wrap, rule PathExists_triple, rule triple_if, goal_cases)
    case (1 taken)
    with prefix show ?case by (intro triple_ret) (auto simp: on_def)
  next
    case (2 taken)
    show ?case by (rule triple_pre [OF Suc.IH]) (auto simp: on_def)
  qed
qed

lemma quarantine_apart:
  assumes "HasPrefix q (quarantine_base i d)" and "within a d"
  shows "\<not> within d q" and "\<not> is_below q a" and "\<not> is_below d a"
  using assms by (auto simp: within_def is_below_def HasPrefix_iff quarantine_base_def quarantineSuffix_def)

lemma quarantine_data_triple:
  assumes env: "ni_environment i = DirectExecutionEnvironment ff" and d: "abs_path d"
  shows "triple (on (\<lambda>f _. f = fs)) (quarantine_data fuel i d)
    (\<lambda>_. on (\<lambda>fs' _. \<exists>q. HasPrefix q (quarantine_base i d) \<and> \<not> exists_path fs q \<and> kept_at d q fs fs'
        \<and> tree fs' q = tree fs d \<and> tree fs' d = [] \<and> node_at fs' d = Some FDir))
    (\<lambda>_. on (\<lambda>fs' _. \<exists>q. kept_at d q fs fs' \<and> tree fs' q = tree fs d))"
  unfolding quarantine_data_def nextQuarantinePath_def direct_env [OF env]
proof (rule triple_bind, rule triple_post, rule quarantine_search_triple [OF env], assumption, goal_cases)
  case (1 e g)
  then show ?case using kept_at_same by (auto simp: on_def)
next
  case (2 q)
  let ?R = "\<lambda>fs' (_ :: 'a). (HasPrefix q (quarantine_base i d) \<and> \<not> exists_path fs q)
      \<and> kept_at d q fs fs' \<and> tree fs' q = tree fs d \<and> tree fs' d = []"
  show ?case
  proof (rule triple_seq [where R = "on ?R"], goal_cases)
    case 1
    have "?R fs' e" if "os_Rename d q fs = Inr fs'" "\<not> exists_path fs q" "HasPrefix q (quarantine_base i d)" for fs' e
      using Rename_kept [OF that(1,2)] quarantine_apart(1) [OF that(3), of d] that(2,3) by (simp add: within_def)
    then show ?case
      by (intro triple_wrap triple_post [OF Rename_triple]) (auto simp: on_def kept_at_same intro: exI [of _ d])
  next
    case 2
    have step: "?R fs' e" if R: "?R f e" and "dirs_added d f fs'" for f fs' e
    proof -
      have "\<not> is_below q a \<and> \<not> is_below d a" if "a \<in> set (ancestors d)" for a
        using quarantine_apart [OF _ ancestors_within [OF d that], of q] R by auto
      then have "tree fs' q = tree f q" "tree fs' d = tree f d" using tree_added [OF that(2)] by blast+
      then show ?thesis using R kept_at_more dirs_added_keeps [OF that(2)] by auto
    qed
    show ?case
    proof (intro triple_wrap triple_post [OF MkdirAll_triple], goal_cases)
      case (1 u g)
      then obtain f where "?R f (ho_engine g)" "dirs_added d f (ho_files g)" "node_at (ho_files g) d = Some FDir"
        using ancestors_last [OF d] by (auto simp: on_def)
      with step [of f "ho_files g"] show ?case
        unfolding on_def by (intro exI [of _ q]) simp
    next
      case (2 er g)
      then obtain f where "?R f (ho_engine g)" "dirs_added d f (ho_files g)" by (auto simp: on_def)
      with step [of f "ho_files g"] show ?case
        unfolding on_def by (intro exI [of _ q]) simp
    qed
  qed
qed

section \<open>The search for a name ends\<close>

definition candidate_suffix :: "nat \<Rightarrow> string" where
  "candidate_suffix k = (if k = 0 then [] else ''-'' @ Itoa (int k))"

lemma candidate_split: "quarantine_candidate base k = base @ candidate_suffix k"
  by (simp add: quarantine_candidate_def candidate_suffix_def)

lemma candidate_suffix_inj: "candidate_suffix j = candidate_suffix k \<Longrightarrow> j = k"
  by (auto simp: candidate_suffix_def dest: Itoa_inj [rotated 2] split: if_splits)

lemma candidate_no_slash: "slash \<notin> set (candidate_suffix k)"
proof -
  have "\<not> is_digit slash" by code_simp
  then have "slash \<notin> set (Itoa (int k))" using Itoa_nat_digits [of "int k"] by (auto simp: list_all_iff)
  then show ?thesis by (simp add: candidate_suffix_def)
qed

text \<open>No entry of the files can be in the way of two candidates.\<close>

lemma candidates_apart:
  assumes "within (quarantine_candidate base j) p" and "within (quarantine_candidate base k) p"
  shows "j = k"
proof -
  have "takeWhile (\<lambda>c. c \<noteq> slash) (drop (length base) p) = candidate_suffix m"
    if "within (quarantine_candidate base m) p" for m
  proof -
    from that consider "p = base @ candidate_suffix m" | t where "p = base @ candidate_suffix m @ slash # t"
      by (auto simp: candidate_split within_def is_below_def HasPrefix_iff)
    then show ?thesis
      using candidate_no_slash [of m] by cases (auto simp: takeWhile_eq_all_conv intro!: takeWhile_append2 [THEN trans])
  qed
  with assms have "candidate_suffix j = candidate_suffix k" by metis
  then show ?thesis by (rule candidate_suffix_inj)
qed

lemma search_out_of_fuel:
  assumes "ni_environment i = DirectExecutionEnvironment ff"
  shows "quarantine_search i base k fuel h = (h', Inl out_of_fuel) \<Longrightarrow> j < fuel
    \<Longrightarrow> exists_path (ho_files h) (quarantine_candidate base (k + j))"
proof (induction fuel arbitrary: k j h)
  case (Suc fuel)
  let ?c = "quarantine_candidate base k"
  obtain h1 r where look: "direct_PathExists ff ?c h = (h1, r)" by fastforce
  show ?case
  proof (cases r)
    case (Inl e)
    with Suc.prems look show ?thesis
      by (simp add: direct_env [OF assms] bind_op_def wrap_op_def out_of_fuel_def)
  next
    case (Inr taken)
    have same: "ho_files h1 = ho_files h \<and> taken = exists_path (ho_files h) ?c"
      using tripleD(1) [OF PathExists_triple [where P = "\<lambda>fs _. fs = ho_files h"] _ look [unfolded Inr]]
      by (auto simp: on_def)
    with Suc.prems look Inr have "taken" and next': "quarantine_search i base (Suc k) fuel h1 = (h', Inl out_of_fuel)"
      by (auto simp: direct_env [OF assms] bind_op_def wrap_op_def ret_def split: if_splits)
    then show ?thesis
      using Suc.IH [OF next', of "j - 1"] Suc.prems(2) same by (cases j) auto
  qed
qed simp

lemma enough_fuel:
  assumes "ni_environment i = DirectExecutionEnvironment ff" and "length (ho_files h) < fuel"
  shows "snd (quarantine_search i base 0 fuel h) \<noteq> Inl out_of_fuel"
proof
  assume "snd (quarantine_search i base 0 fuel h) = Inl out_of_fuel"
  then have "quarantine_search i base 0 fuel h = (fst (quarantine_search i base 0 fuel h), Inl out_of_fuel)"
    by (metis prod.collapse)
  from search_out_of_fuel [OF assms(1) this]
  have "\<forall>j \<in> {..<fuel}. \<exists>p. p \<in> fst ` set (ho_files h) \<and> within (quarantine_candidate base j) p"
    by (fastforce simp: not_exists [of _ _, THEN arg_cong [where f = Not], simplified])
  then obtain f where f: "\<forall>j \<in> {..<fuel}. f j \<in> fst ` set (ho_files h) \<and> within (quarantine_candidate base j) (f j)"
    by metis
  have "inj_on f {..<fuel}" using f candidates_apart by (auto intro!: inj_onI) (metis lessThan_iff)
  then have "fuel \<le> card (fst ` set (ho_files h))" using card_inj_on_le [of f "{..<fuel}"] f by auto
  also have "\<dots> \<le> length (ho_files h)" by (meson card_image_le card_length finite_set le_trans)
  finally show False using assms(2) by simp
qed

text \<open>C18: The search for a name to set data aside under ends: on any files, with calls failing anywhere, as many
  steps as there are files and one more are enough, and the path that is found was not in use.\<close>

theorem quarantine_path_found:
  assumes "ni_environment i = DirectExecutionEnvironment ff" and "length (ho_files h) < fuel"
    and "nextQuarantinePath fuel i dataDir h = (h', r)"
  shows "r \<noteq> Inl out_of_fuel \<and> ho_files h' = ho_files h
    \<and> (case r of Inl _ \<Rightarrow> True | Inr q \<Rightarrow> \<not> exists_path (ho_files h) q \<and> HasPrefix q (dataDir @ quarantineSuffix))"
proof -
  have s: "quarantine_search i (quarantine_base i dataDir) 0 fuel h = (h', r)"
    using assms(3) by (simp add: nextQuarantinePath_def)
  note t = quarantine_search_triple [OF assms(1), where P = "\<lambda>fs _. fs = ho_files h", unfolded triple_def on_def, rule_format,
      of h "quarantine_base i dataDir" 0 fuel]
  show ?thesis
    using t s enough_fuel [OF assms(1,2), of "quarantine_base i dataDir"]
    by (auto simp: quarantine_base_def HasPrefix_iff split: sum.splits)
qed

theorem quarantine_path_found_witness:
  "snd (nextQuarantinePath 4 demo_install ''/s'' demo_host) \<noteq> Inl out_of_fuel"
proof -
  have "ni_environment demo_install = DirectExecutionEnvironment no_faults" "length (ho_files demo_host) < 4"
    by (simp_all add: demo_install_def demo_host_def)
  from quarantine_path_found [OF this prod.collapse [symmetric]] show ?thesis by (rule conjunct1)
qed

text \<open>Stopping and removing a container touches no file outside its data directory.\<close>

definition outside_kept :: "string \<Rightarrow> files \<Rightarrow> files \<Rightarrow> bool" where
  "outside_kept d fs fs' \<longleftrightarrow> list_all (\<lambda>(p, n). within d p \<or> (p, n) \<in> set fs') fs"

definition lawful_end :: "'g host ContainerRuntime \<Rightarrow> string \<Rightarrow> bool" where
  "lawful_end cl d \<longleftrightarrow>
     (\<forall>fs name. op_inv (on (\<lambda>fs' _. outside_kept d fs fs')) (try_op (cc_Stop cl name)))
     \<and> (\<forall>fs name force. op_inv (on (\<lambda>fs' _. outside_kept d fs fs')) (try_op (cc_Remove cl name force)))"

lemma outside_kept_refl [simp]: "outside_kept d fs fs"
  by (auto simp: outside_kept_def list_all_iff)

definition set_aside :: "string \<Rightarrow> bool \<Rightarrow> files \<Rightarrow> files \<Rightarrow> bool" where
  "set_aside d recovered fs fs' \<longleftrightarrow>
     (\<exists>q. kept_at d q fs fs' \<and> tree fs' q = tree fs d
        \<and> (if recovered then HasPrefix q (d @ quarantineSuffix) \<and> \<not> exists_path fs q \<and> tree fs' d = [] else True))"


definition marked_host :: "string list host" where
  "marked_host = \<lparr>ho_files = [(''/d/exa/'' @ initialCreateMarkerName, FFile []), (''/d/exa/data'', FFile ''x''), (''/d/exa'', FDir),
     (''/d'', FDir), (''/'', FDir)], ho_engine = [], ho_clock = 0\<rparr>"

lemma abs_path_demo: "abs_path ''/d/exa''"
  unfolding abs_path_def by (rule exI [of _ "[''d'', ''exa'']"]) (simp add: plain_name_def path_name_def)

lemma demo_recovered: "snd (recoverIncompleteInitialCreate 9 demo_install ''c'' ''/d/exa'' no_container marked_host) = Inr True"
  by code_simp

lemma lawful_end_demo: "lawful_end (ni_client demo_install) d"
  by (simp add: lawful_end_def demo_install_def image_client_def null_client_def refused_def op_inv_def try_op_def)


section \<open>Moving loses nothing\<close>

text \<open>What is assumed of the engine while data moves: \<open>ov\<close> is the content of \<^verbatim>\<open>/exa\<close> in the old container. Looking at the
  container and stopping it leave the files and this content; copying leaves the content and adds files below the
  destination only, all of the content when it succeeds; removing the container leaves the files.\<close>

definition lawful_overlay :: "'g host ContainerRuntime \<Rightarrow> string \<Rightarrow> ('g \<Rightarrow> (string \<times> fnode) list) \<Rightarrow> bool" where
  "lawful_overlay cl name ov \<longleftrightarrow>
     (\<forall>fs d. op_inv (on (\<lambda>f e. f = fs \<and> ov e = d)) (cc_Mounts cl name))
     \<and> (\<forall>fs d. op_inv (on (\<lambda>f e. f = fs \<and> ov e = d)) (try_op (cc_Stop cl name)))
     \<and> (\<forall>fs d dest. triple (on (\<lambda>f e. f = fs \<and> ov e = d)) (try_op (cc_CopyFrom cl name (nanoDataMountPath @ ''/.'') dest))
          (\<lambda>_. on (\<lambda>f e. ov e = d \<and> (\<exists>new. f = new @ fs \<and> (\<forall>(p, n) \<in> set new. is_below dest p))
             \<and> set (tree f dest) = set (tree fs dest) \<union> set d))
          (\<lambda>_. on (\<lambda>f e. ov e = d \<and> (\<exists>new. f = new @ fs \<and> (\<forall>(p, n) \<in> set new. is_below dest p)))))
     \<and> (\<forall>fs. op_inv (on (\<lambda>f _. f = fs)) (try_op (cc_Remove cl name False)))"

text \<open>The data is in the container or in the data directory, and every other file is where it was.\<close>

definition others_kept :: "string \<Rightarrow> files \<Rightarrow> files \<Rightarrow> bool" where
  "others_kept d fs fs' \<longleftrightarrow> list_all (\<lambda>(p, n). p = d \<or> (p, n) \<in> set fs') fs"

definition data_somewhere :: "string \<Rightarrow> (string \<times> fnode) list \<Rightarrow> ('g \<Rightarrow> (string \<times> fnode) list) \<Rightarrow> files \<Rightarrow> 'g \<Rightarrow> bool" where
  "data_somewhere d data ov fs e \<longleftrightarrow> ov e = data \<or> data = [] \<or> set (tree fs d) = set data"

lemma others_kept_mono: "set fs \<subseteq> set fs' \<Longrightarrow> others_kept d fs fs'"
  by (auto simp: others_kept_def list_all_iff)

lemma others_kept_trans: "others_kept d fs fs' \<Longrightarrow> set fs' \<subseteq> set fs'' \<Longrightarrow> others_kept d fs fs''"
  by (auto simp: others_kept_def list_all_iff)

text \<open>Between the copy and the removal the content is in the container still.\<close>

definition staged :: "('g \<Rightarrow> (string \<times> fnode) list) \<Rightarrow> (string \<times> fnode) list \<Rightarrow> files \<Rightarrow> string \<Rightarrow> files \<Rightarrow> 'g \<Rightarrow> bool" where
  "staged ov data fs s f e \<longleftrightarrow>
     ov e = data \<and> set fs \<subseteq> set f \<and> (\<forall>(p, n) \<in> set fs. \<not> within s p) \<and> (s, FDir) \<in> set f \<and> set (tree f s) = set data"

definition moving :: "('g \<Rightarrow> (string \<times> fnode) list) \<Rightarrow> (string \<times> fnode) list \<Rightarrow> string \<Rightarrow> files \<Rightarrow> files \<Rightarrow> 'g \<Rightarrow> bool" where
  "moving ov data d fs f e \<longleftrightarrow> ov e = data \<and> others_kept d fs f"

lemma staged_moving: "staged ov data fs s f e \<Longrightarrow> moving ov data d fs f e"
  by (simp add: staged_def moving_def others_kept_mono)

lemma moving_added: "moving ov data d fs f e \<Longrightarrow> set f \<subseteq> set f' \<Longrightarrow> moving ov data d fs f' e"
  by (auto simp: moving_def intro: others_kept_trans)

lemma installed_step:
  assumes "staged ov data fs s f0 e" and "f1 = filter (\<lambda>(q, _). q \<noteq> d) f0" and "\<not> exists_path f1 d"
    and "os_Rename s d f1 = Inr f"
  shows "moving ov data d fs f e \<and> set (tree f d) = set data"
proof -
  have "s \<noteq> d"
  proof
    assume "s = d"
    then have "exists_path f1 d" using assms(4) by (auto simp: os_Rename_def split: if_splits)
    with assms(3) show False by simp
  qed
  moreover have "\<not> is_below s d" using assms(4) by (auto simp: os_Rename_def split: if_splits)
  ultimately have apart: "\<not> within s d" by (simp add: within_def)
  note r = Rename_kept [OF assms(4,3)]
  have "others_kept d fs f"
    unfolding others_kept_def list_all_iff
  proof clarify
    fix p n assume p: "(p, n) \<in> set fs" "(p, n) \<notin> set f"
    have "(p, n) \<in> set f0" "\<not> within s p" using assms(1) p(1) by (auto simp: staged_def)
    show "p = d"
    proof (rule ccontr)
      assume "p \<noteq> d"
      with \<open>(p, n) \<in> set f0\<close> have "(p, n) \<in> set f1" by (simp add: assms(2))
      with r(1) \<open>\<not> within s p\<close> p(2) show False by (auto simp: kept_at_def list_all_iff)
    qed
  qed
  moreover have "set (tree f1 s) = set (tree f0 s)"
  proof -
    have "\<not> is_below s d" using apart by (simp add: within_def)
    then show ?thesis by (force simp: assms(2) tree_set is_below_def HasPrefix_iff)
  qed
  ultimately show ?thesis using r(2) [OF apart] assms(1) by (simp add: moving_def staged_def)
qed

lemma install_triple:
  assumes "ni_environment i = DirectExecutionEnvironment ff"
  shows "triple (on (staged ov data fs s)) (installOverlayDataAtomically i d s)
    (\<lambda>_. on (\<lambda>f e. moving ov data d fs f e \<and> set (tree f d) = set data)) (\<lambda>_. on (moving ov data d fs))"
  unfolding installOverlayDataAtomically_def directoryHasEntries_def direct_env [OF assms]
proof (rule triple_bind, rule triple_wrap, rule triple_post, rule DirectoryHasEntries_triple, assumption, goal_cases)
  case (1 e g)
  then show ?case by (simp add: on_def staged_moving)
next
  case (2 populated)
  let ?gone = "\<lambda>f e. \<exists>f0. staged ov data fs s f0 e \<and> f = filter (\<lambda>(q, _). q \<noteq> d) f0 \<and> \<not> exists_path f d"
  have gone_moving: "moving ov data d fs f e" if "?gone f e" for f e
    using that by (auto simp: staged_def moving_def others_kept_def list_all_iff)
  show ?case
  proof (rule triple_if, goal_cases)
    case 1
    show ?case by (rule triple_raise) (auto simp: on_def intro: staged_moving)
  next
    case 2
    show ?case
    proof (rule triple_seq [where R = "on ?gone"], goal_cases)
      case 1
      show ?case
      proof (intro triple_wrap triple_post [OF triple_pre [OF RemoveDir_triple [where P = "staged ov data fs s"]]], goal_cases)
        case (1 g)
        then show ?case by (auto simp: on_def)
      next
        case (2 x g)
        then show ?case by (auto simp: on_def)
      next
        case (3 e g)
        then show ?case by (simp add: on_def staged_moving)
      qed
    next
      case 2
      show ?case
      proof (rule triple_catch [where G = "\<lambda>_. on ?gone"], rule triple_post, rule Rename_triple, goal_cases)
        case (1 x g)
        then show ?case using installed_step by (fastforce simp: on_def)
      next
        case (2 e g)
        then show ?case by assumption
      next
        case (3 e)
        have "moving ov data d fs f' x" if "?gone f x" "dirs_added d f f'" for f f' x
          using moving_added [OF gone_moving [OF that(1)] dirs_added_keeps [OF that(2)]] .
        then show ?case
          by (intro triple_fail_after triple_post [OF MkdirAll_triple]) (fastforce simp: on_def)+
      qed
    qed
  qed
qed

definition prepared :: "('g \<Rightarrow> (string \<times> fnode) list) \<Rightarrow> (string \<times> fnode) list \<Rightarrow> files \<Rightarrow> string \<Rightarrow> files \<Rightarrow> 'g \<Rightarrow> bool" where
  "prepared ov data fs s f e \<longleftrightarrow> ov e = data \<and> (\<exists>f0. set fs \<subseteq> set f0 \<and> f = (s, FDir) # f0 \<and> \<not> exists_path f0 s)"

lemma prepared_facts:
  assumes "prepared ov data fs s f e"
  shows "tree f s = []" and "set fs \<subseteq> set f" and "\<forall>(p, n) \<in> set fs. \<not> within s p" and "(s, FDir) \<in> set f"
  using assms by (auto simp: prepared_def not_exists tree_Nil within_def)

lemma copy_triple:
  assumes env: "ni_environment i = DirectExecutionEnvironment ff" and law: "lawful_overlay (ni_client i) name ov"
  shows "triple (on (prepared ov data fs s)) (migrate_copy i name d s) (\<lambda>_. on (staged ov data fs s))
    (\<lambda>_. on (moving ov data d fs))"
proof -
  let ?added = "\<lambda>f e. ov e = data \<and> set fs \<subseteq> set f \<and> (\<forall>(p, n) \<in> set fs. \<not> within s p)"
  have "triple (on (\<lambda>f e. f = F \<and> ov e = data)) (try_op (cc_CopyFrom (ni_client i) name (nanoDataMountPath @ ''/.'') s))
      (\<lambda>_. on (staged ov data fs s)) (\<lambda>_. on ?added)" if "prepared ov data fs s F e" for F e
  proof (rule triple_post)
    show "triple (on (\<lambda>f e. f = F \<and> ov e = data)) (try_op (cc_CopyFrom (ni_client i) name (nanoDataMountPath @ ''/.'') s))
          (\<lambda>_. on (\<lambda>f e. ov e = data \<and> (\<exists>new. f = new @ F \<and> (\<forall>(p, n) \<in> set new. is_below s p))
             \<and> set (tree f s) = set (tree F s) \<union> set data))
          (\<lambda>_. on (\<lambda>f e. ov e = data \<and> (\<exists>new. f = new @ F \<and> (\<forall>(p, n) \<in> set new. is_below s p))))"
      using law unfolding lawful_overlay_def by blast
  qed (use prepared_facts [OF that] in \<open>auto simp: on_def staged_def\<close>)
  then have from_files: "triple (on (\<lambda>f e. f = F \<and> ov e = data)) (try_op (cc_CopyFrom (ni_client i) name (nanoDataMountPath @ ''/.'') s))
      (\<lambda>_. on (staged ov data fs s)) (\<lambda>_. on ?added)" if "prepared ov data fs s F e" for F e
    using that by blast
  have copy: "triple (on (prepared ov data fs s)) (try_op (cc_CopyFrom (ni_client i) name (nanoDataMountPath @ ''/.'') s))
      (\<lambda>_. on (staged ov data fs s)) (\<lambda>_. on ?added)"
    unfolding triple_def
  proof (intro allI impI)
    fix g assume "on (prepared ov data fs s) g"
    then have p: "prepared ov data fs s (ho_files g) (ho_engine g)" by (simp add: on_def)
    show "case try_op (cc_CopyFrom (ni_client i) name (nanoDataMountPath @ ''/.'') s) g of
        (g', Inl e) \<Rightarrow> on ?added g' | (g', Inr x) \<Rightarrow> on (staged ov data fs s) g'"
      using from_files [OF p, unfolded triple_def, rule_format, of g] p unfolding on_def by (simp add: prepared_def)
  qed
  show ?thesis
    unfolding migrate_copy_def direct_env [OF env]
  proof (rule triple_catch, rule copy, intro triple_fail_after triple_post [OF RemoveAll_triple], goal_cases)
    case (1 e x g)
    then show ?case by (fastforce simp: on_def moving_def others_kept_def list_all_iff)
  next
    case (2 e x g)
    then show ?case by (fastforce simp: on_def moving_def others_kept_def list_all_iff)
  qed
qed

lemma migrate_install_triple:
  assumes env: "ni_environment i = DirectExecutionEnvironment ff" and law: "lawful_overlay (ni_client i) name ov"
  shows "triple (on (staged ov data fs s)) (migrate_install i name d s)
    (\<lambda>_. on (\<lambda>f e. others_kept d fs f \<and> (data = [] \<or> set (tree f d) = set data)))
    (\<lambda>_. on (\<lambda>f e. others_kept d fs f \<and> data_somewhere d data ov f e))"
  unfolding migrate_install_def directoryHasEntries_def direct_env [OF env]
proof (rule triple_bind, rule triple_wrap, rule triple_wrap, rule triple_post, rule DirectoryHasEntries_triple, assumption, goal_cases)
  case (1 e g)
  then show ?case by (auto simp: on_def data_somewhere_def staged_def intro: others_kept_mono)
next
  case (2 stagedData)
  let ?done = "\<lambda>f e. others_kept d fs f \<and> (data = [] \<or> set (tree f d) = set data)"
  let ?left = "\<lambda>f e. others_kept d fs f \<and> data_somewhere d data ov f e"
  have left: "moving ov data d fs f e \<Longrightarrow> ?left f e" for f e
    by (simp add: moving_def data_somewhere_def)
  have rm: "triple (on (\<lambda>f _. f = F)) (client_remove i name False) (\<lambda>_. on (\<lambda>f _. f = F)) (\<lambda>_. on (\<lambda>f _. f = F))" for F
    using law by (auto simp: lawful_overlay_def client_remove_def intro!: triple_inv)
  have remove: "triple (on ?done) (client_remove i name False) (\<lambda>_. on ?done) (\<lambda>_. on ?left)"
    using rm unfolding triple_def on_def data_somewhere_def by (fastforce split: prod.splits sum.splits)
  show ?case
  proof (rule triple_seq [where R = "on ?done"], rule triple_if, goal_cases)
    case 1
    show ?case
    proof (rule triple_wrap, rule triple_post, rule triple_pre,
        rule install_triple [OF env, where ov = ov and data = data and fs = fs and s = s and d = d], goal_cases)
      case (1 g)
      then show ?case by (simp add: on_def)
    next
      case (2 x g)
      then show ?case by (simp add: on_def moving_def)
    next
      case (3 e g)
      then show ?case using left by (simp add: on_def)
    qed
  next
    case 2
    show ?case
    proof (rule triple_wrap, rule triple_post, rule RemoveDir_triple, goal_cases)
      case (1 x g)
      with 2 obtain f0 where f0: "staged ov data fs s f0 (ho_engine g)" "tree f0 s = []"
        "ho_files g = filter (\<lambda>(q, _). q \<noteq> s) f0"
        by (auto simp: on_def)
      then have "data = []" by (simp add: staged_def)
      moreover have "set fs \<subseteq> set (ho_files g)" using f0(1,3) by (auto simp: staged_def within_def)
      ultimately show ?case by (simp add: on_def others_kept_mono)
    next
      case (2 e g)
      then show ?case using left staged_moving by (fastforce simp: on_def)
    qed
  next
    case 3
    show ?case by (rule triple_wrap) (rule remove)
  qed
qed

lemma migrate_triple:
  assumes env: "ni_environment i = DirectExecutionEnvironment ff" and law: "lawful_overlay (ni_client i) name ov"
  shows "triple (on (\<lambda>f e. f = fs \<and> ov e = data)) (migrateOverlayDataIfNeeded i name d status)
    (\<lambda>migrated. on (\<lambda>f e. if migrated then others_kept d fs f \<and> (data = [] \<or> set (tree f d) = set data)
        else f = fs \<and> ov e = data))
    (\<lambda>_. on (\<lambda>f e. others_kept d fs f \<and> data_somewhere d data ov f e))"
proof -
  let ?start = "\<lambda>f e. f = fs \<and> ov e = data"
  let ?left = "\<lambda>f e. others_kept d fs f \<and> data_somewhere d data ov f e"
  let ?more = "\<lambda>f e. ov e = data \<and> set fs \<subseteq> set f"
  have left: "moving ov data d fs f e \<Longrightarrow> ?left f e" "?start f e \<Longrightarrow> ?left f e" "?more f e \<Longrightarrow> ?left f e" for f e
    by (auto simp: moving_def data_somewhere_def intro: others_kept_mono)
  have mounts: "triple (on ?start) (containerHasPersistentExaMount i name) (\<lambda>_. on ?start) (\<lambda>_. on ?left)"
  proof -
    have "triple (on ?start) (cc_Mounts (ni_client i) name) (\<lambda>_. on ?start) (\<lambda>_. on ?start)"
      using law by (auto simp: lawful_overlay_def intro: triple_inv)
    then have "triple (on ?start) (cc_Mounts (ni_client i) name) (\<lambda>_. on ?start) (\<lambda>_. on ?left)"
      by (rule triple_post) (use left in \<open>auto simp: on_def\<close>)
    then show ?thesis
      unfolding containerHasPersistentExaMount_def by (intro triple_bind [OF triple_wrap] triple_ret)
  qed
  have look: "triple (on ?start) (directoryHasEntries i d) (\<lambda>_. on ?start) (\<lambda>_. on ?left)"
    unfolding directoryHasEntries_def direct_env [OF env]
    by (rule triple_wrap, rule triple_post, rule DirectoryHasEntries_triple) (use left in \<open>auto simp: on_def\<close>)
  have stop: "triple (on ?start) (client_stop i name) (\<lambda>_. on ?start) (\<lambda>_. on ?left)"
  proof -
    have "triple (on ?start) (client_stop i name) (\<lambda>_. on ?start) (\<lambda>_. on ?start)"
      using law by (auto simp: lawful_overlay_def client_stop_def intro: triple_inv)
    then show ?thesis by (rule triple_post) (use left in \<open>auto simp: on_def\<close>)
  qed
  have parent: "triple (on ?start) (direct_MkdirAll ff p) (\<lambda>_. on ?more) (\<lambda>_. on ?left)" for p
    by (rule triple_post, rule MkdirAll_triple)
      (use left dirs_added_keeps in \<open>fastforce simp: on_def\<close>)+
  have temp: "triple (on ?more) (direct_MkdirTemp ff p q) (\<lambda>s. on (prepared ov data fs s)) (\<lambda>_. on ?left)" for p q
    by (rule triple_post, rule MkdirTemp_triple) (use left in \<open>auto simp: on_def prepared_def\<close>)
  have copy: "triple (on (prepared ov data fs s)) (migrate_copy i name d s) (\<lambda>_. on (staged ov data fs s)) (\<lambda>_. on ?left)" for s
    by (rule triple_post, rule copy_triple [OF env law]) (use left in \<open>auto simp: on_def\<close>)
  show ?thesis
    unfolding migrateOverlayDataIfNeeded_def direct_env [OF env]
    apply (rule triple_if, rule triple_ret, simp)
    apply (rule triple_bind, rule mounts, rule triple_if, rule triple_ret, simp)
    apply (rule triple_bind, rule look, rule triple_if, rule triple_raise, rule onI, assumption, erule left)
    apply (rule triple_seq, rule triple_wrap, rule stop)
    apply (rule triple_seq, rule triple_wrap, rule parent)
    apply (rule triple_bind, rule triple_wrap, rule temp)
    apply (rule triple_seq, rule copy, rule triple_seq, rule migrate_install_triple [OF env law])
    apply (rule triple_ret, simp)
    done
qed

text \<open>C16: Moving the data out of an old container loses nothing: whichever call fails, the data is still in the
  container or is complete in the data directory, and every other file is where it was; a success means that
  the data is in the data directory; a container that needs no migration is left alone with all files.\<close>

theorem migration_keeps_data:
  assumes "ni_environment i = DirectExecutionEnvironment ff" and "lawful_overlay (ni_client i) name ov"
    and "migrateOverlayDataIfNeeded i name dataDir status h = (h', r)"
  shows "others_kept dataDir (ho_files h) (ho_files h')
    \<and> data_somewhere dataDir (ov (ho_engine h)) ov (ho_files h') (ho_engine h')
    \<and> (case r of
         Inl _ \<Rightarrow> True
       | Inr migrated \<Rightarrow>
           if migrated then ov (ho_engine h) = [] \<or> set (tree (ho_files h') dataDir) = set (ov (ho_engine h))
           else ho_files h' = ho_files h \<and> ov (ho_engine h') = ov (ho_engine h))"
  using migrate_triple [OF assms(1,2), of "ho_files h" "ov (ho_engine h)" dataDir status,
      unfolded triple_def on_def, rule_format, of h, OF conjI [OF refl refl]] assms(3)
  by (auto simp: data_somewhere_def others_kept_mono split: sum.splits if_splits)

text \<open>An engine whose only container has \<^verbatim>\<open>/exa\<close> in its own file system.\<close>

definition overlay_client :: "(string \<times> fnode) list host ContainerRuntime" where
  "overlay_client = null_client
     \<lparr>cc_Stop := (\<lambda>_ h. (h, None)), cc_Remove := (\<lambda>_ _ h. (h\<lparr>ho_engine := []\<rparr>, None)),
      cc_CopyFrom := (\<lambda>_ _ dest h. (h\<lparr>ho_files := map (\<lambda>(p, n). (dest @ ''/'' @ p, n)) (ho_engine h) @ ho_files h\<rparr>, None))\<rparr>"

definition overlay_install :: "(string \<times> fnode) list host NanoInstall" where
  "overlay_install = \<lparr>ni_deployment = Inr (zero_state\<lparr>DeploymentId := ''d''\<rparr>),
     ni_environment = DirectExecutionEnvironment no_faults, ni_client = overlay_client, ni_resolveImage = None,
     ni_slcStagingDir = \<lparr>rp_HostPath = ''/s'', rp_RuntimePath = ''/s''\<rparr>,
     ni_slcStatusPath = \<lparr>rp_HostPath = ''/status'', rp_RuntimePath = ''/status''\<rparr>,
     ni_services = \<lparr>rt_client = overlay_client, rt_owner = ''exasol-db-d'', rt_PublishPort = None,
       rt_EnvDir = \<lparr>rp_HostPath = [], rp_RuntimePath = []\<rparr>, rt_libs = sample_libs, rt_wsl = False, rt_Error = (\<lambda>_. []),
       rt_spec_error = (\<lambda>_. Plain []), rt_marshal = (\<lambda>_. Inr []), rt_sha256 = id, rt_MkdirAll = None, rt_WriteFile = None\<rparr>,
     ni_marshal_statuses = (\<lambda>_. Inr ''report''), ni_order = rev, ni_now = ''now''\<rparr>"

definition overlay_host :: "(string \<times> fnode) list host" where
  "overlay_host = \<lparr>ho_files = [(''/d/exa'', FDir), (''/d/state'', FFile ''s''), (''/d'', FDir), (''/'', FDir)],
     ho_engine = [(''db'', FDir), (''db/f'', FFile ''x'')], ho_clock = 0\<rparr>"

lemma overlay_lawful: "lawful_overlay (ni_client overlay_install) name id"
proof -
  have "set (tree (map (\<lambda>(p, n). (dest @ slash # p, n)) d @ fs) dest) = set (tree fs dest) \<union> set d" for dest d fs
    by (force simp: tree_set)
  then show ?thesis
    unfolding lawful_overlay_def
    by (auto simp: overlay_install_def overlay_client_def null_client_def op_inv_def on_def try_op_def triple_def ret_def
        is_below_def HasPrefix_def)
qed

theorem migration_keeps_data_witness:
  "set (tree (ho_files (fst (migrateOverlayDataIfNeeded overlay_install ''c'' ''/d/exa''
        \<lparr>ps_Exists = True, ps_Running = False, ps_Active = False\<rparr> overlay_host))) ''/d/exa'')
     = {(''db'', FDir), (''db/f'', FFile ''x'')}"
proof -
  let ?run = "migrateOverlayDataIfNeeded overlay_install ''c'' ''/d/exa''
        \<lparr>ps_Exists = True, ps_Running = False, ps_Active = False\<rparr> overlay_host"
  have "ni_environment overlay_install = DirectExecutionEnvironment no_faults" by (simp add: overlay_install_def)
  moreover have "snd ?run = Inr True" by code_simp
  then obtain h' where run: "?run = (h', Inr True)" by (metis prod.collapse)
  ultimately have "set (tree (ho_files h') ''/d/exa'') = set (ho_engine overlay_host)"
    using migration_keeps_data [OF _ overlay_lawful run] by (auto simp: overlay_host_def)
  then show ?thesis unfolding run by (simp add: overlay_host_def)
qed

end
