(* ===== verification/Nano_Install.thy ===== *)
theory Nano_Install
  imports Nano_Recovery
begin

text \<open>
  Starting, stopping and destroying the database container: \<^verbatim>\<open>src/internal/localinstall/podman_install.go\<close>. A start
  takes over a container under an old name, migrates and recovers its data (\<open>Nano_Recovery\<close>), prepares the data
  directory, loads the image, makes the script language containers available (\<open>Nano_Slc\<close>), joins the
  deployment's network and creates the container. A fresh data directory is initialized with a password that passes
  through a file; what is shown of a start is what becomes of that file, and what the created container looks like.
\<close>

section \<open>The bootstrap password\<close>

definition nanoInternalDBPort :: int where "nanoInternalDBPort = 8563"
definition nanoShmSize :: string where "nanoShmSize = ''512mb''"
definition nanoPIDsLimit :: string where "nanoPIDsLimit = ''-1''"
definition nanoSELinuxSecurityOpt :: string where "nanoSELinuxSecurityOpt = ''label=disable''"
definition nanoBootstrapMountPath :: string where "nanoBootstrapMountPath = ''/run/secrets''"
definition nanoBootstrapPasswordFile :: string where "nanoBootstrapPasswordFile = ''sys_password''"
definition nanoDataMountTarget :: string where "nanoDataMountTarget = nanoDataMountPath @ '':Z''"
definition nanoVersionCheckDefault :: int where "nanoVersionCheckDefault = 86400"
definition nanoVersionCheckMin :: int where "nanoVersionCheckMin = 60"
definition nanoVersionCheckMax :: int where "nanoVersionCheckMax = 604800"
definition nanoVersionCheckRetryMax :: int where "nanoVersionCheckRetryMax = 86400"

definition bootstrap_path :: "string \<Rightarrow> string" where
  "bootstrap_path bootstrapDir = JoinPath [bootstrapDir, nanoBootstrapPasswordFile]"

definition removal_message :: string where
  "removal_message = ''failed to remove the initial database password file''"

definition RemoveBootstrapPassword :: "'h NanoInstall \<Rightarrow> string \<Rightarrow> ('h, unit) op" where
  "RemoveBootstrapPassword i bootstrapDir =
     (if TrimSpace bootstrapDir = [] then ret ()
      else wrap_op removal_message (ee_RemoveFile (ni_environment i) (bootstrap_path bootstrapDir)))"

definition writeBootstrapPassword :: "'h NanoInstall \<Rightarrow> 'h StartConfig \<Rightarrow> ('h, unit) op" where
  "writeBootstrapPassword i cfg =
     (case st_InitialPassword cfg of
        None \<Rightarrow> raise (Plain ''nil InitialPassword'')
      | Some ask \<Rightarrow>
          bind_op (wrap_op ''failed to resolve the initial database password'' ask) (\<lambda>password.
            if password = [] then raise (Plain ''the initial database password is empty'')
            else wrap_op ''failed to write the initial database password file''
              (ee_WriteFileAtomically (ni_environment i) (bootstrap_path (st_BootstrapDir cfg)) password)))"

section \<open>The configuration of a start\<close>

text \<open>The code ranges over a Go map of the three version-check settings, so which of several missing ones it names is open;
  the model names the first in the order of the source. Diagnostics that accompany a failure are printed only.\<close>

definition blank :: "string \<Rightarrow> bool" where "blank s \<longleftrightarrow> TrimSpace s = []"

definition validateStartConfig :: "'h NanoInstall \<Rightarrow> 'h StartConfig \<Rightarrow> go_error option" where
  "validateStartConfig i cfg =
     (let vc = st_VersionCheck cfg;
          missing = List.find (\<lambda>(name, v). blank v)
            [(''URL'', vc_URL vc), (''identity'', vc_Identity vc), (''operating system'', vc_OperatingSystem vc)];
          slcs = (case st_SLCs cfg of None \<Rightarrow> [] | Some xs \<Rightarrow> xs);
          bad = List.find (\<lambda>(k, s). blank (sl_Image s) \<or> blank (sl_Target s)) (zip [0..<length slcs] slcs)
      in if st_ContainerDBPort cfg \<le> 0 \<or> st_ContainerDBPort cfg > 65535 then
           Some (Plain (''invalid Nano published DB port '' @ Itoa (st_ContainerDBPort cfg)))
         else if blank (st_DataDir cfg) then Some (Plain ''nano data directory is required'')
         else if st_InitialPassword cfg \<noteq> None \<and> blank (st_BootstrapDir cfg) then
           Some (Plain ''nano bootstrap directory is required for an initial password'')
         else if vc_Enabled vc \<and> missing \<noteq> None then
           Some (Plain (''nano version-check '' @ fst (the missing) @ '' is required when enabled''))
         else case bad of
             Some (k, s) \<Rightarrow> Some (Plain (''nano SLC '' @ Itoa (int k) @ (if blank (sl_Image s) then '' image'' else '' target'') @ '' is required''))
           | None \<Rightarrow>
               if st_SLCs cfg \<noteq> None \<and> blank (rp_RuntimePath (ni_slcStatusPath i)) then
                 Some (Plain ''SLC status path is required for SLC-aware startup'')
               else if st_SLCs cfg \<noteq> None \<and> blank (rp_RuntimePath (ni_slcStagingDir i)) then
                 Some (Plain ''SLC staging directory is required for SLC-aware startup'')
               else None)"

definition clamp :: "int \<Rightarrow> int \<Rightarrow> int \<Rightarrow> int" where
  "clamp v minimum maximum = min (max v minimum) maximum"

definition nanoVersionCheckInitArgs :: "VersionCheckConfig \<Rightarrow> string list" where
  "nanoVersionCheckInitArgs vc =
     (if \<not> vc_Enabled vc then [''VERSION_CHECK_ENABLED=0'']
      else let interval = clamp (if vc_IntervalSeconds vc = 0 then nanoVersionCheckDefault else vc_IntervalSeconds vc)
                   nanoVersionCheckMin nanoVersionCheckMax;
               retryInterval = clamp interval nanoVersionCheckMin nanoVersionCheckRetryMax
           in [''VERSION_CHECK_ENABLED=1'', ''VERSION_CHECK_ENDPOINT='' @ vc_URL vc,
               ''VERSION_CHECK_INTERVAL_SEC='' @ Itoa interval,
               ''VERSION_CHECK_RETRY_INTERVAL_SEC='' @ Itoa retryInterval,
               ''VERSION_CHECK_OPERATING_SYSTEM='' @ vc_OperatingSystem vc])"

definition nanoDBPortMapping :: "'h StartConfig \<Rightarrow> PortMapping" where
  "nanoDBPortMapping cfg =
     \<lparr>pm_HostIP = st_ContainerDBBindHost cfg, pm_HostPort = st_ContainerDBPort cfg, pm_ContainerPort = nanoInternalDBPort,
      pm_Protocol = [], pm_Mapping = []\<rparr>"

record nanoRunOptions =
  ro_containerName :: string
  ro_loadedImage :: string
  ro_slcs :: "SLCConfig list"
  ro_fresh :: bool
  ro_bootstrap :: bool
  ro_network :: string

definition bind_mount :: "string \<Rightarrow> string \<Rightarrow> Mount" where
  "bind_mount source target = \<lparr>mo_Kind = MountBind, mo_Source = source, mo_Target = target, mo_ReadOnly = False,
     mo_Relabel = False, mo_Writable = False\<rparr>"

definition slc_mount :: "SLCConfig \<Rightarrow> Mount" where
  "slc_mount slc = \<lparr>mo_Kind = MountImage, mo_Source = sl_Image slc, mo_Target = sl_Target slc, mo_ReadOnly = False,
     mo_Relabel = False, mo_Writable = True\<rparr>"

definition nanoRunSpec :: "'h StartConfig \<Rightarrow> nanoRunOptions \<Rightarrow> ContainerSpec" where
  "nanoRunSpec cfg options =
     \<lparr>cs_Name = ro_containerName options, cs_Image = ro_loadedImage options,
      cs_Args = [''init'']
        @ (if ro_fresh options \<and> st_InitParams cfg \<noteq> [] then [''params='' @ Join (st_InitParams cfg) '' ''] else [])
        @ (if ro_bootstrap options then [''sys_password_file='' @ nanoBootstrapMountPath @ ''/'' @ nanoBootstrapPasswordFile] else [])
        @ nanoVersionCheckInitArgs (st_VersionCheck cfg),
      cs_Labels = [],
      cs_Env = (if vc_Enabled (st_VersionCheck cfg) then [(''VERSION_CHECK_IDENTITY'', vc_Identity (st_VersionCheck cfg))] else []),
      cs_EnvFile = [], cs_Network = ro_network options,
      cs_NetworkAlias = (if ro_network options \<noteq> [] then DatabaseAlias else []),
      cs_Ports = [nanoDBPortMapping cfg],
      cs_Mounts = [bind_mount (st_DataDir cfg) nanoDataMountTarget]
        @ (if ro_bootstrap options
           then [(bind_mount (st_BootstrapDir cfg) nanoBootstrapMountPath)\<lparr>mo_ReadOnly := True, mo_Relabel := True\<rparr>] else [])
        @ map slc_mount (ro_slcs options),
      cs_Entrypoint = [], cs_WorkingDir = [], cs_Pull = PullUnset,
      cs_Restart = (if ro_bootstrap options then RestartNever else RestartAlways), cs_Replace = True,
      cs_SharedMemorySize = nanoShmSize, cs_ProcessLimit = nanoPIDsLimit, cs_NestedSandbox = True,
      cs_SecurityOptions = [nanoSELinuxSecurityOpt], cs_Capabilities = []\<rparr>"

section \<open>The data directory, the name and the image\<close>

definition isFreshDeployment :: "'h NanoInstall \<Rightarrow> string \<Rightarrow> ('h, bool) op" where
  "isFreshDeployment i dataDir =
     (let configPath = JoinPath [dataDir, ''exasol.conf''] in
      bind_op (wrap_op (''failed to inspect Nano configuration '' @ configPath) (ee_PathExists (ni_environment i) configPath))
        (\<lambda>present. ret (\<not> present)))"

definition prepareDataDir :: "'h NanoInstall \<Rightarrow> 'h StartConfig \<Rightarrow> ('h, bool) op" where
  "prepareDataDir i cfg =
     seq_op (wrap_op (''failed to create Nano data directory '' @ st_DataDir cfg) (ee_MkdirAll (ni_environment i) (st_DataDir cfg)))
       (seq_op (case st_PrepareDataDir cfg of None \<Rightarrow> ret () | Some prepare \<Rightarrow> prepare (st_DataDir cfg))
         (bind_op (isFreshDeployment i (st_DataDir cfg)) (\<lambda>fresh.
            if \<not> fresh then ret False else seq_op (removeStaleNanoTLSFiles i (st_DataDir cfg)) (ret True))))"

definition containerExists :: "'h NanoInstall \<Rightarrow> string \<Rightarrow> ('h, bool) op" where
  "containerExists i name = bind_op (inspectContainerStatus i name) (\<lambda>status. ret (ps_Exists status))"

fun adopt_loop :: "'h NanoInstall \<Rightarrow> string \<Rightarrow> string list \<Rightarrow> ('h, unit) op" where
  "adopt_loop i containerName [] = ret ()"
| "adopt_loop i containerName (raw # rest) =
     (let legacyName = TrimSpace raw in
      if legacyName = [] \<or> legacyName = containerName then adopt_loop i containerName rest
      else bind_op (containerExists i legacyName) (\<lambda>found.
        if \<not> found then adopt_loop i containerName rest
        else wrap_op (''failed to adopt legacy Nano container '' @ legacyName @ '' as '' @ containerName)
          (try_op (cc_Rename (ni_client i) legacyName containerName))))"

definition adoptLegacyContainerName :: "'h NanoInstall \<Rightarrow> string \<Rightarrow> string list \<Rightarrow> ('h, unit) op" where
  "adoptLegacyContainerName i containerName legacyNames =
     bind_op (containerExists i containerName) (\<lambda>found. if found then ret () else adopt_loop i containerName legacyNames)"

definition resolveImagePath :: "'h NanoInstall \<Rightarrow> ('h, RuntimePath) op" where
  "resolveImagePath i =
     (case ni_resolveImage i of
        None \<Rightarrow> raise (Plain ''nano runtime artifact resolver is required'')
      | Some resolve_image \<Rightarrow>
          bind_op resolve_image (\<lambda>path.
            if blank (rp_RuntimePath path) then raise (Plain ''nano runtime artifact path is required'') else ret path))"

section \<open>Creating the container\<close>

text \<open>Without support for the network the creation is tried again without it; the diagnostic is that of the last try.\<close>

definition nano_create :: "'h NanoInstall \<Rightarrow> ContainerSpec \<Rightarrow> 'h \<Rightarrow> 'h \<times> string \<times> go_error option" where
  "nano_create i spec h =
     (case cc_Create (ni_client i) spec h of
        (h1, diagnostic, err) \<Rightarrow>
          if serviceNetworkUnsupported err then cc_Create (ni_client i) (withoutServiceNetwork spec) h1
          else (h1, diagnostic, err))"

definition classifyPodmanStartBindFailure ::
  "'h NanoInstall \<Rightarrow> string \<Rightarrow> 'h StartConfig \<Rightarrow> go_error \<Rightarrow> string \<Rightarrow> ('h, go_error) op"
where
  "classifyPodmanStartBindFailure i containerName cfg failure diagnostic =
     (if st_ContainerDBBindHost cfg = [] then ret failure
      else catch_op
        (bind_op (inspectContainerStatus i containerName) (\<lambda>status.
           ret (if ps_Running status then failure
                else case ClassifyBindFailure ''db'' (st_ContainerDBPort cfg) (Some failure) diagnostic of
                    Some e \<Rightarrow> e | None \<Rightarrow> failure)))
        (\<lambda>_. ret failure))"

definition start_failed ::
  "'h NanoInstall \<Rightarrow> 'h StartConfig \<Rightarrow> 'h SidecarRuntime \<Rightarrow> string \<Rightarrow> bool \<Rightarrow> string \<Rightarrow> go_error \<Rightarrow> ('h, unit) op"
where
  "start_failed i cfg services containerName bootstrap diagnostic e =
     (let failed = Wrap (''failed to start Nano container '' @ containerName) e;
          failure = (if serviceNetworkUnsupported (Some e) then Joined [failed, newServiceNetworkUnsupportedError services] else failed)
      in bind_op (classifyPodmanStartBindFailure i containerName cfg failure diagnostic) (\<lambda>failure.
           if bootstrap then
             fail_after (RemoveBootstrapPassword i (st_BootstrapDir cfg))
               (\<lambda>r. case r of None \<Rightarrow> failure | Some e' \<Rightarrow> Joined [failure, e'])
           else raise failure))"

definition create_container ::
  "'h NanoInstall \<Rightarrow> 'h StartConfig \<Rightarrow> 'h SidecarRuntime \<Rightarrow> string \<Rightarrow> bool \<Rightarrow> ContainerSpec \<Rightarrow> ('h, unit) op"
where
  "create_container i cfg services containerName bootstrap spec h =
     (case nano_create i spec h of
        (h1, _, None) \<Rightarrow> (h1, Inr ())
      | (h1, diagnostic, Some e) \<Rightarrow> start_failed i cfg services containerName bootstrap diagnostic e h1)"

section \<open>The operations\<close>

definition nano_services :: "'h NanoInstall \<Rightarrow> string \<Rightarrow> (go_error, 'h SidecarRuntime) result" where
  "nano_services i owner =
     NewSidecarRuntime ((ni_services i)\<lparr>rt_client := ni_client i, rt_owner := owner,
       rt_EnvDir := \<lparr>rp_HostPath = [], rp_RuntimePath = []\<rparr>\<rparr>)"

text \<open>What a start does once the data is settled and no container runs.\<close>

definition launch :: "'h NanoInstall \<Rightarrow> 'h StartConfig \<Rightarrow> string \<Rightarrow> ('h, unit) op" where
  "launch i cfg containerName =
     bind_op (prepareDataDir i cfg) (\<lambda>freshDeployment.
     bind_op (wrap_op ''failed to resolve Nano image'' (resolveImagePath i)) (\<lambda>imagePath.
     bind_op (wrap_op (''failed to load Nano image '' @ rp_RuntimePath imagePath)
               (cc_LoadImage (ni_client i) (rp_RuntimePath imagePath))) (\<lambda>loadedImage.
     bind_op (materializeSLCs i (st_SLCs cfg)) (\<lambda>availableSLCs.
     seq_op (pruneUnreferencedSLCImages i (st_SLCs cfg))
     (seq_op (wrap_op ''failed to synchronize local runtime storage before starting Nano'' (ee_Sync (ni_environment i)))
       (case nano_services i containerName of
          Inl e \<Rightarrow> raise e
        | Inr services \<Rightarrow>
            seq_op (try_op (EnsureNetwork services))
              (let bootstrap = (freshDeployment \<and> st_InitialPassword cfg \<noteq> None) in
               seq_op (if bootstrap then writeBootstrapPassword i cfg else ret ())
                 (create_container i cfg services containerName bootstrap
                   (nanoRunSpec cfg \<lparr>ro_containerName = containerName, ro_loadedImage = loadedImage, ro_slcs = availableSLCs,
                      ro_fresh = freshDeployment, ro_bootstrap = bootstrap, ro_network = NetworkName services\<rparr>)))))))))"

text \<open>\<open>fuel\<close> is that of the search for a quarantine path.\<close>

definition settle :: "nat \<Rightarrow> 'h NanoInstall \<Rightarrow> 'h StartConfig \<Rightarrow> string \<Rightarrow> ('h, podmanContainerStatus) op" where
  "settle fuel i cfg containerName =
     seq_op (if st_LegacyContainerNames cfg \<noteq> [] then adoptLegacyContainerName i containerName (st_LegacyContainerNames cfg) else ret ())
       (bind_op (inspectContainerStatus i containerName) (\<lambda>status.
        bind_op (migrateOverlayDataIfNeeded i containerName (st_DataDir cfg) status) (\<lambda>migrated.
        let status = (if migrated then no_container else status) in
        bind_op (recoverIncompleteInitialCreate fuel i containerName (st_DataDir cfg) status) (\<lambda>recovered.
          ret (if recovered then no_container else status)))))"

definition nano_Start :: "nat \<Rightarrow> 'h NanoInstall \<Rightarrow> 'h StartConfig \<Rightarrow> ('h, unit) op" where
  "nano_Start fuel i cfg =
     (case validateStartConfig i cfg of
        Some e \<Rightarrow> raise e
      | None \<Rightarrow>
          (case nano_ContainerName i of
             Inl e \<Rightarrow> raise e
           | Inr containerName \<Rightarrow>
               seq_op (RemoveBootstrapPassword i (st_BootstrapDir cfg))
                 (bind_op (settle fuel i cfg containerName) (\<lambda>status.
                    if ps_Running status then ret () else launch i cfg containerName))))"

definition nano_Stop :: "'h NanoInstall \<Rightarrow> ('h, unit) op" where
  "nano_Stop i =
     (case nano_ContainerName i of
        Inl e \<Rightarrow> raise e
      | Inr name \<Rightarrow> wrap_op (''failed to remove Nano container '' @ name) (client_remove i name True))"

definition nano_Status :: "'h NanoInstall \<Rightarrow> ('h, bool) op" where
  "nano_Status i =
     (case nano_ContainerName i of
        Inl e \<Rightarrow> raise e
      | Inr name \<Rightarrow> bind_op (inspectContainerStatus i name) (\<lambda>status. ret (ps_Active status)))"

definition nano_Destroy :: "'h NanoInstall \<Rightarrow> ('h, unit) op" where
  "nano_Destroy i =
     seq_op (nano_Stop i)
       (case nano_ContainerName i of
          Inl e \<Rightarrow> raise e
        | Inr owner \<Rightarrow>
            (case nano_services i owner of Inl e \<Rightarrow> raise e | Inr services \<Rightarrow> try_op (sidecars_RemoveNetwork services)))"

definition dataCleanupImage :: string where
  "dataCleanupImage = ''docker.io/library/busybox:1.36.1@sha256:73aaf090f3d85aa34ee199857f03fa3a95c8ede2ffd4cc2cdb5b94e566b11662''"

definition dataCleanupMountPath :: string where "dataCleanupMountPath = ''/data''"

definition ClearDataDir :: "'h NanoInstall \<Rightarrow> string \<Rightarrow> ('h, unit) op" where
  "ClearDataDir i dataDir h =
     (case cc_RunToCompletion (ni_client i)
        \<lparr>cs_Name = [], cs_Image = dataCleanupImage,
         cs_Args = [''find'', dataCleanupMountPath, ''-mindepth'', ''1'', ''-delete''], cs_Labels = [], cs_Env = [],
         cs_EnvFile = [], cs_Network = [], cs_NetworkAlias = [], cs_Ports = [],
         cs_Mounts = [bind_mount dataDir dataCleanupMountPath], cs_Entrypoint = [], cs_WorkingDir = [], cs_Pull = PullUnset,
         cs_Restart = RestartUnset, cs_Replace = False, cs_SharedMemorySize = [], cs_ProcessLimit = [], cs_NestedSandbox = False,
         cs_SecurityOptions = [nanoSELinuxSecurityOpt], cs_Capabilities = []\<rparr> h of
        (h', _, None) \<Rightarrow> (h', Inr ())
      | (h', _, Some e) \<Rightarrow> (h', Inl e))"

section \<open>The version check\<close>

lemma clamp_bounds: "minimum \<le> maximum \<Longrightarrow> minimum \<le> clamp v minimum maximum \<and> clamp v minimum maximum \<le> maximum"
  by (simp add: clamp_def)

lemma version_check_bounds:
  assumes "vc_Enabled vc"
  obtains interval retry where "nanoVersionCheckInitArgs vc = [''VERSION_CHECK_ENABLED=1'', ''VERSION_CHECK_ENDPOINT='' @ vc_URL vc,
      ''VERSION_CHECK_INTERVAL_SEC='' @ Itoa interval, ''VERSION_CHECK_RETRY_INTERVAL_SEC='' @ Itoa retry,
      ''VERSION_CHECK_OPERATING_SYSTEM='' @ vc_OperatingSystem vc]"
    and "60 \<le> interval" "interval \<le> 604800" "60 \<le> retry" "retry \<le> 86400" "retry \<le> interval"
proof -
  define i where "i = clamp (if vc_IntervalSeconds vc = 0 then nanoVersionCheckDefault else vc_IntervalSeconds vc)
      nanoVersionCheckMin nanoVersionCheckMax"
  have "60 \<le> i" "i \<le> 604800"
    using clamp_bounds [of nanoVersionCheckMin nanoVersionCheckMax]
    by (simp_all add: i_def nanoVersionCheckMin_def nanoVersionCheckMax_def)
  moreover define r where "r = clamp i nanoVersionCheckMin nanoVersionCheckRetryMax"
  then have "r = min i 86400"
    using \<open>60 \<le> i\<close> by (simp add: clamp_def nanoVersionCheckMin_def nanoVersionCheckRetryMax_def)
  ultimately show thesis
    using assms by (intro that [of i r]) (simp_all only: nanoVersionCheckInitArgs_def i_def [symmetric] r_def [symmetric] Let_def
        not_True_eq_False if_False min_def, simp_all)
qed

section \<open>The password file\<close>

definition no_file :: "string \<Rightarrow> files \<Rightarrow> 'g \<Rightarrow> bool" where
  "no_file b fs e \<longleftrightarrow> (\<forall>c. (b, FFile c) \<notin> set fs)"

lemma op_inv_triple: "op_inv I m \<longleftrightarrow> triple I m (\<lambda>_. I) (\<lambda>_. I)"
proof
  assume t: "triple I m (\<lambda>_. I) (\<lambda>_. I)"
  have "I (fst (m g))" if "I g" for g
    using tripleD [OF t that] by (cases "m g"; cases "snd (m g)") auto
  then show "op_inv I m" by (simp add: op_inv_def)
qed (rule triple_inv)

lemma no_file_moved:
  assumes "\<not> within q b" and "no_file b fs e"
  shows "no_file b (move_tree p q fs) e"
  unfolding no_file_def
proof (intro allI notI)
  fix c assume "(b, FFile c) \<in> set (move_tree p q fs)"
  then obtain r where r: "(r, FFile c) \<in> set fs" "b = (if within p r then q @ drop (length p) r else r)"
    by (auto simp: move_tree_def)
  show False
  proof (cases "within p r")
    case True
    then have "drop (length p) r = [] \<or> (\<exists>u. drop (length p) r = slash # u)"
      by (auto simp: within_def is_below_def HasPrefix_iff)
    with r(2) True assms(1) show False by (auto simp: within_def is_below_def HasPrefix_iff)
  qed (use r assms(2) in \<open>auto simp: no_file_def\<close>)
qed

lemma Rename_no_file:
  assumes "\<not> within q b" and "no_file b fs e" and "os_Rename p q fs = Inr fs'"
  shows "no_file b fs' e"
proof (cases "p = q")
  case False
  have "no_file b (filter (\<lambda>(r, _). r \<noteq> q) fs) e" using assms(2) by (auto simp: no_file_def)
  with False assms(3) show ?thesis using no_file_moved [OF assms(1)] by (auto simp: os_Rename_def split: if_splits)
qed (use assms in \<open>auto simp: os_Rename_def split: if_splits\<close>)

lemma direct_no_file:
  "op_inv (on (no_file b)) (direct_PathExists ff p)"
  "op_inv (on (no_file b)) (direct_DirectoryHasEntries ff p)"
  "op_inv (on (no_file b)) (direct_MkdirAll ff p)"
  "op_inv (on (no_file b)) (direct_RemoveDir ff p)"
  "op_inv (on (no_file b)) (direct_RemoveAll ff p)"
  "op_inv (on (no_file b)) (direct_RemoveFile ff p)"
  "\<not> within q b \<Longrightarrow> op_inv (on (no_file b)) (direct_Rename ff p q)"
  "p \<noteq> b \<Longrightarrow> op_inv (on (no_file b)) (direct_WriteFileAtomically ff p d)"
proof -
  show "op_inv (on (no_file b)) (direct_PathExists ff p)" "op_inv (on (no_file b)) (direct_DirectoryHasEntries ff p)"
    unfolding op_inv_triple
    by (rule triple_post, rule PathExists_triple; simp add: on_def)
      (rule triple_post, rule DirectoryHasEntries_triple; simp add: on_def)
  have mk: "op_inv (on (no_file b)) (direct_MkdirAll ff p)" for p
    unfolding op_inv_triple
    by (rule triple_post, rule MkdirAll_triple) (fastforce simp: on_def no_file_def dirs_added_def)+
  then show "op_inv (on (no_file b)) (direct_MkdirAll ff p)" .
  show rd: "op_inv (on (no_file b)) (direct_RemoveDir ff p)"
    unfolding op_inv_triple by (rule triple_post, rule RemoveDir_triple) (auto simp: on_def no_file_def)
  then show "op_inv (on (no_file b)) (direct_RemoveFile ff p)"
    by (simp add: direct_RemoveFile_def direct_RemoveDir_def)
  show "op_inv (on (no_file b)) (direct_RemoveAll ff p)"
    by (auto simp: op_inv_def direct_RemoveAll_def on_def no_file_def tick_def remove_tree_def split: option.split)
  show "op_inv (on (no_file b)) (direct_Rename ff p q)" if "\<not> within q b"
    unfolding op_inv_triple
    by (rule triple_post, rule Rename_triple) (use Rename_no_file [OF that] in \<open>auto simp: on_def\<close>)
  show "op_inv (on (no_file b)) (direct_WriteFileAtomically ff p d)" if "p \<noteq> b"
    unfolding direct_WriteFileAtomically_def
    by (intro op_inv_seq mk) (use that in \<open>auto simp: op_inv_def files_op_def tick_def on_def no_file_def split: option.split\<close>)
qed

end
