(* ===== verification/Nano_Bootstrap.thy ===== *)
theory Nano_Bootstrap
  imports Nano_Install
begin

text \<open>
  The initial password of a database passes through a file in the bootstrap directory
  (\<^verbatim>\<open>src/internal/localinstall/podman_install.go\<close>). This theory shows what becomes of the file: a start that fails
  leaves none, or says in its error that the file could not be removed, whatever step failed; and a start without an
  initial password leaves none. The engine's commands are parameters that do not write to the bootstrap directory.
\<close>

section \<open>What does not write the password\<close>

definition client_keeps_out :: "string \<Rightarrow> 'g host ContainerRuntime \<Rightarrow> bool" where
  "client_keeps_out b c \<longleftrightarrow>
     (\<forall>x. op_inv (on (no_file b)) (cc_List c x)) \<and> (\<forall>n. op_inv (on (no_file b)) (try_op (cc_Stop c n)))
     \<and> (\<forall>n f. op_inv (on (no_file b)) (try_op (cc_Remove c n f))) \<and> (\<forall>n m. op_inv (on (no_file b)) (try_op (cc_Rename c n m)))
     \<and> (\<forall>n. op_inv (on (no_file b)) (cc_Mounts c n))
     \<and> (\<forall>n s d. \<not> within d b \<longrightarrow> op_inv (on (no_file b)) (try_op (cc_CopyFrom c n s d)))
     \<and> (\<forall>p. op_inv (on (no_file b)) (cc_LoadImage c p)) \<and> (\<forall>x. op_inv (on (no_file b)) (cc_ImageExists c x))
     \<and> (\<forall>x. op_inv (on (no_file b)) (try_op (cc_PullImage c x)))
     \<and> (\<forall>p x ls. op_inv (on (no_file b)) (try_op (cc_ImportImage c p x ls)))
     \<and> (\<forall>ls. op_inv (on (no_file b)) (cc_Images c ls)) \<and> (\<forall>x. op_inv (on (no_file b)) (try_op (cc_RemoveImage c x)))
     \<and> (\<forall>n. op_inv (on (no_file b)) (try_op (cc_CreateNetwork c n))) \<and> (\<forall>n. op_inv (on (no_file b)) (cc_Network c n))
     \<and> (\<forall>s h. on (no_file b) h \<longrightarrow> on (no_file b) (fst (cc_Create c s h)))"

definition config_keeps_out :: "string \<Rightarrow> 'g host NanoInstall \<Rightarrow> 'g host StartConfig \<Rightarrow> bool" where
  "config_keeps_out b i cfg \<longleftrightarrow>
     list_all (op_inv (on (no_file b))) (case ni_resolveImage i of None \<Rightarrow> [] | Some m \<Rightarrow> [m])
     \<and> (\<forall>d. list_all (\<lambda>m. op_inv (on (no_file b)) (m d)) (case st_PrepareDataDir cfg of None \<Rightarrow> [] | Some m \<Rightarrow> [m]))
     \<and> list_all (op_inv (on (no_file b))) (case st_InitialPassword cfg of None \<Rightarrow> [] | Some m \<Rightarrow> [m])"

text \<open>The places a start writes to are not on the way to the password file.\<close>

definition migration_dir :: "host_faults \<Rightarrow> string \<Rightarrow> nat \<Rightarrow> string" where
  "migration_dir ff d k = JoinPath [Dir d, butlast (''.'' @ Base d @ ''.overlay-migration-*'') @ hf_random ff k]"

definition kept_apart :: "host_faults \<Rightarrow> string \<Rightarrow> 'g host NanoInstall \<Rightarrow> 'g host StartConfig \<Rightarrow> bool" where
  "kept_apart ff b i cfg \<longleftrightarrow>
     \<not> within (st_DataDir cfg) b \<and> \<not> HasPrefix b (quarantine_base i (st_DataDir cfg))
     \<and> (\<forall>k. \<not> within (migration_dir ff (st_DataDir cfg) k) b) \<and> rp_RuntimePath (ni_slcStatusPath i) \<noteq> b"

lemma op_inv_bind_post:
  "triple I m (\<lambda>x g. I g \<and> P x) (\<lambda>_. I) \<Longrightarrow> (\<And>x. P x \<Longrightarrow> op_inv I (f x)) \<Longrightarrow> op_inv I (bind_op m f)"
  unfolding op_inv_triple by (rule triple_bind, assumption) (fastforce simp: triple_def)

lemma direct_env_writes:
  "ni_environment i = DirectExecutionEnvironment ff \<Longrightarrow> ee_WriteFileAtomically (ni_environment i) = direct_WriteFileAtomically ff"
  "ni_environment i = DirectExecutionEnvironment ff \<Longrightarrow> op_inv (on P) (ee_Sync (ni_environment i))"
  by (auto simp: DirectExecutionEnvironment_def op_inv_def files_op_def on_def tick_def split: option.split)

lemma client_keeps_outD:
  assumes "client_keeps_out b (ni_client i)"
  shows "op_inv (on (no_file b)) (cc_List (ni_client i) x)" "op_inv (on (no_file b)) (client_stop i n)"
    "op_inv (on (no_file b)) (client_remove i n f)" "op_inv (on (no_file b)) (try_op (cc_Rename (ni_client i) n m))"
    "op_inv (on (no_file b)) (cc_Mounts (ni_client i) n)"
    "\<not> within d b \<Longrightarrow> op_inv (on (no_file b)) (try_op (cc_CopyFrom (ni_client i) n s d))"
    "op_inv (on (no_file b)) (cc_LoadImage (ni_client i) p)" "op_inv (on (no_file b)) (cc_ImageExists (ni_client i) r)"
    "op_inv (on (no_file b)) (try_op (cc_PullImage (ni_client i) r))"
    "op_inv (on (no_file b)) (try_op (cc_ImportImage (ni_client i) p r ls))"
    "op_inv (on (no_file b)) (cc_Images (ni_client i) ls)" "op_inv (on (no_file b)) (try_op (cc_RemoveImage (ni_client i) r))"
    "op_inv (on (no_file b)) (try_op (cc_CreateNetwork (ni_client i) w))" "op_inv (on (no_file b)) (cc_Network (ni_client i) n)"
    "on (no_file b) h \<Longrightarrow> on (no_file b) (fst (cc_Create (ni_client i) spec h))"
  using assms unfolding client_keeps_out_def client_stop_def client_remove_def by simp_all

lemma config_keeps_outD:
  assumes "config_keeps_out b i cfg"
  shows "ni_resolveImage i = Some m \<Longrightarrow> op_inv (on (no_file b)) m"
    "st_PrepareDataDir cfg = Some p \<Longrightarrow> op_inv (on (no_file b)) (p d)"
    "st_InitialPassword cfg = Some w \<Longrightarrow> op_inv (on (no_file b)) w"
  using assms by (auto simp: config_keeps_out_def)

section \<open>Settling the data\<close>

lemma inspect_keeps_out:
  "client_keeps_out b (ni_client i) \<Longrightarrow> op_inv (on (no_file b)) (inspectContainerStatus i name)"
  unfolding inspectContainerStatus_def by (intro op_invs client_keeps_outD)

lemma adopt_keeps_out:
  assumes "client_keeps_out b (ni_client i)"
  shows "op_inv (on (no_file b)) (adoptLegacyContainerName i name legacy)"
proof -
  have exists: "op_inv (on (no_file b)) (containerExists i n)" for n
    unfolding containerExists_def by (intro op_invs inspect_keeps_out assms)
  have "op_inv (on (no_file b)) (adopt_loop i name legacy)"
    by (induction legacy) (auto simp: Let_def intro!: op_invs exists client_keeps_outD assms)
  then show ?thesis
    unfolding adoptLegacyContainerName_def by (intro op_invs exists)
qed

lemma recover_keeps_out:
  assumes env: "ni_environment i = DirectExecutionEnvironment ff" and cl: "client_keeps_out b (ni_client i)"
    and apart: "\<not> within d b" "\<not> HasPrefix b (quarantine_base i d)"
  shows "op_inv (on (no_file b)) (recoverIncompleteInitialCreate fuel i name d status)"
proof -
  have q: "op_inv (on (no_file b)) (quarantine_data fuel i d)"
    unfolding quarantine_data_def nextQuarantinePath_def direct_env [OF env]
  proof (rule op_inv_bind_post [where P = "\<lambda>q. HasPrefix q (quarantine_base i d)"])
    show "triple (on (no_file b)) (quarantine_search i (quarantine_base i d) 0 fuel)
        (\<lambda>q g. on (no_file b) g \<and> HasPrefix q (quarantine_base i d)) (\<lambda>_. on (no_file b))"
      by (rule triple_post, rule quarantine_search_triple [OF env]) (auto simp: on_def)
    fix q assume "HasPrefix q (quarantine_base i d)"
    then have "\<not> within q b" using apart(2) by (auto simp: within_def is_below_def HasPrefix_iff)
    then show "op_inv (on (no_file b))
        (seq_op (wrap_op (''failed to quarantine incomplete Nano data at '' @ q) (direct_Rename ff d q))
          (wrap_op (''failed to recreate Nano data directory '' @ d) (direct_MkdirAll ff d)))"
      by (intro op_invs direct_no_file)
  qed
  show ?thesis
    unfolding recoverIncompleteInitialCreate_def Let_def direct_env [OF env]
    by (intro op_invs q direct_no_file client_keeps_outD cl)
qed

lemma migrate_keeps_out:
  assumes env: "ni_environment i = DirectExecutionEnvironment ff" and cl: "client_keeps_out b (ni_client i)"
    and apart: "\<not> within d b" "\<And>k. \<not> within (migration_dir ff d k) b"
  shows "op_inv (on (no_file b)) (migrateOverlayDataIfNeeded i name d status)"
proof -
  have temp: "triple (on (no_file b)) (wrap_op m (direct_MkdirTemp ff (Dir d) (''.'' @ Base d @ ''.overlay-migration-*'')))
      (\<lambda>s g. on (no_file b) g \<and> \<not> within s b) (\<lambda>_. on (no_file b))" for m
    using apart(2)
    by (auto simp: triple_def wrap_op_def direct_MkdirTemp_def Let_def files_op_def on_def no_file_def tick_def os_Mkdir_def
        migration_dir_def split: option.split)
  have copy: "op_inv (on (no_file b)) (migrate_copy i name d s)" if "\<not> within s b" for s
    unfolding migrate_copy_def direct_env [OF env] by (intro op_invs direct_no_file client_keeps_outD cl that)
  have inst: "op_inv (on (no_file b)) (migrate_install i name d s)" if "\<not> within s b" for s
    unfolding migrate_install_def installOverlayDataAtomically_def directoryHasEntries_def direct_env [OF env]
    by (intro op_invs direct_no_file client_keeps_outD cl apart)
  show ?thesis
    unfolding migrateOverlayDataIfNeeded_def containerHasPersistentExaMount_def directoryHasEntries_def direct_env [OF env]
    by (intro op_inv_bind_post [OF temp] op_invs direct_no_file client_keeps_outD cl copy inst)
qed

section \<open>Up to the container\<close>

lemma slcs_keep_out:
  assumes env: "ni_environment i = DirectExecutionEnvironment ff" and cl: "client_keeps_out b (ni_client i)"
    and apart: "rp_RuntimePath (ni_slcStatusPath i) \<noteq> b"
  shows "op_inv (on (no_file b)) (materializeSLCs i slcs)" "op_inv (on (no_file b)) (pruneUnreferencedSLCImages i slcs)"
proof -
  have one: "op_inv (on (no_file b)) (materializeSLC i slc)" for slc
    unfolding materializeSLC_def nano_imageExists_def direct_env [OF env]
    by (intro op_invs direct_no_file client_keeps_outD cl)
  have "op_inv (on (no_file b)) (materialize_loop i configs)" for configs
    by (induction configs) (auto intro!: op_invs one split: prod.split)
  then show "op_inv (on (no_file b)) (materializeSLCs i slcs)"
    unfolding materializeSLCs_def writeSLCStatusAtomically_def direct_env [OF env] direct_env_writes [OF env]
    by (auto intro!: op_invs direct_no_file apart split: prod.split option.split sum.split)
  have "op_inv (on (no_file b)) (remove_images i desired xs)" for desired xs
    by (induction xs) (auto intro!: op_invs client_keeps_outD cl)
  then show "op_inv (on (no_file b)) (pruneUnreferencedSLCImages i slcs)"
    unfolding pruneUnreferencedSLCImages_def Let_def
    by (auto intro!: op_invs op_inv_listed client_keeps_outD cl split: option.split)
qed

lemma prepare_keeps_out:
  assumes env: "ni_environment i = DirectExecutionEnvironment ff" and cfg: "config_keeps_out b i cfg"
  shows "op_inv (on (no_file b)) (prepareDataDir i cfg)" "op_inv (on (no_file b)) (resolveImagePath i)"
proof -
  have tls: "op_inv (on (no_file b)) (remove_tls i d fs)" for d fs
    by (induction fs) (auto simp: direct_env [OF env] intro!: op_invs direct_no_file)
  have hook: "op_inv (on (no_file b)) (case st_PrepareDataDir cfg of None \<Rightarrow> ret () | Some prepare \<Rightarrow> prepare d)" for d
    by (cases "st_PrepareDataDir cfg") (auto intro: op_inv_ret config_keeps_outD [OF cfg])
  show "op_inv (on (no_file b)) (prepareDataDir i cfg)"
    unfolding prepareDataDir_def isFreshDeployment_def Let_def removeStaleNanoTLSFiles_def direct_env [OF env]
    by (intro op_inv_seq op_inv_bind op_inv_wrap op_inv_if op_inv_ret direct_no_file hook tls)
  show "op_inv (on (no_file b)) (resolveImagePath i)"
    unfolding resolveImagePath_def
    by (cases "ni_resolveImage i") (simp_all add: op_inv_raise op_inv_bind op_inv_if op_inv_ret config_keeps_outD [OF cfg])
qed

lemma EnsureNetwork_keeps_out:
  fixes i :: "'a host NanoInstall"
  assumes "client_keeps_out b (ni_client i)" and "rt_client rt = ni_client i"
  shows "op_inv (on (no_file b)) (try_op (EnsureNetwork rt))"
proof (rule op_inv_try)
  fix g :: "'a host" assume g: "on (no_file b) g"
  let ?spec = "\<lparr>ns_Name = NetworkName rt, ns_Labels = [(sidecarOwnerLabel, rt_owner rt)], ns_DNS = True\<rparr>"
  obtain g1 e where c: "cc_CreateNetwork (ni_client i) ?spec g = (g1, e)" by (cases "cc_CreateNetwork (ni_client i) ?spec g")
  have "op_inv (on (no_file b)) (try_op (cc_CreateNetwork (ni_client i) ?spec))" by (rule client_keeps_outD(13) [OF assms(1)])
  then have g1: "on (no_file b) g1" using c g by (auto simp: op_inv_def try_op_def split: option.splits dest!: spec [of _ g])
  obtain g2 r where n: "cc_Network (ni_client i) (NetworkName rt) g1 = (g2, r)"
    by (cases "cc_Network (ni_client i) (NetworkName rt) g1")
  then have "on (no_file b) g2" using client_keeps_outD(14) [OF assms(1)] g1 by (rule op_invD [rotated 2])
  with g1 c n show "on (no_file b) (fst (EnsureNetwork rt g))"
    by (auto simp: EnsureNetwork_def assms(2) Let_def split: option.split sum.split)
qed

section \<open>The container and the file\<close>

text \<open>The error tells that the file could not be removed.\<close>

definition tells_removal :: "go_error \<Rightarrow> bool" where
  "tells_removal e \<longleftrightarrow>
     (case e of Joined es \<Rightarrow> list_ex (\<lambda>x. case x of Wrap m _ \<Rightarrow> m = removal_message | _ \<Rightarrow> False) es
      | Wrap m _ \<Rightarrow> m = removal_message | _ \<Rightarrow> False)"

lemma removal_triple:
  assumes env: "ni_environment i = DirectExecutionEnvironment ff" and "\<not> blank d" and b: "b = bootstrap_path d"
  shows "triple (\<lambda>_. True) (RemoveBootstrapPassword i d) (\<lambda>_. on (no_file b)) (\<lambda>e _. \<exists>x. e = Wrap removal_message x)"
proof -
  have "triple (on (\<lambda>_ _. True)) (direct_RemoveDir ff b) (\<lambda>_. on (no_file b)) (\<lambda>_ _. True)"
    by (rule triple_post, rule RemoveDir_triple) (auto simp: on_def no_file_def)
  then have "triple (\<lambda>_. True) (direct_RemoveFile ff b) (\<lambda>_. on (no_file b)) (\<lambda>_ _. True)"
    by (simp add: direct_RemoveFile_def direct_RemoveDir_def triple_def on_def)
  then show ?thesis
    using assms(2) unfolding RemoveBootstrapPassword_def direct_env [OF env] b
    by (auto simp: blank_def triple_def wrap_op_def split: prod.splits sum.splits)
qed

lemma start_failed_triple:
  assumes env: "ni_environment i = DirectExecutionEnvironment ff" and cl: "client_keeps_out b (ni_client i)"
    and d: "\<not> blank (st_BootstrapDir cfg)" and b: "b = bootstrap_path (st_BootstrapDir cfg)"
  shows "triple (\<lambda>h. if bootstrap then True else on (no_file b) h) (start_failed i cfg services name bootstrap diagnostic e)
    (\<lambda>_ _. False) (\<lambda>e h. on (no_file b) h \<or> tells_removal e)"
proof -
  let ?I = "\<lambda>h. if bootstrap then True else on (no_file b) h"
  have "op_inv (on (no_file b)) (classifyPodmanStartBindFailure i name cfg f diagnostic)" for f
    unfolding classifyPodmanStartBindFailure_def by (intro op_invs inspect_keeps_out cl)
  then have "op_inv ?I (classifyPodmanStartBindFailure i name cfg f diagnostic)" for f
    by (cases bootstrap) (simp_all add: op_inv_def)
  note kept = this
  have "snd (classifyPodmanStartBindFailure i name cfg f diagnostic h) \<noteq> Inl x" for f h x
    by (auto simp: classifyPodmanStartBindFailure_def catch_op_def bind_op_def ret_def split: prod.splits sum.splits)
  note no_error = this
  have classify: "triple ?I (classifyPodmanStartBindFailure i name cfg f diagnostic) (\<lambda>_. ?I) (\<lambda>_ _. False)" for f
  proof (intro tripleI)
    fix g g' x assume "?I g" "classifyPodmanStartBindFailure i name cfg f diagnostic g = (g', Inr x)"
    then show "?I g'" by (rule op_invD [OF kept])
  qed (use no_error in \<open>metis snd_conv\<close>)
  have removal: "triple (\<lambda>_. True) (RemoveBootstrapPassword i (st_BootstrapDir cfg))
      (\<lambda>_ h. on (no_file b) h) (\<lambda>e h. \<exists>x. e = Wrap removal_message x)"
    by (rule removal_triple [OF env d b])
  have "triple ?I (if bootstrap then
        fail_after (RemoveBootstrapPassword i (st_BootstrapDir cfg)) (\<lambda>r. case r of None \<Rightarrow> f | Some e' \<Rightarrow> Joined [f, e'])
      else raise f) (\<lambda>_ _. False) (\<lambda>e h. on (no_file b) h \<or> tells_removal e)" for f
  proof (cases bootstrap)
    case True
    have "tells_removal (Joined [f, Wrap removal_message x])" for x by (simp add: tells_removal_def)
    then show ?thesis
      using True removal by (auto intro!: triple_fail_after elim!: triple_post)
  qed (simp add: triple_raise)
  then show ?thesis
    unfolding start_failed_def Let_def
    by (intro triple_bind [where R = "\<lambda>_. ?I"] triple_post [OF classify]) auto
qed

lemma triple_after:
  "op_inv I m \<Longrightarrow> (\<And>e h. I h \<Longrightarrow> F e h) \<Longrightarrow> (\<And>x. triple I (f x) Q F) \<Longrightarrow> triple I (bind_op m f) Q F"
  "op_inv I m \<Longrightarrow> (\<And>e h. I h \<Longrightarrow> F e h) \<Longrightarrow> triple I k Q F \<Longrightarrow> triple I (seq_op m k) Q F"
  unfolding seq_op_def by (rule triple_bind, rule triple_post, erule triple_inv, assumption, simp, simp)+

lemma create_triple:
  fixes i :: "'a host NanoInstall"
  assumes env: "ni_environment i = DirectExecutionEnvironment ff" and cl: "client_keeps_out b (ni_client i)"
    and d: "\<not> blank (st_BootstrapDir cfg)" and b: "b = bootstrap_path (st_BootstrapDir cfg)"
  shows "triple (\<lambda>h. if bootstrap then True else on (no_file b) h) (create_container i cfg services name bootstrap spec)
    (\<lambda>_ h. if bootstrap then True else on (no_file b) h) (\<lambda>e h. on (no_file b) h \<or> tells_removal e)"
  unfolding triple_def
proof (intro allI impI)
  let ?I = "\<lambda>h. if bootstrap then True else on (no_file b) h"
  fix g :: "'a host" assume g: "?I g"
  obtain h diagnostic err where c: "nano_create i spec g = (h, diagnostic, err)" by (cases "nano_create i spec g")
  have "?I h"
    using c g client_keeps_outD(15) [OF cl]
    by (auto simp: nano_create_def split: prod.splits if_splits) (metis fst_conv)+
  then show "case create_container i cfg services name bootstrap spec g of
      (g', Inl e) \<Rightarrow> on (no_file b) g' \<or> tells_removal e | (g', Inr x) \<Rightarrow> ?I g'"
    using c start_failed_triple [OF env cl d b, of bootstrap services name diagnostic]
    by (cases err) (fastforce simp: create_container_def triple_def split: prod.splits sum.splits)+
qed

lemma write_triple:
  assumes env: "ni_environment i = DirectExecutionEnvironment ff" and cfg: "config_keeps_out b i cfg"
  shows "triple (on (no_file b)) (writeBootstrapPassword i cfg) (\<lambda>_ _. True) (\<lambda>_. on (no_file b))"
proof -
  have put: "triple (on (no_file b)) (direct_WriteFileAtomically ff p d) (\<lambda>_ _. True) (\<lambda>_. on (no_file b))" for p d
  proof -
    have "triple (on (no_file b)) (files_op ff f) (\<lambda>_ _. True) (\<lambda>_. on (no_file b))"
      if "\<And>fs fs' e. f fs = (fs', Inl e) \<Longrightarrow> fs' = fs" for f :: "files \<Rightarrow> files \<times> (go_error, unit) result"
      using that by (fastforce simp: triple_def files_op_def on_def tick_def split: option.split prod.split sum.split)
    note tail = this
    show ?thesis
      unfolding direct_WriteFileAtomically_def
      by (rule triple_seq [OF triple_inv [OF direct_no_file(3)]], rule tail) (auto split: if_splits)
  qed
  show ?thesis
  proof (cases "st_InitialPassword cfg")
    case (Some ask)
    show ?thesis
      unfolding writeBootstrapPassword_def Some option.case direct_env_writes [OF env]
      by (intro triple_after(1) op_inv_wrap config_keeps_outD(3) [OF cfg Some] triple_if triple_raise triple_wrap put)
  qed (simp add: writeBootstrapPassword_def triple_raise)
qed

lemma launch_triple:
  assumes env: "ni_environment i = DirectExecutionEnvironment ff" and cl: "client_keeps_out b (ni_client i)"
    and cfg: "config_keeps_out b i cfg" and apart: "rp_RuntimePath (ni_slcStatusPath i) \<noteq> b"
    and d: "\<not> blank (st_BootstrapDir cfg)" and b: "b = bootstrap_path (st_BootstrapDir cfg)"
  shows "triple (on (no_file b)) (launch i cfg name)
    (\<lambda>_ h. if st_InitialPassword cfg = None then on (no_file b) h else True) (\<lambda>e h. on (no_file b) h \<or> tells_removal e)"
proof -
  let ?F = "\<lambda>e h. on (no_file b) h \<or> tells_removal e"
  have last: "triple (on (no_file b))
      (seq_op (if bootstrap then writeBootstrapPassword i cfg else ret ()) (create_container i cfg services name bootstrap spec))
      (\<lambda>_ h. if st_InitialPassword cfg = None then on (no_file b) h else True) ?F"
    if "bootstrap \<Longrightarrow> st_InitialPassword cfg \<noteq> None" for bootstrap services spec
  proof (rule triple_seq [where R = "\<lambda>h. if bootstrap then True else on (no_file b) h"])
    show "triple (on (no_file b)) (if bootstrap then writeBootstrapPassword i cfg else ret ())
        (\<lambda>_ h. if bootstrap then True else on (no_file b) h) ?F"
      by (cases bootstrap) (auto intro!: triple_ret triple_post [OF write_triple [OF env cfg]])
    show "triple (\<lambda>h. if bootstrap then True else on (no_file b) h) (create_container i cfg services name bootstrap spec)
        (\<lambda>_ h. if st_InitialPassword cfg = None then on (no_file b) h else True) ?F"
      by (rule triple_post, rule create_triple [OF env cl d b]) (use that in \<open>auto split: if_splits\<close>)
  qed
  show ?thesis
    unfolding launch_def Let_def
  proof (rule triple_after, rule prepare_keeps_out [OF env cfg], simp, rule triple_after, rule op_inv_wrap,
      rule prepare_keeps_out [OF env cfg], simp, rule triple_after, rule op_inv_wrap, rule client_keeps_outD [OF cl], simp,
      rule triple_after, rule slcs_keep_out [OF env cl apart], simp, rule triple_after, rule slcs_keep_out [OF env cl apart], simp,
      rule triple_after, rule op_inv_wrap, rule direct_env_writes [OF env], simp, goal_cases)
    case (1 fresh path loaded slcs)
    show ?case
    proof (cases "nano_services i name")
      case (Inr services)
      then have "rt_client services = ni_client i"
        by (auto simp: nano_services_def NewSidecarRuntime_def split: if_splits)
      then show ?thesis
        unfolding Inr sum.case
        by - (rule triple_after(2), rule EnsureNetwork_keeps_out [OF cl], assumption, simp, rule last, simp)
    qed (simp add: triple_raise)
  qed
qed

section \<open>A failed start\<close>

lemma settle_keeps_out:
  assumes env: "ni_environment i = DirectExecutionEnvironment ff" and cl: "client_keeps_out b (ni_client i)"
    and apart: "kept_apart ff b i cfg"
  shows "op_inv (on (no_file b)) (settle fuel i cfg name)"
  using apart unfolding settle_def Let_def kept_apart_def
  by (intro op_invs adopt_keeps_out inspect_keeps_out recover_keeps_out [OF env] migrate_keeps_out [OF env] cl) blast+


text \<open>An engine that has the image and a network, and refuses to create the container.\<close>

definition full_client :: "string list host ContainerRuntime" where
  "full_client = null_client
     \<lparr>cc_LoadImage := (\<lambda>_. ret ''nano''), cc_CreateNetwork := (\<lambda>_ h. (h, None)),
      cc_Network := (\<lambda>n. ret (Some \<lparr>cn_Name = n, cn_Bridge = True, cn_DNSEnabled = True,
        cn_Labels = [(sidecarOwnerLabel, ''exasol-db-d'')]\<rparr>))\<rparr>"

definition boot_install :: "string list host NanoInstall" where
  "boot_install = demo_install
     \<lparr>ni_client := full_client, ni_resolveImage := Some (ret \<lparr>rp_HostPath = ''/i'', rp_RuntimePath = ''/i''\<rparr>)\<rparr>"

definition boot_cfg :: "string list host StartConfig" where
  "boot_cfg = \<lparr>st_ContainerDBPort = 8563, st_ContainerDBBindHost = ''127.0.0.1'', st_DataDir = ''/d/exa'', st_InitParams = [],
     st_VersionCheck = \<lparr>vc_Enabled = False, vc_URL = [], vc_Identity = [], vc_OperatingSystem = [], vc_IntervalSeconds = 0\<rparr>,
     st_SLCs = None, st_LegacyContainerNames = [''old''], st_BootstrapDir = ''/boot'',
     st_InitialPassword = Some (ret ''secret''), st_PrepareDataDir = None\<rparr>"

definition boot_host :: "string list host" where
  "boot_host = \<lparr>ho_files = [(''/d'', FDir), (''/boot'', FDir), (''/boot/sys_password'', FFile ''old''), (''/'', FDir)],
     ho_engine = [], ho_clock = 0\<rparr>"

lemma boot_refused: "case snd (nano_Start 3 boot_install boot_cfg boot_host) of Inl e \<Rightarrow> \<not> tells_removal e | Inr _ \<Rightarrow> False"
  by code_simp

lemma boot_keeps_out: "client_keeps_out b full_client" "config_keeps_out b boot_install boot_cfg"
  by (simp_all add: client_keeps_out_def config_keeps_out_def full_client_def null_client_def refused_def op_inv_def try_op_def
      ret_def raise_def boot_install_def boot_cfg_def)


end
