(* ===== verification/Readiness.thy ===== *)
theory Readiness
  imports Nano_Slc Deployment_Info
begin

text \<open>
  Waiting for a local database: the polling of \<^verbatim>\<open>src/internal/deploy/shared.go\<close>, the probes of \<^verbatim>\<open>ready.go\<close> and the
  diagnosis of \<^verbatim>\<open>local_reachability.go\<close>, over the runtime interface of \<^verbatim>\<open>src/internal/localruntime/runtime.go\<close>. Time is
  counted in nanoseconds. A condition that is polled reports how long it took; polling has no bound of its own in the
  code and is a partial function here, so that it returns is a theorem.
\<close>

section \<open>Polling\<close>

definition second :: nat where "second = 1000000000"

definition DeadlineExceeded :: go_error where "DeadlineExceeded = Sentinel ''context.DeadlineExceeded''"

text \<open>An attempt: its duration, then a panic, or whether the condition is met and the error.\<close>

type_synonym 'g attempt = "'g \<Rightarrow> 'g \<times> nat \<times> (bool \<times> go_error option) option"

datatype poll_end = Panicked | Returned "go_error option"

definition nextBackoff :: "nat \<Rightarrow> nat \<Rightarrow> nat" where
  "nextBackoff backoff maxBackoff = (if maxBackoff \<le> backoff then backoff else min (backoff * 2) maxBackoff)"

text \<open>Whether the context ends before the pause is over; when both end at once the code may go either way, and the model
  lets the context win.\<close>

definition awaitNextPollAttempt :: "nat option \<Rightarrow> nat \<Rightarrow> nat \<Rightarrow> go_error option \<Rightarrow> nat \<times> go_error option" where
  "awaitNextPollAttempt deadline now backoff lastErr =
     (case deadline of
        None \<Rightarrow> (now + backoff * second, None)
      | Some t \<Rightarrow>
          if t \<le> now + backoff * second
          then (max now t, Some (case lastErr of None \<Rightarrow> DeadlineExceeded | Some e \<Rightarrow> e))
          else (now + backoff * second, None))"

partial_function (option) poll_loop ::
  "'g attempt \<Rightarrow> nat option \<Rightarrow> nat \<Rightarrow> nat \<Rightarrow> go_error option \<Rightarrow> nat \<Rightarrow> 'g \<Rightarrow> ('g \<times> nat \<times> poll_end) option"
where
  "poll_loop condition deadline maxBackoff backoff lastErr now g =
     (case condition g of
        (g', d, None) \<Rightarrow> Some (g', now + d, Panicked)
      | (g', d, Some (met, err)) \<Rightarrow>
          if met then Some (g', now + d, Returned None)
          else (case awaitNextPollAttempt deadline (now + d) backoff (if err \<noteq> None then err else lastErr) of
              (now', Some e) \<Rightarrow> Some (g', now', Returned (Some e))
            | (now', None) \<Rightarrow>
                poll_loop condition deadline maxBackoff (nextBackoff backoff maxBackoff) (if err \<noteq> None then err else lastErr) now' g'))"

definition PollWithBackoff ::
  "'g attempt \<Rightarrow> nat option \<Rightarrow> nat \<Rightarrow> nat \<Rightarrow> nat \<Rightarrow> 'g \<Rightarrow> ('g \<times> nat \<times> poll_end) option"
where
  "PollWithBackoff condition deadline initialBackoff maxBackoff now g =
     poll_loop condition deadline maxBackoff initialBackoff None now g"

definition StartedInitialBackoff :: nat where "StartedInitialBackoff = 10"
definition StartedMaxBackoff :: nat where "StartedMaxBackoff = 60"
definition LocalDatabaseStartedInitialBackoff :: nat where "LocalDatabaseStartedInitialBackoff = 1"
definition LocalDatabaseStartedMaxBackoff :: nat where "LocalDatabaseStartedMaxBackoff = 2"
definition LocalDatabaseStartedDefaultTimeoutSeconds :: int where "LocalDatabaseStartedDefaultTimeoutSeconds = 30"

section \<open>Asking the database\<close>

text \<open>The driver: a connection is made and used, and the text of a driver error in a chain, when there is one.\<close>

record 'h db_driver =
  dr_Resolve :: "('h, ConnectionInfo) op"
  dr_New :: "ConnectionInfo \<Rightarrow> string \<Rightarrow> string \<Rightarrow> ('h, unit) op"
  dr_Connect :: "('h, unit) op"
  dr_Close :: "('h, unit) op"
  dr_Text :: "go_error \<Rightarrow> string option"
  dr_Duration :: "'h \<Rightarrow> nat"

definition isAuthenticationFailure :: "'h db_driver \<Rightarrow> go_error \<Rightarrow> bool" where
  "isAuthenticationFailure dr e \<longleftrightarrow>
     (case errors_As (dr_Text dr) e of None \<Rightarrow> False | Some t \<Rightarrow> Contains t ''08004'')"

text \<open>A login that must be refused; \<^const>\<open>None\<close> is the panic when it is not.\<close>

definition verifyDatabaseConnection :: "'h db_driver \<Rightarrow> 'h \<Rightarrow> 'h \<times> go_error option option" where
  "verifyDatabaseConnection dr h =
     (let refused = (\<lambda>e. Some (if isAuthenticationFailure dr e then None else Some e)) in
      case bind_op (dr_Resolve dr) (\<lambda>info. dr_New dr info ''invalid username'' ''invalid password'') h of
        (h1, Inl e) \<Rightarrow> (h1, refused e)
      | (h1, Inr _) \<Rightarrow>
          (case dr_Connect dr h1 of (h2, Inl e) \<Rightarrow> (h2, refused e) | (h2, Inr _) \<Rightarrow> (h2, None)))"

definition waitForDatabaseState :: "'h db_driver \<Rightarrow> bool \<Rightarrow> nat option \<Rightarrow> nat \<Rightarrow> nat \<Rightarrow> nat \<Rightarrow> 'h \<Rightarrow> ('h \<times> nat \<times> poll_end) option" where
  "waitForDatabaseState dr readyMode deadline initialBackoff maxBackoff =
     PollWithBackoff
       (\<lambda>h. case verifyDatabaseConnection dr h of
          (h', None) \<Rightarrow> (h', dr_Duration dr h, None)
        | (h', Some err) \<Rightarrow>
            (h', dr_Duration dr h, Some ((readyMode \<and> err = None) \<or> (\<not> readyMode \<and> err \<noteq> None), err)))
       deadline initialBackoff maxBackoff"

definition waitForDatabaseStartedWithBackoff :: "'h db_driver \<Rightarrow> nat option \<Rightarrow> nat \<Rightarrow> nat \<Rightarrow> nat \<Rightarrow> 'h \<Rightarrow> ('h \<times> nat \<times> poll_end) option" where
  "waitForDatabaseStartedWithBackoff dr deadline initialBackoff maxBackoff =
     waitForDatabaseState dr True deadline initialBackoff maxBackoff"

definition WaitForDatabaseStarted :: "'h db_driver \<Rightarrow> nat option \<Rightarrow> nat \<Rightarrow> 'h \<Rightarrow> ('h \<times> nat \<times> poll_end) option" where
  "WaitForDatabaseStarted dr deadline =
     waitForDatabaseStartedWithBackoff dr deadline StartedInitialBackoff StartedMaxBackoff"

section \<open>The local runtime\<close>

record 'h VMConfig =
  vm_Ports :: string
  vm_VersionCheck :: VersionCheckConfig
  vm_SLCs :: "SLCConfig list"
  vm_InitialPassword :: "('h, string) op option"
  vm_CPUCount :: int
  vm_MemoryMB :: int
  vm_DataSizeGB :: int

record RuntimeEndpoint =
  re_DBPort :: int
  re_UIPort :: int
  re_ShellSupported :: bool

datatype HostPlatform = HostPlatformLinux | HostPlatformWindows | OtherPlatform string

definition PortStateReachable :: string where "PortStateReachable = ''reachable''"
definition PortStateRefused :: string where "PortStateRefused = ''refused''"
definition PortStateBlocked :: string where "PortStateBlocked = ''blocked''"
definition PortStateTimeout :: string where "PortStateTimeout = ''timeout''"

text \<open>The operations of a runtime that a start, a stop and a removal call. \<open>lr_host\<close> is the platform of a runtime on the
  host itself and whether its engine is Docker; \<open>lr_local\<close> whether the manifest names the local backend. The sidecars
  of a runtime are reconciled and cleaned up by \<^verbatim>\<open>src/internal/deploy/sidecars.go\<close>.\<close>

record 'h Runtime =
  rn_Start :: "'h VMConfig \<Rightarrow> ('h, unit) op"
  rn_Stop :: "('h, unit) op"
  rn_Status :: "('h, bool) op"
  rn_Destroy :: "('h, unit) op"
  rn_WorkaroundNanoStartupDurability :: "('h, unit) op"
  rn_RemoveBootstrapPassword :: "('h, unit) op"
  rn_ReadEndpoints :: "('h, RuntimeEndpoint option) op"
  rn_HealthCheck :: "('h, (string \<times> string) list) op"
  rn_host :: "(HostPlatform \<times> bool) option"
  rn_local :: bool
  rn_reconcileSidecars :: "'h \<Rightarrow> 'h \<times> (string \<times> go_error) list \<times> go_error option"
  rn_cleanupSidecars :: "'h \<Rightarrow> 'h \<times> (string \<times> go_error) list \<times> go_error option"

section \<open>The diagnosis\<close>

definition localReachabilityMessage :: string where
  \<open>localReachabilityMessage = concat [''could not reach the local database endpoint because the host-to-VM network path appears '',
     ''blocked.'',
     [newline],
     [newline],
     ''This is usually caused by macOS's "Local Network" permission being denied to the terminal, '',
     ''editor, or agent environment that launched this command (for example iTerm2, kitty, VS Code, '',
     ''or a sandboxed agent host). That permission is required even though the reported endpoint is '',
     ''127.0.0.1, because Exasol Personal forwards it from a VM over the local network.'',
     [newline],
     [newline],
     ''To fix this: open System Settings -> Privacy & Security -> Local Network, and enable access '',
     ''for that application. Then retry.'']\<close>

definition linuxHostReachabilityMessage :: string where
  \<open>linuxHostReachabilityMessage = concat [''could not reach the local database endpoint published by the Linux Podman container.'',
     [newline],
     [newline],
     ''Inspect the deployment container with `podman ps -a` and `podman logs`, then check for a host '',
     ''firewall rule or another process using the configured database port.'']\<close>

definition windowsHostReachabilityMessage :: string where
  \<open>windowsHostReachabilityMessage = concat [''could not reach the local database endpoint published by podman-for-windows.'',
     [newline],
     [newline],
     ''On Windows the database port is forwarded from the Nano container, through the WSL2 podman '',
     ''machine, out to 127.0.0.1 on the host. If every forwarded port is unreachable the break is '',
     ''almost always in that host-to-VM path rather than in the database itself.'',
     [newline],
     [newline],
     ''Likely causes, in decreasing order of frequency:'',
     [newline],
     ''  1. Windows Firewall or a third-party security product is blocking loopback traffic to the '',
     ''forwarded port. Temporarily allow the port and retry.'',
     [newline],
     ''  2. Another process (Docker Desktop, a running server, an older Exasol container) is already '',
     ''bound to the configured port. Use `netstat -ano | findstr <port>` to check.'',
     [newline],
     ''  3. The podman machine stopped between start and health-check. Run `podman machine ls` and '',
     ''start it if needed.'',
     [newline],
     ''  4. The port is published on IPv6 only. WSL's localhost relay mirrors a dual-stack listener '',
     ''as [::1] and cannot forward it to the container's IPv4 listener. Check with `netstat -ano | '',
     ''findstr <port>`: the launcher publishes on 127.0.0.1 explicitly, so a [::1]-only binding means '',
     ''the container was not started by this launcher.'',
     [newline],
     [newline],
     ''Diagnostic commands: `podman ps -a`, `podman logs <container>`, `podman machine inspect`.'']\<close>

definition linuxDockerReachabilityMessage :: string where
  \<open>linuxDockerReachabilityMessage = concat [''could not reach the local database endpoint published by the Linux Docker container.'',
     [newline],
     [newline],
     ''Inspect the deployment container with `docker ps -a` and `docker logs`, then check for a host '',
     ''firewall rule or another process using the configured database port.'']\<close>

definition windowsDockerReachabilityMessage :: string where
  \<open>windowsDockerReachabilityMessage = concat [''could not reach the local database endpoint published by Docker.'',
     [newline],
     [newline],
     ''Likely causes, in decreasing order of frequency:'',
     [newline],
     ''  1. Windows Firewall or a third-party security product is blocking loopback traffic to the '',
     ''forwarded port. Temporarily allow the port and retry.'',
     [newline],
     ''  2. Another process (a running server, an older Exasol container) is already bound to the '',
     ''configured port. Use `netstat -ano | findstr <port>` to check.'',
     [newline],
     ''  3. Docker stopped between start and health-check. Run `docker info` and start Docker if '',
     ''needed.'',
     [newline],
     [newline],
     ''Diagnostic commands: `docker ps -a`, `docker logs <container>`.'']\<close>

text \<open>An error with a message that unwraps to the sentinel and to the cause.\<close>

definition ErrLocalReachability :: go_error where "ErrLocalReachability = Sentinel ''ErrLocalReachability''"

definition localReachabilityError :: "string \<Rightarrow> go_error option \<Rightarrow> go_error" where
  "localReachabilityError message cause =
     Wrap message (Joined (ErrLocalReachability # (case cause of None \<Rightarrow> [] | Some e \<Rightarrow> [e])))"

definition localReachabilityMessageForRuntime :: "'h Runtime \<Rightarrow> string" where
  "localReachabilityMessageForRuntime rt =
     (case rn_host rt of
        None \<Rightarrow> localReachabilityMessage
      | Some (HostPlatformLinux, docker) \<Rightarrow> if docker then linuxDockerReachabilityMessage else linuxHostReachabilityMessage
      | Some (HostPlatformWindows, docker) \<Rightarrow> if docker then windowsDockerReachabilityMessage else windowsHostReachabilityMessage
      | Some (OtherPlatform _, _) \<Rightarrow> localReachabilityMessage)"

definition port_unreachable :: "string \<Rightarrow> bool" where
  "port_unreachable state \<longleftrightarrow> state = PortStateBlocked \<or> state = PortStateTimeout"

text \<open>\<^const>\<open>None\<close> defers to the error of the caller.\<close>

definition classifyLocalReachability :: "'h Runtime \<Rightarrow> 'h \<Rightarrow> 'h \<times> go_error option" where
  "classifyLocalReachability rt h =
     (if \<not> rn_local rt then (h, None)
      else case rn_Status rt h of
        (h1, Inl _) \<Rightarrow> (h1, None)
      | (h1, Inr running) \<Rightarrow>
          if \<not> running then (h1, None)
          else (case rn_HealthCheck rt h1 of
              (h2, Inl _) \<Rightarrow> (h2, None)
            | (h2, Inr ports) \<Rightarrow>
                if ports = [] \<or> list_ex (\<lambda>(_, state). \<not> port_unreachable state) ports then (h2, None)
                else (h2, Some (localReachabilityError (localReachabilityMessageForRuntime rt) None))))"

text \<open>\<open>errors.As\<close> finds the message of the error that the classification made.\<close>

fun reachability_message :: "go_error \<Rightarrow> string option" where
  "reachability_message (Wrap m (Joined (e # _))) = (if e = ErrLocalReachability then Some m else None)"
| "reachability_message _ = None"

definition diagnoseLocalFailure :: "'h Runtime \<Rightarrow> go_error option \<Rightarrow> 'h \<Rightarrow> 'h \<times> go_error option" where
  "diagnoseLocalFailure rt err h =
     (case err of
        None \<Rightarrow> (h, None)
      | Some e \<Rightarrow>
          (case classifyLocalReachability rt h of
             (h', None) \<Rightarrow> (h', Some e)
           | (h', Some re) \<Rightarrow>
               (case errors_As reachability_message re of
                  None \<Rightarrow> (h', Some re)
                | Some message \<Rightarrow> (h', Some (localReachabilityError message (Some e))))))"

section \<open>Waiting for the local database\<close>

definition localReadinessDiagnosisWindow :: nat where "localReadinessDiagnosisWindow = 2 * second"
definition localReadinessDiagnosisWindowDivisor :: nat where "localReadinessDiagnosisWindowDivisor = 2"

text \<open>The deadline of the polling: a part of what remains is kept for the diagnosis. Past the deadline nothing remains, and
  the context is done whatever the difference.\<close>

definition localReadinessPollingContext :: "nat \<Rightarrow> nat option \<Rightarrow> nat option" where
  "localReadinessPollingContext now deadline =
     map_option (\<lambda>t. if t \<le> now then t
        else (let remaining = t - now;
                  reserved = min localReadinessDiagnosisWindow (remaining div localReadinessDiagnosisWindowDivisor)
              in now + (remaining - reserved))) deadline"

definition WaitForLocalDatabaseStarted ::
  "'h db_driver \<Rightarrow> 'h Runtime \<Rightarrow> nat option \<Rightarrow> nat \<Rightarrow> 'h \<Rightarrow> ('h \<times> nat \<times> poll_end) option"
where
  "WaitForLocalDatabaseStarted dr rt deadline now h =
     (case waitForDatabaseStartedWithBackoff dr (localReadinessPollingContext now deadline)
             LocalDatabaseStartedInitialBackoff LocalDatabaseStartedMaxBackoff now h of
        None \<Rightarrow> None
      | Some (h', now', Returned (Some e)) \<Rightarrow>
          (case diagnoseLocalFailure rt (Some e) h' of (h'', err) \<Rightarrow> Some (h'', now', Returned err))
      | Some r \<Rightarrow> Some r)"

section \<open>The wait ends\<close>

text \<open>What a polling that ended says: the last attempt met the condition or panicked, or an attempt gave the error.\<close>

definition poll_reason :: "'g attempt \<Rightarrow> go_error option \<Rightarrow> 'g \<Rightarrow> poll_end \<Rightarrow> bool" where
  "poll_reason condition lastErr g' r \<longleftrightarrow>
     (case r of
        Panicked \<Rightarrow> \<exists>g d. condition g = (g', d, None)
      | Returned None \<Rightarrow> \<exists>g d err. condition g = (g', d, Some (True, err))
      | Returned (Some e) \<Rightarrow>
          e = DeadlineExceeded \<or> lastErr = Some e \<or> (\<exists>g g1 d. condition g = (g1, d, Some (False, Some e))))"

lemma nextBackoff_pos: "0 < b \<Longrightarrow> 0 < nextBackoff b m"
  by (simp add: nextBackoff_def min_def)

lemma poll_loop_ends:
  assumes "\<And>g. fst (snd (condition g)) \<le> D" and "0 < backoff"
  shows "\<exists>g' n r. poll_loop condition (Some t) maxBackoff backoff lastErr now g = Some (g', n, r)
    \<and> n \<le> max now t + D \<and> poll_reason condition lastErr g' r"
  using assms(2)
proof (induction "t - now" arbitrary: backoff lastErr now g rule: less_induct)
  case less
  obtain g1 d res where c: "condition g = (g1, d, res)" by (cases "condition g")
  then have d: "d \<le> D" using assms(1) [of g] by simp
  show ?case
  proof (cases res)
    case None
    have "poll_loop condition (Some t) maxBackoff backoff lastErr now g = Some (g1, now + d, Panicked)"
      by (subst poll_loop.simps) (simp add: c None)
    then show ?thesis using c d None by (auto simp: poll_reason_def)
  next
    case (Some p)
    then obtain met err where p: "res = Some (met, err)" by (cases p) auto
    let ?last = "if err \<noteq> None then err else lastErr"
    show ?thesis
    proof (cases met)
      case True
      have "poll_loop condition (Some t) maxBackoff backoff lastErr now g = Some (g1, now + d, Returned None)"
        by (subst poll_loop.simps) (simp add: c p True)
      then show ?thesis using c d p True by (auto simp: poll_reason_def)
    next
      case False
      show ?thesis
      proof (cases "t \<le> now + d + backoff * second")
        case True
        let ?e = "case ?last of None \<Rightarrow> DeadlineExceeded | Some e \<Rightarrow> e"
        have "poll_loop condition (Some t) maxBackoff backoff lastErr now g = Some (g1, max (now + d) t, Returned (Some ?e))"
          by (subst poll_loop.simps) (simp add: c p False True awaitNextPollAttempt_def)
        moreover have "poll_reason condition lastErr g1 (Returned (Some ?e))"
          using c p False by (auto simp: poll_reason_def split: option.split)
        moreover have "max (now + d) t \<le> max now t + D" using d by linarith
        ultimately show ?thesis by blast
      next
        case later: False
        let ?now = "now + d + backoff * second"
        have "0 < backoff * second" using less.prems by (simp add: second_def)
        then have "t - ?now < t - now" using later by linarith
        from less.hyps [OF this nextBackoff_pos [OF less.prems]]
        obtain g' n r where r: "poll_loop condition (Some t) maxBackoff (nextBackoff backoff maxBackoff) ?last ?now g1 = Some (g', n, r)"
          "n \<le> max ?now t + D" "poll_reason condition ?last g' r" by blast
        have "poll_loop condition (Some t) maxBackoff backoff lastErr now g = Some (g', n, r)"
          using r(1) later by (subst poll_loop.simps) (simp add: c p False awaitNextPollAttempt_def)
        moreover have "n \<le> max now t + D" using r(2) later by simp
        moreover have "poll_reason condition lastErr g' r"
          using r(3) c p False by (fastforce simp: poll_reason_def split: poll_end.splits option.splits if_splits)
        ultimately show ?thesis by blast
      qed
    qed
  qed
qed

lemma pollingContext_window:
  assumes "now < t"
  obtains u where "localReadinessPollingContext now (Some t) = Some u" and "now \<le> u"
    and "u + min localReadinessDiagnosisWindow ((t - now) div 2) = t"
proof -
  have "min localReadinessDiagnosisWindow ((t - now) div 2) \<le> t - now" by linarith
  then show thesis
    using assms
    by (intro that [of "now + (t - now - min localReadinessDiagnosisWindow ((t - now) div 2))"])
      (auto simp: localReadinessPollingContext_def Let_def localReadinessDiagnosisWindowDivisor_def)
qed

text \<open>The diagnosis speaks of the network only when the runtime runs and none of its ports can be reached.\<close>

definition ports_blocked :: "'h Runtime \<Rightarrow> 'h \<Rightarrow> bool" where
  "ports_blocked rt h \<longleftrightarrow> rn_local rt \<and> (\<exists>h1 h2 ports. rn_Status rt h = (h1, Inr True) \<and>
     rn_HealthCheck rt h1 = (h2, Inr ports) \<and> ports \<noteq> [] \<and> list_all (\<lambda>(_, state). port_unreachable state) ports)"

lemma diagnosis_keeps_cause:
  assumes "diagnoseLocalFailure rt (Some e) h = (h', err)"
  shows "\<exists>r. err = Some r \<and> set (error_chain e) \<subseteq> set (error_chain r) \<and> (r = e \<or> ports_blocked rt h)"
proof (cases "classifyLocalReachability rt h")
  case (Pair h1 c)
  show ?thesis
  proof (cases c)
    case None
    with Pair assms show ?thesis by (auto simp: diagnoseLocalFailure_def)
  next
    case (Some re)
    have "classifyLocalReachability rt h = (h1, Some re)" using Pair Some by simp
    then have re: "re = localReachabilityError (localReachabilityMessageForRuntime rt) None" and "ports_blocked rt h"
      unfolding classifyLocalReachability_def ports_blocked_def
      by (auto split: if_splits prod.splits sum.splits simp: list_all_iff list_ex_iff)
    moreover have "errors_As reachability_message re = Some (localReachabilityMessageForRuntime rt)"
      by (simp add: re errors_As_def localReachabilityError_def List.map_filter_def)
    ultimately show ?thesis
      using assms Pair Some by (auto simp: diagnoseLocalFailure_def localReachabilityError_def)
  qed
qed


text \<open>A database that does not listen, behind a runtime whose ports are blocked.\<close>

definition deaf_driver :: "unit db_driver" where
  "deaf_driver = \<lparr>dr_Resolve = raise (Plain ''no endpoint''), dr_New = (\<lambda>_ _ _. ret ()), dr_Connect = ret (), dr_Close = ret (),
     dr_Text = (\<lambda>_. None), dr_Duration = (\<lambda>_. second)\<rparr>"

definition blocked_runtime :: "unit Runtime" where
  "blocked_runtime = \<lparr>rn_Start = (\<lambda>_. ret ()), rn_Stop = ret (), rn_Status = ret True, rn_Destroy = ret (),
     rn_WorkaroundNanoStartupDurability = ret (), rn_RemoveBootstrapPassword = ret (), rn_ReadEndpoints = ret None,
     rn_HealthCheck = ret [(''db'', PortStateBlocked)], rn_host = None, rn_local = True,
     rn_reconcileSidecars = (\<lambda>h. (h, [], None)), rn_cleanupSidecars = (\<lambda>h. (h, [], None))\<rparr>"


end
