(* ===== verification/Local_Start.thy ===== *)
theory Local_Start
  imports Readiness Local_Backend Slc_Catalog
begin

text \<open>
  Starting, stopping and removing a local deployment's runtime, and the password of its database:
  \<^verbatim>\<open>src/internal/deploy/local_runtime.go\<close>, \<^verbatim>\<open>local_credentials.go\<close> and \<^verbatim>\<open>src/internal/config/secrets.go\<close>. The world
  of an operation is what the deployment directory holds about the database and, in \<open>lw_engine\<close>, the runtime with the
  data. Every write may fail, before or after the new content is in place. A panic of the readiness probe ends the
  process; the model stops at it as at an error.
\<close>

section \<open>The files\<close>

record BucketCredential =
  bc_Username :: string
  bc_Password :: string

record BucketSecrets =
  bs_Read :: BucketCredential
  bs_Write :: BucketCredential

record Secrets =
  se_DbPassword :: string
  se_AdminUiPassword :: string
  se_BucketFS :: "(string \<times> (string \<times> BucketSecrets) list) list"

definition no_secrets :: Secrets where
  "no_secrets = \<lparr>se_DbPassword = [], se_AdminUiPassword = [], se_BucketFS = []\<rparr>"

datatype secrets_file = SecretsMissing | SecretsStatFails go_error | SecretsUnreadable go_error | SecretsFile Secrets

text \<open>The marker: whether the password was generated, and whether a login with it has succeeded since. What
  cannot be parsed as a whole may give some of it.\<close>

datatype marker_file =
  MarkerMissing | MarkerUnreadable go_error | MarkerUnparsable bool bool go_error | MarkerFile bool bool

record 'g local_world =
  lw_marker :: marker_file
  lw_secrets :: secrets_file
  lw_info :: info_file
  lw_engine :: 'g
  lw_clock :: nat

text \<open>\<open>ll_fail\<close> says which write fails and whether the new content is in place then.\<close>

record local_libs =
  ll_fail :: "nat \<Rightarrow> (go_error \<times> bool) option"
  ll_random :: "nat \<Rightarrow> (go_error, nat list) result"
  ll_certs :: cert_libs
  ll_state :: "(go_error, ExasolPersonalState) result"
  ll_skipDatabaseWait :: bool
  ll_GOOS :: string
  ll_versionCheckURL :: string
  ll_now :: nat

type_synonym ('g, 'a) lop = "('g local_world, 'a) op"

definition lw_tick :: "'g local_world \<Rightarrow> 'g local_world" where
  "lw_tick w = w\<lparr>lw_clock := Suc (lw_clock w)\<rparr>"

definition lw_write :: "local_libs \<Rightarrow> ('g local_world \<Rightarrow> 'g local_world) \<Rightarrow> ('g, unit) lop" where
  "lw_write l put w =
     (case ll_fail l (lw_clock w) of
        None \<Rightarrow> (lw_tick (put w), Inr ())
      | Some (e, placed) \<Rightarrow> (lw_tick (if placed then put w else w), Inl e))"

definition ReadSecrets :: "'g local_world \<Rightarrow> (go_error, Secrets) result" where
  "ReadSecrets w =
     (case lw_secrets w of
        SecretsMissing \<Rightarrow> Inl (Plain ''secrets file not found in deployment directory'')
      | SecretsStatFails e \<Rightarrow> Inl (Wrap ''failed to get the secrets file path'' e)
      | SecretsUnreadable e \<Rightarrow> Inl e
      | SecretsFile s \<Rightarrow> Inr s)"

definition WriteSecrets :: "local_libs \<Rightarrow> Secrets \<Rightarrow> ('g, unit) lop" where
  "WriteSecrets l s = wrap_op ''failed to write secrets file'' (lw_write l (\<lambda>w. w\<lparr>lw_secrets := SecretsFile s\<rparr>))"

section \<open>The password of the database\<close>

definition localDBUser :: string where "localDBUser = ''sys''"
definition localDBPassword :: string where "localDBPassword = ''exasol''"

definition errLocalGeneratedSecretsUnavailable :: go_error where
  "errLocalGeneratedSecretsUnavailable = Sentinel ''errLocalGeneratedSecretsUnavailable''"

definition errLocalStoredCredentialRejected :: go_error where
  "errLocalStoredCredentialRejected = Sentinel ''errLocalStoredCredentialRejected''"

definition readLocalCredentialMarker :: "'g local_world \<Rightarrow> (bool \<times> bool) \<times> go_error option" where
  "readLocalCredentialMarker w =
     (case lw_marker w of
        MarkerMissing \<Rightarrow> ((False, False), None)
      | MarkerUnreadable e \<Rightarrow> ((False, False), Some (Wrap ''failed to read local credential marker'' e))
      | MarkerUnparsable g v e \<Rightarrow> ((g, v), Some (Wrap ''failed to parse local credential marker'' e))
      | MarkerFile generated verified \<Rightarrow> ((generated, verified), None))"

definition writeLocalCredentialMarker :: "local_libs \<Rightarrow> bool \<Rightarrow> bool \<Rightarrow> ('g, unit) lop" where
  "writeLocalCredentialMarker l generated verified =
     seq_op (wrap_op ''failed to create local credential marker directory'' (lw_write l id))
       (wrap_op ''failed to write local credential marker'' (lw_write l (\<lambda>w. w\<lparr>lw_marker := MarkerFile generated verified\<rparr>)))"

definition localDatabasePasswordGenerated :: "'g local_world \<Rightarrow> bool \<times> go_error option" where
  "localDatabasePasswordGenerated w = (case readLocalCredentialMarker w of ((generated, _), err) \<Rightarrow> (generated, err))"

definition localCredentialVerificationPending :: "'g local_world \<Rightarrow> bool \<times> go_error option" where
  "localCredentialVerificationPending w =
     (case readLocalCredentialMarker w of ((generated, verified), err) \<Rightarrow> (generated \<and> \<not> verified, err))"

definition markLocalDatabasePasswordGenerated :: "local_libs \<Rightarrow> ('g, unit) lop" where
  "markLocalDatabasePasswordGenerated l = writeLocalCredentialMarker l True False"

definition markLocalDatabasePasswordVerified :: "local_libs \<Rightarrow> ('g, unit) lop" where
  "markLocalDatabasePasswordVerified l = writeLocalCredentialMarker l True True"

definition new_password :: "local_libs \<Rightarrow> ('g, string) lop" where
  "new_password l w = (lw_tick w, generateDatabasePassword (ll_random l (lw_clock w)))"

definition store_password :: "local_libs \<Rightarrow> Secrets \<Rightarrow> ('g, string) lop" where
  "store_password l s =
     bind_op (wrap_op ''failed to generate the local database password'' (new_password l)) (\<lambda>password.
       seq_op (WriteSecrets l (s\<lparr>se_DbPassword := password\<rparr>))
         (seq_op (markLocalDatabasePasswordGenerated l) (ret password)))"

definition resolveLocalInitialPassword :: "local_libs \<Rightarrow> ('g, string) lop" where
  "resolveLocalInitialPassword l w =
     (case localDatabasePasswordGenerated w of
        (_, Some e) \<Rightarrow> (w, Inl e)
      | (generated, None) \<Rightarrow>
          (let s = (case ReadSecrets w of Inl _ \<Rightarrow> no_secrets | Inr s \<Rightarrow> s)
           in if generated \<and> se_DbPassword s \<noteq> [] then (w, Inr (se_DbPassword s)) else store_password l s w))"

definition classifyLocalCredentialCheck :: "'h db_driver \<Rightarrow> go_error \<Rightarrow> go_error" where
  "classifyLocalCredentialCheck dr e =
     (if isAuthenticationFailure dr e then Wrap ''run `exasol destroy` and then `exasol deploy`'' errLocalStoredCredentialRejected
      else Wrap ''failed to verify the local database password'' e)"

text \<open>An empty password makes the driver read the stored one.\<close>

definition verifyLocalStoredCredential :: "'h db_driver \<Rightarrow> ('h, unit) op" where
  "verifyLocalStoredCredential dr =
     catch_op
       (bind_op (dr_Resolve dr) (\<lambda>info.
          seq_op (dr_New dr info (ci_Username info) []) (seq_op (dr_Connect dr) (dr_Close dr))))
       (\<lambda>e. raise (classifyLocalCredentialCheck dr e))"

text \<open>A stored password is kept; the default is only for deployments whose password was not generated.\<close>

definition ensureLocalSecrets :: "local_libs \<Rightarrow> ('g, unit) lop" where
  "ensureLocalSecrets l w =
     (let fall_back = (\<lambda>w. case localDatabasePasswordGenerated w of
            (_, Some e) \<Rightarrow> (w, Inl e)
          | (generated, None) \<Rightarrow>
              if generated then (w, Inl (Wrap ''restore it from a backup'' errLocalGeneratedSecretsUnavailable))
              else WriteSecrets l (no_secrets\<lparr>se_DbPassword := localDBPassword\<rparr>) w)
      in case lw_secrets w of
        SecretsStatFails e \<Rightarrow> (w, Inl (Wrap ''failed to inspect local secrets file'' e))
      | SecretsFile s \<Rightarrow> if se_DbPassword s \<noteq> [] then (w, Inr ()) else fall_back w
      | _ \<Rightarrow> fall_back w)"

section \<open>The configuration of the runtime\<close>

definition currentJavaMountTarget :: string where "currentJavaMountTarget = SLCMountRoot @ ''/current-java''"

definition isJavaSLC :: "InstalledSLC \<Rightarrow> bool" where
  "isJavaSLC s \<longleftrightarrow> list_ex (\<lambda>a. EqualFold a ''JAVA'') (slc_Aliases s)"

definition appendOfficialSLCConfigs :: "SLCConfig list \<Rightarrow> InstalledSLC \<Rightarrow> SLCConfig list" where
  "appendOfficialSLCConfigs configs s =
     configs @ [\<lparr>sl_Image = slc_Image s, sl_Target = slc_Target s, sl_Package = []\<rparr>]
       @ (if isJavaSLC s then [\<lparr>sl_Image = slc_Image s, sl_Target = currentJavaMountTarget, sl_Package = []\<rparr>] else [])"

definition operating_system :: "string \<Rightarrow> string" where
  "operating_system goos =
     (if goos = ''linux'' then ''Linux'' else if goos = ''darwin'' then ''MacOS''
      else if goos = ''windows'' then ''Windows'' else goos)"

definition toLocalRuntimeConfig :: "local_libs \<Rightarrow> localRuntimeConfig \<Rightarrow> (go_error, 'h VMConfig) result" where
  "toLocalRuntimeConfig l rc =
     (case ll_state l of
        Inl e \<Rightarrow> Inl (Wrap ''failed to read local startup settings'' e)
      | Inr s \<Rightarrow>
          (let vc = \<lparr>vc_Enabled = VersionCheckEnabled s, vc_URL = ll_versionCheckURL l, vc_Identity = TrimSpace (ClusterIdentity s),
                     vc_OperatingSystem = operating_system (ll_GOOS l), vc_IntervalSeconds = 0\<rparr>
           in if vc_Enabled vc \<and> vc_Identity vc = [] then Inl (Plain ''deployment state is missing cluster identity'')
              else Inr \<lparr>vm_Ports = rc_ports rc, vm_VersionCheck = vc,
                vm_SLCs = foldl appendOfficialSLCConfigs [] (InstalledSLCs s)
                  @ map (\<lambda>c. \<lparr>sl_Image = cslc_Image c, sl_Target = cslc_Target c, sl_Package = cslc_Package c\<rparr>) (InstalledCustomSLCs s),
                vm_InitialPassword = None, vm_CPUCount = rc_cpuCount rc, vm_MemoryMB = rc_memoryMB rc,
                vm_DataSizeGB = rc_dataSizeGB rc\<rparr>))"

section \<open>The artifacts of a running deployment\<close>

definition lw_writeInfo :: "local_libs \<Rightarrow> DeploymentInfo \<Rightarrow> ('g, unit) lop" where
  "lw_writeInfo l info w =
     (case WriteDeploymentInfo (ll_certs l) (map_option fst (ll_fail l (lw_clock w))) info (lw_info w) of
        (f, None) \<Rightarrow> (lw_tick (w\<lparr>lw_info := f\<rparr>), Inr ())
      | (f, Some e) \<Rightarrow> (lw_tick (w\<lparr>lw_info := f\<rparr>), Inl e))"

definition local_user :: "local_libs \<Rightarrow> info_file \<Rightarrow> string" where
  "local_user l f =
     (case ReadDeploymentInfo (ll_certs l) f of
        Inl _ \<Rightarrow> localDBUser
      | Inr saved \<Rightarrow>
          (case in_Connection saved of
             None \<Rightarrow> localDBUser
           | Some c \<Rightarrow> if TrimSpace (cn_Username c) \<noteq> [] then TrimSpace (cn_Username c) else localDBUser))"

definition local_id :: "local_libs \<Rightarrow> string" where
  "local_id l =
     (case ll_state l of
        Inl _ \<Rightarrow> ''local''
      | Inr s \<Rightarrow> if TrimSpace (DeploymentId s) \<noteq> [] then DeploymentId s else ''local'')"

definition local_info :: "string \<Rightarrow> string \<Rightarrow> RuntimeEndpoint \<Rightarrow> DeploymentInfo" where
  "local_info deploymentID username endpoint =
     \<lparr>in_Backend = ''local'', in_DeploymentId = deploymentID, in_DeploymentState = StatusRunning, in_Region = [],
      in_AvailabilityZone = [], in_ClusterSize = 1, in_ClusterState = StatusRunning, in_InstanceType = ''exasol-local'',
      in_VpcId = [], in_SubnetId = [], in_Nodes = [],
      in_Connection = Some
        \<lparr>cn_Host = ''127.0.0.1'', cn_DisplayHost = ''127.0.0.1'', cn_PublicIp = ''127.0.0.1'', cn_DBPort = re_DBPort endpoint,
         cn_UIPort = 0, cn_AdminUI = None, cn_Username = username, cn_CertFingerprint = [],
         cn_InsecureSkipCertValidation = True, cn_SSHCommand = [], cn_SSHPort = [],
         cn_ShellSupported = re_ShellSupported endpoint\<rparr>\<rparr>"

definition writeLocalDeploymentArtifacts :: "local_libs \<Rightarrow> RuntimeEndpoint option \<Rightarrow> ('g, unit) lop" where
  "writeLocalDeploymentArtifacts l endpoint =
     (case endpoint of
        None \<Rightarrow> raise (Plain ''local runtime endpoint state is required'')
      | Some ep \<Rightarrow>
          if re_DBPort ep \<le> 0 \<or> re_DBPort ep > 65535 then
            raise (Plain (''local runtime database port is invalid: '' @ Itoa (re_DBPort ep)))
          else (\<lambda>w. seq_op (lw_writeInfo l (local_info (local_id l) (local_user l (lw_info w)) ep)) (ensureLocalSecrets l) w))"

definition updateLocalDeploymentArtifactState :: "local_libs \<Rightarrow> string \<Rightarrow> ('g, unit) lop" where
  "updateLocalDeploymentArtifactState l state w =
     (case ReadDeploymentInfo (ll_certs l) (lw_info w) of
        Inl e \<Rightarrow> (w, Inl (Wrap ''failed to read local deployment info after state change'' e))
      | Inr info \<Rightarrow> lw_writeInfo l (info\<lparr>in_DeploymentState := state, in_ClusterState := state\<rparr>) w)"

section \<open>Starting\<close>

definition db_result :: "go_error option \<Rightarrow> DeploymentLifecycleResult" where
  "db_result err = \<lparr>lr_Database = err, lr_Sidecars = [], lr_SidecarReconciliation = None\<rparr>"

definition join_database :: "go_error option \<Rightarrow> DeploymentLifecycleResult \<Rightarrow> DeploymentLifecycleResult" where
  "join_database err res = (if err = None then res else res\<lparr>lr_Database := errors_Join [lr_Database res, err]\<rparr>)"

definition boundedLocalDatabaseStartedTimeout :: "int \<Rightarrow> int" where
  "boundedLocalDatabaseStartedTimeout waitTimeoutSeconds =
     (if waitTimeoutSeconds \<le> 0 \<or> waitTimeoutSeconds > LocalDatabaseStartedDefaultTimeoutSeconds
      then LocalDatabaseStartedDefaultTimeoutSeconds else waitTimeoutSeconds)"

definition process_panicked :: go_error where "process_panicked = Sentinel ''panic''"

definition local_wait :: "'h db_driver \<Rightarrow> 'h Runtime \<Rightarrow> nat \<Rightarrow> int \<Rightarrow> ('h, unit) op" where
  "local_wait dr rt now seconds h =
     (case WaitForLocalDatabaseStarted dr rt (Some (now + nat seconds * second)) now h of
        Some (h', _, Returned None) \<Rightarrow> (h', Inr ())
      | Some (h', _, Returned (Some e)) \<Rightarrow> (h', Inl e)
      | Some (h', _, Panicked) \<Rightarrow> (h', Inl process_panicked)
      | None \<Rightarrow> (h, Inl process_panicked))"

definition waitForLocalDatabaseAndSync :: "'h db_driver \<Rightarrow> 'h Runtime \<Rightarrow> nat \<Rightarrow> int \<Rightarrow> ('h, unit) op" where
  "waitForLocalDatabaseAndSync dr rt now seconds =
     seq_op (local_wait dr rt now seconds) (rn_WorkaroundNanoStartupDurability rt)"

definition writeLocalRuntimeArtifactsAndWait ::
  "local_libs \<Rightarrow> 'g local_world db_driver \<Rightarrow> 'g local_world Runtime \<Rightarrow> RuntimeEndpoint option \<Rightarrow> int \<Rightarrow> 'g local_world
    \<Rightarrow> 'g local_world \<times> DeploymentLifecycleResult"
where
  "writeLocalRuntimeArtifactsAndWait l dr rt endpoint waitTimeoutSeconds w =
     (case writeLocalDeploymentArtifacts l endpoint w of
        (w1, Inl e) \<Rightarrow> (w1, db_result (Some e))
      | (w1, Inr _) \<Rightarrow>
          (case rn_reconcileSidecars rt w1 of
             (w2, failures, sidecarErr) \<Rightarrow>
               (let res = \<lparr>lr_Database = None, lr_Sidecars = failures, lr_SidecarReconciliation = sidecarErr\<rparr>
                in if ll_skipDatabaseWait l then (w2, res)
                   else case op_error (waitForLocalDatabaseAndSync dr rt (ll_now l)
                          (boundedLocalDatabaseStartedTimeout waitTimeoutSeconds) w2) of
                     (w3, err) \<Rightarrow> (w3, res\<lparr>lr_Database := err\<rparr>))))"

definition startLocalRuntimeAndWait ::
  "local_libs \<Rightarrow> 'g local_world db_driver \<Rightarrow> 'g local_world Runtime \<Rightarrow> 'g local_world VMConfig \<Rightarrow> int \<Rightarrow> 'g local_world
    \<Rightarrow> 'g local_world \<times> DeploymentLifecycleResult"
where
  "startLocalRuntimeAndWait l dr rt cfg waitTimeoutSeconds w =
     (case rn_Start rt cfg w of
        (w1, Inl e) \<Rightarrow> (case diagnoseLocalFailure rt (Some e) w1 of (w2, err) \<Rightarrow> (w2, db_result err))
      | (w1, Inr _) \<Rightarrow>
          (case rn_ReadEndpoints rt w1 of
             (w2, Inl e) \<Rightarrow> (w2, db_result (Some e))
           | (w2, Inr endpoint) \<Rightarrow> writeLocalRuntimeArtifactsAndWait l dr rt endpoint waitTimeoutSeconds w2))"

text \<open>The check of a generated password after the start, and what is undone when it fails.\<close>

definition verify_started ::
  "local_libs \<Rightarrow> 'g local_world db_driver \<Rightarrow> bool \<Rightarrow> DeploymentLifecycleResult \<Rightarrow> 'g local_world
    \<Rightarrow> 'g local_world \<times> DeploymentLifecycleResult"
where
  "verify_started l dr pending res w =
     (if lr_Database res = None \<and> pending \<and> \<not> ll_skipDatabaseWait l
      then case op_error (seq_op (verifyLocalStoredCredential dr) (markLocalDatabasePasswordVerified l) w) of
        (w', err) \<Rightarrow> (w', res\<lparr>lr_Database := err\<rparr>)
      else (w, res))"

definition stop_unverified ::
  "'h Runtime \<Rightarrow> bool \<Rightarrow> DeploymentLifecycleResult \<Rightarrow> 'h \<Rightarrow> 'h \<times> DeploymentLifecycleResult"
where
  "stop_unverified rt pending res w =
     (if lr_Database res \<noteq> None \<and> pending
      then case op_error (wrap_op ''failed to stop the local database before its password was verified'' (rn_Stop rt) w) of
        (w', err) \<Rightarrow> (w', join_database err res)
      else (w, res))"

definition startPreparedLocalRuntime ::
  "local_libs \<Rightarrow> 'g local_world db_driver \<Rightarrow> 'g local_world Runtime \<Rightarrow> localRuntimeConfig \<Rightarrow> int \<Rightarrow> 'g local_world
    \<Rightarrow> 'g local_world \<times> DeploymentLifecycleResult"
where
  "startPreparedLocalRuntime l dr rt rc waitTimeoutSeconds w =
     (case toLocalRuntimeConfig l rc of
        Inl e \<Rightarrow> (w, db_result (Some e))
      | Inr cfg \<Rightarrow>
          (case rn_RemoveBootstrapPassword rt w of
             (w1, Inl e) \<Rightarrow> (w1, db_result (Some e))
           | (w1, Inr _) \<Rightarrow>
               (case startLocalRuntimeAndWait l dr rt (cfg\<lparr>vm_InitialPassword := Some (resolveLocalInitialPassword l)\<rparr>)
                       waitTimeoutSeconds w1 of
                  (w2, res) \<Rightarrow>
                    (case localCredentialVerificationPending w2 of
                       (pending, markerErr) \<Rightarrow>
                         (case verify_started l dr pending (join_database markerErr res) w2 of
                            (w3, res3) \<Rightarrow>
                              (case stop_unverified rt pending res3 w3 of
                                 (w4, res4) \<Rightarrow>
                                   (case op_error (rn_RemoveBootstrapPassword rt w4) of
                                      (w5, err) \<Rightarrow> (w5, join_database err res4))))))))"

section \<open>Stopping and removing\<close>

definition stopLocalRuntime ::
  "local_libs \<Rightarrow> 'g local_world Runtime \<Rightarrow> 'g local_world \<Rightarrow> 'g local_world \<times> DeploymentLifecycleResult"
where
  "stopLocalRuntime l rt w =
     (case rn_cleanupSidecars rt w of
        (w1, failures, sidecarErr) \<Rightarrow>
          (let res = \<lparr>lr_Database = None, lr_Sidecars = failures, lr_SidecarReconciliation = sidecarErr\<rparr>
           in case rn_Stop rt w1 of
             (w2, Inl e) \<Rightarrow> (w2, res\<lparr>lr_Database := Some e\<rparr>)
           | (w2, Inr _) \<Rightarrow>
               (case op_error (updateLocalDeploymentArtifactState l StatusStopped w2) of
                  (w3, err) \<Rightarrow> (w3, res\<lparr>lr_Database := err\<rparr>))))"

text \<open>\<^verbatim>\<open>os.Remove\<close> of the node details, the secrets, the connection instructions and the record of the sidecars. The
  last two are not part of the model's world.\<close>

definition remove_artifacts :: "local_libs \<Rightarrow> ('g, unit) lop" where
  "remove_artifacts l =
     wrap_op ''failed to remove local deployment artifact''
       (seq_op (lw_write l (\<lambda>w. w\<lparr>lw_info := InfoMissing\<rparr>))
         (seq_op (lw_write l (\<lambda>w. w\<lparr>lw_secrets := SecretsMissing\<rparr>))
           (seq_op (lw_write l id) (lw_write l id))))"

definition destroyLocalRuntime ::
  "local_libs \<Rightarrow> 'g local_world Runtime \<Rightarrow> 'g local_world \<Rightarrow> 'g local_world \<times> go_error option"
where
  "destroyLocalRuntime l rt w =
     (case rn_cleanupSidecars rt w of
        (w1, failures, err) \<Rightarrow>
          (let sidecarErr = errors_Join [err, joinSidecarFailures failures]
           in case rn_Destroy rt w1 of
             (w2, Inl e) \<Rightarrow> (w2, errors_Join [Some e, sidecarErr])
           | (w2, Inr _) \<Rightarrow>
               if sidecarErr \<noteq> None then (w2, sidecarErr) else op_error (remove_artifacts l w2)))"

section \<open>What the runtime and the driver leave alone\<close>

text \<open>The marker, the secrets and the password of the database (\<^const>\<open>None\<close> when there is no database).\<close>

definition view :: "('g \<Rightarrow> string option) \<Rightarrow> 'g local_world \<Rightarrow> marker_file \<times> secrets_file \<times> string option" where
  "view db w = (lw_marker w, lw_secrets w, db (lw_engine w))"

definition quiet :: "('g \<Rightarrow> string option) \<Rightarrow> ('g local_world \<Rightarrow> 'g local_world \<times> 'b) \<Rightarrow> bool" where
  "quiet db m \<longleftrightarrow> (\<forall>w. view db (fst (m w)) = view db w)"

text \<open>A start either initializes no database, or does with what the configuration's function answers, once.\<close>

definition starts_lawfully :: "('g \<Rightarrow> string option) \<Rightarrow> 'g local_world Runtime \<Rightarrow> bool" where
  "starts_lawfully db rt \<longleftrightarrow>
     (\<forall>cfg w. case rn_Start rt cfg w of (w', r) \<Rightarrow>
        view db w' = view db w \<or> view db w' = (lw_marker w, lw_secrets w, None)
        \<or> (\<exists>ask w0 w1 res. vm_InitialPassword cfg = Some ask \<and> view db w0 = (lw_marker w, lw_secrets w, None) \<and> ask w0 = (w1, res)
            \<and> (view db w' = (lw_marker w1, lw_secrets w1, None)
               \<or> (\<exists>p. res = Inr p \<and> view db w' = (lw_marker w1, lw_secrets w1, Some p)))))"

definition lawful_runtime :: "('g \<Rightarrow> string option) \<Rightarrow> 'g local_world Runtime \<Rightarrow> bool" where
  "lawful_runtime db rt \<longleftrightarrow>
     starts_lawfully db rt \<and> quiet db (rn_Stop rt) \<and> quiet db (rn_Status rt) \<and> quiet db (rn_WorkaroundNanoStartupDurability rt)
     \<and> quiet db (rn_RemoveBootstrapPassword rt) \<and> quiet db (rn_ReadEndpoints rt) \<and> quiet db (rn_HealthCheck rt)
     \<and> quiet db (rn_reconcileSidecars rt) \<and> quiet db (rn_cleanupSidecars rt)
     \<and> (\<forall>w. case rn_Destroy rt w of
            (w', Inl _) \<Rightarrow> lw_secrets w' = lw_secrets w \<and> db (lw_engine w') \<in> {None, db (lw_engine w)}
          | (w', Inr _) \<Rightarrow> db (lw_engine w') = None)"

definition lawful_driver :: "('g \<Rightarrow> string option) \<Rightarrow> 'g local_world db_driver \<Rightarrow> bool" where
  "lawful_driver db dr \<longleftrightarrow>
     quiet db (dr_Resolve dr) \<and> (\<forall>i u p. quiet db (dr_New dr i u p)) \<and> quiet db (dr_Connect dr) \<and> quiet db (dr_Close dr)"

definition lawful_random :: "local_libs \<Rightarrow> bool" where
  "lawful_random l \<longleftrightarrow> (\<forall>n. ll_random l n \<noteq> Inr [])"

definition cred :: "marker_file \<times> secrets_file \<times> string option \<Rightarrow> bool" where
  "cred v \<longleftrightarrow> (case v of (_, _, None) \<Rightarrow> True
     | (_, s, Some p) \<Rightarrow> p \<noteq> [] \<and> (case s of SecretsFile x \<Rightarrow> se_DbPassword x = p | _ \<Rightarrow> False))"

lemma quietD: "quiet db m \<Longrightarrow> m w = (w', r) \<Longrightarrow> view db w' = view db w"
  by (metis fst_conv quiet_def)

lemma quiet_op:
  "quiet db m \<Longrightarrow> (\<And>x. quiet db (f x)) \<Longrightarrow> quiet db (bind_op m f)"
  "quiet db m \<Longrightarrow> quiet db k \<Longrightarrow> quiet db (seq_op m k)"
  "quiet db (raise e)" "quiet db (ret x)"
  "quiet db m \<Longrightarrow> quiet db (wrap_op s m)"
  "quiet db m \<Longrightarrow> (\<And>e. quiet db (h e)) \<Longrightarrow> quiet db (catch_op m h)"
  by (auto simp: quiet_def bind_op_def seq_op_def raise_def ret_def wrap_op_def catch_op_def split: prod.split sum.split)
    (metis fst_conv)+

lemma poll_loop_keeps:
  assumes "poll_loop condition deadline maxBackoff backoff lastErr now g = Some (g', n, r)"
    and "\<And>g. P (fst (condition g)) = P g"
  shows "P g' = P g"
proof -
  have "(\<forall>g. P (fst (condition g)) = P g) \<longrightarrow> P (fst (g', n, r)) = P g"
    using assms(1)
  proof (rule poll_loop.raw_induct [rotated, where P = "\<lambda>condition _ _ _ _ _ g x. (\<forall>g. P (fst (condition g)) = P g) \<longrightarrow> P (fst x) = P g"],
      goal_cases)
    case (1 loop condition deadline maxBackoff backoff lastErr now g x)
    obtain g1 d res where c: "condition g = (g1, d, res)" by (cases "condition g")
    show ?case
    proof
      assume keep: "\<forall>g. P (fst (condition g)) = P g"
      then have g1: "P g1 = P g" using c by (metis fst_conv)
      have "P (fst x) = P g1"
        using 1(2) 1(1) keep unfolding c by (auto split: prod.splits option.splits if_splits)
      with g1 show "P (fst x) = P g" by simp
    qed
  qed
  then show ?thesis using assms(2) by simp
qed

lemma lawful_runtimeD:
  assumes "lawful_runtime db rt"
  shows "quiet db (rn_Stop rt)" "quiet db (rn_Status rt)" "quiet db (rn_WorkaroundNanoStartupDurability rt)"
    "quiet db (rn_RemoveBootstrapPassword rt)" "quiet db (rn_ReadEndpoints rt)" "quiet db (rn_HealthCheck rt)"
    "quiet db (rn_reconcileSidecars rt)" "quiet db (rn_cleanupSidecars rt)"
  using assms by (simp_all add: lawful_runtime_def)

lemma verify_quiet:
  assumes "lawful_driver db dr"
  shows "quiet db (verifyDatabaseConnection dr)" "quiet db (verifyLocalStoredCredential dr)"
proof -
  have d: "quiet db (dr_Resolve dr)" "quiet db (dr_New dr i u p)" "quiet db (dr_Connect dr)" "quiet db (dr_Close dr)" for i u p
    using assms by (simp_all add: lawful_driver_def)
  show "quiet db (verifyLocalStoredCredential dr)"
    unfolding verifyLocalStoredCredential_def by (intro quiet_op d)
  have "quiet db (bind_op (dr_Resolve dr) (\<lambda>info. dr_New dr info u p))" for u p by (intro quiet_op d)
  then show "quiet db (verifyDatabaseConnection dr)"
    using quietD [OF d(3)] unfolding quiet_def verifyDatabaseConnection_def Let_def
    by (auto split: prod.split sum.split dest!: spec) (metis fst_conv)+
qed

lemma diagnose_quiet:
  assumes "lawful_runtime db rt"
  shows "quiet db (diagnoseLocalFailure rt e)"
proof -
  have "quiet db (classifyLocalReachability rt)"
    using quietD [OF lawful_runtimeD(2) [OF assms]] quietD [OF lawful_runtimeD(6) [OF assms]]
    unfolding quiet_def classifyLocalReachability_def
    by (auto split: prod.split sum.split)
  then show ?thesis
    unfolding quiet_def diagnoseLocalFailure_def by (auto split: prod.split option.split) (metis fst_conv)+
qed

lemma local_wait_quiet:
  assumes "lawful_driver db dr" and "lawful_runtime db rt"
  shows "quiet db (local_wait dr rt now seconds)"
proof -
  have wait: "view db h' = view db h"
    if "waitForDatabaseStartedWithBackoff dr deadline b m now h = Some (h', n, r)" for deadline b m h h' n r
  proof -
    let ?c = "\<lambda>h. case verifyDatabaseConnection dr h of
          (h', None) \<Rightarrow> (h', dr_Duration dr h, None)
        | (h', Some err) \<Rightarrow>
            (h', dr_Duration dr h, Some ((True \<and> err = None) \<or> (\<not> True \<and> err \<noteq> None), err))"
    have "poll_loop ?c deadline m b None now h = Some (h', n, r)"
      using that unfolding waitForDatabaseStartedWithBackoff_def waitForDatabaseState_def PollWithBackoff_def .
    moreover have "(view db (fst (?c g)) = view db h) = (view db g = view db h)" for g
      using verify_quiet(1) [OF assms(1)]
      by (cases "verifyDatabaseConnection dr g") (auto dest: quietD split: option.split)
    ultimately show ?thesis by (rule poll_loop_keeps [where P = "\<lambda>g. view db g = view db h", THEN iffD2]) simp
  qed
  have "view db h' = view db h" if "WaitForLocalDatabaseStarted dr rt deadline now h = Some (h', n, r)" for deadline h h' n r
    using that wait quietD [OF diagnose_quiet [OF assms(2)]]
    unfolding WaitForLocalDatabaseStarted_def
    by (auto split: option.splits prod.splits poll_end.splits)
  then show ?thesis
    unfolding quiet_def local_wait_def by (auto split: option.split prod.split poll_end.split)
qed

section \<open>What the files say of the password\<close>

lemma lw_write_view: "lw_write l put w = (w', r) \<Longrightarrow> view db w' = view db (put w) \<or> view db w' = view db w"
  by (auto simp: lw_write_def lw_tick_def view_def split: option.splits if_splits)

lemma writeInfo_quiet: "quiet db (lw_writeInfo l info)"
  by (auto simp: quiet_def lw_writeInfo_def lw_tick_def view_def split: option.split prod.split)

lemma quiet_keeps: "quiet db m \<Longrightarrow> op_inv (\<lambda>w. cred (view db w)) m"
  by (simp add: quiet_def op_inv_def)

lemma marker_keeps: "op_inv (\<lambda>w. cred (view db w)) (writeLocalCredentialMarker l g v)"
proof -
  have "op_inv (\<lambda>w. cred (view db w)) (lw_write l (\<lambda>w. w\<lparr>lw_marker := MarkerFile g v\<rparr>))"
    "op_inv (\<lambda>w. cred (view db w)) (lw_write l id)"
    by (auto simp: op_inv_def lw_write_def lw_tick_def view_def cred_def split: option.split)
  then show ?thesis unfolding writeLocalCredentialMarker_def by (intro op_invs)
qed

lemma WriteSecrets_no_db:
  "db (lw_engine w) = None \<Longrightarrow> WriteSecrets l s w = (w', r) \<Longrightarrow> db (lw_engine w') = None"
  by (auto simp: WriteSecrets_def wrap_op_def lw_write_def lw_tick_def split: option.splits prod.splits sum.splits if_splits)

lemma ensureLocalSecrets_keeps: "op_inv (\<lambda>w. cred (view db w)) (ensureLocalSecrets l)"
  unfolding op_inv_def
proof (intro allI impI)
  fix w :: "'a local_world" assume c: "cred (view db w)"
  show "cred (view db (fst (ensureLocalSecrets l w)))"
  proof (cases "db (lw_engine w)")
    case (Some p)
    with c obtain x where "lw_secrets w = SecretsFile x" "se_DbPassword x \<noteq> []"
      by (auto simp: cred_def view_def split: secrets_file.splits)
    then show ?thesis using c by (simp add: ensureLocalSecrets_def)
  next
    case None
    then have "db (lw_engine (fst (ensureLocalSecrets l w))) = None"
      using WriteSecrets_no_db [where db = db and w = w, OF None]
      by (auto simp: ensureLocalSecrets_def Let_def split: secrets_file.split prod.split option.split)
        (metis fst_conv surj_pair)+
    then show ?thesis by (simp add: cred_def view_def)
  qed
qed

lemma resolve_stores:
  assumes "lawful_random l" and "resolveLocalInitialPassword l w = (w', Inr p)"
  shows "p \<noteq> [] \<and> (\<exists>x. lw_secrets w' = SecretsFile x \<and> se_DbPassword x = p)"
proof -
  have store: "p \<noteq> [] \<and> (\<exists>x. lw_secrets w' = SecretsFile x \<and> se_DbPassword x = p)"
    if "store_password l s w = (w', Inr p)" for s
  proof -
    have "p \<noteq> []" if "generateDatabasePassword (ll_random l n) = Inr p" for n
      using that assms(1) by (auto simp: generateDatabasePassword_def lawful_random_def databasePasswordLength_def split: sum.splits)
    then show ?thesis
      using that
      by (auto simp: store_password_def bind_op_def seq_op_def wrap_op_def new_password_def WriteSecrets_def lw_write_def lw_tick_def
          markLocalDatabasePasswordGenerated_def writeLocalCredentialMarker_def ret_def split: option.splits prod.splits sum.splits if_splits)
  qed
  then show ?thesis
    using assms(2)
    by (auto simp: resolveLocalInitialPassword_def ReadSecrets_def no_secrets_def Let_def
        split: prod.splits option.splits sum.splits secrets_file.splits if_splits)
qed

lemma start_keeps:
  assumes "lawful_runtime db rt" and "lawful_random l" and "cred (view db w)"
    and "vm_InitialPassword cfg = Some (resolveLocalInitialPassword l)" and "rn_Start rt cfg w = (w', r)"
  shows "cred (view db w')"
proof -
  have "starts_lawfully db rt" using assms(1) by (simp add: lawful_runtime_def)
  from this [unfolded starts_lawfully_def, rule_format, of w cfg]
  consider "view db w' = view db w" | m s where "view db w' = (m, s, None)"
    | ask w0 w1 p where "vm_InitialPassword cfg = Some ask" "ask w0 = (w1, Inr p)" "view db w' = (lw_marker w1, lw_secrets w1, Some p)"
    unfolding assms(5) by auto
  then show ?thesis
  proof cases
    case (3 ask w0 w1 p)
    then have "resolveLocalInitialPassword l w0 = (w1, Inr p)" using assms(4) by simp
    from resolve_stores [OF assms(2) this] 3(3) show ?thesis by (auto simp: cred_def)
  qed (use assms(3) in \<open>simp_all add: cred_def\<close>)
qed

lemma artifacts_keep: "op_inv (\<lambda>w. cred (view db w)) (writeLocalDeploymentArtifacts l endpoint)"
proof -
  have "op_inv (\<lambda>w. cred (view db w)) (seq_op (lw_writeInfo l info) (ensureLocalSecrets l))" for info
    by (intro op_invs quiet_keeps writeInfo_quiet ensureLocalSecrets_keeps)
  then show ?thesis
    by (auto simp: writeLocalDeploymentArtifacts_def op_inv_def raise_def split: option.split)
qed

lemma startAndWait_keeps:
  assumes "lawful_runtime db rt" and "lawful_driver db dr" and "lawful_random l" and c: "cred (view db w)"
    and "vm_InitialPassword cfg = Some (resolveLocalInitialPassword l)"
  shows "cred (view db (fst (startLocalRuntimeAndWait l dr rt cfg seconds w)))"
proof -
  have wait: "quiet db (waitForLocalDatabaseAndSync dr rt now s)" for now s
    unfolding waitForLocalDatabaseAndSync_def by (intro quiet_op local_wait_quiet assms lawful_runtimeD)
  have rest: "cred (view db (fst (writeLocalRuntimeArtifactsAndWait l dr rt endpoint seconds w)))"
    if "cred (view db w)" for endpoint w
  proof -
    obtain w1 r where w1: "writeLocalDeploymentArtifacts l endpoint w = (w1, r)" by (cases "writeLocalDeploymentArtifacts l endpoint w")
    then have c1: "cred (view db w1)" using op_invD [OF artifacts_keep that] by blast
    obtain w2 fs e where w2: "rn_reconcileSidecars rt w1 = (w2, fs, e)" by (cases "rn_reconcileSidecars rt w1")
    then have "view db w2 = view db w1" using quietD [OF lawful_runtimeD(7) [OF assms(1)]] by blast
    then show ?thesis
      using w1 w2 c1 quietD [OF wait]
      by (cases r) (auto simp: writeLocalRuntimeArtifactsAndWait_def Let_def op_error_def split: prod.split sum.split)
  qed
  obtain w1 r where w1: "rn_Start rt cfg w = (w1, r)" by (cases "rn_Start rt cfg w")
  then have c1: "cred (view db w1)" by (rule start_keeps [OF assms(1,3) c assms(5)])
  show ?thesis
  proof (cases r)
    case (Inl e)
    then show ?thesis
      using w1 c1 quietD [OF diagnose_quiet [OF assms(1)]]
      by (auto simp: startLocalRuntimeAndWait_def split: prod.split)
  next
    case (Inr u)
    obtain w2 r2 where w2: "rn_ReadEndpoints rt w1 = (w2, r2)" by (cases "rn_ReadEndpoints rt w1")
    then have "cred (view db w2)" using quietD [OF lawful_runtimeD(5) [OF assms(1)]] c1 by metis
    then show ?thesis using w1 w2 Inr rest by (cases r2) (auto simp: startLocalRuntimeAndWait_def)
  qed
qed

lemma finish_keeps:
  assumes "lawful_runtime db rt" and "lawful_driver db dr" and c: "cred (view db w)"
  shows "cred (view db (fst (verify_started l dr pending res w)))" "cred (view db (fst (stop_unverified rt pending res w)))"
proof -
  have "op_inv (\<lambda>w. cred (view db w)) (seq_op (verifyLocalStoredCredential dr) (markLocalDatabasePasswordVerified l))"
    unfolding markLocalDatabasePasswordVerified_def by (intro op_invs quiet_keeps verify_quiet assms marker_keeps)
  from op_invD [OF this c] show "cred (view db (fst (verify_started l dr pending res w)))"
    using c by (auto simp: verify_started_def op_error_def split: prod.split sum.split)
  have "op_inv (\<lambda>w. cred (view db w)) (wrap_op s (rn_Stop rt))" for s
    by (intro op_invs quiet_keeps lawful_runtimeD assms)
  from op_invD [OF this c] show "cred (view db (fst (stop_unverified rt pending res w)))"
    using c by (auto simp: stop_unverified_def op_error_def split: prod.split sum.split)
qed

lemma startPrepared_keeps:
  assumes "lawful_runtime db rt" and "lawful_driver db dr" and "lawful_random l" and c: "cred (view db w)"
  shows "cred (view db (fst (startPreparedLocalRuntime l dr rt rc seconds w)))"
proof (cases "toLocalRuntimeConfig l rc :: (go_error, 'a local_world VMConfig) result")
  case (Inl e)
  then show ?thesis using c by (simp add: startPreparedLocalRuntime_def)
next
  case (Inr cfg)
  note remove = quietD [OF lawful_runtimeD(4) [OF assms(1)]]
  let ?cfg = "cfg\<lparr>vm_InitialPassword := Some (resolveLocalInitialPassword l)\<rparr>"
  obtain w1 r where w1: "rn_RemoveBootstrapPassword rt w = (w1, r)" by (cases "rn_RemoveBootstrapPassword rt w")
  then have c1: "cred (view db w1)" using remove c by metis
  show ?thesis
  proof (cases r)
    case (Inl e)
    then show ?thesis using w1 c1 Inr by (simp add: startPreparedLocalRuntime_def)
  next
    case (Inr u)
    obtain w2 res where w2: "startLocalRuntimeAndWait l dr rt ?cfg seconds w1 = (w2, res)"
      by (cases "startLocalRuntimeAndWait l dr rt ?cfg seconds w1")
    have c2: "cred (view db w2)"
      using startAndWait_keeps [OF assms(1-3) c1, of ?cfg seconds] w2 by simp
    obtain pending err where p: "localCredentialVerificationPending w2 = (pending, err)"
      by (cases "localCredentialVerificationPending w2")
    obtain w3 res3 where w3: "verify_started l dr pending (join_database err res) w2 = (w3, res3)"
      by (cases "verify_started l dr pending (join_database err res) w2")
    have c3: "cred (view db w3)" using finish_keeps(1) [OF assms(1,2) c2] w3 by (metis fst_conv)
    obtain w4 res4 where w4: "stop_unverified rt pending res3 w3 = (w4, res4)" by (cases "stop_unverified rt pending res3 w3")
    have c4: "cred (view db w4)" using finish_keeps(2) [OF assms(1,2) c3] w4 by (metis fst_conv)
    obtain w5 r5 where w5: "rn_RemoveBootstrapPassword rt w4 = (w5, r5)" by (cases "rn_RemoveBootstrapPassword rt w4")
    then have "cred (view db w5)" using remove c4 by metis
    then show ?thesis
      using \<open>toLocalRuntimeConfig l rc = Inr cfg\<close> w1 Inr w2 p w3 w4 w5
      by (cases r5) (simp_all add: startPreparedLocalRuntime_def op_error_def)
  qed
qed

lemma stop_keeps:
  assumes "lawful_runtime db rt" and c: "cred (view db w)"
  shows "cred (view db (fst (stopLocalRuntime l rt w)))"
proof -
  obtain w1 fs e where w1: "rn_cleanupSidecars rt w = (w1, fs, e)" by (cases "rn_cleanupSidecars rt w")
  obtain w2 r where w2: "rn_Stop rt w1 = (w2, r)" by (cases "rn_Stop rt w1")
  have c2: "cred (view db w2)"
    using quietD [OF lawful_runtimeD(8) [OF assms(1)] w1] quietD [OF lawful_runtimeD(1) [OF assms(1)] w2] c by simp
  have "quiet db (updateLocalDeploymentArtifactState l s)" for s
    using writeInfo_quiet by (auto simp: quiet_def updateLocalDeploymentArtifactState_def split: sum.split)
  from this [of StatusStopped] have "cred (view db (fst (updateLocalDeploymentArtifactState l StatusStopped w2)))"
    using c2 by (simp add: quiet_def)
  then show ?thesis
    using w1 w2 c2 by (cases r) (auto simp: stopLocalRuntime_def Let_def op_error_def split: prod.split sum.split)
qed

lemma remove_artifacts_no_db:
  assumes "db (lw_engine w) = None"
  shows "db (lw_engine (fst (remove_artifacts l w))) = None"
proof -
  have "op_inv (\<lambda>w. db (lw_engine w) = None) (lw_write l put)" if "\<And>w. lw_engine (put w) = lw_engine w" for put
    using that by (auto simp: op_inv_def lw_write_def lw_tick_def split: option.split)
  then have "op_inv (\<lambda>w. db (lw_engine w) = None) (remove_artifacts l)"
    unfolding remove_artifacts_def by (intro op_invs) simp_all
  then show ?thesis using assms by (simp add: op_inv_def)
qed

lemma destroy_keeps:
  assumes "lawful_runtime db rt" and c: "cred (view db w)"
  shows "cred (view db (fst (destroyLocalRuntime l rt w)))"
proof -
  obtain w1 fs e where w1: "rn_cleanupSidecars rt w = (w1, fs, e)" by (cases "rn_cleanupSidecars rt w")
  then have c1: "cred (view db w1)" using quietD [OF lawful_runtimeD(8) [OF assms(1)]] c by metis
  obtain w2 r where w2: "rn_Destroy rt w1 = (w2, r)" by (cases "rn_Destroy rt w1")
  have law: "case rn_Destroy rt w1 of
      (w', Inl _) \<Rightarrow> lw_secrets w' = lw_secrets w1 \<and> db (lw_engine w') \<in> {None, db (lw_engine w1)}
    | (w', Inr _) \<Rightarrow> db (lw_engine w') = None"
    using assms(1) unfolding lawful_runtime_def by (elim conjE) (drule spec [where x = w1], assumption)
  show ?thesis
  proof (cases r)
    case (Inl x)
    have "cred (view db w2)"
      using law c1 unfolding w2 Inl by (auto simp: cred_def view_def split: option.splits)
    then show ?thesis using w1 w2 Inl by (simp add: destroyLocalRuntime_def Let_def)
  next
    case (Inr u)
    then have "db (lw_engine w2) = None" using law unfolding w2 by simp
    moreover from remove_artifacts_no_db [where db = db and w = w2, OF this] have "db (lw_engine (fst (remove_artifacts l w2))) = None" .
    ultimately show ?thesis
      using w1 w2 Inr by (auto simp: destroyLocalRuntime_def Let_def op_error_def cred_def view_def split: prod.split sum.split)
  qed
qed

section \<open>The stored password is the one of the database\<close>

datatype local_command = LocalStart localRuntimeConfig int | LocalStop | LocalDestroy

definition local_command_run ::
  "'g local_world db_driver \<Rightarrow> 'g local_world Runtime \<Rightarrow> local_libs \<Rightarrow> local_command \<Rightarrow> 'g local_world \<Rightarrow> 'g local_world"
where
  "local_command_run dr rt l c w =
     (case c of
        LocalStart rc seconds \<Rightarrow> fst (startPreparedLocalRuntime l dr rt rc seconds w)
      | LocalStop \<Rightarrow> fst (stopLocalRuntime l rt w)
      | LocalDestroy \<Rightarrow> fst (destroyLocalRuntime l rt w))"

fun local_run ::
  "'g local_world db_driver \<Rightarrow> 'g local_world Runtime \<Rightarrow> (local_libs \<times> local_command) list \<Rightarrow> 'g local_world \<Rightarrow> 'g local_world"
where
  "local_run dr rt [] w = w"
| "local_run dr rt ((l, c) # cs) w = local_run dr rt cs (local_command_run dr rt l c w)"

lemma local_run_keeps:
  assumes "lawful_runtime db rt" and "lawful_driver db dr" and "list_all (\<lambda>(l, _). lawful_random l) cs" and "cred (view db w)"
  shows "cred (view db (local_run dr rt cs w))"
  using assms(3,4)
proof (induction cs arbitrary: w)
  case (Cons x cs)
  obtain l c where x: "x = (l, c)" by (cases x)
  with Cons.prems have "lawful_random l" by simp
  then have "cred (view db (local_command_run dr rt l c w))"
    using startPrepared_keeps [OF assms(1,2) _ Cons.prems(2)] stop_keeps [OF assms(1) Cons.prems(2)]
      destroy_keeps [OF assms(1) Cons.prems(2)]
    by (simp add: local_command_run_def split: local_command.split)
  with Cons x show ?case by simp
qed simp

text \<open>C20: Whatever sequence of starts, stops and removals runs, and whichever of their writes fail, a database that exists
  has the password that is stored among the deployment's secrets.\<close>

theorem stored_password_matches:
  assumes "lawful_runtime db rt" and "lawful_driver db dr" and "list_all (\<lambda>(l, _). lawful_random l) cs"
    and "db (lw_engine w) = None"
  shows "case db (lw_engine (local_run dr rt cs w)) of
      None \<Rightarrow> True
    | Some p \<Rightarrow> p \<noteq> [] \<and> (\<exists>x. lw_secrets (local_run dr rt cs w) = SecretsFile x \<and> se_DbPassword x = p)"
proof -
  have "cred (view db w)" using assms(4) by (simp add: cred_def view_def)
  from local_run_keeps [OF assms(1-3) this] show ?thesis
    by (auto simp: cred_def view_def split: option.splits secrets_file.splits)
qed

section \<open>A start that succeeds is verified\<close>

lemma resolve_marker:
  fixes w :: "'a local_world"
  assumes "resolveLocalInitialPassword l w = (w', r)"
  shows "lw_marker w' \<in> {lw_marker w, MarkerFile True False}"
proof -
  have w: "op_inv (\<lambda>w. lw_marker w \<in> {m, MarkerFile True False}) (lw_write l put)"
    if "\<And>w. lw_marker (put w) \<in> {lw_marker w, MarkerFile True False}"
    for put :: "'a local_world \<Rightarrow> 'a local_world" and m
    unfolding op_inv_def
  proof (intro allI impI)
    fix w :: "'a local_world" assume "lw_marker w \<in> {m, MarkerFile True False}"
    with that [of w] show "lw_marker (fst (lw_write l put w)) \<in> {m, MarkerFile True False}"
      by (auto simp: lw_write_def lw_tick_def split: option.split)
  qed
  have "op_inv (\<lambda>w :: 'a local_world. lw_marker w \<in> {m, MarkerFile True False}) (store_password l s)" for m s
    unfolding store_password_def WriteSecrets_def markLocalDatabasePasswordGenerated_def writeLocalCredentialMarker_def
    by (intro op_invs w) (auto simp: op_inv_def new_password_def lw_tick_def)
  then have "lw_marker (fst (store_password l s w)) \<in> {lw_marker w, MarkerFile True False}" for s
    by (simp add: op_inv_def)
  then show ?thesis
    using assms by (auto simp: resolveLocalInitialPassword_def Let_def split: prod.splits option.splits if_splits) (metis fst_conv insertE singletonD)+
qed

lemma start_marker:
  assumes "lawful_runtime db rt" and "vm_InitialPassword cfg = Some (resolveLocalInitialPassword l)"
    and "rn_Start rt cfg w = (w', r)"
  shows "lw_marker w' \<in> {lw_marker w, MarkerFile True False}"
proof -
  have "starts_lawfully db rt" using assms(1) by (simp add: lawful_runtime_def)
  from this [unfolded starts_lawfully_def, rule_format, of w cfg]
  consider "lw_marker w' = lw_marker w"
    | ask w0 w1 res where "vm_InitialPassword cfg = Some ask" "lw_marker w0 = lw_marker w" "ask w0 = (w1, res)" "lw_marker w' = lw_marker w1"
    unfolding assms(3) by (auto simp: view_def)
  then show ?thesis
  proof cases
    case (2 ask w0 w1 res)
    then have "resolveLocalInitialPassword l w0 = (w1, res)" using assms(2) by simp
    from resolve_marker [OF this] 2 show ?thesis by simp
  qed simp
qed

lemma quiet_marker: "quiet db m \<Longrightarrow> m w = (w', r) \<Longrightarrow> lw_marker w' = lw_marker w"
  by (drule quietD, assumption, simp add: view_def)

lemma artifacts_marker: "writeLocalDeploymentArtifacts l endpoint w = (w', r) \<Longrightarrow> lw_marker w' = lw_marker w"
  by (auto simp: writeLocalDeploymentArtifacts_def raise_def seq_op_def bind_op_def lw_writeInfo_def ensureLocalSecrets_def Let_def
      WriteSecrets_def wrap_op_def lw_write_def lw_tick_def
      split: option.splits prod.splits sum.splits if_splits secrets_file.splits)

lemma startAndWait_marker:
  assumes "lawful_runtime db rt" and "lawful_driver db dr" and "vm_InitialPassword cfg = Some (resolveLocalInitialPassword l)"
    and "startLocalRuntimeAndWait l dr rt cfg seconds w = (w', res)"
  shows "lw_marker w' \<in> {lw_marker w, MarkerFile True False}"
proof -
  have "quiet db (waitForLocalDatabaseAndSync dr rt now s)" for now s
    unfolding waitForLocalDatabaseAndSync_def by (intro quiet_op local_wait_quiet assms lawful_runtimeD)
  note wait = quiet_marker [OF this]
  have rest: "lw_marker w2 = lw_marker w1"
    if "writeLocalRuntimeArtifactsAndWait l dr rt endpoint seconds w1 = (w2, res)" for endpoint w1 w2
    using that artifacts_marker [of l endpoint w1] quiet_marker [OF lawful_runtimeD(7) [OF assms(1)]] wait
    by (auto simp: writeLocalRuntimeArtifactsAndWait_def Let_def op_error_def split: prod.splits sum.splits if_splits)
  show ?thesis
    using assms(4) start_marker [OF assms(1,3), of w] rest quiet_marker [OF lawful_runtimeD(5) [OF assms(1)]]
      quiet_marker [OF diagnose_quiet [OF assms(1)]]
    by (auto simp: startLocalRuntimeAndWait_def split: prod.splits sum.splits)
qed

lemma join_database_None: "lr_Database (join_database e r) = None \<longleftrightarrow> e = None \<and> lr_Database r = None"
  by (auto simp: join_database_def errors_Join_def List.map_filter_def Let_def split: option.splits)

lemma stop_unverified_None:
  "stop_unverified rt pending res w = (w', res') \<Longrightarrow> lr_Database res' = None \<Longrightarrow> w' = w \<and> res' = res"
  by (auto simp: stop_unverified_def join_database_None split: if_splits prod.splits)

lemma marker_written: "writeLocalCredentialMarker l g v w = (w', Inr u) \<Longrightarrow> lw_marker w' = MarkerFile g v"
  by (auto simp: writeLocalCredentialMarker_def seq_op_def bind_op_def wrap_op_def lw_write_def lw_tick_def
      split: option.splits prod.splits sum.splits if_splits)

lemma verify_started_None:
  assumes "verify_started l dr pending res w = (w', res')" and "lr_Database res' = None" and "\<not> ll_skipDatabaseWait l"
  shows "if pending then lw_marker w' = MarkerFile True True \<and> (\<exists>w1. verifyLocalStoredCredential dr w = (w1, Inr ()))
    else w' = w"
    and "lr_Database res = None"
proof -
  show none: "lr_Database res = None" using assms by (auto simp: verify_started_def split: if_splits prod.splits)
  show "if pending then lw_marker w' = MarkerFile True True \<and> (\<exists>w1. verifyLocalStoredCredential dr w = (w1, Inr ()))
    else w' = w"
  proof (cases pending)
    case True
    obtain w1 r1 where v: "verifyLocalStoredCredential dr w = (w1, r1)" by (cases "verifyLocalStoredCredential dr w")
    obtain w2 r2 where m: "writeLocalCredentialMarker l True True w1 = (w2, r2)" by (cases "writeLocalCredentialMarker l True True w1")
    from assms none True v m have "r1 = Inr ()" "r2 = Inr ()" "w' = w2"
      by (cases r1; cases r2; auto simp: verify_started_def op_error_def seq_op_def bind_op_def markLocalDatabasePasswordVerified_def)+
    with v m marker_written True show ?thesis by auto
  qed (use assms in \<open>simp add: verify_started_def\<close>)
qed


section \<open>An example\<close>

text \<open>A runtime that keeps a database's password and a driver that logs in as \<^verbatim>\<open>sys\<close> only.\<close>

record demo_engine =
  de_db :: "string option"
  de_user :: string
  de_file :: bool

definition demo_local_driver :: "demo_engine local_world db_driver" where
  "demo_local_driver =
     \<lparr>dr_Resolve = ret \<lparr>ci_DeploymentName = [], ci_DeploymentState = [], ci_ClusterSize = 1, ci_ClusterState = [],
        ci_Host = ''127.0.0.1'', ci_DisplayHost = [], ci_DBPort = 8563, ci_UIPort = 0, ci_AdminUI = None, ci_Username = ''sys'',
        ci_CertFingerprint = [], ci_InsecureSkipCertValidation = True, ci_SecretsFilePath = [], ci_PublicIP = [],
        ci_SSHCommand = [], ci_SSHPort = [], ci_ShellSupported = False\<rparr>,
      dr_New = (\<lambda>_ u _ w. (w\<lparr>lw_engine := (lw_engine w)\<lparr>de_user := u\<rparr>\<rparr>, Inr ())),
      dr_Connect = (\<lambda>w. (w, if de_user (lw_engine w) = ''sys'' then Inr () else Inl (Plain ''08004''))),
      dr_Close = ret (), dr_Text = (\<lambda>e. case e of Plain t \<Rightarrow> Some t | _ \<Rightarrow> None), dr_Duration = (\<lambda>_. 1)\<rparr>"

definition demo_start :: "demo_engine local_world VMConfig \<Rightarrow> (demo_engine, unit) lop" where
  "demo_start cfg w =
     (if de_db (lw_engine w) \<noteq> None then (w, Inr ())
      else case vm_InitialPassword cfg of
        None \<Rightarrow> (w, Inl (Plain ''no password''))
      | Some ask \<Rightarrow>
          (case ask w of
             (w', Inl e) \<Rightarrow> (w'\<lparr>lw_engine := (lw_engine w')\<lparr>de_db := None\<rparr>\<rparr>, Inl e)
           | (w', Inr p) \<Rightarrow> (w'\<lparr>lw_engine := (lw_engine w')\<lparr>de_db := Some p, de_file := True\<rparr>\<rparr>, Inr ())))"

definition demo_local_runtime :: "demo_engine local_world Runtime" where
  "demo_local_runtime =
     \<lparr>rn_Start = demo_start, rn_Stop = ret (), rn_Status = ret True,
      rn_Destroy = (\<lambda>w. (w\<lparr>lw_engine := (lw_engine w)\<lparr>de_db := None\<rparr>\<rparr>, Inr ())),
      rn_WorkaroundNanoStartupDurability = ret (),
      rn_RemoveBootstrapPassword = (\<lambda>w. (w\<lparr>lw_engine := (lw_engine w)\<lparr>de_file := False\<rparr>\<rparr>, Inr ())),
      rn_ReadEndpoints = ret (Some \<lparr>re_DBPort = 8563, re_UIPort = 0, re_ShellSupported = True\<rparr>),
      rn_HealthCheck = ret [], rn_host = None, rn_local = True, rn_reconcileSidecars = (\<lambda>w. (w, [], None)),
      rn_cleanupSidecars = (\<lambda>w. (w, [], None))\<rparr>"

definition demo_local_libs :: local_libs where
  "demo_local_libs = \<lparr>ll_fail = (\<lambda>_. None), ll_random = (\<lambda>_. Inr [0, 1]),
     ll_certs = \<lparr>ce_pem = (\<lambda>_. None), ce_sha256 = id\<rparr>, ll_state = Inr zero_state, ll_skipDatabaseWait = False,
     ll_GOOS = ''linux'', ll_versionCheckURL = [], ll_now = 0\<rparr>"

definition demo_rc :: localRuntimeConfig where
  "demo_rc = \<lparr>rc_cpuCount = 2, rc_memoryMB = 4096, rc_dataSizeGB = 100, rc_ports = []\<rparr>"

definition fresh_world :: "demo_engine local_world" where
  "fresh_world = \<lparr>lw_marker = MarkerMissing, lw_secrets = SecretsMissing, lw_info = InfoMissing,
     lw_engine = \<lparr>de_db = None, de_user = [], de_file = False\<rparr>, lw_clock = 0\<rparr>"

lemma demo_runtime_lawful: "lawful_runtime de_db demo_local_runtime" "lawful_driver de_db demo_local_driver" "lawful_random demo_local_libs"
proof -
  have "starts_lawfully de_db demo_local_runtime"
    unfolding starts_lawfully_def
  proof (intro allI)
    fix cfg :: "demo_engine local_world VMConfig" and w
    show "case rn_Start demo_local_runtime cfg w of (w', r) \<Rightarrow>
        view de_db w' = view de_db w \<or> view de_db w' = (lw_marker w, lw_secrets w, None)
        \<or> (\<exists>ask w0 w1 res. vm_InitialPassword cfg = Some ask \<and> view de_db w0 = (lw_marker w, lw_secrets w, None) \<and> ask w0 = (w1, res)
            \<and> (view de_db w' = (lw_marker w1, lw_secrets w1, None)
               \<or> (\<exists>p. res = Inr p \<and> view de_db w' = (lw_marker w1, lw_secrets w1, Some p))))"
    proof (cases "vm_InitialPassword cfg")
      case (Some ask)
      obtain w1 res where a: "ask w = (w1, res)" by (cases "ask w")
      show ?thesis
      proof (cases "de_db (lw_engine w)")
        case None
        then have "view de_db w = (lw_marker w, lw_secrets w, None)" by (simp add: view_def)
        moreover obtain w' r where s: "rn_Start demo_local_runtime cfg w = (w', r)" by (cases "rn_Start demo_local_runtime cfg w")
        moreover from s a Some None have "view de_db w' = (lw_marker w1, lw_secrets w1, None)
            \<or> (\<exists>p. res = Inr p \<and> view de_db w' = (lw_marker w1, lw_secrets w1, Some p))"
          by (cases res) (auto simp: demo_local_runtime_def demo_start_def view_def)
        ultimately show ?thesis using Some a unfolding s by blast
      qed (simp add: demo_local_runtime_def demo_start_def)
    qed (simp add: demo_local_runtime_def demo_start_def)
  qed
  then show "lawful_runtime de_db demo_local_runtime"
    by (simp add: lawful_runtime_def demo_local_runtime_def quiet_def ret_def view_def)
  show "lawful_driver de_db demo_local_driver" by (simp add: lawful_driver_def demo_local_driver_def quiet_def ret_def view_def)
  show "lawful_random demo_local_libs" by (simp add: lawful_random_def demo_local_libs_def)
qed

theorem stored_password_matches_witness:
  "case de_db (lw_engine (local_run demo_local_driver demo_local_runtime
        [(demo_local_libs, LocalStart demo_rc 5), (demo_local_libs, LocalStop)] fresh_world)) of
      None \<Rightarrow> True
    | Some p \<Rightarrow> p \<noteq> [] \<and> (\<exists>x. lw_secrets (local_run demo_local_driver demo_local_runtime
        [(demo_local_libs, LocalStart demo_rc 5), (demo_local_libs, LocalStop)] fresh_world) = SecretsFile x \<and> se_DbPassword x = p)"
  by (rule stored_password_matches [OF demo_runtime_lawful(1,2)]) (simp_all add: demo_runtime_lawful(3) fresh_world_def)

lemma demo_probe:
  "verifyDatabaseConnection demo_local_driver w
     = (w\<lparr>lw_engine := (lw_engine w)\<lparr>de_user := ''invalid username''\<rparr>\<rparr>, Some None)"
  by (simp add: verifyDatabaseConnection_def demo_local_driver_def bind_op_def ret_def Let_def isAuthenticationFailure_def
      errors_As_def List.map_filter_def Contains_def HasPrefix_iff)

lemma demo_wait:
  "local_wait demo_local_driver rt now s
     = (\<lambda>w. (w\<lparr>lw_engine := (lw_engine w)\<lparr>de_user := ''invalid username''\<rparr>\<rparr>, Inr ()))"
  unfolding local_wait_def WaitForLocalDatabaseStarted_def waitForDatabaseStartedWithBackoff_def waitForDatabaseState_def
    PollWithBackoff_def
  by (rule ext) (subst poll_loop.simps, simp add: demo_probe)

lemma demo_started:
  "lr_Database (snd (startPreparedLocalRuntime demo_local_libs demo_local_driver demo_local_runtime demo_rc 5 fresh_world)) = None"
  unfolding startPreparedLocalRuntime_def startLocalRuntimeAndWait_def writeLocalRuntimeArtifactsAndWait_def
    waitForLocalDatabaseAndSync_def demo_wait
  by code_simp


end
